(* ===== verification/Nav3d_Prelude.thy ===== *)
theory Nav3d_Prelude
  imports Complex_Main "HOL-Library.Sublist"
begin

text \<open>
  Shared vocabulary of the development: the number types of the model, the few functions of the
  C++ standard library the sources call on them, the fact collections, and generic lemmas on
  lists that several components use.

  A C++ \<open>double\<close> is a \<^typ>\<open>real\<close>: rounding and overflow of floating point are idealised away,
  except in the theories that model NaN and infinities explicitly. A time point or a duration is
  an \<^typ>\<open>int\<close>, a number of nanoseconds, as \<open>rclcpp::Time\<close> and \<open>rclcpp::Duration\<close> store it.
\<close>

type_synonym double = real
type_synonym time_ns = int
type_synonym duration_ns = int

named_theorems server_ops \<open>definitions of the operations of the action server\<close>
named_theorems lifecycle_ops \<open>definitions of the operations of the lifecycle manager\<close>
named_theorems bt_ops_defs \<open>definitions of the behaviour tree nodes\<close>

subsection \<open>Functions of the C++ standard library\<close>

text \<open>\<open>std::copysign\<close>, \<open>std::clamp\<close> and \<open>std::hypot\<close> on doubles; \<open>seconds\<close> is the reading of a
  duration in seconds.\<close>

definition copysign :: "double \<Rightarrow> double \<Rightarrow> double" where
  "copysign m x = (if x < 0 then - \<bar>m\<bar> else \<bar>m\<bar>)"

definition std_clamp :: "double \<Rightarrow> double \<Rightarrow> double \<Rightarrow> double" where
  "std_clamp v lo hi = (if v < lo then lo else if hi < v then hi else v)"

definition hypot2 :: "double \<Rightarrow> double \<Rightarrow> double" where
  "hypot2 x y = sqrt (x * x + y * y)"

definition hypot3 :: "double \<Rightarrow> double \<Rightarrow> double \<Rightarrow> double" where
  "hypot3 x y z = sqrt (x * x + y * y + z * z)"

definition seconds :: "duration_ns \<Rightarrow> double" where
  "seconds d = real_of_int d / 1000000000"

text \<open>\<open>std::atan2\<close>, with the usual case distinction by quadrant.\<close>

definition std_atan2 :: "double \<Rightarrow> double \<Rightarrow> double" where
  "std_atan2 y x =
     (if x > 0 then arctan (y / x)
      else if x < 0 then (if y \<ge> 0 then arctan (y / x) + pi else arctan (y / x) - pi)
      else if y > 0 then pi / 2 else if y < 0 then - (pi / 2) else 0)"

lemma abs_copysign [simp]: "\<bar>copysign m x\<bar> = \<bar>m\<bar>"
  by (simp add: copysign_def)

lemma std_clamp_bounds: "lo \<le> hi \<Longrightarrow> lo \<le> std_clamp v lo hi \<and> std_clamp v lo hi \<le> hi"
  by (simp add: std_clamp_def)

lemma std_clamp_id: "lo \<le> v \<Longrightarrow> v \<le> hi \<Longrightarrow> std_clamp v lo hi = v"
  by (simp add: std_clamp_def)

lemma hypot2_nonneg [simp]: "0 \<le> hypot2 x y"
  by (simp add: hypot2_def)

lemma hypot3_nonneg [simp]: "0 \<le> hypot3 x y z"
  by (simp add: hypot3_def)

lemma seconds_mono: "a \<le> b \<Longrightarrow> seconds a \<le> seconds b"
  by (simp add: seconds_def divide_right_mono)

lemma seconds_nonneg_iff [simp]: "0 \<le> seconds d \<longleftrightarrow> 0 \<le> d"
  by (simp add: seconds_def zero_le_divide_iff)

lemma seconds_diff: "seconds (a - b) = seconds a - seconds b"
  by (simp add: seconds_def diff_divide_distrib)

subsection \<open>Lists\<close>

lemma nth_in_subseq_map:
  assumes "sorted_wrt (<) is" and "\<forall>i \<in> set is. i < length xs"
  shows "subseq (map (\<lambda>i. xs ! i) is) xs"
  using assms
proof (induction "is" arbitrary: xs rule: rev_induct)
  case Nil
  then show ?case by simp
next
  case (snoc i js)
  then have i: "i < length xs" and js: "\<forall>j \<in> set js. j < i" and s: "sorted_wrt (<) js"
    by (auto simp: sorted_wrt_append)
  have "subseq (map (\<lambda>j. take i xs ! j) js) (take i xs)"
    using snoc.IH [OF s, of "take i xs"] js i by auto
  then have "subseq (map (\<lambda>j. xs ! j) js) (take i xs)"
    using js by (smt (verit) map_eq_conv nth_take)
  moreover have "subseq [xs ! i] (drop i xs)"
    using i by (simp add: Cons_nth_drop_Suc [symmetric])
  ultimately have "subseq (map (\<lambda>j. xs ! j) js @ [xs ! i]) (take i xs @ drop i xs)"
    by (rule list_emb_append_mono)
  then show ?case by simp
qed

subsection \<open>Maps\<close>

lemma map_le_SomeD: "f \<subseteq>\<^sub>m g \<Longrightarrow> f x = Some y \<Longrightarrow> g x = Some y"
  by (auto simp: map_le_def dom_def)

end
