(* ===== verification/Nav3d_Msgs.thy ===== *)
theory Nav3d_Msgs
  imports Nav3d_Prelude
begin

text \<open>
  The ROS messages the components exchange, as records: points, quaternions, poses, stamped poses,
  paths and twists. They are plain data; the field names carry a prefix because record selectors
  are global constants here. A header stamp is kept as its nanosecond count.
\<close>

record point =
  px :: double
  py :: double
  pz :: double

record quaternion =
  qx :: double
  qy :: double
  qz :: double
  qw :: double

record pose =
  position :: point
  orientation :: quaternion

record header =
  stamp :: time_ns
  frame_id :: string

record pose_stamped =
  ps_header :: header
  ps_pose :: pose

record path =
  path_header :: header
  poses :: "pose_stamped list"

record goals =
  goals_header :: header
  goal_list :: "pose_stamped list"

record msg_duration =
  dur_sec :: int
  dur_nanosec :: int

record twist =
  linear :: point
  angular :: point

text \<open>Default-constructed messages: all numeric fields are zero, the quaternion is the identity.\<close>

definition zero_point :: point where
  "zero_point = \<lparr>px = 0, py = 0, pz = 0\<rparr>"

definition identity_quaternion :: quaternion where
  "identity_quaternion = \<lparr>qx = 0, qy = 0, qz = 0, qw = 1\<rparr>"

definition default_pose :: pose where
  "default_pose = \<lparr>position = zero_point, orientation = identity_quaternion\<rparr>"

definition default_header :: header where
  "default_header = \<lparr>stamp = 0, frame_id = []\<rparr>"

definition default_pose_stamped :: pose_stamped where
  "default_pose_stamped = \<lparr>ps_header = default_header, ps_pose = default_pose\<rparr>"

definition zero_twist :: twist where
  "zero_twist = \<lparr>linear = zero_point, angular = zero_point\<rparr>"

abbreviation ps_position :: "pose_stamped \<Rightarrow> point" where
  "ps_position p \<equiv> position (ps_pose p)"


section \<open>Points as vectors\<close>

text \<open>\<open>Eigen::Vector3d\<close> and the coordinate-wise arithmetic the sources write out on
  \<open>geometry_msgs::Point\<close>.\<close>

definition pt_map :: "(double \<Rightarrow> double) \<Rightarrow> point \<Rightarrow> point" where
  "pt_map f p = \<lparr>px = f (px p), py = f (py p), pz = f (pz p)\<rparr>"

definition pt_add :: "point \<Rightarrow> point \<Rightarrow> point" where
  "pt_add p q = \<lparr>px = px p + px q, py = py p + py q, pz = pz p + pz q\<rparr>"

definition pt_sub :: "point \<Rightarrow> point \<Rightarrow> point" where
  "pt_sub p q = \<lparr>px = px p - px q, py = py p - py q, pz = pz p - pz q\<rparr>"

definition pt_scale :: "double \<Rightarrow> point \<Rightarrow> point" where
  "pt_scale k p = pt_map ((*) k) p"

definition pt_norm :: "point \<Rightarrow> double" where
  "pt_norm p = hypot3 (px p) (py p) (pz p)"

definition pt_dist :: "point \<Rightarrow> point \<Rightarrow> double" where
  "pt_dist p q = pt_norm (pt_sub p q)"

text \<open>All three coordinates are within \<open>b\<close>.\<close>

definition pt_within :: "double \<Rightarrow> point \<Rightarrow> bool" where
  "pt_within b p \<longleftrightarrow> \<bar>px p\<bar> \<le> b \<and> \<bar>py p\<bar> \<le> b \<and> \<bar>pz p\<bar> \<le> b"

lemma pt_map_simps [simp]: "px (pt_map f p) = f (px p)" "py (pt_map f p) = f (py p)" "pz (pt_map f p) = f (pz p)"
  by (simp_all add: pt_map_def)

lemma pt_add_simps [simp]:
  "px (pt_add p q) = px p + px q" "py (pt_add p q) = py p + py q" "pz (pt_add p q) = pz p + pz q"
  by (simp_all add: pt_add_def)

lemma pt_sub_simps [simp]:
  "px (pt_sub p q) = px p - px q" "py (pt_sub p q) = py p - py q" "pz (pt_sub p q) = pz p - pz q"
  by (simp_all add: pt_sub_def)

lemma pt_scale_simps [simp]:
  "px (pt_scale k p) = k * px p" "py (pt_scale k p) = k * py p" "pz (pt_scale k p) = k * pz p"
  by (simp_all add: pt_scale_def)

lemma zero_point_simps [simp]: "px zero_point = 0" "py zero_point = 0" "pz zero_point = 0"
  by (simp_all add: zero_point_def)

lemma pt_within_zero [simp]: "0 \<le> b \<Longrightarrow> pt_within b zero_point"
  by (simp add: pt_within_def)

lemma pt_norm_nonneg [simp]: "0 \<le> pt_norm p"
  by (simp add: pt_norm_def)

lemma pt_dist_nonneg [simp]: "0 \<le> pt_dist p q"
  by (simp add: pt_dist_def)

lemma pt_norm_scale: "pt_norm (pt_scale k p) = \<bar>k\<bar> * pt_norm p"
proof -
  have "k * px p * (k * px p) + k * py p * (k * py p) + k * pz p * (k * pz p)
      = k\<^sup>2 * (px p * px p + py p * py p + pz p * pz p)"
    by (simp add: power2_eq_square algebra_simps)
  then show ?thesis
    by (simp add: pt_norm_def hypot3_def real_sqrt_mult)
qed

lemma pt_dist_sym: "pt_dist p q = pt_dist q p"
  by (simp add: pt_dist_def pt_norm_def hypot3_def algebra_simps)

section \<open>Angles, quaternions and time\<close>

text \<open>
  The functions of \<open>tf2\<close>, \<open>angles\<close> and \<open>rclcpp\<close> the components call, as a record of parameters:
  \<open>tf2::getYaw\<close>, \<open>angles::normalize_angle\<close>, \<open>angles::shortest_angular_distance\<close>,
  \<open>tf2::Quaternion::slerp\<close>, \<open>normalize\<close> and \<open>setRPY\<close>,
  \<open>tf2::Matrix3x3::getRPY\<close> and \<open>rclcpp::Duration::from_seconds\<close>. Their
  documented behaviour that the theorems rely on is the locale \<open>tf_laws\<close>: an angle is normalised
  to the circle between \<open>-\<pi>\<close> and \<open>\<pi>\<close>, and a duration is exact up to a nanosecond, zero exactly.
\<close>

record tf_api =
  tf_getYaw :: "quaternion \<Rightarrow> double"
  normalize_angle :: "double \<Rightarrow> double"
  shortest_angular_distance :: "double \<Rightarrow> double \<Rightarrow> double"
  tf_slerp :: "quaternion \<Rightarrow> quaternion \<Rightarrow> double \<Rightarrow> quaternion"
  tf_normalize :: "quaternion \<Rightarrow> quaternion"
  tf_setRPY :: "double \<Rightarrow> double \<Rightarrow> double \<Rightarrow> quaternion"
  tf_getRPY :: "quaternion \<Rightarrow> double \<times> double \<times> double"
  from_seconds :: "double \<Rightarrow> duration_ns"

locale tf_laws =
  fixes tf :: tf_api
  assumes normalize_range: "\<bar>normalize_angle tf a\<bar> \<le> pi"
    and shortest_range: "\<bar>shortest_angular_distance tf a b\<bar> \<le> pi"
    and from_seconds_zero: "from_seconds tf 0 = 0"
    and from_seconds_exact: "\<bar>seconds (from_seconds tf s) - s\<bar> \<le> 1 / 1000000000"
begin

lemma from_seconds_less:
  assumes "s + 1 / 100 \<le> t"
  shows "from_seconds tf s < from_seconds tf t"
proof -
  have "seconds (from_seconds tf s) < seconds (from_seconds tf t)"
    using assms from_seconds_exact [of s] from_seconds_exact [of t] by linarith
  then show ?thesis
    by (simp add: seconds_def divide_less_cancel)
qed

lemma from_seconds_diff:
  "t - s - 2 / 1000000000 \<le> seconds (from_seconds tf t - from_seconds tf s)"
  using from_seconds_exact [of s] from_seconds_exact [of t] unfolding seconds_diff by linarith

end

text \<open>An implementation that meets the laws: truncation to nanoseconds, reduction of an angle by
  whole turns, and the half-angle formulas for a rotation about the vertical axis.\<close>

definition wrap_angle :: "double \<Rightarrow> double" where
  "wrap_angle a = a - 2 * pi * of_int \<lfloor>(a + pi) / (2 * pi)\<rfloor>"

definition ref_tf :: tf_api where
  "ref_tf =
     \<lparr>tf_getYaw = (\<lambda>q. 2 * arctan (qz q / qw q)),
      normalize_angle = wrap_angle,
      shortest_angular_distance = (\<lambda>a b. wrap_angle (b - a)),
      tf_slerp = (\<lambda>q r t. if t < 1 / 2 then q else r),
      tf_normalize = (\<lambda>q. q),
      tf_setRPY = (\<lambda>roll pitch yaw. \<lparr>qx = 0, qy = 0, qz = sin (yaw / 2), qw = cos (yaw / 2)\<rparr>),
      tf_getRPY = (\<lambda>q. (0, 0, 2 * arctan (qz q / qw q))),
      from_seconds = (\<lambda>s. \<lfloor>s * 1000000000\<rfloor>)\<rparr>"

lemma wrap_angle_range: "\<bar>wrap_angle a\<bar> \<le> pi"
proof -
  let ?k = "of_int \<lfloor>(a + pi) / (2 * pi)\<rfloor> :: real"
  have f: "?k \<le> (a + pi) / (2 * pi)" "(a + pi) / (2 * pi) < ?k + 1"
    by linarith+
  have "?k * (2 * pi) \<le> a + pi" "a + pi < (?k + 1) * (2 * pi)"
    using f(1) pos_le_divide_eq [of "2 * pi" ?k "a + pi"]
      f(2) pos_divide_less_eq [of "2 * pi" "a + pi" "?k + 1"] by simp_all
  then show ?thesis
    by (simp add: wrap_angle_def algebra_simps abs_le_iff)
qed

interpretation ref_tf: tf_laws ref_tf
proof unfold_locales
  fix s :: double
  have "\<bar>of_int \<lfloor>s * 1000000000\<rfloor> - s * 1000000000\<bar> \<le> 1"
    by linarith
  then show "\<bar>seconds (from_seconds ref_tf s) - s\<bar> \<le> 1 / 1000000000"
    by (simp add: ref_tf_def seconds_def abs_le_iff)
qed (simp_all add: ref_tf_def wrap_angle_range)

end
