(* ===== verification/Action_Server.thy ===== *)
theory Action_Server
  imports Nav3d_Prelude
begin

text \<open>
  \<open>nav3d_util::SimpleActionServer\<close> (\<open>nav3d_util/include/nav3d_util/simple_action_server.hpp\<close>):
  the single-goal action server that the planner, the controller and the navigators run on.

  The goal handles belong to \<open>rclcpp_action\<close>, which is not part of the repository: they are a
  parameter, the record \<open>goal_api\<close>, over an abstract store \<open>'g\<close> of goal states. What the code
  relies on of them is the locale \<open>goal_handles\<close>. Every public member function is one definition;
  each runs under the recursive mutex, so it is one atomic step. The interleaving of the client
  callbacks, the worker thread and the lifecycle callbacks is the relation \<open>sas_step\<close>.
\<close>

section \<open>State and operations\<close>

text \<open>\<open>goal_api\<close>: the member functions of \<open>rclcpp_action::ServerGoalHandle\<close> the server calls.
  \<open>'h\<close> is a handle (a shared pointer, compared by identity), \<open>'a\<close> a goal message, \<open>'r\<close> a
  result message.\<close>

record ('h, 'a, 'r, 'g) goal_api =
  gh_is_active :: "'g \<Rightarrow> 'h \<Rightarrow> bool"
  gh_is_canceling :: "'g \<Rightarrow> 'h \<Rightarrow> bool"
  gh_succeed :: "'h \<Rightarrow> 'r \<Rightarrow> 'g \<Rightarrow> 'g"
  gh_abort :: "'h \<Rightarrow> 'r \<Rightarrow> 'g \<Rightarrow> 'g"
  gh_canceled :: "'h \<Rightarrow> 'r \<Rightarrow> 'g \<Rightarrow> 'g"
  gh_get_goal :: "'h \<Rightarrow> 'a"
  gh_empty_result :: 'r

text \<open>\<open>execution_future_\<close>: not valid (\<open>None\<close>), not ready, or ready.\<close>

datatype future_status = Executing | Ready

datatype goal_response = REJECT | ACCEPT_AND_EXECUTE

datatype cancel_response = CANCEL_REJECT | CANCEL_ACCEPT

record ('h, 'g) server =
  server_active :: bool
  stop_execution :: bool
  preempt_requested :: bool
  current_handle :: "'h option"
  pending_handle :: "'h option"
  execution_future :: "future_status option"
  goal_store :: 'g

definition server_init :: "'g \<Rightarrow> ('h, 'g) server" where
  "server_init g =
     \<lparr>server_active = False, stop_execution = False, preempt_requested = False,
      current_handle = None, pending_handle = None, execution_future = None, goal_store = g\<rparr>"

definition is_active :: "('h, 'a, 'r, 'g) goal_api \<Rightarrow> 'g \<Rightarrow> 'h option \<Rightarrow> bool" where
  "is_active api g slot = (case slot of None \<Rightarrow> False | Some h \<Rightarrow> gh_is_active api g h)"

definition is_running :: "('h, 'g) server \<Rightarrow> bool" where
  "is_running s = (execution_future s = Some Executing)"

definition terminate ::
  "('h, 'a, 'r, 'g) goal_api \<Rightarrow> 'r \<Rightarrow> 'h option \<Rightarrow> 'g \<Rightarrow> 'h option \<times> 'g" where
  "terminate api r slot g =
     (case slot of
        None \<Rightarrow> (None, g)
      | Some h \<Rightarrow>
          if \<not> gh_is_active api g h then (Some h, g)
          else if gh_is_canceling api g h then (None, gh_canceled api h r g)
          else (None, gh_abort api h r g))"

definition handle_goal :: "('h, 'g) server \<Rightarrow> goal_response" where
  "handle_goal s = (if \<not> server_active s then REJECT else ACCEPT_AND_EXECUTE)"

definition handle_cancel ::
  "('h, 'a, 'r, 'g) goal_api \<Rightarrow> 'h \<Rightarrow> ('h, 'g) server \<Rightarrow> cancel_response" where
  "handle_cancel api h s =
     (if \<not> gh_is_active api (goal_store s) h then CANCEL_REJECT else CANCEL_ACCEPT)"

definition activate :: "('h, 'g) server \<Rightarrow> ('h, 'g) server" where
  "activate s = s\<lparr>server_active := True, stop_execution := False\<rparr>"

definition is_cancel_requested ::
  "('h, 'a, 'r, 'g) goal_api \<Rightarrow> ('h, 'g) server \<Rightarrow> bool" where
  "is_cancel_requested api s =
     (case current_handle s of
        None \<Rightarrow> False
      | Some c \<Rightarrow>
          (case pending_handle s of
             Some p \<Rightarrow> gh_is_canceling api (goal_store s) p
           | None \<Rightarrow> gh_is_canceling api (goal_store s) c))"

definition get_current_goal ::
  "('h, 'a, 'r, 'g) goal_api \<Rightarrow> ('h, 'g) server \<Rightarrow> 'a option" where
  "get_current_goal api s =
     (if \<not> is_active api (goal_store s) (current_handle s) then None
      else map_option (gh_get_goal api) (current_handle s))"

definition get_pending_goal ::
  "('h, 'a, 'r, 'g) goal_api \<Rightarrow> ('h, 'g) server \<Rightarrow> 'a option" where
  "get_pending_goal api s =
     (if \<not> is_active api (goal_store s) (pending_handle s) then None
      else map_option (gh_get_goal api) (pending_handle s))"

definition accept_pending_goal ::
  "('h, 'a, 'r, 'g) goal_api \<Rightarrow> ('h, 'g) server \<Rightarrow> 'a option \<times> ('h, 'g) server" where
  "accept_pending_goal api s =
     (case pending_handle s of
        None \<Rightarrow> (None, s)
      | Some p \<Rightarrow>
          if \<not> gh_is_active api (goal_store s) p then (None, s)
          else
            let g = (case current_handle s of
                       Some c \<Rightarrow>
                         if gh_is_active api (goal_store s) c \<and> c \<noteq> p
                         then gh_abort api c (gh_empty_result api) (goal_store s)
                         else goal_store s
                     | None \<Rightarrow> goal_store s)
            in (Some (gh_get_goal api p),
                s\<lparr>goal_store := g, current_handle := Some p, pending_handle := None,
                  preempt_requested := False\<rparr>))"

definition terminate_pending_goal ::
  "('h, 'a, 'r, 'g) goal_api \<Rightarrow> ('h, 'g) server \<Rightarrow> ('h, 'g) server" where
  "terminate_pending_goal api s =
     (if \<not> is_active api (goal_store s) (pending_handle s) then s
      else
        let (p, g) = terminate api (gh_empty_result api) (pending_handle s) (goal_store s)
        in s\<lparr>pending_handle := p, goal_store := g, preempt_requested := False\<rparr>)"

definition terminate_all ::
  "('h, 'a, 'r, 'g) goal_api \<Rightarrow> 'r \<Rightarrow> ('h, 'g) server \<Rightarrow> ('h, 'g) server" where
  "terminate_all api r s =
     (let (c, g1) = terminate api r (current_handle s) (goal_store s);
          (p, g2) = terminate api r (pending_handle s) g1
      in s\<lparr>current_handle := c, pending_handle := p, goal_store := g2,
           preempt_requested := False\<rparr>)"

definition terminate_current ::
  "('h, 'a, 'r, 'g) goal_api \<Rightarrow> 'r \<Rightarrow> ('h, 'g) server \<Rightarrow> ('h, 'g) server" where
  "terminate_current api r s =
     (let (c, g) = terminate api r (current_handle s) (goal_store s)
      in s\<lparr>current_handle := c, goal_store := g\<rparr>)"

definition succeeded_current ::
  "('h, 'a, 'r, 'g) goal_api \<Rightarrow> 'r \<Rightarrow> ('h, 'g) server \<Rightarrow> ('h, 'g) server" where
  "succeeded_current api r s =
     (case current_handle s of
        None \<Rightarrow> s
      | Some c \<Rightarrow>
          if gh_is_active api (goal_store s) c
          then s\<lparr>goal_store := gh_succeed api c r (goal_store s), current_handle := None\<rparr>
          else s)"

text \<open>\<open>handle_accepted\<close> stores the new handle. The boolean says whether it launched the worker
  thread (\<open>std::async\<close>), which is when \<open>execution_future_\<close> becomes a fresh, running future.\<close>

definition handle_accepted ::
  "('h, 'a, 'r, 'g) goal_api \<Rightarrow> 'h \<Rightarrow> ('h, 'g) server \<Rightarrow> bool \<times> ('h, 'g) server" where
  "handle_accepted api h s =
     (if is_active api (goal_store s) (current_handle s) \<or> is_running s then
        let (p, g) = (if is_active api (goal_store s) (pending_handle s)
                      then terminate api (gh_empty_result api) (pending_handle s) (goal_store s)
                      else (pending_handle s, goal_store s))
        in (False, s\<lparr>goal_store := g, pending_handle := Some h, preempt_requested := True\<rparr>)
      else
        let s1 = (if is_active api (goal_store s) (pending_handle s) then
                    let (p, g) = terminate api (gh_empty_result api) (pending_handle s)
                                   (goal_store s)
                    in s\<lparr>pending_handle := p, goal_store := g, preempt_requested := False\<rparr>
                  else s)
        in (True, s1\<lparr>current_handle := Some h, execution_future := Some Executing\<rparr>))"

text \<open>\<open>work\<close>: the loop guard, the catch block, and the part of the body after the callback, which
  holds the mutex. The completion callback is optional; the boolean of \<open>work_after\<close> says whether
  the loop goes on.\<close>

type_synonym ('h, 'g) completion = "(('h, 'g) server \<Rightarrow> ('h, 'g) server) option"

definition run_completion :: "('h, 'g) completion \<Rightarrow> ('h, 'g) server \<Rightarrow> ('h, 'g) server" where
  "run_completion cb s = (case cb of None \<Rightarrow> s | Some f \<Rightarrow> f s)"

definition work_guard :: "('h, 'a, 'r, 'g) goal_api \<Rightarrow> ('h, 'g) server \<Rightarrow> bool" where
  "work_guard api s \<longleftrightarrow> \<not> stop_execution s \<and> is_active api (goal_store s) (current_handle s)"

definition work_exception ::
  "('h, 'a, 'r, 'g) goal_api \<Rightarrow> ('h, 'g) completion \<Rightarrow> ('h, 'g) server \<Rightarrow> ('h, 'g) server" where
  "work_exception api cb s = run_completion cb (terminate_all api (gh_empty_result api) s)"

definition work_after ::
  "('h, 'a, 'r, 'g) goal_api \<Rightarrow> ('h, 'g) completion \<Rightarrow> ('h, 'g) server
     \<Rightarrow> bool \<times> ('h, 'g) server" where
  "work_after api cb s =
     (if stop_execution s then
        (False, run_completion cb (terminate_all api (gh_empty_result api) s))
      else
        let s1 = (if is_active api (goal_store s) (current_handle s)
                  then run_completion cb (terminate_current api (gh_empty_result api) s)
                  else s)
        in if is_active api (goal_store s1) (pending_handle s1)
           then (True, snd (accept_pending_goal api s1))
           else (False, s1))"

text \<open>\<open>deactivate\<close>: the critical section at its start, and the loop that waits for the worker. One
  element of the list is one round of the loop: what the other threads did during the 100 ms wait
  and whether \<open>server_timeout_\<close> has passed. The result is \<open>None\<close> while the loop still waits.\<close>

definition deactivate_request :: "('h, 'g) server \<Rightarrow> ('h, 'g) server" where
  "deactivate_request s = s\<lparr>server_active := False, stop_execution := True\<rparr>"

fun deactivate_wait ::
  "('h, 'a, 'r, 'g) goal_api \<Rightarrow> ('h, 'g) completion
     \<Rightarrow> ((('h, 'g) server \<Rightarrow> ('h, 'g) server) \<times> bool) list
     \<Rightarrow> ('h, 'g) server \<Rightarrow> ('h, 'g) server option" where
  "deactivate_wait api cb [] s = None"
| "deactivate_wait api cb ((env, timed_out) # rounds) s =
     (let s1 = env s in
      if execution_future s1 = Some Ready then Some s1
      else deactivate_wait api cb rounds
             (if timed_out
              then run_completion cb (terminate_all api (gh_empty_result api) s1)
              else s1))"

definition deactivate ::
  "('h, 'a, 'r, 'g) goal_api \<Rightarrow> ('h, 'g) completion
     \<Rightarrow> ((('h, 'g) server \<Rightarrow> ('h, 'g) server) \<times> bool) list
     \<Rightarrow> ('h, 'g) server \<Rightarrow> ('h, 'g) server option" where
  "deactivate api cb rounds s =
     (let s1 = deactivate_request s in
      if execution_future s1 = None then Some s1 else deactivate_wait api cb rounds s1)"

text \<open>\<open>get_current_goal_id\<close>, with the id of a handle as a parameter; \<open>None\<close> is the empty id.\<close>

definition get_current_goal_id ::
  "('h, 'a, 'r, 'g) goal_api \<Rightarrow> ('h \<Rightarrow> 'i) \<Rightarrow> ('h, 'g) server \<Rightarrow> 'i option" where
  "get_current_goal_id api goal_id s =
     (if \<not> is_active api (goal_store s) (current_handle s) then None else map_option goal_id (current_handle s))"

text \<open>\<open>publish_feedback\<close> does not take the mutex: \<open>between\<close> is what other threads do to the server after the test of the handle and before
  its use. The outer \<open>None\<close> is the use of a null handle.\<close>

definition publish_feedback ::
  "('h, 'a, 'r, 'g) goal_api \<Rightarrow> ('h \<Rightarrow> 'f \<Rightarrow> 'w \<Rightarrow> 'w) \<Rightarrow> (('h, 'g) server \<Rightarrow> ('h, 'g) server) \<Rightarrow> 'f \<Rightarrow>
    ('h, 'g) server \<Rightarrow> 'w \<Rightarrow> (('h, 'g) server \<times> 'w) option" where
  "publish_feedback api send between feedback s w =
     (if \<not> is_active api (goal_store s) (current_handle s) then Some (s, w)
      else
        let s1 = between s in
        (case current_handle s1 of None \<Rightarrow> None | Some h \<Rightarrow> Some (s1, send h feedback w)))"

lemmas server_operation_defs [server_ops] =
  terminate_pending_goal_def terminate_all_def terminate_current_def
  succeeded_current_def accept_pending_goal_def handle_accepted_def

section \<open>The contract of the goal handles\<close>

text \<open>
  What the server relies on of \<open>rclcpp_action\<close>: a terminal transition makes exactly its own handle
  inactive and leaves the cancel flag of the others alone; a canceling goal is active; and the
  transitions are legal (\<open>ok\<close> is preserved, where the library would throw otherwise) when the
  handle is active, \<open>canceled\<close> moreover only when it is canceling.
\<close>

locale goal_handles =
  fixes api :: "('h, 'a, 'r, 'g) goal_api"
    and ok :: "'g \<Rightarrow> bool"
  assumes succeed_active:
      "gh_is_active api g h \<Longrightarrow>
         gh_is_active api (gh_succeed api h r g) h' \<longleftrightarrow> gh_is_active api g h' \<and> h' \<noteq> h"
    and abort_active:
      "gh_is_active api g h \<Longrightarrow>
         gh_is_active api (gh_abort api h r g) h' \<longleftrightarrow> gh_is_active api g h' \<and> h' \<noteq> h"
    and canceled_active:
      "gh_is_active api g h \<Longrightarrow> gh_is_canceling api g h \<Longrightarrow>
         gh_is_active api (gh_canceled api h r g) h' \<longleftrightarrow> gh_is_active api g h' \<and> h' \<noteq> h"
    and succeed_ok: "ok g \<Longrightarrow> gh_is_active api g h \<Longrightarrow> ok (gh_succeed api h r g)"
    and abort_ok: "ok g \<Longrightarrow> gh_is_active api g h \<Longrightarrow> ok (gh_abort api h r g)"
    and canceled_ok:
      "ok g \<Longrightarrow> gh_is_active api g h \<Longrightarrow> gh_is_canceling api g h \<Longrightarrow> ok (gh_canceled api h r g)"

text \<open>The invariant of the server: every stored handle is active, the two slots differ, a
  preemption is requested exactly when a goal is pending, and no illegal transition happened.\<close>

definition server_inv ::
  "('h, 'a, 'r, 'g) goal_api \<Rightarrow> ('g \<Rightarrow> bool) \<Rightarrow> ('h, 'g) server \<Rightarrow> bool" where
  "server_inv api ok s \<longleftrightarrow>
     ok (goal_store s) \<and>
     (\<forall>h. current_handle s = Some h \<longrightarrow> gh_is_active api (goal_store s) h) \<and>
     (\<forall>h. pending_handle s = Some h \<longrightarrow> gh_is_active api (goal_store s) h) \<and>
     (current_handle s = None \<or> current_handle s \<noteq> pending_handle s) \<and>
     (preempt_requested s \<longleftrightarrow> pending_handle s \<noteq> None)"

text \<open>A client call or a completion callback is admissible when it keeps the invariant and the
  fields only the server writes.\<close>

definition same_threads :: "('h, 'g) server \<Rightarrow> ('h, 'g) server \<Rightarrow> bool" where
  "same_threads s t \<longleftrightarrow>
     server_active t = server_active s \<and> stop_execution t = stop_execution s \<and>
     execution_future t = execution_future s"

lemma same_threads_refl [simp]: "same_threads s s"
  by (simp add: same_threads_def)

context goal_handles
begin

lemma terminate_slots:
  assumes "terminate api r slot g = (slot', g')" and "\<forall>h. slot = Some h \<longrightarrow> gh_is_active api g h"
  shows "slot' = None"
    and "\<And>h'. gh_is_active api g' h' \<longleftrightarrow> gh_is_active api g h' \<and> slot \<noteq> Some h'"
    and "ok g \<Longrightarrow> ok g'"
  using assms
  by (auto simp: terminate_def abort_active canceled_active abort_ok canceled_ok
      split: option.splits if_splits)

lemma terminate_current_inv:
  assumes "server_inv api ok s"
  shows "server_inv api ok (terminate_current api r s)"
    and "current_handle (terminate_current api r s) = None"
    and "pending_handle (terminate_current api r s) = pending_handle s"
    and "same_threads s (terminate_current api r s)"
proof -
  obtain c g where t: "terminate api r (current_handle s) (goal_store s) = (c, g)"
    by fastforce
  have active: "\<forall>h. current_handle s = Some h \<longrightarrow> gh_is_active api (goal_store s) h"
    using assms by (simp add: server_inv_def)
  note slots = terminate_slots [OF t active]
  show "server_inv api ok (terminate_current api r s)"
    using assms slots by (auto simp: server_inv_def terminate_current_def t)
  show "current_handle (terminate_current api r s) = None"
    and "pending_handle (terminate_current api r s) = pending_handle s"
    and "same_threads s (terminate_current api r s)"
    using slots by (simp_all add: terminate_current_def t same_threads_def)
qed

lemma terminate_all_inv:
  assumes "server_inv api ok s"
  shows "server_inv api ok (terminate_all api r s)"
    and "current_handle (terminate_all api r s) = None"
    and "pending_handle (terminate_all api r s) = None"
    and "same_threads s (terminate_all api r s)"
proof -
  obtain c g where t: "terminate api r (current_handle s) (goal_store s) = (c, g)"
    by fastforce
  obtain p g' where u: "terminate api r (pending_handle s) g = (p, g')"
    by fastforce
  have active: "\<forall>h. current_handle s = Some h \<longrightarrow> gh_is_active api (goal_store s) h"
    using assms by (simp add: server_inv_def)
  note slots = terminate_slots [OF t active]
  have "\<forall>h. pending_handle s = Some h \<longrightarrow> gh_is_active api g h"
    using assms slots(2) by (auto simp: server_inv_def)
  note slots' = terminate_slots [OF u this]
  show "server_inv api ok (terminate_all api r s)"
    using assms slots(1,3) slots'(1,3) by (simp add: server_inv_def terminate_all_def t u)
  show "current_handle (terminate_all api r s) = None"
    and "pending_handle (terminate_all api r s) = None"
    and "same_threads s (terminate_all api r s)"
    using slots(1) slots'(1) by (simp_all add: terminate_all_def t u same_threads_def)
qed

lemma terminate_pending_inv:
  assumes "server_inv api ok s"
  shows "server_inv api ok (terminate_pending_goal api s)"
    and "pending_handle (terminate_pending_goal api s) = None"
    and "current_handle (terminate_pending_goal api s) = current_handle s"
    and "same_threads s (terminate_pending_goal api s)"
proof -
  obtain p g where t:
    "terminate api (gh_empty_result api) (pending_handle s) (goal_store s) = (p, g)"
    by fastforce
  have active: "\<forall>h. pending_handle s = Some h \<longrightarrow> gh_is_active api (goal_store s) h"
    using assms by (simp add: server_inv_def)
  note slots = terminate_slots [OF t active]
  show "server_inv api ok (terminate_pending_goal api s)"
    using assms slots
    by (auto simp: server_inv_def terminate_pending_goal_def t)
  show "pending_handle (terminate_pending_goal api s) = None"
    and "current_handle (terminate_pending_goal api s) = current_handle s"
    and "same_threads s (terminate_pending_goal api s)"
    using slots(1) active
    by (auto simp: terminate_pending_goal_def t is_active_def same_threads_def
        split: option.splits)
qed

lemma succeeded_current_inv:
  assumes "server_inv api ok s"
  shows "server_inv api ok (succeeded_current api r s)"
    and "current_handle (succeeded_current api r s) = None"
    and "pending_handle (succeeded_current api r s) = pending_handle s"
    and "same_threads s (succeeded_current api r s)"
  using assms
  by (auto simp: succeeded_current_def server_inv_def succeed_active succeed_ok same_threads_def
      split: option.splits)

lemma accept_pending_inv:
  assumes "server_inv api ok s"
  shows "server_inv api ok (snd (accept_pending_goal api s))"
    and "same_threads s (snd (accept_pending_goal api s))"
  using assms
  by (auto simp: accept_pending_goal_def server_inv_def same_threads_def Let_def
      abort_active abort_ok split: option.splits)

lemma accept_pending_moves:
  assumes "server_inv api ok s" and "pending_handle s = Some p"
  shows "fst (accept_pending_goal api s) = Some (gh_get_goal api p)"
    and "current_handle (snd (accept_pending_goal api s)) = Some p"
    and "pending_handle (snd (accept_pending_goal api s)) = None"
  using assms by (auto simp: accept_pending_goal_def server_inv_def Let_def)

lemma handle_accepted_inv:
  assumes inv: "server_inv api ok s" and new: "gh_is_active api (goal_store s) h"
    and fresh: "current_handle s \<noteq> Some h" "pending_handle s \<noteq> Some h"
  shows "server_inv api ok (snd (handle_accepted api h s))"
proof -
  obtain p g where t:
    "terminate api (gh_empty_result api) (pending_handle s) (goal_store s) = (p, g)"
    by fastforce
  have active: "\<forall>h. pending_handle s = Some h \<longrightarrow> gh_is_active api (goal_store s) h"
    using inv by (simp add: server_inv_def)
  note slots = terminate_slots [OF t active]
  have no_current: "\<not> is_active api (goal_store s) (current_handle s) \<Longrightarrow> current_handle s = None"
    using inv by (auto simp: server_inv_def is_active_def split: option.splits)
  have no_pending: "\<not> is_active api (goal_store s) (pending_handle s) \<Longrightarrow> pending_handle s = None"
    using active by (auto simp: is_active_def split: option.splits)
  show ?thesis
    using inv new fresh slots no_current no_pending
    by (auto simp: server_inv_def handle_accepted_def t Let_def)
qed

end

end
