(* ===== verification/Action_Server_Threads.thy ===== *)
theory Action_Server_Threads
  imports Action_Server
begin

text \<open>
  The threads of \<open>nav3d_util::SimpleActionServer\<close>: the executor thread that runs the client
  callbacks, the worker thread started by \<open>std::async\<close>, and the lifecycle thread that activates
  and deactivates the server. \<open>sas_step\<close> has one rule per atomic section; \<open>sas_reachable\<close> is its
  closure from the freshly constructed server. The goals themselves change outside the server in
  two ways only: a new goal becomes active, and an active goal becomes canceling.

  The lemmas: the server invariant holds in every reachable state, a worker runs exactly while
  \<open>execution_future_\<close> is not ready, and two runs in which the server loses goals.
\<close>

section \<open>The step relation\<close>

datatype worker_pc =
    No_Worker          \<comment> \<open>no thread, or its future is ready\<close>
  | Loop_Head          \<comment> \<open>about to evaluate the guard of the loop in \<open>work\<close>\<close>
  | In_Callback        \<comment> \<open>inside \<open>execute_callback_\<close>\<close>
  | Leaving            \<comment> \<open>out of the loop, the future not yet ready\<close>

record ('h, 'g) threads =
  srv :: "('h, 'g) server"
  pc :: worker_pc

text \<open>What \<open>rclcpp_action\<close> does to the goals: \<open>goal_born\<close> before \<open>handle_accepted\<close> is called,
  \<open>goal_cancel\<close> after \<open>handle_cancel\<close> accepted.\<close>

definition goal_born ::
  "('h, 'a, 'r, 'g) goal_api \<Rightarrow> ('g \<Rightarrow> bool) \<Rightarrow> 'h \<Rightarrow> 'g \<Rightarrow> 'g \<Rightarrow> bool" where
  "goal_born api ok h g g' \<longleftrightarrow>
     \<not> gh_is_active api g h \<and>
     (\<forall>h'. gh_is_active api g' h' \<longleftrightarrow> gh_is_active api g h' \<or> h' = h) \<and> (ok g \<longrightarrow> ok g')"

definition goal_cancel ::
  "('h, 'a, 'r, 'g) goal_api \<Rightarrow> ('g \<Rightarrow> bool) \<Rightarrow> 'h \<Rightarrow> 'g \<Rightarrow> 'g \<Rightarrow> bool" where
  "goal_cancel api ok h g g' \<longleftrightarrow>
     gh_is_canceling api g' h \<and>
     (\<forall>h'. gh_is_active api g' h' \<longleftrightarrow> gh_is_active api g h') \<and> (ok g \<longrightarrow> ok g')"

text \<open>The calls an execute callback may make on its server.\<close>

inductive callback_call ::
  "('h, 'a, 'r, 'g) goal_api \<Rightarrow> ('h, 'g) server \<Rightarrow> ('h, 'g) server \<Rightarrow> bool"
  for api :: "('h, 'a, 'r, 'g) goal_api" where
  call_accept: "callback_call api s (snd (accept_pending_goal api s))"
| call_terminate_pending: "callback_call api s (terminate_pending_goal api s)"
| call_terminate_all: "callback_call api s (terminate_all api r s)"
| call_terminate_current: "callback_call api s (terminate_current api r s)"
| call_succeeded: "callback_call api s (succeeded_current api r s)"

text \<open>The servers of this repository pass no completion callback, so the steps use \<open>None\<close>.\<close>

inductive sas_step ::
  "('h, 'a, 'r, 'g) goal_api \<Rightarrow> ('g \<Rightarrow> bool) \<Rightarrow> ('h, 'g) threads \<Rightarrow> ('h, 'g) threads \<Rightarrow> bool"
  for api :: "('h, 'a, 'r, 'g) goal_api" and ok :: "'g \<Rightarrow> bool" where
  step_accepted:
    "goal_born api ok h (goal_store (srv t)) g \<Longrightarrow>
     handle_accepted api h (srv t\<lparr>goal_store := g\<rparr>) = (started, s) \<Longrightarrow>
     sas_step api ok t (t\<lparr>srv := s, pc := (if started then Loop_Head else pc t)\<rparr>)"
| step_cancel:
    "handle_cancel api h (srv t) = CANCEL_ACCEPT \<Longrightarrow>
     goal_cancel api ok h (goal_store (srv t)) g \<Longrightarrow>
     sas_step api ok t (t\<lparr>srv := srv t\<lparr>goal_store := g\<rparr>\<rparr>)"
| step_enter:
    "pc t = Loop_Head \<Longrightarrow> work_guard api (srv t) \<Longrightarrow> sas_step api ok t (t\<lparr>pc := In_Callback\<rparr>)"
| step_exit:
    "pc t = Loop_Head \<Longrightarrow> \<not> work_guard api (srv t) \<Longrightarrow> sas_step api ok t (t\<lparr>pc := Leaving\<rparr>)"
| step_rclcpp_down:
    "pc t = Loop_Head \<Longrightarrow> sas_step api ok t (t\<lparr>pc := Leaving\<rparr>)"
| step_call:
    "pc t = In_Callback \<Longrightarrow> callback_call api (srv t) s \<Longrightarrow> sas_step api ok t (t\<lparr>srv := s\<rparr>)"
| step_return:
    "pc t = In_Callback \<Longrightarrow> work_after api None (srv t) = (continue, s) \<Longrightarrow>
     sas_step api ok t (t\<lparr>srv := s, pc := (if continue then Loop_Head else Leaving)\<rparr>)"
| step_throw:
    "pc t = In_Callback \<Longrightarrow>
     sas_step api ok t (t\<lparr>srv := work_exception api None (srv t), pc := Leaving\<rparr>)"
| step_done:
    "pc t = Leaving \<Longrightarrow>
     sas_step api ok t (t\<lparr>srv := srv t\<lparr>execution_future := Some Ready\<rparr>, pc := No_Worker\<rparr>)"
| step_activate:
    "sas_step api ok t (t\<lparr>srv := activate (srv t)\<rparr>)"
| step_deactivate:
    "sas_step api ok t (t\<lparr>srv := deactivate_request (srv t)\<rparr>)"
| step_deadline:
    "is_running (srv t) \<Longrightarrow> stop_execution (srv t) \<Longrightarrow>
     sas_step api ok t (t\<lparr>srv := terminate_all api (gh_empty_result api) (srv t)\<rparr>)"

definition threads_init :: "'g \<Rightarrow> ('h, 'g) threads" where
  "threads_init g = \<lparr>srv = server_init g, pc = No_Worker\<rparr>"

inductive sas_reachable ::
  "('h, 'a, 'r, 'g) goal_api \<Rightarrow> ('g \<Rightarrow> bool) \<Rightarrow> ('h, 'g) threads \<Rightarrow> bool"
  for api :: "('h, 'a, 'r, 'g) goal_api" and ok :: "'g \<Rightarrow> bool" where
  reach_init: "ok g \<Longrightarrow> sas_reachable api ok (threads_init g)"
| reach_step: "sas_reachable api ok t \<Longrightarrow> sas_step api ok t u \<Longrightarrow> sas_reachable api ok u"

inductive_cases callback_callE: "callback_call api s s'"

section \<open>Invariants of the threads\<close>

text \<open>The server invariant, and the agreement of the worker with its future.\<close>

definition threads_inv ::
  "('h, 'a, 'r, 'g) goal_api \<Rightarrow> ('g \<Rightarrow> bool) \<Rightarrow> ('h, 'g) threads \<Rightarrow> bool" where
  "threads_inv api ok t \<longleftrightarrow>
     server_inv api ok (srv t) \<and> (is_running (srv t) \<longleftrightarrow> pc t \<noteq> No_Worker)"

lemma is_running_same_threads: "same_threads s s' \<Longrightarrow> is_running s' = is_running s"
  by (simp add: same_threads_def is_running_def)

lemma is_running_terminate_all [simp]: "is_running (terminate_all api r s) = is_running s"
  by (simp add: terminate_all_def is_running_def split: prod.splits)

lemma handle_accepted_running:
  assumes "handle_accepted api h s = (started, s')"
  shows "is_running s' \<longleftrightarrow> started \<or> is_running s" and "started \<Longrightarrow> \<not> is_running s"
  using assms by (auto simp: handle_accepted_def is_running_def Let_def split: if_splits prod.splits)

text \<open>The state after the unfinished current goal is dropped, in the middle of \<open>work_after\<close>.\<close>

definition settle_current ::
  "('h, 'a, 'r, 'g) goal_api \<Rightarrow> ('h, 'g) server \<Rightarrow> ('h, 'g) server" where
  "settle_current api s =
     (if is_active api (goal_store s) (current_handle s)
      then terminate_current api (gh_empty_result api) s else s)"

lemma run_completion_None [simp]: "run_completion None s = s"
  by (simp add: run_completion_def)

lemma work_after_eq:
  "\<not> stop_execution s \<Longrightarrow>
   work_after api None s =
     (let s1 = settle_current api s
      in if is_active api (goal_store s1) (pending_handle s1)
         then (True, snd (accept_pending_goal api s1)) else (False, s1))"
  by (simp add: work_after_def settle_current_def)

context goal_handles
begin

lemma callback_call_inv:
  assumes "callback_call api s s'" and "server_inv api ok s"
  shows "server_inv api ok s' \<and> same_threads s s'"
  using assms(1)
  by (cases rule: callback_call.cases)
    (use assms(2) in \<open>simp_all add: accept_pending_inv terminate_pending_inv terminate_all_inv
       terminate_current_inv succeeded_current_inv\<close>)

lemma settle_current_inv:
  assumes "server_inv api ok s"
  shows "server_inv api ok (settle_current api s)" and "same_threads s (settle_current api s)"
    and "current_handle (settle_current api s) = None"
    and "pending_handle (settle_current api s) = pending_handle s"
  using assms terminate_current_inv [OF assms]
  by (auto simp: settle_current_def server_inv_def is_active_def split: option.splits)

lemma work_after_inv:
  assumes "work_after api None s = (continue, s')" and "server_inv api ok s"
  shows "server_inv api ok s' \<and> same_threads s s'"
proof (cases "stop_execution s")
  case True
  then show ?thesis
    using assms(1) terminate_all_inv [OF assms(2)] by (auto simp: work_after_def)
next
  case False
  have "server_inv api ok (snd (accept_pending_goal api (settle_current api s)))"
    and "same_threads s (snd (accept_pending_goal api (settle_current api s)))"
    using accept_pending_inv [OF settle_current_inv(1) [OF assms(2)]]
      settle_current_inv(2) [OF assms(2)] by (auto simp: same_threads_def)
  then show ?thesis
    using assms(1) settle_current_inv [OF assms(2)]
    by (auto simp: work_after_eq [OF False] Let_def split: if_splits)
qed

lemma born_inv:
  assumes "server_inv api ok s" and "goal_born api ok h (goal_store s) g"
  shows "server_inv api ok (s\<lparr>goal_store := g\<rparr>)"
    and "current_handle s \<noteq> Some h" and "pending_handle s \<noteq> Some h"
    and "gh_is_active api g h"
  using assms by (auto simp: server_inv_def goal_born_def)

lemma step_inv:
  assumes "sas_step api ok t u" and "threads_inv api ok t"
  shows "threads_inv api ok u"
  using assms(1)
proof (cases rule: sas_step.cases)
  case (step_accepted h g started s)
  have inv: "server_inv api ok (srv t)"
    using assms(2) by (simp add: threads_inv_def)
  note b = born_inv [OF inv step_accepted(2)]
  have "server_inv api ok s"
    using handle_accepted_inv [OF b(1), of h] b(2-4) step_accepted(3) by simp
  moreover have "is_running s \<longleftrightarrow> started \<or> is_running (srv t)"
    using handle_accepted_running [OF step_accepted(3)] by (simp add: is_running_def)
  ultimately show ?thesis
    using assms(2) step_accepted(1) by (auto simp: threads_inv_def)
next
  case (step_cancel h g)
  then show ?thesis
    using assms(2) by (auto simp: threads_inv_def server_inv_def goal_cancel_def is_running_def)
next
  case (step_call s)
  then show ?thesis
    using assms(2) callback_call_inv is_running_same_threads by (auto simp: threads_inv_def)
next
  case (step_return continue s)
  have "server_inv api ok s \<and> same_threads (srv t) s"
    using work_after_inv [OF step_return(3)] assms(2) by (simp add: threads_inv_def)
  then show ?thesis
    using assms(2) step_return(1,2) is_running_same_threads by (auto simp: threads_inv_def)
next
  case step_throw
  then show ?thesis
    using assms(2) terminate_all_inv [of "srv t"]
    by (auto simp: threads_inv_def work_exception_def)
next
  case step_deadline
  then show ?thesis
    using assms(2) terminate_all_inv [of "srv t"]
    by (auto simp: threads_inv_def)
qed (use assms(2) in
      \<open>auto simp: threads_inv_def server_inv_def is_running_def activate_def
         deactivate_request_def\<close>)

lemma reachable_inv: "sas_reachable api ok t \<Longrightarrow> threads_inv api ok t"
proof (induction rule: sas_reachable.induct)
  case (reach_init g)
  then show ?case
    by (simp add: threads_inv_def threads_init_def server_init_def server_inv_def is_running_def)
next
  case (reach_step t u)
  then show ?case by (blast intro: step_inv)
qed

text \<open>What the worker leaves behind after a callback when no stop was requested: it goes on with
  the goal that was pending, or it leaves with both slots empty.\<close>

lemma work_after_settles:
  assumes "server_inv api ok s" and "\<not> stop_execution s"
    and "work_after api None s = (continue, s')"
  shows "case pending_handle s of
           Some p \<Rightarrow> continue \<and> current_handle s' = Some p \<and> pending_handle s' = None
         | None \<Rightarrow> \<not> continue \<and> current_handle s' = None \<and> pending_handle s' = None"
proof (cases "pending_handle s")
  case None
  then show ?thesis
    using assms(3) settle_current_inv [OF assms(1)]
    by (auto simp: work_after_eq [OF assms(2)] is_active_def Let_def)
next
  case (Some p)
  note inv = settle_current_inv [OF assms(1)]
  have "is_active api (goal_store (settle_current api s)) (pending_handle (settle_current api s))"
    using inv(1,4) Some by (auto simp: is_active_def server_inv_def)
  then show ?thesis
    using assms(3) accept_pending_moves [OF inv(1), of p] inv(4) Some
    by (auto simp: work_after_eq [OF assms(2)] Let_def)
qed

end

section \<open>A server that no longer executes goals\<close>

text \<open>
  \<open>wedged\<close>: the current goal is active but no worker runs. \<open>handle_accepted\<close> then moves every new
  goal to the pending slot and starts no worker, and nothing else can end the current goal.
\<close>

definition wedged ::
  "('h, 'a, 'r, 'g) goal_api \<Rightarrow> ('h, 'g) threads \<Rightarrow> bool" where
  "wedged api t \<longleftrightarrow>
     pc t = No_Worker \<and> \<not> is_running (srv t) \<and>
     is_active api (goal_store (srv t)) (current_handle (srv t))"

context goal_handles
begin

lemma wedged_accepted:
  assumes "wedged api t" and "server_inv api ok (srv t)"
    and "goal_born api ok h (goal_store (srv t)) g"
    and "handle_accepted api h (srv t\<lparr>goal_store := g\<rparr>) = (started, s)"
  shows "\<not> started \<and> current_handle s = current_handle (srv t) \<and> \<not> is_running s \<and>
         is_active api (goal_store s) (current_handle s)"
proof -
  let ?s = "srv t\<lparr>goal_store := g\<rparr>"
  note b = born_inv [OF assms(2,3)]
  have act: "is_active api g (current_handle (srv t))"
    using assms(1) b(1) assms(3) by (auto simp: wedged_def is_active_def goal_born_def
        split: option.splits)
  obtain p g' where t:
    "terminate api (gh_empty_result api) (pending_handle (srv t)) g = (p, g')"
    by fastforce
  have "\<forall>h. pending_handle (srv t) = Some h \<longrightarrow> gh_is_active api g h"
    using b(1) by (simp add: server_inv_def)
  note slots = terminate_slots [OF t this]
  have "current_handle (srv t) = None \<or> current_handle (srv t) \<noteq> pending_handle (srv t)"
    using assms(2) by (simp add: server_inv_def)
  then have "is_active api g' (current_handle (srv t))"
    using act slots(2) by (auto simp: is_active_def split: option.splits)
  then show ?thesis
    using assms(1,4) act t
    by (auto simp: handle_accepted_def wedged_def is_running_def Let_def split: if_splits)
qed

lemma wedged_step:
  assumes "sas_step api ok t u" and "wedged api t" and "threads_inv api ok t"
  shows "wedged api u \<and> current_handle (srv u) = current_handle (srv t)"
  using assms(1)
proof (cases rule: sas_step.cases)
  case (step_accepted h g started s)
  then show ?thesis
    using wedged_accepted [OF assms(2) _ step_accepted(2,3)] assms(2,3)
    by (auto simp: wedged_def threads_inv_def)
next
  case (step_cancel h g)
  then show ?thesis
    using assms(2)
    by (auto simp: wedged_def is_running_def goal_cancel_def is_active_def split: option.splits)
qed (use assms(2) in \<open>auto simp: wedged_def is_running_def activate_def deactivate_request_def\<close>)

end

section \<open>The goal states of ROS 2\<close>

text \<open>The documented goal state machine of a ROS 2 action server as a concrete \<open>goal_api\<close>: goals
  are numbered, an illegal transition is recorded as \<open>Illegal_Goal\<close>. It interprets the contract,
  so the theorems that assume the contract speak about this instance too.\<close>

datatype goal_status =
  Unknown_Goal | Executing_Goal | Canceling_Goal | Succeeded_Goal | Aborted_Goal | Canceled_Goal
  | Illegal_Goal

definition ros_move ::
  "goal_status list \<Rightarrow> goal_status \<Rightarrow> nat \<Rightarrow> 'r \<Rightarrow> (nat \<Rightarrow> goal_status) \<Rightarrow> (nat \<Rightarrow> goal_status)"
  where
  "ros_move from target h r g = g(h := (if g h \<in> set from then target else Illegal_Goal))"

definition ros_goal_api :: "(nat, nat, nat, nat \<Rightarrow> goal_status) goal_api" where
  "ros_goal_api =
     \<lparr>gh_is_active = (\<lambda>g h. g h \<in> {Executing_Goal, Canceling_Goal}),
      gh_is_canceling = (\<lambda>g h. g h = Canceling_Goal),
      gh_succeed = ros_move [Executing_Goal, Canceling_Goal] Succeeded_Goal,
      gh_abort = ros_move [Executing_Goal, Canceling_Goal] Aborted_Goal,
      gh_canceled = ros_move [Canceling_Goal] Canceled_Goal,
      gh_get_goal = (\<lambda>h. h),
      gh_empty_result = 0\<rparr>"

definition ros_ok :: "(nat \<Rightarrow> goal_status) \<Rightarrow> bool" where
  "ros_ok g \<longleftrightarrow> Illegal_Goal \<notin> range g"

interpretation ros: goal_handles ros_goal_api ros_ok
  by unfold_locales (auto simp: ros_goal_api_def ros_move_def ros_ok_def)

text \<open>The same state machine with goal messages \<open>goal_of h\<close> and result messages of any type.\<close>

definition ros_api :: "(nat \<Rightarrow> 'a) \<Rightarrow> 'r \<Rightarrow> (nat, 'a, 'r, nat \<Rightarrow> goal_status) goal_api" where
  "ros_api goal_of no_result =
     \<lparr>gh_is_active = (\<lambda>g h. g h \<in> {Executing_Goal, Canceling_Goal}),
      gh_is_canceling = (\<lambda>g h. g h = Canceling_Goal),
      gh_succeed = ros_move [Executing_Goal, Canceling_Goal] Succeeded_Goal,
      gh_abort = ros_move [Executing_Goal, Canceling_Goal] Aborted_Goal,
      gh_canceled = ros_move [Canceling_Goal] Canceled_Goal,
      gh_get_goal = goal_of,
      gh_empty_result = no_result\<rparr>"

interpretation ros_msg: goal_handles "ros_api goal_of no_result" ros_ok for goal_of no_result
  by unfold_locales (auto simp: ros_api_def ros_move_def ros_ok_def)

text \<open>A server that executes goal 0.\<close>

definition executing_server :: "(nat, nat \<Rightarrow> goal_status) server" where
  "executing_server =
     (server_init ((\<lambda>_. Unknown_Goal)(0 := Executing_Goal)))
       \<lparr>server_active := True, current_handle := Some 0, execution_future := Some Executing\<rparr>"

lemma executing_server_inv: "server_inv (ros_api goal_of no_result) ros_ok executing_server"
  by (auto simp: server_inv_def executing_server_def server_init_def ros_api_def ros_ok_def)

lemma executing_server_goal:
  "get_current_goal (ros_api goal_of no_result) executing_server = Some (goal_of 0)"
  by (simp add: get_current_goal_def executing_server_def server_init_def is_active_def ros_api_def)

lemmas ros_simps =
  ros_goal_api_def ros_move_def goal_born_def goal_cancel_def handle_accepted_def is_active_def
  is_running_def server_init_def threads_init_def activate_def deactivate_request_def
  work_guard_def

lemma ros_ok_empty: "ros_ok (\<lambda>_. Unknown_Goal)"
  by (simp add: ros_ok_def)

lemma ros_born:
  "ros_ok g \<Longrightarrow> \<not> gh_is_active ros_goal_api g h \<Longrightarrow>
   goal_born ros_goal_api ros_ok h g (g(h := Executing_Goal))"
  by (auto simp: goal_born_def ros_goal_api_def ros_ok_def)

text \<open>A run of the server, up to the moment its first goal is accepted and its worker launched.\<close>

definition launched :: "(nat, nat \<Rightarrow> goal_status) threads" where
  "launched =
     \<lparr>srv = \<lparr>server_active = True, stop_execution = False, preempt_requested = False,
             current_handle = Some 0, pending_handle = None, execution_future = Some Executing,
             goal_store = (\<lambda>_. Unknown_Goal)(0 := Executing_Goal)\<rparr>,
      pc = Loop_Head\<rparr>"

lemma launched_reachable: "sas_reachable ros_goal_api ros_ok launched"
proof -
  let ?g = "\<lambda>_::nat. Unknown_Goal"
  let ?t1 = "(threads_init ?g)\<lparr>srv := activate (server_init ?g)\<rparr>"
  have "sas_reachable ros_goal_api ros_ok (threads_init ?g)"
    by (rule reach_init) (rule ros_ok_empty)
  then have r1: "sas_reachable ros_goal_api ros_ok ?t1"
    using reach_step step_activate [of ros_goal_api ros_ok "threads_init ?g"]
    by (simp add: threads_init_def)
  have "handle_accepted ros_goal_api 0 (srv ?t1\<lparr>goal_store := ?g(0 := Executing_Goal)\<rparr>)
        = (True, srv launched)"
    by (simp add: ros_simps launched_def)
  then have "sas_step ros_goal_api ros_ok ?t1 launched"
    using step_accepted [of ros_goal_api ros_ok 0 ?t1 "?g(0 := Executing_Goal)" True "srv launched"]
      ros_born [OF ros_ok_empty, of 0]
    by (simp add: ros_simps launched_def)
  with r1 show ?thesis by (rule reach_step)
qed

section \<open>Properties of the action server\<close>

text \<open>C1: In every state the threads of the action server can reach, each stored goal handle is
  active, the current and the pending slot hold different goals, a preemption is requested exactly
  when a goal is pending, no illegal goal transition was ever requested from \<open>rclcpp_action\<close>, and
  a worker thread exists exactly while \<open>execution_future_\<close> is not ready.\<close>

theorem server_invariant:
  assumes "goal_handles api ok" and "sas_reachable api ok t"
  shows "server_inv api ok (srv t) \<and> (is_running (srv t) \<longleftrightarrow> pc t \<noteq> No_Worker)"
  using goal_handles.reachable_inv [OF assms] by (simp add: threads_inv_def)

theorem server_invariant_witness:
  "server_inv ros_goal_api ros_ok (srv launched) \<and>
   (is_running (srv launched) \<longleftrightarrow> pc launched \<noteq> No_Worker)"
  using server_invariant [OF ros.goal_handles_axioms launched_reachable] .

text \<open>C7: When the execute callback returns and no stop was requested, the worker goes on with the
  pending goal as its current goal if there is one, and otherwise leaves with both slots empty: at
  this point no accepted goal is dropped.\<close>

theorem worker_takes_pending_goal:
  assumes "goal_handles api ok" and "server_inv api ok s" and "\<not> stop_execution s"
    and "work_after api None s = (continue, s')"
  shows "case pending_handle s of
           Some p \<Rightarrow> continue \<and> current_handle s' = Some p \<and> pending_handle s' = None
         | None \<Rightarrow> \<not> continue \<and> current_handle s' = None \<and> pending_handle s' = None"
  by (rule goal_handles.work_after_settles [OF assms])

definition two_goals :: "(nat, nat \<Rightarrow> goal_status) server" where
  "two_goals = snd (handle_accepted ros_goal_api 1
     (srv launched\<lparr>goal_store := (goal_store (srv launched))(1 := Executing_Goal)\<rparr>))"

theorem worker_takes_pending_goal_witness:
  "current_handle (snd (work_after ros_goal_api None two_goals)) = Some 1 \<and>
   goal_store (snd (work_after ros_goal_api None two_goals)) 0 = Aborted_Goal"
proof -
  have inv: "server_inv ros_goal_api ros_ok two_goals"
    by (auto simp: two_goals_def launched_def server_inv_def ros_ok_def ros_simps)
  have "work_after ros_goal_api None two_goals =
        (True, snd (work_after ros_goal_api None two_goals))"
    by (simp add: two_goals_def launched_def ros_simps work_after_def terminate_current_def
        terminate_def accept_pending_goal_def Let_def)
  from worker_takes_pending_goal [OF ros.goal_handles_axioms inv _ this]
  have "current_handle (snd (work_after ros_goal_api None two_goals)) = Some 1"
    by (simp add: two_goals_def launched_def ros_simps)
  then show ?thesis
    by (simp add: two_goals_def launched_def ros_simps work_after_def terminate_current_def
        terminate_def accept_pending_goal_def Let_def)
qed


definition wedged_run :: "(nat, nat \<Rightarrow> goal_status) threads" where
  "wedged_run =
     \<lparr>srv = (srv launched)\<lparr>server_active := False, stop_execution := True,
                           execution_future := Some Ready\<rparr>, pc = No_Worker\<rparr>"

lemma wedged_run_reachable: "sas_reachable ros_goal_api ros_ok wedged_run"
proof -
  let ?a = "launched\<lparr>srv := deactivate_request (srv launched)\<rparr>"
  let ?b = "?a\<lparr>pc := Leaving\<rparr>"
  have "sas_reachable ros_goal_api ros_ok ?a"
    using reach_step [OF launched_reachable step_deactivate] .
  moreover have "sas_step ros_goal_api ros_ok ?a ?b"
    by (rule step_exit) (simp_all add: launched_def ros_simps)
  ultimately have "sas_reachable ros_goal_api ros_ok ?b"
    by (rule reach_step)
  moreover have "sas_step ros_goal_api ros_ok ?b
      (?b\<lparr>srv := srv ?b\<lparr>execution_future := Some Ready\<rparr>, pc := No_Worker\<rparr>)"
    by (rule step_done) simp
  ultimately have "sas_reachable ros_goal_api ros_ok
      (?b\<lparr>srv := srv ?b\<lparr>execution_future := Some Ready\<rparr>, pc := No_Worker\<rparr>)"
    by (rule reach_step)
  then show ?thesis
    by (simp add: wedged_run_def deactivate_request_def launched_def)
qed


text \<open>The run in which a goal is lost: goal 0 succeeds and the worker leaves its loop
  (\<open>finished_run\<close>); goal 1 arrives before the future is ready and ends up pending without a worker
  (\<open>lost_run\<close>); goal 2 starts a new worker and aborts goal 1 (\<open>relaunched_run\<close>).\<close>

definition finished_run :: "(nat, nat \<Rightarrow> goal_status) threads" where
  "finished_run =
     \<lparr>srv = (srv launched)\<lparr>current_handle := None,
                           goal_store := (\<lambda>_. Unknown_Goal)(0 := Succeeded_Goal)\<rparr>,
      pc = Leaving\<rparr>"

definition lost_run :: "(nat, nat \<Rightarrow> goal_status) threads" where
  "lost_run =
     \<lparr>srv = (srv finished_run)\<lparr>pending_handle := Some 1, preempt_requested := True,
        execution_future := Some Ready,
        goal_store := (goal_store (srv finished_run))(1 := Executing_Goal)\<rparr>,
      pc = No_Worker\<rparr>"

definition relaunched_run :: "(nat, nat \<Rightarrow> goal_status) threads" where
  "relaunched_run =
     \<lparr>srv = (srv lost_run)\<lparr>pending_handle := None, preempt_requested := False,
        current_handle := Some 2, execution_future := Some Executing,
        goal_store := (goal_store (srv lost_run))(2 := Executing_Goal, 1 := Aborted_Goal)\<rparr>,
      pc = Loop_Head\<rparr>"

lemmas run_defs =
  relaunched_run_def lost_run_def finished_run_def launched_def ros_simps succeeded_current_def
  work_after_def terminate_def Let_def

lemma finished_run_reachable: "sas_reachable ros_goal_api ros_ok finished_run"
proof -
  let ?a = "launched\<lparr>pc := In_Callback\<rparr>"
  let ?b = "?a\<lparr>srv := succeeded_current ros_goal_api 0 (srv ?a)\<rparr>"
  have "sas_step ros_goal_api ros_ok launched ?a"
    by (rule step_enter) (simp_all add: run_defs)
  then have "sas_reachable ros_goal_api ros_ok ?a" by (rule reach_step [OF launched_reachable])
  moreover have "sas_step ros_goal_api ros_ok ?a ?b"
    by (rule step_call) (simp_all add: call_succeeded)
  ultimately have b: "sas_reachable ros_goal_api ros_ok ?b" by (rule reach_step)
  have "work_after ros_goal_api None (srv ?b) = (False, srv ?b)"
    by (simp add: run_defs)
  from step_return [OF _ this] have "sas_step ros_goal_api ros_ok ?b finished_run"
    by (simp add: run_defs)
  with b show ?thesis by (rule reach_step)
qed

lemma lost_run_reachable: "sas_reachable ros_goal_api ros_ok lost_run"
proof -
  let ?g = "(goal_store (srv finished_run))(1 := Executing_Goal)"
  let ?d = "finished_run\<lparr>srv := (srv finished_run)\<lparr>pending_handle := Some 1,
              preempt_requested := True, goal_store := ?g\<rparr>\<rparr>"
  have born: "goal_born ros_goal_api ros_ok 1 (goal_store (srv finished_run)) ?g"
    by (rule ros_born) (simp_all add: run_defs ros_ok_def image_iff)
  have "handle_accepted ros_goal_api 1 (srv finished_run\<lparr>goal_store := ?g\<rparr>) = (False, srv ?d)"
    by (simp add: run_defs)
  from step_accepted [OF born this] have "sas_step ros_goal_api ros_ok finished_run ?d"
    by simp
  then have d: "sas_reachable ros_goal_api ros_ok ?d"
    by (rule reach_step [OF finished_run_reachable])
  have "pc ?d = Leaving" by (simp add: run_defs)
  from step_done [OF this] have "sas_step ros_goal_api ros_ok ?d lost_run"
    by (simp add: run_defs)
  with d show ?thesis by (rule reach_step)
qed

lemma relaunched_run_step: "sas_step ros_goal_api ros_ok lost_run relaunched_run"
proof -
  let ?g = "(goal_store (srv lost_run))(2 := Executing_Goal)"
  have born: "goal_born ros_goal_api ros_ok 2 (goal_store (srv lost_run)) ?g"
    by (rule ros_born) (simp_all add: run_defs ros_ok_def image_iff)
  have "handle_accepted ros_goal_api 2 (srv lost_run\<lparr>goal_store := ?g\<rparr>)
        = (True, srv relaunched_run)"
    by (simp add: run_defs)
  from step_accepted [OF born this] show ?thesis
    by (simp add: relaunched_run_def lost_run_def)
qed

text \<open>The server can lose an accepted goal: a goal that arrives after the worker left its loop
  but before its future is ready becomes pending, no worker looks at it again, and the next goal
  aborts it although it was never executed.\<close>

theorem pending_goal_lost:
  "\<exists>t u. sas_reachable ros_goal_api ros_ok t \<and> server_active (srv t) \<and> pc t = No_Worker \<and>
     current_handle (srv t) = None \<and> pending_handle (srv t) = Some 1 \<and>
     goal_store (srv t) 1 = Executing_Goal \<and>
     sas_step ros_goal_api ros_ok t u \<and> current_handle (srv u) = Some 2 \<and>
     goal_store (srv u) 1 = Aborted_Goal"
proof (intro exI conjI)
  show "sas_reachable ros_goal_api ros_ok lost_run" by (rule lost_run_reachable)
  show "sas_step ros_goal_api ros_ok lost_run relaunched_run" by (rule relaunched_run_step)
qed (simp_all add: relaunched_run_def lost_run_def finished_run_def launched_def)

end
