(* ===== verification/Lifecycle_Manager.thy ===== *)
theory Lifecycle_Manager
  imports Nav3d_Prelude
begin

text \<open>
  \<open>nav3d_lifecycle_manager::LifecycleManager\<close> (\<open>nav3d_lifecycle_manager/src/lifecycle_manager.cpp\<close>)
  and the service client it drives the managed nodes with
  (\<open>nav3d_util/src/lifecycle_service_client.cpp\<close>).

  The managed nodes, their bonds, the clock and \<open>rclcpp::ok\<close> are outside the repository: they are
  the record \<open>node_services\<close> over an abstract world \<open>'w\<close>. A call that throws leaves the state it
  had reached, so an operation returns \<open>(lc_error + result) \<times> state\<close>: \<open>Runtime_Error\<close> is the C++
  exception, \<open>Null_Pointer\<close> the dereference of a null \<open>shared_ptr\<close>, which nothing catches.
  The maps \<open>node_map_\<close> and \<open>bond_map_\<close> hold shared pointers: \<open>Some False\<close> is a null pointer.
\<close>

section \<open>Lifecycle service client\<close>

datatype transition = CONFIGURE | CLEANUP | ACTIVATE | DEACTIVATE | UNCONFIGURED_SHUTDOWN

text \<open>The primary states of \<open>lifecycle_msgs\<close>; \<open>STATE_TRANSITION\<close> is one of its transition states,
  which a node reports while a transition is running.\<close>

datatype primary_state =
  STATE_UNKNOWN | STATE_UNCONFIGURED | STATE_INACTIVE | STATE_ACTIVE | STATE_FINALIZED
| STATE_TRANSITION nat

datatype lc_error = Runtime_Error | Null_Pointer

text \<open>Replies of the two services of a managed node: the service is missing, no answer arrives, or
  an answer arrives (for \<open>change_state\<close> with its \<open>success\<close> field).\<close>

datatype change_reply = Change_Unavailable | Change_No_Reply | Change_Replied bool

datatype state_reply = State_Unavailable | State_No_Reply | State_Is primary_state

record 'w node_services =
  svc_change :: "string \<Rightarrow> transition \<Rightarrow> 'w \<Rightarrow> change_reply \<times> 'w"
  svc_get :: "string \<Rightarrow> 'w \<Rightarrow> state_reply \<times> 'w"
  svc_bond_wait :: "string \<Rightarrow> 'w \<Rightarrow> bool \<times> 'w"
  svc_bond_broken :: "string \<Rightarrow> 'w \<Rightarrow> bool"
  svc_now :: "'w \<Rightarrow> time_ns"
  svc_ok :: "'w \<Rightarrow> bool"

text \<open>\<open>change_state\<close> returns the response pointer as a truth value, in both overloads of \<open>invoke\<close>:
  the \<open>success\<close> field of the response is not read.\<close>

definition change_state ::
  "'w node_services \<Rightarrow> string \<Rightarrow> transition \<Rightarrow> int \<Rightarrow> 'w \<Rightarrow> (lc_error + bool) \<times> 'w" where
  "change_state svc n tr timeout_ms w =
     (case svc_change svc n tr w of
        (Change_Unavailable, w1) \<Rightarrow> (Inl Runtime_Error, w1)
      | (Change_No_Reply, w1) \<Rightarrow> (if timeout_ms > 0 then Inl Runtime_Error else Inr False, w1)
      | (Change_Replied success, w1) \<Rightarrow> (Inr True, w1))"

definition get_state ::
  "'w node_services \<Rightarrow> string \<Rightarrow> 'w \<Rightarrow> (lc_error + primary_state) \<times> 'w" where
  "get_state svc n w =
     (case svc_get svc n w of
        (State_Is s, w1) \<Rightarrow> (Inr s, w1)
      | (_, w1) \<Rightarrow> (Inl Runtime_Error, w1))"

section \<open>State and operations of the manager\<close>

record 'w manager =
  node_names :: "string list"
  attempt_respawn_reconnection :: bool
  bond_timeout :: int
  system_active :: bool
  node_map :: "string \<rightharpoonup> bool"
  bond_map :: "string \<rightharpoonup> bool"
  bond_timer :: bool
  bond_respawn_timer :: bool
  bond_respawn_start_time :: time_ns
  bond_respawn_max_duration :: duration_ns
  world :: 'w

definition manager_init ::
  "string list \<Rightarrow> bool \<Rightarrow> int \<Rightarrow> duration_ns \<Rightarrow> 'w \<Rightarrow> 'w manager" where
  "manager_init names respawn timeout_ms max_dur w =
     \<lparr>node_names = names, attempt_respawn_reconnection = respawn, bond_timeout = timeout_ms,
      system_active = False, node_map = Map.empty, bond_map = Map.empty, bond_timer = False,
      bond_respawn_timer = False, bond_respawn_start_time = 0,
      bond_respawn_max_duration = max_dur, world = w\<rparr>"

definition transition_state_map :: "transition \<Rightarrow> primary_state" where
  "transition_state_map tr =
     (case tr of
        CONFIGURE \<Rightarrow> STATE_INACTIVE
      | CLEANUP \<Rightarrow> STATE_UNCONFIGURED
      | ACTIVATE \<Rightarrow> STATE_ACTIVE
      | DEACTIVATE \<Rightarrow> STATE_INACTIVE
      | UNCONFIGURED_SHUTDOWN \<Rightarrow> STATE_FINALIZED)"

definition createLifecycleServiceClients :: "'w manager \<Rightarrow> 'w manager" where
  "createLifecycleServiceClients m =
     m\<lparr>node_map := (\<lambda>n. if n \<in> set (node_names m) then Some True else node_map m n)\<rparr>"

definition destroyLifecycleServiceClients :: "'w manager \<Rightarrow> 'w manager" where
  "destroyLifecycleServiceClients m = m\<lparr>node_map := (\<lambda>n. map_option (\<lambda>_. False) (node_map m n))\<rparr>"

definition createBondConnection ::
  "'w node_services \<Rightarrow> string \<Rightarrow> 'w manager \<Rightarrow> bool \<times> 'w manager" where
  "createBondConnection svc n m =
     (if bond_map m n = None \<and> bond_timeout m > 0 then
        let (formed, w) = svc_bond_wait svc n (world m)
        in (formed, m\<lparr>bond_map := (bond_map m)(n \<mapsto> True), world := w\<rparr>)
      else (True, m))"

definition changeStateForNode ::
  "'w node_services \<Rightarrow> string \<Rightarrow> transition \<Rightarrow> 'w manager \<Rightarrow> (lc_error + bool) \<times> 'w manager" where
  "changeStateForNode svc n tr m =
     (if node_map m n \<noteq> Some True then (Inl Null_Pointer, m)
      else case change_state svc n tr (- 1) (world m) of
        (Inl e, w) \<Rightarrow> (Inl e, m\<lparr>world := w\<rparr>)
      | (Inr False, w) \<Rightarrow> (Inr False, m\<lparr>world := w\<rparr>)
      | (Inr True, w) \<Rightarrow>
          (case get_state svc n w of
             (Inl e, w') \<Rightarrow> (Inl e, m\<lparr>world := w'\<rparr>)
           | (Inr s, w') \<Rightarrow>
               let m1 = m\<lparr>world := w'\<rparr> in
               if s \<noteq> transition_state_map tr then (Inr False, m1)
               else if tr = ACTIVATE then
                 (let (b, m2) = createBondConnection svc n m1 in (Inr b, m2))
               else if tr = DEACTIVATE then (Inr True, m1\<lparr>bond_map := (bond_map m1)(n := None)\<rparr>)
               else (Inr True, m1)))"

fun changeStateLoop ::
  "'w node_services \<Rightarrow> transition \<Rightarrow> bool \<Rightarrow> string list \<Rightarrow> 'w manager
     \<Rightarrow> (lc_error + bool) \<times> 'w manager" where
  "changeStateLoop svc tr hard [] m = (Inr True, m)"
| "changeStateLoop svc tr hard (n # ns) m =
     (case changeStateForNode svc n tr m of
        (Inl Runtime_Error, m1) \<Rightarrow> (Inr False, m1)
      | (Inl Null_Pointer, m1) \<Rightarrow> (Inl Null_Pointer, m1)
      | (Inr b, m1) \<Rightarrow>
          if \<not> b \<and> \<not> hard then (Inr False, m1) else changeStateLoop svc tr hard ns m1)"

definition changeStateForAllNodes ::
  "'w node_services \<Rightarrow> transition \<Rightarrow> bool \<Rightarrow> 'w manager \<Rightarrow> (lc_error + bool) \<times> 'w manager" where
  "changeStateForAllNodes svc tr hard m =
     changeStateLoop svc tr hard
       (if tr = CONFIGURE \<or> tr = ACTIVATE then node_names m else rev (node_names m)) m"

text \<open>\<open>a || b\<close> with \<open>!\<close> on both sides, as \<open>startup\<close> and \<open>reset\<close> use it: the second call is only
  made when the first one returned true.\<close>

definition and_then ::
  "(lc_error + bool) \<times> 'w manager \<Rightarrow> ('w manager \<Rightarrow> (lc_error + bool) \<times> 'w manager)
     \<Rightarrow> (lc_error + bool) \<times> 'w manager" where
  "and_then r f = (case r of (Inr True, m) \<Rightarrow> f m | (x, m) \<Rightarrow> (x, m))"

definition createBondTimer :: "'w manager \<Rightarrow> 'w manager" where
  "createBondTimer m = (if bond_timeout m \<le> 0 then m else m\<lparr>bond_timer := True\<rparr>)"

definition destroyBondTimer :: "'w manager \<Rightarrow> 'w manager" where
  "destroyBondTimer m = m\<lparr>bond_timer := False\<rparr>"

definition startup ::
  "'w node_services \<Rightarrow> 'w manager \<Rightarrow> (lc_error + bool) \<times> 'w manager" where
  "startup svc m =
     (case and_then (changeStateForAllNodes svc CONFIGURE False m)
             (changeStateForAllNodes svc ACTIVATE False) of
        (Inl e, m1) \<Rightarrow> (Inl e, m1)
      | (Inr False, m1) \<Rightarrow> (Inr False, m1)
      | (Inr True, m1) \<Rightarrow> (Inr True, createBondTimer (m1\<lparr>system_active := True\<rparr>)))"

text \<open>\<open>shutdownAllNodes\<close> ignores the result of each sweep, but not a crash.\<close>

definition sweep ::
  "'w node_services \<Rightarrow> transition \<Rightarrow> (lc_error + unit) \<times> 'w manager
     \<Rightarrow> (lc_error + unit) \<times> 'w manager" where
  "sweep svc tr r =
     (case r of
        (Inl e, m) \<Rightarrow> (Inl e, m)
      | (Inr _, m) \<Rightarrow>
          (case changeStateForAllNodes svc tr False m of
             (Inl e, m1) \<Rightarrow> (Inl e, m1) | (Inr _, m1) \<Rightarrow> (Inr (), m1)))"

definition shutdownAllNodes ::
  "'w node_services \<Rightarrow> 'w manager \<Rightarrow> (lc_error + unit) \<times> 'w manager" where
  "shutdownAllNodes svc m =
     sweep svc UNCONFIGURED_SHUTDOWN (sweep svc CLEANUP (sweep svc DEACTIVATE (Inr (), m)))"

definition shutdown ::
  "'w node_services \<Rightarrow> 'w manager \<Rightarrow> (lc_error + bool) \<times> 'w manager" where
  "shutdown svc m =
     (case shutdownAllNodes svc (destroyBondTimer (m\<lparr>system_active := False\<rparr>)) of
        (Inl e, m1) \<Rightarrow> (Inl e, m1)
      | (Inr _, m1) \<Rightarrow> (Inr True, destroyLifecycleServiceClients m1))"

definition reset ::
  "'w node_services \<Rightarrow> bool \<Rightarrow> 'w manager \<Rightarrow> (lc_error + bool) \<times> 'w manager" where
  "reset svc hard m =
     (case and_then
             (changeStateForAllNodes svc DEACTIVATE hard
                (destroyBondTimer (m\<lparr>system_active := False\<rparr>)))
             (changeStateForAllNodes svc CLEANUP hard) of
        (Inl e, m1) \<Rightarrow> (Inl e, m1)
      | (Inr False, m1) \<Rightarrow> (Inr hard, m1)
      | (Inr True, m1) \<Rightarrow> (Inr True, m1))"

definition pause ::
  "'w node_services \<Rightarrow> 'w manager \<Rightarrow> (lc_error + bool) \<times> 'w manager" where
  "pause svc m =
     changeStateForAllNodes svc DEACTIVATE False (destroyBondTimer (m\<lparr>system_active := False\<rparr>))"

definition resume ::
  "'w node_services \<Rightarrow> 'w manager \<Rightarrow> (lc_error + bool) \<times> 'w manager" where
  "resume svc m =
     (case changeStateForAllNodes svc ACTIVATE False m of
        (Inl e, m1) \<Rightarrow> (Inl e, m1)
      | (Inr False, m1) \<Rightarrow> (Inr False, m1)
      | (Inr True, m1) \<Rightarrow> (Inr True, createBondTimer (m1\<lparr>system_active := True\<rparr>)))"

text \<open>The commands of \<open>ManageLifecycleNodes\<close>; \<open>CMD_CONFIGURE\<close> and \<open>CMD_CLEANUP\<close> have no case in the
  switch, so the response keeps its default, false.\<close>

datatype command =
  CMD_STARTUP | CMD_PAUSE | CMD_RESUME | CMD_RESET | CMD_SHUTDOWN | CMD_CONFIGURE | CMD_CLEANUP

definition managerCallback ::
  "'w node_services \<Rightarrow> command \<Rightarrow> 'w manager \<Rightarrow> (lc_error + bool) \<times> 'w manager" where
  "managerCallback svc c m =
     (case c of
        CMD_STARTUP \<Rightarrow> startup svc m
      | CMD_RESET \<Rightarrow> reset svc False m
      | CMD_SHUTDOWN \<Rightarrow> shutdown svc m
      | CMD_PAUSE \<Rightarrow> pause svc m
      | CMD_RESUME \<Rightarrow> resume svc m
      | _ \<Rightarrow> (Inr False, m))"

definition isActiveCallback :: "'w manager \<Rightarrow> bool" where
  "isActiveCallback m = system_active m"

definition onRclPreshutdown :: "'w manager \<Rightarrow> 'w manager" where
  "onRclPreshutdown m =
     (destroyBondTimer m)\<lparr>node_names := [], node_map := Map.empty, bond_map := Map.empty\<rparr>"

text \<open>\<open>checkBondConnections\<close>: the loop dereferences \<open>bond_map_[node_name]\<close> for every managed node.\<close>

fun checkBondLoop ::
  "'w node_services \<Rightarrow> string list \<Rightarrow> 'w manager \<Rightarrow> (lc_error + unit) \<times> 'w manager" where
  "checkBondLoop svc [] m = (Inr (), m)"
| "checkBondLoop svc (n # ns) m =
     (if \<not> svc_ok svc (world m) then (Inr (), m)
      else if bond_map m n \<noteq> Some True then (Inl Null_Pointer, m)
      else if svc_bond_broken svc n (world m) then
        (case reset svc True m of
           (Inl e, m1) \<Rightarrow> (Inl e, m1)
         | (Inr _, m1) \<Rightarrow>
             (Inr (), m1\<lparr>bond_map := Map.empty,
                         bond_respawn_timer :=
                           (attempt_respawn_reconnection m1 \<or> bond_respawn_timer m1)\<rparr>))
      else checkBondLoop svc ns m)"

definition checkBondConnections ::
  "'w node_services \<Rightarrow> 'w manager \<Rightarrow> (lc_error + unit) \<times> 'w manager" where
  "checkBondConnections svc m =
     (if \<not> system_active m \<or> \<not> svc_ok svc (world m) \<or> bond_map m = Map.empty then (Inr (), m)
      else checkBondLoop svc (node_names m) m)"

text \<open>\<open>checkBondRespawnConnection\<close>: \<open>count_live\<close> is its loop; \<open>None\<close> is the early return when
  \<open>rclcpp::ok\<close> fails, and a failing \<open>get_state\<close> ends the count.\<close>

fun count_live ::
  "'w node_services \<Rightarrow> string list \<Rightarrow> nat \<Rightarrow> 'w manager \<Rightarrow> (lc_error + nat option) \<times> 'w manager" where
  "count_live svc [] k m = (Inr (Some k), m)"
| "count_live svc (n # ns) k m =
     (if \<not> svc_ok svc (world m) then (Inr None, m)
      else if node_map m n \<noteq> Some True then (Inl Null_Pointer, m)
      else case get_state svc n (world m) of
        (Inr _, w) \<Rightarrow> count_live svc ns (Suc k) (m\<lparr>world := w\<rparr>)
      | (Inl _, w) \<Rightarrow> (Inr (Some k), m\<lparr>world := w\<rparr>))"

definition stopRespawn :: "'w manager \<Rightarrow> 'w manager" where
  "stopRespawn m = m\<lparr>bond_respawn_start_time := 0, bond_respawn_timer := False\<rparr>"

definition checkBondRespawnConnection ::
  "'w node_services \<Rightarrow> 'w manager \<Rightarrow> (lc_error + unit) \<times> 'w manager" where
  "checkBondRespawnConnection svc m0 =
     (let m = (if bond_respawn_start_time m0 = 0
               then m0\<lparr>bond_respawn_start_time := svc_now svc (world m0)\<rparr> else m0) in
      if system_active m \<or> \<not> svc_ok svc (world m) \<or> node_names m = [] then (Inr (), stopRespawn m)
      else case count_live svc (node_names m) 0 m of
        (Inl e, m1) \<Rightarrow> (Inl e, m1)
      | (Inr None, m1) \<Rightarrow> (Inr (), m1)
      | (Inr (Some live), m1) \<Rightarrow>
          if live = length (node_names m1) then
            (case startup svc (stopRespawn m1) of
               (Inl e, m2) \<Rightarrow> (Inl e, m2) | (Inr _, m2) \<Rightarrow> (Inr (), m2))
          else if svc_now svc (world m1) - bond_respawn_start_time m1
                    \<ge> bond_respawn_max_duration m1
          then (Inr (), stopRespawn m1)
          else (Inr (), m1))"

text \<open>The first timer of the constructor creates the service clients; with \<open>autostart_\<close> a second
  timer then calls \<open>startup\<close>.\<close>

definition initTimer ::
  "'w node_services \<Rightarrow> bool \<Rightarrow> 'w manager \<Rightarrow> (lc_error + bool) \<times> 'w manager" where
  "initTimer svc autostart m =
     (let m1 = createLifecycleServiceClients m in
      if autostart then startup svc m1 else (Inr False, m1))"

lemmas [lifecycle_ops] =
  createLifecycleServiceClients_def destroyLifecycleServiceClients_def createBondTimer_def
  destroyBondTimer_def startup_def sweep_def shutdownAllNodes_def shutdown_def reset_def pause_def
  resume_def managerCallback_def onRclPreshutdown_def stopRespawn_def initTimer_def

end
