(* ===== verification/Lifecycle_Manager_Laws.thy ===== *)
theory Lifecycle_Manager_Laws
  imports Lifecycle_Manager
begin

text \<open>
  Theorems on the lifecycle manager. The step relation \<open>lcm_step\<close> runs its callbacks, all of one
  mutually exclusive callback group, in any order; the invariant \<open>lcm_inv\<close> holds in every
  state it reaches, so that the bond watchdog never meets a null pointer. The properties themselves
  are in \<open>Lifecycle_Manager_Props\<close>.
\<close>

section \<open>The callbacks as a step relation\<close>

datatype lcm_event =
  Ev_Init bool | Ev_Command command | Ev_Bond_Timer | Ev_Respawn_Timer | Ev_Preshutdown

definition forget :: "(lc_error + 'a) \<times> 'w manager \<Rightarrow> (lc_error + unit) \<times> 'w manager" where
  "forget r = (map_sum id (\<lambda>_. ()) (fst r), snd r)"

definition lcm_event ::
  "'w node_services \<Rightarrow> lcm_event \<Rightarrow> 'w manager \<Rightarrow> (lc_error + unit) \<times> 'w manager" where
  "lcm_event svc e m =
     (case e of
        Ev_Init autostart \<Rightarrow> forget (initTimer svc autostart m)
      | Ev_Command c \<Rightarrow> forget (managerCallback svc c m)
      | Ev_Bond_Timer \<Rightarrow> if bond_timer m then checkBondConnections svc m else (Inr (), m)
      | Ev_Respawn_Timer \<Rightarrow> if bond_respawn_timer m then checkBondRespawnConnection svc m else (Inr (), m)
      | Ev_Preshutdown \<Rightarrow> (Inr (), onRclPreshutdown m))"

text \<open>States of the manager process: between two callbacks the world may change in any way; a
  callback that crashes ends the run.\<close>

inductive lcm_reachable :: "'w node_services \<Rightarrow> 'w manager \<Rightarrow> 'w manager \<Rightarrow> bool"
  for svc :: "'w node_services" and m0 :: "'w manager" where
  lcm_start: "lcm_reachable svc m0 m0"
| lcm_world: "lcm_reachable svc m0 m \<Longrightarrow> lcm_reachable svc m0 (m\<lparr>world := w\<rparr>)"
| lcm_callback: "lcm_reachable svc m0 m \<Longrightarrow> lcm_event svc e m = (Inr (), m')
    \<Longrightarrow> lcm_reachable svc m0 m'"

section \<open>What the operations leave alone\<close>

text \<open>\<open>same_config m m'\<close>: the configuration and the timers of the two states agree.\<close>

definition same_config :: "'w manager \<Rightarrow> 'w manager \<Rightarrow> bool" where
  "same_config m m' \<longleftrightarrow>
     node_names m' = node_names m \<and> bond_timeout m' = bond_timeout m \<and>
     node_map m' = node_map m \<and> system_active m' = system_active m \<and> bond_timer m' = bond_timer m \<and>
     bond_respawn_timer m' = bond_respawn_timer m \<and>
     attempt_respawn_reconnection m' = attempt_respawn_reconnection m"

lemma same_config_refl [simp]: "same_config m m"
  by (simp add: same_config_def)

lemma same_config_trans: "same_config a b \<Longrightarrow> same_config b c \<Longrightarrow> same_config a c"
  by (simp add: same_config_def)

lemma createBondConnection_config:
  "createBondConnection svc n m = (b, m') \<Longrightarrow> same_config m m'"
  by (auto simp: createBondConnection_def same_config_def Let_def split: if_splits prod.splits)

lemma changeStateForNode_config:
  assumes "changeStateForNode svc n tr m = (r, m')"
  shows "same_config m m'"
  using assms createBondConnection_config [of svc n]
  unfolding changeStateForNode_def same_config_def
  by (fastforce simp: Let_def split: if_splits prod.splits sum.splits bool.splits)

lemma changeStateLoop_config:
  "changeStateLoop svc tr hard ns m = (r, m') \<Longrightarrow> same_config m m'"
proof (induction ns arbitrary: m)
  case Nil
  then show ?case by simp
next
  case (Cons n ns)
  obtain r1 m1 where c: "changeStateForNode svc n tr m = (r1, m1)"
    by fastforce
  show ?case
    using Cons.prems Cons.IH [of m1] changeStateForNode_config [OF c] same_config_trans
    by (fastforce simp: c split: sum.splits lc_error.splits if_splits)
qed

lemma changeStateForAllNodes_config:
  "changeStateForAllNodes svc tr hard m = (r, m') \<Longrightarrow> same_config m m'"
  unfolding changeStateForAllNodes_def by (rule changeStateLoop_config)

text \<open>A sweep crashes only through a null client.\<close>

definition clients_ok :: "'w manager \<Rightarrow> bool" where
  "clients_ok m \<longleftrightarrow> (\<forall>n \<in> set (node_names m). node_map m n = Some True)"

lemma changeStateForNode_Runtime:
  "node_map m n = Some True \<Longrightarrow> changeStateForNode svc n tr m = (Inl e, m') \<Longrightarrow> e = Runtime_Error"
  by (auto simp: changeStateForNode_def change_state_def get_state_def Let_def
      split: if_splits prod.splits sum.splits bool.splits change_reply.splits state_reply.splits)

lemma changeStateLoop_no_crash:
  assumes "\<forall>n \<in> set ns. node_map m n = Some True" and "changeStateLoop svc tr hard ns m = (r, m')"
  shows "\<exists>b. r = Inr b"
  using assms
proof (induction ns arbitrary: m)
  case Nil
  then show ?case by auto
next
  case (Cons n ns)
  obtain r1 m1 where c: "changeStateForNode svc n tr m = (r1, m1)"
    by fastforce
  then have "node_map m1 = node_map m"
    using changeStateForNode_config by (fastforce simp: same_config_def)
  then show ?case
    using Cons.prems Cons.IH [of m1] c changeStateForNode_Runtime [of m n svc tr]
    by (fastforce split: sum.splits lc_error.splits if_splits)
qed

lemma changeStateForAllNodes_no_crash:
  "clients_ok m \<Longrightarrow> changeStateForAllNodes svc tr hard m = (r, m') \<Longrightarrow> \<exists>b. r = Inr b"
  unfolding changeStateForAllNodes_def clients_ok_def
  by (rule changeStateLoop_no_crash) (auto split: if_splits)

lemma changeStateLoop_clients:
  "changeStateLoop svc tr hard ns m = (Inr True, m') \<Longrightarrow> \<forall>n \<in> set ns. node_map m n = Some True"
proof (induction ns arbitrary: m)
  case Nil
  then show ?case by simp
next
  case (Cons n ns)
  obtain r1 m1 where c: "changeStateForNode svc n tr m = (r1, m1)"
    by fastforce
  then have "node_map m1 = node_map m"
    using changeStateForNode_config by (fastforce simp: same_config_def)
  moreover have "node_map m n = Some True"
    using Cons.prems c
    by (cases "node_map m n = Some True") (auto simp: changeStateForNode_def split: if_splits)
  ultimately show ?case
    using Cons.prems Cons.IH [of m1] c by (auto split: sum.splits lc_error.splits if_splits)
qed

section \<open>The bond table\<close>

definition bonds_ok :: "'w manager \<Rightarrow> bool" where
  "bonds_ok m \<longleftrightarrow> (\<forall>n. bond_map m n \<noteq> Some False)"

text \<open>\<open>bonded m ns\<close>: every node of the list has a bond object, or bonds are switched off.\<close>

definition bonded :: "'w manager \<Rightarrow> string list \<Rightarrow> bool" where
  "bonded m ns \<longleftrightarrow> (bond_timeout m > 0 \<longrightarrow> (\<forall>n \<in> set ns. bond_map m n = Some True))"

lemma bonds_okD: "bonds_ok m \<Longrightarrow> bond_map m n = Some b \<Longrightarrow> bond_map m n = Some True"
  by (cases b) (auto simp: bonds_ok_def)

lemma changeStateForNode_bonds:
  assumes "changeStateForNode svc n tr m = (r, m')" and "bonds_ok m"
  shows "bonds_ok m'" and "tr \<noteq> DEACTIVATE \<Longrightarrow> bond_map m \<subseteq>\<^sub>m bond_map m'"
  using assms
  by (auto simp: changeStateForNode_def createBondConnection_def bonds_ok_def map_le_def
      Let_def split: if_splits prod.splits sum.splits bool.splits)

lemma activate_node_bonded:
  assumes "changeStateForNode svc n ACTIVATE m = (Inr True, m')" and "bonds_ok m"
  shows "bonded m' [n]"
  using assms bonds_okD [OF assms(2), of n]
  by (cases "bond_map m n")
    (auto simp: changeStateForNode_def createBondConnection_def bonded_def
      Let_def split: if_splits prod.splits sum.splits bool.splits)

lemma changeStateLoop_bonds:
  assumes "changeStateLoop svc tr hard ns m = (r, m')" and "bonds_ok m"
  shows "bonds_ok m' \<and> (tr \<noteq> DEACTIVATE \<longrightarrow> bond_map m \<subseteq>\<^sub>m bond_map m')"
  using assms
proof (induction ns arbitrary: m)
  case Nil
  then show ?case by simp
next
  case (Cons n ns)
  obtain r1 m1 where c: "changeStateForNode svc n tr m = (r1, m1)"
    by fastforce
  have b: "bonds_ok m1" and le: "tr \<noteq> DEACTIVATE \<longrightarrow> bond_map m \<subseteq>\<^sub>m bond_map m1"
    using changeStateForNode_bonds [OF c Cons.prems(2)] by auto
  consider "changeStateLoop svc tr hard ns m1 = (r, m')" | "m' = m1"
    using Cons.prems(1) c by (auto split: sum.splits lc_error.splits if_splits)
  then show ?case
    using b le Cons.IH [of m1] map_le_trans by cases blast+
qed

lemma activate_loop_bonded:
  assumes "changeStateLoop svc ACTIVATE False ns m = (Inr True, m')" and "bonds_ok m"
  shows "bonded m' ns"
  using assms
proof (induction ns arbitrary: m)
  case Nil
  then show ?case by (simp add: bonded_def)
next
  case (Cons n ns)
  obtain r1 m1 where c: "changeStateForNode svc n ACTIVATE m = (r1, m1)"
    by fastforce
  then have r1: "r1 = Inr True" and l: "changeStateLoop svc ACTIVATE False ns m1 = (Inr True, m')"
    using Cons.prems(1) by (auto split: sum.splits lc_error.splits if_splits)
  have b: "bonds_ok m1" and n: "bonded m1 [n]"
    using changeStateForNode_bonds [OF c Cons.prems(2)] activate_node_bonded c r1 Cons.prems(2)
    by auto
  have "bonded m' ns" and "bond_map m1 \<subseteq>\<^sub>m bond_map m'" and "bond_timeout m' = bond_timeout m1"
    using Cons.IH [OF l b] changeStateLoop_bonds [OF l b] changeStateLoop_config [OF l]
    by (auto simp: same_config_def)
  then show ?case
    using n by (auto simp: bonded_def dest: map_le_SomeD)
qed

section \<open>The invariant of the manager\<close>

definition lcm_inv :: "'w manager \<Rightarrow> bool" where
  "lcm_inv m \<longleftrightarrow>
     bonds_ok m \<and> (bond_timer m \<longrightarrow> system_active m \<and> 0 < bond_timeout m) \<and>
     (system_active m \<longrightarrow> clients_ok m \<and> bonded m (node_names m))"

lemma sweep_inv:
  assumes "changeStateForAllNodes svc tr hard m = (r, m')" and "lcm_inv m"
    and "tr = DEACTIVATE \<Longrightarrow> \<not> system_active m"
  shows "lcm_inv m'"
proof -
  have "same_config m m'" "bonds_ok m'" "tr \<noteq> DEACTIVATE \<longrightarrow> bond_map m \<subseteq>\<^sub>m bond_map m'"
    using assms changeStateForAllNodes_config changeStateLoop_bonds
    unfolding changeStateForAllNodes_def lcm_inv_def by blast+
  then show ?thesis
    using assms(2,3)
    by (cases "tr = DEACTIVATE")
      (auto simp: lcm_inv_def same_config_def clients_ok_def bonded_def dest: map_le_SomeD)
qed

lemma activated_inv:
  assumes "changeStateForAllNodes svc ACTIVATE False m = (Inr True, m')" and "lcm_inv m"
  shows "lcm_inv (createBondTimer (m'\<lparr>system_active := True\<rparr>))"
proof -
  have l: "changeStateLoop svc ACTIVATE False (node_names m) m = (Inr True, m')"
    using assms(1) by (simp add: changeStateForAllNodes_def)
  have "bonded m' (node_names m)" "bonds_ok m'" "same_config m m'" "clients_ok m"
    using activate_loop_bonded [OF l] changeStateLoop_bonds [OF l] changeStateLoop_config [OF l]
      changeStateLoop_clients [OF l] assms(2) by (auto simp: lcm_inv_def clients_ok_def)
  moreover have "bond_timer m \<longrightarrow> 0 < bond_timeout m"
    using assms(2) by (simp add: lcm_inv_def)
  ultimately show ?thesis
    by (auto simp: lcm_inv_def createBondTimer_def clients_ok_def bonds_ok_def bonded_def
        same_config_def)
qed

lemma deactivated_inv:
  "lcm_inv m \<Longrightarrow> lcm_inv (destroyBondTimer (m\<lparr>system_active := False\<rparr>))"
  by (auto simp: lcm_inv_def destroyBondTimer_def bonds_ok_def)

lemma startup_inv:
  assumes "startup svc m = (r, m')" and "lcm_inv m"
  shows "lcm_inv m'"
proof -
  obtain r1 m1 where c: "changeStateForAllNodes svc CONFIGURE False m = (r1, m1)"
    by fastforce
  obtain r2 m2 where a: "changeStateForAllNodes svc ACTIVATE False m1 = (r2, m2)"
    by fastforce
  have i1: "lcm_inv m1"
    using sweep_inv [OF c assms(2)] by simp
  have "lcm_inv m2"
    using sweep_inv [OF a i1] by simp
  then show ?thesis
    using assms(1) c a i1 activated_inv [OF _ i1]
    by (auto simp: startup_def and_then_def split: sum.splits bool.splits)
qed

lemma resume_inv:
  assumes "resume svc m = (r, m')" and "lcm_inv m"
  shows "lcm_inv m'"
proof -
  obtain r1 m1 where a: "changeStateForAllNodes svc ACTIVATE False m = (r1, m1)"
    by fastforce
  have "lcm_inv m1"
    using sweep_inv [OF a assms(2)] by simp
  then show ?thesis
    using assms(1) a activated_inv [OF _ assms(2)]
    by (auto simp: resume_def split: sum.splits bool.splits)
qed

text \<open>The three operations that take the system down start from an inactive state, which the
  sweeps keep.\<close>

lemma inactive_sweep:
  assumes "changeStateForAllNodes svc tr hard m = (r, m')" and "lcm_inv m" and "\<not> system_active m"
  shows "lcm_inv m' \<and> \<not> system_active m'"
  using sweep_inv [OF assms(1,2)] changeStateForAllNodes_config [OF assms(1)] assms(3)
  by (simp add: same_config_def)

lemma reset_inv:
  assumes "reset svc hard m = (r, m')" and "lcm_inv m"
  shows "lcm_inv m' \<and> \<not> system_active m'"
proof -
  let ?m = "destroyBondTimer (m\<lparr>system_active := False\<rparr>)"
  obtain r1 m1 where d: "changeStateForAllNodes svc DEACTIVATE hard ?m = (r1, m1)"
    by fastforce
  obtain r2 m2 where c: "changeStateForAllNodes svc CLEANUP hard m1 = (r2, m2)"
    by fastforce
  have 1: "lcm_inv m1 \<and> \<not> system_active m1"
    using inactive_sweep [OF d deactivated_inv [OF assms(2)]] by (simp add: destroyBondTimer_def)
  then have "lcm_inv m2 \<and> \<not> system_active m2"
    using inactive_sweep [OF c] by simp
  then show ?thesis
    using 1 assms(1) d c by (auto simp: reset_def and_then_def split: sum.splits bool.splits)
qed

lemma pause_inv:
  assumes "pause svc m = (r, m')" and "lcm_inv m"
  shows "lcm_inv m' \<and> \<not> system_active m'"
  using assms inactive_sweep [OF _ deactivated_inv [OF assms(2)]]
  by (simp add: pause_def destroyBondTimer_def)

lemma sweep_step_inv:
  assumes "lcm_inv (snd x) \<and> \<not> system_active (snd x)"
  shows "lcm_inv (snd (sweep svc tr x)) \<and> \<not> system_active (snd (sweep svc tr x))"
  using assms by (auto simp: sweep_def split: prod.splits sum.splits dest!: inactive_sweep)

lemma shutdown_inv:
  assumes "shutdown svc m = (r, m')" and "lcm_inv m"
  shows "lcm_inv m' \<and> \<not> system_active m'"
proof -
  let ?m = "destroyBondTimer (m\<lparr>system_active := False\<rparr>)"
  obtain r1 m1 where d: "shutdownAllNodes svc ?m = (r1, m1)"
    by fastforce
  have "lcm_inv ?m \<and> \<not> system_active ?m"
    using deactivated_inv [OF assms(2)] by (simp add: destroyBondTimer_def)
  then have "lcm_inv (snd (shutdownAllNodes svc ?m)) \<and> \<not> system_active (snd (shutdownAllNodes svc ?m))"
    unfolding shutdownAllNodes_def by (intro sweep_step_inv) simp
  then show ?thesis
    using assms(1) d
    by (auto simp: shutdown_def destroyLifecycleServiceClients_def lcm_inv_def bonds_ok_def
        split: sum.splits)
qed

lemma checkBondLoop_inv:
  "checkBondLoop svc ns m = (Inr u, m') \<Longrightarrow> lcm_inv m \<Longrightarrow> lcm_inv m'"
proof (induction ns)
  case (Cons n ns)
  obtain r1 m1 where "reset svc True m = (r1, m1)"
    by fastforce
  then show ?case
    using Cons reset_inv [of svc True m r1 m1]
    by (auto simp: lcm_inv_def bonds_ok_def split: if_splits sum.splits)
qed simp

lemma checkBondConnections_inv:
  "checkBondConnections svc m = (Inr u, m') \<Longrightarrow> lcm_inv m \<Longrightarrow> lcm_inv m'"
  using checkBondLoop_inv by (fastforce simp: checkBondConnections_def split: if_splits)

lemma count_live_world:
  "count_live svc ns k m = (r, m') \<Longrightarrow> \<exists>w. m' = m\<lparr>world := w\<rparr>"
proof (induction ns arbitrary: k m)
  case (Cons n ns)
  have id: "\<exists>w. m = m\<lparr>world := w\<rparr>"
    by (intro exI [of _ "world m"]) simp
  obtain r1 w1 where g: "get_state svc n (world m) = (r1, w1)"
    by fastforce
  then show ?case
    using Cons.prems Cons.IH [of "Suc k" "m\<lparr>world := w1\<rparr>"] id
    by (auto split: if_splits sum.splits)
qed (auto intro: exI [of _ "world m'"])

lemma lcm_inv_world [simp]: "lcm_inv (m\<lparr>world := w\<rparr>) = lcm_inv m"
  by (simp add: lcm_inv_def bonds_ok_def clients_ok_def bonded_def)

lemma lcm_inv_respawn_time [simp]: "lcm_inv (m\<lparr>bond_respawn_start_time := t\<rparr>) = lcm_inv m"
  by (simp add: lcm_inv_def bonds_ok_def clients_ok_def bonded_def)

lemma lcm_inv_stopRespawn [simp]: "lcm_inv (stopRespawn m) = lcm_inv m"
  by (simp add: lcm_inv_def bonds_ok_def clients_ok_def bonded_def stopRespawn_def)

lemma checkBondRespawnConnection_inv:
  assumes "checkBondRespawnConnection svc m0 = (Inr u, m')" and "lcm_inv m0"
  shows "lcm_inv m'"
proof -
  let ?m = "if bond_respawn_start_time m0 = 0
            then m0\<lparr>bond_respawn_start_time := svc_now svc (world m0)\<rparr> else m0"
  have i: "lcm_inv ?m"
    using assms(2) by simp
  obtain r m1 where c: "count_live svc (node_names ?m) 0 ?m = (r, m1)"
    by fastforce
  have i1: "lcm_inv m1"
    using i count_live_world [OF c] by auto
  obtain r2 m2 where st: "startup svc (stopRespawn m1) = (r2, m2)"
    by fastforce
  have "lcm_inv m2"
    using startup_inv [OF st] i1 by simp
  then show ?thesis
    using assms(1) i i1 unfolding checkBondRespawnConnection_def Let_def c
    by (auto simp: st split: if_splits sum.splits option.splits)
qed

lemma managerCallback_inv:
  "managerCallback svc c m = (r, m') \<Longrightarrow> lcm_inv m \<Longrightarrow> lcm_inv m'"
  by (cases c)
    (auto simp: managerCallback_def
      dest: startup_inv reset_inv shutdown_inv pause_inv resume_inv)

lemma createLifecycleServiceClients_inv:
  "lcm_inv m \<Longrightarrow> lcm_inv (createLifecycleServiceClients m)"
  by (auto simp: lcm_inv_def createLifecycleServiceClients_def bonds_ok_def clients_ok_def bonded_def)

lemma initTimer_inv:
  "initTimer svc autostart m = (r, m') \<Longrightarrow> lcm_inv m \<Longrightarrow> lcm_inv m'"
  using createLifecycleServiceClients_inv startup_inv
  by (fastforce simp: initTimer_def Let_def split: if_splits)

lemma onRclPreshutdown_inv: "lcm_inv m \<Longrightarrow> lcm_inv (onRclPreshutdown m)"
  by (auto simp: lcm_inv_def onRclPreshutdown_def destroyBondTimer_def bonds_ok_def clients_ok_def
      bonded_def)

lemma forget_Inr: "forget r = (Inr (), m') \<Longrightarrow> \<exists>b. r = (Inr b, m')"
  by (cases r; cases "fst r") (auto simp: forget_def)

lemma lcm_event_inv:
  assumes "lcm_event svc e m = (Inr (), m')" and "lcm_inv m"
  shows "lcm_inv m'"
proof (cases e)
  case (Ev_Init a)
  then show ?thesis
    using assms initTimer_inv by (fastforce simp: lcm_event_def dest!: forget_Inr)
next
  case (Ev_Command c)
  then show ?thesis
    using assms managerCallback_inv by (fastforce simp: lcm_event_def dest!: forget_Inr)
next
  case Ev_Bond_Timer
  then show ?thesis
    using assms checkBondConnections_inv by (fastforce simp: lcm_event_def split: if_splits)
next
  case Ev_Respawn_Timer
  then show ?thesis
    using assms checkBondRespawnConnection_inv by (fastforce simp: lcm_event_def split: if_splits)
next
  case Ev_Preshutdown
  then show ?thesis
    using assms onRclPreshutdown_inv by (fastforce simp: lcm_event_def)
qed

lemma manager_init_inv: "lcm_inv (manager_init names respawn timeout_ms max_dur w)"
  by (simp add: manager_init_def lcm_inv_def bonds_ok_def)

lemma lcm_reachable_inv: "lcm_reachable svc m0 m \<Longrightarrow> lcm_inv m0 \<Longrightarrow> lcm_inv m"
  by (induction rule: lcm_reachable.induct) (auto intro: lcm_event_inv)

text \<open>Under the invariant the watchdog never meets a null bond or a null client.\<close>

lemma reset_no_crash:
  assumes "clients_ok m" and "reset svc hard m = (r, m')"
  shows "\<exists>b. r = Inr b"
proof -
  let ?m = "destroyBondTimer (m\<lparr>system_active := False\<rparr>)"
  obtain r1 m1 where d: "changeStateForAllNodes svc DEACTIVATE hard ?m = (r1, m1)"
    by fastforce
  obtain r2 m2 where c: "changeStateForAllNodes svc CLEANUP hard m1 = (r2, m2)"
    by fastforce
  have ok: "clients_ok ?m" "clients_ok m1"
    using assms(1) changeStateForAllNodes_config [OF d]
    by (auto simp: clients_ok_def destroyBondTimer_def same_config_def)
  then show ?thesis
    using assms(2) d c changeStateForAllNodes_no_crash [OF ok(1) d]
      changeStateForAllNodes_no_crash [OF ok(2) c]
    by (auto simp: reset_def and_then_def split: bool.splits)
qed

lemma checkBondLoop_no_crash:
  assumes "\<forall>n \<in> set ns. bond_map m n = Some True" and "clients_ok m"
  shows "\<exists>m'. checkBondLoop svc ns m = (Inr (), m')"
  using assms(1)
proof (induction ns)
  case (Cons n ns)
  obtain r1 m1 where r: "reset svc True m = (r1, m1)"
    by fastforce
  then show ?case
    using Cons reset_no_crash [OF assms(2) r] by auto
qed simp

lemma bond_timer_no_crash:
  assumes "lcm_inv m" and "0 < bond_timeout m"
  shows "\<exists>m'. checkBondConnections svc m = (Inr (), m')"
  using assms checkBondLoop_no_crash [of "node_names m" m svc]
  by (auto simp: checkBondConnections_def lcm_inv_def bonded_def)

lemma bond_event_no_crash:
  assumes "lcm_inv m"
  shows "\<exists>m'. lcm_event svc Ev_Bond_Timer m = (Inr (), m')"
  using assms bond_timer_no_crash [OF assms, of svc] by (auto simp: lcm_event_def lcm_inv_def)


text \<open>What the watchdog leaves behind when it finds a broken bond.\<close>

lemma reset_attempt:
  assumes "reset svc hard m = (r, m')"
  shows "attempt_respawn_reconnection m' = attempt_respawn_reconnection m"
proof -
  let ?m = "destroyBondTimer (m\<lparr>system_active := False\<rparr>)"
  obtain r1 m1 where d: "changeStateForAllNodes svc DEACTIVATE hard ?m = (r1, m1)"
    by fastforce
  obtain r2 m2 where c: "changeStateForAllNodes svc CLEANUP hard m1 = (r2, m2)"
    by fastforce
  show ?thesis
    using assms d c changeStateForAllNodes_config [OF d] changeStateForAllNodes_config [OF c]
    by (auto simp: reset_def and_then_def same_config_def destroyBondTimer_def
        split: sum.splits bool.splits)
qed

lemma checkBondLoop_reacts:
  assumes "checkBondLoop svc ns m = (Inr (), m')" and "lcm_inv m" and "svc_ok svc (world m)"
    and "\<exists>n \<in> set ns. svc_bond_broken svc n (world m)"
  shows "\<not> system_active m' \<and> bond_map m' = Map.empty \<and> \<not> bond_timer m' \<and>
    (attempt_respawn_reconnection m \<longrightarrow> bond_respawn_timer m')"
  using assms(1,4)
proof (induction ns)
  case (Cons n ns)
  obtain r1 m1 where r: "reset svc True m = (r1, m1)"
    by fastforce
  have "lcm_inv m1 \<and> \<not> system_active m1"
    using reset_inv [OF r assms(2)] .
  then show ?case
    using Cons reset_attempt [OF r] r assms(3)
    by (auto simp: lcm_inv_def split: if_splits sum.splits)
qed simp

lemma bond_event_reacts:
  assumes "lcm_inv m" and "lcm_event svc Ev_Bond_Timer m = (Inr (), m')" and "bond_timer m"
    and "svc_ok svc (world m)" and "\<exists>n \<in> set (node_names m). svc_bond_broken svc n (world m)"
  shows "\<not> system_active m' \<and> bond_map m' = Map.empty \<and> \<not> bond_timer m' \<and>
    (attempt_respawn_reconnection m \<longrightarrow> bond_respawn_timer m')"
proof -
  have "system_active m" "bond_map m \<noteq> Map.empty"
    using assms(1,3,5) by (auto simp: lcm_inv_def bonded_def)
  then show ?thesis
    using assms checkBondLoop_reacts [of svc "node_names m" m m']
    by (simp add: lcm_event_def checkBondConnections_def)
qed


text \<open>\<open>shutdown\<close> returns when the clients exist, and leaves them null.\<close>

lemma sweep_config: "same_config m (snd x) \<Longrightarrow> same_config m (snd (sweep svc tr x))"
  by (auto simp: sweep_def split: prod.splits sum.splits
      dest!: changeStateForAllNodes_config intro: same_config_trans)

lemma shutdown_leaves:
  assumes "shutdown svc m = (Inr True, m')"
  shows "node_names m' = node_names m \<and> node_map m' n \<noteq> Some True \<and> \<not> system_active m' \<and>
    bond_respawn_timer m' = bond_respawn_timer m"
proof -
  let ?m = "destroyBondTimer (m\<lparr>system_active := False\<rparr>)"
  have "same_config ?m (snd (shutdownAllNodes svc ?m))"
    unfolding shutdownAllNodes_def by (intro sweep_config) simp
  then show ?thesis
    using assms
    by (auto simp: shutdown_def destroyLifecycleServiceClients_def same_config_def
        destroyBondTimer_def split: prod.splits sum.splits)
qed

lemma sweep_returns:
  assumes "fst x = Inr ()" and "clients_ok (snd x)"
  shows "fst (sweep svc tr x) = Inr () \<and> clients_ok (snd (sweep svc tr x))"
proof -
  obtain r m1 where s: "changeStateForAllNodes svc tr False (snd x) = (r, m1)"
    by fastforce
  show ?thesis
    using assms changeStateForAllNodes_no_crash [OF assms(2) s] changeStateForAllNodes_config [OF s] s
    by (auto simp: sweep_def clients_ok_def same_config_def split: prod.splits)
qed

lemma shutdown_returns:
  assumes "clients_ok m"
  shows "\<exists>m'. shutdown svc m = (Inr True, m')"
proof -
  let ?m = "destroyBondTimer (m\<lparr>system_active := False\<rparr>)"
  have "fst (shutdownAllNodes svc ?m) = Inr ()"
    unfolding shutdownAllNodes_def
    by (intro sweep_returns [THEN conjunct1] sweep_returns [THEN conjunct2])
      (use assms in \<open>auto simp: clients_ok_def destroyBondTimer_def\<close>)
  then show ?thesis
    by (auto simp: shutdown_def split: prod.splits sum.splits)
qed

end
