(* ===== verification/Lifecycle_Manager_Props.thy ===== *)
theory Lifecycle_Manager_Props
  imports Lifecycle_Manager_Laws
begin

text \<open>
  The properties of the lifecycle manager. The locale \<open>managed_nodes\<close> states what the manager
  relies on of the nodes it manages: a state query reports the state of the node, and only a
  node's own transition request changes it. \<open>cooperative_nodes\<close> adds that every legal transition is
  carried out and that bonds form. Both are interpreted on \<open>net_services\<close>, nodes that follow the
  ROS 2 lifecycle state machine.
\<close>

section \<open>Interface of the managed nodes\<close>

lemma changeStateLoop_keeps_bonds:
  "changeStateLoop svc CLEANUP hard ns m = (r, m') \<Longrightarrow> bond_map m' = bond_map m"
proof (induction ns arbitrary: m)
  case (Cons n ns)
  obtain r1 m1 where c: "changeStateForNode svc n CLEANUP m = (r1, m1)"
    by fastforce
  then have "bond_map m1 = bond_map m"
    by (auto simp: changeStateForNode_def Let_def split: if_splits prod.splits sum.splits bool.splits)
  then show ?case
    using Cons c by (auto split: sum.splits lc_error.splits if_splits)
qed simp

locale managed_nodes =
  fixes svc :: "'w node_services"
    and node_state :: "'w \<Rightarrow> string \<Rightarrow> primary_state"
  assumes get_reports: "svc_get svc n w = (State_Is s, w') \<Longrightarrow> s = node_state w n"
    and get_keeps: "svc_get svc n w = (r, w') \<Longrightarrow> node_state w' = node_state w"
    and change_keeps_others: "svc_change svc n tr w = (c, w') \<Longrightarrow> n' \<noteq> n \<Longrightarrow>
      node_state w' n' = node_state w n'"
    and bond_keeps: "svc_bond_wait svc n w = (b, w') \<Longrightarrow> node_state w' = node_state w"
begin

abbreviation st :: "'w manager \<Rightarrow> string \<Rightarrow> primary_state" where
  "st m \<equiv> node_state (world m)"

lemma get_reached: "svc_get svc n w = (State_Is s, w') \<Longrightarrow> node_state w' n = s"
  using get_reports get_keeps by fastforce

lemma get_bond_reached:
  "svc_get svc n w = (State_Is s, w') \<Longrightarrow> svc_bond_wait svc n' w' = (b, w'') \<Longrightarrow> node_state w'' n = s"
  using get_reached bond_keeps by fastforce

lemma changeStateForNode_reached:
  assumes "changeStateForNode svc n tr m = (Inr True, m')"
  shows "st m' n = transition_state_map tr"
  using assms
  by (auto simp: changeStateForNode_def createBondConnection_def get_state_def Let_def
      split: if_splits prod.splits sum.splits bool.splits state_reply.splits
      dest: get_reached get_bond_reached)

lemma change_get_others:
  "svc_change svc n tr w = (c, w1) \<Longrightarrow> svc_get svc n w1 = (r, w2) \<Longrightarrow> n' \<noteq> n \<Longrightarrow>
     node_state w2 n' = node_state w n'"
  using change_keeps_others get_keeps by metis

lemma change_bond_others:
  "svc_change svc n tr w = (c, w1) \<Longrightarrow> svc_get svc n w1 = (r, w2) \<Longrightarrow>
     svc_bond_wait svc n w2 = (b, w3) \<Longrightarrow> n' \<noteq> n \<Longrightarrow> node_state w3 n' = node_state w n'"
  using change_get_others bond_keeps by metis

lemma changeStateForNode_others:
  assumes "changeStateForNode svc n tr m = (r, m')" and "n' \<noteq> n"
  shows "st m' n' = st m n'"
  using assms
  by (auto simp: changeStateForNode_def createBondConnection_def get_state_def change_state_def
      Let_def split: if_splits prod.splits sum.splits bool.splits state_reply.splits
      change_reply.splits
      intro: change_keeps_others change_get_others change_bond_others)

lemma changeStateLoop_others:
  "changeStateLoop svc tr hard ns m = (r, m') \<Longrightarrow> n' \<notin> set ns \<Longrightarrow> st m' n' = st m n'"
proof (induction ns arbitrary: m)
  case (Cons n ns)
  obtain r1 m1 where c: "changeStateForNode svc n tr m = (r1, m1)"
    by fastforce
  then show ?case
    using Cons changeStateForNode_others [OF c, of n']
    by (auto split: sum.splits lc_error.splits if_splits)
qed simp

lemma changeStateLoop_reached:
  "changeStateLoop svc tr False ns m = (Inr True, m') \<Longrightarrow>
     \<forall>n \<in> set ns. st m' n = transition_state_map tr"
proof (induction ns arbitrary: m)
  case (Cons n ns)
  obtain r1 m1 where c: "changeStateForNode svc n tr m = (r1, m1)"
    by fastforce
  then have r1: "r1 = Inr True" and l: "changeStateLoop svc tr False ns m1 = (Inr True, m')"
    using Cons.prems by (auto split: sum.splits lc_error.splits if_splits)
  show ?case
    using Cons.IH [OF l] changeStateLoop_others [OF l, of n] changeStateForNode_reached c r1
    by (cases "n \<in> set ns") auto
qed simp

lemma changeStateForAllNodes_reached:
  "changeStateForAllNodes svc tr False m = (Inr True, m') \<Longrightarrow>
     \<forall>n \<in> set (node_names m). st m' n = transition_state_map tr"
  unfolding changeStateForAllNodes_def by (drule changeStateLoop_reached) (auto split: if_splits)

lemma startup_reached:
  assumes "startup svc m = (Inr True, m')"
  shows "system_active m' \<and> node_names m' = node_names m \<and>
    (\<forall>n \<in> set (node_names m). st m' n = STATE_ACTIVE)"
proof -
  obtain m1 m2 where c: "changeStateForAllNodes svc CONFIGURE False m = (Inr True, m1)"
    and a: "changeStateForAllNodes svc ACTIVATE False m1 = (Inr True, m2)"
    and m': "m' = createBondTimer (m2\<lparr>system_active := True\<rparr>)"
    using assms by (auto simp: startup_def and_then_def split: prod.splits sum.splits bool.splits)
  show ?thesis
    using changeStateForAllNodes_reached [OF a] changeStateForAllNodes_config [OF a]
      changeStateForAllNodes_config [OF c] m'
    by (auto simp: same_config_def createBondTimer_def transition_state_map_def)
qed

end

text \<open>The transitions of the ROS 2 lifecycle state machine the manager requests.\<close>

definition source_state :: "transition \<Rightarrow> primary_state" where
  "source_state tr =
     (case tr of
        CONFIGURE \<Rightarrow> STATE_UNCONFIGURED
      | CLEANUP \<Rightarrow> STATE_INACTIVE
      | ACTIVATE \<Rightarrow> STATE_INACTIVE
      | DEACTIVATE \<Rightarrow> STATE_ACTIVE
      | UNCONFIGURED_SHUTDOWN \<Rightarrow> STATE_UNCONFIGURED)"

locale cooperative_nodes = managed_nodes svc node_state
  for svc :: "'w node_services" and node_state :: "'w \<Rightarrow> string \<Rightarrow> primary_state" +
  assumes change_legal: "node_state w n = source_state tr \<Longrightarrow>
      \<exists>w'. svc_change svc n tr w = (Change_Replied True, w') \<and>
           node_state w' n = transition_state_map tr"
    and get_answers: "\<exists>w'. svc_get svc n w = (State_Is (node_state w n), w')"
    and bond_forms: "\<exists>w'. svc_bond_wait svc n w = (True, w')"
begin

lemma changeStateForNode_succeeds:
  assumes "node_map m n = Some True" and "st m n = source_state tr"
  shows "\<exists>m'. changeStateForNode svc n tr m = (Inr True, m') \<and>
    (tr = DEACTIVATE \<longrightarrow> bond_map m' = (bond_map m)(n := None))"
proof -
  obtain w1 where c: "svc_change svc n tr (world m) = (Change_Replied True, w1)"
    and s: "node_state w1 n = transition_state_map tr"
    using change_legal [OF assms(2)] by blast
  obtain w2 where g: "svc_get svc n w1 = (State_Is (node_state w1 n), w2)"
    using get_answers by blast
  obtain w3 where b: "svc_bond_wait svc n w2 = (True, w3)"
    using bond_forms by blast
  show ?thesis
    using assms(1) c s g b
    by (auto simp: changeStateForNode_def change_state_def get_state_def createBondConnection_def
        Let_def)
qed

lemma changeStateLoop_succeeds:
  assumes "distinct ns" and "\<forall>n \<in> set ns. node_map m n = Some True \<and> st m n = source_state tr"
  shows "\<exists>m'. changeStateLoop svc tr hard ns m = (Inr True, m') \<and>
    (tr = DEACTIVATE \<longrightarrow> bond_map m' = (bond_map m) |` (- set ns))"
  using assms
proof (induction ns arbitrary: m)
  case Nil
  then show ?case by (simp add: restrict_map_def)
next
  case (Cons n ns)
  obtain m1 where c: "changeStateForNode svc n tr m = (Inr True, m1)"
    and b: "tr = DEACTIVATE \<longrightarrow> bond_map m1 = (bond_map m)(n := None)"
    using changeStateForNode_succeeds [of m n tr] Cons.prems(2) by auto
  have "node_map m1 = node_map m"
    using changeStateForNode_config [OF c] by (simp add: same_config_def)
  then have "\<forall>n' \<in> set ns. node_map m1 n' = Some True \<and> st m1 n' = source_state tr"
    using changeStateForNode_others [OF c] Cons.prems by fastforce
  then show ?case
    using Cons.IH [of m1] Cons.prems(1) c b by (force simp: restrict_map_def fun_eq_iff)
qed

lemma changeStateForAllNodes_succeeds:
  assumes "distinct (node_names m)" and "clients_ok m"
    and "\<forall>n \<in> set (node_names m). st m n = source_state tr"
  obtains m' where "changeStateForAllNodes svc tr False m = (Inr True, m')"
    and "same_config m m'" and "\<forall>n \<in> set (node_names m). st m' n = transition_state_map tr"
    and "tr = DEACTIVATE \<longrightarrow> bond_map m' = (bond_map m) |` (- set (node_names m))"
proof -
  obtain m' where l: "changeStateForAllNodes svc tr False m = (Inr True, m')"
    and b: "tr = DEACTIVATE \<longrightarrow> bond_map m' = (bond_map m) |` (- set (node_names m))"
    using assms changeStateLoop_succeeds [of "node_names m" m tr False]
      changeStateLoop_succeeds [of "rev (node_names m)" m tr False]
    unfolding changeStateForAllNodes_def clients_ok_def
    by (cases "tr = CONFIGURE \<or> tr = ACTIVATE") auto
  show thesis
    using that [OF l changeStateForAllNodes_config [OF l] changeStateForAllNodes_reached [OF l] b] .
qed

lemma startup_succeeds:
  assumes "distinct (node_names m)" and "clients_ok m"
    and "\<forall>n \<in> set (node_names m). st m n = STATE_UNCONFIGURED"
  shows "\<exists>m'. startup svc m = (Inr True, m') \<and> clients_ok m'"
proof -
  obtain m1 where 1: "changeStateForAllNodes svc CONFIGURE False m = (Inr True, m1)"
    "same_config m m1" "\<forall>n \<in> set (node_names m). st m1 n = STATE_INACTIVE"
    using changeStateForAllNodes_succeeds [OF assms(1,2), of CONFIGURE] assms(3)
    by (auto simp: source_state_def transition_state_map_def)
  then have 2: "distinct (node_names m1)" "clients_ok m1"
    using assms by (auto simp: same_config_def clients_ok_def)
  have "\<forall>n \<in> set (node_names m1). st m1 n = source_state ACTIVATE"
    using 1 by (simp add: source_state_def same_config_def)
  then obtain m2 where "changeStateForAllNodes svc ACTIVATE False m1 = (Inr True, m2)"
    "same_config m1 m2"
    using changeStateForAllNodes_succeeds [OF 2] by metis
  then show ?thesis
    using 1 2 by (auto simp: startup_def and_then_def clients_ok_def same_config_def createBondTimer_def)
qed

lemma reset_succeeds:
  assumes "distinct (node_names m)" and "clients_ok m"
    and "\<forall>n \<in> set (node_names m). st m n = STATE_ACTIVE"
  shows "\<exists>m'. reset svc False m = (Inr True, m') \<and> \<not> system_active m' \<and> \<not> bond_timer m' \<and>
    (\<forall>n \<in> set (node_names m). st m' n = STATE_UNCONFIGURED \<and> bond_map m' n = None)"
proof -
  let ?m = "destroyBondTimer (m\<lparr>system_active := False\<rparr>)"
  have 0: "distinct (node_names ?m)" "clients_ok ?m" "\<forall>n \<in> set (node_names ?m). st ?m n = STATE_ACTIVE"
    using assms by (auto simp: destroyBondTimer_def clients_ok_def)
  obtain m1 where 1: "changeStateForAllNodes svc DEACTIVATE False ?m = (Inr True, m1)"
    "same_config ?m m1" "\<forall>n \<in> set (node_names ?m). st m1 n = STATE_INACTIVE"
    "bond_map m1 = (bond_map ?m) |` (- set (node_names ?m))"
    using changeStateForAllNodes_succeeds [OF 0(1,2), of DEACTIVATE] 0(3)
    by (auto simp: source_state_def transition_state_map_def)
  then have 2: "distinct (node_names m1)" "clients_ok m1" "node_names m1 = node_names m"
    using assms by (auto simp: same_config_def clients_ok_def destroyBondTimer_def)
  obtain m2 where 3: "changeStateForAllNodes svc CLEANUP False m1 = (Inr True, m2)"
    "same_config m1 m2" "\<forall>n \<in> set (node_names m). st m2 n = STATE_UNCONFIGURED"
    using changeStateForAllNodes_succeeds [OF 2(1,2), of CLEANUP] 1(3) 2(3)
    by (auto simp: source_state_def transition_state_map_def destroyBondTimer_def)
  have "bond_map m2 = bond_map m1"
    using changeStateLoop_keeps_bonds 3(1) by (auto simp: changeStateForAllNodes_def)
  then show ?thesis
    using 1 3 by (auto simp: reset_def and_then_def same_config_def destroyBondTimer_def restrict_map_def)
qed

end

section \<open>Nodes that follow the lifecycle state machine\<close>

text \<open>The world is the state of every node; the nodes of \<open>down\<close> do not answer, and the bond of a
  node is broken when it is down or finalized.\<close>

definition net_change ::
  "(string \<Rightarrow> bool) \<Rightarrow> string \<Rightarrow> transition \<Rightarrow> (string \<Rightarrow> primary_state)
     \<Rightarrow> change_reply \<times> (string \<Rightarrow> primary_state)" where
  "net_change down n tr w =
     (if down n then (Change_Unavailable, w)
      else if w n = source_state tr then (Change_Replied True, w(n := transition_state_map tr))
      else (Change_Replied False, w))"

definition net_services :: "(string \<Rightarrow> bool) \<Rightarrow> (string \<Rightarrow> primary_state) node_services" where
  "net_services down =
     \<lparr>svc_change = net_change down,
      svc_get = (\<lambda>n w. (if down n then State_Unavailable else State_Is (w n), w)),
      svc_bond_wait = (\<lambda>n w. (\<not> down n, w)),
      svc_bond_broken = (\<lambda>n w. down n \<or> w n = STATE_FINALIZED),
      svc_now = (\<lambda>w. 1),
      svc_ok = (\<lambda>w. True)\<rparr>"

lemmas net_defs = net_services_def net_change_def

interpretation net: managed_nodes "net_services down" "\<lambda>w. w" for down
  by unfold_locales (auto simp: net_defs split: if_splits)

interpretation net_up: cooperative_nodes "net_services (\<lambda>_. False)" "\<lambda>w. w"
  by unfold_locales (auto simp: net_defs)

section \<open>The order of the requests\<close>

text \<open>\<open>logged svc\<close> behaves as \<open>svc\<close> and records the transition requests in the order they are
  sent.\<close>

definition logged ::
  "'w node_services \<Rightarrow> ('w \<times> (string \<times> transition) list) node_services" where
  "logged svc =
     \<lparr>svc_change = (\<lambda>n tr (w, l). let (r, w') = svc_change svc n tr w in (r, (w', l @ [(n, tr)]))),
      svc_get = (\<lambda>n (w, l). let (r, w') = svc_get svc n w in (r, (w', l))),
      svc_bond_wait = (\<lambda>n (w, l). let (r, w') = svc_bond_wait svc n w in (r, (w', l))),
      svc_bond_broken = (\<lambda>n (w, l). svc_bond_broken svc n w),
      svc_now = (\<lambda>(w, l). svc_now svc w),
      svc_ok = (\<lambda>(w, l). svc_ok svc w)\<rparr>"

abbreviation sent :: "('w \<times> (string \<times> transition) list) manager \<Rightarrow> (string \<times> transition) list" where
  "sent m \<equiv> snd (world m)"

definition requests :: "transition \<Rightarrow> string list \<Rightarrow> (string \<times> transition) list" where
  "requests tr ns = map (\<lambda>n. (n, tr)) ns"

lemma changeStateForNode_sent:
  assumes "changeStateForNode (logged svc) n tr m = (r, m')" and "node_map m n = Some True"
  shows "sent m' = sent m @ [(n, tr)]"
  using assms
  by (cases "world m")
    (auto simp: changeStateForNode_def change_state_def get_state_def createBondConnection_def
      logged_def Let_def split: if_splits prod.splits sum.splits bool.splits change_reply.splits
      state_reply.splits)

lemma changeStateLoop_sent:
  assumes "changeStateLoop (logged svc) tr hard ns m = (r, m')"
    and "\<forall>n \<in> set ns. node_map m n = Some True"
  shows "\<exists>l. sent m' = sent m @ l \<and> prefix l (requests tr ns) \<and> (r = Inr True \<longrightarrow> l = requests tr ns)"
  using assms
proof (induction ns arbitrary: m)
  case Nil
  then show ?case by (auto simp: requests_def)
next
  case (Cons n ns)
  obtain r1 m1 where c: "changeStateForNode (logged svc) n tr m = (r1, m1)"
    by fastforce
  have s1: "sent m1 = sent m @ [(n, tr)]" and k: "node_map m1 = node_map m"
    using changeStateForNode_sent [OF c] changeStateForNode_config [OF c] Cons.prems(2)
    by (auto simp: same_config_def)
  consider "changeStateLoop (logged svc) tr hard ns m1 = (r, m')" | "m' = m1" "r \<noteq> Inr True"
    using Cons.prems(1) c by (auto split: sum.splits lc_error.splits if_splits)
  then show ?case
  proof cases
    case 1
    then obtain l where "sent m' = sent m1 @ l" "prefix l (requests tr ns)"
      "r = Inr True \<longrightarrow> l = requests tr ns"
      using Cons.IH [of m1] Cons.prems(2) k by auto
    then show ?thesis
      using s1 by (intro exI [of _ "(n, tr) # l"]) (auto simp: requests_def)
  next
    case 2
    then show ?thesis
      using s1 by (intro exI [of _ "[(n, tr)]"]) (auto simp: requests_def)
  qed
qed

text \<open>Two sweeps, the second only after the first succeeded.\<close>

lemma two_sweeps_sent:
  assumes "and_then (changeStateLoop (logged svc) t1 hard ns m)
             (changeStateLoop (logged svc) t2 hard ns) = (r, m')"
    and "\<forall>n \<in> set ns. node_map m n = Some True"
  shows "\<exists>l. sent m' = sent m @ l \<and> prefix l (requests t1 ns @ requests t2 ns) \<and>
    (r = Inr True \<longrightarrow> l = requests t1 ns @ requests t2 ns)"
proof -
  obtain r1 m1 where 1: "changeStateLoop (logged svc) t1 hard ns m = (r1, m1)"
    by fastforce
  obtain l1 where l1: "sent m1 = sent m @ l1" "prefix l1 (requests t1 ns)"
    "r1 = Inr True \<longrightarrow> l1 = requests t1 ns"
    using changeStateLoop_sent [OF 1 assms(2)] by blast
  show ?thesis
  proof (cases "r1 = Inr True")
    case True
    then have 2: "changeStateLoop (logged svc) t2 hard ns m1 = (r, m')"
      using assms(1) 1 by (simp add: and_then_def)
    have "\<forall>n \<in> set ns. node_map m1 n = Some True"
      using changeStateLoop_config [OF 1] assms(2) by (simp add: same_config_def)
    then obtain l2 where "sent m' = sent m1 @ l2" "prefix l2 (requests t2 ns)"
      "r = Inr True \<longrightarrow> l2 = requests t2 ns"
      using changeStateLoop_sent [OF 2] by blast
    then show ?thesis
      using l1 True by (intro exI [of _ "l1 @ l2"]) auto
  next
    case False
    then have "m' = m1" "r \<noteq> Inr True"
      using assms(1) 1 by (auto simp: and_then_def split: sum.splits bool.splits)
    then show ?thesis
      using l1 by (intro exI [of _ l1]) auto
  qed
qed

definition sweep_list :: "transition \<Rightarrow> string list \<Rightarrow> string list" where
  "sweep_list tr ns = (if tr = CONFIGURE \<or> tr = ACTIVATE then ns else rev ns)"

lemma sweep_list_simps [simp]:
  "sweep_list CONFIGURE ns = ns" "sweep_list ACTIVATE ns = ns"
  "sweep_list DEACTIVATE ns = rev ns" "sweep_list CLEANUP ns = rev ns"
  "set (sweep_list tr ns) = set ns"
  by (auto simp: sweep_list_def)

lemma sweeps_sent:
  assumes "and_then (changeStateForAllNodes (logged svc) t1 hard m)
             (changeStateForAllNodes (logged svc) t2 hard) = (r, m')"
    and "clients_ok m" and "sent m = []"
    and "sweep_list t1 (node_names m) = sweep_list t2 (node_names m)"
  shows "prefix (sent m') (requests t1 (sweep_list t1 (node_names m)) @
      requests t2 (sweep_list t1 (node_names m))) \<and>
    (r = Inr True \<longrightarrow> sent m' = requests t1 (sweep_list t1 (node_names m)) @
      requests t2 (sweep_list t1 (node_names m)))"
proof -
  let ?ns = "sweep_list t1 (node_names m)"
  obtain r1 m1 where 1: "changeStateLoop (logged svc) t1 hard ?ns m = (r1, m1)"
    by fastforce
  then have "node_names m1 = node_names m"
    using changeStateLoop_config by (fastforce simp: same_config_def)
  then have "and_then (changeStateLoop (logged svc) t1 hard ?ns m)
      (changeStateLoop (logged svc) t2 hard ?ns) = (r, m')"
    using assms(1,4) 1
    by (auto simp: changeStateForAllNodes_def sweep_list_def [symmetric] and_then_def
        split: sum.splits bool.splits)
  then show ?thesis
    using two_sweeps_sent assms(2,3) by (fastforce simp: clients_ok_def)
qed

section \<open>Properties\<close>

definition manager_reaches :: "'w node_services \<Rightarrow> 'w manager \<Rightarrow> bool" where
  "manager_reaches svc m \<longleftrightarrow>
     (\<exists>names respawn timeout_ms max_dur w.
        lcm_reachable svc (manager_init names respawn timeout_ms max_dur w) m)"

lemma manager_reaches_inv: "manager_reaches svc m \<Longrightarrow> lcm_inv m"
  unfolding manager_reaches_def by (elim exE) (erule lcm_reachable_inv, rule manager_init_inv)

text \<open>C2: when \<open>startup\<close> returns true, the system is marked active, every managed node is in the
  active state, and every one of them has a bond when bonds are enabled, for every network of nodes
  whose state queries are truthful and whatever the manager did before.\<close>

theorem startup_activates_all:
  assumes "managed_nodes svc node_state" and "manager_reaches svc m"
    and "startup svc m = (Inr True, m')"
  shows "system_active m' \<and> node_names m' = node_names m \<and>
    (\<forall>n \<in> set (node_names m). node_state (world m') n = STATE_ACTIVE) \<and>
    (0 < bond_timeout m' \<longrightarrow> (\<forall>n \<in> set (node_names m). bond_map m' n = Some True))"
  using managed_nodes.startup_reached [OF assms(1,3)] startup_inv [OF assms(3)]
    manager_reaches_inv [OF assms(2)] by (simp add: lcm_inv_def bonded_def)

text \<open>A manager of two nodes whose clients exist, and its states before and after the bring-up.\<close>

definition two_nodes :: "string list" where
  "two_nodes = [''controller'', ''planner'']"

definition demo_new :: "(string \<Rightarrow> primary_state) manager" where
  "demo_new = createLifecycleServiceClients
     (manager_init two_nodes True 4000 10000000000 (\<lambda>_. STATE_UNCONFIGURED))"

definition demo_up :: "(string \<Rightarrow> primary_state) manager" where
  "demo_up = snd (startup (net_services (\<lambda>_. False)) demo_new)"

lemma demo_new_reached: "manager_reaches (net_services down) demo_new"
proof -
  let ?m = "manager_init two_nodes True 4000 10000000000 (\<lambda>_. STATE_UNCONFIGURED)"
  have "lcm_event (net_services down) (Ev_Init False) ?m = (Inr (), demo_new)"
    by (simp add: lcm_event_def forget_def initTimer_def demo_new_def Let_def)
  then have "lcm_reachable (net_services down) ?m demo_new"
    by (intro lcm_callback [OF lcm_start])
  then show ?thesis
    unfolding manager_reaches_def by blast
qed

lemma demo_new_simps [simp]:
  "node_names demo_new = two_nodes" "clients_ok demo_new" "distinct two_nodes"
  "world demo_new n = STATE_UNCONFIGURED" "bond_timeout demo_new = 4000"
  by (simp_all add: demo_new_def two_nodes_def clients_ok_def createLifecycleServiceClients_def
      manager_init_def)

lemma demo_startup: "startup (net_services (\<lambda>_. False)) demo_new = (Inr True, demo_up)"
proof -
  obtain m' where "startup (net_services (\<lambda>_. False)) demo_new = (Inr True, m')"
    using net_up.startup_succeeds [of demo_new] by auto
  then show ?thesis
    by (simp add: demo_up_def)
qed

theorem startup_activates_all_witness:
  "startup (net_services (\<lambda>_. False)) demo_new = (Inr True, demo_up) \<and> system_active demo_up \<and>
   map (world demo_up) two_nodes = [STATE_ACTIVE, STATE_ACTIVE]"
  using startup_activates_all [OF net.managed_nodes_axioms demo_new_reached demo_startup]
    demo_startup by (simp add: two_nodes_def)

text \<open>C9: the bond watchdog never dereferences a null bond or a null client: in every state the
  manager reaches, its timer callback returns. When it finds the system active and the bond of a
  managed node broken, it leaves the system inactive, the bond table empty, the watchdog stopped and
  the respawn timer armed if respawning is enabled.\<close>

theorem bond_watchdog_safe:
  assumes "manager_reaches svc m"
  shows "\<exists>m'. lcm_event svc Ev_Bond_Timer m = (Inr (), m') \<and>
    (bond_timer m \<and> svc_ok svc (world m) \<and>
       (\<exists>n \<in> set (node_names m). svc_bond_broken svc n (world m)) \<longrightarrow>
     \<not> system_active m' \<and> bond_map m' = Map.empty \<and> \<not> bond_timer m' \<and>
     (attempt_respawn_reconnection m \<longrightarrow> bond_respawn_timer m'))"
proof -
  have i: "lcm_inv m"
    using assms by (rule manager_reaches_inv)
  obtain m' where e: "lcm_event svc Ev_Bond_Timer m = (Inr (), m')"
    using bond_event_no_crash [OF i] by blast
  show ?thesis
    using e bond_event_reacts [OF i e] by auto
qed

lemma startup_config:
  assumes "startup svc m = (Inr True, m')"
  shows "node_names m' = node_names m \<and> bond_timeout m' = bond_timeout m \<and>
    attempt_respawn_reconnection m' = attempt_respawn_reconnection m \<and>
    (0 < bond_timeout m \<longrightarrow> bond_timer m')"
proof -
  obtain m1 m2 where c: "changeStateForAllNodes svc CONFIGURE False m = (Inr True, m1)"
    and a: "changeStateForAllNodes svc ACTIVATE False m1 = (Inr True, m2)"
    and m': "m' = createBondTimer (m2\<lparr>system_active := True\<rparr>)"
    using assms by (auto simp: startup_def and_then_def split: prod.splits sum.splits bool.splits)
  show ?thesis
    using changeStateForAllNodes_config [OF a] changeStateForAllNodes_config [OF c] m'
    by (simp add: same_config_def createBondTimer_def)
qed

text \<open>The planner of the running system has died.\<close>

definition demo_broken :: "(string \<Rightarrow> primary_state) manager" where
  "demo_broken = demo_up\<lparr>world := (\<lambda>_. STATE_ACTIVE)(''planner'' := STATE_FINALIZED)\<rparr>"

lemma demo_broken_reached: "manager_reaches (net_services (\<lambda>_. False)) demo_broken"
proof -
  have "lcm_event (net_services (\<lambda>_. False)) (Ev_Command CMD_STARTUP) demo_new = (Inr (), demo_up)"
    by (simp add: lcm_event_def forget_def managerCallback_def demo_startup)
  then show ?thesis
    using demo_new_reached [of "\<lambda>_. False"] unfolding manager_reaches_def demo_broken_def
    by (elim exE) (intro exI, rule lcm_world, erule lcm_callback)
qed

theorem bond_watchdog_safe_witness:
  "\<exists>m'. lcm_event (net_services (\<lambda>_. False)) Ev_Bond_Timer demo_broken = (Inr (), m') \<and>
     bond_timer demo_broken \<and> \<not> system_active m' \<and> bond_map m' = Map.empty \<and> bond_respawn_timer m'"
proof -
  have "bond_timer demo_broken" "attempt_respawn_reconnection demo_broken"
    "node_names demo_broken = two_nodes"
    using startup_config [OF demo_startup]
    by (simp_all add: demo_broken_def demo_new_def createLifecycleServiceClients_def manager_init_def)
  moreover have "svc_bond_broken (net_services (\<lambda>_. False)) ''planner'' (world demo_broken)"
    "svc_ok (net_services (\<lambda>_. False)) (world demo_broken)"
    by (simp_all add: net_services_def demo_broken_def)
  ultimately show ?thesis
    using bond_watchdog_safe [OF demo_broken_reached] by (auto simp: two_nodes_def)
qed

text \<open>C12: \<open>startup\<close> sends the configure request to the managed nodes in the order of \<open>node_names\<close>
  and only then the activate requests in the same order; \<open>reset\<close> sends the deactivate requests in
  the reverse order and then the cleanup requests in the reverse order. A run that stops early has
  sent a prefix of that sequence, a run that reports success all of it.\<close>

theorem bringup_and_teardown_order:
  assumes "clients_ok m" and "sent m = []"
  shows "(\<exists>r m' l. startup (logged svc) m = (r, m') \<and>
      l = requests CONFIGURE (node_names m) @ requests ACTIVATE (node_names m) \<and>
      prefix (sent m') l \<and> (r = Inr True \<longrightarrow> sent m' = l)) \<and>
    (\<exists>r m' l. reset (logged svc) hard m = (r, m') \<and>
      l = requests DEACTIVATE (rev (node_names m)) @ requests CLEANUP (rev (node_names m)) \<and>
      prefix (sent m') l \<and> (\<not> hard \<and> r = Inr True \<longrightarrow> sent m' = l))"
proof (intro conjI)
  obtain r1 m1 where 1: "and_then (changeStateForAllNodes (logged svc) CONFIGURE False m)
      (changeStateForAllNodes (logged svc) ACTIVATE False) = (r1, m1)"
    by fastforce
  have "prefix (sent m1) (requests CONFIGURE (node_names m) @ requests ACTIVATE (node_names m)) \<and>
    (r1 = Inr True \<longrightarrow> sent m1 = requests CONFIGURE (node_names m) @ requests ACTIVATE (node_names m))"
    using sweeps_sent [OF 1 assms] by simp
  then show "\<exists>r m' l. startup (logged svc) m = (r, m') \<and>
      l = requests CONFIGURE (node_names m) @ requests ACTIVATE (node_names m) \<and>
      prefix (sent m') l \<and> (r = Inr True \<longrightarrow> sent m' = l)"
    using 1 by (auto simp: startup_def createBondTimer_def split: sum.splits bool.splits)
next
  let ?m = "destroyBondTimer (m\<lparr>system_active := False\<rparr>)"
  obtain r1 m1 where 1: "and_then (changeStateForAllNodes (logged svc) DEACTIVATE hard ?m)
      (changeStateForAllNodes (logged svc) CLEANUP hard) = (r1, m1)"
    by fastforce
  have "clients_ok ?m" "sent ?m = []" "node_names ?m = node_names m"
    using assms by (auto simp: clients_ok_def destroyBondTimer_def)
  then have "prefix (sent m1) (requests DEACTIVATE (rev (node_names m)) @ requests CLEANUP (rev (node_names m))) \<and>
    (r1 = Inr True \<longrightarrow>
      sent m1 = requests DEACTIVATE (rev (node_names m)) @ requests CLEANUP (rev (node_names m)))"
    using sweeps_sent [OF 1] by simp
  then show "\<exists>r m' l. reset (logged svc) hard m = (r, m') \<and>
      l = requests DEACTIVATE (rev (node_names m)) @ requests CLEANUP (rev (node_names m)) \<and>
      prefix (sent m') l \<and> (\<not> hard \<and> r = Inr True \<longrightarrow> sent m' = l)"
    using 1 by (auto simp: reset_def split: sum.splits bool.splits)
qed

text \<open>A bring-up of the two nodes, with the log of the requests.\<close>

definition demo_logged :: "((string \<Rightarrow> primary_state) \<times> (string \<times> transition) list) manager" where
  "demo_logged = createLifecycleServiceClients
     (manager_init two_nodes True 4000 10000000000 (\<lambda>_. STATE_UNCONFIGURED, []))"

theorem bringup_and_teardown_order_witness:
  "\<exists>r m'. startup (logged (net_services (\<lambda>_. False))) demo_logged = (r, m') \<and>
     prefix (sent m') [(''controller'', CONFIGURE), (''planner'', CONFIGURE),
       (''controller'', ACTIVATE), (''planner'', ACTIVATE)]"
proof -
  have "clients_ok demo_logged" "sent demo_logged = []" "node_names demo_logged = two_nodes"
    by (simp_all add: demo_logged_def clients_ok_def createLifecycleServiceClients_def
        manager_init_def)
  then show ?thesis
    using bringup_and_teardown_order [of demo_logged "net_services (\<lambda>_. False)" False]
    by (auto simp: two_nodes_def requests_def)
qed

text \<open>with nodes that carry out every legal transition, \<open>startup\<close> on unconfigured nodes succeeds
  and activates them all, and \<open>reset\<close> takes them all back to unconfigured, with the bonds removed,
  the watchdog stopped and the system marked inactive.\<close>

theorem startup_reset_roundtrip:
  assumes "cooperative_nodes svc node_state" and "distinct (node_names m)" and "clients_ok m"
    and "\<forall>n \<in> set (node_names m). node_state (world m) n = STATE_UNCONFIGURED"
  shows "\<exists>m1 m2. startup svc m = (Inr True, m1) \<and> system_active m1 \<and>
    (\<forall>n \<in> set (node_names m). node_state (world m1) n = STATE_ACTIVE) \<and>
    reset svc False m1 = (Inr True, m2) \<and> \<not> system_active m2 \<and> \<not> bond_timer m2 \<and>
    (\<forall>n \<in> set (node_names m). node_state (world m2) n = STATE_UNCONFIGURED \<and> bond_map m2 n = None)"
proof -
  have mn: "managed_nodes svc node_state"
    using assms(1) by (simp add: cooperative_nodes_def)
  obtain m1 where s: "startup svc m = (Inr True, m1)" and c1: "clients_ok m1"
    using cooperative_nodes.startup_succeeds [OF assms] by blast
  have a: "system_active m1" "node_names m1 = node_names m"
    "\<forall>n \<in> set (node_names m). node_state (world m1) n = STATE_ACTIVE"
    using managed_nodes.startup_reached [OF mn s] by auto
  then show ?thesis
    using cooperative_nodes.reset_succeeds [OF assms(1), of m1] assms(2) s c1 by auto
qed

theorem startup_reset_roundtrip_witness:
  "\<exists>m1 m2. startup (net_services (\<lambda>_. False)) demo_new = (Inr True, m1) \<and>
     map (world m1) two_nodes = [STATE_ACTIVE, STATE_ACTIVE] \<and>
     reset (net_services (\<lambda>_. False)) False m1 = (Inr True, m2) \<and>
     map (world m2) two_nodes = [STATE_UNCONFIGURED, STATE_UNCONFIGURED]"
  using startup_reset_roundtrip [OF net_up.cooperative_nodes_axioms, of demo_new]
  by (fastforce simp: two_nodes_def)

text \<open>a hard reset, which the watchdog runs when a server died, stops at the first node that
  cannot be reached. When that is the last of \<open>node_names\<close>, \<open>reset\<close> still returns true but every
  other node keeps its state: no active node is deactivated.\<close>

theorem hard_reset_stops_at_dead_node:
  assumes "managed_nodes svc node_state" and "node_names m = ns @ [n]" and "node_map m n = Some True"
    and "\<And>w. \<exists>w'. svc_change svc n DEACTIVATE w = (Change_Unavailable, w')"
  shows "\<exists>m'. reset svc True m = (Inr True, m') \<and>
    (\<forall>n' \<in> set ns - {n}. node_state (world m') n' = node_state (world m) n')"
proof -
  obtain w' where w': "svc_change svc n DEACTIVATE (world m) = (Change_Unavailable, w')"
    using assms(4) by blast
  have "reset svc True m = (Inr True, (destroyBondTimer (m\<lparr>system_active := False\<rparr>))\<lparr>world := w'\<rparr>)"
    using assms(2,3) w'
    by (simp add: reset_def and_then_def changeStateForAllNodes_def changeStateForNode_def
        change_state_def destroyBondTimer_def)
  then show ?thesis
    using managed_nodes.change_keeps_others [OF assms(1) w'] by (auto simp: destroyBondTimer_def)
qed

theorem hard_reset_stops_at_dead_node_witness:
  "\<exists>m'. reset (net_services (\<lambda>n. n = ''planner'')) True demo_new = (Inr True, m')"
  using hard_reset_stops_at_dead_node [OF net.managed_nodes_axioms, of demo_new "[''controller'']"
      "''planner''" "\<lambda>n. n = ''planner''"]
  by (auto simp: net_defs demo_new_def createLifecycleServiceClients_def manager_init_def two_nodes_def)

text \<open>\<open>shutdown\<close> leaves null service clients behind and does not stop the respawn timer: when
  nodes are managed, a later \<open>startup\<close> request dereferences a null pointer, and so does the next
  tick of a respawn timer that was running.\<close>

theorem startup_after_shutdown_crashes:
  assumes "shutdown svc m = (Inr True, m')" and "node_names m \<noteq> []"
  shows "(\<exists>m1. lcm_event svc (Ev_Command CMD_STARTUP) m' = (Inl Null_Pointer, m1)) \<and>
    (bond_respawn_timer m \<and> svc_ok svc (world m') \<longrightarrow>
      (\<exists>m1. lcm_event svc Ev_Respawn_Timer m' = (Inl Null_Pointer, m1)))"
proof -
  obtain n ns where n: "node_names m = n # ns"
    using assms(2) by (cases "node_names m") auto
  have k: "node_names m' = n # ns" "node_map m' n \<noteq> Some True" "\<not> system_active m'"
    "bond_respawn_timer m' = bond_respawn_timer m"
    using shutdown_leaves [OF assms(1)] n by auto
  show ?thesis
    using k by (simp add: lcm_event_def forget_def managerCallback_def startup_def and_then_def
        changeStateForAllNodes_def changeStateForNode_def checkBondRespawnConnection_def Let_def)
qed

theorem startup_after_shutdown_crashes_witness:
  "\<exists>m' m1. shutdown (net_services (\<lambda>_. False)) demo_new = (Inr True, m') \<and>
     lcm_event (net_services (\<lambda>_. False)) (Ev_Command CMD_STARTUP) m' = (Inl Null_Pointer, m1)"
proof -
  obtain m' where "shutdown (net_services (\<lambda>_. False)) demo_new = (Inr True, m')"
    using shutdown_returns [of demo_new "net_services (\<lambda>_. False)"] by auto
  then show ?thesis
    using startup_after_shutdown_crashes [of "net_services (\<lambda>_. False)" demo_new m']
    by (auto simp: two_nodes_def)
qed

end
