(* ===== verification/Controller_Server.thy ===== *)
theory Controller_Server
  imports Nav3d_Msgs Action_Server
begin

text \<open>
  \<open>nav3d_controller::ControllerServer\<close> (\<open>nav3d_controller/src/controller_server.cpp\<close>): the reference
  filter, the timed trajectory, the command of one control cycle, the goal check and the
  \<open>follow_path\<close> action. \<open>now()\<close> and the pose that \<open>nav3d_util::getCurrentPose\<close> reads from the transform
  buffer (\<open>None\<close> when the lookup fails) are arguments; \<open>tf2\<close>, \<open>angles\<close> and \<open>rclcpp::Duration\<close> are the
  record \<open>tf_api\<close>.
\<close>

section \<open>State\<close>

record reference_state =
  rs_pos :: point
  rs_vel :: point
  rs_acc :: point
  rs_yaw :: double
  rs_yaw_vel :: double
  rs_yaw_acc :: double

text \<open>The parameters \<open>on_configure\<close> reads.\<close>

record controller_params =
  controller_frequency :: double
  xyz_goal_tolerance :: double
  yaw_goal_tolerance :: double
  default_speed_limit :: double
  slowdown_distance :: double
  ref_jerk_max :: double
  ref_acc_max :: double
  ref_vel_max :: double
  ref_omega :: double
  ref_zita :: double
  ref_yaw_jerk_max :: double
  ref_yaw_acc_max :: double
  ref_yaw_vel_max :: double

text \<open>\<open>tf_buffer\<close> and \<open>waypoint_pub\<close> say whether the pointers are set.\<close>

record controller =
  params :: controller_params
  speed_limit :: double
  path_start_time :: time_ns
  current_path :: "(time_ns \<times> pose_stamped) list"
  current_waypoint_index :: nat
  ref_state :: reference_state
  filter_initialized :: bool
  tf_buffer :: bool
  waypoint_pub :: bool

record trajectory_point =
  time_from_start :: msg_duration
  tp_pose :: pose
  velocity :: twist
  acceleration :: point

text \<open>The exceptions of \<open>nav3d_core/controller_exceptions.hpp\<close>, any other \<open>std::exception\<close>, and a read
  past the end of the path, which C++ leaves undefined.\<close>

datatype controller_exn =
  ControllerException | InvalidController | ControllerTFError | FailedToMakeProgress
| PatienceExceeded | InvalidPath | NoValidControl | ControllerTimedOut | Std_Exception
| Out_Of_Range

section \<open>Durations\<close>

text \<open>\<open>toMsgDuration\<close>: the conversion to \<open>int32_t\<close> truncates towards zero.\<close>

definition trunc_seconds :: "duration_ns \<Rightarrow> int" where
  "trunc_seconds d = (if d < 0 then - ((- d) div 1000000000) else d div 1000000000)"

definition toMsgDuration :: "duration_ns \<Rightarrow> msg_duration" where
  "toMsgDuration d =
     (let sec = trunc_seconds d; ns = d - sec * 1000000000
      in \<lparr>dur_sec = sec, dur_nanosec = max 0 ns\<rparr>)"

section \<open>The reference filter\<close>

definition resetFilter :: "tf_api \<Rightarrow> pose \<Rightarrow> controller \<Rightarrow> controller" where
  "resetFilter tf start_pose c =
     c\<lparr>ref_state :=
         \<lparr>rs_pos = position start_pose, rs_vel = zero_point, rs_acc = zero_point,
          rs_yaw = tf_getYaw tf (orientation start_pose), rs_yaw_vel = 0, rs_yaw_acc = 0\<rparr>,
       filter_initialized := True\<rparr>"

text \<open>\<open>if (abs(x) > limit) x = copysign(limit, x)\<close>, which the filter applies to every quantity.\<close>

definition limit_magnitude :: "double \<Rightarrow> double \<Rightarrow> double" where
  "limit_magnitude limit x = (if \<bar>x\<bar> > limit then copysign limit x else x)"

text \<open>The limit on the yaw rate shrinks with the yaw error when that is small.\<close>

definition yaw_vel_limit :: "double \<Rightarrow> double \<Rightarrow> double" where
  "yaw_vel_limit yaw_vel_max yaw_error =
     (if \<bar>yaw_error\<bar> < 2 / 10 then yaw_vel_max * max (1 / 10) (\<bar>yaw_error\<bar> / (2 / 10))
      else yaw_vel_max)"

definition updateFilter :: "tf_api \<Rightarrow> pose \<Rightarrow> twist \<Rightarrow> double \<Rightarrow> controller \<Rightarrow> controller" where
  "updateFilter tf target_pose target_vel dt c =
     (if dt \<le> 0 \<or> \<not> filter_initialized c then c
      else
        let P = params c; r = ref_state c;
            target_yaw = normalize_angle tf (tf_getYaw tf (orientation target_pose));
            yaw0 = normalize_angle tf (rs_yaw r);
            yaw_error = shortest_angular_distance tf yaw0 target_yaw;
            pos_error = pt_sub (position target_pose) (rs_pos r);
            vel_error = pt_sub (rs_vel r) (linear target_vel);
            desired_acc = pt_sub (pt_scale (ref_omega P * ref_omega P) pos_error)
                                 (pt_scale (2 * ref_zita P * ref_omega P) vel_error);
            jerk = pt_map (limit_magnitude (ref_jerk_max P))
                     (pt_scale (1 / dt) (pt_sub desired_acc (rs_acc r)));
            acc = pt_map (limit_magnitude (ref_acc_max P)) (pt_add (rs_acc r) (pt_scale dt jerk));
            vel = pt_map (limit_magnitude (ref_vel_max P)) (pt_add (rs_vel r) (pt_scale dt acc));
            pos = pt_add (rs_pos r) (pt_scale dt vel);
            yaw_vel_error = rs_yaw_vel r - pz (angular target_vel);
            desired_yaw_acc = ref_omega P * ref_omega P * yaw_error
                              - 2 * ref_zita P * ref_omega P * yaw_vel_error
                              - 1 / 10 * rs_yaw_vel r;
            yaw_jerk = limit_magnitude (ref_yaw_jerk_max P) ((desired_yaw_acc - rs_yaw_acc r) / dt);
            yaw_acc = limit_magnitude (ref_yaw_acc_max P) (rs_yaw_acc r + yaw_jerk * dt);
            yaw_vel = limit_magnitude (yaw_vel_limit (ref_yaw_vel_max P) yaw_error)
                        (rs_yaw_vel r + yaw_acc * dt);
            yaw = normalize_angle tf (yaw0 + yaw_vel * dt)
        in c\<lparr>ref_state := \<lparr>rs_pos = pos, rs_vel = vel, rs_acc = acc,
                          rs_yaw = yaw, rs_yaw_vel = yaw_vel, rs_yaw_acc = yaw_acc\<rparr>\<rparr>)"

definition getFilteredSetpoint :: "tf_api \<Rightarrow> time_ns \<Rightarrow> controller \<Rightarrow> trajectory_point" where
  "getFilteredSetpoint tf now c =
     (let r = ref_state c in
      \<lparr>time_from_start = toMsgDuration (now - path_start_time c),
       tp_pose = \<lparr>position = rs_pos r, orientation = tf_setRPY tf 0 0 (rs_yaw r)\<rparr>,
       velocity = \<lparr>linear = rs_vel r, angular = \<lparr>px = 0, py = 0, pz = rs_yaw_vel r\<rparr>\<rparr>,
       acceleration = rs_acc r\<rparr>)"

section \<open>The timed trajectory\<close>

definition getSpeedLimit :: "controller \<Rightarrow> double" where
  "getSpeedLimit c = speed_limit c"

definition set_stamp :: "time_ns \<Rightarrow> pose_stamped \<Rightarrow> pose_stamped" where
  "set_stamp t p = p\<lparr>ps_header := (ps_header p)\<lparr>stamp := t\<rparr>\<rparr>"

text \<open>The loop over the waypoints: \<open>p0\<close> is the previous one, \<open>acc\<close> the accumulated time.\<close>

fun time_waypoints ::
  "tf_api \<Rightarrow> double \<Rightarrow> time_ns \<Rightarrow> double \<Rightarrow> pose_stamped \<Rightarrow> pose_stamped list
     \<Rightarrow> (time_ns \<times> pose_stamped) list" where
  "time_waypoints tf v start acc p0 [] = []"
| "time_waypoints tf v start acc p0 (p1 # ps) =
     (let dist = pt_dist (ps_position p1) (ps_position p0);
          dt = max (dist / v) (1 / 100);
          acc' = acc + dt;
          t = start + from_seconds tf acc'
      in (t, set_stamp t p1) # time_waypoints tf v start acc' p1 ps)"

definition generateTimedTrajectory ::
  "tf_api \<Rightarrow> time_ns \<Rightarrow> pose option \<Rightarrow> path \<Rightarrow> controller \<Rightarrow> (controller_exn + unit) \<times> controller" where
  "generateTimedTrajectory tf now current_pose pth c =
     (case poses pth of
        [] \<Rightarrow> (Inl InvalidPath, c)
      | p0 # ps \<Rightarrow>
          let start_time = now + from_seconds tf (1 / 10);
              v = max (1 / 1000) (getSpeedLimit c);
              c1 = c\<lparr>current_path := (start_time, set_stamp start_time p0)
                                      # time_waypoints tf v start_time 0 p0 ps,
                     current_waypoint_index := 0, path_start_time := start_time\<rparr>
          in (Inr (), resetFilter tf (case current_pose of Some p \<Rightarrow> p | None \<Rightarrow> ps_pose p0) c1))"

section \<open>The command of one cycle\<close>

text \<open>The \<open>while\<close> loop that moves \<open>current_waypoint_index_\<close> to the segment of the current time.\<close>

function advance_index :: "(time_ns \<times> pose_stamped) list \<Rightarrow> time_ns \<Rightarrow> nat \<Rightarrow> nat" where
  "advance_index pth tnow i =
     (if i + 1 < length pth \<and> tnow > fst (pth ! (i + 1)) then advance_index pth tnow (i + 1) else i)"
  by pat_completeness auto
termination
  by (relation "measure (\<lambda>(pth, tnow, i). length pth - i)") auto

declare advance_index.simps [simp del]

definition zero_velocity :: "trajectory_point \<Rightarrow> trajectory_point" where
  "zero_velocity out =
     out\<lparr>velocity := \<lparr>linear = zero_point, angular = (angular (velocity out))\<lparr>pz := 0\<rparr>\<rparr>\<rparr>"

text \<open>The target pose and feed-forward velocity inside a segment from \<open>a\<close> to \<open>b\<close>, with the distance
  of the target to the last waypoint.\<close>

definition segment_alpha :: "time_ns \<Rightarrow> time_ns \<Rightarrow> time_ns \<Rightarrow> double" where
  "segment_alpha ta tb tnow = std_clamp (seconds (tnow - ta) / max (1 / 1000000) (seconds (tb - ta))) 0 1"

definition segment_target ::
  "tf_api \<Rightarrow> (time_ns \<times> pose_stamped) \<Rightarrow> (time_ns \<times> pose_stamped) \<Rightarrow> time_ns \<Rightarrow> pose \<times> twist" where
  "segment_target tf a b tnow =
     (let segment_dt = seconds (fst b - fst a);
          alpha = segment_alpha (fst a) (fst b) tnow;
          pa = ps_position (snd a); pb = ps_position (snd b);
          qa = orientation (ps_pose (snd a)); qb = orientation (ps_pose (snd b));
          dyaw = shortest_angular_distance tf (tf_getYaw tf qa) (tf_getYaw tf qb)
      in (\<lparr>position = pt_add pa (pt_scale alpha (pt_sub pb pa)),
           orientation = tf_normalize tf (tf_slerp tf qa qb alpha)\<rparr>,
          \<lparr>linear = pt_scale (1 / max (1 / 1000000) segment_dt) (pt_sub pb pa),
           angular = \<lparr>px = 0, py = 0, pz = dyaw / max (1 / 1000000) segment_dt\<rparr>\<rparr>))"

text \<open>The slow-down near the goal: the factor, and the stop inside the tolerance.\<close>

definition approach_scale :: "controller_params \<Rightarrow> double \<Rightarrow> double" where
  "approach_scale P dist_to_goal =
     std_clamp (dist_to_goal / max (1 / 1000) (slowdown_distance P)) 0 1"

definition approach_velocity :: "controller_params \<Rightarrow> double \<Rightarrow> twist \<Rightarrow> twist" where
  "approach_velocity P dist_to_goal v =
     (if dist_to_goal \<le> xyz_goal_tolerance P
      then \<lparr>linear = zero_point, angular = (angular v)\<lparr>pz := 0\<rparr>\<rparr>
      else let scale = approach_scale P dist_to_goal
           in \<lparr>linear = pt_scale scale (linear v),
               angular = (angular v)\<lparr>pz := pz (angular v) * scale\<rparr>\<rparr>)"

text \<open>\<open>getCurrentCommand\<close>: \<open>tnow\<close> is the time it reads first, \<open>tset\<close> the one \<open>getFilteredSetpoint\<close> reads.\<close>

definition getCurrentCommand ::
  "tf_api \<Rightarrow> time_ns \<Rightarrow> time_ns \<Rightarrow> pose option \<Rightarrow> controller
     \<Rightarrow> (controller_exn + trajectory_point option) \<times> controller" where
  "getCurrentCommand tf tnow tset current_pose c =
     (if current_path c = [] then (Inr None, c)
      else
        let dt = 1 / max (1 / 1000) (controller_frequency (params c)); path = current_path c in
        if tnow \<le> fst (hd path) then
          (let c1 = (case current_pose of Some p \<Rightarrow> resetFilter tf p c | None \<Rightarrow> c)
           in (Inr (Some (getFilteredSetpoint tf tset c1)), c1))
        else if tnow \<ge> fst (last path) then
          (let goal = snd (last path);
               c1 = updateFilter tf (ps_pose goal) zero_twist dt c;
               out = getFilteredSetpoint tf tset c1;
               dist = pt_dist (rs_pos (ref_state c1)) (ps_position goal)
           in (Inr (Some (if dist < xyz_goal_tolerance (params c1) then zero_velocity out else out)), c1))
        else
          let i = advance_index path tnow (current_waypoint_index c);
              c1 = c\<lparr>current_waypoint_index := i\<rparr>
          in if i + 1 \<ge> length path then (Inl Out_Of_Range, c1)
             else
               let (target_pose, target_vel) = segment_target tf (path ! i) (path ! (i + 1)) tnow;
                   dist_to_goal = pt_dist (ps_position (snd (last path))) (position target_pose);
                   c2 = updateFilter tf target_pose
                          (approach_velocity (params c1) dist_to_goal target_vel) dt c1;
                   out = getFilteredSetpoint tf tset c2
               in (Inr (Some (if dist_to_goal \<le> xyz_goal_tolerance (params c2)
                              then zero_velocity out else out)), c2))"

definition isGoalReached :: "tf_api \<Rightarrow> pose option \<Rightarrow> controller \<Rightarrow> bool" where
  "isGoalReached tf current_pose c =
     (if \<not> tf_buffer c \<or> current_path c = [] then False
      else case current_pose of
        None \<Rightarrow> False
      | Some cur \<Rightarrow>
          let goal = ps_pose (snd (last (current_path c))) in
          if pt_dist (position cur) (position goal) > xyz_goal_tolerance (params c) then False
          else \<bar>shortest_angular_distance tf (tf_getYaw tf (orientation cur))
                  (tf_getYaw tf (orientation goal))\<bar> \<le> yaw_goal_tolerance (params c))"

text \<open>\<open>speedLimitCallback\<close> reads \<open>speed_limit\<close> only; the \<open>percentage\<close> flag of the message is not used.\<close>

record speed_limit_msg =
  sl_percentage :: bool
  sl_speed_limit :: double

definition speedLimitCallback :: "speed_limit_msg \<Rightarrow> controller \<Rightarrow> controller" where
  "speedLimitCallback msg c =
     c\<lparr>speed_limit := (if sl_speed_limit msg > 0 then sl_speed_limit msg
                       else default_speed_limit (params c))\<rparr>"

section \<open>Lifecycle callbacks\<close>

definition initial_reference :: reference_state where
  "initial_reference =
     \<lparr>rs_pos = zero_point, rs_vel = zero_point, rs_acc = zero_point, rs_yaw = 0, rs_yaw_vel = 0,
      rs_yaw_acc = 0\<rparr>"

definition ctl_on_cleanup :: "controller \<Rightarrow> controller" where
  "ctl_on_cleanup c =
     c\<lparr>waypoint_pub := False, tf_buffer := False, current_path := [], current_waypoint_index := 0,
       path_start_time := 0, filter_initialized := False\<rparr>"

text \<open>\<open>server_created\<close> says whether the construction of the action server succeeded; the boolean of
  the result is \<open>CallbackReturn::SUCCESS\<close>.\<close>

definition ctl_on_configure :: "controller_params \<Rightarrow> bool \<Rightarrow> controller \<Rightarrow> bool \<times> controller" where
  "ctl_on_configure P server_created c =
     (let c1 = c\<lparr>params := P, speed_limit := default_speed_limit P, waypoint_pub := True,
                 tf_buffer := True\<rparr>
      in if \<not> server_created then (False, ctl_on_cleanup c1)
         else (True, c1\<lparr>current_path := [], current_waypoint_index := 0, path_start_time := 0,
                        filter_initialized := False, ref_state := initial_reference\<rparr>))"

end
