(* ===== verification/Controller_Server_Props.thy ===== *)
theory Controller_Server_Props
  imports Controller_Server
begin

text \<open>
  The reference filter never leaves its limits, the timed trajectory keeps to the speed limit, and
  the control cycle reads the path only within its bounds. \<open>ctl_reachable\<close> runs the callbacks of the
  controller in any order.
\<close>

section \<open>The filter\<close>

lemma limit_magnitude_abs: "0 \<le> limit \<Longrightarrow> \<bar>limit_magnitude limit x\<bar> \<le> limit"
  by (simp add: limit_magnitude_def)

text \<open>Limiting never moves a value further from one that is within the limit.\<close>

lemma limit_magnitude_closer:
  "\<bar>a\<bar> \<le> limit \<Longrightarrow> \<bar>limit_magnitude limit x - a\<bar> \<le> \<bar>x - a\<bar>"
  by (auto simp: limit_magnitude_def copysign_def abs_le_iff)

lemma within_limit: "0 \<le> b \<Longrightarrow> pt_within b (pt_map (limit_magnitude b) p)"
  by (simp add: pt_within_def limit_magnitude_abs)

definition params_ok :: "controller_params \<Rightarrow> bool" where
  "params_ok P \<longleftrightarrow> 0 \<le> ref_jerk_max P \<and> 0 \<le> ref_acc_max P \<and> 0 \<le> ref_vel_max P \<and>
     0 \<le> ref_yaw_jerk_max P \<and> 0 \<le> ref_yaw_acc_max P \<and> 0 \<le> ref_yaw_vel_max P"

definition filter_inv :: "controller \<Rightarrow> bool" where
  "filter_inv c \<longleftrightarrow>
     pt_within (ref_vel_max (params c)) (rs_vel (ref_state c)) \<and>
     pt_within (ref_acc_max (params c)) (rs_acc (ref_state c)) \<and>
     \<bar>rs_yaw_vel (ref_state c)\<bar> \<le> ref_yaw_vel_max (params c) \<and>
     \<bar>rs_yaw_acc (ref_state c)\<bar> \<le> ref_yaw_acc_max (params c)"

lemma resetFilter_inv: "params_ok (params c) \<Longrightarrow> filter_inv (resetFilter tf p c)"
  by (simp add: filter_inv_def resetFilter_def params_ok_def)

lemma resetFilter_simps [simp]:
  "params (resetFilter tf p c) = params c" "filter_initialized (resetFilter tf p c)"
  "current_path (resetFilter tf p c) = current_path c"
  "current_waypoint_index (resetFilter tf p c) = current_waypoint_index c"
  by (simp_all add: resetFilter_def)

lemma updateFilter_simps [simp]:
  "params (updateFilter tf p v dt c) = params c"
  "filter_initialized (updateFilter tf p v dt c) = filter_initialized c"
  "current_path (updateFilter tf p v dt c) = current_path c"
  "current_waypoint_index (updateFilter tf p v dt c) = current_waypoint_index c"
  by (simp_all add: updateFilter_def Let_def)

lemma yaw_vel_limit_bounds:
  assumes "0 \<le> m"
  shows "0 \<le> yaw_vel_limit m e" and "yaw_vel_limit m e \<le> m"
proof -
  have "\<bar>e\<bar> < 2 / 10 \<Longrightarrow> max (1 / 10) (\<bar>e\<bar> / (2 / 10)) \<le> 1"
    by simp
  then show "yaw_vel_limit m e \<le> m"
    using assms mult_left_mono [of "max (1 / 10) (\<bar>e\<bar> / (2 / 10))" 1 m]
    by (simp add: yaw_vel_limit_def split: if_splits)
  show "0 \<le> yaw_vel_limit m e"
    using assms by (simp add: yaw_vel_limit_def max_def)
qed

lemma updateFilter_inv:
  assumes "params_ok (params c)" and "filter_inv c"
  shows "filter_inv (updateFilter tf p v dt c)"
  using assms
  by (auto simp: filter_inv_def updateFilter_def Let_def params_ok_def within_limit
      intro: limit_magnitude_abs
      order_trans [OF limit_magnitude_abs [OF yaw_vel_limit_bounds(1)] yaw_vel_limit_bounds(2)])

text \<open>One update moves the acceleration by at most the jerk limit times \<open>dt\<close> and the position by at
  most the velocity limit times \<open>dt\<close>.\<close>

lemma limited_step:
  assumes "\<bar>a\<bar> \<le> amax" and "0 \<le> jmax" and "0 < dt"
  shows "\<bar>limit_magnitude amax (a + dt * limit_magnitude jmax j) - a\<bar> \<le> jmax * dt"
proof -
  have "\<bar>limit_magnitude amax (a + dt * limit_magnitude jmax j) - a\<bar> \<le> dt * \<bar>limit_magnitude jmax j\<bar>"
    using limit_magnitude_closer [OF assms(1), of "a + dt * limit_magnitude jmax j"] assms(3)
    by (simp add: abs_mult)
  also have "\<dots> \<le> dt * jmax"
    using limit_magnitude_abs [OF assms(2)] assms(3) by (simp add: mult_left_mono)
  finally show ?thesis
    by (simp add: mult.commute)
qed

lemma limited_move: "0 \<le> vmax \<Longrightarrow> 0 < dt \<Longrightarrow> \<bar>dt * limit_magnitude vmax v\<bar> \<le> vmax * dt"
  using limit_magnitude_abs [of vmax v] by (simp add: abs_mult mult.commute mult_left_mono)

lemma updateFilter_acc_step:
  assumes "params_ok (params c)" and "filter_inv c" and "filter_initialized c" and "0 < dt"
  shows "pt_within (ref_jerk_max (params c) * dt)
    (pt_sub (rs_acc (ref_state (updateFilter tf p v dt c))) (rs_acc (ref_state c)))"
  using assms
  by (simp add: updateFilter_def Let_def params_ok_def filter_inv_def pt_within_def limited_step)

lemma updateFilter_pos_step:
  assumes "params_ok (params c)" and "filter_initialized c" and "0 < dt"
  shows "pt_within (ref_vel_max (params c) * dt)
    (pt_sub (rs_pos (ref_state (updateFilter tf p v dt c))) (rs_pos (ref_state c)))"
  using assms
  by (simp add: updateFilter_def Let_def params_ok_def pt_within_def limited_move)

lemma updateFilter_yaw_range:
  assumes "tf_laws tf" and "filter_initialized c" and "0 < dt"
  shows "\<bar>rs_yaw (ref_state (updateFilter tf p v dt c))\<bar> \<le> pi"
  using assms tf_laws.normalize_range [OF assms(1)] by (simp add: updateFilter_def Let_def)

section \<open>The trajectory\<close>

lemma set_stamp_pose [simp]: "ps_pose (set_stamp t p) = ps_pose p"
  by (simp add: set_stamp_def)

lemma time_waypoints_poses:
  "map (ps_pose \<circ> snd) (time_waypoints tf v start acc p0 ps) = map ps_pose ps"
  by (induction ps arbitrary: acc p0) (auto simp: Let_def)

text \<open>A waypoint list is \<open>paced\<close> from \<open>a\<close> when each stamp is later than the one before and leaves the
  time the speed \<open>v\<close> needs for the distance, up to the resolution of the clock.\<close>

definition paced_pair :: "double \<Rightarrow> time_ns \<times> pose_stamped \<Rightarrow> time_ns \<times> pose_stamped \<Rightarrow> bool" where
  "paced_pair v a b \<longleftrightarrow>
     fst a < fst b \<and>
     max (pt_dist (ps_position (snd b)) (ps_position (snd a)) / v) (1 / 100)
       \<le> seconds (fst b - fst a) + 2 / 1000000000"

lemma time_waypoints_paced:
  assumes "tf_laws tf"
  shows "successively (paced_pair v)
    ((start + from_seconds tf acc, set_stamp (start + from_seconds tf acc) p0)
       # time_waypoints tf v start acc p0 ps)"
proof (induction ps arbitrary: acc p0)
  case (Cons p1 ps)
  let ?dt = "max (pt_dist (ps_position p1) (ps_position p0) / v) (1 / 100)"
  let ?t0 = "start + from_seconds tf acc" and ?t1 = "start + from_seconds tf (acc + ?dt)"
  have "from_seconds tf acc < from_seconds tf (acc + ?dt)"
    by (rule tf_laws.from_seconds_less [OF assms]) simp
  moreover have "?dt \<le> seconds (?t1 - ?t0) + 2 / 1000000000"
    using tf_laws.from_seconds_diff [OF assms, of "acc + ?dt" acc] unfolding add_diff_cancel_left
    by linarith
  ultimately have "paced_pair v (?t0, set_stamp ?t0 p0) (?t1, set_stamp ?t1 p1)"
    by (simp add: paced_pair_def)
  then show ?case
    using Cons.IH [of "acc + ?dt" p1] by (simp add: Let_def)
qed simp

lemma generateTimedTrajectory_Inr:
  assumes "generateTimedTrajectory tf now cur pth c = (Inr (), c')"
  obtains p0 ps s where "poses pth = p0 # ps" and "s = now + from_seconds tf (1 / 10)"
    and "current_path c' = (s, set_stamp s p0)
           # time_waypoints tf (max (1 / 1000) (getSpeedLimit c)) s 0 p0 ps"
    and "current_waypoint_index c' = 0" and "path_start_time c' = s" and "params c' = params c"
    and "filter_initialized c'" and "params_ok (params c) \<longrightarrow> filter_inv c'"
    and "tf_buffer c' = tf_buffer c"
proof (cases "poses pth")
  case Nil
  then show thesis
    using assms by (simp add: generateTimedTrajectory_def)
next
  case (Cons p0 ps)
  show thesis
    by (rule that [OF Cons refl])
      (use assms Cons in \<open>auto simp: generateTimedTrajectory_def Let_def resetFilter_def
        filter_inv_def params_ok_def\<close>)
qed

lemma generateTimedTrajectory_paced:
  assumes "tf_laws tf" and "generateTimedTrajectory tf now cur pth c = (Inr (), c')"
  shows "successively (paced_pair (max (1 / 1000) (getSpeedLimit c))) (current_path c')"
proof -
  obtain p0 ps s where "current_path c' = (s, set_stamp s p0)
      # time_waypoints tf (max (1 / 1000) (getSpeedLimit c)) s 0 p0 ps"
    using generateTimedTrajectory_Inr [OF assms(2)] by metis
  then show ?thesis
    using time_waypoints_paced [OF assms(1), of "max (1 / 1000) (getSpeedLimit c)" s 0 p0 ps]
    by (simp add: tf_laws.from_seconds_zero [OF assms(1)])
qed

lemma generateTimedTrajectory_poses:
  assumes "generateTimedTrajectory tf now cur pth c = (Inr (), c')"
  shows "map (ps_pose \<circ> snd) (current_path c') = map ps_pose (poses pth)"
proof -
  obtain p0 ps s where "poses pth = p0 # ps" "current_path c' = (s, set_stamp s p0)
      # time_waypoints tf (max (1 / 1000) (getSpeedLimit c)) s 0 p0 ps"
    using generateTimedTrajectory_Inr [OF assms] by metis
  then show ?thesis
    by (simp add: time_waypoints_poses)
qed

text \<open>The feed-forward speed of a paced segment is the speed limit, up to the clock resolution.\<close>

lemma paced_speed:
  assumes "paced_pair v a b" and "0 < v"
  shows "pt_norm (linear (snd (segment_target tf a b tnow))) \<le> v * (1 + 1 / 1000000)"
proof -
  let ?d = "pt_dist (ps_position (snd b)) (ps_position (snd a))" and ?s = "seconds (fst b - fst a)"
  have s: "?d / v \<le> ?s + 2 / 1000000000" "1 / 100 \<le> ?s + 2 / 1000000000"
    using assms(1) unfolding paced_pair_def max.bounded_iff by auto
  then have pos: "0 < ?s" "max (1 / 1000000) ?s = ?s"
    by simp_all
  have "?d \<le> v * (?s + 2 / 1000000000)"
    using s(1) assms(2) by (simp add: pos_divide_le_eq mult.commute)
  also have "\<dots> \<le> v * (?s * (1 + 1 / 1000000))"
    using assms(2) s(2) by (intro mult_left_mono) (simp_all add: algebra_simps)
  finally have "?d / ?s \<le> v * (1 + 1 / 1000000)"
    using pos(1) by (simp add: pos_divide_le_eq ac_simps)
  then show ?thesis
    using pos by (simp add: segment_target_def Let_def pt_norm_scale pt_dist_def)
qed

section \<open>The index into the path\<close>

lemma advance_index_in_range:
  assumes "i + 1 < length pth" and "tnow < fst (last pth)"
  shows "advance_index pth tnow i + 1 < length pth"
  using assms
proof (induction pth tnow i rule: advance_index.induct)
  case (1 pth tnow i)
  have "last pth = pth ! (length pth - 1)"
    using 1(2) by (intro last_conv_nth) auto
  then have "i + 2 \<noteq> length pth" if "tnow > fst (pth ! (i + 1))"
    using 1(3) that by (metis Suc_1 add_Suc_right add_diff_cancel_right' diff_Suc_1 less_asym plus_1_eq_Suc)
  then have "i + 1 + 1 < length pth" if "tnow > fst (pth ! (i + 1))"
    using 1(2) that by fastforce
  then show ?case
    using 1 by (subst advance_index.simps) auto
qed

lemma advance_index_reached:
  assumes "fst (pth ! i) < tnow"
  shows "fst (pth ! advance_index pth tnow i) < tnow"
  using assms
  by (induction pth tnow i rule: advance_index.induct) (subst advance_index.simps, auto)

lemma advance_index_stops:
  "advance_index pth tnow i + 1 < length pth \<Longrightarrow> tnow \<le> fst (pth ! (advance_index pth tnow i + 1))"
  by (induction pth tnow i rule: advance_index.induct)
    (subst (asm) advance_index.simps, subst advance_index.simps, auto split: if_splits)

section \<open>The controller as a whole\<close>

text \<open>The callbacks of the controller node; \<open>Ctl_Command\<close> carries the two clock readings and the pose
  of the robot.\<close>

datatype ctl_op =
  Ctl_Configure controller_params bool
| Ctl_Cleanup
| Ctl_Speed_Limit speed_limit_msg
| Ctl_Trajectory time_ns "pose option" path
| Ctl_Command time_ns time_ns "pose option"

definition ctl_run ::
  "tf_api \<Rightarrow> ctl_op \<Rightarrow> controller \<Rightarrow> (controller_exn + trajectory_point option) \<times> controller" where
  "ctl_run tf op c =
     (case op of
        Ctl_Configure P ok \<Rightarrow> (Inr None, snd (ctl_on_configure P ok c))
      | Ctl_Cleanup \<Rightarrow> (Inr None, ctl_on_cleanup c)
      | Ctl_Speed_Limit msg \<Rightarrow> (Inr None, speedLimitCallback msg c)
      | Ctl_Trajectory now cur pth \<Rightarrow>
          (let (r, c1) = generateTimedTrajectory tf now cur pth c
           in (map_sum id (\<lambda>_. None) r, c1))
      | Ctl_Command tnow tset cur \<Rightarrow> getCurrentCommand tf tnow tset cur c)"

definition ctl_initial :: "controller_params \<Rightarrow> controller" where
  "ctl_initial P =
     \<lparr>params = P, speed_limit = 1, path_start_time = 0, current_path = [], current_waypoint_index = 0,
      ref_state = initial_reference, filter_initialized = False, tf_buffer = False, waypoint_pub = False\<rparr>"

inductive ctl_reachable :: "tf_api \<Rightarrow> controller \<Rightarrow> bool" for tf :: tf_api where
  ctl_start: "params_ok P \<Longrightarrow> ctl_reachable tf (ctl_initial P)"
| ctl_op: "ctl_reachable tf c \<Longrightarrow> (\<forall>P ok. op = Ctl_Configure P ok \<longrightarrow> params_ok P)
    \<Longrightarrow> ctl_run tf op c = (r, c') \<Longrightarrow> ctl_reachable tf c'"

definition controller_inv :: "controller \<Rightarrow> bool" where
  "controller_inv c \<longleftrightarrow>
     params_ok (params c) \<and>
     (current_path c \<noteq> [] \<longrightarrow> filter_initialized c) \<and>
     (filter_initialized c \<longrightarrow> filter_inv c) \<and>
     (current_waypoint_index c = 0 \<or> current_waypoint_index c + 1 < length (current_path c))"

text \<open>What a command leaves behind and what it publishes.\<close>

definition command_ok :: "controller_params \<Rightarrow> trajectory_point \<Rightarrow> bool" where
  "command_ok P out \<longleftrightarrow>
     pt_within (ref_vel_max P) (linear (velocity out)) \<and>
     \<bar>pz (angular (velocity out))\<bar> \<le> ref_yaw_vel_max P \<and>
     pt_within (ref_acc_max P) (acceleration out)"

lemma getFilteredSetpoint_ok:
  "filter_inv c \<Longrightarrow> params_ok (params c) \<Longrightarrow>
     command_ok (params c) (getFilteredSetpoint tf t c) \<and>
     command_ok (params c) (zero_velocity (getFilteredSetpoint tf t c))"
  by (simp add: command_ok_def getFilteredSetpoint_def zero_velocity_def filter_inv_def Let_def
      params_ok_def)

lemma command_index:
  assumes "controller_inv c" and "current_path c \<noteq> []" and "fst (hd (current_path c)) < tnow"
    and "tnow < fst (last (current_path c))"
  shows "advance_index (current_path c) tnow (current_waypoint_index c) + 1 < length (current_path c)"
proof (rule advance_index_in_range)
  have "1 < length (current_path c)"
    using assms(2-4) by (cases "current_path c"; cases "tl (current_path c)") auto
  then show "current_waypoint_index c + 1 < length (current_path c)"
    using assms(1) by (auto simp: controller_inv_def)
qed (rule assms)

lemma filter_inv_index [simp]: "filter_inv (c\<lparr>current_waypoint_index := i\<rparr>) = filter_inv c"
  by (simp add: filter_inv_def)

lemma updateFilter_controller_inv: "controller_inv c \<Longrightarrow> controller_inv (updateFilter tf p v dt c)"
  by (auto simp: controller_inv_def intro: updateFilter_inv)

lemma resetFilter_controller_inv: "controller_inv c \<Longrightarrow> controller_inv (resetFilter tf p c)"
  by (auto simp: controller_inv_def intro: resetFilter_inv)

lemma index_controller_inv:
  "controller_inv c \<Longrightarrow> i + 1 < length (current_path c) \<Longrightarrow> controller_inv (c\<lparr>current_waypoint_index := i\<rparr>)"
  by (auto simp: controller_inv_def)

text \<open>A result of the control cycle that publishes a command within the limits.\<close>

definition cycle_ok ::
  "controller_params \<Rightarrow> (controller_exn + trajectory_point option) \<times> controller \<Rightarrow> bool" where
  "cycle_ok P res \<longleftrightarrow> controller_inv (snd res) \<and> (\<exists>out. fst res = Inr (Some out) \<and> command_ok P out)"

lemma setpoint_cycle_ok:
  assumes "controller_inv c" and "current_path c \<noteq> []" and "params c = P"
  shows "cycle_ok P (Inr (Some (getFilteredSetpoint tf t c)), c)"
    and "cycle_ok P (Inr (Some (zero_velocity (getFilteredSetpoint tf t c))), c)"
  using assms getFilteredSetpoint_ok [of c tf t] by (auto simp: cycle_ok_def controller_inv_def)

lemma getCurrentCommand_ok:
  assumes "controller_inv c" and "current_path c \<noteq> []"
  shows "cycle_ok (params c) (getCurrentCommand tf tnow tset cur c)"
proof -
  consider "tnow \<le> fst (hd (current_path c))"
    | "tnow > fst (hd (current_path c))" "tnow \<ge> fst (last (current_path c))"
    | "tnow > fst (hd (current_path c))" "tnow < fst (last (current_path c))"
    by linarith
  then show ?thesis
  proof cases
    case 1
    then show ?thesis
      using assms by (cases cur)
        (simp_all add: getCurrentCommand_def Let_def setpoint_cycle_ok resetFilter_controller_inv)
  next
    case 2
    then show ?thesis
      using assms
      by (simp add: getCurrentCommand_def Let_def setpoint_cycle_ok updateFilter_controller_inv)
  next
    case 3
    let ?i = "advance_index (current_path c) tnow (current_waypoint_index c)"
    have i: "?i + 1 < length (current_path c)"
      by (rule command_index [OF assms 3])
    obtain p v where t: "segment_target tf (current_path c ! ?i) (current_path c ! (?i + 1)) tnow = (p, v)"
      by fastforce
    have "controller_inv (c\<lparr>current_waypoint_index := ?i\<rparr>)"
      using assms(1) i by (rule index_controller_inv)
    then show ?thesis
      using 3 i t assms(2)
      by (simp add: getCurrentCommand_def Let_def setpoint_cycle_ok updateFilter_controller_inv)
  qed
qed

lemma ctl_run_inv:
  assumes "controller_inv c" and "\<forall>P ok. op = Ctl_Configure P ok \<longrightarrow> params_ok P"
    and "ctl_run tf op c = (r, c')"
  shows "controller_inv c'"
proof (cases op)
  case (Ctl_Configure P ok)
  then show ?thesis
    using assms
    by (auto simp: ctl_run_def ctl_on_configure_def ctl_on_cleanup_def controller_inv_def Let_def)
next
  case (Ctl_Trajectory now cur pth)
  then show ?thesis
  proof (cases "fst (generateTimedTrajectory tf now cur pth c)")
    case (Inl e)
    then show ?thesis
      using assms Ctl_Trajectory
      by (auto simp: ctl_run_def generateTimedTrajectory_def Let_def split: list.splits)
  next
    case (Inr u)
    then have "generateTimedTrajectory tf now cur pth c = (Inr (), c')"
      using assms Ctl_Trajectory by (auto simp: ctl_run_def prod_eq_iff split: prod.splits)
    then show ?thesis
      using assms(1) by (elim generateTimedTrajectory_Inr) (auto simp: controller_inv_def)
  qed
next
  case (Ctl_Command tnow tset cur)
  then show ?thesis
    using assms getCurrentCommand_ok [OF assms(1), of tf tnow tset cur]
    by (cases "current_path c = []") (auto simp: ctl_run_def cycle_ok_def getCurrentCommand_def)
qed (use assms in \<open>auto simp: ctl_run_def ctl_on_cleanup_def speedLimitCallback_def
      controller_inv_def filter_inv_def\<close>)

lemma ctl_reachable_inv: "ctl_reachable tf c \<Longrightarrow> controller_inv c"
proof (induction rule: ctl_reachable.induct)
  case (ctl_start P)
  then show ?case
    by (simp add: ctl_initial_def controller_inv_def)
next
  case (ctl_op c op r c')
  then show ?case
    using ctl_run_inv by blast
qed

section \<open>Properties\<close>

definition default_params :: controller_params where
  "default_params =
     \<lparr>controller_frequency = 50, xyz_goal_tolerance = 1 / 10, yaw_goal_tolerance = 1 / 10,
      default_speed_limit = 3 / 10, slowdown_distance = 3 / 10, ref_jerk_max = 35 / 100,
      ref_acc_max = 75 / 100, ref_vel_max = 3 / 2, ref_omega = 1, ref_zita = 1 / 2,
      ref_yaw_jerk_max = 35 / 100, ref_yaw_acc_max = 75 / 100, ref_yaw_vel_max = 3 / 2\<rparr>"

lemma default_params_ok [simp]: "params_ok default_params"
  by (simp add: params_ok_def default_params_def)

text \<open>C3: whatever callbacks the controller has run, while it holds a path every control cycle
  publishes a setpoint, without reading outside the path, and the linear velocity, yaw rate and
  acceleration of that setpoint are within the configured limits.\<close>

theorem setpoints_within_limits:
  assumes "ctl_reachable tf c" and "current_path c \<noteq> []"
  shows "\<exists>out c'. getCurrentCommand tf tnow tset cur c = (Inr (Some out), c') \<and>
    pt_within (ref_vel_max (params c)) (linear (velocity out)) \<and>
    \<bar>pz (angular (velocity out))\<bar> \<le> ref_yaw_vel_max (params c) \<and>
    pt_within (ref_acc_max (params c)) (acceleration out)"
  using getCurrentCommand_ok [OF ctl_reachable_inv [OF assms(1)] assms(2), of tf tnow tset cur]
  by (cases "getCurrentCommand tf tnow tset cur c") (auto simp: cycle_ok_def command_ok_def)

text \<open>A controller that has received a path of two waypoints one metre apart.\<close>

definition demo_path :: path where
  "demo_path = \<lparr>path_header = default_header,
     poses = [default_pose_stamped,
              default_pose_stamped\<lparr>ps_pose := default_pose\<lparr>position := \<lparr>px = 1, py = 0, pz = 0\<rparr>\<rparr>\<rparr>]\<rparr>"

definition demo_ctl :: controller where
  "demo_ctl = snd (generateTimedTrajectory ref_tf 0 None demo_path (ctl_initial default_params))"

lemma demo_generate:
  "generateTimedTrajectory ref_tf 0 None demo_path (ctl_initial default_params) = (Inr (), demo_ctl)"
  by (simp add: demo_ctl_def generateTimedTrajectory_def demo_path_def Let_def)

lemma demo_ctl_reachable: "ctl_reachable ref_tf demo_ctl"
proof (rule ctl_op)
  show "ctl_reachable ref_tf (ctl_initial default_params)"
    by (simp add: ctl_start)
  show "ctl_run ref_tf (Ctl_Trajectory 0 None demo_path) (ctl_initial default_params) = (Inr None, demo_ctl)"
    by (simp add: ctl_run_def demo_generate)
qed simp

lemma demo_ctl_path: "current_path demo_ctl \<noteq> []"
  by (rule generateTimedTrajectory_Inr [OF demo_generate]) simp

theorem setpoints_within_limits_witness:
  "ctl_reachable ref_tf demo_ctl \<and>
   (\<exists>out c'. getCurrentCommand ref_tf 1000000000 1000000000 None demo_ctl = (Inr (Some out), c') \<and>
     pt_within (ref_vel_max (params demo_ctl)) (linear (velocity out)))"
  using setpoints_within_limits [OF demo_ctl_reachable demo_ctl_path] demo_ctl_reachable by blast

text \<open>one update of an initialised filter that is within its limits keeps it there, changes the
  acceleration of each axis by at most the jerk limit times \<open>dt\<close>, moves the reference by at most the
  velocity limit times \<open>dt\<close> along each axis, and leaves the yaw between \<open>-\<pi>\<close> and \<open>\<pi>\<close>.\<close>

theorem filter_step_limits:
  assumes "tf_laws tf" and "params_ok (params c)" and "filter_inv c" and "filter_initialized c"
    and "0 < dt" and "c' = updateFilter tf target_pose target_vel dt c"
  shows "filter_inv c' \<and>
    pt_within (ref_jerk_max (params c) * dt) (pt_sub (rs_acc (ref_state c')) (rs_acc (ref_state c))) \<and>
    pt_within (ref_vel_max (params c) * dt) (pt_sub (rs_pos (ref_state c')) (rs_pos (ref_state c))) \<and>
    \<bar>rs_yaw (ref_state c')\<bar> \<le> pi"
  unfolding assms(6)
  using updateFilter_inv [OF assms(2,3)] updateFilter_acc_step [OF assms(2,3,4,5)]
    updateFilter_pos_step [OF assms(2,4,5)] updateFilter_yaw_range [OF assms(1,4,5)] by blast

theorem filter_step_limits_witness:
  "filter_inv (updateFilter ref_tf default_pose zero_twist (1 / 50) demo_ctl) \<and>
   \<bar>rs_yaw (ref_state (updateFilter ref_tf default_pose zero_twist (1 / 50) demo_ctl))\<bar> \<le> pi"
proof -
  have "params_ok (params demo_ctl)" "filter_inv demo_ctl" "filter_initialized demo_ctl"
    using ctl_reachable_inv [OF demo_ctl_reachable] demo_ctl_path by (auto simp: controller_inv_def)
  then show ?thesis
    using filter_step_limits [OF ref_tf.tf_laws_axioms, of demo_ctl "1 / 50"] by simp
qed

text \<open>C14: on a path that is not empty \<open>generateTimedTrajectory\<close> succeeds (on an empty one it throws
  \<open>InvalidPath\<close> and changes nothing). The timed path has the same poses in the same order with
  strictly increasing stamps, and on each of its segments the feed-forward velocity is at most the
  speed limit, or 1 mm/s if that is larger, up to one part in a million for the clock resolution.\<close>

theorem trajectory_respects_speed_limit:
  assumes "tf_laws tf" and "poses pth \<noteq> []"
  shows "\<exists>c'. generateTimedTrajectory tf now cur pth c = (Inr (), c') \<and>
    map (ps_pose \<circ> snd) (current_path c') = map ps_pose (poses pth) \<and>
    (\<forall>i. Suc i < length (current_path c') \<longrightarrow>
       fst (current_path c' ! i) < fst (current_path c' ! Suc i) \<and>
       pt_norm (linear (snd (segment_target tf (current_path c' ! i) (current_path c' ! Suc i) tnow)))
         \<le> max (1 / 1000) (getSpeedLimit c) * (1 + 1 / 1000000))"
proof -
  obtain c' where g: "generateTimedTrajectory tf now cur pth c = (Inr (), c')"
    using assms(2) by (cases "poses pth") (auto simp: generateTimedTrajectory_def Let_def)
  have "paced_pair (max (1 / 1000) (getSpeedLimit c)) (current_path c' ! i) (current_path c' ! Suc i)"
    if "Suc i < length (current_path c')" for i
    using generateTimedTrajectory_paced [OF assms(1) g] that
    by (simp add: successively_conv_nth)
  then show ?thesis
    using g generateTimedTrajectory_poses [OF g] paced_speed
    by (intro exI [of _ c']) (auto simp: paced_pair_def)
qed

theorem trajectory_respects_speed_limit_witness:
  "poses demo_path \<noteq> [] \<and>
   (\<exists>c'. generateTimedTrajectory ref_tf 0 None demo_path (ctl_initial default_params) = (Inr (), c') \<and>
     map (ps_pose \<circ> snd) (current_path c') = map ps_pose (poses demo_path))"
  using trajectory_respects_speed_limit [OF ref_tf.tf_laws_axioms, of demo_path]
  by (fastforce simp: demo_path_def)

text \<open>between the first and the last stamp, the index the control cycle uses selects the segment
  that contains the current time, whenever the index it starts from lies in the past, and the
  interpolated target lies on that segment.\<close>

theorem segment_contains_now:
  assumes "i + 1 < length pth" and "fst (pth ! i) < tnow" and "tnow < fst (last pth)"
    and "j = advance_index pth tnow i"
  shows "j + 1 < length pth \<and> fst (pth ! j) < tnow \<and> tnow \<le> fst (pth ! (j + 1)) \<and>
    (\<exists>a. 0 \<le> a \<and> a \<le> 1 \<and>
       position (fst (segment_target tf (pth ! j) (pth ! (j + 1)) tnow)) =
         pt_add (ps_position (snd (pth ! j)))
           (pt_scale a (pt_sub (ps_position (snd (pth ! (j + 1)))) (ps_position (snd (pth ! j))))))"
proof -
  let ?a = "segment_alpha (fst (pth ! j)) (fst (pth ! (j + 1))) tnow"
  have "0 \<le> ?a \<and> ?a \<le> 1"
    by (simp add: segment_alpha_def std_clamp_bounds)
  then show ?thesis
    using advance_index_in_range [OF assms(1,3)] advance_index_reached [OF assms(2)]
      advance_index_stops [of pth tnow i] assms(4)
    by (auto simp: segment_target_def Let_def)
qed

definition demo_stamps :: "(time_ns \<times> pose_stamped) list" where
  "demo_stamps = [(0, default_pose_stamped), (10, default_pose_stamped), (20, default_pose_stamped)]"

theorem segment_contains_now_witness:
  "advance_index demo_stamps 15 0 + 1 < length demo_stamps \<and>
   fst (demo_stamps ! advance_index demo_stamps 15 0) < 15 \<and>
   15 \<le> fst (demo_stamps ! (advance_index demo_stamps 15 0 + 1))"
proof -
  have "0 + 1 < length demo_stamps" "fst (demo_stamps ! 0) < 15" "15 < fst (last demo_stamps)"
    by (simp_all add: demo_stamps_def)
  then show ?thesis
    using segment_contains_now [of 0 demo_stamps 15 _ ref_tf] by blast
qed

end
