(* ===== verification/Controller_Loop.thy ===== *)
theory Controller_Loop
  imports Controller_Server_Props Action_Server_Threads
begin

text \<open>
  \<open>ControllerServer::computeControl\<close>, the execute callback of the \<open>follow_path\<close> action: the control
  loop composed of the action server (\<open>Action_Server\<close>) and the controller (\<open>Controller_Server\<close>). Each
  element of the list of cycles is one round of the \<open>while\<close> loop: what the other threads did to the
  server before it, \<open>rclcpp::ok\<close>, the clock readings and the poses read from the transform buffer.
  The text of error messages is not modelled.
\<close>

section \<open>The control loop\<close>

record follow_path_result =
  error_code :: nat

record ('h, 'g) cycle_env =
  env_server :: "('h, 'g) server \<Rightarrow> ('h, 'g) server"
  env_ok :: bool
  env_gen_now :: time_ns
  env_gen_pose :: "pose option"
  env_now :: time_ns
  env_set_now :: time_ns
  env_pose :: "pose option"
  env_publish_throws :: bool
  env_goal_pose :: "pose option"

datatype loop_end = Ended_Inactive | Ended_Terminated | Ended_Succeeded | Ended_Failed nat

type_synonym ('h, 'g) loop_state = "('h, 'g) server \<times> controller \<times> trajectory_point list"

text \<open>The part of a cycle after the preemption check.\<close>

definition command_part ::
  "('h, path, follow_path_result, 'g) goal_api \<Rightarrow> tf_api \<Rightarrow> ('h, 'g) cycle_env
     \<Rightarrow> ('h, 'g) loop_state \<Rightarrow> (controller_exn + loop_end option) \<times> ('h, 'g) loop_state" where
  "command_part api tf e st =
     (case st of (s, c, pub) \<Rightarrow>
        (case getCurrentCommand tf (env_now e) (env_set_now e) (env_pose e) c of
           (Inl x, c1) \<Rightarrow> (Inl x, (s, c1, pub))
         | (Inr cmd, c1) \<Rightarrow>
             if cmd \<noteq> None \<and> env_publish_throws e then (Inl Std_Exception, (s, c1, pub))
             else
               let pub1 = pub @ (case cmd of None \<Rightarrow> [] | Some p \<Rightarrow> [p]) in
               if isGoalReached tf (env_goal_pose e) c1 then
                 (Inr (Some Ended_Succeeded),
                  (succeeded_current api (gh_empty_result api) s,
                   c1\<lparr>current_path := [], current_waypoint_index := 0\<rparr>, pub1))
               else (Inr None, (s, c1, pub1))))"

definition control_cycle ::
  "('h, path, follow_path_result, 'g) goal_api \<Rightarrow> tf_api \<Rightarrow> ('h, 'g) cycle_env
     \<Rightarrow> ('h, 'g) loop_state \<Rightarrow> (controller_exn + loop_end option) \<times> ('h, 'g) loop_state" where
  "control_cycle api tf e st =
     (case st of (s0, c, pub) \<Rightarrow>
        let s = env_server e s0 in
        if \<not> server_active s then (Inr (Some Ended_Inactive), (s, c, pub))
        else if is_cancel_requested api s then
          (Inr (Some Ended_Terminated), (terminate_all api (gh_empty_result api) s, c, pub))
        else if preempt_requested s then
          (let s1 = snd (accept_pending_goal api s) in
           case get_current_goal api s1 of
             None \<Rightarrow>
               (Inr (Some Ended_Terminated), (terminate_all api (gh_empty_result api) s1, c, pub))
           | Some goal \<Rightarrow>
               (case generateTimedTrajectory tf (env_gen_now e) (env_gen_pose e) goal
                       (c\<lparr>current_path := [], current_waypoint_index := 0\<rparr>) of
                  (Inl x, c1) \<Rightarrow> (Inl x, (s1, c1, pub))
                | (Inr _, c1) \<Rightarrow> command_part api tf e (s1, c1, pub)))
        else command_part api tf e (s, c, pub))"

text \<open>The \<open>while\<close> loop; \<open>Inr None\<close> says it is still running when the given cycles are used up.\<close>

fun control_loop ::
  "('h, path, follow_path_result, 'g) goal_api \<Rightarrow> tf_api \<Rightarrow> ('h, 'g) cycle_env list
     \<Rightarrow> ('h, 'g) loop_state \<Rightarrow> (controller_exn + loop_end option) \<times> ('h, 'g) loop_state" where
  "control_loop api tf [] st = (Inr None, st)"
| "control_loop api tf (e # es) st =
     (if \<not> env_ok e then
        (case st of (s, c, pub) \<Rightarrow>
           (Inr (Some Ended_Terminated), (terminate_all api (gh_empty_result api) s, c, pub)))
      else case control_cycle api tf e st of
        (Inr None, st1) \<Rightarrow> control_loop api tf es st1
      | (r, st1) \<Rightarrow> (r, st1))"

text \<open>The error codes of the \<open>catch\<close> clauses.\<close>

definition catch_code :: "controller_exn \<Rightarrow> nat" where
  "catch_code x =
     (case x of
        ControllerTFError \<Rightarrow> 102
      | PatienceExceeded \<Rightarrow> 104
      | InvalidPath \<Rightarrow> 103
      | ControllerTimedOut \<Rightarrow> 107
      | _ \<Rightarrow> 100)"

definition catch_part ::
  "('h, path, follow_path_result, 'g) goal_api
     \<Rightarrow> (controller_exn + loop_end option) \<times> ('h, 'g) loop_state
     \<Rightarrow> loop_end option \<times> ('h, 'g) loop_state" where
  "catch_part api r =
     (case r of
        (Inr x, st) \<Rightarrow> (x, st)
      | (Inl x, (s, c, pub)) \<Rightarrow>
          (Some (Ended_Failed (catch_code x)),
           (terminate_current api \<lparr>error_code = catch_code x\<rparr> s, c, pub)))"

definition computeControl ::
  "('h, path, follow_path_result, 'g) goal_api \<Rightarrow> tf_api \<Rightarrow> time_ns \<Rightarrow> pose option
     \<Rightarrow> ('h, 'g) cycle_env list \<Rightarrow> ('h, 'g) loop_state \<Rightarrow> loop_end option \<times> ('h, 'g) loop_state" where
  "computeControl api tf now cur cycles st =
     (case st of (s, c, pub) \<Rightarrow>
        (case get_current_goal api s of
           None \<Rightarrow> (Some Ended_Terminated, (terminate_all api (gh_empty_result api) s, c, pub))
         | Some goal \<Rightarrow>
             catch_part api
               (case generateTimedTrajectory tf now cur goal c of
                  (Inl x, c1) \<Rightarrow> (Inl x, (s, c1, pub))
                | (Inr _, c1) \<Rightarrow> control_loop api tf cycles (s, c1, pub))))"

section \<open>Success means arrival\<close>

definition arrived :: "tf_api \<Rightarrow> controller_params \<Rightarrow> pose \<Rightarrow> path \<Rightarrow> bool" where
  "arrived tf P cur pth \<longleftrightarrow>
     poses pth \<noteq> [] \<and>
     pt_dist (position cur) (ps_position (last (poses pth))) \<le> xyz_goal_tolerance P \<and>
     \<bar>shortest_angular_distance tf (tf_getYaw tf (orientation cur))
        (tf_getYaw tf (orientation (ps_pose (last (poses pth)))))\<bar> \<le> yaw_goal_tolerance P"

text \<open>The controller follows the path of the goal that is current.\<close>

definition follows :: "('h, path, follow_path_result, 'g) goal_api \<Rightarrow> ('h, 'g) server \<Rightarrow> controller \<Rightarrow> bool" where
  "follows api s c \<longleftrightarrow>
     (\<exists>h. current_handle s = Some h \<and>
        map (ps_pose \<circ> snd) (current_path c) = map ps_pose (poses (gh_get_goal api h)))"

text \<open>How the loop may end with success: the current goal is completed and the robot has arrived at
  the end of its path, according to one of the poses \<open>obs\<close> that were read.\<close>

definition success_ok ::
  "('h, path, follow_path_result, 'g) goal_api \<Rightarrow> tf_api \<Rightarrow> controller_params \<Rightarrow> pose set
     \<Rightarrow> ('h, 'g) server \<Rightarrow> bool" where
  "success_ok api tf P obs s' \<longleftrightarrow>
     (\<exists>s h. \<exists>cur \<in> obs. current_handle s = Some h \<and> s' = succeeded_current api (gh_empty_result api) s \<and>
        arrived tf P cur (gh_get_goal api h))"

lemma last_pose:
  assumes "map (ps_pose \<circ> snd) xs = map ps_pose ys" and "xs \<noteq> []"
  shows "ys \<noteq> [] \<and> ps_pose (snd (last xs)) = ps_pose (last ys)"
proof -
  have "ys \<noteq> []"
    using assms by auto
  then show ?thesis
    using assms(2) last_map [of xs "ps_pose \<circ> snd"] last_map [of ys ps_pose]
    unfolding assms(1) by simp
qed

lemma isGoalReached_arrived:
  assumes "isGoalReached tf cur c" and "follows api s c"
  shows "\<exists>h p. current_handle s = Some h \<and> cur = Some p \<and> arrived tf (params c) p (gh_get_goal api h)"
proof -
  obtain h where h: "current_handle s = Some h"
    "map (ps_pose \<circ> snd) (current_path c) = map ps_pose (poses (gh_get_goal api h))"
    using assms(2) by (auto simp: follows_def)
  obtain p where p: "cur = Some p"
    using assms(1) by (auto simp: isGoalReached_def split: if_splits option.splits)
  have "current_path c \<noteq> []"
    using assms(1) by (auto simp: isGoalReached_def)
  note l = last_pose [OF h(2) this]
  have "arrived tf (params c) p (gh_get_goal api h)"
    using assms(1) p l by (auto simp: isGoalReached_def arrived_def Let_def split: if_splits)
  then show ?thesis
    using h(1) p by blast
qed

lemma getCurrentCommand_keeps:
  assumes "getCurrentCommand tf a b cur c = (r, c')"
  shows "current_path c' = current_path c \<and> params c' = params c"
proof -
  have "current_path (snd (getCurrentCommand tf a b cur c)) = current_path c \<and>
    params (snd (getCurrentCommand tf a b cur c)) = params c"
    by (simp add: getCurrentCommand_def Let_def split: prod.split option.split)
  then show ?thesis
    using assms by simp
qed

lemma command_part_follows:
  assumes "command_part api tf e (s, c, pub) = (r, (s', c', pub'))" and "follows api s c"
  shows "params c' = params c \<and>
    (r = Inr None \<longrightarrow> follows api s' c') \<and>
    (r = Inr (Some Ended_Succeeded) \<longrightarrow> success_ok api tf (params c) (set_option (env_goal_pose e)) s')"
proof -
  obtain q c1 where g: "getCurrentCommand tf (env_now e) (env_set_now e) (env_pose e) c = (q, c1)"
    by fastforce
  have k: "current_path c1 = current_path c" "params c1 = params c"
    using getCurrentCommand_keeps [OF g] by auto
  then have f: "follows api s c1"
    using assms(2) by (simp add: follows_def)
  show ?thesis
    using assms(1) g k f isGoalReached_arrived [OF _ f, of tf "env_goal_pose e"]
    by (auto simp: command_part_def Let_def success_ok_def split: sum.splits if_splits)
qed

lemma generate_follows:
  assumes "generateTimedTrajectory tf now cur goal c = (Inr (), c')"
    and "get_current_goal api s = Some goal"
  shows "follows api s c' \<and> params c' = params c"
proof -
  obtain h where "current_handle s = Some h" "gh_get_goal api h = goal"
    using assms(2) by (auto simp: get_current_goal_def split: if_splits)
  moreover have "params c' = params c"
    using generateTimedTrajectory_Inr [OF assms(1)] by metis
  ultimately show ?thesis
    using generateTimedTrajectory_poses [OF assms(1)] by (auto simp: follows_def)
qed

lemma generate_params:
  "generateTimedTrajectory tf now cur goal c = (r, c') \<Longrightarrow> params c' = params c"
  by (auto simp: generateTimedTrajectory_def Let_def split: list.splits)

lemma control_cycle_follows:
  assumes "control_cycle api tf e (s, c, pub) = (r, (s', c', pub'))" and "follows api s c"
    and "\<And>t. current_handle (env_server e t) = current_handle t"
  shows "params c' = params c \<and>
    (r = Inr None \<longrightarrow> follows api s' c') \<and>
    (r = Inr (Some Ended_Succeeded) \<longrightarrow> success_ok api tf (params c) (set_option (env_goal_pose e)) s')"
proof -
  let ?s = "env_server e s" and ?c0 = "c\<lparr>current_path := [], current_waypoint_index := 0\<rparr>"
  let ?s1 = "snd (accept_pending_goal api ?s)"
  have f: "follows api ?s c"
    using assms(2,3) by (simp add: follows_def)
  consider (early) "r = Inr (Some Ended_Inactive) \<or> r = Inr (Some Ended_Terminated)" "c' = c"
    | (thrown) x goal where "r = Inl x"
        "generateTimedTrajectory tf (env_gen_now e) (env_gen_pose e) goal ?c0 = (Inl x, c')"
    | (fresh) goal c1 where "get_current_goal api ?s1 = Some goal"
        "generateTimedTrajectory tf (env_gen_now e) (env_gen_pose e) goal ?c0 = (Inr (), c1)"
        "command_part api tf e (?s1, c1, pub) = (r, (s', c', pub'))"
    | (same) "command_part api tf e (?s, c, pub) = (r, (s', c', pub'))"
    using assms(1)
    by (auto simp: control_cycle_def Let_def split: if_splits option.splits prod.splits sum.splits)
  then show ?thesis
  proof cases
    case thrown
    then show ?thesis
      using generate_params by fastforce
  next
    case fresh
    then show ?thesis
      using generate_follows [OF fresh(2,1)] command_part_follows [OF fresh(3)] by auto
  next
    case same
    then show ?thesis
      using command_part_follows [OF same f] by simp
  qed auto
qed

lemma control_loop_follows:
  assumes "control_loop api tf cycles (s, c, pub) = (Inr (Some Ended_Succeeded), (s', c', pub'))"
    and "follows api s c" and "\<forall>e \<in> set cycles. \<forall>t. current_handle (env_server e t) = current_handle t"
  shows "success_ok api tf (params c) (\<Union>e \<in> set cycles. set_option (env_goal_pose e)) s'"
  using assms
proof (induction cycles arbitrary: s c pub)
  case (Cons e es)
  obtain r s1 c1 pub1 where y: "control_cycle api tf e (s, c, pub) = (r, (s1, c1, pub1))"
    by (metis prod_cases3 surj_pair)
  note f = control_cycle_follows [OF y Cons.prems(2)]
  have "env_ok e"
    using Cons.prems(1) by (auto split: if_splits)
  then consider "r = Inr None" "control_loop api tf es (s1, c1, pub1)
        = (Inr (Some Ended_Succeeded), (s', c', pub'))"
    | "r = Inr (Some Ended_Succeeded)" "s1 = s'"
    using Cons.prems(1) y by (auto split: sum.splits option.splits)
  then show ?case
  proof cases
    case 1
    then show ?thesis
      using Cons.IH [of s1 c1 pub1] f Cons.prems(3) by (auto simp: success_ok_def)
  next
    case 2
    then show ?thesis
      using f Cons.prems(3) by (fastforce simp: success_ok_def)
  qed
qed simp

section \<open>Every way out settles the goal\<close>

text \<open>A result of the loop leaves the server consistent; a result other than \<open>Ended_Inactive\<close>, of a
  loop that has ended, leaves no current goal.\<close>

definition settled ::
  "('h, path, follow_path_result, 'g) goal_api \<Rightarrow> ('g \<Rightarrow> bool)
     \<Rightarrow> (controller_exn + loop_end option) \<times> ('h, 'g) loop_state \<Rightarrow> bool" where
  "settled api ok r \<longleftrightarrow>
     server_inv api ok (fst (snd r)) \<and>
     (\<forall>x. fst r = Inr (Some x) \<and> x \<noteq> Ended_Inactive \<longrightarrow> current_handle (fst (snd r)) = None)"

locale follow_path_server = goal_handles api ok
  for api :: "('h, path, follow_path_result, 'g) goal_api" and ok :: "'g \<Rightarrow> bool"
begin

lemma command_part_settled:
  assumes "server_inv api ok s"
  shows "settled api ok (command_part api tf e (s, c, pub))"
  using assms succeeded_current_inv [OF assms]
  by (auto simp: settled_def command_part_def Let_def split: prod.splits sum.splits)

lemma control_cycle_settled:
  assumes "server_inv api ok s" and "\<And>t. server_inv api ok t \<Longrightarrow> server_inv api ok (env_server e t)"
  shows "settled api ok (control_cycle api tf e (s, c, pub))"
proof -
  let ?s = "env_server e s" and ?c0 = "c\<lparr>current_path := [], current_waypoint_index := 0\<rparr>"
  let ?s1 = "snd (accept_pending_goal api ?s)"
  have i: "server_inv api ok ?s" "server_inv api ok ?s1"
    using assms accept_pending_inv by auto
  show ?thesis
    using i terminate_all_inv(1,2) [OF i(1), of "gh_empty_result api"]
      terminate_all_inv(1,2) [OF i(2), of "gh_empty_result api"]
      command_part_settled [OF i(1)] command_part_settled [OF i(2)]
    by (auto simp: control_cycle_def Let_def settled_def
        split: option.splits prod.splits sum.splits)
qed

lemma control_loop_settled:
  assumes "server_inv api ok s"
    and "\<forall>e \<in> set cycles. \<forall>t. server_inv api ok t \<longrightarrow> server_inv api ok (env_server e t)"
  shows "settled api ok (control_loop api tf cycles (s, c, pub))"
  using assms
proof (induction cycles arbitrary: s c pub)
  case Nil
  then show ?case by (simp add: settled_def)
next
  case (Cons e es)
  obtain r s1 c1 pub1 where y: "control_cycle api tf e (s, c, pub) = (r, (s1, c1, pub1))"
    by (metis prod_cases3 surj_pair)
  have "settled api ok (r, (s1, c1, pub1))"
    using control_cycle_settled [of s e tf c pub] Cons.prems y by simp
  then show ?case
    using Cons y terminate_all_inv(1,2) [OF Cons.prems(1), of "gh_empty_result api"]
    by (auto simp: settled_def split: sum.splits option.splits)
qed

lemma catch_part_settled:
  assumes "settled api ok r" and "catch_part api r = (Some x, (s', c', pub'))"
  shows "server_inv api ok s' \<and> (x \<noteq> Ended_Inactive \<longrightarrow> current_handle s' = None)"
proof -
  obtain q s c pub where r: "r = (q, (s, c, pub))"
    by (metis prod_cases3 surj_pair)
  have i: "server_inv api ok s"
    using assms(1) r by (simp add: settled_def)
  show ?thesis
    using assms r terminate_current_inv(1,2) [OF i] by (cases q) (auto simp: catch_part_def settled_def)
qed

lemma computeControl_settled:
  assumes "server_inv api ok s"
    and "\<forall>e \<in> set cycles. \<forall>t. server_inv api ok t \<longrightarrow> server_inv api ok (env_server e t)"
    and "computeControl api tf now cur cycles (s, c, pub) = (Some x, (s', c', pub'))"
  shows "server_inv api ok s' \<and> (x \<noteq> Ended_Inactive \<longrightarrow> current_handle s' = None)"
proof (cases "get_current_goal api s")
  case None
  then show ?thesis
    using assms(3) terminate_all_inv(1,2) [OF assms(1)] by (auto simp: computeControl_def)
next
  case (Some goal)
  obtain q c1 where g: "generateTimedTrajectory tf now cur goal c = (q, c1)"
    by fastforce
  let ?r = "case q of Inl x \<Rightarrow> (Inl x, (s, c1, pub)) | Inr _ \<Rightarrow> control_loop api tf cycles (s, c1, pub)"
  have "settled api ok ?r"
    using control_loop_settled [OF assms(1,2), of tf c1 pub] assms(1)
    by (cases q) (auto simp: settled_def)
  moreover have "catch_part api ?r = (Some x, (s', c', pub'))"
    using assms(3) Some g by (cases q) (auto simp: computeControl_def)
  ultimately show ?thesis
    by (rule catch_part_settled)
qed

end

interpretation ros_follow: follow_path_server "ros_api goal_of no_result" ros_ok for goal_of no_result
  by unfold_locales

section \<open>Properties\<close>

text \<open>\<open>follow_path\<close> succeeds only when the robot has arrived: the goal that is completed is the
  current one, its path is not empty, and one of the poses read from the transform buffer is within
  the position and yaw tolerance of the last pose of that path, also after preemptions.\<close>

theorem follow_path_success_means_arrival:
  assumes "\<forall>e \<in> set cycles. \<forall>t. current_handle (env_server e t) = current_handle t"
    and "computeControl api tf now cur cycles (s, c, pub) = (Some Ended_Succeeded, (s', c', pub'))"
  shows "\<exists>srv h p. current_handle srv = Some h \<and>
    s' = succeeded_current api (gh_empty_result api) srv \<and>
    p \<in> (\<Union>e \<in> set cycles. set_option (env_goal_pose e)) \<and> poses (gh_get_goal api h) \<noteq> [] \<and>
    pt_dist (position p) (ps_position (last (poses (gh_get_goal api h)))) \<le> xyz_goal_tolerance (params c) \<and>
    \<bar>shortest_angular_distance tf (tf_getYaw tf (orientation p))
       (tf_getYaw tf (orientation (ps_pose (last (poses (gh_get_goal api h))))))\<bar>
      \<le> yaw_goal_tolerance (params c)"
proof -
  obtain goal c1 where g: "get_current_goal api s = Some goal"
    "generateTimedTrajectory tf now cur goal c = (Inr (), c1)"
    "control_loop api tf cycles (s, c1, pub) = (Inr (Some Ended_Succeeded), (s', c', pub'))"
    using assms(2)
    by (auto simp: computeControl_def catch_part_def split: option.splits prod.splits sum.splits)
  have f: "follows api s c1" "params c1 = params c"
    using generate_follows [OF g(2,1)] by auto
  show ?thesis
    using control_loop_follows [OF g(3) f(1) assms(1)] f(2)
    by (auto simp: success_ok_def arrived_def)
qed

text \<open>A goal with a single waypoint, and one cycle in which the robot stands on it.\<close>

definition one_point_path :: path where
  "one_point_path = \<lparr>path_header = default_header, poses = [default_pose_stamped]\<rparr>"

abbreviation demo_api :: "path \<Rightarrow> (nat, path, follow_path_result, nat \<Rightarrow> goal_status) goal_api" where
  "demo_api pth \<equiv> ros_api (\<lambda>_. pth) \<lparr>error_code = 0\<rparr>"

definition demo_cycle :: "(nat, nat \<Rightarrow> goal_status) cycle_env" where
  "demo_cycle =
     \<lparr>env_server = (\<lambda>s. s), env_ok = True, env_gen_now = 0, env_gen_pose = None, env_now = 0,
      env_set_now = 0, env_pose = None, env_publish_throws = False, env_goal_pose = Some default_pose\<rparr>"

definition ready_ctl :: controller where
  "ready_ctl = snd (ctl_on_configure default_params True (ctl_initial default_params))"

lemma wrap_angle_zero [simp]: "wrap_angle 0 = 0"
proof -
  have "\<lfloor>pi / (2 * pi)\<rfloor> = 0"
    by (simp add: floor_eq_iff)
  then show ?thesis
    by (simp add: wrap_angle_def)
qed

lemma demo_controller:
  "\<exists>c1 c' pub'. generateTimedTrajectory ref_tf 0 None one_point_path ready_ctl = (Inr (), c1) \<and>
     control_cycle (demo_api one_point_path) ref_tf demo_cycle (executing_server, c1, []) =
       (Inr (Some Ended_Succeeded), (succeeded_current (demo_api one_point_path) \<lparr>error_code = 0\<rparr> executing_server, c', pub'))"
proof -
  obtain c1 where g: "generateTimedTrajectory ref_tf 0 None one_point_path ready_ctl = (Inr (), c1)"
    by (simp add: generateTimedTrajectory_def one_point_path_def Let_def)
  obtain p0 ps s where k: "poses one_point_path = p0 # ps" "s = 0 + from_seconds ref_tf (1 / 10)"
    "current_path c1 = (s, set_stamp s p0) # time_waypoints ref_tf (max (1 / 1000) (getSpeedLimit ready_ctl)) s 0 p0 ps"
    "params c1 = params ready_ctl" "tf_buffer c1 = tf_buffer ready_ctl"
    using generateTimedTrajectory_Inr [OF g] by metis
  then have c1: "current_path c1 = [(s, set_stamp s default_pose_stamped)]" "0 \<le> s" "tf_buffer c1"
    "params c1 = default_params"
    by (auto simp: one_point_path_def ref_tf_def ready_ctl_def ctl_on_configure_def Let_def)
  obtain out where o: "getCurrentCommand ref_tf 0 0 None c1 = (Inr (Some out), c1)"
    using c1 by (simp add: getCurrentCommand_def Let_def)
  have r: "isGoalReached ref_tf (Some default_pose) c1"
    using c1 by (simp add: isGoalReached_def Let_def default_pose_stamped_def pt_dist_def pt_norm_def
        hypot3_def default_params_def ref_tf_def)
  show ?thesis
    using g o r by (simp add: control_cycle_def command_part_def demo_cycle_def Let_def executing_server_def
        server_init_def is_cancel_requested_def ros_api_def)
qed

lemma demo_run:
  "fst (computeControl (demo_api one_point_path) ref_tf 0 None [demo_cycle] (executing_server, ready_ctl, []))
     = Some Ended_Succeeded"
proof -
  obtain c1 st where "generateTimedTrajectory ref_tf 0 None one_point_path ready_ctl = (Inr (), c1)"
    and "control_cycle (demo_api one_point_path) ref_tf demo_cycle (executing_server, c1, []) = (Inr (Some Ended_Succeeded), st)"
    using demo_controller by blast
  then show ?thesis
    by (simp add: computeControl_def catch_part_def executing_server_goal demo_cycle_def)
qed

theorem follow_path_success_means_arrival_witness:
  "\<exists>p. p \<in> set_option (env_goal_pose demo_cycle) \<and>
     pt_dist (position p) (ps_position (last (poses one_point_path))) \<le> xyz_goal_tolerance default_params"
proof -
  obtain s' c' pub' where r: "computeControl (demo_api one_point_path) ref_tf 0 None [demo_cycle]
      (executing_server, ready_ctl, []) = (Some Ended_Succeeded, (s', c', pub'))"
    using demo_run by (metis prod_cases3 surj_pair fst_conv)
  have "params ready_ctl = default_params"
    by (simp add: ready_ctl_def ctl_on_configure_def Let_def)
  then show ?thesis
    using follow_path_success_means_arrival [OF _ r]
    by (auto simp: demo_cycle_def ros_api_def)
qed

text \<open>C13: however \<open>computeControl\<close> returns, by success, cancellation, preemption by nothing, an
  exception or shutdown, the action server is consistent and, unless the server was deactivated
  meanwhile, no goal is left current; a goal with an empty path is aborted with \<open>INVALID_PATH\<close> (103).\<close>

theorem computeControl_settles_goal:
  assumes "goal_handles api ok" and "server_inv api ok s"
    and "\<forall>e \<in> set cycles. \<forall>t. server_inv api ok t \<longrightarrow> server_inv api ok (env_server e t)"
    and "computeControl api tf now cur cycles (s, c, pub) = (Some x, (s', c', pub'))"
  shows "server_inv api ok s' \<and> (x \<noteq> Ended_Inactive \<longrightarrow> current_handle s' = None) \<and>
    (\<forall>goal. get_current_goal api s = Some goal \<and> poses goal = [] \<longrightarrow>
       x = Ended_Failed 103 \<and> s' = terminate_current api \<lparr>error_code = 103\<rparr> s)"
  using follow_path_server.computeControl_settled [OF follow_path_server.intro [OF assms(1)] assms(2-4)]
    assms(4)
  by (auto simp: computeControl_def generateTimedTrajectory_def catch_part_def catch_code_def)


theorem computeControl_settles_goal_witness:
  "\<exists>st. computeControl (demo_api \<lparr>path_header = default_header, poses = []\<rparr>) ref_tf 0 None [demo_cycle]
       (executing_server, ready_ctl, []) = (Some (Ended_Failed 103), st) \<and>
     current_handle (fst st) = None"
proof -
  let ?api = "demo_api \<lparr>path_header = default_header, poses = []\<rparr>"
  obtain x s' c' pub' where r: "computeControl ?api ref_tf 0 None [demo_cycle]
      (executing_server, ready_ctl, []) = (Some x, (s', c', pub'))"
    by (simp add: computeControl_def executing_server_goal generateTimedTrajectory_def catch_part_def)
  have "x = Ended_Failed 103 \<and> current_handle s' = None"
    using computeControl_settles_goal [OF ros_msg.goal_handles_axioms executing_server_inv _ r]
    by (auto simp: demo_cycle_def executing_server_goal)
  then show ?thesis
    using r by auto
qed

end
