(* ===== verification/MoveIt_Planner.thy ===== *)
theory MoveIt_Planner
  imports Nav3d_Msgs
begin

text \<open>
  The MoveIt planner plugin: \<open>MoveItGlobalPlanner\<close>
  (\<open>nav3d_planner_plugin_moveit/src/moveit_global_planner.cpp\<close>) and its \<open>MoveGroupInterface\<close>
  (\<open>movegroup_interface.cpp\<close>). MoveIt itself, the state validity service, the transform buffer and the
  clock are the record \<open>moveit_api\<close> over a world \<open>'w\<close>; the cancel checker reads the world and may
  change it (time passes). \<open>std::isfinite\<close> is a parameter, since the coordinates are reals here.
\<close>

section \<open>MoveGroupInterface\<close>

datatype yaw_mode = Yaw_Directional | Yaw_Keep | Yaw_Fixed

text \<open>A reply of the state validity service: none in time, an exception or a null response, or the
  \<open>valid\<close> field.\<close>

datatype validity_reply = Validity_Late | Validity_Failed | Validity_Is bool

record 'w moveit_api =
  mg_plan :: "pose \<Rightarrow> 'w \<Rightarrow> pose list list option \<times> 'w"
  mg_planning_frame :: string
  sv_wait_for_service :: "'w \<Rightarrow> bool \<times> 'w"
  sv_request :: "pose \<Rightarrow> 'w \<Rightarrow> validity_reply \<times> 'w"
  mv_now :: "'w \<Rightarrow> time_ns"
  mv_transform :: "pose_stamped \<Rightarrow> string \<Rightarrow> 'w \<Rightarrow> pose_stamped option \<times> 'w"

record move_group =
  mode_yaw :: yaw_mode
  fixed_yaw :: double
  state_validity_service_name :: string
  state_validity_client :: bool

definition setYawMode :: "yaw_mode \<Rightarrow> double \<Rightarrow> move_group \<Rightarrow> move_group" where
  "setYawMode md fy g = g\<lparr>mode_yaw := md, fixed_yaw := fy\<rparr>"

definition setStateValidityServiceName :: "string \<Rightarrow> move_group \<Rightarrow> move_group" where
  "setStateValidityServiceName n g =
     g\<lparr>state_validity_service_name := n, state_validity_client := (n \<noteq> [])\<rparr>"

definition isPoseValid ::
  "'w moveit_api \<Rightarrow> pose_stamped \<Rightarrow> move_group \<times> 'w \<Rightarrow> bool \<times> move_group \<times> 'w" where
  "isPoseValid mv p gw =
     (case gw of (g0, w) \<Rightarrow>
        let g = (if \<not> state_validity_client g0
                 then setStateValidityServiceName (state_validity_service_name g0) g0 else g0) in
        if \<not> state_validity_client g then (True, g, w)
        else case sv_wait_for_service mv w of
          (False, w1) \<Rightarrow> (True, g, w1)
        | (True, w1) \<Rightarrow>
            (case sv_request mv (ps_pose p) w1 of
               (Validity_Is v, w2) \<Rightarrow> (v, g, w2)
             | (_, w2) \<Rightarrow> (True, g, w2)))"

definition quaternionFromYaw :: "tf_api \<Rightarrow> double \<Rightarrow> quaternion" where
  "quaternionFromYaw tf yaw = tf_normalize tf (tf_setRPY tf 0 0 yaw)"

definition computeDirectionalYaw :: "pose_stamped \<Rightarrow> pose_stamped \<Rightarrow> double" where
  "computeDirectionalYaw a b =
     (let dx = px (ps_position b) - px (ps_position a); dy = py (ps_position b) - py (ps_position a)
      in if hypot2 dx dy < 1 / 1000 then 0 else std_atan2 dy dx)"

definition set_orientation :: "quaternion \<Rightarrow> pose_stamped \<Rightarrow> pose_stamped" where
  "set_orientation q p = p\<lparr>ps_pose := (ps_pose p)\<lparr>orientation := q\<rparr>\<rparr>"

text \<open>The loop of the directional mode; the last pose takes the orientation of the one before.\<close>

fun directional_yaw :: "tf_api \<Rightarrow> pose_stamped list \<Rightarrow> pose_stamped list" where
  "directional_yaw tf (p # q # ps) =
     set_orientation (quaternionFromYaw tf (computeDirectionalYaw p q)) p # directional_yaw tf (q # ps)"
| "directional_yaw tf ps = ps"

definition copy_back_orientation :: "tf_api \<Rightarrow> pose_stamped list \<Rightarrow> pose_stamped list" where
  "copy_back_orientation tf ps =
     ps[length ps - 1 :=
          set_orientation
            (if length ps \<ge> 2 then orientation (ps_pose (ps ! (length ps - 2)))
             else quaternionFromYaw tf 0)
            (last ps)]"

definition applyYaw :: "tf_api \<Rightarrow> move_group \<Rightarrow> pose_stamped list \<Rightarrow> pose_stamped list" where
  "applyYaw tf g ps =
     (if ps = [] \<or> mode_yaw g = Yaw_Keep then ps
      else if mode_yaw g = Yaw_Fixed then
        map (set_orientation (quaternionFromYaw tf (fixed_yaw g))) ps
      else copy_back_orientation tf (directional_yaw tf ps))"

text \<open>The loop over the points of the trajectory; \<open>None\<close> is the return of an empty list when the
  cancel checker fires. Only the first transform of a point is used, a point without one is skipped.\<close>

fun collect_points ::
  "('w \<Rightarrow> bool \<times> 'w) \<Rightarrow> header \<Rightarrow> pose list list \<Rightarrow> 'w \<Rightarrow> pose_stamped list option \<times> 'w" where
  "collect_points cancel h [] w = (Some [], w)"
| "collect_points cancel h (pt # pts) w =
     (case cancel w of
        (True, w1) \<Rightarrow> (None, w1)
      | (False, w1) \<Rightarrow>
          (case collect_points cancel h pts w1 of
             (None, w2) \<Rightarrow> (None, w2)
           | (Some ps, w2) \<Rightarrow>
               (Some (case pt of [] \<Rightarrow> ps | t # _ \<Rightarrow> \<lparr>ps_header = h, ps_pose = t\<rparr> # ps), w2)))"

definition mg_plan_poses ::
  "'w moveit_api \<Rightarrow> tf_api \<Rightarrow> ('w \<Rightarrow> bool \<times> 'w) \<Rightarrow> move_group \<Rightarrow> pose_stamped \<Rightarrow> 'w
     \<Rightarrow> pose_stamped list \<times> 'w" where
  "mg_plan_poses mv tf cancel g goal w =
     (case cancel w of
        (True, w1) \<Rightarrow> ([], w1)
      | (False, w1) \<Rightarrow>
          let (result, w2) = mg_plan mv (ps_pose goal) w1; (stop, w3) = cancel w2 in
          if stop then ([], w3)
          else case result of
            None \<Rightarrow> ([], w3)
          | Some [] \<Rightarrow> ([], w3)
          | Some points \<Rightarrow>
              let frame = (if frame_id (ps_header goal) = [] then mg_planning_frame mv
                           else frame_id (ps_header goal))
              in (case collect_points cancel \<lparr>stamp = mv_now mv w3, frame_id = frame\<rparr> points w3 of
                    (None, w4) \<Rightarrow> ([], w4)
                  | (Some ps, w4) \<Rightarrow> (applyYaw tf g ps, w4)))"

section \<open>MoveItGlobalPlanner\<close>

text \<open>\<open>mp_group = None\<close> before \<open>configure\<close> and after \<open>cleanup\<close> (a null \<open>move_group_interface_\<close>);
  \<open>mp_has_tf\<close> says whether a transform buffer was passed.\<close>

record moveit_planner =
  mp_active :: bool
  mp_group :: "move_group option"
  mp_has_tf :: bool
  mp_global_frame :: string
  validity_step :: int
  validity_max_checks :: int

text \<open>\<open>configure\<close>: the parameters that later code reads, and the yaw mode from its name.\<close>

definition mp_configure ::
  "bool \<Rightarrow> string \<Rightarrow> string \<Rightarrow> double \<Rightarrow> int \<Rightarrow> int \<Rightarrow> string \<Rightarrow> moveit_planner" where
  "mp_configure has_tf gframe yaw_mode_s fixed step max_checks service =
     (let g = setStateValidityServiceName service
                \<lparr>mode_yaw = Yaw_Directional, fixed_yaw = 0,
                 state_validity_service_name = ''check_state_validity'',
                 state_validity_client = False\<rparr>
      in \<lparr>mp_active = False,
          mp_group = Some (if yaw_mode_s = ''fixed'' then setYawMode Yaw_Fixed fixed g
                           else if yaw_mode_s = ''directional'' then setYawMode Yaw_Directional 0 g
                           else setYawMode Yaw_Keep 0 g),
          mp_has_tf = has_tf, mp_global_frame = gframe, validity_step = step,
          validity_max_checks = max_checks\<rparr>)"

definition mp_cleanup :: "moveit_planner \<Rightarrow> moveit_planner" where
  "mp_cleanup m = m\<lparr>mp_group := None, mp_active := False\<rparr>"

definition mp_activate :: "moveit_planner \<Rightarrow> moveit_planner" where
  "mp_activate m = m\<lparr>mp_active := True\<rparr>"

definition mp_deactivate :: "moveit_planner \<Rightarrow> moveit_planner" where
  "mp_deactivate m = m\<lparr>mp_active := False\<rparr>"

text \<open>The loop of \<open>isPathValid\<close> from index \<open>i\<close> with \<open>k\<close> checks done.\<close>

function validity_loop ::
  "'w moveit_api \<Rightarrow> nat \<Rightarrow> nat \<Rightarrow> pose_stamped list \<Rightarrow> nat \<Rightarrow> nat \<Rightarrow> move_group \<times> 'w
     \<Rightarrow> (bool \<times> nat list) \<times> move_group \<times> 'w" where
  "validity_loop mv step max_checks ps i k gw =
     (if i \<ge> length ps \<or> step = 0 then ((True, []), gw)
      else if Suc k > max_checks then ((True, []), gw)
      else case isPoseValid mv (ps ! i) gw of
        (False, gw1) \<Rightarrow> ((False, [i]), gw1)
      | (True, gw1) \<Rightarrow> validity_loop mv step max_checks ps (i + step) (Suc k) gw1)"
  by pat_completeness auto
termination
  by (relation "measure (\<lambda>(mv, step, max_checks, ps, i, k, gw). length ps - i)") auto

declare validity_loop.simps [simp del]

definition mp_isPathValid ::
  "'w moveit_api \<Rightarrow> path \<Rightarrow> moveit_planner \<times> 'w \<Rightarrow> (bool \<times> nat list) \<times> moveit_planner \<times> 'w" where
  "mp_isPathValid mv pth mw =
     (case mw of (m, w) \<Rightarrow>
        (case mp_group m of
           None \<Rightarrow> ((True, []), m, w)
         | Some g \<Rightarrow>
             if \<not> mp_active m \<or> poses pth = [] then ((True, []), m, w)
             else
               let step = nat (max 1 (validity_step m)); max_checks = nat (max 1 (validity_max_checks m));
                   (r, g1, w1) = validity_loop mv step max_checks (poses pth) 0 0 (g, w)
               in (r, m\<lparr>mp_group := Some g1\<rparr>, w1)))"

definition isFinitePose :: "(double \<Rightarrow> bool) \<Rightarrow> pose_stamped \<Rightarrow> bool" where
  "isFinitePose isfinite p =
     (let pos = ps_position p; ori = orientation (ps_pose p) in
      isfinite (px pos) \<and> isfinite (py pos) \<and> isfinite (pz pos) \<and>
      isfinite (qx ori) \<and> isfinite (qy ori) \<and> isfinite (qz ori) \<and> isfinite (qw ori))"

definition isQuaternionReasonablyNormalized :: "quaternion \<Rightarrow> bool" where
  "isQuaternionReasonablyNormalized q =
     (\<bar>sqrt (qx q * qx q + qy q * qy q + qz q * qz q + qw q * qw q) - 1\<bar> < 1 / 10)"

definition validatePose :: "(double \<Rightarrow> bool) \<Rightarrow> pose_stamped \<Rightarrow> bool" where
  "validatePose isfinite p =
     (if \<not> isFinitePose isfinite p then False
      else if \<not> isQuaternionReasonablyNormalized (orientation (ps_pose p)) then False
      else True)"

definition toPath :: "time_ns \<Rightarrow> pose_stamped list \<Rightarrow> string \<Rightarrow> path" where
  "toPath now ps frame =
     (let h = \<lparr>stamp = now, frame_id = frame\<rparr>
      in \<lparr>path_header = h, poses = map (\<lambda>p. p\<lparr>ps_header := h\<rparr>) ps\<rparr>)"

text \<open>\<open>createPlan\<close>: the start pose is not used.\<close>

definition mp_createPlan ::
  "'w moveit_api \<Rightarrow> tf_api \<Rightarrow> (double \<Rightarrow> bool) \<Rightarrow> ('w \<Rightarrow> bool \<times> 'w) \<Rightarrow> moveit_planner
     \<Rightarrow> pose_stamped \<Rightarrow> pose_stamped \<Rightarrow> 'w \<Rightarrow> path \<times> 'w" where
  "mp_createPlan mv tf isfinite cancel m start goal_in w =
     (let empty_path = \<lparr>path_header = \<lparr>stamp = mv_now mv w, frame_id = mp_global_frame m\<rparr>, poses = []\<rparr> in
      case mp_group m of
        None \<Rightarrow> (empty_path, w)
      | Some g \<Rightarrow>
          if \<not> mp_active m then (empty_path, w)
          else case cancel w of
            (True, w1) \<Rightarrow> (empty_path, w1)
          | (False, w1) \<Rightarrow>
              if \<not> validatePose isfinite goal_in then (empty_path, w1)
              else
                let f = frame_id (ps_header goal_in);
                    (goal, w2) = (if mp_has_tf m \<and> f \<noteq> [] \<and> f \<noteq> mp_global_frame m
                                  then mv_transform mv goal_in (mp_global_frame m) w1
                                  else (Some goal_in, w1))
                in case goal of
                     None \<Rightarrow> (empty_path, w2)
                   | Some goal \<Rightarrow>
                       (case cancel w2 of
                          (True, w3) \<Rightarrow> (empty_path, w3)
                        | (False, w3) \<Rightarrow>
                            (case mg_plan_poses mv tf cancel g goal w3 of
                               ([], w4) \<Rightarrow> (empty_path, w4)
                             | (ps, w4) \<Rightarrow> (toPath (mv_now mv w4) ps (mp_global_frame m), w4))))"

end
