(* ===== verification/MoveIt_Planner_Props.thy ===== *)
theory MoveIt_Planner_Props
  imports MoveIt_Planner
begin

text \<open>
  What the MoveIt plugin guarantees: the yaw pass changes orientations only and in the documented
  way, a plan consists of the trajectory points MoveIt returned, in order and in the global frame,
  and the validity check inspects a regular sample of the path. The locale \<open>validity_service\<close> states
  what the check relies on of the state validity service.
\<close>

section \<open>The yaw pass\<close>

lemma set_orientation_simps [simp]:
  "ps_header (set_orientation q p) = ps_header p"
  "position (ps_pose (set_orientation q p)) = position (ps_pose p)"
  "orientation (ps_pose (set_orientation q p)) = q"
  by (simp_all add: set_orientation_def)

lemma directional_length [simp]: "length (directional_yaw tf ps) = length ps"
  by (induction tf ps rule: directional_yaw.induct) auto

lemma directional_nth:
  "i < length ps \<Longrightarrow> directional_yaw tf ps ! i =
     (if Suc i < length ps
      then set_orientation (quaternionFromYaw tf (computeDirectionalYaw (ps ! i) (ps ! Suc i))) (ps ! i)
      else ps ! i)"
  by (induction tf ps arbitrary: i rule: directional_yaw.induct)
    (auto simp: nth_Cons' gr0_conv_Suc)

lemma directional_map:
  "(\<And>q p. f (set_orientation q p) = f p) \<Longrightarrow> map f (directional_yaw tf ps) = map f ps"
  by (induction tf ps rule: directional_yaw.induct) auto

lemma copy_back_map:
  assumes "ps \<noteq> []" and "\<And>q p. f (set_orientation q p) = f p"
  shows "map f (copy_back_orientation tf ps) = map f ps"
proof -
  have "map f (copy_back_orientation tf ps) = (map f ps)[length ps - 1 := f (last ps)]"
    using assms(2) by (simp add: copy_back_orientation_def map_update)
  then show ?thesis
    using assms(1) by (simp add: last_conv_nth list_update_same_conv)
qed

lemma applyYaw_map:
  assumes "\<And>q p. f (set_orientation q p) = f p"
  shows "map f (applyYaw tf g ps) = map f ps"
proof -
  have "map f (copy_back_orientation tf (directional_yaw tf ps)) = map f ps" if "ps \<noteq> []"
  proof -
    have "directional_yaw tf ps \<noteq> []"
      using that directional_length [of tf ps] by (metis length_0_conv)
    then show ?thesis
      using copy_back_map [of "directional_yaw tf ps" f tf] directional_map [of f tf ps] assms by simp
  qed
  then show ?thesis
    using assms by (simp add: applyYaw_def)
qed

lemma applyYaw_length [simp]: "length (applyYaw tf g ps) = length ps"
  using applyYaw_map [of "\<lambda>_. ()" tf g ps] by (metis length_map)

section \<open>The points of a plan\<close>

lemma collect_points_Some:
  "collect_points cancel h pts w = (Some ps, w') \<Longrightarrow>
     ps = map (\<lambda>pt. \<lparr>ps_header = h, ps_pose = hd pt\<rparr>) (filter (\<lambda>pt. pt \<noteq> []) pts)"
proof (induction pts arbitrary: w ps w')
  case (Cons pt pts)
  then show ?case
    by (auto split: prod.splits bool.splits option.splits list.splits)
qed simp

lemma mg_plan_poses_result:
  assumes "mg_plan_poses mv tf cancel g goal w = (ps, w')" and "ps \<noteq> []"
  shows "\<exists>w1 w2 points. mg_plan mv (ps_pose goal) w1 = (Some points, w2) \<and>
    map ps_position ps = map (position \<circ> hd) (filter (\<lambda>pt. pt \<noteq> []) points)"
proof -
  obtain w1 w2 w3 points h qs where p: "mg_plan mv (ps_pose goal) w1 = (Some points, w2)"
    and c: "collect_points cancel h points w3 = (Some qs, w')" and ps: "ps = applyYaw tf g qs"
    using assms
    by (auto simp: mg_plan_poses_def Let_def simp del: collect_points.simps
        split: prod.splits bool.splits option.splits list.splits if_splits)
  have "map ps_position ps = map ps_position qs"
    unfolding ps by (rule applyYaw_map) simp
  then show ?thesis
    using p collect_points_Some [OF c] by (auto simp: comp_def)
qed

lemma toPath_simps [simp]:
  "path_header (toPath now ps f) = \<lparr>stamp = now, frame_id = f\<rparr>"
  "poses (toPath now ps f) = map (\<lambda>p. p\<lparr>ps_header := \<lparr>stamp = now, frame_id = f\<rparr>\<rparr>) ps"
  by (simp_all add: toPath_def Let_def)

lemma createPlan_inversion:
  assumes "mp_createPlan mv tf isfinite cancel m start goal_in w = (p, w')" and "poses p \<noteq> []"
  obtains g goal w1 ps w2 t where "mp_group m = Some g" and "mp_active m"
    and "validatePose isfinite goal_in"
    and "mg_plan_poses mv tf cancel g goal w1 = (ps, w2)" and "ps \<noteq> []"
    and "p = toPath t ps (mp_global_frame m)"
    and "\<not> mp_has_tf m \<or> frame_id (ps_header goal_in) \<in> {[], mp_global_frame m} \<Longrightarrow> goal = goal_in"
proof -
  have "\<exists>g goal w1 ps w2 t. mp_group m = Some g \<and> mp_active m \<and> validatePose isfinite goal_in \<and>
     mg_plan_poses mv tf cancel g goal w1 = (ps, w2) \<and> ps \<noteq> [] \<and> p = toPath t ps (mp_global_frame m) \<and>
     (\<not> mp_has_tf m \<or> frame_id (ps_header goal_in) \<in> {[], mp_global_frame m} \<longrightarrow> goal = goal_in)"
    using assms unfolding mp_createPlan_def Let_def
    by (auto split: option.splits if_splits prod.splits bool.splits list.splits)
  then show thesis
    using that by blast
qed

section \<open>The validity check\<close>

text \<open>What the check relies on: the service is there and answers in time whether a pose is free.\<close>

locale validity_service =
  fixes mv :: "'w moveit_api" and free :: "pose \<Rightarrow> bool"
  assumes service_up: "\<exists>w'. sv_wait_for_service mv w = (True, w')"
    and answers: "\<exists>w'. sv_request mv q w = (Validity_Is (free q), w')"
begin

lemma isPoseValid_free:
  assumes "state_validity_service_name g \<noteq> []"
  shows "\<exists>g1 w1. isPoseValid mv p (g, w) = (free (ps_pose p), g1, w1) \<and>
    state_validity_service_name g1 = state_validity_service_name g"
proof -
  obtain w1 where 1: "sv_wait_for_service mv w = (True, w1)"
    using service_up by blast
  obtain w2 where 2: "sv_request mv (ps_pose p) w1 = (Validity_Is (free (ps_pose p)), w2)"
    using answers by blast
  show ?thesis
    using assms 1 2 by (simp add: isPoseValid_def setStateValidityServiceName_def)
qed

end

text \<open>The indices the loop inspects, starting from check \<open>k\<close>.\<close>

definition sampled_from :: "nat \<Rightarrow> nat \<Rightarrow> nat \<Rightarrow> nat \<Rightarrow> nat list" where
  "sampled_from k step max_checks n = filter (\<lambda>i. i < n) (map (\<lambda>j. j * step) [k..<max_checks])"

definition first_blocked :: "(pose \<Rightarrow> bool) \<Rightarrow> pose_stamped list \<Rightarrow> nat list \<Rightarrow> bool \<times> nat list" where
  "first_blocked free ps is =
     (case find (\<lambda>i. \<not> free (ps_pose (ps ! i))) is of None \<Rightarrow> (True, []) | Some i \<Rightarrow> (False, [i]))"

lemma sampled_from_Cons:
  assumes "k < max_checks" and "k * step < n"
  shows "sampled_from k step max_checks n = k * step # sampled_from (Suc k) step max_checks n"
  using assms by (simp add: sampled_from_def upt_conv_Cons)

lemma sampled_from_Nil:
  assumes "max_checks \<le> k \<or> n \<le> k * step"
  shows "sampled_from k step max_checks n = []"
proof (cases "max_checks \<le> k")
  case False
  then have "n \<le> j * step" if "k \<le> j" for j
    using assms that by (meson mult_le_mono1 order_trans)
  then show ?thesis
    by (auto simp: sampled_from_def filter_empty_conv not_less)
qed (simp add: sampled_from_def)

context validity_service
begin

lemma validity_loop_samples:
  assumes "state_validity_service_name g \<noteq> []" and "0 < step"
  shows "fst (validity_loop mv step max_checks ps (k * step) k (g, w))
    = first_blocked free ps (sampled_from k step max_checks (length ps))"
  using assms(1)
proof (induction "length ps - k * step" arbitrary: k g w rule: less_induct)
  case less
  show ?case
  proof (cases "k < max_checks \<and> k * step < length ps")
    case False
    then show ?thesis
      using assms(2) sampled_from_Nil [of max_checks k "length ps" step]
      by (subst validity_loop.simps) (auto simp: first_blocked_def not_less)
  next
    case True
    let ?i = "k * step"
    obtain g1 w1 where v: "isPoseValid mv (ps ! ?i) (g, w) = (free (ps_pose (ps ! ?i)), g1, w1)"
      and n: "state_validity_service_name g1 \<noteq> []"
      using isPoseValid_free [OF less.prems] less.prems by metis
    have "length ps - Suc k * step < length ps - ?i"
      using True assms(2) by (intro diff_less_mono2) auto
    note ih = less.hyps [OF this n]
    show ?thesis
    proof (cases "free (ps_pose (ps ! ?i))")
      case True': True
      have "validity_loop mv step max_checks ps ?i k (g, w)
          = validity_loop mv step max_checks ps (Suc k * step) (Suc k) (g1, w1)"
        using v True True' assms(2) by (subst validity_loop.simps) (simp add: add.commute)
      then show ?thesis
        using ih True True' by (simp add: sampled_from_Cons first_blocked_def)
    next
      case False
      have "fst (validity_loop mv step max_checks ps ?i k (g, w)) = (False, [?i])"
        using v True False assms(2) by (subst validity_loop.simps) simp
      then show ?thesis
        using True False by (simp add: sampled_from_Cons first_blocked_def)
    qed
  qed
qed

end

text \<open>A validity service that is always there and answers by the predicate \<open>free\<close>, with a MoveIt that
  returns a straight line of two points and a clock that stands still.\<close>

definition static_moveit :: "(pose \<Rightarrow> bool) \<Rightarrow> unit moveit_api" where
  "static_moveit free =
     \<lparr>mg_plan = (\<lambda>goal w. (Some [[default_pose], [goal]], w)), mg_planning_frame = ''map'',
      sv_wait_for_service = (\<lambda>w. (True, w)), sv_request = (\<lambda>q w. (Validity_Is (free q), w)),
      mv_now = (\<lambda>w. 0), mv_transform = (\<lambda>p f w. (Some p, w))\<rparr>"

interpretation static_validity: validity_service "static_moveit free" free for free
  by unfold_locales (simp_all add: static_moveit_def)

section \<open>Properties\<close>

text \<open>C8: a plan that is not empty comes from an active, configured plugin and a goal with finite
  coordinates and a nearly normalised quaternion. All its poses carry the header of the path, in the
  global frame, and their positions are those of the first transforms of the points MoveIt returned
  for the goal, in order. The goal given to MoveIt is the requested one unless it had to be
  transformed from another frame.\<close>

theorem moveit_plan_faithful:
  assumes "mp_createPlan mv tf isfinite cancel m start goal_in w = (p, w')" and "poses p \<noteq> []"
  shows "mp_active m \<and> mp_group m \<noteq> None \<and> validatePose isfinite goal_in \<and>
    frame_id (path_header p) = mp_global_frame m \<and> (\<forall>q \<in> set (poses p). ps_header q = path_header p) \<and>
    (\<exists>goal w1 points w2. mg_plan mv (ps_pose goal) w1 = (Some points, w2) \<and>
       (\<not> mp_has_tf m \<or> frame_id (ps_header goal_in) \<in> {[], mp_global_frame m} \<longrightarrow> goal = goal_in) \<and>
       map ps_position (poses p) = map (position \<circ> hd) (filter (\<lambda>pt. pt \<noteq> []) points))"
proof -
  obtain g goal w1 ps w2 t where c: "mp_group m = Some g" "mp_active m" "validatePose isfinite goal_in"
    "mg_plan_poses mv tf cancel g goal w1 = (ps, w2)" "ps \<noteq> []" "p = toPath t ps (mp_global_frame m)"
    "\<not> mp_has_tf m \<or> frame_id (ps_header goal_in) \<in> {[], mp_global_frame m} \<Longrightarrow> goal = goal_in"
    using createPlan_inversion [OF assms] by metis
  obtain v1 v2 points where "mg_plan mv (ps_pose goal) v1 = (Some points, v2)"
    "map ps_position ps = map (position \<circ> hd) (filter (\<lambda>pt. pt \<noteq> []) points)"
    using mg_plan_poses_result [OF c(4,5)] by blast
  moreover have "map ps_position (poses p) = map ps_position ps"
    using c(6) by (simp add: comp_def)
  ultimately show ?thesis
    using c by auto
qed

definition demo_planner :: moveit_planner where
  "demo_planner = mp_activate (mp_configure True ''map'' ''directional'' 0 2 200 ''check_state_validity'')"

lemma demo_plan_nonempty:
  "poses (fst (mp_createPlan (static_moveit (\<lambda>_. True)) ref_tf (\<lambda>_. True) (\<lambda>w. (False, w))
     demo_planner default_pose_stamped default_pose_stamped ())) \<noteq> []"
  by (auto simp: mp_createPlan_def demo_planner_def mp_activate_def mp_configure_def static_moveit_def
      validatePose_def isFinitePose_def isQuaternionReasonablyNormalized_def default_pose_stamped_def
      default_pose_def identity_quaternion_def default_header_def mg_plan_poses_def Let_def
      setStateValidityServiceName_def setYawMode_def applyYaw_def copy_back_orientation_def
      split: list.splits)

theorem moveit_plan_faithful_witness:
  "\<exists>p w'. mp_createPlan (static_moveit (\<lambda>_. True)) ref_tf (\<lambda>_. True) (\<lambda>w. (False, w)) demo_planner
       default_pose_stamped default_pose_stamped () = (p, w') \<and> poses p \<noteq> [] \<and>
     frame_id (path_header p) = ''map''"
proof -
  obtain p w' where p: "mp_createPlan (static_moveit (\<lambda>_. True)) ref_tf (\<lambda>_. True) (\<lambda>w. (False, w))
      demo_planner default_pose_stamped default_pose_stamped () = (p, w')"
    by (rule prod.exhaust)
  have "poses p \<noteq> []"
    using p demo_plan_nonempty by (metis fst_conv)
  then show ?thesis
    using moveit_plan_faithful [OF p] p
    by (auto simp: demo_planner_def mp_activate_def mp_configure_def Let_def)
qed

text \<open>in directional mode the yaw pass keeps the number, the positions and the headers of the
  poses, turns each pose towards its successor (towards yaw 0 when the successor is less than a
  millimetre away horizontally) and gives the last pose the orientation of the one before it.\<close>

theorem directional_yaw_faces_successor:
  assumes "mode_yaw g = Yaw_Directional" and "2 \<le> length ps" and "out = applyYaw tf g ps"
  shows "length out = length ps \<and> map ps_position out = map ps_position ps \<and>
    map ps_header out = map ps_header ps \<and>
    (\<forall>i. Suc i < length ps \<longrightarrow> orientation (ps_pose (out ! i)) =
       quaternionFromYaw tf (computeDirectionalYaw (ps ! i) (ps ! Suc i))) \<and>
    orientation (ps_pose (last out)) = orientation (ps_pose (out ! (length ps - 2)))"
proof -
  let ?d = "directional_yaw tf ps"
  have n: "length out = length ps" and out: "out = copy_back_orientation tf ?d"
    using assms by (auto simp: applyYaw_def copy_back_orientation_def)
  have keep: "map ps_position out = map ps_position ps" "map ps_header out = map ps_header ps"
    unfolding assms(3) by (simp_all add: applyYaw_map)
  have nth: "out ! i = ?d ! i" if "Suc i < length ps" for i
    using that out by (simp add: copy_back_orientation_def)
  have "out \<noteq> []"
    using n assms(2) by auto
  then have "last out = out ! (length ps - 1)"
    using n last_conv_nth by metis
  also have "\<dots> = set_orientation (orientation (ps_pose (?d ! (length ps - 2)))) (last ?d)"
    using out assms(2) by (simp add: copy_back_orientation_def)
  finally have "orientation (ps_pose (last out)) = orientation (ps_pose (out ! (length ps - 2)))"
    using nth [of "length ps - 2"] assms(2) by simp
  then show ?thesis
    using n keep nth by (simp add: directional_nth)
qed

definition demo_group :: move_group where
  "demo_group = \<lparr>mode_yaw = Yaw_Keep, fixed_yaw = 0, state_validity_service_name = [],
     state_validity_client = False\<rparr>"

theorem directional_yaw_faces_successor_witness:
  "length (applyYaw ref_tf (setYawMode Yaw_Directional 0 demo_group)
     [default_pose_stamped, default_pose_stamped]) = 2"
  using directional_yaw_faces_successor [of "setYawMode Yaw_Directional 0 demo_group"
      "[default_pose_stamped, default_pose_stamped]" _ ref_tf]
  by (simp add: setYawMode_def)

text \<open>with a validity service that answers, \<open>isPathValid\<close> of an active plugin accepts a path
  exactly when the sampled poses are free, the samples being the multiples of the step width up to
  the maximal number of checks, and otherwise reports the first blocked one. The poses between the
  samples and beyond \<open>step * max_checks\<close> are not looked at.\<close>

theorem isPathValid_checks_samples:
  assumes "validity_service mv free" and "mp_active m" and "mp_group m = Some g"
    and "state_validity_service_name g \<noteq> []"
  shows "fst (mp_isPathValid mv pth (m, w)) =
    first_blocked free (poses pth)
      (sampled_from 0 (nat (max 1 (validity_step m))) (nat (max 1 (validity_max_checks m)))
         (length (poses pth)))"
proof (cases "poses pth = []")
  case True
  then show ?thesis
    using assms(2,3) by (simp add: mp_isPathValid_def first_blocked_def sampled_from_def)
next
  case False
  let ?step = "nat (max 1 (validity_step m))"
  have "0 < ?step"
    by simp
  note l = validity_service.validity_loop_samples [OF assms(1,4) this,
      of "nat (max 1 (validity_max_checks m))" "poses pth" 0 w]
  show ?thesis
    using assms(2,3) False l unfolding mp_isPathValid_def Let_def
    by (simp split: prod.splits) (metis fst_conv)
qed

theorem isPathValid_checks_samples_witness:
  "fst (mp_isPathValid (static_moveit (\<lambda>_. False)) \<lparr>path_header = default_header,
     poses = [default_pose_stamped]\<rparr> (demo_planner, ())) = (False, [0])"
proof -
  obtain g where "mp_active demo_planner" "mp_group demo_planner = Some g"
    "state_validity_service_name g \<noteq> []"
    by (simp add: demo_planner_def mp_activate_def mp_configure_def Let_def setYawMode_def
        setStateValidityServiceName_def)
  then show ?thesis
    using isPathValid_checks_samples [OF static_validity.validity_service_axioms, of demo_planner g
        "\<lambda>_. False" "\<lparr>path_header = default_header, poses = [default_pose_stamped]\<rparr>"]
    by (simp add: first_blocked_def sampled_from_def demo_planner_def mp_activate_def mp_configure_def
        Let_def upt_conv_Cons)
qed

end
