(* ===== verification/Planner_Server.thy ===== *)
theory Planner_Server
  imports MoveIt_Planner_Props Action_Server_Threads
begin

text \<open>
  \<open>nav3d_planner::PlannerServer\<close> (\<open>nav3d_planner/src/planner_server.cpp\<close>): the planner plugins, the
  \<open>compute_path_to_pose\<close> action and the \<open>is_path_valid\<close> service, on top of the action server. A plugin
  is the interface \<open>nav3d_core::GlobalPlanner\<close> with the optional \<open>PathValidityChecker\<close>, a record of the
  answers it gives; the locale \<open>global_planner\<close> is its contract and the MoveIt plugin of
  \<open>MoveIt_Planner\<close> interprets it.
\<close>

section \<open>State and helpers\<close>

datatype planner_exn =
  PlannerException | InvalidPlanner | StartOccupied | GoalOccupied | StartOutsideMapBounds
| GoalOutsideMapBounds | NoValidPathCouldBeFound | PlannerTimedOut | PlannerTFError
| NoViapointsGiven | PlannerCancelled | Planner_Std_Exception

record planner_iface =
  createPlan :: "pose_stamped \<Rightarrow> pose_stamped \<Rightarrow> planner_exn + path"
  validity_checker :: "(path \<Rightarrow> planner_exn + bool \<times> nat list) option"

record planner_server =
  planner_ids :: "string list"
  planners :: "string \<rightharpoonup> planner_iface"
  path_validity_planner_id :: string
  pl_global_frame :: string

record compute_goal =
  cg_goal :: pose_stamped
  cg_start :: pose_stamped
  cg_planner_id :: string
  cg_use_start :: bool

record compute_result =
  cr_path :: path
  cr_planning_time :: msg_duration
  cr_error_code :: nat

text \<open>\<open>toBuiltinDuration\<close> of a duration that is not negative, as the steady clock gives it; the
  conversions to \<open>int32_t\<close> and \<open>uint32_t\<close> wrap.\<close>

definition to_int32 :: "int \<Rightarrow> int" where
  "to_int32 x = (x + 2 ^ 31) mod 2 ^ 32 - 2 ^ 31"

definition toBuiltinDuration :: "duration_ns \<Rightarrow> msg_duration" where
  "toBuiltinDuration ns =
     (let sec = (if ns < 0 then - ((- ns) div 1000000000) else ns div 1000000000);
          rem = ns - sec * 1000000000
      in \<lparr>dur_sec = to_int32 sec, dur_nanosec = rem mod 2 ^ 32\<rparr>)"

text \<open>\<open>on_configure\<close>: \<open>load id\<close> creates and configures the plugin (\<open>None\<close> when that throws); \<open>emplace\<close>
  keeps the first plugin of a repeated id.\<close>

fun load_planners ::
  "(string \<Rightarrow> planner_iface option) \<Rightarrow> string list \<Rightarrow> (string \<rightharpoonup> planner_iface)
     \<Rightarrow> bool \<times> (string \<rightharpoonup> planner_iface)" where
  "load_planners load [] m = (True, m)"
| "load_planners load (i # is) m =
     (case load i of
        None \<Rightarrow> (False, m)
      | Some p \<Rightarrow> load_planners load is (if m i = None then m(i \<mapsto> p) else m))"

definition pl_on_configure ::
  "(string \<Rightarrow> planner_iface option) \<Rightarrow> string list \<Rightarrow> string \<Rightarrow> string \<Rightarrow> planner_server
     \<Rightarrow> bool \<times> planner_server" where
  "pl_on_configure load ids validity_id gframe p =
     (let p1 = p\<lparr>path_validity_planner_id := validity_id, pl_global_frame := gframe, planner_ids := ids\<rparr>
      in if ids = [] then (False, p1)
         else let (ok, m) = load_planners load ids Map.empty in (ok, p1\<lparr>planners := m\<rparr>))"

definition pl_on_cleanup :: "planner_server \<Rightarrow> planner_server" where
  "pl_on_cleanup p = p\<lparr>planners := Map.empty, planner_ids := []\<rparr>"

definition getPlannerOrThrow :: "planner_server \<Rightarrow> string \<Rightarrow> planner_exn + planner_iface" where
  "getPlannerOrThrow p planner_id =
     (let effective_id = (if planner_id = [] then hd (planner_ids p) else planner_id)
      in case planners p effective_id of None \<Rightarrow> Inl InvalidPlanner | Some pl \<Rightarrow> Inr pl)"

section \<open>The compute_path_to_pose action\<close>

text \<open>The transform buffer: the current pose of the robot and the transformation into the global frame.\<close>

record pose_source =
  tf_current :: "pose_stamped option"
  tf_into :: "pose_stamped \<Rightarrow> string \<Rightarrow> pose_stamped option"

definition into_global :: "pose_source \<Rightarrow> string \<Rightarrow> pose_stamped \<Rightarrow> planner_exn + pose_stamped" where
  "into_global src gframe p =
     (if frame_id (ps_header p) \<noteq> [] \<and> frame_id (ps_header p) \<noteq> gframe
      then (case tf_into src p gframe of None \<Rightarrow> Inl PlannerTFError | Some q \<Rightarrow> Inr q)
      else Inr p)"

definition start_pose :: "pose_source \<Rightarrow> compute_goal \<Rightarrow> planner_exn + pose_stamped" where
  "start_pose src goal =
     (if cg_use_start goal then Inr (cg_start goal)
      else case tf_current src of None \<Rightarrow> Inl PlannerTFError | Some p \<Rightarrow> Inr p)"

definition endpoints ::
  "pose_source \<Rightarrow> string \<Rightarrow> compute_goal \<Rightarrow> planner_exn + pose_stamped \<times> pose_stamped" where
  "endpoints src gframe goal =
     (case start_pose src goal of
        Inl x \<Rightarrow> Inl x
      | Inr s \<Rightarrow>
          (case into_global src gframe s of
             Inl x \<Rightarrow> Inl x
           | Inr s1 \<Rightarrow>
               (case into_global src gframe (cg_goal goal) of
                  Inl x \<Rightarrow> Inl x
                | Inr g1 \<Rightarrow> Inr (s1, g1))))"

text \<open>What the other threads do to the action server between its accesses, and the duration of the
  planning.\<close>

record ('h, 'g) plan_env =
  pe_start :: "('h, 'g) server \<Rightarrow> ('h, 'g) server"
  pe_tf :: "('h, 'g) server \<Rightarrow> ('h, 'g) server"
  pe_plan :: "('h, 'g) server \<Rightarrow> ('h, 'g) server"
  pe_time :: duration_ns

datatype plan_end =
  Plan_Inactive | Plan_Canceled | Plan_Null_Goal | Plan_Succeeded compute_result | Plan_Failed nat

definition plan_catch_code :: "planner_exn \<Rightarrow> nat" where
  "plan_catch_code x =
     (case x of
        InvalidPlanner \<Rightarrow> 201
      | PlannerTFError \<Rightarrow> 202
      | StartOutsideMapBounds \<Rightarrow> 203
      | GoalOutsideMapBounds \<Rightarrow> 204
      | StartOccupied \<Rightarrow> 205
      | GoalOccupied \<Rightarrow> 206
      | PlannerTimedOut \<Rightarrow> 207
      | NoValidPathCouldBeFound \<Rightarrow> 208
      | _ \<Rightarrow> 200)"

definition empty_result :: compute_result where
  "empty_result = \<lparr>cr_path = \<lparr>path_header = default_header, poses = []\<rparr>,
     cr_planning_time = \<lparr>dur_sec = 0, dur_nanosec = 0\<rparr>, cr_error_code = 0\<rparr>"

definition fail_plan ::
  "('h, compute_goal, compute_result, 'g) goal_api \<Rightarrow> compute_result \<Rightarrow> planner_exn \<Rightarrow> ('h, 'g) server
     \<Rightarrow> plan_end \<times> ('h, 'g) server" where
  "fail_plan api r x s =
     (Plan_Failed (plan_catch_code x),
      terminate_current api (r\<lparr>cr_error_code := plan_catch_code x\<rparr>) s)"

text \<open>The body of the \<open>try\<close> block, with the \<open>catch\<close> clauses as \<open>fail_plan\<close>.\<close>

definition plan_goal ::
  "('h, compute_goal, compute_result, 'g) goal_api \<Rightarrow> planner_server \<Rightarrow> pose_source
     \<Rightarrow> ('h, 'g) plan_env \<Rightarrow> compute_goal \<Rightarrow> ('h, 'g) server \<Rightarrow> plan_end \<times> ('h, 'g) server" where
  "plan_goal api p src e goal s0 =
     (if is_cancel_requested api s0 then
        (Plan_Canceled, terminate_all api (gh_empty_result api) s0)
      else
        let s = pe_tf e s0 in
        case endpoints src (pl_global_frame p) goal of
          Inl x \<Rightarrow> fail_plan api empty_result x s
        | Inr (start, goal_pose) \<Rightarrow>
            if is_cancel_requested api s then
              (Plan_Canceled, terminate_all api (gh_empty_result api) s)
            else case getPlannerOrThrow p (cg_planner_id goal) of
              Inl x \<Rightarrow> fail_plan api empty_result x s
            | Inr planner \<Rightarrow>
                let s1 = pe_plan e s in
                case createPlan planner start goal_pose of
                  Inl x \<Rightarrow> fail_plan api empty_result x s1
                | Inr pth \<Rightarrow>
                    let r = empty_result\<lparr>cr_planning_time := toBuiltinDuration (pe_time e)\<rparr> in
                    if is_cancel_requested api s1 then
                      (Plan_Canceled, terminate_all api (gh_empty_result api) s1)
                    else if poses pth = [] then fail_plan api r NoValidPathCouldBeFound s1
                    else
                      let r1 = r\<lparr>cr_path := pth, cr_error_code := 0\<rparr>
                      in (Plan_Succeeded r1, succeeded_current api r1 s1))"

definition computePlan ::
  "('h, compute_goal, compute_result, 'g) goal_api \<Rightarrow> planner_server \<Rightarrow> pose_source
     \<Rightarrow> ('h, 'g) plan_env \<Rightarrow> ('h, 'g) server \<Rightarrow> plan_end \<times> ('h, 'g) server" where
  "computePlan api p src e s0 =
     (let goal = get_current_goal api s0; s = pe_start e s0 in
      if \<not> server_active s then (Plan_Inactive, s)
      else if is_cancel_requested api s then
        (Plan_Canceled, terminate_all api (gh_empty_result api) s)
      else
        let (goal1, s1) = (if preempt_requested s then accept_pending_goal api s else (goal, s))
        in case goal1 of
             None \<Rightarrow> (Plan_Null_Goal, s1)
           | Some g \<Rightarrow> plan_goal api p src e g s1)"

section \<open>The is_path_valid service\<close>

definition pl_isPathValid :: "planner_server \<Rightarrow> path \<Rightarrow> bool \<times> nat list" where
  "pl_isPathValid p pth =
     (if poses pth = [] then (False, [])
      else
        let planner_id = (if path_validity_planner_id p = [] then hd (planner_ids p)
                          else path_validity_planner_id p)
        in case getPlannerOrThrow p planner_id of
             Inl _ \<Rightarrow> (False, [])
           | Inr planner \<Rightarrow>
               (case validity_checker planner of
                  None \<Rightarrow> (True, [])
                | Some check \<Rightarrow>
                    (case check pth of Inl _ \<Rightarrow> (False, []) | Inr r \<Rightarrow> r)))"

text \<open>\<open>publishPlan\<close>: the paths sent to the visualisation topic.\<close>

definition publishPlan :: "bool \<Rightarrow> nat \<Rightarrow> path \<Rightarrow> path list" where
  "publishPlan publisher_active subscribers pth =
     (if \<not> publisher_active then [] else if subscribers = 0 then [] else [pth])"

end
