(* ===== verification/Planner_Server_Props.thy ===== *)
theory Planner_Server_Props
  imports Planner_Server
begin

text \<open>
  The planner server refines \<open>plan_spec\<close>, what a request asks for without the action protocol: the two
  end points in the global frame, the selected plugin, and a path that is not empty. The locale
  \<open>global_planner\<close> is the contract of a plugin.
\<close>

section \<open>Specification of a planning request\<close>

definition plan_spec :: "planner_server \<Rightarrow> pose_source \<Rightarrow> compute_goal \<Rightarrow> planner_exn + path" where
  "plan_spec p src goal =
     (case endpoints src (pl_global_frame p) goal of
        Inl x \<Rightarrow> Inl x
      | Inr (start, goal_pose) \<Rightarrow>
          (case getPlannerOrThrow p (cg_planner_id goal) of
             Inl x \<Rightarrow> Inl x
           | Inr planner \<Rightarrow>
               (case createPlan planner start goal_pose of
                  Inl x \<Rightarrow> Inl x
                | Inr pth \<Rightarrow> if poses pth = [] then Inl NoValidPathCouldBeFound else Inr pth)))"

lemma plan_spec_nonempty: "plan_spec p src goal = Inr pth \<Longrightarrow> poses pth \<noteq> []"
  by (auto simp: plan_spec_def split: sum.splits prod.splits if_splits)

lemma plan_goal_refines:
  assumes "plan_goal api p src e goal s = (x, s')"
  shows "case x of
      Plan_Succeeded r \<Rightarrow> plan_spec p src goal = Inr (cr_path r) \<and> cr_error_code r = 0
    | Plan_Failed code \<Rightarrow> \<exists>y. plan_spec p src goal = Inl y \<and> code = plan_catch_code y
    | Plan_Canceled \<Rightarrow> True
    | _ \<Rightarrow> False"
  using assms
  by (auto simp: plan_goal_def plan_spec_def fail_plan_def Let_def
      split: if_splits sum.splits prod.splits)

section \<open>The action protocol\<close>

text \<open>A change by other threads that keeps the invariant of the action server.\<close>

definition keeps_inv ::
  "('h, 'a, 'r, 'g) goal_api \<Rightarrow> ('g \<Rightarrow> bool) \<Rightarrow> (('h, 'g) server \<Rightarrow> ('h, 'g) server) \<Rightarrow> bool" where
  "keeps_inv api ok f \<longleftrightarrow> (\<forall>s. server_inv api ok s \<longrightarrow> server_inv api ok (f s))"

definition env_keeps_inv ::
  "('h, 'a, 'r, 'g) goal_api \<Rightarrow> ('g \<Rightarrow> bool) \<Rightarrow> ('h, 'g) plan_env \<Rightarrow> bool" where
  "env_keeps_inv api ok e \<longleftrightarrow>
     keeps_inv api ok (pe_start e) \<and> keeps_inv api ok (pe_tf e) \<and> keeps_inv api ok (pe_plan e)"

locale planning_server = goal_handles api ok
  for api :: "('h, compute_goal, compute_result, 'g) goal_api" and ok :: "'g \<Rightarrow> bool"
begin

lemma fail_plan_settles:
  "server_inv api ok s \<Longrightarrow> server_inv api ok (snd (fail_plan api r x s)) \<and>
     current_handle (snd (fail_plan api r x s)) = None"
  by (simp add: fail_plan_def terminate_current_inv)

lemma plan_goal_settles:
  assumes "server_inv api ok s" and "keeps_inv api ok (pe_tf e)" and "keeps_inv api ok (pe_plan e)"
  shows "server_inv api ok (snd (plan_goal api p src e goal s)) \<and>
    current_handle (snd (plan_goal api p src e goal s)) = None"
proof -
  have i: "server_inv api ok (pe_tf e s)" "server_inv api ok (pe_plan e (pe_tf e s))"
    using assms by (auto simp: keeps_inv_def)
  show ?thesis
    using assms(1) i
    by (auto simp: plan_goal_def Let_def fail_plan_settles terminate_all_inv succeeded_current_inv
        split: sum.splits prod.splits)
qed

lemma computePlan_cases:
  assumes "server_inv api ok s" and "get_current_goal api s \<noteq> None" and "keeps_inv api ok (pe_start e)"
    and "computePlan api p src e s = (x, s')"
  obtains (inactive) "x = Plan_Inactive" "s' = pe_start e s"
  | (canceled) "x = Plan_Canceled" "s' = terminate_all api (gh_empty_result api) (pe_start e s)"
  | (planned) goal s1 where "server_inv api ok s1" "plan_goal api p src e goal s1 = (x, s')"
      "Some goal \<in> {get_current_goal api s, get_pending_goal api (pe_start e s)}"
proof -
  let ?s = "pe_start e s"
  have i: "server_inv api ok ?s"
    using assms(1,3) by (simp add: keeps_inv_def)
  consider (a) "\<not> server_active ?s" | (b) "server_active ?s" "is_cancel_requested api ?s"
    | (c) "server_active ?s" "\<not> is_cancel_requested api ?s" "preempt_requested ?s"
    | (d) "server_active ?s" "\<not> is_cancel_requested api ?s" "\<not> preempt_requested ?s"
    by blast
  then show thesis
  proof cases
    case c
    then obtain h where h: "pending_handle ?s = Some h" "gh_is_active api (goal_store ?s) h"
      using i by (auto simp: server_inv_def)
    then have "accept_pending_goal api ?s = (Some (gh_get_goal api h), snd (accept_pending_goal api ?s))"
      "get_pending_goal api ?s = Some (gh_get_goal api h)"
      using accept_pending_moves(1) [OF i h(1)]
      by (auto simp: get_pending_goal_def is_active_def prod_eq_iff)
    then show thesis
      using planned [of "snd (accept_pending_goal api ?s)" "gh_get_goal api h"] c assms(4)
        accept_pending_inv(1) [OF i]
      by (auto simp: computePlan_def Let_def split: prod.splits)
  next
    case d
    then show thesis
      using planned [OF i] assms(2,4) by (auto simp: computePlan_def Let_def)
  qed (use assms(4) inactive canceled in \<open>auto simp: computePlan_def Let_def\<close>)
qed

lemma computePlan_settles:
  assumes "server_inv api ok s" and "get_current_goal api s \<noteq> None" and "keeps_inv api ok (pe_start e)"
    and "keeps_inv api ok (pe_tf e)" and "keeps_inv api ok (pe_plan e)" and "computePlan api p src e s = (x, s')"
  shows "server_inv api ok s' \<and> (x \<noteq> Plan_Inactive \<longrightarrow> current_handle s' = None)"
proof (rule computePlan_cases [OF assms(1,2,3,6)])
  assume "x = Plan_Canceled" and s': "s' = terminate_all api (gh_empty_result api) (pe_start e s)"
  have "server_inv api ok (pe_start e s)"
    using assms(1,3) by (simp add: keeps_inv_def)
  then show ?thesis
    using s' by (simp add: terminate_all_inv)
next
  fix goal s1
  assume "server_inv api ok s1" and "plan_goal api p src e goal s1 = (x, s')"
  then show ?thesis
    using plan_goal_settles [OF _ assms(4,5), of s1 p src goal] by (metis snd_conv)
qed (use assms(1,3) in \<open>simp add: keeps_inv_def\<close>)

lemma computePlan_refines:
  assumes "server_inv api ok s" and "get_current_goal api s \<noteq> None" and "keeps_inv api ok (pe_start e)"
    and "computePlan api p src e s = (x, s')"
  shows "case x of
      Plan_Succeeded r \<Rightarrow> cr_error_code r = 0 \<and> poses (cr_path r) \<noteq> [] \<and>
        (\<exists>goal. Some goal \<in> {get_current_goal api s, get_pending_goal api (pe_start e s)} \<and>
           plan_spec p src goal = Inr (cr_path r))
    | Plan_Failed code \<Rightarrow>
        (\<exists>goal y. Some goal \<in> {get_current_goal api s, get_pending_goal api (pe_start e s)} \<and>
           plan_spec p src goal = Inl y \<and> code = plan_catch_code y)
    | Plan_Null_Goal \<Rightarrow> False
    | _ \<Rightarrow> True"
proof (rule computePlan_cases [OF assms(1-4)])
  fix goal s1
  assume g: "plan_goal api p src e goal s1 = (x, s')"
    "Some goal \<in> {get_current_goal api s, get_pending_goal api (pe_start e s)}"
  then show ?thesis
    using plan_goal_refines [OF g(1)] plan_spec_nonempty
    by (auto split: plan_end.splits)
qed simp_all

end

interpretation ros_plan: planning_server "ros_api goal_of no_result" ros_ok for goal_of no_result
  by unfold_locales

section \<open>The contract of a planner plugin\<close>

text \<open>A plan that is not empty is expressed in the frame the plugin plans in: the path and every pose
  carry it.\<close>

locale global_planner =
  fixes plan :: "pose_stamped \<Rightarrow> pose_stamped \<Rightarrow> planner_exn + path" and gframe :: string
  assumes plan_frame: "plan start goal = Inr pth \<Longrightarrow> poses pth \<noteq> [] \<Longrightarrow>
    frame_id (path_header pth) = gframe \<and> (\<forall>q \<in> set (poses pth). ps_header q = path_header pth)"

text \<open>The MoveIt plugin as a \<open>GlobalPlanner\<close>, in the world in which it is called.\<close>

definition moveit_iface ::
  "'w moveit_api \<Rightarrow> tf_api \<Rightarrow> (double \<Rightarrow> bool) \<Rightarrow> ('w \<Rightarrow> bool \<times> 'w) \<Rightarrow> moveit_planner \<Rightarrow> 'w
     \<Rightarrow> planner_iface" where
  "moveit_iface mv tf isfinite cancel m w =
     \<lparr>createPlan = (\<lambda>start goal. Inr (fst (mp_createPlan mv tf isfinite cancel m start goal w))),
      validity_checker = Some (\<lambda>pth. Inr (fst (mp_isPathValid mv pth (m, w))))\<rparr>"

lemma moveit_createPlan_frame:
  assumes "poses (fst (mp_createPlan mv tf isfinite cancel m start goal w)) \<noteq> []"
  shows "frame_id (path_header (fst (mp_createPlan mv tf isfinite cancel m start goal w))) = mp_global_frame m \<and>
    (\<forall>q \<in> set (poses (fst (mp_createPlan mv tf isfinite cancel m start goal w))).
       ps_header q = path_header (fst (mp_createPlan mv tf isfinite cancel m start goal w)))"
proof -
  obtain p w' where p: "mp_createPlan mv tf isfinite cancel m start goal w = (p, w')"
    by (rule prod.exhaust)
  then have "poses p \<noteq> []"
    using assms by simp
  then obtain t ps where "p = toPath t ps (mp_global_frame m)"
    using createPlan_inversion [OF p] by metis
  then show ?thesis
    using p by simp
qed

interpretation moveit: global_planner
  "createPlan (moveit_iface mv tf isfinite cancel m w)" "mp_global_frame m"
  for mv tf isfinite cancel m w
  by unfold_locales (auto simp: moveit_iface_def moveit_createPlan_frame)

section \<open>Properties\<close>


text \<open>A planner server with the MoveIt plugin, and a request to fly to the origin.\<close>

definition demo_pl_server :: planner_server where
  "demo_pl_server =
     \<lparr>planner_ids = [''GridBased''],
      planners = [''GridBased'' \<mapsto> moveit_iface (static_moveit (\<lambda>_. True)) ref_tf (\<lambda>_. True)
        (\<lambda>w. (False, w)) demo_planner ()],
      path_validity_planner_id = [], pl_global_frame = ''map''\<rparr>"

definition demo_goal :: "string \<Rightarrow> compute_goal" where
  "demo_goal planner = \<lparr>cg_goal = default_pose_stamped, cg_start = default_pose_stamped,
     cg_planner_id = planner, cg_use_start = True\<rparr>"

definition demo_src :: pose_source where
  "demo_src = \<lparr>tf_current = None, tf_into = (\<lambda>p f. None)\<rparr>"

definition idle_env :: "(nat, nat \<Rightarrow> goal_status) plan_env" where
  "idle_env = \<lparr>pe_start = (\<lambda>s. s), pe_tf = (\<lambda>s. s), pe_plan = (\<lambda>s. s), pe_time = 0\<rparr>"

lemma idle_env_inv: "env_keeps_inv api ok idle_env"
  by (simp add: env_keeps_inv_def keeps_inv_def idle_env_def)

abbreviation demo_plan_api :: "string \<Rightarrow> (nat, compute_goal, compute_result, nat \<Rightarrow> goal_status) goal_api" where
  "demo_plan_api planner \<equiv> ros_api (\<lambda>_. demo_goal planner) empty_result"


text \<open>if every loaded plugin meets the planner contract for the global frame, the path of a
  successful planning result is in the global frame, with the same header on every pose.\<close>

theorem planned_path_in_global_frame:
  assumes "\<And>i q. planners p i = Some q \<Longrightarrow> global_planner (createPlan q) (pl_global_frame p)"
    and "plan_goal api p src e goal s = (Plan_Succeeded r, s')"
  shows "poses (cr_path r) \<noteq> [] \<and> frame_id (path_header (cr_path r)) = pl_global_frame p \<and>
    (\<forall>q \<in> set (poses (cr_path r)). ps_header q = path_header (cr_path r))"
proof -
  have spec: "plan_spec p src goal = Inr (cr_path r)"
    using plan_goal_refines [OF assms(2)] by simp
  then obtain planner start goal_pose where
    "getPlannerOrThrow p (cg_planner_id goal) = Inr planner"
    "createPlan planner start goal_pose = Inr (cr_path r)"
    by (auto simp: plan_spec_def split: sum.splits prod.splits if_splits)
  moreover have "\<exists>i. planners p i = Some planner"
    using calculation(1) by (auto simp: getPlannerOrThrow_def Let_def split: option.splits)
  ultimately show ?thesis
    using assms(1) global_planner.plan_frame plan_spec_nonempty [OF spec] by blast
qed

lemma default_pose_stamped_frame: "frame_id (ps_header default_pose_stamped) = []"
  by (simp add: default_pose_stamped_def default_header_def)

lemma demo_plan_succeeds:
  "\<exists>r s'. plan_goal (demo_plan_api []) demo_pl_server demo_src idle_env (demo_goal []) executing_server
     = (Plan_Succeeded r, s')"
proof -
  have "\<not> is_cancel_requested (demo_plan_api []) executing_server"
    by (simp add: is_cancel_requested_def executing_server_def server_init_def ros_api_def)
  moreover note demo_plan_nonempty
  ultimately show ?thesis
    by (simp add: plan_goal_def idle_env_def demo_goal_def endpoints_def start_pose_def into_global_def
        getPlannerOrThrow_def demo_pl_server_def default_pose_stamped_frame moveit_iface_def Let_def)
qed

theorem planned_path_in_global_frame_witness:
  "\<exists>r s'. plan_goal (demo_plan_api []) demo_pl_server demo_src idle_env (demo_goal []) executing_server
     = (Plan_Succeeded r, s') \<and> frame_id (path_header (cr_path r)) = ''map''"
proof -
  obtain r s' where g: "plan_goal (demo_plan_api []) demo_pl_server demo_src idle_env (demo_goal [])
      executing_server = (Plan_Succeeded r, s')"
    using demo_plan_succeeds by blast
  have f: "mp_global_frame demo_planner = ''map''"
    by (simp add: demo_planner_def mp_activate_def mp_configure_def Let_def)
  have "global_planner (createPlan q) (pl_global_frame demo_pl_server)"
    if "planners demo_pl_server i = Some q" for i q
    using that moveit.global_planner_axioms [of "static_moveit (\<lambda>_. True)" ref_tf "\<lambda>_. True"
        "\<lambda>w. (False, w)" demo_planner "()"] f
    by (auto simp: demo_pl_server_def split: if_splits)
  then show ?thesis
    using planned_path_in_global_frame [OF _ g] g by (auto simp: demo_pl_server_def)
qed

end
