(* ===== verification/Offboard_Control.thy ===== *)
theory Offboard_Control
  imports Nav3d_Msgs
begin

text \<open>
  \<open>nav3d_px4_bridge::OffboardControl\<close> (\<open>nav3d_px4_bridge/src/offboard_control.cpp\<close>): the bridge that
  turns setpoints in the ENU frame into PX4 setpoints in the NED frame, takes off, hovers, and asks
  PX4 for offboard mode and arming. The node publishes to PX4 only; each callback returns the messages it
  publishes. The narrowing to \<open>float\<close> is idealised; a NaN field of a setpoint is \<open>None\<close>.
\<close>

section \<open>State\<close>

record offboard_params =
  control_rate_hz :: double
  waypoint_timeout_s :: double
  offboard_warmup_s :: double
  offboard_command_retry_s :: double
  offset_alpha :: double
  takeoff_altitude :: double
  altitude_tolerance :: double

record setpoint =
  sp_position :: point
  sp_velocity :: point
  sp_acceleration :: point
  sp_jerk :: "point option"
  sp_yaw :: double
  sp_yawspeed :: double
  sp_timestamp :: int

datatype vehicle_cmd = VEHICLE_CMD_COMPONENT_ARM_DISARM | VEHICLE_CMD_DO_SET_MODE

datatype px4_msg =
  Offboard_Control_Mode int
| Trajectory_Setpoint setpoint
| Vehicle_Command vehicle_cmd double double

record offboard =
  ob_params :: offboard_params
  current_odom :: "pose option"
  current_local_pos :: "point option"
  status_offboard :: bool
  status_armed :: bool
  odom_to_px4_offset :: point
  last_valid_setpoint_enu :: "(pose \<times> twist) option"
  last_waypoint_time :: time_ns
  current_waypoint_ned :: "setpoint option"
  takeoff_start_enu :: "pose option"
  takeoff_target_altitude :: "double option"
  takeoff_completed :: bool
  offboard_setpoint_counter :: nat
  offboard_command_sent :: bool
  last_offboard_command_time :: time_ns

definition offboard_init :: "offboard_params \<Rightarrow> offboard" where
  "offboard_init P =
     \<lparr>ob_params = P, current_odom = None, current_local_pos = None, status_offboard = False,
      status_armed = False, odom_to_px4_offset = zero_point, last_valid_setpoint_enu = None,
      last_waypoint_time = 0, current_waypoint_ned = None, takeoff_start_enu = None,
      takeoff_target_altitude = None, takeoff_completed = False, offboard_setpoint_counter = 0,
      offboard_command_sent = False, last_offboard_command_time = 0\<rparr>"

text \<open>\<open>nanoseconds() / 1000\<close>, the time stamp of a PX4 message.\<close>

definition micros :: "time_ns \<Rightarrow> int" where
  "micros t = (if t < 0 then - ((- t) div 1000) else t div 1000)"

section \<open>Frames\<close>

text \<open>The position part of the ENU to NED conversion, which the code writes out wherever it
  converts a position, a velocity or an acceleration.\<close>

definition enu_to_ned :: "point \<Rightarrow> point" where
  "enu_to_ned p = \<lparr>px = py p, py = px p, pz = - pz p\<rparr>"

text \<open>The two loops that bring the yaw into the range from \<open>-\<pi>\<close> to \<open>\<pi>\<close>.\<close>

function wrap_down :: "double \<Rightarrow> double" where
  "wrap_down y = (if y > pi then wrap_down (y - 2 * pi) else y)"
  by pat_completeness auto
termination
proof (relation "measure (\<lambda>y. nat \<lceil>y\<rceil>)")
  fix y :: double
  assume "pi < y"
  then have "y - 2 * pi \<le> y - 1" "1 < y"
    using pi_ge_two by linarith+
  then show "(y - 2 * pi, y) \<in> measure (\<lambda>y. nat \<lceil>y\<rceil>)"
    by (simp add: nat_less_eq_zless) linarith
qed simp

function wrap_up :: "double \<Rightarrow> double" where
  "wrap_up y = (if y < - pi then wrap_up (y + 2 * pi) else y)"
  by pat_completeness auto
termination
proof (relation "measure (\<lambda>y. nat \<lceil>- y\<rceil>)")
  fix y :: double
  assume "y < - pi"
  then have "- (y + 2 * pi) \<le> - y - 1" "1 < - y"
    using pi_ge_two by linarith+
  then show "(y + 2 * pi, y) \<in> measure (\<lambda>y. nat \<lceil>- y\<rceil>)"
    by (simp add: nat_less_eq_zless) linarith
qed simp

declare wrap_down.simps [simp del] wrap_up.simps [simp del]

definition ned_yaw :: "double \<Rightarrow> double" where
  "ned_yaw y = wrap_up (wrap_down (- y + pi / 2))"

definition enuToNedPose :: "tf_api \<Rightarrow> pose \<Rightarrow> pose" where
  "enuToNedPose tf p =
     (let (roll, pitch, y) = tf_getRPY tf (orientation p)
      in \<lparr>position = enu_to_ned (position p), orientation = tf_setRPY tf roll pitch (ned_yaw y)\<rparr>)"

definition ned_with_offset :: "tf_api \<Rightarrow> offboard \<Rightarrow> pose \<Rightarrow> pose" where
  "ned_with_offset tf b p =
     (let n = enuToNedPose tf p in n\<lparr>position := pt_add (position n) (odom_to_px4_offset b)\<rparr>)"

section \<open>Callbacks\<close>

definition updateOffset :: "offboard \<Rightarrow> offboard" where
  "updateOffset b =
     (case (current_odom b, current_local_pos b) of
        (Some odom, Some loc) \<Rightarrow>
          let e = pt_sub loc (enu_to_ned (position odom));
              a = std_clamp (offset_alpha (ob_params b)) 0 1
          in b\<lparr>odom_to_px4_offset := pt_add (pt_scale a e) (pt_scale (1 - a) (odom_to_px4_offset b))\<rparr>
      | _ \<Rightarrow> b)"

definition vehicleLocalPositionCallback :: "point \<Rightarrow> offboard \<Rightarrow> offboard" where
  "vehicleLocalPositionCallback msg b = b\<lparr>current_local_pos := Some msg\<rparr>"

definition vehicleStatusCallback :: "bool \<Rightarrow> bool \<Rightarrow> offboard \<Rightarrow> offboard" where
  "vehicleStatusCallback is_offboard is_armed b =
     b\<lparr>status_offboard := is_offboard, status_armed := is_armed\<rparr>"

definition odomCallback :: "pose \<Rightarrow> offboard \<Rightarrow> offboard" where
  "odomCallback msg b = updateOffset (b\<lparr>current_odom := Some msg\<rparr>)"

record waypoint_msg =
  wp_pose :: pose
  wp_velocity :: twist
  wp_acceleration :: point

definition waypointCallback :: "tf_api \<Rightarrow> time_ns \<Rightarrow> waypoint_msg \<Rightarrow> offboard \<Rightarrow> offboard" where
  "waypointCallback tf now msg b =
     (let n = ned_with_offset tf b (wp_pose msg)
      in b\<lparr>last_valid_setpoint_enu := Some (wp_pose msg, wp_velocity msg),
           last_waypoint_time := now,
           current_waypoint_ned := Some
             \<lparr>sp_position = position n, sp_velocity = enu_to_ned (linear (wp_velocity msg)),
              sp_acceleration = enu_to_ned (wp_acceleration msg), sp_jerk = None,
              sp_yaw = tf_getYaw tf (orientation n),
              sp_yawspeed = - pz (angular (wp_velocity msg)), sp_timestamp = 0\<rparr>\<rparr>)"

text \<open>A setpoint that holds a pose at zero velocity, as take-off and hover publish it.\<close>

definition hold_setpoint :: "tf_api \<Rightarrow> time_ns \<Rightarrow> offboard \<Rightarrow> pose \<Rightarrow> setpoint" where
  "hold_setpoint tf t0 b p =
     (let n = ned_with_offset tf b p
      in \<lparr>sp_position = position n, sp_velocity = zero_point, sp_acceleration = zero_point,
          sp_jerk = None, sp_yaw = tf_getYaw tf (orientation n), sp_yawspeed = 0,
          sp_timestamp = micros t0\<rparr>)"

definition normalized_or_identity :: "tf_api \<Rightarrow> quaternion \<Rightarrow> quaternion" where
  "normalized_or_identity tf q =
     (let n = sqrt (qx q * qx q + qy q * qy q + qz q * qz q + qw q * qw q)
      in if n > 1 / 1000000 then \<lparr>qx = qx q / n, qy = qy q / n, qz = qz q / n, qw = qw q / n\<rparr>
         else tf_setRPY tf 0 0 0)"

definition start_takeoff :: "tf_api \<Rightarrow> pose \<Rightarrow> offboard \<Rightarrow> offboard" where
  "start_takeoff tf odom b =
     (if takeoff_start_enu b \<noteq> None then b
      else b\<lparr>takeoff_start_enu :=
               Some \<lparr>position = position odom,
                     orientation = normalized_or_identity tf (orientation odom)\<rparr>,
             takeoff_target_altitude :=
               Some (pz (position odom) + takeoff_altitude (ob_params b))\<rparr>)"

definition publishTakeoffSetpoint ::
  "tf_api \<Rightarrow> time_ns \<Rightarrow> offboard \<Rightarrow> px4_msg list \<times> offboard" where
  "publishTakeoffSetpoint tf t0 b =
     (case current_odom b of
        None \<Rightarrow> ([], b)
      | Some odom \<Rightarrow>
          let b1 = start_takeoff tf odom b;
              start = the (takeoff_start_enu b1);
              p = start\<lparr>position := (position start)\<lparr>pz := the (takeoff_target_altitude b1)\<rparr>\<rparr>;
              b2 = b1\<lparr>last_valid_setpoint_enu := Some (p, zero_twist)\<rparr>
          in ([Trajectory_Setpoint (hold_setpoint tf t0 b2 p)], b2))"

definition isTakeoffComplete :: "offboard \<Rightarrow> bool \<times> offboard" where
  "isTakeoffComplete b =
     (case (current_odom b, takeoff_target_altitude b) of
        (Some odom, Some target) \<Rightarrow>
          let done = (\<bar>pz (position odom) - target\<bar> < altitude_tolerance (ob_params b)
                      \<or> takeoff_completed b)
          in (done, b\<lparr>takeoff_completed := done\<rparr>)
      | _ \<Rightarrow> (False, b))"

definition publishHoverSetpoint :: "tf_api \<Rightarrow> time_ns \<Rightarrow> offboard \<Rightarrow> px4_msg list" where
  "publishHoverSetpoint tf t0 b =
     (case last_valid_setpoint_enu b of
        None \<Rightarrow> []
      | Some (p, v) \<Rightarrow> [Trajectory_Setpoint (hold_setpoint tf t0 b p)])"

definition engageOffboardMode :: "px4_msg list" where
  "engageOffboardMode = [Vehicle_Command VEHICLE_CMD_DO_SET_MODE 1 6]"

definition arm :: "px4_msg list" where
  "arm = [Vehicle_Command VEHICLE_CMD_COMPONENT_ARM_DISARM 1 0]"

definition disarm :: "px4_msg list" where
  "disarm = [Vehicle_Command VEHICLE_CMD_COMPONENT_ARM_DISARM 0 0]"

text \<open>The clock readings of one tick: at the start, for the freshness test and for the stamp of the
  setpoint.\<close>

record tick =
  tk_now :: time_ns
  tk_fresh :: time_ns
  tk_stamp :: time_ns

definition required_setpoints :: "offboard_params \<Rightarrow> nat" where
  "required_setpoints P =
     max 1 (nat \<lceil>max 0 (offboard_warmup_s P) * max (1 / 1000) (control_rate_hz P)\<rceil>)"

definition has_fresh_waypoint :: "tick \<Rightarrow> offboard \<Rightarrow> bool" where
  "has_fresh_waypoint t b \<longleftrightarrow>
     current_waypoint_ned b \<noteq> None \<and>
     seconds (tk_fresh t - last_waypoint_time b) < waypoint_timeout_s (ob_params b)"

text \<open>The setpoint of a tick.\<close>

definition tick_setpoint :: "tf_api \<Rightarrow> tick \<Rightarrow> offboard \<Rightarrow> px4_msg list \<times> offboard" where
  "tick_setpoint tf t b =
     (if has_fresh_waypoint t b then
        (let sp = (the (current_waypoint_ned b))\<lparr>sp_timestamp := micros (tk_stamp t)\<rparr>
         in ([Trajectory_Setpoint sp], b\<lparr>current_waypoint_ned := Some sp\<rparr>))
      else
        let (finished, b1) = isTakeoffComplete b in
        if finished then (publishHoverSetpoint tf (tk_stamp t) b1, b1)
        else publishTakeoffSetpoint tf (tk_stamp t) b1)"

definition retry_due :: "tick \<Rightarrow> offboard \<Rightarrow> bool" where
  "retry_due t b \<longleftrightarrow>
     \<not> offboard_command_sent b \<or>
     seconds (tk_now t - last_offboard_command_time b) \<ge> max (1 / 10) (offboard_command_retry_s (ob_params b))"

text \<open>The rest of a tick: the warm-up count and the requests for offboard mode and arming.\<close>

definition tick_commands :: "tick \<Rightarrow> offboard \<Rightarrow> px4_msg list \<times> offboard" where
  "tick_commands t b =
     (if offboard_setpoint_counter b < required_setpoints (ob_params b) then
        ([], b\<lparr>offboard_setpoint_counter := Suc (offboard_setpoint_counter b)\<rparr>)
      else if (\<not> status_offboard b \<or> \<not> status_armed b) \<and> retry_due t b then
        (engageOffboardMode @ arm,
         b\<lparr>offboard_command_sent := True, last_offboard_command_time := tk_now t\<rparr>)
      else ([], b))"

definition timerCallback :: "tf_api \<Rightarrow> tick \<Rightarrow> offboard \<Rightarrow> px4_msg list \<times> offboard" where
  "timerCallback tf t b =
     (let heartbeat = [Offboard_Control_Mode (micros (tk_now t))] in
      if current_odom b = None then (heartbeat, b)
      else
        let (sp, b1) = tick_setpoint tf t b; (cmd, b2) = tick_commands t b1
        in (heartbeat @ sp @ cmd, b2))"

end
