(* ===== verification/Offboard_Control_Props.thy ===== *)
theory Offboard_Control_Props
  imports Offboard_Control
begin

text \<open>
  Theorems on the PX4 bridge, over arbitrary sequences of its callbacks: no arming or mode command
  before the warm-up setpoints, a minimal distance between commands, the frame conversion, and the
  contraction of the frame offset.
\<close>

section \<open>Runs\<close>

datatype ob_event =
  Ob_Odom pose | Ob_Local_Position point | Ob_Status bool bool | Ob_Waypoint time_ns waypoint_msg
| Ob_Tick tick

definition ob_run :: "tf_api \<Rightarrow> ob_event \<Rightarrow> offboard \<Rightarrow> px4_msg list \<times> offboard" where
  "ob_run tf e b =
     (case e of
        Ob_Odom p \<Rightarrow> ([], odomCallback p b)
      | Ob_Local_Position p \<Rightarrow> ([], vehicleLocalPositionCallback p b)
      | Ob_Status off armed \<Rightarrow> ([], vehicleStatusCallback off armed b)
      | Ob_Waypoint now msg \<Rightarrow> ([], waypointCallback tf now msg b)
      | Ob_Tick t \<Rightarrow> timerCallback tf t b)"

fun run_events :: "tf_api \<Rightarrow> ob_event list \<Rightarrow> offboard \<Rightarrow> px4_msg list \<times> offboard" where
  "run_events tf [] b = ([], b)"
| "run_events tf (e # es) b =
     (let (out, b1) = ob_run tf e b; (outs, b2) = run_events tf es b1 in (out @ outs, b2))"

lemma run_events_snoc:
  "run_events tf (es @ [e]) b =
     (let (out, b1) = run_events tf es b; (o1, b2) = ob_run tf e b1 in (out @ o1, b2))"
  by (induction es arbitrary: b) (auto simp: Let_def split: prod.splits)

definition is_setpoint :: "px4_msg \<Rightarrow> bool" where
  "is_setpoint m \<longleftrightarrow> (\<exists>sp. m = Trajectory_Setpoint sp)"

definition is_command :: "px4_msg \<Rightarrow> bool" where
  "is_command m \<longleftrightarrow> (\<exists>c p q. m = Vehicle_Command c p q)"

abbreviation setpoints :: "px4_msg list \<Rightarrow> nat" where
  "setpoints ms \<equiv> length (filter is_setpoint ms)"

lemma msg_kind_simps [simp]:
  "is_setpoint (Trajectory_Setpoint sp)" "\<not> is_setpoint (Offboard_Control_Mode t)"
  "\<not> is_setpoint (Vehicle_Command c p q)" "is_command (Vehicle_Command c p q)"
  "\<not> is_command (Offboard_Control_Mode t)" "\<not> is_command (Trajectory_Setpoint sp)"
  by (simp_all add: is_setpoint_def is_command_def)

section \<open>Warm-up\<close>

text \<open>Once a take-off target exists there is a setpoint to hover at; the counter never exceeds the
  setpoints that were published.\<close>

definition hover_inv :: "offboard \<Rightarrow> bool" where
  "hover_inv b \<longleftrightarrow>
     (takeoff_target_altitude b \<noteq> None \<longrightarrow> last_valid_setpoint_enu b \<noteq> None) \<and>
     (takeoff_start_enu b \<noteq> None \<longleftrightarrow> takeoff_target_altitude b \<noteq> None)"

lemma updateOffset_simps [simp]:
  "ob_params (updateOffset b) = ob_params b"
  "takeoff_target_altitude (updateOffset b) = takeoff_target_altitude b"
  "takeoff_start_enu (updateOffset b) = takeoff_start_enu b"
  "last_valid_setpoint_enu (updateOffset b) = last_valid_setpoint_enu b"
  "offboard_setpoint_counter (updateOffset b) = offboard_setpoint_counter b"
  "offboard_command_sent (updateOffset b) = offboard_command_sent b"
  "last_offboard_command_time (updateOffset b) = last_offboard_command_time b"
  by (auto simp: updateOffset_def Let_def split: option.splits)

definition same_counters :: "offboard \<Rightarrow> offboard \<Rightarrow> bool" where
  "same_counters b b' \<longleftrightarrow>
     ob_params b' = ob_params b \<and> offboard_setpoint_counter b' = offboard_setpoint_counter b \<and>
     offboard_command_sent b' = offboard_command_sent b \<and>
     last_offboard_command_time b' = last_offboard_command_time b"

lemma callback_keeps:
  assumes "ob_run tf e b = (out, b')" and "\<forall>t. e \<noteq> Ob_Tick t"
  shows "out = []" and "same_counters b b'" and "hover_inv b \<Longrightarrow> hover_inv b'"
  using assms
  by (cases e; auto simp: ob_run_def odomCallback_def vehicleLocalPositionCallback_def
      vehicleStatusCallback_def waypointCallback_def hover_inv_def same_counters_def Let_def)+

lemma isTakeoffComplete_keeps:
  assumes "isTakeoffComplete b = (finished, b')"
  shows "same_counters b b'" and "hover_inv b' = hover_inv b" and "current_odom b' = current_odom b"
    and "finished \<Longrightarrow> takeoff_target_altitude b' \<noteq> None"
  using assms
  by (auto simp: isTakeoffComplete_def same_counters_def hover_inv_def Let_def split: option.splits)

lemma start_takeoff_keeps:
  assumes "hover_inv b"
  shows "same_counters b (start_takeoff tf odom b)"
    and "takeoff_target_altitude (start_takeoff tf odom b) \<noteq> None"
    and "takeoff_start_enu (start_takeoff tf odom b) \<noteq> None"
  using assms by (auto simp: start_takeoff_def same_counters_def hover_inv_def)

lemma publishTakeoffSetpoint_one:
  assumes "publishTakeoffSetpoint tf t b = (out, b')" and "hover_inv b" and "current_odom b \<noteq> None"
  shows "(\<exists>sp. out = [Trajectory_Setpoint sp]) \<and> same_counters b b' \<and> hover_inv b'"
proof -
  obtain odom where o: "current_odom b = Some odom"
    using assms(3) by blast
  show ?thesis
    using assms(1) start_takeoff_keeps [OF assms(2), of tf odom]
    by (auto simp: publishTakeoffSetpoint_def o Let_def same_counters_def hover_inv_def)
qed

lemma tick_setpoint_one:
  assumes "tick_setpoint tf t b = (out, b')" and "hover_inv b" and "current_odom b \<noteq> None"
  shows "(\<exists>sp. out = [Trajectory_Setpoint sp]) \<and> same_counters b b' \<and> hover_inv b'"
proof (cases "has_fresh_waypoint t b")
  case True
  then show ?thesis
    using assms(1,2) by (auto simp: tick_setpoint_def Let_def same_counters_def hover_inv_def)
next
  case False
  obtain finished b1 where c: "isTakeoffComplete b = (finished, b1)"
    by (rule prod.exhaust)
  note k = isTakeoffComplete_keeps [OF c]
  show ?thesis
  proof (cases finished)
    case True
    then have "last_valid_setpoint_enu b1 \<noteq> None"
      using k(2,4) assms(2) by (simp add: hover_inv_def)
    then show ?thesis
      using assms(1,2) False True c k
      by (auto simp: tick_setpoint_def publishHoverSetpoint_def)
  next
    case incomplete: False
    then have "publishTakeoffSetpoint tf (tk_stamp t) b1 = (out, b')"
      using assms(1) False c by (simp add: tick_setpoint_def)
    then show ?thesis
      using publishTakeoffSetpoint_one k assms(2,3) by (fastforce simp: same_counters_def)
  qed
qed

lemma tick_commands_cases:
  assumes "tick_commands t b = (out, b')"
  obtains (warmup) "offboard_setpoint_counter b < required_setpoints (ob_params b)" "out = []"
      "b' = b\<lparr>offboard_setpoint_counter := Suc (offboard_setpoint_counter b)\<rparr>"
  | (send) "offboard_setpoint_counter b \<ge> required_setpoints (ob_params b)"
      "\<not> status_offboard b \<or> \<not> status_armed b" "retry_due t b" "out = engageOffboardMode @ arm"
      "b' = b\<lparr>offboard_command_sent := True, last_offboard_command_time := tk_now t\<rparr>"
  | (quiet) "out = []" "b' = b"
proof -
  let ?w = "offboard_setpoint_counter b < required_setpoints (ob_params b)"
  let ?d = "(\<not> status_offboard b \<or> \<not> status_armed b) \<and> retry_due t b"
  consider "?w" | "\<not> ?w" "?d" | "\<not> ?w" "\<not> ?d"
    by blast
  then show thesis
  proof cases
    case 1
    with assms show thesis by (intro warmup) (simp_all add: tick_commands_def)
  next
    case 2
    with assms show thesis by (intro send) (simp_all add: tick_commands_def)
  next
    case 3
    with assms show thesis by (intro quiet) (auto simp: tick_commands_def)
  qed
qed

lemma tick_commands_hover: "tick_commands t b = (out, b') \<Longrightarrow> hover_inv b \<Longrightarrow> hover_inv b'"
  by (erule tick_commands_cases) (simp_all add: hover_inv_def)

text \<open>One tick: what it publishes and how it moves the counter.\<close>

lemma timer_cases:
  assumes "timerCallback tf t b = (out, b')" and "hover_inv b"
  obtains (blind) "out = [Offboard_Control_Mode (micros (tk_now t))]" "b' = b" "current_odom b = None"
  | (flying) sp cmd b1 where "out = [Offboard_Control_Mode (micros (tk_now t)), Trajectory_Setpoint sp] @ cmd"
      "same_counters b b1" "hover_inv b1" "tick_commands t b1 = (cmd, b')"
proof (cases "current_odom b = None")
  case True
  then show thesis
    using assms(1) blind by (simp add: timerCallback_def Let_def)
next
  case False
  obtain s b1 where s: "tick_setpoint tf t b = (s, b1)"
    by (rule prod.exhaust)
  obtain cmd b2 where c: "tick_commands t b1 = (cmd, b2)"
    by (rule prod.exhaust)
  show thesis
    using tick_setpoint_one [OF s assms(2) False] assms(1) False s c flying
    by (auto simp: timerCallback_def Let_def)
qed

definition warm_inv :: "offboard_params \<Rightarrow> px4_msg list \<times> offboard \<Rightarrow> bool" where
  "warm_inv P r \<longleftrightarrow>
     ob_params (snd r) = P \<and> hover_inv (snd r) \<and> offboard_setpoint_counter (snd r) \<le> setpoints (fst r) \<and>
     (\<forall>pre m post. fst r = pre @ m # post \<and> is_command m \<longrightarrow> required_setpoints P \<le> setpoints pre)"

text \<open>Appending messages to a run that satisfies the warm-up property.\<close>

lemma append_no_command:
  assumes "\<forall>pre m post. xs = pre @ m # post \<and> is_command m \<longrightarrow> n \<le> setpoints pre"
    and "\<forall>m \<in> set ys. is_command m \<longrightarrow> n \<le> setpoints xs"
  shows "\<forall>pre m post. xs @ ys = pre @ m # post \<and> is_command m \<longrightarrow> n \<le> setpoints pre"
proof (intro allI impI, elim conjE)
  fix pre m post
  assume eq: "xs @ ys = pre @ m # post" and c: "is_command m"
  then consider us where "xs = pre @ m # us" | us where "pre = xs @ us" "ys = us @ m # post"
    by (auto simp: append_eq_append_conv2 append_eq_Cons_conv)
  then show "n \<le> setpoints pre"
    using assms c by cases auto
qed

lemma warm_inv_step:
  assumes "warm_inv P (out, b)" and "ob_run tf e b = (o1, b')"
  shows "warm_inv P (out @ o1, b')"
proof (cases "\<exists>t. e = Ob_Tick t")
  case False
  then show ?thesis
    using callback_keeps [OF assms(2)] assms(1) by (auto simp: warm_inv_def same_counters_def)
next
  case True
  then obtain t where t: "timerCallback tf t b = (o1, b')"
    using assms(2) by (auto simp: ob_run_def)
  have i: "hover_inv b" "ob_params b = P" "offboard_setpoint_counter b \<le> setpoints out"
    "\<forall>pre m post. out = pre @ m # post \<and> is_command m \<longrightarrow> required_setpoints P \<le> setpoints pre"
    using assms(1) by (auto simp: warm_inv_def)
  from t i(1) show ?thesis
  proof (cases rule: timer_cases)
    case blind
    then show ?thesis
      using assms(1) append_no_command [OF i(4), of o1] by (auto simp: warm_inv_def)
  next
    case (flying sp cmd b1)
    have "\<forall>m \<in> set o1. is_command m \<longrightarrow> required_setpoints P \<le> setpoints out"
      using flying i by (auto elim!: tick_commands_cases simp: same_counters_def)
    note a = append_no_command [OF i(4) this]
    show ?thesis
      using flying(4)
    proof (cases rule: tick_commands_cases)
      case warmup
      then show ?thesis
        using a flying i by (simp add: warm_inv_def same_counters_def hover_inv_def)
    next
      case send
      then show ?thesis
        using a flying i
        by (simp add: warm_inv_def same_counters_def hover_inv_def engageOffboardMode_def arm_def)
    next
      case quiet
      then show ?thesis
        using a flying i by (simp add: warm_inv_def same_counters_def)
    qed
  qed
qed

lemma warm_inv_run: "warm_inv P (run_events tf es (offboard_init P))"
proof (induction es rule: rev_induct)
  case Nil
  then show ?case
    by (simp add: warm_inv_def offboard_init_def hover_inv_def)
next
  case (snoc e es)
  then show ?case
    using warm_inv_step by (auto simp: run_events_snoc Let_def split: prod.splits)
qed

section \<open>Distance between commands\<close>

text \<open>The times of the ticks that sent commands, in order.\<close>

fun command_times :: "tf_api \<Rightarrow> ob_event list \<Rightarrow> offboard \<Rightarrow> time_ns list" where
  "command_times tf [] b = []"
| "command_times tf (e # es) b =
     (let (out, b1) = ob_run tf e b
      in (case e of Ob_Tick t \<Rightarrow> if list_ex is_command out then [tk_now t] else [] | _ \<Rightarrow> [])
           @ command_times tf es b1)"

definition spaced :: "offboard_params \<Rightarrow> time_ns \<Rightarrow> time_ns \<Rightarrow> bool" where
  "spaced P t u \<longleftrightarrow> max (1 / 10) (offboard_command_retry_s P) \<le> seconds (u - t)"

text \<open>The command times after a state in which the last command was sent at \<open>last\<close>.\<close>

lemma command_tick:
  assumes "timerCallback tf t b = (out, b')" and "hover_inv b"
  shows "hover_inv b' \<and> ob_params b' = ob_params b \<and>
    (if list_ex is_command out
     then retry_due t b \<and> offboard_command_sent b' \<and> last_offboard_command_time b' = tk_now t
     else offboard_command_sent b' = offboard_command_sent b \<and>
       last_offboard_command_time b' = last_offboard_command_time b)"
  using assms
proof (cases rule: timer_cases)
  case blind
  then show ?thesis
    using assms(2) by simp
next
  case (flying sp cmd b1)
  have r: "retry_due t b1 = retry_due t b"
    using flying(2) by (simp add: retry_due_def same_counters_def)
  show ?thesis
    using flying(4)
  proof (cases rule: tick_commands_cases)
    case send
    then show ?thesis
      using flying r
      by (simp add: engageOffboardMode_def arm_def same_counters_def hover_inv_def)
  qed (use flying in \<open>simp_all add: same_counters_def hover_inv_def\<close>)
qed

lemma command_times_spaced:
  assumes "hover_inv b" and "ob_params b = P"
  shows "successively (spaced P)
    ((if offboard_command_sent b then [last_offboard_command_time b] else []) @ command_times tf es b)"
  using assms
proof (induction es arbitrary: b)
  case Nil
  then show ?case by simp
next
  case (Cons e es)
  obtain out b1 where r: "ob_run tf e b = (out, b1)"
    by (rule prod.exhaust)
  show ?case
  proof (cases "\<exists>t. e = Ob_Tick t")
    case False
    then have "command_times tf (e # es) b = command_times tf es b1"
      using r by (cases e) auto
    then show ?thesis
      using Cons.IH [of b1] callback_keeps [OF r] Cons.prems False by (auto simp: same_counters_def)
  next
    case True
    then obtain t where t: "e = Ob_Tick t" "timerCallback tf t b = (out, b1)"
      using r by (auto simp: ob_run_def)
    note k = command_tick [OF t(2) Cons.prems(1)]
    have "successively (spaced P) ((if offboard_command_sent b1 then [last_offboard_command_time b1] else [])
        @ command_times tf es b1)"
      using Cons.IH [of b1] k Cons.prems(2) by simp
    then show ?thesis
      using k r t Cons.prems(2) by (auto simp: retry_due_def spaced_def split: if_splits)
  qed
qed

section \<open>Frames and offset\<close>

lemma wrap_down_le: "wrap_down y \<le> pi"
  by (induction y rule: wrap_down.induct) (subst wrap_down.simps, auto)

lemma wrap_down_ge: "- pi \<le> y \<Longrightarrow> - pi \<le> wrap_down y"
  by (induction y rule: wrap_down.induct) (subst wrap_down.simps, auto)

lemma wrap_up_ge: "- pi \<le> wrap_up y"
  by (induction y rule: wrap_up.induct) (subst wrap_up.simps, auto)

lemma wrap_up_le: "y \<le> pi \<Longrightarrow> wrap_up y \<le> pi"
  by (induction y rule: wrap_up.induct) (subst wrap_up.simps, auto)

lemma wrap_down_turns: "\<exists>k :: int. wrap_down y = y + 2 * pi * of_int k"
proof (induction y rule: wrap_down.induct)
  case (1 y)
  show ?case
  proof (cases "y > pi")
    case True
    then obtain k :: int where "wrap_down (y - 2 * pi) = y - 2 * pi + 2 * pi * of_int k"
      using 1 by blast
    then show ?thesis
      using True by (intro exI [of _ "k - 1"]) (subst wrap_down.simps, simp add: algebra_simps)
  qed (auto intro: exI [of _ 0] simp: wrap_down.simps)
qed

lemma wrap_up_turns: "\<exists>k :: int. wrap_up y = y + 2 * pi * of_int k"
proof (induction y rule: wrap_up.induct)
  case (1 y)
  show ?case
  proof (cases "y < - pi")
    case True
    then obtain k :: int where "wrap_up (y + 2 * pi) = y + 2 * pi + 2 * pi * of_int k"
      using 1 by blast
    then show ?thesis
      using True by (intro exI [of _ "k + 1"]) (subst wrap_up.simps, simp add: algebra_simps)
  qed (auto intro: exI [of _ 0] simp: wrap_up.simps)
qed

lemma ned_yaw_range: "- pi \<le> ned_yaw y \<and> ned_yaw y \<le> pi"
  by (simp add: ned_yaw_def wrap_up_ge wrap_up_le wrap_down_le)

lemma ned_yaw_turns: "\<exists>k :: int. ned_yaw y = pi / 2 - y + 2 * pi * of_int k"
proof -
  obtain k l :: int where "wrap_down (- y + pi / 2) = - y + pi / 2 + 2 * pi * of_int k"
    "wrap_up (wrap_down (- y + pi / 2)) = wrap_down (- y + pi / 2) + 2 * pi * of_int l"
    using wrap_down_turns wrap_up_turns by metis
  then show ?thesis
    by (intro exI [of _ "k + l"]) (simp add: ned_yaw_def algebra_simps)
qed

lemma enu_to_ned_simps [simp]:
  "px (enu_to_ned p) = py p" "py (enu_to_ned p) = px p" "pz (enu_to_ned p) = - pz p"
  by (simp_all add: enu_to_ned_def)

section \<open>Properties\<close>

text \<open>C6: in every run of the bridge, a command (offboard mode or arming) is published only after at
  least the required number of warm-up setpoints, \<open>ceil (warmup * rate)\<close> and at least one, has been
  published.\<close>

theorem no_command_before_warmup:
  assumes "run_events tf es (offboard_init P) = (pre @ Vehicle_Command c p q # post, b)"
  shows "required_setpoints P \<le> length (filter is_setpoint pre) \<and> 1 \<le> length (filter is_setpoint pre)"
proof -
  have "required_setpoints P \<le> setpoints pre"
    using warm_inv_run [of P tf es] assms
    unfolding warm_inv_def by (metis fst_conv msg_kind_simps(4))
  moreover have "1 \<le> required_setpoints P"
    by (simp add: required_setpoints_def)
  ultimately show ?thesis
    by simp
qed

definition demo_ob_params :: offboard_params where
  "demo_ob_params = \<lparr>control_rate_hz = 1, waypoint_timeout_s = 1, offboard_warmup_s = 1,
     offboard_command_retry_s = 1, offset_alpha = 1 / 100, takeoff_altitude = 1, altitude_tolerance = 1 / 10\<rparr>"

definition demo_tick :: "time_ns \<Rightarrow> ob_event" where
  "demo_tick t = Ob_Tick \<lparr>tk_now = t, tk_fresh = t, tk_stamp = t\<rparr>"

definition demo_flight :: "ob_event list" where
  "demo_flight = [Ob_Odom default_pose, demo_tick 0, demo_tick 1000000000]"

lemma demo_required: "required_setpoints demo_ob_params = 1"
  by (simp add: required_setpoints_def demo_ob_params_def)

lemma demo_flight_commands:
  "\<exists>sp1 sp2 b. run_events ref_tf demo_flight (offboard_init demo_ob_params) =
     ([Offboard_Control_Mode 0, Trajectory_Setpoint sp1, Offboard_Control_Mode 1000000,
       Trajectory_Setpoint sp2, Vehicle_Command VEHICLE_CMD_DO_SET_MODE 1 6,
       Vehicle_Command VEHICLE_CMD_COMPONENT_ARM_DISARM 1 0], b)"
  using demo_required
  by (simp add: demo_flight_def demo_tick_def ob_run_def odomCallback_def updateOffset_def
      offboard_init_def timerCallback_def tick_setpoint_def has_fresh_waypoint_def
      isTakeoffComplete_def publishTakeoffSetpoint_def start_takeoff_def tick_commands_def
      retry_due_def engageOffboardMode_def arm_def micros_def Let_def default_pose_def
      demo_ob_params_def)

theorem no_command_before_warmup_witness:
  "\<exists>pre c p q post b. run_events ref_tf demo_flight (offboard_init demo_ob_params) =
      (pre @ Vehicle_Command c p q # post, b) \<and> 1 \<le> length (filter is_setpoint pre)"
proof -
  obtain sp1 sp2 b where r: "run_events ref_tf demo_flight (offboard_init demo_ob_params) =
     ([Offboard_Control_Mode 0, Trajectory_Setpoint sp1, Offboard_Control_Mode 1000000,
       Trajectory_Setpoint sp2] @ Vehicle_Command VEHICLE_CMD_DO_SET_MODE 1 6 #
       [Vehicle_Command VEHICLE_CMD_COMPONENT_ARM_DISARM 1 0], b)"
    using demo_flight_commands by auto
  show ?thesis
    using r no_command_before_warmup [OF r] by blast
qed

text \<open>C15: two consecutive command requests of a run are at least the retry period apart, and never
  less than a tenth of a second.\<close>

theorem commands_rate_limited:
  "successively (\<lambda>t u. max (1 / 10) (offboard_command_retry_s P) \<le> seconds (u - t))
     (command_times tf es (offboard_init P))"
proof -
  have "hover_inv (offboard_init P)" "ob_params (offboard_init P) = P"
    "\<not> offboard_command_sent (offboard_init P)"
    by (simp_all add: offboard_init_def hover_inv_def)
  then show ?thesis
    using command_times_spaced [of "offboard_init P" P tf es] by (simp add: spaced_def [abs_def])
qed

text \<open>the conversion between the ENU and NED frames is its own inverse on positions and keeps
  distances; the loops that normalise the yaw end, with a value between \<open>-\<pi>\<close> and \<open>\<pi>\<close> that differs
  from \<open>\<pi>/2 - y\<close> by whole turns, so converting twice gives the original yaw up to whole turns.\<close>

theorem enu_ned_conversion:
  "enu_to_ned (enu_to_ned p) = p \<and> pt_dist (enu_to_ned p) (enu_to_ned q) = pt_dist p q \<and>
   - pi \<le> ned_yaw y \<and> ned_yaw y \<le> pi \<and> (\<exists>k :: int. ned_yaw y = pi / 2 - y + 2 * pi * of_int k) \<and>
   (\<exists>k :: int. ned_yaw (ned_yaw y) = y + 2 * pi * of_int k)"
proof -
  obtain k l :: int where "ned_yaw y = pi / 2 - y + 2 * pi * of_int k"
    "ned_yaw (ned_yaw y) = pi / 2 - ned_yaw y + 2 * pi * of_int l"
    using ned_yaw_turns by metis
  then have "\<exists>k :: int. ned_yaw (ned_yaw y) = y + 2 * pi * of_int k"
    by (intro exI [of _ "l - k"]) (simp add: algebra_simps)
  moreover have "enu_to_ned (enu_to_ned p) = p"
    by (simp add: enu_to_ned_def)
  moreover have "pt_dist (enu_to_ned p) (enu_to_ned q) = pt_dist p q"
    by (simp add: pt_dist_def pt_norm_def hypot3_def algebra_simps)
  ultimately show ?thesis
    using ned_yaw_range ned_yaw_turns by blast
qed

text \<open>each odometry message moves the frame offset towards the measured one, on every axis by the
  factor \<open>1 - alpha\<close> with alpha clamped to the unit interval, so the error never grows.\<close>

theorem offset_error_contracts:
  assumes "current_local_pos b = Some loc" and "e = pt_sub loc (enu_to_ned (position odom))"
    and "a = std_clamp (offset_alpha (ob_params b)) 0 1"
  shows "pt_sub (odom_to_px4_offset (odomCallback odom b)) e = pt_scale (1 - a) (pt_sub (odom_to_px4_offset b) e) \<and>
    0 \<le> 1 - a \<and> 1 - a \<le> 1 \<and>
    pt_dist (odom_to_px4_offset (odomCallback odom b)) e \<le> pt_dist (odom_to_px4_offset b) e"
proof -
  have a: "0 \<le> 1 - a" "1 - a \<le> 1"
    using assms(3) std_clamp_bounds [of 0 1 "offset_alpha (ob_params b)"] by auto
  have s: "pt_sub (odom_to_px4_offset (odomCallback odom b)) e
      = pt_scale (1 - a) (pt_sub (odom_to_px4_offset b) e)"
    using assms
    by (simp add: odomCallback_def updateOffset_def Let_def pt_sub_def pt_add_def pt_scale_def pt_map_def
        algebra_simps)
  have "\<bar>1 - a\<bar> * pt_norm (pt_sub (odom_to_px4_offset b) e) \<le> 1 * pt_norm (pt_sub (odom_to_px4_offset b) e)"
    using a by (intro mult_right_mono) auto
  then show ?thesis
    using a s by (simp add: pt_dist_def pt_norm_scale)
qed

theorem offset_error_contracts_witness:
  "pt_dist (odom_to_px4_offset (odomCallback default_pose
      (vehicleLocalPositionCallback zero_point (offboard_init demo_ob_params)))) zero_point
     \<le> pt_dist zero_point zero_point"
proof -
  let ?b = "vehicleLocalPositionCallback zero_point (offboard_init demo_ob_params)"
  have "pt_sub zero_point (enu_to_ned (position default_pose)) = zero_point"
    by (simp add: default_pose_def zero_point_def pt_sub_def enu_to_ned_def)
  then show ?thesis
    using offset_error_contracts [of ?b zero_point zero_point default_pose]
    by (simp add: vehicleLocalPositionCallback_def offboard_init_def)
qed

text \<open>the take-off is only recognised in ticks without a fresh waypoint. If waypoints arrive before
  any take-off tick and then stop, the next tick starts a take-off wherever the vehicle is: it commands
  a climb of the take-off altitude above the current position instead of hovering at the last waypoint.\<close>

theorem late_takeoff_climbs:
  assumes "current_odom b = Some odom" and "takeoff_start_enu b = None"
    and "takeoff_target_altitude b = None" and "\<not> has_fresh_waypoint t b"
  shows "\<exists>sp b'. tick_setpoint tf t b = ([Trajectory_Setpoint sp], b') \<and>
    pz (sp_position sp) =
      - (pz (position odom) + takeoff_altitude (ob_params b)) + pz (odom_to_px4_offset b) \<and>
    px (sp_position sp) = py (position odom) + px (odom_to_px4_offset b) \<and>
    py (sp_position sp) = px (position odom) + py (odom_to_px4_offset b)"
  using assms
  by (auto simp: tick_setpoint_def isTakeoffComplete_def publishTakeoffSetpoint_def start_takeoff_def
      hold_setpoint_def ned_with_offset_def enuToNedPose_def Let_def split: prod.splits)

definition demo_after_waypoint :: offboard where
  "demo_after_waypoint =
     snd (run_events ref_tf [Ob_Odom default_pose,
            Ob_Waypoint 0 \<lparr>wp_pose = default_pose, wp_velocity = zero_twist, wp_acceleration = zero_point\<rparr>]
          (offboard_init demo_ob_params))"

theorem late_takeoff_climbs_witness:
  "\<exists>sp b'. tick_setpoint ref_tf \<lparr>tk_now = 5000000000, tk_fresh = 5000000000, tk_stamp = 5000000000\<rparr>
       demo_after_waypoint = ([Trajectory_Setpoint sp], b') \<and>
     pz (sp_position sp) = - (0 + 1) + 0 \<and> last_valid_setpoint_enu demo_after_waypoint \<noteq> None"
proof -
  let ?t = "\<lparr>tk_now = 5000000000, tk_fresh = 5000000000, tk_stamp = 5000000000\<rparr>"
  have f: "current_odom demo_after_waypoint = Some default_pose"
    "takeoff_start_enu demo_after_waypoint = None" "takeoff_target_altitude demo_after_waypoint = None"
    "\<not> has_fresh_waypoint ?t demo_after_waypoint" "odom_to_px4_offset demo_after_waypoint = zero_point"
    "ob_params demo_after_waypoint = demo_ob_params" "last_valid_setpoint_enu demo_after_waypoint \<noteq> None"
    by (simp_all add: demo_after_waypoint_def ob_run_def odomCallback_def updateOffset_def offboard_init_def
        waypointCallback_def has_fresh_waypoint_def seconds_def demo_ob_params_def Let_def)
  show ?thesis
    using late_takeoff_climbs [OF f(1-4), of ref_tf] f(5-7)
    by (auto simp: default_pose_def demo_ob_params_def)
qed

end
