(* ===== verification/Checkers.thy ===== *)
theory Checkers
  imports Nav3d_Msgs
begin

text \<open>
  The goal checker and progress checker plugins of the controller (\<open>nav3d_controller/plugins\<close>):
  \<open>SimpleGoalChecker\<close>, \<open>StoppedGoalChecker\<close>, \<open>PositionGoalChecker\<close>, \<open>SimpleProgressChecker\<close> and
  \<open>PoseProgressChecker\<close>. A derived class is an extension of the record of its base class. The locales
  \<open>goal_checker\<close> and \<open>progress_checker\<close> are the contracts of the two interfaces of \<open>nav3d_core\<close>; every
  plugin interprets the contract of its interface.
\<close>

section \<open>Parameters\<close>

text \<open>A parameter as \<open>dynamicParametersCallback\<close> receives it.\<close>

datatype param_value = Param_Double double | Param_Bool bool | Param_Other

type_synonym parameter = "string \<times> param_value"

section \<open>Goal checkers\<close>

record simple_goal_checker =
  gc_plugin_name :: string
  gc_xyz_goal_tolerance :: double
  gc_yaw_goal_tolerance :: double
  gc_stateful :: bool
  gc_check_xyz :: bool
  gc_xyz_goal_tolerance_sq :: double

record stopped_goal_checker = simple_goal_checker +
  rot_stopped_velocity :: double
  trans_stopped_velocity :: double

definition sgc_initialize ::
  "string \<Rightarrow> double \<Rightarrow> double \<Rightarrow> bool \<Rightarrow> 'z simple_goal_checker_scheme \<Rightarrow> 'z simple_goal_checker_scheme" where
  "sgc_initialize plugin xyz yaw st c =
     c\<lparr>gc_plugin_name := plugin, gc_xyz_goal_tolerance := xyz, gc_yaw_goal_tolerance := yaw,
       gc_stateful := st, gc_xyz_goal_tolerance_sq := xyz * xyz\<rparr>"

definition sgc_reset :: "'z simple_goal_checker_scheme \<Rightarrow> 'z simple_goal_checker_scheme" where
  "sgc_reset c = c\<lparr>gc_check_xyz := True\<rparr>"

definition sq_dist :: "point \<Rightarrow> point \<Rightarrow> double" where
  "sq_dist p q =
     (px p - px q) * (px p - px q) + (py p - py q) * (py p - py q) + (pz p - pz q) * (pz p - pz q)"

definition yaw_within :: "tf_api \<Rightarrow> double \<Rightarrow> pose \<Rightarrow> pose \<Rightarrow> bool" where
  "yaw_within tf tol q g \<longleftrightarrow>
     \<bar>shortest_angular_distance tf (tf_getYaw tf (orientation q)) (tf_getYaw tf (orientation g))\<bar> \<le> tol"

definition sgc_isGoalReached ::
  "tf_api \<Rightarrow> pose \<Rightarrow> pose \<Rightarrow> twist \<Rightarrow> 'z simple_goal_checker_scheme
     \<Rightarrow> bool \<times> 'z simple_goal_checker_scheme" where
  "sgc_isGoalReached tf query goal v c =
     (if gc_check_xyz c \<and> sq_dist (position query) (position goal) > gc_xyz_goal_tolerance_sq c
      then (False, c)
      else
        (yaw_within tf (gc_yaw_goal_tolerance c) query goal,
         if gc_check_xyz c \<and> gc_stateful c then c\<lparr>gc_check_xyz := False\<rparr> else c))"

definition stopped_isGoalReached ::
  "tf_api \<Rightarrow> pose \<Rightarrow> pose \<Rightarrow> twist \<Rightarrow> stopped_goal_checker \<Rightarrow> bool \<times> stopped_goal_checker" where
  "stopped_isGoalReached tf query goal v c =
     (let (in_goal_window, c1) = sgc_isGoalReached tf query goal v c in
      if \<not> in_goal_window then (False, c1)
      else (\<bar>pz (angular v)\<bar> \<le> rot_stopped_velocity c1 \<and>
            hypot2 (px (linear v)) (py (linear v)) \<le> trans_stopped_velocity c1, c1))"

definition lowest :: "double option" where
  "lowest = None"

text \<open>\<open>getTolerances\<close>: position tolerances per axis, velocity tolerances linear and angular;
  \<open>numeric_limits<double>::lowest()\<close> marks a field that does not apply (\<open>None\<close>).\<close>

definition sgc_getTolerances ::
  "tf_api \<Rightarrow> 'z simple_goal_checker_scheme
     \<Rightarrow> (double option list \<times> quaternion) \<times> double option list \<times> double option list" where
  "sgc_getTolerances tf c =
     ((replicate 3 (Some (gc_xyz_goal_tolerance c)), tf_setRPY tf 0 0 (gc_yaw_goal_tolerance c)),
      replicate 3 lowest, replicate 3 lowest)"

definition stopped_getTolerances ::
  "tf_api \<Rightarrow> stopped_goal_checker
     \<Rightarrow> (double option list \<times> quaternion) \<times> double option list \<times> double option list" where
  "stopped_getTolerances tf c =
     (fst (sgc_getTolerances tf c),
      [Some (trans_stopped_velocity c), Some (trans_stopped_velocity c), lowest],
      [lowest, lowest, Some (rot_stopped_velocity c)])"

definition sgc_set_parameter ::
  "parameter \<Rightarrow> 'z simple_goal_checker_scheme \<Rightarrow> 'z simple_goal_checker_scheme" where
  "sgc_set_parameter par c =
     (let (n, v) = par; pre = gc_plugin_name c @ ''.'' in
      if \<not> prefix pre n then c
      else case v of
        Param_Double x \<Rightarrow>
          if n = pre @ ''xyz_goal_tolerance''
          then c\<lparr>gc_xyz_goal_tolerance := x, gc_xyz_goal_tolerance_sq := x * x\<rparr>
          else if n = pre @ ''yaw_goal_tolerance'' then c\<lparr>gc_yaw_goal_tolerance := x\<rparr>
          else c
      | Param_Bool b \<Rightarrow> if n = pre @ ''stateful'' then c\<lparr>gc_stateful := b\<rparr> else c
      | Param_Other \<Rightarrow> c)"

definition sgc_dynamicParametersCallback ::
  "parameter list \<Rightarrow> 'z simple_goal_checker_scheme \<Rightarrow> 'z simple_goal_checker_scheme" where
  "sgc_dynamicParametersCallback ps c = fold sgc_set_parameter ps c"

definition stopped_set_parameter :: "parameter \<Rightarrow> stopped_goal_checker \<Rightarrow> stopped_goal_checker" where
  "stopped_set_parameter par c =
     (let (n, v) = par; pre = gc_plugin_name c @ ''.'' in
      if \<not> prefix pre n then c
      else case v of
        Param_Double x \<Rightarrow>
          if n = pre @ ''rot_stopped_velocity'' then c\<lparr>rot_stopped_velocity := x\<rparr>
          else if n = pre @ ''trans_stopped_velocity'' then c\<lparr>trans_stopped_velocity := x\<rparr>
          else c
      | _ \<Rightarrow> c)"

definition stopped_dynamicParametersCallback ::
  "parameter list \<Rightarrow> stopped_goal_checker \<Rightarrow> stopped_goal_checker" where
  "stopped_dynamicParametersCallback ps c = fold stopped_set_parameter ps c"

record position_goal_checker =
  pc_plugin_name :: string
  pc_xy_goal_tolerance :: double
  pc_xy_goal_tolerance_sq :: double
  pc_stateful :: bool
  pc_position_reached :: bool

definition pgc_initialize ::
  "string \<Rightarrow> double \<Rightarrow> bool \<Rightarrow> position_goal_checker \<Rightarrow> position_goal_checker" where
  "pgc_initialize plugin xy st c =
     c\<lparr>pc_plugin_name := plugin, pc_xy_goal_tolerance := xy, pc_stateful := st,
       pc_xy_goal_tolerance_sq := xy * xy\<rparr>"

definition pgc_reset :: "position_goal_checker \<Rightarrow> position_goal_checker" where
  "pgc_reset c = c\<lparr>pc_position_reached := False\<rparr>"

definition sq_dist_xy :: "point \<Rightarrow> point \<Rightarrow> double" where
  "sq_dist_xy p q = (px p - px q) * (px p - px q) + (py p - py q) * (py p - py q)"

definition pgc_isGoalReached ::
  "pose \<Rightarrow> pose \<Rightarrow> twist \<Rightarrow> position_goal_checker \<Rightarrow> bool \<times> position_goal_checker" where
  "pgc_isGoalReached query goal v c =
     (if pc_stateful c \<and> pc_position_reached c then (True, c)
      else
        let reached = (sq_dist_xy (position query) (position goal) \<le> pc_xy_goal_tolerance_sq c)
        in (reached, if pc_stateful c \<and> reached then c\<lparr>pc_position_reached := True\<rparr> else c))"

definition pgc_getTolerances ::
  "position_goal_checker \<Rightarrow> (double option list \<times> quaternion) \<times> double option list \<times> double option list" where
  "pgc_getTolerances c =
     (([Some (pc_xy_goal_tolerance c), Some (pc_xy_goal_tolerance c), lowest], identity_quaternion),
      replicate 3 lowest, replicate 3 lowest)"

definition setXYGoalTolerance :: "double \<Rightarrow> position_goal_checker \<Rightarrow> position_goal_checker" where
  "setXYGoalTolerance tol c = c\<lparr>pc_xy_goal_tolerance := tol, pc_xy_goal_tolerance_sq := tol * tol\<rparr>"

definition pgc_set_parameter :: "parameter \<Rightarrow> position_goal_checker \<Rightarrow> position_goal_checker" where
  "pgc_set_parameter par c =
     (let (n, v) = par; pre = pc_plugin_name c @ ''.'' in
      if \<not> prefix pre n then c
      else case v of
        Param_Double x \<Rightarrow>
          if n = pre @ ''xy_goal_tolerance''
          then c\<lparr>pc_xy_goal_tolerance := x, pc_xy_goal_tolerance_sq := x * x\<rparr> else c
      | Param_Bool b \<Rightarrow> if n = pre @ ''stateful'' then c\<lparr>pc_stateful := b\<rparr> else c
      | Param_Other \<Rightarrow> c)"

definition pgc_dynamicParametersCallback ::
  "parameter list \<Rightarrow> position_goal_checker \<Rightarrow> position_goal_checker" where
  "pgc_dynamicParametersCallback ps c = fold pgc_set_parameter ps c"

section \<open>Progress checkers\<close>

record pose2d =
  p2_x :: double
  p2_y :: double
  p2_theta :: double

definition toPose2D :: "tf_api \<Rightarrow> pose \<Rightarrow> pose2d" where
  "toPose2D tf p =
     \<lparr>p2_x = px (position p), p2_y = py (position p), p2_theta = tf_getYaw tf (orientation p)\<rparr>"

record simple_progress_checker =
  pr_plugin_name :: string
  pr_radius :: double
  pr_time_allowance :: duration_ns
  pr_baseline_pose :: pose2d
  pr_baseline_time :: time_ns
  pr_baseline_pose_set :: bool

record pose_progress_checker = simple_progress_checker +
  required_movement_angle :: double

definition spc_initialize ::
  "tf_api \<Rightarrow> string \<Rightarrow> double \<Rightarrow> double \<Rightarrow> 'z simple_progress_checker_scheme
     \<Rightarrow> 'z simple_progress_checker_scheme" where
  "spc_initialize tf plugin radius allowance c =
     c\<lparr>pr_plugin_name := plugin, pr_radius := radius, pr_time_allowance := from_seconds tf allowance\<rparr>"

definition pose_distance :: "pose2d \<Rightarrow> pose2d \<Rightarrow> double" where
  "pose_distance a b = hypot2 (p2_x a - p2_x b) (p2_y a - p2_y b)"

definition poseAngleDistance :: "tf_api \<Rightarrow> pose2d \<Rightarrow> pose2d \<Rightarrow> double" where
  "poseAngleDistance tf a b = \<bar>shortest_angular_distance tf (p2_theta a) (p2_theta b)\<bar>"

definition spc_isRobotMovedEnough :: "pose2d \<Rightarrow> 'z simple_progress_checker_scheme \<Rightarrow> bool" where
  "spc_isRobotMovedEnough p c \<longleftrightarrow> pose_distance p (pr_baseline_pose c) > pr_radius c"

definition ppc_isRobotMovedEnough :: "tf_api \<Rightarrow> pose2d \<Rightarrow> pose_progress_checker \<Rightarrow> bool" where
  "ppc_isRobotMovedEnough tf p c \<longleftrightarrow>
     pose_distance p (pr_baseline_pose c) > pr_radius c \<or>
     poseAngleDistance tf p (pr_baseline_pose c) > required_movement_angle c"

definition spc_reset :: "'z simple_progress_checker_scheme \<Rightarrow> 'z simple_progress_checker_scheme" where
  "spc_reset c = c\<lparr>pr_baseline_pose_set := False\<rparr>"

definition resetBaselinePose ::
  "time_ns \<Rightarrow> pose2d \<Rightarrow> 'z simple_progress_checker_scheme \<Rightarrow> 'z simple_progress_checker_scheme" where
  "resetBaselinePose now p c =
     c\<lparr>pr_baseline_pose := p, pr_baseline_time := now, pr_baseline_pose_set := True\<rparr>"

definition spc_check ::
  "tf_api \<Rightarrow> time_ns \<Rightarrow> pose_stamped \<Rightarrow> 'z simple_progress_checker_scheme
     \<Rightarrow> bool \<times> 'z simple_progress_checker_scheme" where
  "spc_check tf now p c =
     (let q = toPose2D tf (ps_pose p) in
      if \<not> pr_baseline_pose_set c \<or> spc_isRobotMovedEnough q c then (True, resetBaselinePose now q c)
      else (now - pr_baseline_time c \<le> pr_time_allowance c, c))"

definition ppc_check ::
  "tf_api \<Rightarrow> time_ns \<Rightarrow> pose_stamped \<Rightarrow> pose_progress_checker \<Rightarrow> bool \<times> pose_progress_checker" where
  "ppc_check tf now p c =
     (let q = toPose2D tf (ps_pose p) in
      if \<not> pr_baseline_pose_set c \<or> ppc_isRobotMovedEnough tf q c then (True, resetBaselinePose now q c)
      else (now - pr_baseline_time c \<le> pr_time_allowance c, c))"

definition spc_set_parameter ::
  "tf_api \<Rightarrow> parameter \<Rightarrow> 'z simple_progress_checker_scheme \<Rightarrow> 'z simple_progress_checker_scheme" where
  "spc_set_parameter tf par c =
     (let (n, v) = par; pre = pr_plugin_name c @ ''.'' in
      case v of
        Param_Double x \<Rightarrow>
          if n = pre @ ''required_movement_radius'' then c\<lparr>pr_radius := x\<rparr>
          else if n = pre @ ''movement_time_allowance'' then c\<lparr>pr_time_allowance := from_seconds tf x\<rparr>
          else c
      | _ \<Rightarrow> c)"

definition spc_dynamicParametersCallback ::
  "tf_api \<Rightarrow> parameter list \<Rightarrow> 'z simple_progress_checker_scheme \<Rightarrow> 'z simple_progress_checker_scheme" where
  "spc_dynamicParametersCallback tf ps c = fold (spc_set_parameter tf) ps c"

definition ppc_set_parameter :: "parameter \<Rightarrow> pose_progress_checker \<Rightarrow> pose_progress_checker" where
  "ppc_set_parameter par c =
     (let (n, v) = par; pre = pr_plugin_name c @ ''.'' in
      if \<not> prefix pre n then c
      else case v of
        Param_Double x \<Rightarrow> if n = pre @ ''required_movement_angle'' then c\<lparr>required_movement_angle := x\<rparr> else c
      | _ \<Rightarrow> c)"

definition ppc_dynamicParametersCallback ::
  "parameter list \<Rightarrow> pose_progress_checker \<Rightarrow> pose_progress_checker" where
  "ppc_dynamicParametersCallback ps c = fold ppc_set_parameter ps c"

section \<open>The contract of a goal checker\<close>

text \<open>
  \<open>near c query goal\<close> is the position test of the checker. The checker may remember, since its last
  reset, that the test succeeded (\<open>remembers\<close>); it reports the goal as reached only for a pose that is
  near or when it remembers one, and it starts to remember only at a pose that is near.
\<close>

text \<open>The answers of a checker to a sequence of queries for one goal.\<close>

fun goal_answers ::
  "(pose \<Rightarrow> pose \<Rightarrow> twist \<Rightarrow> 'c \<Rightarrow> bool \<times> 'c) \<Rightarrow> pose \<Rightarrow> (pose \<times> twist) list \<Rightarrow> 'c \<Rightarrow> bool list" where
  "goal_answers reached g [] c = []"
| "goal_answers reached g ((q, v) # qs) c = (let (r, c') = reached q g v c in r # goal_answers reached g qs c')"

locale goal_checker =
  fixes reset :: "'c \<Rightarrow> 'c"
    and reached :: "pose \<Rightarrow> pose \<Rightarrow> twist \<Rightarrow> 'c \<Rightarrow> bool \<times> 'c"
    and near :: "'c \<Rightarrow> pose \<Rightarrow> pose \<Rightarrow> bool"
    and remembers :: "'c \<Rightarrow> bool"
  assumes reset_forgets: "\<not> remembers (reset c)"
    and reset_near: "near (reset c) q g = near c q g"
    and reached_near: "reached q g v c = (True, c') \<Longrightarrow> remembers c \<or> near c q g"
    and memory: "reached q g v c = (r, c') \<Longrightarrow> remembers c' \<Longrightarrow> remembers c \<or> near c q g"
    and near_stable: "reached q g v c = (r, c') \<Longrightarrow> near c' q' g' = near c q' g'"
begin

lemma answers_near_or_remembers:
  "i < length qs \<Longrightarrow> goal_answers reached g qs c ! i \<Longrightarrow>
     remembers c \<or> (\<exists>j \<le> i. near c (fst (qs ! j)) g)"
proof (induction qs arbitrary: c i)
  case (Cons qv qs)
  obtain q v where qv: "qv = (q, v)"
    by (rule prod.exhaust)
  obtain r c' where r: "reached q g v c = (r, c')"
    by (rule prod.exhaust)
  show ?case
  proof (cases i)
    case 0
    then show ?thesis
      using Cons.prems(2) qv r reached_near by fastforce
  next
    case (Suc k)
    then have "remembers c' \<or> (\<exists>j \<le> k. near c' (fst (qs ! j)) g)"
      using Cons qv r by simp
    then show ?thesis
    proof
      assume "remembers c'"
      then show ?thesis
        using memory [OF r] qv by (metis fst_conv le0 nth_Cons_0)
    next
      assume "\<exists>j \<le> k. near c' (fst (qs ! j)) g"
      then show ?thesis
        using near_stable [OF r] Suc by (metis Suc_le_mono nth_Cons_Suc)
    qed
  qed
qed simp

lemma reached_after_reset:
  assumes "i < length qs" and "goal_answers reached g qs (reset c) ! i"
  shows "\<exists>j \<le> i. near c (fst (qs ! j)) g"
  using answers_near_or_remembers [OF assms] reset_forgets reset_near by blast

end

text \<open>The three plugins meet the contract.\<close>

definition sgc_near :: "'z simple_goal_checker_scheme \<Rightarrow> pose \<Rightarrow> pose \<Rightarrow> bool" where
  "sgc_near c q g \<longleftrightarrow> sq_dist (position q) (position g) \<le> gc_xyz_goal_tolerance_sq c"

definition pgc_near :: "position_goal_checker \<Rightarrow> pose \<Rightarrow> pose \<Rightarrow> bool" where
  "pgc_near c q g \<longleftrightarrow> sq_dist_xy (position q) (position g) \<le> pc_xy_goal_tolerance_sq c"

interpretation simple_gc: goal_checker sgc_reset "sgc_isGoalReached tf" sgc_near "\<lambda>c. \<not> gc_check_xyz c"
  for tf
  by unfold_locales
    (auto simp: sgc_reset_def sgc_isGoalReached_def sgc_near_def split: if_splits)

interpretation stopped_gc: goal_checker sgc_reset "stopped_isGoalReached tf" sgc_near "\<lambda>c. \<not> gc_check_xyz c"
  for tf
  by unfold_locales
    (auto simp: sgc_reset_def stopped_isGoalReached_def sgc_isGoalReached_def sgc_near_def Let_def
      split: if_splits)

interpretation position_gc: goal_checker pgc_reset pgc_isGoalReached pgc_near
  "\<lambda>c. pc_stateful c \<and> pc_position_reached c"
  by unfold_locales
    (auto simp: pgc_reset_def pgc_isGoalReached_def pgc_near_def Let_def split: if_splits)

section \<open>The contract of a progress checker\<close>

text \<open>
  The checker keeps a baseline: a pose and the time it was taken. A pose that has moved enough from it
  becomes the new baseline; otherwise there is progress as long as the baseline is young enough.
\<close>

fun progress_answers ::
  "(time_ns \<Rightarrow> pose_stamped \<Rightarrow> 'c \<Rightarrow> bool \<times> 'c) \<Rightarrow> (time_ns \<times> pose_stamped) list \<Rightarrow> 'c \<Rightarrow> bool list" where
  "progress_answers check [] c = []"
| "progress_answers check ((t, p) # xs) c = (let (r, c') = check t p c in r # progress_answers check xs c')"

locale progress_checker =
  fixes reset :: "'c \<Rightarrow> 'c"
    and check :: "time_ns \<Rightarrow> pose_stamped \<Rightarrow> 'c \<Rightarrow> bool \<times> 'c"
    and view :: "pose_stamped \<Rightarrow> pose2d"
    and baseline :: "'c \<Rightarrow> (time_ns \<times> pose2d) option"
    and moved :: "'c \<Rightarrow> pose2d \<Rightarrow> pose2d \<Rightarrow> bool"
    and allowance :: "'c \<Rightarrow> duration_ns"
  assumes reset_baseline: "baseline (reset c) = None"
    and reset_settings: "moved (reset c) = moved c" "allowance (reset c) = allowance c"
    and first: "baseline c = None \<Longrightarrow>
      \<exists>c'. check t p c = (True, c') \<and> baseline c' = Some (t, view p)"
    and progress: "baseline c = Some (t0, b) \<Longrightarrow> moved c (view p) b \<Longrightarrow>
      \<exists>c'. check t p c = (True, c') \<and> baseline c' = Some (t, view p)"
    and stuck: "baseline c = Some (t0, b) \<Longrightarrow> \<not> moved c (view p) b \<Longrightarrow>
      check t p c = (t - t0 \<le> allowance c, c)"
    and settings: "check t p c = (r, c') \<Longrightarrow> moved c' = moved c \<and> allowance c' = allowance c"
begin

text \<open>\<open>stuck_since c xs j i\<close>: from sample \<open>j\<close> to sample \<open>i\<close> the robot stays near sample \<open>j\<close>, for longer
  than the allowance.\<close>

definition stuck_since :: "'c \<Rightarrow> (time_ns \<times> pose_stamped) list \<Rightarrow> nat \<Rightarrow> nat \<Rightarrow> bool" where
  "stuck_since c xs j i \<longleftrightarrow>
     (\<forall>k. j < k \<and> k \<le> i \<longrightarrow> \<not> moved c (view (snd (xs ! k))) (view (snd (xs ! j)))) \<and>
     allowance c < fst (xs ! i) - fst (xs ! j)"

lemma stuck_since_settings:
  "check t p c = (r, c') \<Longrightarrow> stuck_since c' xs j i = stuck_since c xs j i"
  using settings by (simp add: stuck_since_def)

lemma stuck_since_Cons [simp]: "stuck_since c (x # xs) (Suc j) (Suc i) = stuck_since c xs j i"
proof -
  have "(\<forall>k. Suc j < k \<and> k \<le> Suc i \<longrightarrow> P ((x # xs) ! k)) \<longleftrightarrow> (\<forall>k. j < k \<and> k \<le> i \<longrightarrow> P (xs ! k))"
    for P :: "time_ns \<times> pose_stamped \<Rightarrow> bool"
  proof safe
    fix k
    assume a: "\<forall>k. Suc j < k \<and> k \<le> Suc i \<longrightarrow> P ((x # xs) ! k)" and "j < k" "k \<le> i"
    then show "P (xs ! k)"
      using a [rule_format, of "Suc k"] by simp
  next
    fix k
    assume a: "\<forall>k. j < k \<and> k \<le> i \<longrightarrow> P (xs ! k)" and k: "Suc j < k" "k \<le> Suc i"
    then obtain l where "k = Suc l"
      by (cases k) auto
    then show "P ((x # xs) ! k)"
      using a k by simp
  qed
  from this [of "\<lambda>y. \<not> moved c (view (snd y)) (view (snd (xs ! j)))"] show ?thesis
    by (simp add: stuck_since_def)
qed

lemma check_cases:
  assumes "check t p c = (r, c')"
  obtains (fresh) "r" "baseline c' = Some (t, view p)"
  | (old) t0 b where "baseline c = Some (t0, b)" "\<not> moved c (view p) b" "c' = c"
      "r = (t - t0 \<le> allowance c)"
proof (cases "baseline c")
  case None
  then show thesis
    using first [OF None, of t p] assms fresh by auto
next
  case (Some tb)
  obtain t0 b where tb: "baseline c = Some (t0, b)"
    using Some by (cases tb) auto
  show thesis
  proof (cases "moved c (view p) b")
    case True
    then show thesis
      using progress [OF tb True, of t] assms fresh by auto
  next
    case False
    then show thesis
      using stuck [OF tb False, of t] assms old [OF tb False] by auto
  qed
qed

lemma answers_stuck:
  assumes "i < length xs" and "\<not> progress_answers check xs c ! i"
  shows "(\<exists>j < i. stuck_since c xs j i) \<or>
    (\<exists>t0 b. baseline c = Some (t0, b) \<and> (\<forall>k \<le> i. \<not> moved c (view (snd (xs ! k))) b) \<and>
       allowance c < fst (xs ! i) - t0)"
  using assms
proof (induction xs arbitrary: c i)
  case (Cons x xs)
  obtain t p where x: "x = (t, p)"
    by (rule prod.exhaust)
  obtain r c' where r: "check t p c = (r, c')"
    by (rule prod.exhaust)
  show ?case
  proof (cases i)
    case 0
    then have "\<not> r"
      using Cons.prems(2) x r by simp
    with r show ?thesis
      by (cases rule: check_cases) (use 0 x in auto)
  next
    case (Suc k)
    have ih: "(\<exists>j < k. stuck_since c' xs j k) \<or>
      (\<exists>t0 b. baseline c' = Some (t0, b) \<and> (\<forall>l \<le> k. \<not> moved c' (view (snd (xs ! l))) b) \<and>
         allowance c' < fst (xs ! k) - t0)"
      using Cons x r Suc by simp
    have s: "moved c' = moved c" "allowance c' = allowance c"
      using settings [OF r] by auto
    from ih show ?thesis
    proof
      assume "\<exists>j < k. stuck_since c' xs j k"
      then obtain j where "j < k" "stuck_since c xs j k"
        using stuck_since_settings [OF r] by blast
      then show ?thesis
        using Suc by (intro disjI1 exI [of _ "Suc j"]) simp
    next
      assume "\<exists>t0 b. baseline c' = Some (t0, b) \<and> (\<forall>l \<le> k. \<not> moved c' (view (snd (xs ! l))) b) \<and>
         allowance c' < fst (xs ! k) - t0"
      then obtain t1 b1 where b: "baseline c' = Some (t1, b1)" "\<forall>l \<le> k. \<not> moved c (view (snd (xs ! l))) b1"
        "allowance c < fst (xs ! k) - t1"
        using s by auto
      from r show ?thesis
      proof (cases rule: check_cases)
        case fresh
        then have "stuck_since c (x # xs) 0 (Suc k)"
          using b x by (auto simp: stuck_since_def gr0_conv_Suc)
        then show ?thesis
          using Suc by blast
      next
        case old
        then have "\<forall>l \<le> Suc k. \<not> moved c (view (snd ((x # xs) ! l))) b1"
          using b x by (auto simp: nth_Cons split: nat.splits)
        then show ?thesis
          using b old Suc by auto
      qed
    qed
  qed
qed simp

lemma no_progress_after_reset:
  assumes "i < length xs" and "\<not> progress_answers check xs (reset c) ! i"
  shows "\<exists>j < i. (\<forall>k. j < k \<and> k \<le> i \<longrightarrow> \<not> moved c (view (snd (xs ! k))) (view (snd (xs ! j)))) \<and>
    allowance c < fst (xs ! i) - fst (xs ! j)"
  using answers_stuck [OF assms] reset_baseline reset_settings by (simp add: stuck_since_def)

end

definition spc_baseline :: "'z simple_progress_checker_scheme \<Rightarrow> (time_ns \<times> pose2d) option" where
  "spc_baseline c = (if pr_baseline_pose_set c then Some (pr_baseline_time c, pr_baseline_pose c) else None)"

definition spc_moved :: "'z simple_progress_checker_scheme \<Rightarrow> pose2d \<Rightarrow> pose2d \<Rightarrow> bool" where
  "spc_moved c p b \<longleftrightarrow> pose_distance p b > pr_radius c"

definition ppc_moved :: "tf_api \<Rightarrow> pose_progress_checker \<Rightarrow> pose2d \<Rightarrow> pose2d \<Rightarrow> bool" where
  "ppc_moved tf c p b \<longleftrightarrow>
     pose_distance p b > pr_radius c \<or> poseAngleDistance tf p b > required_movement_angle c"

interpretation simple_pc: progress_checker spc_reset "spc_check tf" "\<lambda>p. toPose2D tf (ps_pose p)"
  spc_baseline spc_moved pr_time_allowance for tf
  by unfold_locales
    (auto simp: spc_baseline_def spc_reset_def spc_check_def spc_moved_def spc_isRobotMovedEnough_def
      resetBaselinePose_def Let_def fun_eq_iff split: if_splits)

interpretation pose_pc: progress_checker spc_reset "ppc_check tf" "\<lambda>p. toPose2D tf (ps_pose p)"
  spc_baseline "ppc_moved tf" pr_time_allowance for tf
  by unfold_locales
    (auto simp: spc_baseline_def spc_reset_def ppc_check_def ppc_moved_def ppc_isRobotMovedEnough_def
      resetBaselinePose_def Let_def fun_eq_iff split: if_splits)

section \<open>Properties\<close>

lemma sq_dist_norm: "sq_dist p q \<le> tol * tol \<Longrightarrow> 0 \<le> tol \<Longrightarrow> pt_dist p q \<le> tol"
  unfolding sq_dist_def pt_dist_def pt_norm_def hypot3_def
  by (rule real_le_lsqrt) (simp_all add: power2_eq_square)

lemma stopped_answer_slow:
  "i < length qs \<Longrightarrow> goal_answers (stopped_isGoalReached tf) g qs d ! i \<Longrightarrow>
     \<bar>pz (angular (snd (qs ! i)))\<bar> \<le> rot_stopped_velocity d \<and>
     hypot2 (px (linear (snd (qs ! i)))) (py (linear (snd (qs ! i)))) \<le> trans_stopped_velocity d"
proof (induction qs arbitrary: d i)
  case (Cons qv qs)
  obtain q v where qv: "qv = (q, v)"
    by (rule prod.exhaust)
  obtain r d' where r: "stopped_isGoalReached tf q g v d = (r, d')"
    by (rule prod.exhaust)
  have k: "rot_stopped_velocity d' = rot_stopped_velocity d"
    "trans_stopped_velocity d' = trans_stopped_velocity d"
    using r by (auto simp: stopped_isGoalReached_def sgc_isGoalReached_def Let_def split: if_splits)
  show ?case
  proof (cases i)
    case 0
    then show ?thesis
      using Cons.prems qv r
      by (auto simp: stopped_isGoalReached_def sgc_isGoalReached_def Let_def split: if_splits)
  next
    case (Suc n)
    then show ?thesis
      using Cons.IH [of n d'] Cons.prems qv r k by simp
  qed
qed simp

lemma sgc_reset_keeps:
  "rot_stopped_velocity (sgc_reset c) = rot_stopped_velocity c"
  "trans_stopped_velocity (sgc_reset c) = trans_stopped_velocity c"
  by (simp_all add: sgc_reset_def)

text \<open>C16: after a reset, the simple and the stopped goal checker report the goal as reached only if
  this or an earlier query since the reset was within the position tolerance of the goal; the stopped
  checker moreover only for a query whose yaw rate and horizontal speed are within its limits.\<close>

theorem goal_reached_only_near_goal:
  assumes "gc_xyz_goal_tolerance_sq c = gc_xyz_goal_tolerance c * gc_xyz_goal_tolerance c"
    and "0 \<le> gc_xyz_goal_tolerance c" and "i < length qs"
  shows "(goal_answers (sgc_isGoalReached tf) g qs (sgc_reset c) ! i \<longrightarrow>
      (\<exists>j \<le> i. pt_dist (position (fst (qs ! j))) (position g) \<le> gc_xyz_goal_tolerance c)) \<and>
    (goal_answers (stopped_isGoalReached tf) g qs (sgc_reset c) ! i \<longrightarrow>
      (\<exists>j \<le> i. pt_dist (position (fst (qs ! j))) (position g) \<le> gc_xyz_goal_tolerance c) \<and>
      \<bar>pz (angular (snd (qs ! i)))\<bar> \<le> rot_stopped_velocity c \<and>
      hypot2 (px (linear (snd (qs ! i)))) (py (linear (snd (qs ! i)))) \<le> trans_stopped_velocity c)"
proof -
  have near: "sgc_near c q g \<Longrightarrow> pt_dist (position q) (position g) \<le> gc_xyz_goal_tolerance c" for q
    using assms(1,2) by (simp add: sgc_near_def sq_dist_norm)
  have slow: "goal_answers (stopped_isGoalReached tf) g qs d ! i \<Longrightarrow> rot_stopped_velocity d = rot_stopped_velocity c
      \<Longrightarrow> trans_stopped_velocity d = trans_stopped_velocity c \<Longrightarrow>
      \<bar>pz (angular (snd (qs ! i)))\<bar> \<le> rot_stopped_velocity c \<and>
      hypot2 (px (linear (snd (qs ! i)))) (py (linear (snd (qs ! i)))) \<le> trans_stopped_velocity c" for d
    using assms(3) stopped_answer_slow [of i qs tf g d] by simp
  show ?thesis
    using simple_gc.reached_after_reset [OF assms(3), of tf g c]
      stopped_gc.reached_after_reset [OF assms(3), of tf g c] near slow [of "sgc_reset c"]
    by (metis sgc_reset_keeps)
qed


definition demo_checker :: stopped_goal_checker where
  "demo_checker = sgc_initialize ''goal_checker'' (1 / 4) (1 / 4) True
     \<lparr>gc_plugin_name = [], gc_xyz_goal_tolerance = 1 / 20, gc_yaw_goal_tolerance = 1 / 20,
      gc_stateful = True, gc_check_xyz = True, gc_xyz_goal_tolerance_sq = 1 / 400,
      rot_stopped_velocity = 1 / 4, trans_stopped_velocity = 1 / 4\<rparr>"

theorem goal_reached_only_near_goal_witness:
  "goal_answers (stopped_isGoalReached ref_tf) default_pose [(default_pose, zero_twist)]
       (sgc_reset demo_checker) ! 0 \<and>
   pt_dist (position default_pose) (position default_pose) \<le> 1 / 4"
proof -
  have f: "\<lfloor>pi / (2 * pi)\<rfloor> = 0"
    by (simp add: floor_eq_iff)
  have a: "goal_answers (stopped_isGoalReached ref_tf) default_pose [(default_pose, zero_twist)]
       (sgc_reset demo_checker) ! 0"
    using f by (simp add: stopped_isGoalReached_def sgc_isGoalReached_def sgc_reset_def demo_checker_def
        sgc_initialize_def sq_dist_def yaw_within_def ref_tf_def wrap_angle_def zero_twist_def hypot2_def)
  have h: "gc_xyz_goal_tolerance_sq demo_checker = gc_xyz_goal_tolerance demo_checker * gc_xyz_goal_tolerance demo_checker"
    "0 \<le> gc_xyz_goal_tolerance demo_checker" "gc_xyz_goal_tolerance demo_checker = 1 / 4"
    by (simp_all add: demo_checker_def sgc_initialize_def)
  have "0 < length [(default_pose, zero_twist)]"
    by simp
  from goal_reached_only_near_goal [OF h(1,2) this, of ref_tf default_pose] show ?thesis
    using a unfolding h(3) by simp
qed

text \<open>C17: after a reset, a progress checker reports no progress at a sample only if, since some earlier
  sample, the robot has stayed within the required radius of it (and, for the pose progress checker,
  within the required angle) for longer than the time allowance.\<close>

theorem no_progress_means_stuck:
  assumes "i < length xs"
  shows "(\<not> progress_answers (spc_check tf) xs (spc_reset c) ! i \<longrightarrow>
      (\<exists>j < i. (\<forall>k. j < k \<and> k \<le> i \<longrightarrow>
           pose_distance (toPose2D tf (ps_pose (snd (xs ! k)))) (toPose2D tf (ps_pose (snd (xs ! j)))) \<le> pr_radius c) \<and>
         pr_time_allowance c < fst (xs ! i) - fst (xs ! j))) \<and>
    (\<not> progress_answers (ppc_check tf) xs (spc_reset d) ! i \<longrightarrow>
      (\<exists>j < i. (\<forall>k. j < k \<and> k \<le> i \<longrightarrow>
           pose_distance (toPose2D tf (ps_pose (snd (xs ! k)))) (toPose2D tf (ps_pose (snd (xs ! j)))) \<le> pr_radius d \<and>
           poseAngleDistance tf (toPose2D tf (ps_pose (snd (xs ! k)))) (toPose2D tf (ps_pose (snd (xs ! j))))
             \<le> required_movement_angle d) \<and>
         pr_time_allowance d < fst (xs ! i) - fst (xs ! j)))"
  using simple_pc.no_progress_after_reset [OF assms, of tf c] pose_pc.no_progress_after_reset [OF assms, of tf d]
  by (simp add: spc_moved_def ppc_moved_def not_less)

definition demo_progress :: pose_progress_checker where
  "demo_progress =
     \<lparr>pr_plugin_name = ''pc'', pr_radius = 1 / 2, pr_time_allowance = 10, pr_baseline_pose =
        \<lparr>p2_x = 0, p2_y = 0, p2_theta = 0\<rparr>, pr_baseline_time = 0, pr_baseline_pose_set = False,
      required_movement_angle = 1 / 2\<rparr>"

definition at_altitude :: "double \<Rightarrow> pose_stamped" where
  "at_altitude z = default_pose_stamped\<lparr>ps_pose := default_pose\<lparr>position := \<lparr>px = 0, py = 0, pz = z\<rparr>\<rparr>\<rparr>"

lemma at_altitude_2d: "toPose2D tf (ps_pose (at_altitude z)) = toPose2D tf default_pose"
  by (simp add: toPose2D_def at_altitude_def default_pose_def zero_point_def)

theorem no_progress_means_stuck_witness:
  "\<not> progress_answers (spc_check ref_tf) [(0, at_altitude 0), (11, at_altitude 5)] (spc_reset demo_progress) ! 1 \<and>
   pr_time_allowance demo_progress < 11 - 0"
proof -
  have n: "\<not> progress_answers (spc_check ref_tf) [(0, at_altitude 0), (11, at_altitude 5)]
      (spc_reset demo_progress) ! 1"
    by (simp add: spc_check_def spc_reset_def resetBaselinePose_def spc_isRobotMovedEnough_def demo_progress_def
        at_altitude_2d pose_distance_def hypot2_def Let_def)
  then show ?thesis
    using no_progress_means_stuck [of 1 "[(0, at_altitude 0), (11, at_altitude 5)]" ref_tf demo_progress demo_progress]
    by auto
qed

text \<open>the checkers look at the horizontal plane only. The position goal checker accepts a pose at any
  altitude over the goal, the speed test of the stopped goal checker does not depend on the vertical
  speed, and a purely vertical flight never counts as progress.\<close>

theorem vertical_motion_invisible:
  "fst (pgc_isGoalReached (ps_pose (at_altitude z)) (ps_pose (at_altitude 0)) v (pgc_initialize name 0 True pc)) \<and>
   stopped_isGoalReached tf q g \<lparr>linear = \<lparr>px = vx, py = vy, pz = vz\<rparr>, angular = w\<rparr> gc =
     stopped_isGoalReached tf q g \<lparr>linear = \<lparr>px = vx, py = vy, pz = 0\<rparr>, angular = w\<rparr> gc \<and>
   fst (spc_check tf (t + pr_time_allowance sc + 1) (at_altitude z)
          (resetBaselinePose t (toPose2D tf (ps_pose (at_altitude 0))) (sc\<lparr>pr_radius := \<bar>r\<bar>\<rparr>))) = False"
  by (simp add: pgc_isGoalReached_def pgc_initialize_def sq_dist_xy_def at_altitude_def
      stopped_isGoalReached_def sgc_isGoalReached_def Let_def spc_check_def resetBaselinePose_def
      spc_isRobotMovedEnough_def toPose2D_def pose_distance_def hypot2_def)

end
