(* ===== verification/BT_Control.thy ===== *)
theory BT_Control
  imports Nav3d_Msgs
begin

text \<open>
  The control nodes of the behaviour tree (\<open>nav3d_behavior_tree/plugins/control\<close>): \<open>PipelineSequence\<close>,
  \<open>RecoveryNode\<close> and \<open>RoundRobinNode\<close>. The children and the halting functions of \<open>BT::ControlNode\<close>
  belong to BehaviorTree.CPP: they are the record \<open>bt_children\<close> over a world \<open>'w\<close>. An exception is
  \<open>Inl\<close>.
\<close>

section \<open>Nodes and children\<close>

datatype node_status = IDLE | RUNNING | SUCCESS | FAILURE | SKIPPED

datatype bt_exn = BT_Runtime_Error | BehaviorTreeException | LogicError

record 'w bt_children =
  num_children :: nat
  executeTick :: "nat \<Rightarrow> 'w \<Rightarrow> node_status \<times> 'w"
  haltChild :: "nat \<Rightarrow> 'w \<Rightarrow> 'w"
  haltChildren :: "'w \<Rightarrow> 'w"
  controlHalt :: "'w \<Rightarrow> 'w"

section \<open>PipelineSequence\<close>

record pipeline =
  last_child_ticked :: nat

text \<open>The loop over the children from index \<open>i\<close>, with \<open>k\<close> the number of skipped ones.\<close>

function pipeline_loop ::
  "'w bt_children \<Rightarrow> nat \<Rightarrow> nat \<Rightarrow> pipeline \<Rightarrow> 'w \<Rightarrow> (bt_exn + node_status) \<times> pipeline \<times> 'w" where
  "pipeline_loop ch i k p w =
     (if i \<ge> num_children ch then
        (Inr (if k = num_children ch then SKIPPED else SUCCESS),
         p\<lparr>last_child_ticked := 0\<rparr>, haltChildren ch w)
      else
        let (s, w1) = executeTick ch i w in
        case s of
          FAILURE \<Rightarrow> (Inr FAILURE, p\<lparr>last_child_ticked := 0\<rparr>, haltChildren ch w1)
        | SKIPPED \<Rightarrow> pipeline_loop ch (Suc i) (Suc k) p w1
        | SUCCESS \<Rightarrow> pipeline_loop ch (Suc i) k p w1
        | RUNNING \<Rightarrow>
            if i \<ge> last_child_ticked p then (Inr RUNNING, p\<lparr>last_child_ticked := i\<rparr>, w1)
            else pipeline_loop ch (Suc i) k p w1
        | IDLE \<Rightarrow> (Inl BT_Runtime_Error, p, w1))"
  by pat_completeness auto
termination
  by (relation "measure (\<lambda>(ch, i, k, p, w). num_children ch - i)") auto

declare pipeline_loop.simps [simp del]

definition pipeline_tick ::
  "'w bt_children \<Rightarrow> pipeline \<Rightarrow> 'w \<Rightarrow> (bt_exn + node_status) \<times> pipeline \<times> 'w" where
  "pipeline_tick ch p w = pipeline_loop ch 0 0 p w"

definition pipeline_halt :: "'w bt_children \<Rightarrow> pipeline \<Rightarrow> 'w \<Rightarrow> pipeline \<times> 'w" where
  "pipeline_halt ch p w = (p\<lparr>last_child_ticked := 0\<rparr>, controlHalt ch w)"

section \<open>RecoveryNode\<close>

record recovery =
  current_child_idx :: nat
  number_of_retries :: nat
  retry_count :: nat

definition recovery_init :: recovery where
  "recovery_init = \<lparr>current_child_idx = 0, number_of_retries = 1, retry_count = 0\<rparr>"

definition recovery_halt :: "'w bt_children \<Rightarrow> recovery \<Rightarrow> 'w \<Rightarrow> recovery \<times> 'w" where
  "recovery_halt ch r w = (r\<lparr>retry_count := 0, current_child_idx := 0\<rparr>, controlHalt ch w)"

text \<open>One round of the \<open>while\<close> loop: \<open>Some\<close> result is a return, \<open>None\<close> goes on.\<close>

definition recovery_round ::
  "'w bt_children \<Rightarrow> recovery \<Rightarrow> 'w \<Rightarrow> (bt_exn + node_status) option \<times> recovery \<times> 'w" where
  "recovery_round ch r w =
     (let (s, w1) = executeTick ch (current_child_idx r) w in
      if current_child_idx r = 0 then
        (case s of
           SKIPPED \<Rightarrow> (Some (Inr SKIPPED), recovery_halt ch r w1)
         | SUCCESS \<Rightarrow> (Some (Inr SUCCESS), recovery_halt ch r (haltChild ch 1 w1))
         | RUNNING \<Rightarrow> (Some (Inr RUNNING), r, w1)
         | FAILURE \<Rightarrow>
             if retry_count r < number_of_retries r
             then (None, r\<lparr>current_child_idx := Suc (current_child_idx r)\<rparr>, haltChild ch 0 w1)
             else (Some (Inr FAILURE), recovery_halt ch r w1)
         | IDLE \<Rightarrow> (Some (Inl LogicError), r, w1))
      else
        (case s of
           SKIPPED \<Rightarrow> (Some (Inr FAILURE), r\<lparr>current_child_idx := 0\<rparr>, haltChild ch 1 w1)
         | RUNNING \<Rightarrow> (Some (Inr RUNNING), r, w1)
         | SUCCESS \<Rightarrow>
             (None, r\<lparr>retry_count := Suc (retry_count r), current_child_idx := 0\<rparr>, haltChild ch 1 w1)
         | FAILURE \<Rightarrow> (Some (Inr FAILURE), recovery_halt ch r w1)
         | IDLE \<Rightarrow> (Some (Inl LogicError), r, w1)))"

lemma recovery_round_measure:
  assumes "recovery_round ch r w = (None, r', w')" and "current_child_idx r < 2"
    and "retry_count r \<le> number_of_retries r"
  shows "current_child_idx r' < 2 \<and> number_of_retries r' = number_of_retries r \<and>
    2 * (Suc (number_of_retries r') - retry_count r') - current_child_idx r'
      < 2 * (Suc (number_of_retries r) - retry_count r) - current_child_idx r"
  using assms
  by (auto simp: recovery_round_def recovery_halt_def Let_def split: prod.splits node_status.splits if_splits)

function recovery_loop ::
  "'w bt_children \<Rightarrow> recovery \<Rightarrow> 'w \<Rightarrow> (bt_exn + node_status) \<times> recovery \<times> 'w" where
  "recovery_loop ch r w =
     (if current_child_idx r < 2 \<and> retry_count r \<le> number_of_retries r then
        (case recovery_round ch r w of
           (Some res, r1, w1) \<Rightarrow> (res, r1, w1)
         | (None, r1, w1) \<Rightarrow> recovery_loop ch r1 w1)
      else (Inr FAILURE, recovery_halt ch r w))"
  by pat_completeness auto
termination
  by (relation "measure (\<lambda>(ch, r, w). 2 * (Suc (number_of_retries r) - retry_count r) - current_child_idx r)")
    (auto dest!: recovery_round_measure [OF sym])

declare recovery_loop.simps [simp del]

text \<open>
  \<open>tick\<close>: the port \<open>number_of_retries\<close> is read again in every tick; \<open>None\<close> is a read that failed and leaves
  the member as it is.
\<close>

definition recovery_tick ::
  "'w bt_children \<Rightarrow> nat option \<Rightarrow> recovery \<Rightarrow> 'w \<Rightarrow> (bt_exn + node_status) \<times> recovery \<times> 'w" where
  "recovery_tick ch n r w =
     (let r1 = (case n of None \<Rightarrow> r | Some k \<Rightarrow> r\<lparr>number_of_retries := k\<rparr>) in
      if num_children ch \<noteq> 2 then (Inl BehaviorTreeException, r1, w)
      else recovery_loop ch r1 w)"

section \<open>RoundRobinNode\<close>

record round_robin =
  rr_current_child_idx :: nat
  num_failed_children :: nat

definition rr_halt :: "'w bt_children \<Rightarrow> round_robin \<Rightarrow> 'w \<Rightarrow> round_robin \<times> 'w" where
  "rr_halt ch r w = (r\<lparr>rr_current_child_idx := 0, num_failed_children := 0\<rparr>, controlHalt ch w)"

definition rr_next :: "nat \<Rightarrow> round_robin \<Rightarrow> round_robin" where
  "rr_next n r = r\<lparr>rr_current_child_idx :=
     (if Suc (rr_current_child_idx r) = n then 0 else Suc (rr_current_child_idx r))\<rparr>"

function rr_loop ::
  "'w bt_children \<Rightarrow> nat \<Rightarrow> round_robin \<Rightarrow> 'w \<Rightarrow> (bt_exn + node_status) \<times> round_robin \<times> 'w" where
  "rr_loop ch skipped r w =
     (if num_failed_children r + skipped < num_children ch then
        (let (s, w1) = executeTick ch (rr_current_child_idx r) w;
             r1 = (if s \<noteq> RUNNING then rr_next (num_children ch) r else r)
         in case s of
              SUCCESS \<Rightarrow> (Inr SUCCESS, r1\<lparr>num_failed_children := 0\<rparr>, haltChildren ch w1)
            | FAILURE \<Rightarrow>
                rr_loop ch skipped (r1\<lparr>num_failed_children := Suc (num_failed_children r1)\<rparr>) w1
            | SKIPPED \<Rightarrow> rr_loop ch (Suc skipped) r1 w1
            | RUNNING \<Rightarrow> (Inr RUNNING, r1, w1)
            | IDLE \<Rightarrow> (Inl LogicError, r1, w1))
      else (Inr (if skipped = num_children ch then SKIPPED else FAILURE), rr_halt ch r w))"
  by pat_completeness auto
termination
  by (relation "measure (\<lambda>(ch, skipped, r, w). num_children ch - (num_failed_children r + skipped))")
    (auto simp: rr_next_def)

declare rr_loop.simps [simp del]

definition rr_tick ::
  "'w bt_children \<Rightarrow> round_robin \<Rightarrow> 'w \<Rightarrow> (bt_exn + node_status) \<times> round_robin \<times> 'w" where
  "rr_tick ch r w = rr_loop ch 0 r w"

end
