(* ===== verification/BT_Control_Props.thy ===== *)
theory BT_Control_Props
  imports BT_Control
begin

text \<open>
  What one tick of a control node does, for arbitrary children: which children it executes, in which
  order and how often, and which status it derives from theirs. The order is read off a log that the
  wrapper \<open>with_log\<close> adds to the world of the children.
\<close>

section \<open>Logging the executed children\<close>

definition with_log :: "'w bt_children \<Rightarrow> ('w \<times> nat list) bt_children" where
  "with_log ch = \<lparr>num_children = num_children ch,
     executeTick = (\<lambda>i (w, l). let (s, w1) = executeTick ch i w in (s, w1, l @ [i])),
     haltChild = (\<lambda>i (w, l). (haltChild ch i w, l)),
     haltChildren = (\<lambda>(w, l). (haltChildren ch w, l)),
     controlHalt = (\<lambda>(w, l). (controlHalt ch w, l))\<rparr>"

lemma with_log_simps [simp]:
  "num_children (with_log ch) = num_children ch"
  "executeTick (with_log ch) i (w, l) = (fst (executeTick ch i w), snd (executeTick ch i w), l @ [i])"
  "haltChild (with_log ch) i (w, l) = (haltChild ch i w, l)"
  "haltChildren (with_log ch) (w, l) = (haltChildren ch w, l)"
  "controlHalt (with_log ch) (w, l) = (controlHalt ch w, l)"
  by (simp_all add: with_log_def split: prod.splits)

section \<open>RecoveryNode\<close>

definition recovery_budget :: "recovery \<Rightarrow> nat" where
  "recovery_budget r = 2 * (Suc (number_of_retries r) - retry_count r) - current_child_idx r"

text \<open>A round executes one child, the current one, and goes on only with the other child.\<close>

lemma recovery_round_logged:
  assumes "recovery_round (with_log ch) r w = (res, r', w')" and "current_child_idx r < 2"
  shows "snd w' = snd w @ [current_child_idx r]" and "current_child_idx r' < 2"
    and "number_of_retries r' = number_of_retries r"
    and "res = None \<Longrightarrow> current_child_idx r' = (Suc (current_child_idx r)) mod 2"
  using assms
  by ((cases w; auto simp: recovery_round_def recovery_halt_def Let_def less_2_cases_iff
      split: prod.splits node_status.splits if_splits)+)

lemma recovery_round_done:
  assumes "recovery_round ch r w = (Some (Inr s), r', w')" and "s \<noteq> RUNNING"
  shows "current_child_idx r' = 0 \<and>
    (retry_count r' = 0 \<or> s = FAILURE \<and> current_child_idx r \<noteq> 0 \<and> fst (executeTick ch (current_child_idx r) w) = SKIPPED)"
  using assms
  by (auto simp: recovery_round_def recovery_halt_def Let_def split: prod.splits node_status.splits if_splits)

definition alternating :: "nat \<Rightarrow> nat list \<Rightarrow> bool" where
  "alternating i l \<longleftrightarrow> (\<forall>k < length l. l ! k = (i + k) mod 2)"

lemma alternating_Cons:
  "i < 2 \<Longrightarrow> alternating (Suc i mod 2) l \<Longrightarrow> alternating i (i # l)"
  by (auto simp: alternating_def nth_Cons mod_Suc_eq split: nat.splits)
    (metis add_Suc mod_add_left_eq)

text \<open>Induction along the rounds of the loop.\<close>

lemma recovery_loop_rounds [consumes 2, case_names exhausted stop go]:
  assumes "recovery_loop ch r w = (res, r', w')" and "current_child_idx r < 2"
    and exhausted: "\<And>r w. number_of_retries r < retry_count r \<Longrightarrow> current_child_idx r < 2 \<Longrightarrow>
      P r w (Inr FAILURE) (fst (recovery_halt ch r w)) (snd (recovery_halt ch r w))"
    and stop: "\<And>r w res r' w'. retry_count r \<le> number_of_retries r \<Longrightarrow> current_child_idx r < 2 \<Longrightarrow>
      recovery_round ch r w = (Some res, r', w') \<Longrightarrow> P r w res r' w'"
    and go: "\<And>r w r1 w1 res r' w'. retry_count r \<le> number_of_retries r \<Longrightarrow> current_child_idx r < 2 \<Longrightarrow>
      recovery_round ch r w = (None, r1, w1) \<Longrightarrow> current_child_idx r1 < 2 \<Longrightarrow> P r1 w1 res r' w' \<Longrightarrow>
      P r w res r' w'"
  shows "P r w res r' w'"
  using assms(1,2)
proof (induction "recovery_budget r" arbitrary: r w rule: less_induct)
  case less
  show ?case
  proof (cases "retry_count r \<le> number_of_retries r")
    case True
    obtain o1 r1 w1 where rd: "recovery_round ch r w = (o1, r1, w1)"
      by (metis prod.exhaust)
    show ?thesis
    proof (cases o1)
      case (Some a)
      then show ?thesis
        using less(2,3) True rd by (auto simp: recovery_loop.simps [of ch r w] intro: stop)
    next
      case None
      then have loop: "recovery_loop ch r1 w1 = (res, r', w')"
        using less(2,3) True rd by (simp add: recovery_loop.simps [of ch r w])
      note m = recovery_round_measure [OF rd [unfolded None] less(3) True]
      then have "P r1 w1 res r' w'"
        using less(1) [of r1 w1] loop unfolding recovery_budget_def by blast
      then show ?thesis
        using go [OF True less(3) rd [unfolded None]] m by blast
    qed
  next
    case False
    then show ?thesis
      using less(2,3) exhausted [of r w] by (auto simp: recovery_loop.simps [of ch r w])
  qed
qed

lemma recovery_loop_logged:
  assumes "recovery_loop (with_log ch) r w = (res, r', w')" and "current_child_idx r < 2"
  shows "current_child_idx r' < 2 \<and> number_of_retries r' = number_of_retries r \<and>
    (\<exists>ex. snd w' = snd w @ ex \<and> alternating (current_child_idx r) ex \<and> length ex \<le> recovery_budget r)"
  using assms
proof (induction rule: recovery_loop_rounds)
  case (exhausted r w)
  then show ?case
    by (cases w) (auto simp: recovery_halt_def alternating_def)
next
  case (stop r w res r' w')
  then show ?case
    using recovery_round_logged [OF stop(3,2)]
    by (auto simp: alternating_def recovery_budget_def intro!: exI [of _ "[current_child_idx r]"])
next
  case (go r w r1 w1 res r' w')
  then obtain ex where ex: "snd w' = snd w1 @ ex" "alternating (current_child_idx r1) ex"
    "length ex \<le> recovery_budget r1" and rest: "current_child_idx r' < 2"
    "number_of_retries r' = number_of_retries r1"
    by blast
  have rl: "snd w1 = snd w @ [current_child_idx r]" "number_of_retries r1 = number_of_retries r"
    "current_child_idx r1 = Suc (current_child_idx r) mod 2"
    using recovery_round_logged [OF go(3,2)] by simp_all
  have "recovery_budget r1 < recovery_budget r"
    using recovery_round_measure [OF go(3,2,1)] unfolding recovery_budget_def by blast
  then show ?case
    using ex rest rl alternating_Cons [OF go(2), of ex]
    by (intro conjI exI [of _ "current_child_idx r # ex"]) auto
qed

lemma recovery_loop_done:
  assumes "recovery_loop ch r w = (res, r', w')" and "current_child_idx r < 2"
    and "\<And>v. fst (executeTick ch 1 v) \<noteq> SKIPPED" and "res \<in> {Inr SUCCESS, Inr FAILURE, Inr SKIPPED}"
  shows "current_child_idx r' = 0 \<and> retry_count r' = 0"
  using assms(1,2,4)
proof (induction rule: recovery_loop_rounds)
  case (exhausted r w)
  then show ?case
    by (simp add: recovery_halt_def)
next
  case (stop r w res r' w')
  then obtain s where "res = Inr s" "s \<noteq> RUNNING"
    by auto
  then show ?case
    using stop recovery_round_done [of ch r w s r' w'] assms(3) by (auto simp: less_2_cases_iff)
qed simp

text \<open>Children that never recover: child 0 fails, child 1 succeeds.\<close>

lemma recovery_loop_exhausts:
  assumes "\<And>v. fst (executeTick ch 0 v) = FAILURE" and "\<And>v. fst (executeTick ch 1 v) = SUCCESS"
    and "current_child_idx r = 0" and "retry_count r \<le> number_of_retries r"
  shows "\<exists>w'. recovery_loop (with_log ch) r (w, l) =
    (Inr FAILURE, r\<lparr>current_child_idx := 0, retry_count := 0\<rparr>, w',
     l @ concat (replicate (number_of_retries r - retry_count r) [0, 1]) @ [0])"
  using assms(3,4)
proof (induction "number_of_retries r - retry_count r" arbitrary: r w l)
  case 0
  then show ?case
    using assms(1) by (simp add: recovery_loop.simps recovery_round_def recovery_halt_def split_beta)
next
  case (Suc k)
  then have lt: "retry_count r < number_of_retries r"
    by simp
  define v where "v = haltChild ch 1 (snd (executeTick ch 1 (haltChild ch 0 (snd (executeTick ch 0 w)))))"
  let ?r = "r\<lparr>retry_count := Suc (retry_count r), current_child_idx := 0\<rparr>"
  have step: "recovery_loop (with_log ch) r (w, l) = recovery_loop (with_log ch) ?r (v, l @ [0, 1])"
    using Suc(3) lt assms(1,2)
    by (simp add: recovery_loop.simps [of _ r] recovery_loop.simps [of _ "r\<lparr>current_child_idx := Suc 0\<rparr>"]
        recovery_round_def split_beta v_def)
  have "k = number_of_retries ?r - retry_count ?r" "current_child_idx ?r = 0" "retry_count ?r \<le> number_of_retries ?r"
    using Suc(2,3) lt by auto
  from Suc(1) [OF this, of v "l @ [0, 1]"]
  moreover have "number_of_retries r - retry_count r = Suc (number_of_retries r - Suc (retry_count r))"
    using lt by simp
  ultimately show ?case
    by (auto simp: step)
qed

section \<open>Executing a list of children\<close>

fun tick_all :: "'w bt_children \<Rightarrow> nat list \<Rightarrow> 'w \<Rightarrow> node_status list \<times> 'w" where
  "tick_all ch [] w = ([], w)"
| "tick_all ch (i # is) w =
     (let (s, w1) = executeTick ch i w; (ss, w2) = tick_all ch is w1 in (s # ss, w2))"

lemma tick_all_Cons:
  "executeTick ch i w = (s, w1) \<Longrightarrow> tick_all ch is w1 = (ss, w2) \<Longrightarrow> tick_all ch (i # is) w = (s # ss, w2)"
  by simp

lemma tick_all_length: "tick_all ch is w = (ss, w') \<Longrightarrow> length ss = length is"
  by (induction "is" arbitrary: w ss) (auto split: prod.splits)

lemma count_list_length_iff: "count_list xs a = length xs \<longleftrightarrow> xs = replicate (length xs) a"
  by (induction xs) (auto, metis Suc_n_not_le_n count_le_length)

section \<open>PipelineSequence\<close>

text \<open>The child at index \<open>i\<close> ends the tick with status \<open>s\<close>.\<close>

definition stops :: "pipeline \<Rightarrow> nat \<Rightarrow> node_status \<Rightarrow> bool" where
  "stops p i s \<longleftrightarrow> s = FAILURE \<or> s = IDLE \<or> s = RUNNING \<and> last_child_ticked p \<le> i"

definition no_stop :: "pipeline \<Rightarrow> nat \<Rightarrow> node_status list \<Rightarrow> bool" where
  "no_stop p i ss \<longleftrightarrow> list_all (\<lambda>(j, s). \<not> stops p j s) (enumerate i ss)"

lemma no_stop_simps [simp]:
  "no_stop p i []" "no_stop p i (s # ss) \<longleftrightarrow> \<not> stops p i s \<and> no_stop p (Suc i) ss"
  by (simp_all add: no_stop_def)

text \<open>The result of a tick that executed the children with the statuses \<open>ss\<close> and stopped at the last.\<close>

definition pipeline_stopped ::
  "'w bt_children \<Rightarrow> pipeline \<Rightarrow> nat \<Rightarrow> node_status \<Rightarrow> 'w \<Rightarrow> (bt_exn + node_status) \<times> pipeline \<times> 'w" where
  "pipeline_stopped ch p i s w =
     (if s = FAILURE then (Inr FAILURE, p\<lparr>last_child_ticked := 0\<rparr>, haltChildren ch w)
      else if s = RUNNING then (Inr RUNNING, p\<lparr>last_child_ticked := i\<rparr>, w)
      else (Inl BT_Runtime_Error, p, w))"

definition pipeline_finished ::
  "'w bt_children \<Rightarrow> pipeline \<Rightarrow> bool \<Rightarrow> 'w \<Rightarrow> (bt_exn + node_status) \<times> pipeline \<times> 'w" where
  "pipeline_finished ch p all_skipped w =
     (Inr (if all_skipped then SKIPPED else SUCCESS), p\<lparr>last_child_ticked := 0\<rparr>, haltChildren ch w)"

lemma pipeline_loop_spec:
  assumes "i \<le> num_children ch"
  shows "(\<exists>ss w1. tick_all ch [i..<num_children ch] w = (ss, w1) \<and> no_stop p i ss \<and>
      pipeline_loop ch i k p w = pipeline_finished ch p (k + count_list ss SKIPPED = num_children ch) w1) \<or>
    (\<exists>m ss s w1. i \<le> m \<and> m < num_children ch \<and> tick_all ch [i..<Suc m] w = (ss @ [s], w1) \<and>
      no_stop p i ss \<and> stops p m s \<and> pipeline_loop ch i k p w = pipeline_stopped ch p m s w1)"
  using assms
proof (induction "num_children ch - i" arbitrary: i k w)
  case 0
  then show ?case
    by (simp add: pipeline_loop.simps pipeline_finished_def)
next
  case (Suc d)
  then have lt: "i < num_children ch"
    by simp
  obtain s w1 where tick: "executeTick ch i w = (s, w1)"
    by (rule prod.exhaust)
  show ?case
  proof (cases "stops p i s")
    case True
    then have "pipeline_loop ch i k p w = pipeline_stopped ch p i s w1"
      using lt tick
      by (cases s) (auto simp: pipeline_loop.simps [of ch i] pipeline_stopped_def stops_def)
    then show ?thesis
      using True lt tick by (intro disjI2 exI [of _ i] exI [of _ "[]"] exI [of _ s] exI [of _ w1]) simp
  next
    case False
    let ?k = "if s = SKIPPED then Suc k else k"
    have loop: "pipeline_loop ch i k p w = pipeline_loop ch (Suc i) ?k p w1"
      using False lt tick by (cases s) (auto simp: pipeline_loop.simps [of ch i] stops_def)
    have up: "[i..<num_children ch] = i # [Suc i..<num_children ch]"
      using lt by (rule upt_conv_Cons)
    have d: "d = num_children ch - Suc i" "Suc i \<le> num_children ch"
      using Suc(2) lt by simp_all
    consider ss w2 where "tick_all ch [Suc i..<num_children ch] w1 = (ss, w2)" "no_stop p (Suc i) ss"
        "pipeline_loop ch (Suc i) ?k p w1 =
          pipeline_finished ch p (?k + count_list ss SKIPPED = num_children ch) w2"
      | m ss t w2 where "Suc i \<le> m" "m < num_children ch" "tick_all ch [Suc i..<Suc m] w1 = (ss @ [t], w2)"
        "no_stop p (Suc i) ss" "stops p m t" "pipeline_loop ch (Suc i) ?k p w1 = pipeline_stopped ch p m t w2"
      using Suc(1) [of "Suc i" w1 ?k] d by blast
    then show ?thesis
    proof cases
      case 1
      then show ?thesis
        using False tick loop
        by (intro disjI1 exI [of _ "s # ss"] exI [of _ w2]) (simp add: up tick_all_Cons)
    next
      case 2
      then have "[i..<Suc m] = i # [Suc i..<Suc m]"
        by (intro upt_conv_Cons) simp
      then have "tick_all ch [i..<Suc m] w = ((s # ss) @ [t], w2)"
        using tick_all_Cons [OF tick 2(3)] by simp
      moreover have "i \<le> m"
        using 2(1) by simp
      ultimately show ?thesis
        using 2(2,4,5,6) False loop no_stop_simps(2) by metis
    qed
  qed
qed

section \<open>RoundRobinNode\<close>

definition rr_order :: "nat \<Rightarrow> nat \<Rightarrow> nat \<Rightarrow> nat list" where
  "rr_order n i m = map (\<lambda>j. (i + j) mod n) [0..<m]"

lemma rr_order_0 [simp]: "rr_order n i 0 = []"
  by (simp add: rr_order_def)

lemma rr_order_Suc:
  assumes "i < n"
  shows "rr_order n i (Suc m) = i # rr_order n (Suc i mod n) m"
proof -
  have "rr_order n i (Suc m) = i mod n # map ((\<lambda>j. (i + j) mod n) \<circ> Suc) [0..<m]"
    unfolding rr_order_def by (simp add: upt_conv_Cons flip: map_Suc_upt del: upt_Suc)
  also have "map ((\<lambda>j. (i + j) mod n) \<circ> Suc) [0..<m] = rr_order n (Suc i mod n) m"
    by (simp add: rr_order_def mod_add_left_eq)
  finally show ?thesis
    using assms by simp
qed

lemma rr_next_mod:
  "rr_current_child_idx r < n \<Longrightarrow>
   rr_next n r = r\<lparr>rr_current_child_idx := Suc (rr_current_child_idx r) mod n\<rparr>"
  by (auto simp: rr_next_def mod_Suc)

text \<open>
  The result of a tick that executed children with the statuses \<open>ss @ [s]\<close> and stopped at \<open>s\<close>; \<open>i\<close> is the
  index of the last executed child.
\<close>

definition rr_stopped ::
  "'w bt_children \<Rightarrow> round_robin \<Rightarrow> nat \<Rightarrow> nat \<Rightarrow> node_status \<Rightarrow> 'w \<Rightarrow>
    (bt_exn + node_status) \<times> round_robin \<times> 'w" where
  "rr_stopped ch r i f s w =
     (if s = SUCCESS then
        (Inr SUCCESS, r\<lparr>rr_current_child_idx := Suc i mod num_children ch, num_failed_children := 0\<rparr>,
         haltChildren ch w)
      else if s = RUNNING then (Inr RUNNING, r\<lparr>rr_current_child_idx := i, num_failed_children := f\<rparr>, w)
      else (Inl LogicError,
        r\<lparr>rr_current_child_idx := Suc i mod num_children ch, num_failed_children := f\<rparr>, w))"

definition rr_finished ::
  "'w bt_children \<Rightarrow> round_robin \<Rightarrow> bool \<Rightarrow> 'w \<Rightarrow> (bt_exn + node_status) \<times> round_robin \<times> 'w" where
  "rr_finished ch r all_skipped w =
     (Inr (if all_skipped then SKIPPED else FAILURE),
      r\<lparr>rr_current_child_idx := 0, num_failed_children := 0\<rparr>, controlHalt ch w)"

definition rr_failing :: "node_status list \<Rightarrow> bool" where
  "rr_failing ss \<longleftrightarrow> list_all (\<lambda>s. s = FAILURE \<or> s = SKIPPED) ss"

lemma rr_failing_simps [simp]:
  "rr_failing []" "rr_failing (s # ss) \<longleftrightarrow> (s = FAILURE \<or> s = SKIPPED) \<and> rr_failing ss"
  by (simp_all add: rr_failing_def)

lemma rr_loop_spec:
  assumes "rr_current_child_idx r < num_children ch" and "num_failed_children r + k \<le> num_children ch"
  shows "(\<exists>ss w1. tick_all ch (rr_order (num_children ch) (rr_current_child_idx r)
        (num_children ch - (num_failed_children r + k))) w = (ss, w1) \<and> rr_failing ss \<and>
      rr_loop ch k r w = rr_finished ch r (k + count_list ss SKIPPED = num_children ch) w1) \<or>
    (\<exists>m ss s w1. m < num_children ch - (num_failed_children r + k) \<and>
      tick_all ch (rr_order (num_children ch) (rr_current_child_idx r) (Suc m)) w = (ss @ [s], w1) \<and>
      rr_failing ss \<and> s \<in> {SUCCESS, RUNNING, IDLE} \<and>
      rr_loop ch k r w = rr_stopped ch r ((rr_current_child_idx r + m) mod num_children ch)
        (num_failed_children r + count_list ss FAILURE) s w1)"
  (is "?fin k r w \<or> ?stop k r w")
  using assms
proof (induction "num_children ch - (num_failed_children r + k)" arbitrary: r k w)
  case 0
  then show ?case
    by (simp add: rr_loop.simps rr_finished_def rr_halt_def)
next
  case (Suc d)
  then have lt: "num_failed_children r + k < num_children ch"
    by simp
  let ?n = "num_children ch" and ?i = "rr_current_child_idx r"
  obtain s w1 where tick: "executeTick ch ?i w = (s, w1)"
    by (rule prod.exhaust)
  have order: "rr_order ?n ?i (Suc m) = ?i # rr_order ?n (Suc ?i mod ?n) m" for m
    using Suc(3) by (rule rr_order_Suc)
  show ?case
  proof (cases "s \<in> {SUCCESS, RUNNING, IDLE}")
    case True
    then have "rr_loop ch k r w = rr_stopped ch r ?i (num_failed_children r) s w1"
      using lt tick Suc(3)
      by (cases s) (auto simp: rr_loop.simps [of ch k r] rr_stopped_def rr_next_mod)
    then show ?thesis
      using True lt tick Suc(3) order [of 0]
      by (intro disjI2 exI [of _ 0] exI [of _ "[]"] exI [of _ s] exI [of _ w1]) simp
  next
    case False
    define k1 where "k1 = (if s = SKIPPED then Suc k else k)"
    define r1 where "r1 = r\<lparr>rr_current_child_idx := Suc ?i mod ?n,
      num_failed_children := num_failed_children r + (if s = FAILURE then 1 else 0)\<rparr>"
    have loop: "rr_loop ch k r w = rr_loop ch k1 r1 w1"
      using False lt tick Suc(3)
      by (cases s) (auto simp: rr_loop.simps [of ch k r] rr_next_mod k1_def r1_def)
    have s: "s = FAILURE \<or> s = SKIPPED"
      using False by (cases s) auto
    have r1: "num_failed_children r1 + k1 = Suc (num_failed_children r + k)"
      "rr_current_child_idx r1 = Suc ?i mod ?n" "Suc ?i mod ?n < ?n"
      using s lt by (auto simp: r1_def k1_def)
    have rest: "rr_finished ch r1 = rr_finished ch r" "rr_stopped ch r1 = rr_stopped ch r"
      by (auto simp: rr_finished_def rr_stopped_def r1_def fun_eq_iff)
    have d: "d = ?n - (num_failed_children r1 + k1)" "num_failed_children r1 + k1 \<le> ?n"
      "?n - (num_failed_children r + k) = Suc d"
      using Suc(2) lt r1(1) by simp_all
    have "?fin k1 r1 w1 \<or> ?stop k1 r1 w1"
      using Suc(1) [of r1 k1 w1] d r1 by simp
    then show ?thesis
    proof
      assume "?fin k1 r1 w1"
      then obtain ss w2 where fin: "tick_all ch (rr_order ?n (Suc ?i mod ?n) d) w1 = (ss, w2)" "rr_failing ss"
        "rr_loop ch k1 r1 w1 = rr_finished ch r (k1 + count_list ss SKIPPED = ?n) w2"
        unfolding d(1) [symmetric] r1(2) rest by blast
      have "k1 + count_list ss SKIPPED = k + count_list (s # ss) SKIPPED"
        using s by (auto simp: k1_def)
      then show ?thesis
        using fin s tick_all_Cons [OF tick fin(1)] loop
        by (intro disjI1 exI [of _ "s # ss"] exI [of _ w2]) (simp add: d(3) order)
    next
      assume "?stop k1 r1 w1"
      then obtain m ss t w2 where st: "m < d" "tick_all ch (rr_order ?n (Suc ?i mod ?n) (Suc m)) w1 = (ss @ [t], w2)"
        "rr_failing ss" "t \<in> {SUCCESS, RUNNING, IDLE}"
        "rr_loop ch k1 r1 w1 = rr_stopped ch r ((Suc ?i mod ?n + m) mod ?n)
          (num_failed_children r1 + count_list ss FAILURE) t w2"
        unfolding d(1) [symmetric] r1(2) rest by blast
      have "num_failed_children r1 + count_list ss FAILURE = num_failed_children r + count_list (s # ss) FAILURE"
        using s by (auto simp: r1_def)
      moreover have "(Suc ?i mod ?n + m) mod ?n = (?i + Suc m) mod ?n"
        by (simp add: mod_add_left_eq)
      ultimately show ?thesis
        using st s tick_all_Cons [OF tick st(2)] loop
        by (intro disjI2 exI [of _ "Suc m"] exI [of _ "s # ss"] exI [of _ t] exI [of _ w2])
          (simp add: d(3) order [of "Suc m"])
    qed
  qed
qed

lemma rr_stopped_inv:
  assumes "rr_stopped ch r i f s w = (res, r', w')" and "i < num_children ch" and "f < num_children ch"
  shows "rr_current_child_idx r' < num_children ch \<and> num_failed_children r' < num_children ch"
  using assms by (auto simp: rr_stopped_def split: if_splits)

lemma rr_loop_inv:
  assumes "rr_current_child_idx r < num_children ch" and "num_failed_children r < num_children ch"
    and "rr_loop ch 0 r w = (res, r', w')"
  shows "rr_current_child_idx r' < num_children ch \<and> num_failed_children r' < num_children ch"
proof -
  have "num_failed_children r + 0 \<le> num_children ch"
    using assms(2) by simp
  from rr_loop_spec [OF assms(1) this, of w] show ?thesis
  proof (elim disjE exE conjE)
    fix m ss s w1
    assume m: "m < num_children ch - (num_failed_children r + 0)"
      and t: "tick_all ch (rr_order (num_children ch) (rr_current_child_idx r) (Suc m)) w = (ss @ [s], w1)"
      and l: "rr_loop ch 0 r w = rr_stopped ch r ((rr_current_child_idx r + m) mod num_children ch)
        (num_failed_children r + count_list ss FAILURE) s w1"
    have "length ss = m"
      using tick_all_length [OF t] by (simp add: rr_order_def)
    then have "num_failed_children r + count_list ss FAILURE < num_children ch"
      using m count_le_length [of ss FAILURE] by linarith
    then show ?thesis
      using rr_stopped_inv [OF l [symmetric, unfolded assms(3)]] assms(1) by simp
  qed (use assms in \<open>auto simp: rr_finished_def\<close>)
qed

section \<open>Concrete children\<close>

text \<open>The script \<open>f i l\<close> gives the status of child \<open>i\<close> after the executions \<open>l\<close>.\<close>

definition scripted :: "nat \<Rightarrow> (nat \<Rightarrow> node_status) \<Rightarrow> unit bt_children" where
  "scripted n f = \<lparr>num_children = n, executeTick = (\<lambda>i w. (f i, w)), haltChild = (\<lambda>_ w. w),
     haltChildren = (\<lambda>w. w), controlHalt = (\<lambda>w. w)\<rparr>"

section \<open>Properties\<close>

text \<open>C10: \<open>RecoveryNode\<close> with a main child that keeps failing and a recovery child that keeps succeeding: one
  tick runs the main child, then recovery and main child alternately until the \<open>number_of_retries\<close>
  retries are used up, then returns FAILURE with its counters reset for the next activation.\<close>

theorem recovery_exhausts_retries:
  assumes "num_children ch = 2" and "\<And>v. fst (executeTick ch 0 v) = FAILURE"
    and "\<And>v. fst (executeTick ch 1 v) = SUCCESS"
    and "current_child_idx r = 0" and "retry_count r = 0"
  shows "\<exists>w'. recovery_tick (with_log ch) (Some n) r (w, []) =
    (Inr FAILURE, \<lparr>current_child_idx = 0, number_of_retries = n, retry_count = 0\<rparr>, w',
     concat (replicate n [0, 1]) @ [0])"
proof -
  have r: "r\<lparr>number_of_retries := n, current_child_idx := 0, retry_count := 0\<rparr> =
      \<lparr>current_child_idx = 0, number_of_retries = n, retry_count = 0\<rparr>"
    by (cases r) simp
  have "\<exists>w'. recovery_loop (with_log ch) (r\<lparr>number_of_retries := n\<rparr>) (w, []) =
    (Inr FAILURE, r\<lparr>number_of_retries := n, current_child_idx := 0, retry_count := 0\<rparr>, w',
     [] @ concat (replicate (n - 0) [0, 1]) @ [0])"
    using recovery_loop_exhausts [of ch "r\<lparr>number_of_retries := n\<rparr>" w "[]"] assms by simp
  then show ?thesis
    unfolding r by (simp add: recovery_tick_def assms(1))
qed

theorem recovery_exhausts_retries_witness:
  "fst (snd (snd (recovery_tick (with_log (scripted 2 (\<lambda>i. if i = 0 then FAILURE else SUCCESS)))
     (Some 2) recovery_init ((), [])))) = () \<and>
   snd (snd (snd (recovery_tick (with_log (scripted 2 (\<lambda>i. if i = 0 then FAILURE else SUCCESS)))
     (Some 2) recovery_init ((), [])))) = [0, 1, 0, 1, 0]"
proof -
  let ?ch = "scripted 2 (\<lambda>i. if i = 0 then FAILURE else SUCCESS)"
  have "\<exists>w'. recovery_tick (with_log ?ch) (Some 2) recovery_init ((), []) =
    (Inr FAILURE, \<lparr>current_child_idx = 0, number_of_retries = 2, retry_count = 0\<rparr>, w',
     concat (replicate 2 [0, 1]) @ [0])"
    by (rule recovery_exhausts_retries) (simp_all add: scripted_def recovery_init_def)
  then show ?thesis
    by (auto simp: numeral_2_eq_2)
qed

text \<open>One tick of \<open>RecoveryNode\<close> with arbitrary children executes its two children strictly alternately,
  starting from the current one, and at most twice per remaining retry; the index stays that of
  a child. When the tick ends with SUCCESS, FAILURE or SKIPPED and the recovery child never reports
  SKIPPED, the index and the retry counter are back at zero.\<close>

theorem recovery_tick_alternates:
  assumes "num_children ch = 2" and "current_child_idx r < 2"
    and "recovery_tick (with_log ch) (Some n) r (w, []) = (res, r', w', l)"
  shows "current_child_idx r' < 2 \<and>
    list_all (\<lambda>k. l ! k = (current_child_idx r + k) mod 2) [0..<length l] \<and>
    length l \<le> 2 * (Suc n - retry_count r) - current_child_idx r \<and>
    ((\<forall>v. fst (executeTick ch 1 v) \<noteq> SKIPPED) \<and> res \<in> {Inr SUCCESS, Inr FAILURE, Inr SKIPPED} \<longrightarrow>
      current_child_idx r' = 0 \<and> retry_count r' = 0)"
proof -
  let ?r = "r\<lparr>number_of_retries := n\<rparr>"
  have loop: "recovery_loop (with_log ch) ?r (w, []) = (res, r', w', l)"
    using assms by (simp add: recovery_tick_def)
  have idx: "current_child_idx ?r < 2"
    using assms(2) by simp
  have "current_child_idx r' = 0 \<and> retry_count r' = 0"
    if ns: "\<forall>v. fst (executeTick ch 1 v) \<noteq> SKIPPED" and res: "res \<in> {Inr SUCCESS, Inr FAILURE, Inr SKIPPED}"
  proof -
    have "fst (executeTick (with_log ch) 1 v) \<noteq> SKIPPED" for v
      using ns by (cases v) simp
    from recovery_loop_done [OF loop idx this res] show ?thesis .
  qed
  then show ?thesis
    using recovery_loop_logged [OF loop idx]
    by (auto simp: alternating_def recovery_budget_def list_all_iff)
qed

theorem recovery_tick_alternates_witness:
  "\<exists>r' w' l. recovery_tick (with_log (scripted 2 (\<lambda>i. if i = 0 then FAILURE else RUNNING))) (Some 1)
     recovery_init ((), []) = (Inr RUNNING, r', w', l) \<and> current_child_idx r' < 2 \<and> l ! 1 = 1 \<and> length l \<le> 4"
proof -
  let ?ch = "scripted 2 (\<lambda>i. if i = 0 then FAILURE else RUNNING)"
  have run: "recovery_tick (with_log ?ch) (Some 1) recovery_init ((), []) =
      (Inr RUNNING, \<lparr>current_child_idx = 1, number_of_retries = 1, retry_count = 0\<rparr>, (), [0, 1])"
    by (simp add: recovery_tick_def recovery_init_def recovery_loop.simps recovery_round_def scripted_def with_log_def)
  show ?thesis
    using recovery_tick_alternates [OF _ _ run] run
    by (simp add: scripted_def recovery_init_def list_all_iff del: One_nat_def)
qed

text \<open>A recovery child that reports SKIPPED makes \<open>RecoveryNode\<close> return FAILURE without resetting the retry
  counter: the next activation has only the retries that were left, although the node completed.\<close>

theorem skipped_recovery_keeps_retry_count:
  assumes "num_children ch = 2" and "current_child_idx r = 1" and "retry_count r \<le> n"
    and "fst (executeTick ch 1 w) = SKIPPED"
    and "num_children ch' = 2" and "\<And>v. fst (executeTick ch' 0 v) = FAILURE"
    and "\<And>v. fst (executeTick ch' 1 v) = SUCCESS"
  shows "\<exists>r' w'. recovery_tick ch (Some n) r w = (Inr FAILURE, r', w') \<and> retry_count r' = retry_count r \<and>
    (\<exists>r'' w''. recovery_tick (with_log ch') (Some n) r' (w', []) =
      (Inr FAILURE, r'', w'', concat (replicate (n - retry_count r) [0, 1]) @ [0]))"
proof -
  let ?r = "r\<lparr>number_of_retries := n, current_child_idx := 0\<rparr>"
  have "recovery_tick ch (Some n) r w = (Inr FAILURE, ?r, haltChild ch 1 (snd (executeTick ch 1 w)))"
    using assms(1-4) by (simp add: recovery_tick_def recovery_loop.simps recovery_round_def split_beta)
  moreover have "?r\<lparr>number_of_retries := n\<rparr> = ?r"
    by simp
  then have "recovery_tick (with_log ch') (Some n) ?r v = recovery_loop (with_log ch') ?r v" for v
    unfolding recovery_tick_def using assms(5) by (simp only: Let_def option.case with_log_simps) simp
  moreover have "retry_count ?r = retry_count r" "number_of_retries ?r = n" "current_child_idx ?r = 0"
    by simp_all
  ultimately show ?thesis
    using recovery_loop_exhausts [of ch' ?r "haltChild ch 1 (snd (executeTick ch 1 w))" "[]", OF assms(6,7)] assms(3)
    by (metis append_Nil)
qed

theorem skipped_recovery_keeps_retry_count_witness:
  "\<exists>r' w'. recovery_tick (scripted 2 (\<lambda>i. SKIPPED)) (Some 3)
      \<lparr>current_child_idx = 1, number_of_retries = 3, retry_count = 2\<rparr> () = (Inr FAILURE, r', w') \<and>
    (\<exists>r'' w''. recovery_tick (with_log (scripted 2 (\<lambda>i. if i = 0 then FAILURE else SUCCESS))) (Some 3) r' (w', []) =
      (Inr FAILURE, r'', w'', [0, 1, 0]))"
proof -
  let ?r = "\<lparr>current_child_idx = 1, number_of_retries = 3, retry_count = 2\<rparr>"
  have "\<exists>r' w'. recovery_tick (scripted 2 (\<lambda>i. SKIPPED)) (Some 3) ?r () = (Inr FAILURE, r', w') \<and>
      retry_count r' = retry_count ?r \<and>
    (\<exists>r'' w''. recovery_tick (with_log (scripted 2 (\<lambda>i. if i = 0 then FAILURE else SUCCESS))) (Some 3) r' (w', []) =
      (Inr FAILURE, r'', w'', concat (replicate (3 - retry_count ?r) [0, 1]) @ [0]))"
    by (rule skipped_recovery_keeps_retry_count) (simp_all add: scripted_def)
  then show ?thesis
    by auto
qed

text \<open>C18: One tick of \<open>PipelineSequence\<close>, for arbitrary children. It executes the children from the first on,
  re-ticking those that already succeeded or are running, up to the first that fails or that is running at or
  beyond the furthest child ticked so far. A failure halts all children and restarts the pipeline, a
  running child becomes the furthest one; if no child stops the tick, all children are halted and the
  result is SUCCESS, or SKIPPED when every child was skipped.\<close>

theorem pipeline_tick_spec:
  "(\<exists>ss w1. tick_all ch [0..<num_children ch] w = (ss, w1) \<and> no_stop p 0 ss \<and>
      pipeline_tick ch p w = (Inr (if ss = replicate (num_children ch) SKIPPED then SKIPPED else SUCCESS),
        p\<lparr>last_child_ticked := 0\<rparr>, haltChildren ch w1)) \<or>
   (\<exists>m ss s w1. m < num_children ch \<and> tick_all ch [0..<Suc m] w = (ss @ [s], w1) \<and> no_stop p 0 ss \<and>
      (s = FAILURE \<and> pipeline_tick ch p w = (Inr FAILURE, p\<lparr>last_child_ticked := 0\<rparr>, haltChildren ch w1) \<or>
       s = RUNNING \<and> last_child_ticked p \<le> m \<and>
         pipeline_tick ch p w = (Inr RUNNING, p\<lparr>last_child_ticked := m\<rparr>, w1) \<or>
       s = IDLE \<and> pipeline_tick ch p w = (Inl BT_Runtime_Error, p, w1)))"
  using pipeline_loop_spec [of 0 ch w p 0, OF le0]
proof (elim disjE exE conjE)
  fix ss w1
  assume t: "tick_all ch [0..<num_children ch] w = (ss, w1)" and n: "no_stop p 0 ss"
    and l: "pipeline_loop ch 0 0 p w = pipeline_finished ch p (0 + count_list ss SKIPPED = num_children ch) w1"
  have "length ss = num_children ch"
    using tick_all_length [OF t] by simp
  then have "count_list ss SKIPPED = num_children ch \<longleftrightarrow> ss = replicate (num_children ch) SKIPPED"
    using count_list_length_iff by metis
  then have "pipeline_tick ch p w = (Inr (if ss = replicate (num_children ch) SKIPPED then SKIPPED else SUCCESS),
      p\<lparr>last_child_ticked := 0\<rparr>, haltChildren ch w1)"
    using l by (simp add: pipeline_tick_def pipeline_finished_def)
  then show ?thesis
    using t n by blast
next
  fix m ss s w1
  assume *: "m < num_children ch" "tick_all ch [0..<Suc m] w = (ss @ [s], w1)" "no_stop p 0 ss" "stops p m s"
    "pipeline_loop ch 0 0 p w = pipeline_stopped ch p m s w1"
  then show ?thesis
    unfolding pipeline_tick_def stops_def pipeline_stopped_def
    by (intro disjI2 exI [of _ m] exI [of _ ss] exI [of _ s] exI [of _ w1]) auto
qed

text \<open>One tick of \<open>RoundRobinNode\<close>, for arbitrary children. It executes the children cyclically from the
  current one, as long as they fail or are skipped and not more than the children that have not failed yet. A success resets
  the failure count and moves on to the next child, a running child stays current; when all
  children have failed or were skipped, the node is halted and returns FAILURE, or SKIPPED when all were skipped. The current index
  and the failure count stay below the number of children.\<close>

theorem round_robin_tick_spec:
  assumes "rr_current_child_idx r < num_children ch" and "num_failed_children r < num_children ch"
  shows "((\<exists>ss w1. tick_all ch (rr_order (num_children ch) (rr_current_child_idx r)
          (num_children ch - num_failed_children r)) w = (ss, w1) \<and> rr_failing ss \<and>
        rr_tick ch r w = (Inr (if count_list ss SKIPPED = num_children ch then SKIPPED else FAILURE),
          r\<lparr>rr_current_child_idx := 0, num_failed_children := 0\<rparr>, controlHalt ch w1)) \<or>
      (\<exists>m ss s w1. m < num_children ch - num_failed_children r \<and>
        tick_all ch (rr_order (num_children ch) (rr_current_child_idx r) (Suc m)) w = (ss @ [s], w1) \<and>
        rr_failing ss \<and> s \<in> {SUCCESS, RUNNING, IDLE} \<and>
        rr_tick ch r w = rr_stopped ch r ((rr_current_child_idx r + m) mod num_children ch)
          (num_failed_children r + count_list ss FAILURE) s w1)) \<and>
    rr_current_child_idx (fst (snd (rr_tick ch r w))) < num_children ch \<and>
    num_failed_children (fst (snd (rr_tick ch r w))) < num_children ch"
  (is "?spec \<and> ?idx \<and> ?failed")
proof (intro conjI)
  have le: "num_failed_children r + 0 \<le> num_children ch"
    using assms(2) by simp
  from rr_loop_spec [OF assms(1) le, of w] show ?spec
    unfolding rr_tick_def rr_finished_def add_0 add_0_right by blast
  show ?idx ?failed
    using rr_loop_inv [OF assms] unfolding rr_tick_def by (metis prod.collapse)+
qed

theorem round_robin_tick_spec_witness:
  "rr_current_child_idx (fst (snd (rr_tick (scripted 3 (\<lambda>i. if i = 0 then RUNNING else FAILURE))
     \<lparr>rr_current_child_idx = 2, num_failed_children = 0\<rparr> ()))) < 3"
  using round_robin_tick_spec [of "\<lparr>rr_current_child_idx = 2, num_failed_children = 0\<rparr>"
    "scripted 3 (\<lambda>i. if i = 0 then RUNNING else FAILURE)" "()"]
  by (simp add: scripted_def)

end
