(* ===== verification/Nav3d_Util.thy ===== *)
theory Nav3d_Util
  imports Nav3d_Msgs
begin

text \<open>
  The parts of \<open>nav3d_util\<close> the behaviour tree and the servers call: distances and searches along a
  path (\<open>geometry_utils.hpp\<close>), the pose look-up (\<open>robot_utils.cpp\<close>) and the odometry smoother
  (\<open>odometry_utils.hpp\<close>, \<open>odometry_utils.cpp\<close>). An iterator range is a list and an iterator an index, the end
  iterator being the length. The transform buffer is the parameter \<open>transform\<close>; \<open>None\<close> is a
  \<open>tf2::TransformException\<close>, of which all the caught exceptions are subclasses.
\<close>

section \<open>Distances\<close>

definition euclidean_distance_point :: "point \<Rightarrow> point \<Rightarrow> bool \<Rightarrow> double" where
  "euclidean_distance_point p q is_3d =
     (let dx = px p - px q; dy = py p - py q in
      if is_3d then hypot3 dx dy (pz p - pz q) else hypot2 dx dy)"

definition euclidean_distance_pose :: "pose \<Rightarrow> pose \<Rightarrow> bool \<Rightarrow> double" where
  "euclidean_distance_pose p q is_3d =
     (let dx = px (position p) - px (position q); dy = py (position p) - py (position q) in
      if is_3d then hypot3 dx dy (pz (position p) - pz (position q)) else hypot2 dx dy)"

definition euclidean_distance_stamped :: "pose_stamped \<Rightarrow> pose_stamped \<Rightarrow> bool \<Rightarrow> double" where
  "euclidean_distance_stamped p q is_3d = euclidean_distance_pose (ps_pose p) (ps_pose q) is_3d"

section \<open>Searches along a path\<close>

text \<open>\<open>min_by\<close>: the loop from index \<open>i\<close>, with the lowest value and its index so far.\<close>

fun min_by_loop :: "('a \<Rightarrow> double) \<Rightarrow> 'a list \<Rightarrow> nat \<Rightarrow> double \<Rightarrow> nat \<Rightarrow> nat" where
  "min_by_loop f [] i lowest lowest_it = lowest_it"
| "min_by_loop f (x # xs) i lowest lowest_it =
     (let comp_val = f x in
      if comp_val \<le> lowest then min_by_loop f xs (Suc i) comp_val i
      else min_by_loop f xs (Suc i) lowest lowest_it)"

fun min_by :: "('a \<Rightarrow> double) \<Rightarrow> 'a list \<Rightarrow> nat" where
  "min_by f [] = 0"
| "min_by f (x # xs) = min_by_loop f xs 1 (f x) 0"

text \<open>\<open>first_after_integrated_distance\<close>: the loop at the iterator whose index is \<open>i\<close>.\<close>

fun first_after_loop :: "pose_stamped list \<Rightarrow> double \<Rightarrow> nat \<Rightarrow> double \<Rightarrow> nat" where
  "first_after_loop (p # q # ps) threshold i acc =
     (let acc1 = acc + euclidean_distance_stamped p q True in
      if acc1 > threshold then Suc i
      else first_after_loop (q # ps) threshold (Suc i) acc1)"
| "first_after_loop [p] threshold i acc = Suc i"
| "first_after_loop [] threshold i acc = i"

definition first_after_integrated_distance :: "pose_stamped list \<Rightarrow> double \<Rightarrow> nat" where
  "first_after_integrated_distance ps threshold =
     (if ps = [] then 0 else first_after_loop ps threshold 0 0)"

fun path_length_loop :: "pose_stamped list \<Rightarrow> nat \<Rightarrow> nat \<Rightarrow> double \<Rightarrow> double" where
  "path_length_loop ps idx 0 len = len"
| "path_length_loop ps idx (Suc k) len =
     path_length_loop ps (Suc idx) k
       (len + euclidean_distance_pose (ps_pose (ps ! idx)) (ps_pose (ps ! Suc idx)) True)"

definition calculate_path_length :: "path \<Rightarrow> nat \<Rightarrow> double" where
  "calculate_path_length p start_index =
     (if start_index + 1 \<ge> length (poses p) then 0
      else path_length_loop (poses p) start_index (length (poses p) - 1 - start_index) 0)"

section \<open>Looking up the robot pose\<close>

type_synonym 'w tf_transform = "pose_stamped \<Rightarrow> string \<Rightarrow> double \<Rightarrow> 'w \<Rightarrow> pose_stamped option \<times> 'w"

text \<open>The result and the output argument, which keeps its value when the transform throws.\<close>

definition transformPoseInTargetFrame ::
  "'w tf_transform \<Rightarrow> pose_stamped \<Rightarrow> pose_stamped \<Rightarrow> string \<Rightarrow> double \<Rightarrow> 'w \<Rightarrow> (bool \<times> pose_stamped) \<times> 'w" where
  "transformPoseInTargetFrame transform input_pose transformed_pose target_frame timeout w =
     (case transform input_pose target_frame timeout w of
        (Some p, w1) \<Rightarrow> ((True, p), w1)
      | (None, w1) \<Rightarrow> ((False, transformed_pose), w1))"

text \<open>
  \<open>getCurrentPose\<close> fills its output argument with the origin of the robot frame and transforms it in
  place: after a failed look-up the argument holds that origin.
\<close>

definition getCurrentPose ::
  "'w tf_transform \<Rightarrow> string \<Rightarrow> string \<Rightarrow> double \<Rightarrow> time_ns \<Rightarrow> 'w \<Rightarrow> (bool \<times> pose_stamped) \<times> 'w" where
  "getCurrentPose transform global_frame robot_frame timeout t w =
     (let origin = \<lparr>ps_header = \<lparr>stamp = t, frame_id = robot_frame\<rparr>, ps_pose = default_pose\<rparr> in
      transformPoseInTargetFrame transform origin origin global_frame timeout w)"

section \<open>OdomSmoother\<close>

record odometry =
  odom_header :: header
  odom_twist :: twist

abbreviation odom_stamp :: "odometry \<Rightarrow> time_ns" where
  "odom_stamp m \<equiv> stamp (odom_header m)"

record odom_smoother =
  received_odom :: bool
  odom_cumulate :: twist
  vel_smooth :: "header \<times> twist"
  odom_history_duration :: duration_ns
  odom_history :: "odometry list"

definition tw_add :: "twist \<Rightarrow> twist \<Rightarrow> twist" where
  "tw_add a b = \<lparr>linear = pt_add (linear a) (linear b), angular = pt_add (angular a) (angular b)\<rparr>"

definition tw_sub :: "twist \<Rightarrow> twist \<Rightarrow> twist" where
  "tw_sub a b = \<lparr>linear = pt_sub (linear a) (linear b), angular = pt_sub (angular a) (angular b)\<rparr>"

definition tw_div :: "twist \<Rightarrow> double \<Rightarrow> twist" where
  "tw_div a n = \<lparr>linear = pt_map (\<lambda>x. x / n) (linear a), angular = pt_map (\<lambda>x. x / n) (angular a)\<rparr>"

definition odom_smoother_init :: "duration_ns \<Rightarrow> odom_smoother" where
  "odom_smoother_init d = \<lparr>received_odom = False, odom_cumulate = zero_twist, vel_smooth = (default_header, zero_twist),
     odom_history_duration = d, odom_history = []\<rparr>"

text \<open>The \<open>while\<close> loop of \<open>odomCallback\<close> drops the messages that are older than the window.\<close>

fun drop_old :: "time_ns \<Rightarrow> duration_ns \<Rightarrow> odometry list \<Rightarrow> twist \<Rightarrow> odometry list \<times> twist" where
  "drop_old current_time d [] cum = ([], cum)"
| "drop_old current_time d (m # ms) cum =
     (if current_time - odom_stamp m > d then drop_old current_time d ms (tw_sub cum (odom_twist m))
      else (m # ms, cum))"

definition updateState :: "odom_smoother \<Rightarrow> odom_smoother" where
  "updateState s =
     (let odom = last (odom_history s);
          cum = tw_add (odom_cumulate s) (odom_twist odom);
          n = of_nat (length (odom_history s))
      in s\<lparr>odom_cumulate := cum, vel_smooth := (odom_header odom, tw_div cum n)\<rparr>)"

definition smoother_odomCallback :: "odometry \<Rightarrow> odom_smoother \<Rightarrow> odom_smoother" where
  "smoother_odomCallback msg s =
     (let (h, cum) = drop_old (odom_stamp msg) (odom_history_duration s) (odom_history s) (odom_cumulate s) in
      updateState (s\<lparr>received_odom := True, odom_cumulate := cum, odom_history := h @ [msg]\<rparr>))"

definition getTwist :: "odom_smoother \<Rightarrow> twist" where
  "getTwist s = (if \<not> received_odom s then zero_twist else snd (vel_smooth s))"

definition getTwistStamped :: "odom_smoother \<Rightarrow> header \<times> twist" where
  "getTwistStamped s = (if \<not> received_odom s then (default_header, zero_twist) else vel_smooth s)"

definition getRawTwist :: "odom_smoother \<Rightarrow> twist" where
  "getRawTwist s = (if \<not> received_odom s then zero_twist else odom_twist (last (odom_history s)))"

definition getRawTwistStamped :: "odom_smoother \<Rightarrow> header \<times> twist" where
  "getRawTwistStamped s =
     (if \<not> received_odom s then (default_header, zero_twist)
      else (odom_header (last (odom_history s)), odom_twist (last (odom_history s))))"

section \<open>Twists as vectors\<close>

lemma tw_sub_add [simp]: "tw_sub (tw_add a b) b = a"
  by (simp add: tw_sub_def tw_add_def pt_sub_def pt_add_def)

lemma tw_add_commute: "tw_add a b = tw_add b a"
  by (simp add: tw_add_def pt_add_def add.commute)

lemma tw_add_assoc: "tw_add (tw_add a b) c = tw_add a (tw_add b c)"
  by (simp add: tw_add_def pt_add_def add.assoc)

lemma tw_add_zero [simp]: "tw_add zero_twist a = a" "tw_add a zero_twist = a"
  by (simp_all add: tw_add_def pt_add_def zero_twist_def)

fun tw_sum :: "odometry list \<Rightarrow> twist" where
  "tw_sum [] = zero_twist"
| "tw_sum (m # ms) = tw_add (odom_twist m) (tw_sum ms)"

lemma tw_sum_append [simp]: "tw_sum (xs @ ys) = tw_add (tw_sum xs) (tw_sum ys)"
  by (induction xs) (simp_all add: tw_add_assoc)

section \<open>The smoother averages a window of messages\<close>

text \<open>The running sum is the sum of the messages kept, and the velocity their mean.\<close>

definition smoother_inv :: "odom_smoother \<Rightarrow> bool" where
  "smoother_inv s \<longleftrightarrow> odom_cumulate s = tw_sum (odom_history s) \<and> (received_odom s \<longleftrightarrow> odom_history s \<noteq> []) \<and>
     (odom_history s \<noteq> [] \<longrightarrow>
        vel_smooth s = (odom_header (last (odom_history s)),
          tw_div (tw_sum (odom_history s)) (of_nat (length (odom_history s)))))"

lemma drop_old_eq:
  "drop_old t d ms (tw_sum ms) = (let h = dropWhile (\<lambda>m. t - odom_stamp m > d) ms in (h, tw_sum h))"
  by (induction ms) (simp_all add: tw_add_commute [of "odom_twist _"])

lemma smoother_odomCallback_inv:
  assumes "smoother_inv s"
  shows "smoother_inv (smoother_odomCallback msg s)"
    and "odom_history (smoother_odomCallback msg s) =
      dropWhile (\<lambda>m. odom_stamp msg - odom_stamp m > odom_history_duration s) (odom_history s) @ [msg]"
    and "odom_history_duration (smoother_odomCallback msg s) = odom_history_duration s"
  using assms by (simp_all add: smoother_inv_def smoother_odomCallback_def drop_old_eq updateState_def Let_def)

lemma odom_smoother_init_inv: "smoother_inv (odom_smoother_init d)"
  by (simp add: smoother_inv_def odom_smoother_init_def)

lemma dropWhile_sorted_filter:
  assumes "sorted (map f xs)"
  shows "dropWhile (\<lambda>x. t - f x > d) xs = filter (\<lambda>x. t - f x \<le> (d :: int)) xs"
  using assms by (induction xs) (auto simp: not_less intro!: filter_True [symmetric])

lemma smoother_run:
  assumes "sorted (map odom_stamp ms)" and "0 \<le> d"
  shows "smoother_inv (fold smoother_odomCallback ms (odom_smoother_init d)) \<and>
    odom_history_duration (fold smoother_odomCallback ms (odom_smoother_init d)) = d \<and>
    (ms \<noteq> [] \<longrightarrow> odom_history (fold smoother_odomCallback ms (odom_smoother_init d)) =
      filter (\<lambda>m. odom_stamp (last ms) - odom_stamp m \<le> d) ms)"
  using assms(1)
proof (induction ms rule: rev_induct)
  case Nil
  then show ?case
    using odom_smoother_init_inv [of d] by (simp add: odom_smoother_init_def)
next
  case (snoc msg ms)
  let ?s = "fold smoother_odomCallback ms (odom_smoother_init d)"
  have le: "\<forall>m \<in> set ms. odom_stamp m \<le> odom_stamp msg" and srt: "sorted (map odom_stamp ms)"
    using snoc(2) by (auto simp: sorted_append)
  note IH = snoc(1) [OF srt]
  have keep: "dropWhile (\<lambda>m. odom_stamp msg - odom_stamp m > d) (odom_history ?s) =
    filter (\<lambda>m. odom_stamp msg - odom_stamp m \<le> d) ms"
  proof (cases "ms = []")
    case True
    then show ?thesis
      by (simp add: odom_smoother_init_def)
  next
    case False
    then have h: "odom_history ?s = filter (\<lambda>m. odom_stamp (last ms) - odom_stamp m \<le> d) ms"
      using IH by simp
    have "sorted (map odom_stamp (odom_history ?s))"
      unfolding h using srt by (rule sorted_filter)
    moreover have "odom_stamp (last ms) \<le> odom_stamp msg"
      using le False by simp
    ultimately show ?thesis
      by (auto simp: dropWhile_sorted_filter h intro: filter_cong)
  qed
  show ?case
    using smoother_odomCallback_inv [of ?s msg] IH keep assms(2) by simp
qed

section \<open>Lengths along a path\<close>

text \<open>The length of the polyline through the poses.\<close>

fun polyline :: "pose_stamped list \<Rightarrow> double" where
  "polyline (p # q # ps) = pt_dist (ps_position p) (ps_position q) + polyline (q # ps)"
| "polyline _ = 0"

lemma euclidean_distance_eq:
  "euclidean_distance_point (position a) (position b) True = pt_dist (position a) (position b)"
  "euclidean_distance_pose a b True = pt_dist (position a) (position b)"
  "euclidean_distance_stamped p q True = pt_dist (ps_position p) (ps_position q)"
  by (simp_all add: euclidean_distance_point_def euclidean_distance_pose_def euclidean_distance_stamped_def
      pt_dist_def pt_norm_def Let_def)

lemma polyline_nonneg: "0 \<le> polyline ps"
  by (induction ps rule: polyline.induct) simp_all

lemma path_length_loop_eq:
  "i + k < length ps \<Longrightarrow> path_length_loop ps i k len = len + polyline (take (Suc k) (drop i ps))"
proof (induction k arbitrary: i len)
  case 0
  then show ?case
    by (cases "drop i ps") auto
next
  case (Suc k)
  have "take (Suc (Suc k)) (drop i ps) = ps ! i # ps ! Suc i # take k (drop (Suc (Suc i)) ps)"
    "take (Suc k) (drop (Suc i) ps) = ps ! Suc i # take k (drop (Suc (Suc i)) ps)"
    using Suc(2) by (simp_all add: Cons_nth_drop_Suc [symmetric])
  then show ?case
    using Suc by (simp add: euclidean_distance_eq)
qed

lemma calculate_path_length_eq:
  "calculate_path_length p i = polyline (drop i (poses p))"
proof (cases "i + 1 \<ge> length (poses p)")
  case True
  then have "length (drop i (poses p)) \<le> 1"
    by simp
  then show ?thesis
    using True unfolding calculate_path_length_def
    by (cases "drop i (poses p)" rule: polyline.cases) (auto simp del: length_drop)
next
  case False
  then show ?thesis
    by (simp add: calculate_path_length_def path_length_loop_eq)
qed

lemma first_after_loop_spec:
  assumes "ps \<noteq> []" and "acc \<le> threshold"
  shows "\<exists>k. first_after_loop ps threshold i acc = i + k \<and> 0 < k \<and> k \<le> length ps \<and>
    acc + polyline (take k ps) \<le> threshold \<and> (k < length ps \<longrightarrow> acc + polyline (take (Suc k) ps) > threshold)"
  using assms
proof (induction ps threshold i acc rule: first_after_loop.induct)
  case (1 p q ps threshold i acc)
  let ?acc = "acc + euclidean_distance_stamped p q True"
  show ?case
  proof (cases "?acc > threshold")
    case True
    then show ?thesis
      using 1(3) by (intro exI [of _ 1]) (simp add: euclidean_distance_eq)
  next
    case False
    then obtain k where "first_after_loop (q # ps) threshold (Suc i) ?acc = Suc i + k" "0 < k"
      "k \<le> length (q # ps)" "?acc + polyline (take k (q # ps)) \<le> threshold"
      "k < length (q # ps) \<longrightarrow> ?acc + polyline (take (Suc k) (q # ps)) > threshold"
      using 1(1) [OF refl] by auto
    then show ?thesis
      using False by (intro exI [of _ "Suc k"]) (cases k; auto simp: euclidean_distance_eq add.assoc)
  qed
qed auto

text \<open>The triangle inequality: a path is at least as long as the straight line.\<close>

lemma dot_le_hypot3: "a * d + b * e + c * f \<le> hypot3 a b c * hypot3 d e f"
proof -
  have "(a * d + b * e + c * f)\<^sup>2 + (a * e - b * d)\<^sup>2 + (a * f - c * d)\<^sup>2 + (b * f - c * e)\<^sup>2
      = (a * a + b * b + c * c) * (d * d + e * e + f * f)"
    by (simp add: power2_eq_square algebra_simps)
  then have "(a * d + b * e + c * f)\<^sup>2 \<le> (a * a + b * b + c * c) * (d * d + e * e + f * f)"
    by (smt (verit) zero_le_power2)
  then have "a * d + b * e + c * f \<le> sqrt ((a * a + b * b + c * c) * (d * d + e * e + f * f))"
    by (rule real_le_rsqrt)
  then show ?thesis
    by (simp add: hypot3_def real_sqrt_mult)
qed

lemma hypot3_triangle: "hypot3 (a + d) (b + e) (c + f) \<le> hypot3 a b c + hypot3 d e f"
proof -
  have sq: "(hypot3 x y z)\<^sup>2 = x * x + y * y + z * z" for x y z
    by (simp add: hypot3_def)
  have "(hypot3 (a + d) (b + e) (c + f))\<^sup>2 = (hypot3 a b c)\<^sup>2 + (hypot3 d e f)\<^sup>2 + 2 * (a * d + b * e + c * f)"
    by (simp add: sq algebra_simps)
  also have "\<dots> \<le> (hypot3 a b c + hypot3 d e f)\<^sup>2"
    using dot_le_hypot3 [of a d b e c f] by (simp add: power2_sum)
  finally show ?thesis
    by (rule power2_le_imp_le) simp
qed

lemma pt_dist_triangle: "pt_dist p r \<le> pt_dist p q + pt_dist q r"
  using hypot3_triangle [of "px p - px q" "px q - px r" "py p - py q" "py q - py r" "pz p - pz q" "pz q - pz r"]
  by (simp add: pt_dist_def pt_norm_def)

lemma polyline_ge_dist:
  "ps \<noteq> [] \<Longrightarrow> pt_dist (ps_position (hd ps)) (ps_position (last ps)) \<le> polyline ps"
proof (induction ps rule: polyline.induct)
  case (1 p q ps)
  then show ?case
    using pt_dist_triangle [of "ps_position p" "ps_position (last (q # ps))" "ps_position q"] by simp
qed (simp_all add: pt_dist_def pt_norm_def hypot3_def)

section \<open>Properties\<close>

text \<open>\<open>OdomSmoother\<close> as a sliding window. After any sequence of odometry messages in the order of their
  stamps, the history holds exactly the messages within the filter duration of the newest
  one, and \<open>getTwist\<close> is their mean, although the code only maintains a running sum.\<close>

theorem odom_smoother_window_mean:
  assumes "ms \<noteq> []" and "sorted (map odom_stamp ms)" and "0 \<le> d"
  shows "let s = fold smoother_odomCallback ms (odom_smoother_init d);
             recent = filter (\<lambda>m. odom_stamp (last ms) - odom_stamp m \<le> d) ms
         in odom_history s = recent \<and> getTwist s = tw_div (tw_sum recent) (of_nat (length recent)) \<and>
            getRawTwist s = odom_twist (last ms)"
proof -
  define s where "s = fold smoother_odomCallback ms (odom_smoother_init d)"
  define recent where "recent = filter (\<lambda>m. odom_stamp (last ms) - odom_stamp m \<le> d) ms"
  have inv: "smoother_inv s" and h: "odom_history s = recent"
    using smoother_run [OF assms(2,3)] assms(1) unfolding s_def recent_def by simp_all
  have "ms = butlast ms @ [last ms]"
    using assms(1) by simp
  then have "recent = filter (\<lambda>m. odom_stamp (last ms) - odom_stamp m \<le> d) (butlast ms) @ [last ms]"
    unfolding recent_def using assms(3) by (metis (lifting) append_Nil diff_self filter.simps(1,2) filter_append)
  then have "recent \<noteq> []" "last recent = last ms"
    by (metis snoc_eq_iff_butlast)+
  then show ?thesis
    unfolding s_def [symmetric] recent_def [symmetric] Let_def
    using inv h by (simp add: smoother_inv_def getTwist_def getRawTwist_def)
qed

definition odom_at :: "time_ns \<Rightarrow> double \<Rightarrow> odometry" where
  "odom_at t v = \<lparr>odom_header = \<lparr>stamp = t, frame_id = ''odom''\<rparr>,
     odom_twist = \<lparr>linear = \<lparr>px = v, py = 0, pz = 0\<rparr>, angular = zero_point\<rparr>\<rparr>"

theorem odom_smoother_window_mean_witness:
  "px (linear (getTwist (fold smoother_odomCallback [odom_at 0 9, odom_at 5 2, odom_at 6 4] (odom_smoother_init 3)))) = 3"
  using odom_smoother_window_mean [of "[odom_at 0 9, odom_at 5 2, odom_at 6 4]" 3]
  by (simp add: odom_at_def tw_div_def tw_add_def zero_twist_def Let_def del: fold_simps)

text \<open>\<open>calculate_path_length\<close> is the length of the polyline through the remaining poses, at least
  the straight distance between its ends, and zero where fewer than two poses remain;
  \<open>first_after_integrated_distance\<close> returns the first pose at which the distance flown along the path exceeds the threshold, or
  the end if there is none.\<close>

theorem path_length_and_search:
  assumes "0 \<le> threshold" and "i < length (poses p)" and "ps \<noteq> []"
  shows "calculate_path_length p i = polyline (drop i (poses p)) \<and>
    pt_dist (ps_position (poses p ! i)) (ps_position (last (poses p))) \<le> calculate_path_length p i \<and>
    (\<exists>k. first_after_integrated_distance ps threshold = k \<and> 0 < k \<and> k \<le> length ps \<and>
      polyline (take k ps) \<le> threshold \<and> (k = length ps \<or> polyline (take (Suc k) ps) > threshold))"
proof (intro conjI)
  show "calculate_path_length p i = polyline (drop i (poses p))"
    by (rule calculate_path_length_eq)
  show "pt_dist (ps_position (poses p ! i)) (ps_position (last (poses p))) \<le> calculate_path_length p i"
    using polyline_ge_dist [of "drop i (poses p)"] assms(2) by (simp add: calculate_path_length_eq hd_drop_conv_nth)
  show "\<exists>k. first_after_integrated_distance ps threshold = k \<and> 0 < k \<and> k \<le> length ps \<and>
      polyline (take k ps) \<le> threshold \<and> (k = length ps \<or> polyline (take (Suc k) ps) > threshold)"
    using first_after_loop_spec [OF assms(3,1), of 0] assms(3)
    by (auto simp: first_after_integrated_distance_def)
qed

definition ps_at :: "double \<Rightarrow> pose_stamped" where
  "ps_at x = default_pose_stamped\<lparr>ps_pose := default_pose\<lparr>position := \<lparr>px = x, py = 0, pz = 0\<rparr>\<rparr>\<rparr>"

theorem path_length_and_search_witness:
  "pt_dist (ps_position (ps_at 0)) (ps_position (ps_at 0))
     \<le> calculate_path_length \<lparr>path_header = default_header, poses = [ps_at 0, ps_at 2, ps_at 0]\<rparr> 0 \<and>
   first_after_integrated_distance [ps_at 0] 1 \<le> 1"
  using path_length_and_search [of 1 0 "\<lparr>path_header = default_header, poses = [ps_at 0, ps_at 2, ps_at 0]\<rparr>"
      "[ps_at 0]"]
  by auto

end
