(* ===== verification/BT_Decorators.thy ===== *)
theory BT_Decorators
  imports BT_Control Nav3d_Util
begin

text \<open>
  The decorators of the behaviour tree (\<open>nav3d_behavior_tree/plugins/decorator\<close>). The child node, the clocks, the transform buffer and
  the input ports belong to BehaviorTree.CPP and ROS: they are the record \<open>dec_env\<close> over a world \<open>'w\<close>.
  The argument \<open>active\<close> of a tick is \<open>BT::isStatusActive(status())\<close> on entry; a final \<open>return status()\<close>
  returns the RUNNING that \<open>setStatus\<close> has just stored. A port that cannot be read is \<open>None\<close> and
  leaves the variable as it was.
\<close>

section \<open>The environment of a decorator\<close>

record 'w dec_env =
  child_status :: "'w \<Rightarrow> node_status"
  child_executeTick :: "'w \<Rightarrow> node_status \<times> 'w"
  resetChild :: "'w \<Rightarrow> 'w"
  clock_now :: "'w \<Rightarrow> time_ns \<times> 'w"
  tf_transform :: "'w tf_transform"
  smoother :: "'w \<Rightarrow> odom_smoother"
  port_goal :: "'w \<Rightarrow> pose_stamped option"
  port_goals :: "'w \<Rightarrow> goals option"

definition read_port :: "'a option \<Rightarrow> 'a \<Rightarrow> 'a" where
  "read_port v old = (case v of None \<Rightarrow> old | Some x \<Rightarrow> x)"

definition default_goals :: goals where
  "default_goals = \<lparr>goals_header = default_header, goal_list = []\<rparr>"

section \<open>RateController\<close>

text \<open>\<open>period\<close> is \<open>1.0 / hz\<close>; \<open>None\<close> is the infinite quotient of \<open>hz = 0\<close>, which no elapsed time reaches.\<close>

record rate_controller =
  rate_start :: time_ns
  rate_period :: "double option"
  rate_first_time :: bool

definition rate_initialize :: "double option \<Rightarrow> rate_controller \<Rightarrow> rate_controller" where
  "rate_initialize hz_port c =
     (let hz = read_port hz_port 1 in c\<lparr>rate_period := (if hz = 0 then None else Some (1 / hz))\<rparr>)"

definition period_reached :: "double option \<Rightarrow> duration_ns \<Rightarrow> bool" where
  "period_reached p elapsed = (case p of None \<Rightarrow> False | Some s \<Rightarrow> seconds elapsed \<ge> s)"

definition rate_activate ::
  "'w dec_env \<Rightarrow> double option \<Rightarrow> bool \<Rightarrow> rate_controller \<Rightarrow> 'w \<Rightarrow> rate_controller \<times> 'w" where
  "rate_activate env hz_port active c w =
     (if \<not> active then
        (let (t, w1) = clock_now env w in
         ((rate_initialize hz_port c)\<lparr>rate_start := t, rate_first_time := True\<rparr>, w1))
      else (c, w))"

definition rate_tick ::
  "'w dec_env \<Rightarrow> double option \<Rightarrow> bool \<Rightarrow> rate_controller \<Rightarrow> 'w \<Rightarrow> node_status \<times> rate_controller \<times> 'w" where
  "rate_tick env hz_port active c w =
     (let (c1, w1) = rate_activate env hz_port active c w;
          (now, w2) = clock_now env w1;
          elapsed = now - rate_start c1
      in if rate_first_time c1 \<or> child_status env w2 = RUNNING \<or> period_reached (rate_period c1) elapsed then
           (let c2 = c1\<lparr>rate_first_time := False\<rparr>;
                (child_state, w3) = child_executeTick env w2
            in case child_state of
                 SKIPPED \<Rightarrow> (SKIPPED, c2, w3)
               | RUNNING \<Rightarrow> (RUNNING, c2, w3)
               | FAILURE \<Rightarrow> (FAILURE, c2, w3)
               | SUCCESS \<Rightarrow> (let (t, w4) = clock_now env w3 in (SUCCESS, c2\<lparr>rate_start := t\<rparr>, w4))
               | IDLE \<Rightarrow> (FAILURE, c2, w3))
         else (RUNNING, c1, w2))"

section \<open>DistanceController\<close>

record distance_controller =
  dc_start_pose :: pose_stamped
  dc_distance :: double
  dc_global_frame :: string
  dc_robot_base_frame :: string
  dc_transform_tolerance :: double
  dc_first_time :: bool

definition dc_current_pose ::
  "'w dec_env \<Rightarrow> distance_controller \<Rightarrow> 'w \<Rightarrow> (bool \<times> pose_stamped) \<times> 'w" where
  "dc_current_pose env c w =
     getCurrentPose (tf_transform env) (dc_global_frame c) (dc_robot_base_frame c) (dc_transform_tolerance c) 0 w"

text \<open>Storing the current pose in \<open>start_pose_\<close>; the flag is the result of \<open>getCurrentPose\<close>.\<close>

definition dc_store_start ::
  "'w dec_env \<Rightarrow> distance_controller \<Rightarrow> 'w \<Rightarrow> bool \<times> distance_controller \<times> 'w" where
  "dc_store_start env c w =
     (let ((ok, p), w1) = dc_current_pose env c w in (ok, c\<lparr>dc_start_pose := p\<rparr>, w1))"

definition distance_run_child ::
  "'w dec_env \<Rightarrow> distance_controller \<Rightarrow> 'w \<Rightarrow> node_status \<times> distance_controller \<times> 'w" where
  "distance_run_child env c w =
     (let c1 = c\<lparr>dc_first_time := False\<rparr>;
          (child_state, w1) = child_executeTick env w
      in case child_state of
           SKIPPED \<Rightarrow> (SKIPPED, c1, w1)
         | RUNNING \<Rightarrow> (RUNNING, c1, w1)
         | SUCCESS \<Rightarrow>
             (let (ok, c2, w2) = dc_store_start env c1 w1 in (if ok then SUCCESS else FAILURE, c2, w2))
         | FAILURE \<Rightarrow> (FAILURE, c1, w1)
         | IDLE \<Rightarrow> (FAILURE, c1, w1))"

definition distance_tick ::
  "'w dec_env \<Rightarrow> bool \<Rightarrow> distance_controller \<Rightarrow> 'w \<Rightarrow> node_status \<times> distance_controller \<times> 'w" where
  "distance_tick env active c w =
     (let (ok, c1, w1) =
        (if \<not> active then
           (let (ok, c0, w0) = dc_store_start env c w in
            (ok, if ok then c0\<lparr>dc_first_time := True\<rparr> else c0, w0))
         else (True, c, w))
      in if \<not> ok then (FAILURE, c1, w1)
         else
           (let ((ok2, current_pose), w2) = dc_current_pose env c1 w1 in
            if \<not> ok2 then (FAILURE, c1, w2)
            else
              (let travelled = euclidean_distance_pose (ps_pose (dc_start_pose c1)) (ps_pose current_pose) True in
               if dc_first_time c1 \<or> child_status env w2 = RUNNING \<or> travelled \<ge> dc_distance c1
               then distance_run_child env c1 w2
               else (RUNNING, c1, w2))))"

section \<open>SingleTrigger\<close>

record single_trigger =
  trigger_first_time :: bool

definition trigger_tick ::
  "'w dec_env \<Rightarrow> bool \<Rightarrow> single_trigger \<Rightarrow> 'w \<Rightarrow> node_status \<times> single_trigger \<times> 'w" where
  "trigger_tick env active c w =
     (let c1 = (if \<not> active then c\<lparr>trigger_first_time := True\<rparr> else c) in
      if trigger_first_time c1 then
        (let (child_state, w1) = child_executeTick env w in
         case child_state of
           SKIPPED \<Rightarrow> (SKIPPED, c1, w1)
         | RUNNING \<Rightarrow> (RUNNING, c1, w1)
         | FAILURE \<Rightarrow> (FAILURE, c1\<lparr>trigger_first_time := False\<rparr>, w1)
         | SUCCESS \<Rightarrow> (SUCCESS, c1\<lparr>trigger_first_time := False\<rparr>, w1)
         | IDLE \<Rightarrow> (FAILURE, c1\<lparr>trigger_first_time := False\<rparr>, w1))
      else (FAILURE, c1, w))"

section \<open>GoalUpdatedController\<close>

record goal_updated_controller =
  goal_was_updated :: bool
  guc_goal :: pose_stamped
  guc_goals :: goals

definition goal_updated_tick ::
  "'w dec_env \<Rightarrow> bool \<Rightarrow> goal_updated_controller \<Rightarrow> 'w \<Rightarrow> node_status \<times> goal_updated_controller \<times> 'w" where
  "goal_updated_tick env active c w =
     (let c1 = (if \<not> active then
          c\<lparr>guc_goals := read_port (port_goals env w) (guc_goals c),
            guc_goal := read_port (port_goal env w) (guc_goal c), goal_was_updated := True\<rparr>
        else c);
          current_goals = read_port (port_goals env w) default_goals;
          current_goal = read_port (port_goal env w) default_pose_stamped;
          c2 = (if guc_goal c1 \<noteq> current_goal \<or> guc_goals c1 \<noteq> current_goals
                then c1\<lparr>guc_goal := current_goal, guc_goals := current_goals, goal_was_updated := True\<rparr>
                else c1)
      in if child_status env w = RUNNING \<or> goal_was_updated c2 then
           (let (s, w1) = child_executeTick env w in (s, c2\<lparr>goal_was_updated := False\<rparr>, w1))
         else (RUNNING, c2, w))"

section \<open>GoalUpdater\<close>

text \<open>
  The subscriptions and the callback queue belong to rclcpp: \<open>tick\<close> takes the messages that
  \<open>spin_all\<close> delivers. The second component of the result is the pair of output ports.
\<close>

record goal_updater =
  last_goal_received :: pose_stamped
  last_goal_received_set :: bool
  last_goals_received :: goals
  last_goals_received_set :: bool

definition callback_updated_goal :: "pose_stamped \<Rightarrow> goal_updater \<Rightarrow> goal_updater" where
  "callback_updated_goal msg u = u\<lparr>last_goal_received := msg, last_goal_received_set := True\<rparr>"

definition callback_updated_goals :: "goals \<Rightarrow> goal_updater \<Rightarrow> goal_updater" where
  "callback_updated_goals msg u = u\<lparr>last_goals_received := msg, last_goals_received_set := True\<rparr>"

definition goal_output :: "goal_updater \<Rightarrow> pose_stamped \<Rightarrow> pose_stamped" where
  "goal_output u goal =
     (if last_goal_received_set u then
        (if stamp (ps_header (last_goal_received u)) = 0 then goal
         else if stamp (ps_header (last_goal_received u)) \<ge> stamp (ps_header goal) then last_goal_received u
         else goal)
      else goal)"

definition goals_output :: "goal_updater \<Rightarrow> goals \<Rightarrow> goals" where
  "goals_output u gs =
     (if last_goals_received_set u then
        (if goal_list (last_goals_received u) = [] then gs
         else if stamp (goals_header (last_goals_received u)) = 0 then gs
         else if stamp (goals_header (last_goals_received u)) \<ge> stamp (goals_header gs) then last_goals_received u
         else gs)
      else gs)"

definition goal_updater_tick ::
  "'w dec_env \<Rightarrow> (pose_stamped + goals) list \<Rightarrow> goal_updater \<Rightarrow> 'w \<Rightarrow>
    (node_status \<times> pose_stamped \<times> goals) \<times> goal_updater \<times> 'w" where
  "goal_updater_tick env msgs u w =
     (let goal = read_port (port_goal env w) default_pose_stamped;
          gs = read_port (port_goals env w) default_goals;
          u1 = fold (\<lambda>m. case m of Inl g \<Rightarrow> callback_updated_goal g | Inr g \<Rightarrow> callback_updated_goals g) msgs u;
          (s, w1) = child_executeTick env w
      in ((s, goal_output u1 goal, goals_output u1 gs), u1, w1))"

section \<open>PathLongerOnApproach\<close>

record path_longer =
  new_path :: path
  old_path :: path
  prox_len :: double
  length_factor :: double
  plo_first_time :: bool

definition isPathUpdated :: "path \<Rightarrow> path \<Rightarrow> bool" where
  "isPathUpdated newp oldp \<longleftrightarrow>
     length (poses oldp) \<noteq> 0 \<and> length (poses newp) \<noteq> 0 \<and> length (poses newp) \<noteq> length (poses oldp) \<and>
     ps_position (last (poses oldp)) = ps_position (last (poses newp))"

definition isRobotInGoalProximity :: "path \<Rightarrow> double \<Rightarrow> bool" where
  "isRobotInGoalProximity oldp prox_leng \<longleftrightarrow> calculate_path_length oldp 0 < prox_leng"

definition isNewPathLonger :: "path \<Rightarrow> path \<Rightarrow> double \<Rightarrow> bool" where
  "isNewPathLonger newp oldp factor \<longleftrightarrow> calculate_path_length newp 0 > factor * calculate_path_length oldp 0"

definition path_longer_tick ::
  "'w dec_env \<Rightarrow> path option \<times> double option \<times> double option \<Rightarrow> path_longer \<Rightarrow> 'w \<Rightarrow>
    node_status \<times> path_longer \<times> 'w" where
  "path_longer_tick env ports c w =
     (let (path_port, prox_port, factor_port) = ports;
          c0 = c\<lparr>new_path := read_port path_port (new_path c), prox_len := read_port prox_port (prox_len c),
                length_factor := read_port factor_port (length_factor c)\<rparr>;
          c1 = (if \<not> plo_first_time c0 \<and>
                  (poses (old_path c0) = [] \<or> poses (new_path c0) = [] \<or>
                   ps_pose (last (poses (old_path c0))) \<noteq> ps_pose (last (poses (new_path c0))))
                then c0\<lparr>plo_first_time := True\<rparr> else c0)
      in if isPathUpdated (new_path c1) (old_path c1) \<and> isRobotInGoalProximity (old_path c1) (prox_len c1) \<and>
            isNewPathLonger (new_path c1) (old_path c1) (length_factor c1) \<and> \<not> plo_first_time c1
         then (let (child_state, w1) = child_executeTick env w in
               case child_state of
                 SKIPPED \<Rightarrow> (SKIPPED, c1, w1)
               | RUNNING \<Rightarrow> (RUNNING, c1, w1)
               | SUCCESS \<Rightarrow> (SUCCESS, c1\<lparr>old_path := new_path c1\<rparr>, resetChild env w1)
               | FAILURE \<Rightarrow> (FAILURE, c1\<lparr>old_path := new_path c1\<rparr>, resetChild env w1)
               | IDLE \<Rightarrow> (FAILURE, c1\<lparr>old_path := new_path c1\<rparr>, w1))
         else (SUCCESS, c1\<lparr>old_path := new_path c1, plo_first_time := False\<rparr>, w))"

section \<open>SpeedController\<close>

record speed_controller =
  sc_start :: time_ns
  sc_first_tick :: bool
  sc_period :: double
  sc_min_rate :: double
  sc_max_rate :: double
  sc_d_rate :: double
  sc_min_speed :: double
  sc_max_speed :: double
  sc_d_speed :: double
  sc_goal :: pose_stamped
  sc_goals :: goals

definition speed_controller_new ::
  "double option \<Rightarrow> double option \<Rightarrow> double option \<Rightarrow> double option \<Rightarrow> bt_exn + speed_controller" where
  "speed_controller_new min_rate max_rate min_speed max_speed =
     (let r0 = read_port min_rate (1 / 10); r1 = read_port max_rate 1;
          s0 = read_port min_speed 0; s1 = read_port max_speed (1 / 2)
      in if r0 \<le> 0 \<or> r1 \<le> 0 then Inl BehaviorTreeException
         else Inr \<lparr>sc_start = 0, sc_first_tick = False, sc_period = 1, sc_min_rate = r0, sc_max_rate = r1,
           sc_d_rate = r1 - r0, sc_min_speed = s0, sc_max_speed = s1, sc_d_speed = s1 - s0,
           sc_goal = default_pose_stamped, sc_goals = default_goals\<rparr>)"

definition getScaledRate :: "speed_controller \<Rightarrow> double \<Rightarrow> double" where
  "getScaledRate c speed =
     max (min ((speed - sc_min_speed c) / sc_d_speed c * sc_d_rate c + sc_min_rate c) (sc_max_rate c)) (sc_min_rate c)"

definition updatePeriod :: "odom_smoother \<Rightarrow> speed_controller \<Rightarrow> speed_controller" where
  "updatePeriod sm c =
     (let velocity = getTwist sm;
          speed = hypot2 (px (linear velocity)) (py (linear velocity))
      in c\<lparr>sc_period := 1 / getScaledRate c speed\<rparr>)"

text \<open>The restart on activation and on a new goal.\<close>

definition speed_restart :: "'w dec_env \<Rightarrow> speed_controller \<Rightarrow> 'w \<Rightarrow> speed_controller \<times> 'w" where
  "speed_restart env c w =
     (let (t, w1) = clock_now env w in
      (c\<lparr>sc_period := 1 / sc_max_rate c, sc_start := t, sc_first_tick := True\<rparr>, w1))"

definition speed_prepare :: "'w dec_env \<Rightarrow> bool \<Rightarrow> speed_controller \<Rightarrow> 'w \<Rightarrow> speed_controller \<times> 'w" where
  "speed_prepare env active c w =
     (let (c1, w1) =
        (if \<not> active then
           speed_restart env (c\<lparr>sc_goals := read_port (port_goals env w) (sc_goals c),
             sc_goal := read_port (port_goal env w) (sc_goal c)\<rparr>) w
         else (c, w));
          current_goals = read_port (port_goals env w1) default_goals;
          current_goal = read_port (port_goal env w1) default_pose_stamped
      in if sc_goal c1 \<noteq> current_goal \<or> sc_goals c1 \<noteq> current_goals then
           (let (c2, w2) = speed_restart env c1 w1 in (c2\<lparr>sc_goal := current_goal, sc_goals := current_goals\<rparr>, w2))
         else (c1, w1))"

definition speed_tick ::
  "'w dec_env \<Rightarrow> bool \<Rightarrow> speed_controller \<Rightarrow> 'w \<Rightarrow> node_status \<times> speed_controller \<times> 'w" where
  "speed_tick env active c w =
     (let (c1, w1) = speed_prepare env active c w;
          (now, w2) = clock_now env w1;
          elapsed = now - sc_start c1
      in if sc_first_tick c1 \<or> child_status env w2 = RUNNING \<or> seconds elapsed \<ge> sc_period c1 then
           (let c2 = c1\<lparr>sc_first_tick := False\<rparr>;
                (c3, w3) = (if seconds elapsed \<ge> sc_period c2 then
                    (let (t, v) = clock_now env w2 in ((updatePeriod (smoother env w2) c2)\<lparr>sc_start := t\<rparr>, v))
                  else (c2, w2));
                (s, w4) = child_executeTick env w3
            in (s, c3, w4))
         else (RUNNING, c1, w2))"

end
