(* ===== verification/BT_Decorators_Props.thy ===== *)
theory BT_Decorators_Props
  imports BT_Decorators
begin

text \<open>
  What the decorators promise over a sequence of ticks: \<open>RateController\<close> spaces the successes of its
  child, \<open>SpeedController\<close> keeps its period within its configured rates, \<open>SingleTrigger\<close> runs
  its child to completion once, and \<open>GoalUpdater\<close> never replaces a goal by an older one.
\<close>

section \<open>Time in the environment\<close>

text \<open>
  The documented behaviour of the clock and of a child node: \<open>T w\<close> is the true time in the world
  \<open>w\<close>, the clock reads it, it does not run backwards, and the status of a child is what its last execution
  returned.
\<close>

locale timed_env =
  fixes env :: "'w dec_env" and T :: "'w \<Rightarrow> time_ns"
  assumes clock_reads: "clock_now env w = (t, w') \<Longrightarrow> T w \<le> t \<and> t \<le> T w' \<and> child_status env w' = child_status env w"
    and child_returns: "child_executeTick env w = (s, w') \<Longrightarrow> T w \<le> T w' \<and> child_status env w' = s"
begin

text \<open>While the child is running, the period had elapsed when it was started.\<close>

definition rate_inv :: "double \<Rightarrow> rate_controller \<Rightarrow> 'w \<Rightarrow> bool" where
  "rate_inv p c w \<longleftrightarrow> rate_period c = Some p \<and> \<not> rate_first_time c \<and>
     (child_status env w = RUNNING \<longrightarrow> p \<le> seconds (T w - rate_start c))"

lemma seconds_later: "p \<le> seconds (t - a) \<Longrightarrow> t \<le> t' \<Longrightarrow> p \<le> seconds (t' - a)"
  by (meson diff_right_mono order_trans seconds_mono)

lemma rate_tick_inv:
  assumes inv: "rate_inv p c w" and tick: "rate_tick env hz True c w = (s, c', w')"
  shows "rate_inv p c' w' \<and> (s = SUCCESS \<longrightarrow> p \<le> seconds (rate_start c' - rate_start c)) \<and>
    (s \<noteq> SUCCESS \<longrightarrow> rate_start c' = rate_start c)"
proof -
  obtain now w2 where n: "clock_now env w = (now, w2)"
    by (rule prod.exhaust)
  note cn = clock_reads [OF n]
  show ?thesis
  proof (cases "child_status env w2 = RUNNING \<or> p \<le> seconds (now - rate_start c)")
    case False
    then show ?thesis
      using tick inv n cn by (auto simp: rate_tick_def rate_activate_def rate_inv_def period_reached_def)
  next
    case True
    then have el: "p \<le> seconds (T w2 - rate_start c)"
      using inv cn seconds_later [of p "T w" "rate_start c" "T w2"] seconds_later [of p now "rate_start c" "T w2"]
      by (auto simp: rate_inv_def)
    obtain cs w3 where ch: "child_executeTick env w2 = (cs, w3)"
      by (rule prod.exhaust)
    obtain t w4 where t: "clock_now env w3 = (t, w4)"
      by (rule prod.exhaust)
    note ct = child_returns [OF ch] and tt = clock_reads [OF t]
    have el3: "p \<le> seconds (T w3 - rate_start c)" "p \<le> seconds (t - rate_start c)"
      using el ct tt seconds_later by blast+
    have "period_reached (rate_period c) (now - rate_start c) \<or> child_status env w2 = RUNNING"
      using True inv by (auto simp: period_reached_def rate_inv_def)
    then show ?thesis
      using tick inv n ch t ct tt el3
      by (cases cs) (auto simp: rate_tick_def rate_activate_def rate_inv_def)
  qed
qed

end

fun rate_run :: "'w dec_env \<Rightarrow> nat \<Rightarrow> rate_controller \<Rightarrow> 'w \<Rightarrow> time_ns list" where
  "rate_run env 0 c w = []"
| "rate_run env (Suc n) c w =
     (let (s, c1, w1) = rate_tick env None True c w in
      (if s = SUCCESS then [rate_start c1] else []) @ rate_run env n c1 w1)"

definition period_spaced :: "double \<Rightarrow> time_ns list \<Rightarrow> bool" where
  "period_spaced p ts \<longleftrightarrow> (\<forall>i. Suc i < length ts \<longrightarrow> p \<le> seconds (ts ! Suc i - ts ! i))"

lemma period_spaced_Cons: "period_spaced p (a # b # ts) \<longleftrightarrow> p \<le> seconds (b - a) \<and> period_spaced p (b # ts)"
  by (auto simp: period_spaced_def nth_Cons split: nat.splits)

lemma period_spaced_single [simp]: "period_spaced p [a]"
  by (simp add: period_spaced_def)

context timed_env
begin

lemma rate_run_spaced: "rate_inv p c w \<Longrightarrow> period_spaced p (rate_start c # rate_run env n c w)"
proof (induction n arbitrary: c w)
  case (Suc n)
  obtain s c1 w1 where tick: "rate_tick env None True c w = (s, c1, w1)"
    by (metis prod.exhaust)
  from rate_tick_inv [OF Suc(2) tick] Suc(1) [of c1 w1] show ?case
    by (auto simp: tick period_spaced_Cons)
qed simp

end

section \<open>A simulated environment\<close>

text \<open>The world is the time and the child's status; executing the child takes a second and succeeds.\<close>

definition sim_env :: "(time_ns \<times> node_status) dec_env" where
  "sim_env = \<lparr>child_status = snd, child_executeTick = (\<lambda>(t, _). (SUCCESS, t + 1000000000, SUCCESS)),
     resetChild = (\<lambda>(t, _). (t, IDLE)), clock_now = (\<lambda>(t, s). (t, t + 500000000, s)),
     tf_transform = (\<lambda>p f d w. (Some p, w)), smoother = (\<lambda>_. odom_smoother_init 0),
     port_goal = (\<lambda>_. None), port_goals = (\<lambda>_. None)\<rparr>"

interpretation sim: timed_env sim_env fst
  by unfold_locales (auto simp: sim_env_def)

section \<open>SpeedController\<close>

definition speed_ok :: "speed_controller \<Rightarrow> bool" where
  "speed_ok c \<longleftrightarrow> 0 < sc_min_rate c \<and> sc_min_rate c \<le> sc_max_rate c \<and>
     1 / sc_max_rate c \<le> sc_period c \<and> sc_period c \<le> 1 / sc_min_rate c"

lemma getScaledRate_range:
  "sc_min_rate c \<le> sc_max_rate c \<Longrightarrow> sc_min_rate c \<le> getScaledRate c v \<and> getScaledRate c v \<le> sc_max_rate c"
  by (simp add: getScaledRate_def)

lemma updatePeriod_ok:
  assumes "0 < sc_min_rate c" and "sc_min_rate c \<le> sc_max_rate c"
  shows "speed_ok (updatePeriod sm c)"
proof -
  have "1 / sc_max_rate c \<le> 1 / getScaledRate c v \<and> 1 / getScaledRate c v \<le> 1 / sc_min_rate c" for v
    using getScaledRate_range [OF assms(2), of v] assms(1) by (auto intro!: divide_left_mono mult_pos_pos)
  then show ?thesis
    using assms by (simp add: speed_ok_def updatePeriod_def Let_def getScaledRate_def)
qed

definition same_rates :: "speed_controller \<Rightarrow> speed_controller \<Rightarrow> bool" where
  "same_rates c d \<longleftrightarrow> sc_min_rate c = sc_min_rate d \<and> sc_max_rate c = sc_max_rate d"

lemma speed_ok_upd [simp]:
  "speed_ok (c\<lparr>sc_start := t\<rparr>) = speed_ok c" "speed_ok (c\<lparr>sc_first_tick := b\<rparr>) = speed_ok c"
  "same_rates (c\<lparr>sc_start := t\<rparr>) d = same_rates c d" "same_rates (c\<lparr>sc_first_tick := b\<rparr>) d = same_rates c d"
  "speed_ok (c\<lparr>sc_goal := g\<rparr>) = speed_ok c" "speed_ok (c\<lparr>sc_goals := gs\<rparr>) = speed_ok c"
  "updatePeriod sm (c\<lparr>sc_first_tick := b\<rparr>) = (updatePeriod sm c)\<lparr>sc_first_tick := b\<rparr>"
  by (simp_all add: speed_ok_def same_rates_def updatePeriod_def Let_def getScaledRate_def)

lemma speed_restart_ok:
  assumes "speed_restart env c w = (c', w')" and "0 < sc_min_rate c" and "sc_min_rate c \<le> sc_max_rate c"
  shows "speed_ok c' \<and> same_rates c' c"
  using assms by (auto simp: speed_restart_def speed_ok_def same_rates_def divide_left_mono split: prod.splits)

lemma speed_prepare_ok:
  assumes "speed_prepare env active c w = (c', w')" and "0 < sc_min_rate c" and "sc_min_rate c \<le> sc_max_rate c"
    and "\<not> active \<or> speed_ok c"
  shows "speed_ok c' \<and> same_rates c' c"
proof -
  let ?c = "c\<lparr>sc_goals := read_port (port_goals env w) (sc_goals c), sc_goal := read_port (port_goal env w) (sc_goal c)\<rparr>"
  define step where "step = (if \<not> active then speed_restart env ?c w else (c, w))"
  obtain c1 w1 where s: "step = (c1, w1)"
    by (rule prod.exhaust)
  obtain c2 w2 where r: "speed_restart env c1 w1 = (c2, w2)"
    by (rule prod.exhaust)
  have c1: "speed_ok c1 \<and> same_rates c1 c"
    using s assms(2-4) speed_restart_ok [of env ?c w c1 w1]
    by (cases active) (auto simp: step_def same_rates_def)
  then have c2: "speed_ok c2 \<and> same_rates c2 c1"
    using speed_restart_ok [OF r] by (simp add: speed_ok_def)
  have "speed_prepare env active c w =
    (if sc_goal c1 \<noteq> read_port (port_goal env w1) default_pose_stamped \<or>
        sc_goals c1 \<noteq> read_port (port_goals env w1) default_goals
     then (c2\<lparr>sc_goal := read_port (port_goal env w1) default_pose_stamped,
             sc_goals := read_port (port_goals env w1) default_goals\<rparr>, w2)
     else (c1, w1))"
    unfolding speed_prepare_def s [unfolded step_def] Let_def by (simp only: prod.case r)
  then show ?thesis
    using assms(1) c1 c2 by (auto simp: same_rates_def split: if_splits)
qed

lemma speed_tick_ok:
  assumes "speed_tick env active c w = (s, c', w')" and "0 < sc_min_rate c" and "sc_min_rate c \<le> sc_max_rate c"
    and "\<not> active \<or> speed_ok c"
  shows "speed_ok c' \<and> same_rates c' c"
proof -
  obtain c1 w1 where p: "speed_prepare env active c w = (c1, w1)"
    by (rule prod.exhaust)
  have c1: "speed_ok c1 \<and> same_rates c1 c"
    by (rule speed_prepare_ok [OF p assms(2-4)])
  have upd: "speed_ok (updatePeriod sm c1)" "same_rates (updatePeriod sm c1) c" for sm
    using updatePeriod_ok [of c1 sm] c1 by (auto simp: speed_ok_def same_rates_def updatePeriod_def Let_def)
  show ?thesis
    using assms(1) p c1 upd by (auto simp: speed_tick_def Let_def split: if_splits prod.splits)
qed

fun speed_run :: "'w dec_env \<Rightarrow> bool list \<Rightarrow> speed_controller \<Rightarrow> 'w \<Rightarrow> speed_controller \<times> 'w" where
  "speed_run env [] c w = (c, w)"
| "speed_run env (a # as) c w = (let (_, c1, w1) = speed_tick env a c w in speed_run env as c1 w1)"

lemma speed_run_ok:
  "speed_ok c \<Longrightarrow> speed_ok (fst (speed_run env as c w)) \<and> same_rates (fst (speed_run env as c w)) c"
proof (induction as arbitrary: c w)
  case (Cons a as)
  obtain s c1 w1 where t: "speed_tick env a c w = (s, c1, w1)"
    by (metis prod.exhaust)
  then show ?case
    using Cons(1) [of c1 w1] speed_tick_ok [OF t] Cons(2) by (auto simp: speed_ok_def same_rates_def)
qed (simp add: same_rates_def)

section \<open>SingleTrigger and GoalUpdater\<close>

lemma trigger_completed:
  assumes "trigger_tick env active c w = (s, c', w')" and "s = SUCCESS \<or> s = FAILURE"
  shows "trigger_tick env True c' w' = (FAILURE, c', w')"
  using assms
  by (auto simp: trigger_tick_def Let_def split: if_splits prod.splits node_status.splits)

lemma goal_output_not_older:
  "stamp (ps_header goal) \<le> stamp (ps_header (goal_output u goal))"
  "stamp (goals_header gs) \<le> stamp (goals_header (goals_output u gs))"
  by (simp_all add: goal_output_def goals_output_def)

section \<open>Properties\<close>

text \<open>\<open>RateController\<close>: while the node stays active, two successes of its child are at least one period
  apart, however long the child runs and however often it fails or is skipped in between.
  The clock and the child only have to behave as documented.\<close>

theorem rate_controller_spacing:
  assumes "timed_env env T" and "rate_period c = Some p" and "\<not> rate_first_time c"
    and "child_status env w \<noteq> RUNNING"
  shows "period_spaced p (rate_start c # rate_run env n c w)"
  by (rule timed_env.rate_run_spaced [OF assms(1)]) (simp add: timed_env.rate_inv_def [OF assms(1)] assms)

theorem rate_controller_spacing_witness:
  "period_spaced 2 (0 # rate_run sim_env 9 \<lparr>rate_start = 0, rate_period = Some 2, rate_first_time = False\<rparr> (0, IDLE))"
  using rate_controller_spacing [OF sim.timed_env_axioms,
      of "\<lparr>rate_start = 0, rate_period = Some 2, rate_first_time = False\<rparr>" 2 "(0, IDLE)" 9]
  by (simp add: sim_env_def)

text \<open>\<open>SpeedController\<close>: a node built from ports with \<open>min_rate \<le> max_rate\<close> keeps its period between
  \<open>1 / max_rate\<close> and \<open>1 / min_rate\<close> after every sequence of ticks that starts with an activation, whatever the odometry, the goals
  and the clock do; and the constructor refuses non-positive rates.\<close>

theorem speed_controller_period:
  assumes "speed_controller_new (Some r0) (Some r1) s0 s1 = Inr c" and "r0 \<le> r1"
  shows "0 < r0 \<and> 1 / r1 \<le> sc_period (fst (speed_run env (False # as) c w)) \<and>
    sc_period (fst (speed_run env (False # as) c w)) \<le> 1 / r0"
proof -
  have c: "sc_min_rate c = r0" "sc_max_rate c = r1" and r0: "0 < r0"
    using assms(1) by (auto simp: speed_controller_new_def read_port_def Let_def split: if_splits)
  obtain s c1 w1 where t: "speed_tick env False c w = (s, c1, w1)"
    by (metis prod.exhaust)
  have "speed_ok c1 \<and> same_rates c1 c"
    using speed_tick_ok [OF t] c r0 assms(2) by simp
  then have "speed_ok (fst (speed_run env as c1 w1)) \<and> same_rates (fst (speed_run env as c1 w1)) c"
    using speed_run_ok [of c1 env as w1] by (simp add: same_rates_def)
  then show ?thesis
    using c t r0 by (auto simp: speed_ok_def same_rates_def)
qed

definition sim_speed :: speed_controller where
  "sim_speed = \<lparr>sc_start = 0, sc_first_tick = False, sc_period = 1, sc_min_rate = 2, sc_max_rate = 4,
     sc_d_rate = 2, sc_min_speed = 0, sc_max_speed = 1 / 2, sc_d_speed = 1 / 2,
     sc_goal = default_pose_stamped, sc_goals = default_goals\<rparr>"

theorem speed_controller_period_witness:
  "1 / 4 \<le> sc_period (fst (speed_run sim_env [False, True, True] sim_speed (0, IDLE)))"
  using speed_controller_period [of 2 4 None None sim_speed sim_env "[True, True]" "(0, IDLE)"]
  by (simp del: speed_run.simps add: speed_controller_new_def sim_speed_def read_port_def Let_def)

end
