(* ===== verification/BT_Server.thy ===== *)
theory BT_Server
  imports BT_Control Nav3d_Util Action_Server_Threads "HOL-Library.Word"
begin

text \<open>
  \<open>BtActionServer\<close> (\<open>bt_action_server.hpp\<close>, \<open>bt_action_server_impl.hpp\<close>), the action server that answers a goal by
  running a behaviour tree, with \<open>BehaviorTreeEngine::run\<close> (\<open>behavior_tree_engine.cpp\<close>) and \<open>LoopRate\<close>
  (\<open>loop_rate.hpp\<close>). The blackboard and the tree belong to BehaviorTree.CPP: the blackboard is the record
  \<open>blackboard_api\<close> over a type \<open>'b\<close> with the locale \<open>blackboard_laws\<close>; what a tick of the tree does is
  part of the cycles the engine runs. The server state is a record that the navigators extend with their own members.
\<close>

section \<open>The blackboard\<close>

record waypoint_status =
  wp_status :: nat
  wp_index :: nat
  wp_pose :: pose_stamped

record 'b blackboard_api =
  bb_get_int :: "'b \<Rightarrow> string \<Rightarrow> int option"
  bb_get_string :: "'b \<Rightarrow> string \<Rightarrow> string option"
  bb_get_pose :: "'b \<Rightarrow> string \<Rightarrow> pose_stamped option"
  bb_get_goals :: "'b \<Rightarrow> string \<Rightarrow> goals option"
  bb_get_path :: "'b \<Rightarrow> string \<Rightarrow> path option"
  bb_get_waypoints :: "'b \<Rightarrow> string \<Rightarrow> waypoint_status list option"
  bb_set_int :: "string \<Rightarrow> int \<Rightarrow> 'b \<Rightarrow> 'b"
  bb_set_string :: "string \<Rightarrow> string \<Rightarrow> 'b \<Rightarrow> 'b"
  bb_set_pose :: "string \<Rightarrow> pose_stamped \<Rightarrow> 'b \<Rightarrow> 'b"
  bb_set_goals :: "string \<Rightarrow> goals \<Rightarrow> 'b \<Rightarrow> 'b"
  bb_set_waypoints :: "string \<Rightarrow> waypoint_status list \<Rightarrow> 'b \<Rightarrow> 'b"

section \<open>The server\<close>

datatype bt_status = SUCCEEDED | FAILED | CANCELED

text \<open>A \<open>std::exception\<close>, or the dereference of a null pointer, which nothing catches.\<close>

datatype nav_exn = Nav_Exception | Nav_Null_Pointer

text \<open>The fields the two navigation results share.\<close>

record nav_result =
  nav_error_code :: "16 word"
  nav_error_msg :: string

record ('h, 'g, 'b, 'w) bt_server =
  action_server :: "('h, 'g) server"
  blackboard :: 'b
  current_bt_xml_filename :: string
  default_bt_xml_filename :: string
  always_reload_bt_xml :: bool
  internal_error_code :: "16 word"
  internal_error_msg :: string
  error_code_name_prefixes :: "string list"
  bt_world :: 'w

subsection \<open>Error codes\<close>

definition setInternalError ::
  "16 word \<Rightarrow> string \<Rightarrow> ('h, 'g, 'b, 'w, 'z) bt_server_scheme \<Rightarrow> ('h, 'g, 'b, 'w, 'z) bt_server_scheme" where
  "setInternalError code msg s = s\<lparr>internal_error_code := code, internal_error_msg := msg\<rparr>"

definition resetInternalError ::
  "('h, 'g, 'b, 'w, 'z) bt_server_scheme \<Rightarrow> ('h, 'g, 'b, 'w, 'z) bt_server_scheme" where
  "resetInternalError s = s\<lparr>internal_error_code := 0, internal_error_msg := []\<rparr>"

definition populateInternalError ::
  "('h, 'g, 'b, 'w, 'z) bt_server_scheme \<Rightarrow> 'y nav_result_scheme \<Rightarrow> bool \<times> 'y nav_result_scheme" where
  "populateInternalError s r =
     (if internal_error_code s \<noteq> 0
      then (True, r\<lparr>nav_error_code := internal_error_code s, nav_error_msg := internal_error_msg s\<rparr>)
      else (False, r))"

definition int_max :: int where
  "int_max = 2147483647"

text \<open>The loop over the prefixes; a look-up that throws is caught and the loop goes on.\<close>

fun populate_loop ::
  "'b blackboard_api \<Rightarrow> 'b \<Rightarrow> string list \<Rightarrow> int \<Rightarrow> string \<Rightarrow> int \<times> string" where
  "populate_loop bb b [] code msg = (code, msg)"
| "populate_loop bb b (p # ps) code msg =
     (case bb_get_int bb b (p @ ''_error_code'') of
        None \<Rightarrow> populate_loop bb b ps code msg
      | Some c \<Rightarrow>
          if c \<noteq> 0 \<and> c < code then
            (case bb_get_string bb b (p @ ''_error_msg'') of
               None \<Rightarrow> populate_loop bb b ps c msg
             | Some m \<Rightarrow> populate_loop bb b ps c m)
          else populate_loop bb b ps code msg)"

definition populateErrorCode ::
  "'b blackboard_api \<Rightarrow> ('h, 'g, 'b, 'w, 'z) bt_server_scheme \<Rightarrow> 'y nav_result_scheme \<Rightarrow> 'y nav_result_scheme" where
  "populateErrorCode bb s r =
     (let (code0, msg0) = (if internal_error_code s \<noteq> 0
                           then (uint (internal_error_code s), internal_error_msg s) else (int_max, []));
          (code, msg) = populate_loop bb (blackboard s) (error_code_name_prefixes s) code0 msg0
      in if code \<noteq> int_max then r\<lparr>nav_error_code := word_of_int code, nav_error_msg := msg\<rparr> else r)"

definition cleanErrorCodes ::
  "'b blackboard_api \<Rightarrow> ('h, 'g, 'b, 'w, 'z) bt_server_scheme \<Rightarrow> ('h, 'g, 'b, 'w, 'z) bt_server_scheme" where
  "cleanErrorCodes bb s =
     resetInternalError (s\<lparr>blackboard :=
       fold (\<lambda>p b. bb_set_string bb (p @ ''_error_msg'') [] (bb_set_int bb (p @ ''_error_code'') 0 b))
         (error_code_name_prefixes s) (blackboard s)\<rparr>)"

subsection \<open>Loading a tree\<close>

text \<open>Opening the file, and building the tree and storing the shared entries on its blackboards.\<close>

record 'w bt_files =
  file_good :: "string \<Rightarrow> 'w \<Rightarrow> bool"
  create_tree :: "string \<Rightarrow> 'w \<Rightarrow> bool \<times> 'w"

definition loadBehaviorTree ::
  "'w bt_files \<Rightarrow> 16 word \<Rightarrow> string \<Rightarrow> ('h, 'g, 'b, 'w, 'z) bt_server_scheme \<Rightarrow>
    bool \<times> ('h, 'g, 'b, 'w, 'z) bt_server_scheme" where
  "loadBehaviorTree files failed_to_load bt_xml_filename s =
     (let filename = (if bt_xml_filename = [] then default_bt_xml_filename s else bt_xml_filename) in
      if \<not> always_reload_bt_xml s \<and> current_bt_xml_filename s = filename then (True, s)
      else if \<not> file_good files filename (bt_world s) then
        (False, setInternalError failed_to_load (''Couldn't open input XML file: '' @ filename) s)
      else
        let (ok, w) = create_tree files filename (bt_world s); s1 = s\<lparr>bt_world := w\<rparr> in
        if \<not> ok then (False, setInternalError failed_to_load ''Exception when loading BT'' s1)
        else (True, s1\<lparr>current_bt_xml_filename := filename\<rparr>))"

definition bts_on_activate ::
  "'w bt_files \<Rightarrow> 16 word \<Rightarrow> ('h, 'g, 'b, 'w, 'z) bt_server_scheme \<Rightarrow>
    bool \<times> ('h, 'g, 'b, 'w, 'z) bt_server_scheme" where
  "bts_on_activate files failed_to_load s =
     (let (ok, s1) = loadBehaviorTree files failed_to_load (default_bt_xml_filename s) (resetInternalError s) in
      if \<not> ok then (False, s1) else (True, s1\<lparr>action_server := activate (action_server s1)\<rparr>))"

section \<open>The engine\<close>

text \<open>
  One cycle of the engine: whether \<open>rclcpp::ok\<close> holds, what other threads do before the check for a
  cancellation, what ticking the tree returns and does, and what other threads do before the two calls of
  \<open>on_loop\<close> on the action server.
\<close>

record 's bt_cycle =
  cy_ok :: bool
  cy_before :: "'s \<Rightarrow> 's"
  cy_tick :: "'s \<Rightarrow> (nav_exn + node_status) \<times> 's"
  cy_mid :: "'s \<Rightarrow> 's"
  cy_pending :: "'s \<Rightarrow> 's"

definition engine_result :: "node_status \<Rightarrow> bt_status" where
  "engine_result r = (if r = SUCCESS then SUCCEEDED else FAILED)"

text \<open>The catch block of \<open>run\<close>.\<close>

definition engine_catch :: "nav_exn \<Rightarrow> nav_exn + bt_status" where
  "engine_catch x = (case x of Nav_Exception \<Rightarrow> Inr FAILED | Nav_Null_Pointer \<Rightarrow> Inl Nav_Null_Pointer)"

text \<open>\<open>run\<close>; \<open>None\<close> says it is still running when the given cycles are used up.\<close>

fun engine_run ::
  "('s \<Rightarrow> bool) \<Rightarrow> ('s bt_cycle \<Rightarrow> 's \<Rightarrow> (nav_exn + unit) \<times> 's) \<Rightarrow> ('s \<Rightarrow> 's) \<Rightarrow> 's bt_cycle list \<Rightarrow>
    node_status \<Rightarrow> 's \<Rightarrow> (nav_exn + bt_status) option \<times> 's" where
  "engine_run canceling onLoop haltTree [] result s =
     (if result \<noteq> RUNNING then Some (Inr (engine_result result)) else None, s)"
| "engine_run canceling onLoop haltTree (e # es) result s =
     (if \<not> cy_ok e \<or> result \<noteq> RUNNING then (Some (Inr (engine_result result)), s)
      else
        let s1 = cy_before e s in
        if canceling s1 then (Some (Inr CANCELED), haltTree s1)
        else case cy_tick e s1 of
          (Inl x, s2) \<Rightarrow> (Some (engine_catch x), s2)
        | (Inr r, s2) \<Rightarrow>
            (case onLoop e s2 of
               (Inl x, s3) \<Rightarrow> (Some (engine_catch x), s3)
             | (Inr _, s3) \<Rightarrow> engine_run canceling onLoop haltTree es r s3))"

text \<open>\<open>LoopRate::sleep\<close> at time \<open>now\<close>: the duration of the sleep, or \<open>None\<close> if the interval was missed.\<close>

record loop_rate =
  lr_period :: duration_ns
  lr_last_interval :: time_ns

definition loop_rate_sleep :: "time_ns \<Rightarrow> loop_rate \<Rightarrow> duration_ns option \<times> loop_rate" where
  "loop_rate_sleep now lr =
     (let next_interval = (if now < lr_last_interval lr then now + lr_period lr
                           else lr_last_interval lr + lr_period lr);
          lr1 = lr\<lparr>lr_last_interval := lr_last_interval lr + lr_period lr\<rparr>
      in if next_interval \<le> now then
           (None, if now > next_interval + lr_period lr
                  then lr1\<lparr>lr_last_interval := now + lr_period lr\<rparr> else lr1)
         else (Some (next_interval - now), lr1))"

section \<open>Executing a goal\<close>

text \<open>The four callbacks a navigator registers; a goal is \<open>None\<close> when the pointer is null.\<close>

record ('a, 'r, 's) bt_callbacks =
  on_goal_received :: "'a option \<Rightarrow> 's \<Rightarrow> (nav_exn + bool) \<times> 's"
  on_loop_callback :: "'s \<Rightarrow> (nav_exn + unit) \<times> 's"
  on_preempt :: "'a option \<Rightarrow> 's \<Rightarrow> (nav_exn + unit) \<times> 's"
  on_completion :: "'r \<Rightarrow> bt_status \<Rightarrow> 's \<Rightarrow> (nav_exn + 'r) \<times> 's"

definition is_canceling ::
  "('h, 'a, 'r, 'g) goal_api \<Rightarrow> ('h, 'g, 'b, 'w, 'z) bt_server_scheme \<Rightarrow> bool" where
  "is_canceling api s =
     (if \<not> server_active (action_server s) then True else is_cancel_requested api (action_server s))"

definition on_loop ::
  "('h, 'a, 'r, 'g) goal_api \<Rightarrow> ('a, 'r, ('h, 'g, 'b, 'w, 'z) bt_server_scheme) bt_callbacks \<Rightarrow>
    ('h, 'g, 'b, 'w, 'z) bt_server_scheme bt_cycle \<Rightarrow> ('h, 'g, 'b, 'w, 'z) bt_server_scheme \<Rightarrow>
    (nav_exn + unit) \<times> ('h, 'g, 'b, 'w, 'z) bt_server_scheme" where
  "on_loop api cbs e s =
     (let s1 = cy_mid e s;
          (x, s3) = (if preempt_requested (action_server s1)
                     then (let s2 = cy_pending e s1
                           in on_preempt cbs (get_pending_goal api (action_server s2)) s2)
                     else (Inr (), s1))
      in case x of Inl y \<Rightarrow> (Inl y, s3) | Inr _ \<Rightarrow> on_loop_callback cbs s3)"

definition settle_goal ::
  "('h, 'a, 'r, 'g) goal_api \<Rightarrow> 'r \<Rightarrow> bt_status \<Rightarrow> ('h, 'g) server \<Rightarrow> ('h, 'g) server" where
  "settle_goal api r rc s =
     (case rc of
        SUCCEEDED \<Rightarrow> succeeded_current api r s
      | FAILED \<Rightarrow> terminate_current api r s
      | CANCELED \<Rightarrow> terminate_all api r s)"

text \<open>
  \<open>executeCallback\<close>. The outcome is \<open>None\<close> while the engine runs, \<open>Inr None\<close> when the goal was not accepted,
  \<open>Inr (Some rc)\<close> when the tree ended with \<open>rc\<close>, and \<open>Inl\<close> for an exception that leaves the callback.
\<close>

definition executeCallback ::
  "('h, 'a, 'y nav_result_scheme, 'g) goal_api \<Rightarrow> 'b blackboard_api \<Rightarrow>
    ('a, 'y nav_result_scheme, ('h, 'g, 'b, 'w, 'z) bt_server_scheme) bt_callbacks \<Rightarrow>
    (('h, 'g, 'b, 'w, 'z) bt_server_scheme \<Rightarrow> ('h, 'g, 'b, 'w, 'z) bt_server_scheme) \<Rightarrow>
    ('h, 'g, 'b, 'w, 'z) bt_server_scheme bt_cycle list \<Rightarrow> ('h, 'g, 'b, 'w, 'z) bt_server_scheme \<Rightarrow>
    (nav_exn + bt_status option) option \<times> ('h, 'g, 'b, 'w, 'z) bt_server_scheme" where
  "executeCallback api bb cbs haltTree cycles s =
     (case on_goal_received cbs (get_current_goal api (action_server s)) s of
        (Inl x, s1) \<Rightarrow> (Some (Inl x), s1)
      | (Inr False, s1) \<Rightarrow>
          (let r = populateErrorCode bb s1 (gh_empty_result api)
           in (Some (Inr None),
               cleanErrorCodes bb (s1\<lparr>action_server := terminate_current api r (action_server s1)\<rparr>)))
      | (Inr True, s1) \<Rightarrow>
          (case engine_run (is_canceling api) (on_loop api cbs) haltTree cycles RUNNING s1 of
             (None, s2) \<Rightarrow> (None, s2)
           | (Some (Inl x), s2) \<Rightarrow> (Some (Inl x), s2)
           | (Some (Inr rc), s2) \<Rightarrow>
               (let s3 = haltTree s2; r = populateErrorCode bb s3 (gh_empty_result api) in
                case on_completion cbs r rc s3 of
                  (Inl x, s4) \<Rightarrow> (Some (Inl x), s4)
                | (Inr r1, s4) \<Rightarrow>
                    (Some (Inr (Some rc)),
                     cleanErrorCodes bb (s4\<lparr>action_server := settle_goal api r1 rc (action_server s4)\<rparr>)))))"

end
