(* ===== verification/Navigators.thy ===== *)
theory Navigators
  imports BT_Server
begin

text \<open>
  The navigators of \<open>nav3d_bt_navigator\<close>: \<open>NavigatorMuxer\<close> and \<open>BehaviorTreeNavigator\<close>
  (\<open>nav3d_core/behavior_tree_navigator.hpp\<close>), \<open>NavigateToPoseNavigator\<close> and
  \<open>NavigateThroughPosesNavigator\<close>. A navigator is its \<open>BtActionServer\<close> with a few members of its own; the
  muxer is shared by all navigators. The clock, the transform buffer, the odometry and the files are
  parameters over the world. The error text of a failed transformation is cut to its constant beginning; that of
  an exception leaves out \<open>what()\<close>.
\<close>

section \<open>NavigatorMuxer\<close>

text \<open>The name of the current navigator; the empty string when there is none.\<close>

type_synonym muxer = string

definition isNavigating :: "muxer \<Rightarrow> bool" where
  "isNavigating m \<longleftrightarrow> m \<noteq> []"

definition startNavigating :: "string \<Rightarrow> muxer \<Rightarrow> muxer" where
  "startNavigating navigator_name m = navigator_name"

definition stopNavigating :: "string \<Rightarrow> muxer \<Rightarrow> muxer" where
  "stopNavigating navigator_name m = (if m \<noteq> navigator_name then m else [])"

section \<open>BehaviorTreeNavigator\<close>

record nav_feedback =
  fb_current_pose :: pose_stamped
  fb_navigation_time :: duration_ns
  fb_estimated_time_remaining :: duration_ns
  fb_number_of_recoveries :: "16 word"
  fb_distance_remaining :: double

record ('h, 'g, 'b, 'w, 'f) navigator = "('h, 'g, 'b, 'w) bt_server" +
  plugin_muxer :: muxer
  nav_start_time :: time_ns
  published_feedback :: "'f list"

record 'w nav_env =
  nav_tf :: "'w tf_transform"
  nav_now :: "'w \<Rightarrow> time_ns \<times> 'w"
  nav_smoother :: "'w \<Rightarrow> odom_smoother"
  nav_from_seconds :: "double \<Rightarrow> duration_ns"
  nav_files :: "'w bt_files"

record nav_config =
  nav_name :: string
  goal_blackboard_id :: string
  goals_blackboard_id :: string
  path_blackboard_id :: string
  waypoint_statuses_blackboard_id :: string
  nav_global_frame :: string
  nav_robot_frame :: string
  nav_transform_tolerance :: double

definition onGoalReceived ::
  "string \<Rightarrow>
   ('a option \<Rightarrow> ('h, 'g, 'b, 'w, 'f) navigator \<Rightarrow> (nav_exn + bool) \<times> ('h, 'g, 'b, 'w, 'f) navigator) \<Rightarrow>
   'a option \<Rightarrow> ('h, 'g, 'b, 'w, 'f) navigator \<Rightarrow> (nav_exn + bool) \<times> ('h, 'g, 'b, 'w, 'f) navigator" where
  "onGoalReceived nm goalReceived goal s =
     (if isNavigating (plugin_muxer s) then (Inr False, s)
      else case goalReceived goal s of
        (Inr True, s1) \<Rightarrow> (Inr True, s1\<lparr>plugin_muxer := startNavigating nm (plugin_muxer s1)\<rparr>)
      | (x, s1) \<Rightarrow> (x, s1))"

definition onCompletion ::
  "string \<Rightarrow>
   ('r \<Rightarrow> bt_status \<Rightarrow> ('h, 'g, 'b, 'w, 'f) navigator \<Rightarrow> (nav_exn + 'r) \<times> ('h, 'g, 'b, 'w, 'f) navigator) \<Rightarrow>
   'r \<Rightarrow> bt_status \<Rightarrow> ('h, 'g, 'b, 'w, 'f) navigator \<Rightarrow> (nav_exn + 'r) \<times> ('h, 'g, 'b, 'w, 'f) navigator" where
  "onCompletion nm goalCompleted r rc s =
     goalCompleted r rc (s\<lparr>plugin_muxer := stopNavigating nm (plugin_muxer s)\<rparr>)"

text \<open>The look-ups and the feedback both navigators share.\<close>

definition nav_current_pose ::
  "nav_config \<Rightarrow> 'w nav_env \<Rightarrow> ('h, 'g, 'b, 'w, 'f) navigator \<Rightarrow>
    (bool \<times> pose_stamped) \<times> ('h, 'g, 'b, 'w, 'f) navigator" where
  "nav_current_pose cfg env s =
     (let (r, w) = getCurrentPose (nav_tf env) (nav_global_frame cfg) (nav_robot_frame cfg)
                     (nav_transform_tolerance cfg) 0 (bt_world s)
      in (r, s\<lparr>bt_world := w\<rparr>))"

definition nav_transform ::
  "nav_config \<Rightarrow> 'w nav_env \<Rightarrow> pose_stamped \<Rightarrow> pose_stamped \<Rightarrow> ('h, 'g, 'b, 'w, 'f) navigator \<Rightarrow>
    (bool \<times> pose_stamped) \<times> ('h, 'g, 'b, 'w, 'f) navigator" where
  "nav_transform cfg env p out s =
     (let (r, w) = transformPoseInTargetFrame (nav_tf env) p out (nav_global_frame cfg)
                     (nav_transform_tolerance cfg) (bt_world s)
      in (r, s\<lparr>bt_world := w\<rparr>))"

definition nav_clock_now ::
  "'w nav_env \<Rightarrow> ('h, 'g, 'b, 'w, 'f) navigator \<Rightarrow> time_ns \<times> ('h, 'g, 'b, 'w, 'f) navigator" where
  "nav_clock_now env s = (let (t, w) = nav_now env (bt_world s) in (t, s\<lparr>bt_world := w\<rparr>))"

text \<open>\<open>find_closest_pose_idx\<close>: the smallest distance so far is \<open>None\<close> for the maximal double.\<close>

fun closest_loop :: "pose_stamped \<Rightarrow> pose_stamped list \<Rightarrow> nat \<Rightarrow> double option \<Rightarrow> nat \<Rightarrow> nat" where
  "closest_loop cur [] i best best_idx = best_idx"
| "closest_loop cur (p # ps) i best best_idx =
     (let d = euclidean_distance_stamped cur p True in
      if (case best of None \<Rightarrow> True | Some b \<Rightarrow> d < b) then closest_loop cur ps (Suc i) (Some d) i
      else closest_loop cur ps (Suc i) best best_idx)"

definition find_closest_pose_idx :: "pose_stamped \<Rightarrow> path \<Rightarrow> nat" where
  "find_closest_pose_idx cur p = closest_loop cur (poses p) 0 None 0"

definition estimate_remaining :: "(double \<Rightarrow> duration_ns) \<Rightarrow> double \<Rightarrow> double \<Rightarrow> duration_ns" where
  "estimate_remaining from_secs distance_remaining speed =
     (if \<bar>speed\<bar> > 1 / 100 \<and> distance_remaining > 1 / 10 then from_secs (distance_remaining / \<bar>speed\<bar>)
      else from_secs 0)"

definition default_feedback :: nav_feedback where
  "default_feedback = \<lparr>fb_current_pose = default_pose_stamped, fb_navigation_time = 0,
     fb_estimated_time_remaining = 0, fb_number_of_recoveries = 0, fb_distance_remaining = 0\<rparr>"

definition path_feedback ::
  "'w nav_env \<Rightarrow> double \<Rightarrow> pose_stamped \<Rightarrow> path option \<Rightarrow> 'z nav_feedback_scheme \<Rightarrow> 'z nav_feedback_scheme" where
  "path_feedback env speed cur path_entry fb =
     (case path_entry of
        None \<Rightarrow> fb
      | Some p \<Rightarrow>
          if poses p = [] then fb
          else
            let d = calculate_path_length p (find_closest_pose_idx cur p) in
            fb\<lparr>fb_distance_remaining := d,
               fb_estimated_time_remaining := estimate_remaining (nav_from_seconds env) d speed\<rparr>)"

definition finish_feedback ::
  "'b blackboard_api \<Rightarrow> pose_stamped \<Rightarrow> time_ns \<Rightarrow> ('h, 'g, 'b, 'w, 'f) navigator \<Rightarrow>
    'z nav_feedback_scheme \<Rightarrow> 'z nav_feedback_scheme" where
  "finish_feedback bb cur now s fb =
     (let recovery_count = (case bb_get_int bb (blackboard s) ''number_recoveries'' of None \<Rightarrow> 0 | Some n \<Rightarrow> n) in
      fb\<lparr>fb_number_of_recoveries := word_of_int recovery_count, fb_current_pose := cur,
         fb_navigation_time := now - nav_start_time s\<rparr>)"

section \<open>NavigateToPoseNavigator\<close>

record nav_to_pose_goal =
  ntp_pose :: pose_stamped
  ntp_behavior_tree :: string

definition ntp_FAILED_TO_LOAD :: "16 word" where
  "ntp_FAILED_TO_LOAD = 9001"

definition ntp_TF_ERROR :: "16 word" where
  "ntp_TF_ERROR = 9002"

definition initializeGoalPose ::
  "nav_config \<Rightarrow> 'w nav_env \<Rightarrow> 'b blackboard_api \<Rightarrow> nav_to_pose_goal option \<Rightarrow> ('h, 'g, 'b, 'w, 'f) navigator \<Rightarrow>
    (nav_exn + bool) \<times> ('h, 'g, 'b, 'w, 'f) navigator" where
  "initializeGoalPose cfg env bb goal s =
     (let ((ok, current_pose), s1) = nav_current_pose cfg env s in
      if \<not> ok then (Inr False, setInternalError ntp_TF_ERROR ''Initial robot pose is not available.'' s1)
      else case goal of
        None \<Rightarrow> (Inl Nav_Null_Pointer, s1)
      | Some g \<Rightarrow>
          (let ((ok2, goal_pose), s2) = nav_transform cfg env (ntp_pose g) default_pose_stamped s1 in
           if \<not> ok2 then (Inr False, setInternalError ntp_TF_ERROR ''Failed to transform a goal pose'' s2)
           else
             let (t, s3) = nav_clock_now env s2 in
             (Inr True, s3\<lparr>nav_start_time := t,
                blackboard := bb_set_pose bb (goal_blackboard_id cfg) goal_pose
                  (bb_set_int bb ''number_recoveries'' 0 (blackboard s3))\<rparr>)))"

definition ntp_goalReceived ::
  "nav_config \<Rightarrow> 'w nav_env \<Rightarrow> 'b blackboard_api \<Rightarrow> nav_to_pose_goal option \<Rightarrow> ('h, 'g, 'b, 'w, 'f) navigator \<Rightarrow>
    (nav_exn + bool) \<times> ('h, 'g, 'b, 'w, 'f) navigator" where
  "ntp_goalReceived cfg env bb goal s =
     (case goal of
        None \<Rightarrow> (Inl Nav_Null_Pointer, s)
      | Some g \<Rightarrow>
          (let (ok, s1) = loadBehaviorTree (nav_files env) ntp_FAILED_TO_LOAD (ntp_behavior_tree g) s in
           if \<not> ok then
             (Inr False, setInternalError ntp_FAILED_TO_LOAD
                (''Error loading XML file: '' @ ntp_behavior_tree g @ ''. Navigation canceled.'') s1)
           else initializeGoalPose cfg env bb goal s1))"

definition ntp_goalCompleted ::
  "nav_result \<Rightarrow> bt_status \<Rightarrow> ('h, 'g, 'b, 'w, 'f) navigator \<Rightarrow>
    (nav_exn + nav_result) \<times> ('h, 'g, 'b, 'w, 'f) navigator" where
  "ntp_goalCompleted r final_bt_status s =
     (if nav_error_code r = 0 then (Inr (snd (populateInternalError s r)), s) else (Inr r, s))"

definition ntp_onLoop ::
  "nav_config \<Rightarrow> 'w nav_env \<Rightarrow> 'b blackboard_api \<Rightarrow> ('h, 'g, 'b, 'w, nav_feedback) navigator \<Rightarrow>
    (nav_exn + unit) \<times> ('h, 'g, 'b, 'w, nav_feedback) navigator" where
  "ntp_onLoop cfg env bb s =
     (let ((ok, cur), s1) = nav_current_pose cfg env s in
      if \<not> ok then (Inr (), s1)
      else
        let v = linear (getTwist (nav_smoother env (bt_world s1)));
            fb = path_feedback env (hypot3 (px v) (py v) (pz v)) cur
                   (bb_get_path bb (blackboard s1) (path_blackboard_id cfg)) default_feedback;
            (now, s2) = nav_clock_now env s1
        in (Inr (), s2\<lparr>published_feedback := published_feedback s2 @ [finish_feedback bb cur now s2 fb]\<rparr>))"

text \<open>A pose on the topic \<open>goal_pose\<close> is sent to the navigator's own server as a goal with the default tree.\<close>

definition onGoalPoseReceived :: "pose_stamped \<Rightarrow> nav_to_pose_goal" where
  "onGoalPoseReceived p = \<lparr>ntp_pose = p, ntp_behavior_tree = []\<rparr>"

text \<open>\<open>onPreempt\<close> of both navigators, with their function that initialises the goal.\<close>

definition same_tree :: "string \<Rightarrow> ('h, 'g, 'b, 'w, 'z) bt_server_scheme \<Rightarrow> bool" where
  "same_tree bt s \<longleftrightarrow> bt = current_bt_xml_filename s \<or>
     bt = [] \<and> current_bt_xml_filename s = default_bt_xml_filename s"

definition onPreempt ::
  "('h, 'a, 'r, 'g) goal_api \<Rightarrow> ('a \<Rightarrow> string) \<Rightarrow>
   ('a option \<Rightarrow> ('h, 'g, 'b, 'w, 'f) navigator \<Rightarrow> (nav_exn + bool) \<times> ('h, 'g, 'b, 'w, 'f) navigator) \<Rightarrow>
   'a option \<Rightarrow> ('h, 'g, 'b, 'w, 'f) navigator \<Rightarrow> (nav_exn + unit) \<times> ('h, 'g, 'b, 'w, 'f) navigator" where
  "onPreempt api bt_of initialize goal s =
     (case goal of
        None \<Rightarrow> (Inl Nav_Null_Pointer, s)
      | Some g \<Rightarrow>
          if same_tree (bt_of g) s then
            (let (accepted, srv1) = accept_pending_goal api (action_server s) in
             case initialize accepted (s\<lparr>action_server := srv1\<rparr>) of
               (Inl x, s1) \<Rightarrow> (Inl x, s1)
             | (Inr True, s1) \<Rightarrow> (Inr (), s1)
             | (Inr False, s1) \<Rightarrow>
                 (Inr (), s1\<lparr>action_server := terminate_pending_goal api (action_server s1)\<rparr>))
          else (Inr (), s\<lparr>action_server := terminate_pending_goal api (action_server s)\<rparr>))"

definition ntp_callbacks ::
  "('h, nav_to_pose_goal, nav_result, 'g) goal_api \<Rightarrow> nav_config \<Rightarrow> 'w nav_env \<Rightarrow> 'b blackboard_api \<Rightarrow>
    (nav_to_pose_goal, nav_result, ('h, 'g, 'b, 'w, nav_feedback) navigator) bt_callbacks" where
  "ntp_callbacks api cfg env bb =
     \<lparr>on_goal_received = onGoalReceived (nav_name cfg) (ntp_goalReceived cfg env bb),
      on_loop_callback = ntp_onLoop cfg env bb,
      on_preempt = onPreempt api ntp_behavior_tree (initializeGoalPose cfg env bb),
      on_completion = onCompletion (nav_name cfg) ntp_goalCompleted\<rparr>"

section \<open>NavigateThroughPosesNavigator\<close>

record nav_through_goal =
  nth_poses :: goals
  nth_behavior_tree :: string

record through_result = nav_result +
  res_waypoint_statuses :: "waypoint_status list"

record through_feedback = nav_feedback +
  fb_poses_remaining :: "16 word"
  fb_waypoint_statuses :: "waypoint_status list"

definition nth_FAILED_TO_LOAD :: "16 word" where
  "nth_FAILED_TO_LOAD = 9101"

definition nth_TF_ERROR :: "16 word" where
  "nth_TF_ERROR = 9102"

definition PENDING :: nat where "PENDING = 0"
definition COMPLETED :: nat where "COMPLETED = 1"
definition WP_FAILED :: nat where "WP_FAILED = 3"

text \<open>The loop that transforms the goal poses; \<open>None\<close> is the first that fails.\<close>

fun transform_goals ::
  "nav_config \<Rightarrow> 'w nav_env \<Rightarrow> pose_stamped list \<Rightarrow> ('h, 'g, 'b, 'w, 'f) navigator \<Rightarrow>
    pose_stamped list option \<times> ('h, 'g, 'b, 'w, 'f) navigator" where
  "transform_goals cfg env [] s = (Some [], s)"
| "transform_goals cfg env (g # gs) s =
     (let ((ok, p), s1) = nav_transform cfg env g g s in
      if \<not> ok then (None, s1)
      else (case transform_goals cfg env gs s1 of
              (None, s2) \<Rightarrow> (None, s2)
            | (Some ps, s2) \<Rightarrow> (Some (p # ps), s2)))"

definition initial_waypoints :: "pose_stamped list \<Rightarrow> waypoint_status list" where
  "initial_waypoints ps = map (\<lambda>i. \<lparr>wp_status = PENDING, wp_index = i, wp_pose = ps ! i\<rparr>) [0..<length ps]"

definition initializeGoalPoses ::
  "nav_config \<Rightarrow> 'w nav_env \<Rightarrow> 'b blackboard_api \<Rightarrow> nav_through_goal option \<Rightarrow> ('h, 'g, 'b, 'w, 'f) navigator \<Rightarrow>
    (nav_exn + bool) \<times> ('h, 'g, 'b, 'w, 'f) navigator" where
  "initializeGoalPoses cfg env bb goal s =
     (let ((ok, current_pose), s1) = nav_current_pose cfg env s in
      if \<not> ok then (Inr False, setInternalError nth_TF_ERROR ''Initial robot pose is not available.'' s1)
      else case goal of
        None \<Rightarrow> (Inl Nav_Null_Pointer, s1)
      | Some g \<Rightarrow>
          (case transform_goals cfg env (goal_list (nth_poses g)) s1 of
             (None, s2) \<Rightarrow> (Inr False, setInternalError nth_TF_ERROR ''Failed to transform a goal pose'' s2)
           | (Some ps, s2) \<Rightarrow>
               (let (t, s3) = nav_clock_now env s2 in
                (Inr True, s3\<lparr>nav_start_time := t,
                   blackboard := bb_set_waypoints bb (waypoint_statuses_blackboard_id cfg) (initial_waypoints ps)
                     (bb_set_goals bb (goals_blackboard_id cfg) ((nth_poses g)\<lparr>goal_list := ps\<rparr>)
                       (bb_set_int bb ''number_recoveries'' 0 (blackboard s3)))\<rparr>))))"

definition nth_goalReceived ::
  "nav_config \<Rightarrow> 'w nav_env \<Rightarrow> 'b blackboard_api \<Rightarrow> nav_through_goal option \<Rightarrow> ('h, 'g, 'b, 'w, 'f) navigator \<Rightarrow>
    (nav_exn + bool) \<times> ('h, 'g, 'b, 'w, 'f) navigator" where
  "nth_goalReceived cfg env bb goal s =
     (case goal of
        None \<Rightarrow> (Inl Nav_Null_Pointer, s)
      | Some g \<Rightarrow>
          (let (ok, s1) = loadBehaviorTree (nav_files env) nth_FAILED_TO_LOAD (nth_behavior_tree g) s in
           if \<not> ok then
             (Inr False, setInternalError nth_FAILED_TO_LOAD
                (''Error loading XML file: '' @ nth_behavior_tree g @ ''. Navigation canceled.'') s1)
           else initializeGoalPoses cfg env bb goal s1))"

definition integrate_status :: "bt_status \<Rightarrow> waypoint_status list \<Rightarrow> waypoint_status list" where
  "integrate_status final_bt_status ws =
     (let st = (if final_bt_status = SUCCEEDED then COMPLETED else WP_FAILED) in
      map (\<lambda>w. if wp_status w = PENDING then w\<lparr>wp_status := st\<rparr> else w) ws)"

definition nth_goalCompleted ::
  "nav_config \<Rightarrow> 'b blackboard_api \<Rightarrow> through_result \<Rightarrow> bt_status \<Rightarrow> ('h, 'g, 'b, 'w, 'f) navigator \<Rightarrow>
    (nav_exn + through_result) \<times> ('h, 'g, 'b, 'w, 'f) navigator" where
  "nth_goalCompleted cfg bb r final_bt_status s =
     (let r1 = (if nav_error_code r = 0 then snd (populateInternalError s r) else r) in
      case bb_get_waypoints bb (blackboard s) (waypoint_statuses_blackboard_id cfg) of
        None \<Rightarrow> (Inl Nav_Exception, s)
      | Some ws \<Rightarrow> (Inr (r1\<lparr>res_waypoint_statuses := integrate_status final_bt_status ws\<rparr>), s))"

definition nth_onLoop ::
  "nav_config \<Rightarrow> 'w nav_env \<Rightarrow> 'b blackboard_api \<Rightarrow> ('h, 'g, 'b, 'w, through_feedback) navigator \<Rightarrow>
    (nav_exn + unit) \<times> ('h, 'g, 'b, 'w, through_feedback) navigator" where
  "nth_onLoop cfg env bb s =
     (let gs = (case bb_get_goals bb (blackboard s) (goals_blackboard_id cfg) of None \<Rightarrow> [] | Some g \<Rightarrow> goal_list g) in
      case bb_get_waypoints bb (blackboard s) (waypoint_statuses_blackboard_id cfg) of
        None \<Rightarrow> (Inl Nav_Exception, s)
      | Some ws \<Rightarrow>
          (let fb0 = nav_feedback.extend default_feedback (through_feedback.fields 0 ws) in
           if gs = [] then (Inr (), s\<lparr>published_feedback := published_feedback s @ [fb0]\<rparr>)
           else
             let ((ok, cur), s1) = nav_current_pose cfg env s in
             if \<not> ok then (Inr (), s1)
             else
               let v = linear (getTwist (nav_smoother env (bt_world s1)));
                   fb = path_feedback env (hypot2 (px v) (py v)) cur
                          (bb_get_path bb (blackboard s1) (path_blackboard_id cfg)) fb0;
                   (now, s2) = nav_clock_now env s1;
                   fb1 = (finish_feedback bb cur now s2 fb)\<lparr>fb_poses_remaining := word_of_nat (length gs)\<rparr>
               in (Inr (), s2\<lparr>published_feedback := published_feedback s2 @ [fb1]\<rparr>)))"

definition nth_callbacks ::
  "('h, nav_through_goal, through_result, 'g) goal_api \<Rightarrow> nav_config \<Rightarrow> 'w nav_env \<Rightarrow> 'b blackboard_api \<Rightarrow>
    (nav_through_goal, through_result, ('h, 'g, 'b, 'w, through_feedback) navigator) bt_callbacks" where
  "nth_callbacks api cfg env bb =
     \<lparr>on_goal_received = onGoalReceived (nav_name cfg) (nth_goalReceived cfg env bb),
      on_loop_callback = nth_onLoop cfg env bb,
      on_preempt = onPreempt api nth_behavior_tree (initializeGoalPoses cfg env bb),
      on_completion = onCompletion (nav_name cfg) (nth_goalCompleted cfg bb)\<rparr>"

end
