(* ===== verification/BT_Server_Props.thy ===== *)
theory BT_Server_Props
  imports BT_Server
begin

text \<open>
  The laws of the blackboard and what the behaviour tree server makes of it: the reported error code is the one
  of highest priority, cleaning removes all codes, the engine returns when the tree completes or the goal is cancelled,
  and its sleep keeps to the configured period.
\<close>

section \<open>The contract of the blackboard\<close>

locale blackboard_laws =
  fixes bb :: "'b blackboard_api"
  assumes get_set_int: "bb_get_int bb (bb_set_int bb k v b) k' = (if k' = k then Some v else bb_get_int bb b k')"
    and get_int_set_string: "k' \<noteq> k \<Longrightarrow> bb_get_int bb (bb_set_string bb k m b) k' = bb_get_int bb b k'"
    and get_set_pose: "bb_get_pose bb (bb_set_pose bb k p b) k = Some p"
    and get_set_goals: "bb_get_goals bb (bb_set_goals bb k g b) k = Some g"
    and get_goals_set_waypoints: "k' \<noteq> k \<Longrightarrow> bb_get_goals bb (bb_set_waypoints bb k ws b) k' = bb_get_goals bb b k'"
    and get_set_waypoints: "bb_get_waypoints bb (bb_set_waypoints bb k ws b) k = Some ws"
begin

definition cleared :: "'b \<Rightarrow> string \<Rightarrow> bool" where
  "cleared b p \<longleftrightarrow> bb_get_int bb b (p @ ''_error_code'') = Some 0"

lemma suffixes_differ: "p @ ''_error_code'' \<noteq> q @ ''_error_msg''"
proof
  assume "p @ ''_error_code'' = q @ ''_error_msg''"
  then have "last (p @ ''_error_code'') = last (q @ ''_error_msg'')"
    by simp
  then show False
    by simp
qed

lemma cleared_step:
  "cleared (bb_set_string bb (q @ ''_error_msg'') [] (bb_set_int bb (q @ ''_error_code'') 0 b)) p \<longleftrightarrow>
    p = q \<or> cleared b p"
  using suffixes_differ by (auto simp: cleared_def get_int_set_string get_set_int)

lemma cleared_fold:
  "cleared (fold (\<lambda>q b. bb_set_string bb (q @ ''_error_msg'') [] (bb_set_int bb (q @ ''_error_code'') 0 b)) qs b) p
    \<longleftrightarrow> p \<in> set qs \<or> cleared b p"
  by (induction qs arbitrary: b) (auto simp: cleared_step)

lemma populate_loop_cleared:
  "\<forall>p \<in> set ps. cleared b p \<Longrightarrow> populate_loop bb b ps code msg = (code, msg)"
  by (induction ps) (auto simp: cleared_def)

lemma populate_after_clean: "populateErrorCode bb (cleanErrorCodes bb s) r = r"
  using populate_loop_cleared [of "error_code_name_prefixes s" "blackboard (cleanErrorCodes bb s)"]
  by (simp add: populateErrorCode_def cleanErrorCodes_def resetInternalError_def cleared_fold)

end

text \<open>A blackboard as a map from names to typed entries.\<close>

datatype bb_entry =
  BB_Int int | BB_String string | BB_Pose pose_stamped | BB_Goals goals | BB_Path path
  | BB_Waypoints "waypoint_status list"

definition map_bb :: "(string \<rightharpoonup> bb_entry) blackboard_api" where
  "map_bb = \<lparr>
     bb_get_int = (\<lambda>b k. case b k of Some (BB_Int v) \<Rightarrow> Some v | _ \<Rightarrow> None),
     bb_get_string = (\<lambda>b k. case b k of Some (BB_String v) \<Rightarrow> Some v | _ \<Rightarrow> None),
     bb_get_pose = (\<lambda>b k. case b k of Some (BB_Pose v) \<Rightarrow> Some v | _ \<Rightarrow> None),
     bb_get_goals = (\<lambda>b k. case b k of Some (BB_Goals v) \<Rightarrow> Some v | _ \<Rightarrow> None),
     bb_get_path = (\<lambda>b k. case b k of Some (BB_Path v) \<Rightarrow> Some v | _ \<Rightarrow> None),
     bb_get_waypoints = (\<lambda>b k. case b k of Some (BB_Waypoints v) \<Rightarrow> Some v | _ \<Rightarrow> None),
     bb_set_int = (\<lambda>k v b. b(k \<mapsto> BB_Int v)), bb_set_string = (\<lambda>k v b. b(k \<mapsto> BB_String v)),
     bb_set_pose = (\<lambda>k v b. b(k \<mapsto> BB_Pose v)), bb_set_goals = (\<lambda>k v b. b(k \<mapsto> BB_Goals v)),
     bb_set_waypoints = (\<lambda>k v b. b(k \<mapsto> BB_Waypoints v))\<rparr>"

interpretation map_bb: blackboard_laws map_bb
  by unfold_locales (auto simp: map_bb_def)

section \<open>The error code that is reported\<close>

text \<open>The codes that are set on the blackboard, in the order of the prefixes.\<close>

definition error_codes :: "'b blackboard_api \<Rightarrow> 'b \<Rightarrow> string list \<Rightarrow> int list" where
  "error_codes bb b ps = filter (\<lambda>c. c \<noteq> 0) (List.map_filter (\<lambda>p. bb_get_int bb b (p @ ''_error_code'')) ps)"

lemma error_codes_simps [simp]:
  "error_codes bb b [] = []"
  "error_codes bb b (p # ps) = (case bb_get_int bb b (p @ ''_error_code'') of
     None \<Rightarrow> error_codes bb b ps | Some c \<Rightarrow> if c = 0 then error_codes bb b ps else c # error_codes bb b ps)"
  by (simp_all add: error_codes_def map_filter_simps split: option.splits)

lemma populate_loop_code:
  "fst (populate_loop bb b ps code msg) = fold min (error_codes bb b ps) code"
  by (induction ps arbitrary: code msg) (auto split: option.splits simp: min_def)

lemma populate_loop_Min:
  "fst (populate_loop bb b ps code msg) = Min (set (code # error_codes bb b ps))"
  unfolding populate_loop_code by (rule Min.set_eq_fold [symmetric])

text \<open>All codes that compete, the internal one included.\<close>

definition competing_codes :: "'b blackboard_api \<Rightarrow> ('h, 'g, 'b, 'w, 'z) bt_server_scheme \<Rightarrow> int list" where
  "competing_codes bb s =
     (if internal_error_code s \<noteq> 0 then [uint (internal_error_code s)] else []) @
     error_codes bb (blackboard s) (error_code_name_prefixes s)"

section \<open>The engine\<close>

lemma engine_run_succeeded:
  assumes "engine_run canceling onLoop haltTree es r s = (Some (Inr SUCCEEDED), s')"
  shows "r = SUCCESS \<or> (\<exists>e \<in> set es. \<exists>s0 s1. cy_tick e s0 = (Inr SUCCESS, s1))"
  using assms
proof (induction es arbitrary: r s)
  case Nil
  then show ?case
    by (auto simp: engine_result_def split: if_splits)
next
  case (Cons e es)
  then show ?case
    by (auto simp: engine_result_def engine_catch_def Let_def split: if_splits prod.splits sum.splits nav_exn.splits)
qed

text \<open>An invariant of every part of a cycle is an invariant of the run.\<close>

lemma engine_run_inv:
  assumes "engine_run canceling onLoop haltTree es r s = (out, s')" and "P s"
    and halt: "\<And>s. P s \<Longrightarrow> P (haltTree s)"
    and cycle: "\<And>e s. e \<in> set es \<Longrightarrow> P s \<Longrightarrow> P (cy_before e s) \<and> P (snd (cy_tick e s)) \<and> P (snd (onLoop e s))"
  shows "P s'"
  using assms(1,2) cycle
proof (induction es arbitrary: r s)
  case (Cons e es)
  have e: "P (cy_before e s)" "\<And>s. P s \<Longrightarrow> P (snd (cy_tick e s))" "\<And>s. P s \<Longrightarrow> P (snd (onLoop e s))"
    using Cons.prems(2,3) by auto
  show ?case
  proof (cases "\<not> cy_ok e \<or> r \<noteq> RUNNING \<or> canceling (cy_before e s)")
    case True
    then show ?thesis
      using Cons.prems(1,2) e halt by (auto simp: Let_def split: if_splits)
  next
    case False
    obtain x s2 where t: "cy_tick e (cy_before e s) = (x, s2)"
      by (rule prod.exhaust)
    obtain y s3 where l: "onLoop e s2 = (y, s3)"
      by (rule prod.exhaust)
    have P: "P s2" "P s3"
      using e t l by (metis snd_conv)+
    show ?thesis
    proof (cases x)
      case (Inl a)
      then show ?thesis
        using False t P Cons.prems(1) by (simp add: Let_def)
    next
      case x: (Inr r1)
      show ?thesis
      proof (cases y)
        case (Inl a)
        then show ?thesis
          using False t l x P Cons.prems(1) by (simp add: Let_def)
      next
        case (Inr u)
        then have "engine_run canceling onLoop haltTree es r1 s3 = (out, s')"
          using False t l x Cons.prems(1) by (simp add: Let_def)
        then show ?thesis
          using Cons.IH P Cons.prems(3) by (metis list.set_intros(2))
      qed
    qed
  qed
qed (auto split: if_splits)

text \<open>The tree completes in the cycle, or the goal is cancelled before it.\<close>

definition ends_run :: "('s \<Rightarrow> bool) \<Rightarrow> 's bt_cycle \<Rightarrow> bool" where
  "ends_run canceling e \<longleftrightarrow> (\<forall>s. canceling (cy_before e s) \<or> fst (cy_tick e (cy_before e s)) \<noteq> Inr RUNNING)"

lemma engine_run_done: "r \<noteq> RUNNING \<Longrightarrow> engine_run canceling onLoop haltTree es r s = (Some (Inr (engine_result r)), s)"
  by (cases es) auto

lemma engine_run_returns:
  assumes "e \<in> set es" and "ends_run canceling e"
  shows "\<exists>out s'. engine_run canceling onLoop haltTree es r s = (Some out, s')"
  using assms(1)
proof (induction es arbitrary: r s)
  case (Cons d es)
  show ?case
  proof (cases "\<not> cy_ok d \<or> r \<noteq> RUNNING \<or> canceling (cy_before d s)")
    case False
    obtain x s2 where t: "cy_tick d (cy_before d s) = (x, s2)"
      by (rule prod.exhaust)
    obtain y s3 where l: "onLoop d s2 = (y, s3)"
      by (rule prod.exhaust)
    show ?thesis
    proof (cases "e = d")
      case True
      then have "x \<noteq> Inr RUNNING"
        using assms(2) False t unfolding ends_run_def by (metis fst_conv)
      then show ?thesis
        using False t l by (auto simp: Let_def engine_run_done split: sum.splits)
    next
      case ne: False
      then have "e \<in> set es"
        using Cons.prems by simp
      from Cons.IH [OF this] show ?thesis
        using False t l by (auto simp: Let_def split: sum.splits)
    qed
  qed (auto simp: Let_def)
qed simp

section \<open>The loop rate\<close>

lemma loop_rate_sleep_bound:
  assumes "loop_rate_sleep now lr = (Some d, lr')" and "0 \<le> lr_period lr"
  shows "0 < d \<and> d \<le> lr_period lr"
  using assms by (auto simp: loop_rate_sleep_def Let_def split: if_splits)

section \<open>Properties\<close>

text \<open>\<open>populateErrorCode\<close> reports the error code of highest priority, which is the smallest non-zero
  one among the internal code and the codes the behaviour tree left on the blackboard under the
  configured prefixes; a result is left alone when there is none; and after \<open>cleanErrorCodes\<close> there is none.\<close>

theorem populateErrorCode_highest_priority:
  assumes "blackboard_laws bb" and "\<forall>c \<in> set (competing_codes bb s). c < int_max"
  shows "(competing_codes bb s = [] \<longrightarrow> populateErrorCode bb s r = r) \<and>
    (competing_codes bb s \<noteq> [] \<longrightarrow>
       nav_error_code (populateErrorCode bb s r) = word_of_int (Min (set (competing_codes bb s)))) \<and>
    populateErrorCode bb (cleanErrorCodes bb s) r = r"
proof -
  define code0 where "code0 = (if internal_error_code s \<noteq> 0 then uint (internal_error_code s) else int_max)"
  define es where "es = error_codes bb (blackboard s) (error_code_name_prefixes s)"
  have code: "fst (populate_loop bb (blackboard s) (error_code_name_prefixes s) code0 msg) = Min (set (code0 # es))" for msg
    unfolding es_def by (rule populate_loop_Min)
  have small: "\<forall>c \<in> set es. c < int_max" "internal_error_code s \<noteq> 0 \<Longrightarrow> code0 < int_max"
    using assms(2) by (auto simp: competing_codes_def es_def code0_def)
  have Min0: "Min (set (int_max # es)) = (if es = [] then int_max else Min (set es))"
    using small(1) by (cases es) (auto simp: min_def)
  have pick: "Min (set (code0 # es)) =
    (if competing_codes bb s = [] then int_max else Min (set (competing_codes bb s)))"
    using Min0 by (auto simp: code0_def competing_codes_def es_def [symmetric])
  moreover have "Min (set (competing_codes bb s)) < int_max" if "competing_codes bb s \<noteq> []"
    using that assms(2) by (meson List.finite_set Min_in set_empty)
  moreover obtain code msg where pl:
    "populate_loop bb (blackboard s) (error_code_name_prefixes s) code0
      (if internal_error_code s \<noteq> 0 then internal_error_msg s else []) = (code, msg)"
    by (rule prod.exhaust)
  moreover have "populateErrorCode bb s r =
      (if code \<noteq> int_max then r\<lparr>nav_error_code := word_of_int code, nav_error_msg := msg\<rparr> else r)"
    using pl by (auto simp: populateErrorCode_def code0_def)
  ultimately show ?thesis
    using code blackboard_laws.populate_after_clean [OF assms(1), of s r] by (metis fst_conv less_irrefl
        nav_result.select_convs(1) nav_result.simps(3,5) nav_result.surjective nav_result.update_convs(1,2))
qed

definition demo_codes :: "(nat, nat \<Rightarrow> goal_status, string \<rightharpoonup> bb_entry, unit) bt_server" where
  "demo_codes = \<lparr>action_server = executing_server,
     blackboard = [''follow_path_error_code'' \<mapsto> BB_Int 105, ''compute_path_error_code'' \<mapsto> BB_Int 207],
     current_bt_xml_filename = [], default_bt_xml_filename = [], always_reload_bt_xml = False,
     internal_error_code = 9002, internal_error_msg = [],
     error_code_name_prefixes = [''compute_path'', ''follow_path'', ''spin''], bt_world = ()\<rparr>"

theorem populateErrorCode_highest_priority_witness:
  "nav_error_code (populateErrorCode map_bb demo_codes \<lparr>nav_error_code = 0, nav_error_msg = []\<rparr>) = 105"
proof -
  have codes: "competing_codes map_bb demo_codes = [9002, 207, 105]"
    by (simp add: competing_codes_def demo_codes_def map_bb_def)
  have "\<forall>c \<in> set (competing_codes map_bb demo_codes). c < int_max"
    by (simp add: codes int_max_def)
  from populateErrorCode_highest_priority [OF map_bb.blackboard_laws_axioms this, where r = "\<lparr>nav_error_code = 0, nav_error_msg = []\<rparr>"]
  show ?thesis
    by (simp add: codes)
qed

text \<open>C21: The engine returns: if one of its cycles is such that the tree completes or throws in it unless the goal was
  cancelled before, \<open>BehaviorTreeEngine::run\<close> returns within the cycles up to it, and when it returns
  SUCCEEDED some tick of the tree returned SUCCESS.\<close>

theorem engine_returns:
  assumes "e \<in> set es" and "ends_run canceling e"
  shows "\<exists>out s'. engine_run canceling onLoop haltTree es RUNNING s = (Some out, s') \<and>
    (out \<noteq> Inr SUCCEEDED \<or> (\<exists>d \<in> set es. \<exists>s0 s1. cy_tick d s0 = (Inr SUCCESS, s1)))"
  using engine_run_returns [OF assms, of onLoop haltTree RUNNING s]
    engine_run_succeeded [of canceling onLoop haltTree es RUNNING s] by fastforce

definition idle_cycle :: "(nav_exn + node_status) \<Rightarrow> nat bt_cycle" where
  "idle_cycle x = \<lparr>cy_ok = True, cy_before = (\<lambda>s. s), cy_tick = (\<lambda>s. (x, Suc s)), cy_mid = (\<lambda>s. s),
     cy_pending = (\<lambda>s. s)\<rparr>"

theorem engine_returns_witness:
  "\<exists>out s'. engine_run (\<lambda>_. False) (\<lambda>e s. (Inr (), s)) (\<lambda>s. s)
     [idle_cycle (Inr RUNNING), idle_cycle (Inr SUCCESS)] RUNNING 0 = (Some out, s')"
proof -
  have "ends_run (\<lambda>_. False) (idle_cycle (Inr SUCCESS))"
    by (simp add: ends_run_def idle_cycle_def)
  from engine_returns [OF _ this, of "[idle_cycle (Inr RUNNING), idle_cycle (Inr SUCCESS)]"
      "\<lambda>e s. (Inr (), s)" "\<lambda>s. s" 0]
  show ?thesis
    by (simp only: list.set) blast
qed

end
