(* ===== verification/Navigators_Props.thy ===== *)
theory Navigators_Props
  imports Navigators BT_Server_Props
begin

text \<open>
  What a navigation goal can rely on: the contract \<open>navigator_callbacks\<close> between the behaviour tree server and
  a navigator, met by both navigators; how a goal ends; and two ways in which the navigators break their
  promises, a preemption that reports the wrong goal and a race on the muxer.
\<close>

section \<open>Operations that leave the action server and the muxer alone\<close>

definition same_server :: "('h, 'g, 'b, 'w, 'f) navigator \<Rightarrow> ('h, 'g, 'b, 'w, 'f) navigator \<Rightarrow> bool" where
  "same_server s t \<longleftrightarrow> action_server t = action_server s \<and> plugin_muxer t = plugin_muxer s"

lemma same_server_refl [simp]: "same_server s s"
  by (simp add: same_server_def)

lemma same_server_trans: "same_server s t \<Longrightarrow> same_server t u \<Longrightarrow> same_server s u"
  by (simp add: same_server_def)

named_theorems nav_same \<open>operations of the navigators that leave the action server and the muxer alone\<close>

lemma nav_current_pose_same [nav_same]: "nav_current_pose cfg env s = (r, s') \<Longrightarrow> same_server s s'"
  by (auto simp: nav_current_pose_def same_server_def split: prod.splits)

lemma nav_transform_same [nav_same]: "nav_transform cfg env p q s = (r, s') \<Longrightarrow> same_server s s'"
  by (auto simp: nav_transform_def same_server_def split: prod.splits)

lemma nav_clock_now_same [nav_same]: "nav_clock_now env s = (r, s') \<Longrightarrow> same_server s s'"
  by (auto simp: nav_clock_now_def same_server_def split: prod.splits)

lemma setInternalError_same [simp]: "same_server s (setInternalError c m t) = same_server s t"
  by (simp add: same_server_def setInternalError_def)

lemma same_server_update [simp]:
  "same_server s (t\<lparr>nav_start_time := x\<rparr>) = same_server s t"
  "same_server s (t\<lparr>blackboard := b\<rparr>) = same_server s t"
  "same_server s (t\<lparr>published_feedback := fs\<rparr>) = same_server s t"
  "same_server s (t\<lparr>bt_world := w\<rparr>) = same_server s t"
  "same_server s (t\<lparr>current_bt_xml_filename := f\<rparr>) = same_server s t"
  by (simp_all add: same_server_def)

lemma loadBehaviorTree_same [nav_same]:
  fixes s :: "('h, 'g, 'b, 'w, 'f) navigator"
  shows "loadBehaviorTree files c f s = (r, s') \<Longrightarrow> same_server s s'"
  by (auto simp: loadBehaviorTree_def Let_def split: if_splits prod.splits)

lemma transform_goals_same [nav_same]:
  "transform_goals cfg env gs s = (r, s') \<Longrightarrow> same_server s s'"
proof (induction gs arbitrary: s r s')
  case (Cons g gs)
  then show ?case
    by (auto simp: Let_def split: prod.splits if_splits option.splits
        dest!: nav_transform_same intro: same_server_trans)
qed simp

lemma initializeGoalPose_same [nav_same]:
  assumes "initializeGoalPose cfg env bb goal s = (r, s')"
  shows "same_server s s'"
proof -
  obtain ok cur s1 where p: "nav_current_pose cfg env s = ((ok, cur), s1)"
    by (metis prod.exhaust)
  show ?thesis
    using assms p nav_current_pose_same [OF p]
    by (auto simp: initializeGoalPose_def split: if_splits option.splits prod.splits
        dest!: nav_transform_same nav_clock_now_same intro: same_server_trans)
qed

lemma initializeGoalPoses_same [nav_same]:
  assumes "initializeGoalPoses cfg env bb goal s = (r, s')"
  shows "same_server s s'"
proof -
  obtain ok cur s1 where p: "nav_current_pose cfg env s = ((ok, cur), s1)"
    by (metis prod.exhaust)
  show ?thesis
    using assms p nav_current_pose_same [OF p]
    by (auto simp: initializeGoalPoses_def split: if_splits option.splits prod.splits
        dest!: transform_goals_same nav_clock_now_same intro: same_server_trans)
qed

lemma goalReceived_same [nav_same]:
  "ntp_goalReceived cfg env bb goal s = (r, s') \<Longrightarrow> same_server s s'"
  "nth_goalReceived cfg env bb goal' t = (r', t') \<Longrightarrow> same_server t t'"
  by (auto simp: ntp_goalReceived_def nth_goalReceived_def split: option.splits prod.splits if_splits
      dest!: loadBehaviorTree_same initializeGoalPose_same initializeGoalPoses_same intro: same_server_trans)

lemma onLoop_same [nav_same]:
  "ntp_onLoop cfg env bb s = (r, s') \<Longrightarrow> same_server s s'"
  "nth_onLoop cfg env bb t = (r', t') \<Longrightarrow> same_server t t'"
  by (auto simp: ntp_onLoop_def nth_onLoop_def Let_def split: option.splits prod.splits if_splits
      dest!: nav_current_pose_same nav_clock_now_same intro: same_server_trans)

lemma goalCompleted_same [nav_same]:
  "ntp_goalCompleted r rc s = (x, s') \<Longrightarrow> same_server s s'"
  "nth_goalCompleted cfg bb r' rc t = (x', t') \<Longrightarrow> same_server t t'"
  by (auto simp: ntp_goalCompleted_def nth_goalCompleted_def Let_def split: if_splits option.splits)

section \<open>The contract between the server and a navigator\<close>

text \<open>A null goal is the only way to a null dereference, and only goals that exist are passed on.\<close>

locale navigator_callbacks = goal_handles api ok
  for api :: "('h, 'a, 'y nav_result_scheme, 'g) goal_api" and ok +
  fixes cbs :: "('a, 'y nav_result_scheme, ('h, 'g, 'b, 'w, 'f) navigator) bt_callbacks" and nm :: string
  assumes received:
      "on_goal_received cbs goal s = (x, s') \<Longrightarrow> action_server s' = action_server s \<and>
        (x = Inr True \<longrightarrow> plugin_muxer s = [] \<and> plugin_muxer s' = nm) \<and>
        (x \<noteq> Inr True \<longrightarrow> plugin_muxer s' = plugin_muxer s) \<and> (goal \<noteq> None \<longrightarrow> x \<noteq> Inl Nav_Null_Pointer)"
    and looped: "on_loop_callback cbs s = (y, s') \<Longrightarrow> same_server s s' \<and> y \<noteq> Inl Nav_Null_Pointer"
    and preempted:
      "on_preempt cbs goal s = (z, s') \<Longrightarrow> server_inv api ok (action_server s) \<Longrightarrow>
        server_inv api ok (action_server s') \<and> plugin_muxer s' = plugin_muxer s \<and>
        (goal \<noteq> None \<and> pending_handle (action_server s) \<noteq> None \<longrightarrow> z \<noteq> Inl Nav_Null_Pointer)"
    and completed:
      "on_completion cbs r rc s = (u, s') \<Longrightarrow> action_server s' = action_server s \<and>
        plugin_muxer s' = stopNavigating nm (plugin_muxer s) \<and> u \<noteq> Inl Nav_Null_Pointer"

text \<open>
  What the environment of a run may do: other threads keep the server consistent, do not take its pending goal away and leave
  the muxer alone, and ticking or halting the tree does not throw a null pointer.
\<close>

definition nav_ok :: "('h, 'a, 'r, 'g) goal_api \<Rightarrow> ('g \<Rightarrow> bool) \<Rightarrow> string \<Rightarrow> ('h, 'g, 'b, 'w, 'f) navigator \<Rightarrow> bool" where
  "nav_ok api ok m s \<longleftrightarrow> server_inv api ok (action_server s) \<and> plugin_muxer s = m"

definition nav_cycle_ok ::
  "('h, 'a, 'r, 'g) goal_api \<Rightarrow> ('g \<Rightarrow> bool) \<Rightarrow> string \<Rightarrow> ('h, 'g, 'b, 'w, 'f) navigator bt_cycle \<Rightarrow> bool" where
  "nav_cycle_ok api ok m e \<longleftrightarrow>
     (\<forall>s. nav_ok api ok m s \<longrightarrow> nav_ok api ok m (cy_before e s) \<and> nav_ok api ok m (cy_mid e s) \<and>
        nav_ok api ok m (cy_pending e s) \<and> nav_ok api ok m (snd (cy_tick e s)) \<and>
        fst (cy_tick e s) \<noteq> Inl Nav_Null_Pointer \<and>
        (pending_handle (action_server s) \<noteq> None \<longrightarrow> pending_handle (action_server (cy_pending e s)) \<noteq> None))"

definition nav_keeps :: "('h, 'a, 'r, 'g) goal_api \<Rightarrow> ('g \<Rightarrow> bool) \<Rightarrow> string \<Rightarrow>
    (('h, 'g, 'b, 'w, 'f) navigator \<Rightarrow> ('h, 'g, 'b, 'w, 'f) navigator) \<Rightarrow> bool" where
  "nav_keeps api ok m f \<longleftrightarrow> (\<forall>s. nav_ok api ok m s \<longrightarrow> nav_ok api ok m (f s))"

context navigator_callbacks
begin

lemma on_loop_keeps:
  assumes "nav_ok api ok m s" and "nav_cycle_ok api ok m e" and "on_loop api cbs e s = (x, s')"
  shows "nav_ok api ok m s' \<and> x \<noteq> Inl Nav_Null_Pointer"
proof -
  define s1 where "s1 = cy_mid e s"
  have s1: "nav_ok api ok m s1"
    using assms(1,2) by (auto simp: nav_cycle_ok_def s1_def)
  show ?thesis
  proof (cases "preempt_requested (action_server s1)")
    case False
    then show ?thesis
      using assms(3) s1 looped [of s1] by (auto simp: on_loop_def s1_def nav_ok_def same_server_def)
  next
    case True
    define s2 where "s2 = cy_pending e s1"
    have "pending_handle (action_server s1) \<noteq> None"
      using True s1 by (simp add: nav_ok_def server_inv_def)
    then have s2: "nav_ok api ok m s2" "pending_handle (action_server s2) \<noteq> None"
      using assms(2) s1 by (auto simp: nav_cycle_ok_def s2_def)
    then have goal: "get_pending_goal api (action_server s2) \<noteq> None"
      by (auto simp: get_pending_goal_def nav_ok_def server_inv_def is_active_def)
    obtain y s3 where p: "on_preempt cbs (get_pending_goal api (action_server s2)) s2 = (y, s3)"
      by (rule prod.exhaust)
    have y: "nav_ok api ok m s3" "y \<noteq> Inl Nav_Null_Pointer"
      using preempted [OF p] s2 goal by (auto simp: nav_ok_def)
    have "on_loop api cbs e s = (case y of Inl v \<Rightarrow> (Inl v, s3) | Inr _ \<Rightarrow> on_loop_callback cbs s3)"
      using True p unfolding on_loop_def s1_def [symmetric] Let_def s2_def [symmetric] by simp
    then show ?thesis
      using assms(3) y looped [of s3 x s'] by (cases y) (auto simp: nav_ok_def same_server_def)
  qed
qed

lemma engine_keeps:
  assumes "engine_run (is_canceling api) (on_loop api cbs) haltTree es r s = (out, s')" and "nav_ok api ok m s"
    and "nav_keeps api ok m haltTree" and "list_all (nav_cycle_ok api ok m) es"
  shows "nav_ok api ok m s'"
  using assms(1,2)
proof (rule engine_run_inv)
  fix e and s :: "('h, 'g, 'b, 'w, 'f) navigator"
  assume "e \<in> set es" and s: "nav_ok api ok m s"
  then have e: "nav_cycle_ok api ok m e"
    using assms(4) by (simp add: list_all_iff)
  show "nav_ok api ok m (cy_before e s) \<and> nav_ok api ok m (snd (cy_tick e s)) \<and>
      nav_ok api ok m (snd (on_loop api cbs e s))"
    using e s on_loop_keeps [OF s e] unfolding nav_cycle_ok_def by (metis prod.collapse)
qed (use assms(3) in \<open>simp add: nav_keeps_def\<close>)

lemma engine_no_null:
  assumes "engine_run (is_canceling api) (on_loop api cbs) haltTree es r s = (out, s')" and "nav_ok api ok m s"
    and "list_all (nav_cycle_ok api ok m) es"
  shows "out \<noteq> Some (Inl x)"
  using assms
proof (induction es arbitrary: r s)
  case (Cons e es)
  have e: "nav_cycle_ok api ok m e" and es: "list_all (nav_cycle_ok api ok m) es"
    using Cons.prems(3) by auto
  obtain y s2 where t: "cy_tick e (cy_before e s) = (y, s2)"
    by (rule prod.exhaust)
  obtain z s3 where l: "on_loop api cbs e s2 = (z, s3)"
    by (rule prod.exhaust)
  have "nav_ok api ok m (cy_before e s)"
    using e Cons.prems(2) by (simp add: nav_cycle_ok_def)
  then have s2: "nav_ok api ok m s2" "y \<noteq> Inl Nav_Null_Pointer"
    using e t unfolding nav_cycle_ok_def by (metis fst_conv snd_conv)+
  have s3: "nav_ok api ok m s3" "z \<noteq> Inl Nav_Null_Pointer"
    using on_loop_keeps [OF s2(1) e l] by auto
  show ?case
    using Cons.prems(1) Cons.IH [OF _ s3(1) es] t l s2(2) s3(2)
    by (auto simp: Let_def engine_catch_def split: if_splits sum.splits nav_exn.splits)
qed (auto split: if_splits)

lemma settle_goal_settles:
  assumes "server_inv api ok s"
  shows "server_inv api ok (settle_goal api r rc s) \<and> current_handle (settle_goal api r rc s) = None"
  using assms succeeded_current_inv terminate_current_inv terminate_all_inv
  by (auto simp: settle_goal_def split: bt_status.splits)

lemma cleanErrorCodes_fields:
  fixes s :: "('h, 'g, 'b, 'w, 'f) navigator"
  shows "action_server (cleanErrorCodes bb s) = action_server s" "plugin_muxer (cleanErrorCodes bb s) = plugin_muxer s"
    "internal_error_code (cleanErrorCodes bb s) = 0"
  by (simp_all add: cleanErrorCodes_def resetInternalError_def)

text \<open>How \<open>executeCallback\<close> ends: the goal is settled, the muxer is free again.\<close>

lemma executeCallback_settles:
  assumes inv: "server_inv api ok (action_server s)" and free: "plugin_muxer s = []"
    and goal: "get_current_goal api (action_server s) \<noteq> None"
    and halt: "nav_keeps api ok nm haltTree" and cycles: "list_all (nav_cycle_ok api ok nm) es"
    and run: "executeCallback api bb cbs haltTree es s = (Some out, s')"
  shows "server_inv api ok (action_server s') \<and> plugin_muxer s' = [] \<and> out \<noteq> Inl Nav_Null_Pointer \<and>
    (case out of
       Inl _ \<Rightarrow> True
     | Inr rc \<Rightarrow> current_handle (action_server s') = None \<and> internal_error_code s' = 0 \<and>
         (rc = Some SUCCEEDED \<longrightarrow> (\<exists>e \<in> set es. \<exists>s0 s1. cy_tick e s0 = (Inr SUCCESS, s1))))"
proof -
  obtain x s1 where r: "on_goal_received cbs (get_current_goal api (action_server s)) s = (x, s1)"
    by (rule prod.exhaust)
  note rec = received [OF r]
  show ?thesis
  proof (cases "x = Inr True")
    case False
    then show ?thesis
      using run r rec inv free goal terminate_current_inv [of "action_server s"]
      by (auto simp: executeCallback_def cleanErrorCodes_fields Let_def split: sum.splits bool.splits)
  next
    case True
    then have s1: "nav_ok api ok nm s1"
      using rec inv by (simp add: nav_ok_def)
    obtain y s2 where e: "engine_run (is_canceling api) (on_loop api cbs) haltTree es RUNNING s1 = (y, s2)"
      by (rule prod.exhaust)
    have s2: "nav_ok api ok nm s2" "nav_ok api ok nm (haltTree s2)"
      using engine_keeps [OF e s1 halt cycles] halt by (auto simp: nav_keeps_def)
    obtain rc where rc: "y = Some (Inr rc)"
      using run r True e engine_no_null [OF e s1 cycles]
      by (auto simp: executeCallback_def split: option.splits sum.splits)
    define s3 where "s3 = haltTree s2"
    obtain z s4 where c: "on_completion cbs (populateErrorCode bb s3 (gh_empty_result api)) rc s3 = (z, s4)"
      by (rule prod.exhaust)
    have s4: "server_inv api ok (action_server s4)" "plugin_muxer s4 = []" "z \<noteq> Inl Nav_Null_Pointer"
      using completed [OF c] s2(2) by (auto simp: s3_def nav_ok_def stopNavigating_def)
    have "rc = SUCCEEDED \<Longrightarrow> \<exists>e \<in> set es. \<exists>s0 s1. cy_tick e s0 = (Inr SUCCESS, s1)"
      using engine_run_succeeded e rc by fastforce
    then show ?thesis
      using run r True e rc c s4 settle_goal_settles
      by (auto simp: executeCallback_def s3_def [symmetric] cleanErrorCodes_fields Let_def split: sum.splits)
  qed
qed

end

context navigator_callbacks
begin

lemma executeCallback_returns:
  assumes "e \<in> set es" and "ends_run (is_canceling api) e"
  shows "\<exists>out s'. executeCallback api bb cbs haltTree es s = (Some out, s')"
proof -
  obtain x s1 where r: "on_goal_received cbs (get_current_goal api (action_server s)) s = (x, s1)"
    by (rule prod.exhaust)
  obtain out s2 where e: "engine_run (is_canceling api) (on_loop api cbs) haltTree es RUNNING s1 = (Some out, s2)"
    using engine_run_returns [OF assms] by blast
  show ?thesis
    using r e by (auto simp: executeCallback_def Let_def split: sum.splits bool.splits prod.splits)
qed

text \<open>An exception leaves the callback only through the callbacks of the navigator.\<close>

lemma executeCallback_exception:
  assumes "server_inv api ok (action_server s)" and "list_all (nav_cycle_ok api ok nm) es"
    and "executeCallback api bb cbs haltTree es s = (Some (Inl x), s')"
  shows "(\<exists>t. on_goal_received cbs (get_current_goal api (action_server s)) s = (Inl x, t)) \<or>
    (\<exists>r rc t t'. on_completion cbs r rc t = (Inl x, t'))"
proof -
  obtain y s1 where r: "on_goal_received cbs (get_current_goal api (action_server s)) s = (y, s1)"
    by (rule prod.exhaust)
  obtain z s2 where e: "engine_run (is_canceling api) (on_loop api cbs) haltTree es RUNNING s1 = (z, s2)"
    by (rule prod.exhaust)
  have "nav_ok api ok nm s1" if "y = Inr True"
    using received [OF r] that assms(1) by (simp add: nav_ok_def)
  then have "z \<noteq> Some (Inl v)" if "y = Inr True" for v
    using engine_no_null [OF e _ assms(2)] that by blast
  then show ?thesis
    using assms(3) r e
    by (auto simp: executeCallback_def Let_def split: sum.splits bool.splits option.splits prod.splits)
qed

end

section \<open>Both navigators meet the contract\<close>

lemma onGoalReceived_ok:
  assumes "onGoalReceived nm recv goal s = (x, s')" and "\<And>y t. recv goal s = (y, t) \<Longrightarrow> same_server s t"
    and "\<And>y t. recv goal s = (y, t) \<Longrightarrow> goal \<noteq> None \<Longrightarrow> y \<noteq> Inl Nav_Null_Pointer"
  shows "action_server s' = action_server s \<and> (x = Inr True \<longrightarrow> plugin_muxer s = [] \<and> plugin_muxer s' = nm) \<and>
    (x \<noteq> Inr True \<longrightarrow> plugin_muxer s' = plugin_muxer s) \<and> (goal \<noteq> None \<longrightarrow> x \<noteq> Inl Nav_Null_Pointer)"
proof -
  obtain y t where r: "recv goal s = (y, t)"
    by (rule prod.exhaust)
  show ?thesis
    using assms(1) r assms(2,3) [OF r]
    by (auto simp: onGoalReceived_def isNavigating_def startNavigating_def same_server_def
        split: if_splits sum.splits bool.splits)
qed

lemma onPreempt_ok:
  assumes "goal_handles api ok" and "onPreempt api bt_of init goal s = (z, s')" and "server_inv api ok (action_server s)"
    and same: "\<And>g t y t'. init g t = (y, t') \<Longrightarrow> same_server t t' \<and> (g \<noteq> None \<longrightarrow> y \<noteq> Inl Nav_Null_Pointer)"
  shows "server_inv api ok (action_server s') \<and> plugin_muxer s' = plugin_muxer s \<and>
    (goal \<noteq> None \<and> pending_handle (action_server s) \<noteq> None \<longrightarrow> z \<noteq> Inl Nav_Null_Pointer)"
proof (cases goal)
  case None
  then show ?thesis
    using assms(2,3) by (auto simp: onPreempt_def)
next
  case (Some g)
  note pend = goal_handles.terminate_pending_inv(1) [OF assms(1)]
  show ?thesis
  proof (cases "same_tree (bt_of g) s")
    case False
    then show ?thesis
      using assms(2,3) Some pend [of "action_server s"] by (auto simp: onPreempt_def)
  next
    case True
    obtain acc srv1 where a: "accept_pending_goal api (action_server s) = (acc, srv1)"
      by (rule prod.exhaust)
    have srv1: "server_inv api ok srv1"
      using goal_handles.accept_pending_inv(1) [OF assms(1,3)] a by simp
    have acc: "pending_handle (action_server s) \<noteq> None \<Longrightarrow> acc \<noteq> None"
      using goal_handles.accept_pending_moves(1) [OF assms(1,3)] a by (metis fst_conv not_None_eq)
    obtain y t where i: "init acc (s\<lparr>action_server := srv1\<rparr>) = (y, t)"
      by (rule prod.exhaust)
    have t: "action_server t = srv1" "plugin_muxer t = plugin_muxer s" "acc \<noteq> None \<Longrightarrow> y \<noteq> Inl Nav_Null_Pointer"
      using same [OF i] by (auto simp: same_server_def)
    show ?thesis
      using assms(2) Some True a i t srv1 acc pend [of srv1]
      by (auto simp: onPreempt_def split: sum.splits bool.splits)
  qed
qed

lemma onCompletion_ok:
  assumes "onCompletion nm compl r rc s = (u, s')"
    and "\<And>t x t'. compl r rc t = (x, t') \<Longrightarrow> same_server t t' \<and> x \<noteq> Inl Nav_Null_Pointer"
  shows "action_server s' = action_server s \<and> plugin_muxer s' = stopNavigating nm (plugin_muxer s) \<and>
    u \<noteq> Inl Nav_Null_Pointer"
  using assms(1) assms(2) [of "s\<lparr>plugin_muxer := stopNavigating nm (plugin_muxer s)\<rparr>"]
  by (auto simp: onCompletion_def same_server_def)

text \<open>The functions of the navigators dereference a null pointer only if the goal is null.\<close>

lemma initialize_no_null:
  "initializeGoalPose cfg env bb g s = (y, t) \<Longrightarrow> g \<noteq> None \<Longrightarrow> y \<noteq> Inl Nav_Null_Pointer"
  "initializeGoalPoses cfg env bb g' s' = (y', t') \<Longrightarrow> g' \<noteq> None \<Longrightarrow> y' \<noteq> Inl Nav_Null_Pointer"
  by (auto simp: initializeGoalPose_def initializeGoalPoses_def split: prod.splits if_splits option.splits)

lemma goalReceived_no_null:
  "ntp_goalReceived cfg env bb g s = (y, t) \<Longrightarrow> g \<noteq> None \<Longrightarrow> y \<noteq> Inl Nav_Null_Pointer"
  "nth_goalReceived cfg env bb g' s' = (y', t') \<Longrightarrow> g' \<noteq> None \<Longrightarrow> y' \<noteq> Inl Nav_Null_Pointer"
  by (auto simp: ntp_goalReceived_def nth_goalReceived_def split: prod.splits if_splits option.splits
      dest: initialize_no_null)

lemma onLoop_no_null:
  "ntp_onLoop cfg env bb s = (y, t) \<Longrightarrow> y \<noteq> Inl Nav_Null_Pointer"
  "nth_onLoop cfg env bb s' = (y', t') \<Longrightarrow> y' \<noteq> Inl Nav_Null_Pointer"
  by (auto simp: ntp_onLoop_def nth_onLoop_def Let_def split: prod.splits if_splits option.splits)

lemma goalCompleted_no_null:
  "ntp_goalCompleted r rc s = (y, t) \<Longrightarrow> y \<noteq> Inl Nav_Null_Pointer"
  "nth_goalCompleted cfg bb r' rc s' = (y', t') \<Longrightarrow> y' \<noteq> Inl Nav_Null_Pointer"
  by (auto simp: ntp_goalCompleted_def nth_goalCompleted_def Let_def split: if_splits option.splits)

lemmas nav_no_null = initialize_no_null goalReceived_no_null onLoop_no_null goalCompleted_no_null

lemma navigator_callbacksI:
  assumes "goal_handles api ok"
    and recv: "\<And>g s y t. recv g s = (y, t) \<Longrightarrow> same_server s t \<and> (g \<noteq> None \<longrightarrow> y \<noteq> Inl Nav_Null_Pointer)"
    and loop: "\<And>s y t. loop s = (y, t) \<Longrightarrow> same_server s t \<and> y \<noteq> Inl Nav_Null_Pointer"
    and init: "\<And>g s y t. init g s = (y, t) \<Longrightarrow> same_server s t \<and> (g \<noteq> None \<longrightarrow> y \<noteq> Inl Nav_Null_Pointer)"
    and compl: "\<And>r rc s y t. compl r rc s = (y, t) \<Longrightarrow> same_server s t \<and> y \<noteq> Inl Nav_Null_Pointer"
  shows "navigator_callbacks api ok
    \<lparr>on_goal_received = onGoalReceived nm recv, on_loop_callback = loop, on_preempt = onPreempt api bt_of init,
     on_completion = onCompletion nm compl\<rparr> nm"
proof (intro navigator_callbacks.intro navigator_callbacks_axioms.intro assms(1), unfold bt_callbacks.simps)
  fix goal s x s'
  assume r: "onGoalReceived nm recv goal s = (x, s')"
  show "action_server s' = action_server s \<and> (x = Inr True \<longrightarrow> plugin_muxer s = [] \<and> plugin_muxer s' = nm) \<and>
      (x \<noteq> Inr True \<longrightarrow> plugin_muxer s' = plugin_muxer s) \<and> (goal \<noteq> None \<longrightarrow> x \<noteq> Inl Nav_Null_Pointer)"
    by (rule onGoalReceived_ok [OF r]) (auto dest: recv)
next
  fix goal s z s'
  assume r: "onPreempt api bt_of init goal s = (z, s')" "server_inv api ok (action_server s)"
  show "server_inv api ok (action_server s') \<and> plugin_muxer s' = plugin_muxer s \<and>
      (goal \<noteq> None \<and> pending_handle (action_server s) \<noteq> None \<longrightarrow> z \<noteq> Inl Nav_Null_Pointer)"
    by (rule onPreempt_ok [OF assms(1) r]) (rule init)
next
  fix r rc s u s'
  assume c: "onCompletion nm compl r rc s = (u, s')"
  show "action_server s' = action_server s \<and> plugin_muxer s' = stopNavigating nm (plugin_muxer s) \<and>
      u \<noteq> Inl Nav_Null_Pointer"
    by (rule onCompletion_ok [OF c]) (rule compl)
qed (rule loop)

lemma ntp_navigator_callbacks:
  "goal_handles api ok \<Longrightarrow> navigator_callbacks api ok (ntp_callbacks api cfg env bb) (nav_name cfg)"
  unfolding ntp_callbacks_def by (erule navigator_callbacksI) (blast dest: nav_same nav_no_null)+

lemma nth_navigator_callbacks:
  "goal_handles api ok \<Longrightarrow> navigator_callbacks api ok (nth_callbacks api cfg env bb) (nav_name cfg)"
  unfolding nth_callbacks_def by (erule navigator_callbacksI) (blast dest: nav_same nav_no_null)+

interpretation to_pose: navigator_callbacks "ros_api goal_of no_result" ros_ok
  "ntp_callbacks (ros_api goal_of no_result) cfg env bb" "nav_name cfg" for goal_of no_result cfg env bb
  by (rule ntp_navigator_callbacks) unfold_locales

interpretation through_poses: navigator_callbacks "ros_api goal_of no_result" ros_ok
  "nth_callbacks (ros_api goal_of no_result) cfg env bb" "nav_name cfg" for goal_of no_result cfg env bb
  by (rule nth_navigator_callbacks) unfold_locales

section \<open>Waypoints of NavigateThroughPoses\<close>

lemma transform_goals_length: "transform_goals cfg env gs s = (Some ps, s') \<Longrightarrow> length ps = length gs"
  by (induction gs arbitrary: s ps) (auto simp: Let_def split: prod.splits if_splits option.splits)

lemma integrate_status_settled:
  "length (integrate_status rc ws) = length ws \<and>
   list_all (\<lambda>w. wp_status w \<noteq> PENDING) (integrate_status rc ws) \<and>
   map wp_pose (integrate_status rc ws) = map wp_pose ws"
  by (auto simp: integrate_status_def Let_def list_all_iff PENDING_def COMPLETED_def WP_FAILED_def)

lemma initial_waypoints_poses: "map wp_pose (initial_waypoints ps) = ps"
  by (simp add: initial_waypoints_def comp_def map_nth)

section \<open>The race on the muxer\<close>

text \<open>
  Navigators run their \<open>onGoalReceived\<close> and \<open>onCompletion\<close> in their own worker threads. Each call on the muxer holds
  its mutex, but \<open>onGoalReceived\<close> makes two of them, before and after \<open>goalReceived\<close>. The state is the muxer
  and where each navigator is.
\<close>

datatype nav_pc = Nav_Idle | Nav_Checked | Nav_Running

record mux_state =
  mux_name :: muxer
  nav_pc :: "string \<Rightarrow> nav_pc"

definition mux_init :: mux_state where
  "mux_init = \<lparr>mux_name = [], nav_pc = (\<lambda>_. Nav_Idle)\<rparr>"

inductive mux_step :: "mux_state \<Rightarrow> mux_state \<Rightarrow> bool" where
  check: "nav_pc t n = Nav_Idle \<Longrightarrow> n \<noteq> [] \<Longrightarrow> \<not> isNavigating (mux_name t) \<Longrightarrow>
    mux_step t (t\<lparr>nav_pc := (nav_pc t)(n := Nav_Checked)\<rparr>)"
| reject: "nav_pc t n = Nav_Checked \<Longrightarrow> mux_step t (t\<lparr>nav_pc := (nav_pc t)(n := Nav_Idle)\<rparr>)"
| start: "nav_pc t n = Nav_Checked \<Longrightarrow>
    mux_step t \<lparr>mux_name = startNavigating n (mux_name t), nav_pc = (nav_pc t)(n := Nav_Running)\<rparr>"
| stop: "nav_pc t n = Nav_Running \<Longrightarrow>
    mux_step t \<lparr>mux_name = stopNavigating n (mux_name t), nav_pc = (nav_pc t)(n := Nav_Idle)\<rparr>"

text \<open>The same with a goal reception that is not interrupted.\<close>

inductive mux_atomic_step :: "mux_state \<Rightarrow> mux_state \<Rightarrow> bool" where
  receive: "nav_pc t n = Nav_Idle \<Longrightarrow> n \<noteq> [] \<Longrightarrow> \<not> isNavigating (mux_name t) \<Longrightarrow>
    mux_atomic_step t \<lparr>mux_name = startNavigating n (mux_name t), nav_pc = (nav_pc t)(n := Nav_Running)\<rparr>"
| complete: "nav_pc t n = Nav_Running \<Longrightarrow>
    mux_atomic_step t \<lparr>mux_name = stopNavigating n (mux_name t), nav_pc = (nav_pc t)(n := Nav_Idle)\<rparr>"

definition mux_exclusive :: "mux_state \<Rightarrow> bool" where
  "mux_exclusive t \<longleftrightarrow> (\<forall>n. nav_pc t n = Nav_Running \<longleftrightarrow> n = mux_name t \<and> n \<noteq> [])"

lemma mux_atomic_step_exclusive: "mux_atomic_step t t' \<Longrightarrow> mux_exclusive t \<Longrightarrow> mux_exclusive t'"
proof (induction rule: mux_atomic_step.induct)
  case (receive t n)
  then have "nav_pc t k \<noteq> Nav_Running" for k
    unfolding mux_exclusive_def isNavigating_def by metis
  then show ?case
    using receive(2) by (simp add: mux_exclusive_def startNavigating_def)
next
  case (complete t n)
  then have "mux_name t = n"
    by (simp add: mux_exclusive_def)
  then show ?case
    using complete unfolding mux_exclusive_def stopNavigating_def by simp
qed

lemma mux_atomic_exclusive: "mux_atomic_step\<^sup>*\<^sup>* mux_init t \<Longrightarrow> mux_exclusive t"
proof (induction rule: rtranclp_induct)
  case base
  show ?case
    by (simp add: mux_init_def mux_exclusive_def)
qed (rule mux_atomic_step_exclusive)

section \<open>A simulated vehicle\<close>

text \<open>
  The world is the transform from the name of a frame to the global frame; a frame that is missing cannot be
  transformed.
\<close>

definition sim_nav_env :: "string set nav_env" where
  "sim_nav_env = \<lparr>nav_tf = (\<lambda>p f d w. (if frame_id (ps_header p) \<in> w then Some p else None, w)),
     nav_now = (\<lambda>w. (0, w)), nav_smoother = (\<lambda>_. odom_smoother_init 0), nav_from_seconds = (\<lambda>_. 0),
     nav_files = \<lparr>file_good = (\<lambda>_ _. True), create_tree = (\<lambda>_ w. (True, w))\<rparr>\<rparr>"

definition sim_nav_config :: nav_config where
  "sim_nav_config = \<lparr>nav_name = ''navigate_to_pose'', goal_blackboard_id = ''goal'', goals_blackboard_id = ''goals'',
     path_blackboard_id = ''path'', waypoint_statuses_blackboard_id = ''waypoint_statuses'',
     nav_global_frame = ''map'', nav_robot_frame = ''base_link'', nav_transform_tolerance = 1 / 10\<rparr>"

definition pose_in :: "string \<Rightarrow> pose_stamped" where
  "pose_in f = \<lparr>ps_header = \<lparr>stamp = 0, frame_id = f\<rparr>, ps_pose = default_pose\<rparr>"

text \<open>Goal 0 is given in the frame \<open>map\<close>, the other goals in an unknown frame.\<close>

definition sim_goal :: "nat \<Rightarrow> nav_to_pose_goal" where
  "sim_goal h = \<lparr>ntp_pose = pose_in (if h = 0 then ''map'' else ''mars''), ntp_behavior_tree = []\<rparr>"

abbreviation sim_api :: "(nat, nav_to_pose_goal, nav_result, nat \<Rightarrow> goal_status) goal_api" where
  "sim_api \<equiv> ros_api sim_goal \<lparr>nav_error_code = 0, nav_error_msg = []\<rparr>"

definition sim_navigator :: "(nat, nat \<Rightarrow> goal_status, string \<rightharpoonup> bb_entry, string set, nav_feedback) navigator" where
  "sim_navigator = \<lparr>action_server = executing_server, blackboard = Map.empty, current_bt_xml_filename = ''tree.xml'',
     default_bt_xml_filename = ''tree.xml'', always_reload_bt_xml = False, internal_error_code = 0,
     internal_error_msg = [], error_code_name_prefixes = [], bt_world = {''map'', ''base_link''}, plugin_muxer = [],
     nav_start_time = 0, published_feedback = []\<rparr>"

definition sim_cycle :: "node_status \<Rightarrow> 's bt_cycle" where
  "sim_cycle r = \<lparr>cy_ok = True, cy_before = (\<lambda>s. s), cy_tick = (\<lambda>s. (Inr r, s)), cy_mid = (\<lambda>s. s),
     cy_pending = (\<lambda>s. s)\<rparr>"

lemma sim_cycle_ok: "nav_cycle_ok api ok m (sim_cycle r)"
  by (simp add: nav_cycle_ok_def sim_cycle_def)

section \<open>Properties\<close>



text \<open>A preempting goal whose pose cannot be transformed takes over the handle of the goal it preempts but not its
  target. The old goal is aborted, the new one becomes current, and the blackboard still holds the old target that
  the tree keeps following, so that the new goal is reported as succeeded when the old target is reached;
  \<open>terminatePendingGoal\<close> comes too late to reject it.\<close>

theorem failed_preemption_keeps_old_target:
  assumes "goal_handles api ok" and "server_inv api ok (action_server s)"
    and "current_handle (action_server s) = Some c" and "pending_handle (action_server s) = Some p"
    and "get_pending_goal api (action_server s) = Some g" and "same_tree (ntp_behavior_tree g) s"
    and "nav_current_pose cfg env (s\<lparr>action_server := snd (accept_pending_goal api (action_server s))\<rparr>) = ((True, cur), t)"
    and "nav_transform cfg env (ntp_pose g) default_pose_stamped t = ((False, q), t')"
    and "blackboard t' = blackboard s"
  shows "\<exists>s'. onPreempt api ntp_behavior_tree (initializeGoalPose cfg env bb)
      (get_pending_goal api (action_server s)) s = (Inr (), s') \<and>
    blackboard s' = blackboard s \<and> \<not> gh_is_active api (goal_store (action_server s')) c \<and>
    current_handle (action_server s') = Some p \<and> internal_error_code s' = ntp_TF_ERROR \<and>
    goal_store (settle_goal api r SUCCEEDED (action_server s')) = gh_succeed api p r (goal_store (action_server s'))"
proof -
  let ?acc = "accept_pending_goal api (action_server s)"
  note moves = goal_handles.accept_pending_moves [OF assms(1,2,4)]
  have inv: "server_inv api ok (snd ?acc)"
    by (rule goal_handles.accept_pending_inv(1) [OF assms(1,2)])
  have g: "fst ?acc = Some g"
    using assms(4,5) moves(1) by (auto simp: get_pending_goal_def split: if_splits)
  have c: "\<not> gh_is_active api (goal_store (snd ?acc)) c"
    using assms(2,3,4) goal_handles.abort_active [OF assms(1)]
    by (auto simp: accept_pending_goal_def server_inv_def Let_def)
  have same: "same_server (s\<lparr>action_server := snd ?acc\<rparr>) t'"
    using nav_current_pose_same [OF assms(7)] nav_transform_same [OF assms(8)] by (rule same_server_trans)
  have init: "initializeGoalPose cfg env bb (Some g) (s\<lparr>action_server := snd ?acc\<rparr>) =
      (Inr False, setInternalError ntp_TF_ERROR ''Failed to transform a goal pose'' t')"
    using assms(7,8) by (simp add: initializeGoalPose_def)
  have idle: "terminate_pending_goal api (action_server t') = snd ?acc"
    using same moves(3) by (simp add: same_server_def terminate_pending_goal_def is_active_def)
  have pre: "onPreempt api ntp_behavior_tree (initializeGoalPose cfg env bb)
      (get_pending_goal api (action_server s)) s =
    (Inr (), (setInternalError ntp_TF_ERROR ''Failed to transform a goal pose'' t')\<lparr>action_server := snd ?acc\<rparr>)"
    using assms(5,6) g init idle by (simp add: onPreempt_def split_beta setInternalError_def)
  have p: "gh_is_active api (goal_store (snd ?acc)) p"
    using inv moves(2) by (simp add: server_inv_def)
  show ?thesis
    unfolding pre using c p moves(2) assms(9)
    by (simp add: setInternalError_def settle_goal_def succeeded_current_def)
qed

definition sim_preempted :: "(nat, nat \<Rightarrow> goal_status, string \<rightharpoonup> bb_entry, string set, nav_feedback) navigator" where
  "sim_preempted = sim_navigator\<lparr>action_server := snd (handle_accepted sim_api 1
     (executing_server\<lparr>goal_store := (goal_store executing_server)(1 := Executing_Goal)\<rparr>)),
     blackboard := [''goal'' \<mapsto> BB_Pose (pose_in ''map'')]\<rparr>"

theorem failed_preemption_keeps_old_target_witness:
  "\<exists>s'. onPreempt sim_api ntp_behavior_tree (initializeGoalPose sim_nav_config sim_nav_env map_bb)
      (get_pending_goal sim_api (action_server sim_preempted)) sim_preempted = (Inr (), s') \<and>
    blackboard s' = [''goal'' \<mapsto> BB_Pose (pose_in ''map'')] \<and> current_handle (action_server s') = Some 1"
proof -
  let ?s = sim_preempted
  have srv: "action_server ?s = \<lparr>server_active = True, stop_execution = False, preempt_requested = True,
      current_handle = Some 0, pending_handle = Some 1, execution_future = Some Executing,
      goal_store = (\<lambda>_. Unknown_Goal)(0 := Executing_Goal, 1 := Executing_Goal)\<rparr>"
    by (simp add: sim_preempted_def executing_server_def server_init_def handle_accepted_def is_active_def ros_api_def)
  have inv: "server_inv sim_api ros_ok (action_server ?s)"
    by (auto simp: srv server_inv_def ros_api_def ros_ok_def)
  have goal: "get_pending_goal sim_api (action_server ?s) = Some (sim_goal 1)"
    by (simp add: srv get_pending_goal_def is_active_def ros_api_def)
  have tree: "same_tree (ntp_behavior_tree (sim_goal 1)) ?s"
    by (simp add: same_tree_def sim_goal_def sim_preempted_def sim_navigator_def)
  let ?t = "?s\<lparr>action_server := snd (accept_pending_goal sim_api (action_server ?s))\<rparr>"
  have w: "bt_world ?s = {''map'', ''base_link''}"
    by (simp add: sim_preempted_def sim_navigator_def)
  have cur: "nav_current_pose sim_nav_config sim_nav_env ?t = ((True, pose_in ''base_link''), ?t)"
    by (simp add: nav_current_pose_def getCurrentPose_def transformPoseInTargetFrame_def sim_nav_env_def w
        sim_nav_config_def pose_in_def)
  have tr: "nav_transform sim_nav_config sim_nav_env (ntp_pose (sim_goal 1)) default_pose_stamped ?t =
      ((False, default_pose_stamped), ?t)"
    by (simp add: nav_transform_def transformPoseInTargetFrame_def sim_nav_env_def w sim_goal_def pose_in_def)
  have slots: "current_handle (action_server ?s) = Some 0" "pending_handle (action_server ?s) = Some 1"
    by (simp_all add: srv)
  have bb: "blackboard ?t = blackboard ?s" "blackboard ?s = [''goal'' \<mapsto> BB_Pose (pose_in ''map'')]"
    by simp (simp add: sim_preempted_def)
  show ?thesis
    using failed_preemption_keeps_old_target [OF ros_msg.goal_handles_axioms inv slots goal tree cur tr bb(1), of map_bb
        "\<lparr>nav_error_code = 0, nav_error_msg = []\<rparr>"] bb(2)
    by metis
qed

text \<open>C20: The muxer lets one navigator at a time navigate if the goal reception of a navigator is not
  interrupted: in every reachable state the running navigator is the one the muxer names. As it is written,
  with two separate calls on the muxer, two navigators can navigate at the same time.\<close>

theorem muxer_exclusive_only_if_atomic:
  "Collect (mux_atomic_step\<^sup>*\<^sup>* mux_init) \<subseteq> Collect mux_exclusive \<and>
   (\<exists>t. mux_step\<^sup>*\<^sup>* mux_init t \<and> nav_pc t ''navigate_to_pose'' = Nav_Running \<and>
      nav_pc t ''navigate_through_poses'' = Nav_Running)"
proof (intro conjI)
  let ?a = "''navigate_to_pose''" and ?b = "''navigate_through_poses''"
  define t1 where "t1 = mux_init\<lparr>nav_pc := (nav_pc mux_init)(?a := Nav_Checked)\<rparr>"
  define t2 where "t2 = t1\<lparr>nav_pc := (nav_pc t1)(?b := Nav_Checked)\<rparr>"
  define t3 where "t3 = \<lparr>mux_name = startNavigating ?a (mux_name t2), nav_pc = (nav_pc t2)(?a := Nav_Running)\<rparr>"
  define t4 where "t4 = \<lparr>mux_name = startNavigating ?b (mux_name t3), nav_pc = (nav_pc t3)(?b := Nav_Running)\<rparr>"
  have "mux_step mux_init t1" "mux_step t1 t2"
    unfolding t1_def t2_def by (rule mux_step.check; simp add: mux_init_def isNavigating_def)+
  moreover have "mux_step t2 t3" "mux_step t3 t4"
    unfolding t4_def t3_def by (rule mux_step.start; simp add: t2_def t1_def mux_init_def)+
  ultimately have "mux_step\<^sup>*\<^sup>* mux_init t4"
    by (meson rtranclp.rtrancl_refl rtranclp.rtrancl_into_rtrancl)
  then show "\<exists>t. mux_step\<^sup>*\<^sup>* mux_init t \<and> nav_pc t ?a = Nav_Running \<and> nav_pc t ?b = Nav_Running"
    by (intro exI [of _ t4]) (simp add: t4_def t3_def)
qed (auto intro: mux_atomic_exclusive)

text \<open>The waypoints of \<open>NavigateThroughPoses\<close>. When the goal poses are accepted, the blackboard holds one pending
  waypoint per goal pose, numbered in order and with its pose in the goal list; and when the goal completes,
  its result reports as many waypoints as the blackboard holds, with the same poses and none of them pending.\<close>

theorem through_poses_waypoints:
  assumes "blackboard_laws bb" and "waypoint_statuses_blackboard_id cfg \<noteq> goals_blackboard_id cfg"
    and "initializeGoalPoses cfg env bb (Some g) s = (Inr True, s')"
    and "bb_get_waypoints bb (blackboard t) (waypoint_statuses_blackboard_id cfg) = Some ws"
  shows "(\<exists>ps. length ps = length (goal_list (nth_poses g)) \<and>
      bb_get_waypoints bb (blackboard s') (waypoint_statuses_blackboard_id cfg) = Some (initial_waypoints ps) \<and>
      map_option goal_list (bb_get_goals bb (blackboard s') (goals_blackboard_id cfg)) = Some ps \<and>
      map wp_pose (initial_waypoints ps) = ps \<and> map wp_index (initial_waypoints ps) = [0..<length ps]) \<and>
    (\<exists>r'. nth_goalCompleted cfg bb r rc t = (Inr r', t) \<and>
      map wp_pose (res_waypoint_statuses r') = map wp_pose ws \<and>
      list_all (\<lambda>w. wp_status w \<noteq> PENDING) (res_waypoint_statuses r'))"
proof (rule conjI)
  obtain x ps s1 s2 b where "nav_current_pose cfg env s = (x, s1)" and ps: "transform_goals cfg env (goal_list (nth_poses g)) s1 = (Some ps, s2)"
    "blackboard s' = bb_set_waypoints bb (waypoint_statuses_blackboard_id cfg) (initial_waypoints ps)
      (bb_set_goals bb (goals_blackboard_id cfg) ((nth_poses g)\<lparr>goal_list := ps\<rparr>)
        (bb_set_int bb ''number_recoveries'' 0 b))"
    using assms(3) by (auto simp: initializeGoalPoses_def split: prod.splits if_splits option.splits)
  note laws = blackboard_laws.get_set_waypoints [OF assms(1)] blackboard_laws.get_set_goals [OF assms(1)]
    blackboard_laws.get_goals_set_waypoints [OF assms(1)]
  show "\<exists>ps. length ps = length (goal_list (nth_poses g)) \<and>
      bb_get_waypoints bb (blackboard s') (waypoint_statuses_blackboard_id cfg) = Some (initial_waypoints ps) \<and>
      map_option goal_list (bb_get_goals bb (blackboard s') (goals_blackboard_id cfg)) = Some ps \<and>
      map wp_pose (initial_waypoints ps) = ps \<and> map wp_index (initial_waypoints ps) = [0..<length ps]"
    using ps transform_goals_length [OF ps(1)] assms(2) initial_waypoints_poses [of ps]
    by (intro exI [of _ ps]) (simp add: laws initial_waypoints_def comp_def)
  show "\<exists>r'. nth_goalCompleted cfg bb r rc t = (Inr r', t) \<and>
      map wp_pose (res_waypoint_statuses r') = map wp_pose ws \<and>
      list_all (\<lambda>w. wp_status w \<noteq> PENDING) (res_waypoint_statuses r')"
    using assms(4) integrate_status_settled [of rc ws] by (simp add: nth_goalCompleted_def Let_def)
qed

definition sim_through :: "(nat, nat \<Rightarrow> goal_status, string \<rightharpoonup> bb_entry, string set, through_feedback) navigator" where
  "sim_through = \<lparr>action_server = executing_server,
     blackboard = [''waypoint_statuses'' \<mapsto> BB_Waypoints [\<lparr>wp_status = 0, wp_index = 0, wp_pose = pose_in ''map''\<rparr>]],
     current_bt_xml_filename = ''tree.xml'',
     default_bt_xml_filename = ''tree.xml'', always_reload_bt_xml = False, internal_error_code = 0,
     internal_error_msg = [], error_code_name_prefixes = [], bt_world = {''map'', ''base_link''}, plugin_muxer = [],
     nav_start_time = 0, published_feedback = []\<rparr>"

theorem through_poses_waypoints_witness:
  "\<exists>r'. nth_goalCompleted sim_nav_config map_bb \<lparr>nav_error_code = 0, nav_error_msg = [], res_waypoint_statuses = []\<rparr>
      SUCCEEDED sim_through = (Inr r', sim_through) \<and>
    map wp_pose (res_waypoint_statuses r') = [pose_in ''map'']"
proof -
  let ?g = "\<lparr>nth_poses = \<lparr>goals_header = default_header, goal_list = [pose_in ''map'', pose_in ''map'']\<rparr>,
    nth_behavior_tree = []\<rparr>"
  have "fst (initializeGoalPoses sim_nav_config sim_nav_env map_bb (Some ?g) sim_through) = Inr True"
    by (simp add: initializeGoalPoses_def nav_current_pose_def getCurrentPose_def transformPoseInTargetFrame_def
        nav_transform_def nav_clock_now_def sim_nav_env_def sim_nav_config_def sim_through_def pose_in_def)
  then obtain s' where i: "initializeGoalPoses sim_nav_config sim_nav_env map_bb (Some ?g) sim_through = (Inr True, s')"
    by (metis prod.collapse)
  have d: "waypoint_statuses_blackboard_id sim_nav_config \<noteq> goals_blackboard_id sim_nav_config"
    by (simp add: sim_nav_config_def)
  have w: "bb_get_waypoints map_bb (blackboard sim_through) (waypoint_statuses_blackboard_id sim_nav_config) =
    Some [\<lparr>wp_status = 0, wp_index = 0, wp_pose = pose_in ''map''\<rparr>]"
    by (simp add: sim_through_def sim_nav_config_def map_bb_def)
  from through_poses_waypoints [OF map_bb.blackboard_laws_axioms d i w,
      of "\<lparr>nav_error_code = 0, nav_error_msg = [], res_waypoint_statuses = []\<rparr>" SUCCEEDED] show ?thesis
    by auto
qed

end
