(* ===== verification/Nav3d_Parsing.thy ===== *)
theory Nav3d_Parsing
  imports Nav3d_Prelude
begin

text \<open>
  The string functions (\<open>string_utils.cpp\<close>) and the parser of nested arrays (\<open>array_parser.cpp\<close>). A
  \<open>std::stringstream\<close> that is only read is the list of the characters that are left. What the source uses of the
  standard library is modelled: \<open>std::string::find\<close>, and the extraction of a float, which skips white space, reads the longest prefix
  made of the characters of a decimal number, and fails if these are not one.
\<close>

section \<open>Strings\<close>

function strip_loop :: "string \<Rightarrow> nat \<Rightarrow> nat" where
  "strip_loop s i = (if i < length s \<and> s ! i = CHR ''/'' then strip_loop s (Suc i) else i)"
  by auto
termination
  by (relation "measure (\<lambda>(s, i). length s - i)") auto

definition strip_leading_slash :: "string \<Rightarrow> string" where
  "strip_leading_slash s = drop (strip_loop s 0) s"

definition str_find :: "string \<Rightarrow> char \<Rightarrow> nat \<Rightarrow> nat option" where
  "str_find s c pos = find (\<lambda>i. s ! i = c) [pos..<length s]"

lemma str_find_Some:
  "str_find s c pos = Some i \<longleftrightarrow> pos \<le> i \<and> i < length s \<and> s ! i = c \<and> c \<notin> set (take (i - pos) (drop pos s))"
  (is "?l = ?r")
proof
  assume ?l
  then obtain k where k: "k < length s - pos" "i = pos + k" "s ! i = c" "\<forall>j<k. s ! (pos + j) \<noteq> c"
    by (auto simp: str_find_def find_Some_iff)
  then show ?r
    by (auto simp: in_set_conv_nth)
next
  assume r: ?r
  have "s ! (pos + j) \<noteq> c" if "j < i - pos" for j
    using r that by (auto simp: in_set_conv_nth)
  then show ?l
    using r by (auto simp: str_find_def find_Some_iff intro!: exI [of _ "i - pos"])
qed

lemma set_drop_nth: "c \<in> set (drop n s) \<longleftrightarrow> (\<exists>i. n \<le> i \<and> i < length s \<and> s ! i = c)"
proof
  assume "c \<in> set (drop n s)"
  then obtain k where "k < length s - n" "s ! (n + k) = c"
    by (auto simp: in_set_conv_nth)
  then show "\<exists>i. n \<le> i \<and> i < length s \<and> s ! i = c"
    by (intro exI [of _ "n + k"]) auto
next
  assume "\<exists>i. n \<le> i \<and> i < length s \<and> s ! i = c"
  then obtain i where "n \<le> i" "i < length s" "s ! i = c"
    by blast
  then show "c \<in> set (drop n s)"
    by (auto simp: in_set_conv_nth intro!: exI [of _ "i - n"])
qed

lemma str_find_None: "str_find s c pos = None \<longleftrightarrow> c \<notin> set (drop pos s)"
  by (auto simp: str_find_def find_None_iff set_drop_nth)

function split_loop :: "string \<Rightarrow> char \<Rightarrow> nat \<Rightarrow> string list \<Rightarrow> string list" where
  "split_loop s d current_pos tokens =
     (case str_find s d current_pos of
        Some pos \<Rightarrow> split_loop s d (Suc pos) (tokens @ [take (pos - current_pos) (drop current_pos s)])
      | None \<Rightarrow> tokens @ [drop current_pos s])"
  by auto
termination
  by (relation "measure (\<lambda>(s, d, p, ts). length s - p)") (auto simp: str_find_Some)

declare strip_loop.simps [simp del] split_loop.simps [simp del]

definition split_string :: "string \<Rightarrow> char \<Rightarrow> string list" where
  "split_string s d = split_loop s d 0 []"

section \<open>Nested arrays\<close>

definition is_digit :: "char \<Rightarrow> bool" where
  "is_digit c \<longleftrightarrow> of_char c \<in> {48..57 :: nat}"

definition digit_val :: "char \<Rightarrow> nat" where
  "digit_val c = of_char c - 48"

definition is_space :: "char \<Rightarrow> bool" where
  "is_space c \<longleftrightarrow> of_char c \<in> {9..13 :: nat} \<or> c = CHR '' ''"

definition digits_val :: "string \<Rightarrow> nat" where
  "digits_val ds = fold (\<lambda>c n. 10 * n + digit_val c) ds 0"

text \<open>
  The extraction of a float: sign, digits, fraction and exponent, the value and what is left of the stream. A number needs a digit before
  or after its point, and an exponent needs a digit.
\<close>

definition take_sign :: "string \<Rightarrow> bool \<times> string" where
  "take_sign s =
     (case s of
        c # cs \<Rightarrow> if c = CHR ''-'' then (True, cs) else if c = CHR ''+'' then (False, cs) else (False, s)
      | [] \<Rightarrow> (False, []))"

definition take_digits :: "string \<Rightarrow> string \<times> string" where
  "take_digits s = (takeWhile is_digit s, dropWhile is_digit s)"

definition read_fraction :: "string \<Rightarrow> string \<times> string" where
  "read_fraction s =
     (case s of c # cs \<Rightarrow> if c = CHR ''.'' then take_digits cs else ([], s) | [] \<Rightarrow> ([], []))"

definition read_exponent :: "string \<Rightarrow> int option \<times> string" where
  "read_exponent s =
     (case s of
        c # cs \<Rightarrow>
          if c = CHR ''e'' \<or> c = CHR ''E'' then
            (let (neg, s1) = take_sign cs; (ds, s2) = take_digits s1
             in (if ds = [] then None else Some (if neg then - int (digits_val ds) else int (digits_val ds)), s2))
          else (Some 0, s)
      | [] \<Rightarrow> (Some 0, []))"

definition read_float :: "string \<Rightarrow> (double \<times> string) option" where
  "read_float s0 =
     (let (neg, s1) = take_sign (dropWhile is_space s0);
          (ip, s2) = take_digits s1;
          (fp, s3) = read_fraction s2
      in if ip = [] \<and> fp = [] then None
         else case read_exponent s3 of
           (None, s4) \<Rightarrow> None
         | (Some e, s4) \<Rightarrow>
             (let v = real (digits_val (ip @ fp)) * (10 powr real_of_int (e - int (length fp)))
              in Some (if neg then - v else v, s4)))"

datatype vvf_error = Depth_Too_Large | Too_Many_Close | Numbers_At_Depth char | Float_Failed | Unterminated

text \<open>The loop of \<open>parseVVF\<close>, as long as the stream is good and not at its end.\<close>

function parse_loop ::
  "string \<Rightarrow> int \<Rightarrow> double list \<Rightarrow> double list list \<Rightarrow> double list list \<times> vvf_error option" where
  "parse_loop [] depth cur res = (if depth \<noteq> 0 then (res, Some Unterminated) else (res, None))"
| "parse_loop (c # cs) depth cur res =
     (if c = CHR ''['' then
        if depth + 1 > 2 then (res, Some Depth_Too_Large) else parse_loop cs (depth + 1) [] res
      else if c = CHR '']'' then
        if depth - 1 < 0 then (res, Some Too_Many_Close)
        else parse_loop cs (depth - 1) cur (if depth - 1 = 1 then res @ [cur] else res)
      else if c = CHR '','' \<or> c = CHR '' '' \<or> c = CHR 0x09 then parse_loop cs depth cur res
      else if depth \<noteq> 2 then (res, Some (Numbers_At_Depth c))
      else case read_float (c # cs) of
        None \<Rightarrow> (res, Some Float_Failed)
      | Some (v, rest) \<Rightarrow> parse_loop rest depth (cur @ [v]) res)"
  by pat_completeness auto

lemma take_digits_length: "take_digits s = (ds, s') \<Longrightarrow> length s = length ds + length s'"
  unfolding take_digits_def by (metis length_append prod.inject takeWhile_dropWhile_id)

lemma take_sign_length: "take_sign s = (b, s') \<Longrightarrow> length s' \<le> length s"
  by (auto simp: take_sign_def split: list.splits if_splits)

lemma read_fraction_length: "read_fraction s = (ds, s') \<Longrightarrow> length ds + length s' \<le> length s"
  by (auto simp: read_fraction_def dest: take_digits_length split: list.splits if_splits)

lemma read_exponent_length: "read_exponent s = (e, s') \<Longrightarrow> length s' \<le> length s"
  by (auto simp: read_exponent_def Let_def dest!: take_digits_length take_sign_length
      split: list.splits if_splits prod.splits)

lemma read_float_length: "read_float s = Some (v, s') \<Longrightarrow> length s' < length s"
proof -
  assume r: "read_float s = Some (v, s')"
  obtain neg s1 where s1: "take_sign (dropWhile is_space s) = (neg, s1)"
    by (rule prod.exhaust)
  obtain ip s2 where s2: "take_digits s1 = (ip, s2)"
    by (rule prod.exhaust)
  obtain fp s3 where s3: "read_fraction s2 = (fp, s3)"
    by (rule prod.exhaust)
  obtain e s4 where s4: "read_exponent s3 = (e, s4)"
    by (rule prod.exhaust)
  have "ip \<noteq> [] \<or> fp \<noteq> []" and "s' = s4"
    using r by (auto simp: read_float_def s1 s2 s3 s4 Let_def split: if_splits option.splits)
  then have "0 < length ip + length fp"
    by auto
  then show ?thesis
    using take_sign_length [OF s1] take_digits_length [OF s2] read_fraction_length [OF s3] read_exponent_length [OF s4]
      length_dropWhile_le [of is_space s] unfolding \<open>s' = s4\<close> by linarith
qed

termination parse_loop
  by (relation "measure (\<lambda>(s, _). length s)") (auto dest: read_float_length)

definition parseVVF :: "string \<Rightarrow> double list list \<times> vvf_error option" where
  "parseVVF s = parse_loop s 0 [] []"

end
