(* ===== verification/BT_Navigator.thy ===== *)
theory BT_Navigator
  imports Navigators_Props Nav3d_Parsing
begin

text \<open>
  The lifecycle of the \<open>bt_navigator\<close> node (\<open>bt_navigator.cpp\<close>): the navigator plugins with their \<open>BtActionServer\<close>, which
  \<open>BehaviorTreeNavigator\<close> (\<open>behavior_tree_navigator.hpp\<close>) configures, activates, deactivates and destroys. The plugin
  loader, the parameters and the libraries of tree nodes are the record \<open>plugin_env\<close>. The servers are those of \<open>BT_Server\<close>.
\<close>

section \<open>BtActionServer\<close>

text \<open>
  The pointers of a navigator: \<open>bt_action_server_\<close> is null, or it is constructed, or also configured. Only a configured one has
  its members \<open>action_server_\<close> and \<open>bt_\<close>.
\<close>

datatype 's server_ptr = Srv_Null | Srv_Constructed | Srv_Configured 's

text \<open>What the plugins and the parameters of the node give; \<open>None\<close> stands for an exception.\<close>

record ('b, 'w) plugin_env =
  pe_type :: "string \<Rightarrow> string option"
  pe_instance :: "string \<Rightarrow> bool"
  pe_default_tree :: "string \<Rightarrow> string option"
  pe_error_code_names :: bool
  pe_library_loads :: "string \<Rightarrow> bool"
  pe_always_reload :: bool
  pe_prefixes :: "string list"
  pe_configure :: "string \<Rightarrow> bool option"
  pe_blackboard :: 'b
  pe_world :: 'w

text \<open>\<open>on_configure\<close> creates the engine, which loads the libraries of tree nodes, and throws if one is missing.\<close>

definition bts_on_configure ::
  "('b, 'w) plugin_env \<Rightarrow> 'g \<Rightarrow> string list \<Rightarrow> string \<Rightarrow> ('h, 'g, 'b, 'w) bt_server option" where
  "bts_on_configure env store plugin_lib_names default_tree =
     (if list_all (pe_library_loads env) plugin_lib_names then
        Some \<lparr>action_server = server_init store, blackboard = pe_blackboard env, current_bt_xml_filename = [],
          default_bt_xml_filename = default_tree, always_reload_bt_xml = pe_always_reload env, internal_error_code = 0,
          internal_error_msg = [], error_code_name_prefixes = pe_prefixes env, bt_world = pe_world env\<rparr>
      else None)"

text \<open>\<open>on_deactivate\<close> waits for the worker of the action server; \<open>None\<close> says it still waits.\<close>

definition bts_on_deactivate ::
  "('h, 'a, 'r, 'g) goal_api \<Rightarrow> ((('h, 'g) server \<Rightarrow> ('h, 'g) server) \<times> bool) list \<Rightarrow>
    ('h, 'g, 'b, 'w) bt_server \<Rightarrow> ('h, 'g, 'b, 'w) bt_server option" where
  "bts_on_deactivate api rounds s =
     map_option (\<lambda>a. s\<lparr>action_server := a\<rparr>) (deactivate api None rounds (action_server s))"

section \<open>BehaviorTreeNavigator\<close>

record 's navigator_plugin =
  np_id :: string
  np_server :: "'s server_ptr"

type_synonym ('h, 'g, 'b, 'w) plugin = "('h, 'g, 'b, 'w) bt_server navigator_plugin"

definition btn_on_configure ::
  "'b blackboard_api \<Rightarrow> ('b, 'w) plugin_env \<Rightarrow> 'g \<Rightarrow> string list \<Rightarrow> ('h, 'g, 'b, 'w) plugin \<Rightarrow>
    (nav_exn + bool) \<times> ('h, 'g, 'b, 'w) plugin" where
  "btn_on_configure bb env store libs p =
     (case pe_default_tree env (np_id p) of
        None \<Rightarrow> (Inl Nav_Exception, p)
      | Some tree \<Rightarrow>
          if pe_error_code_names env then (Inl Nav_Exception, p)
          else case bts_on_configure env store libs tree of
            None \<Rightarrow> (Inl Nav_Exception, p\<lparr>np_server := Srv_Constructed\<rparr>)
          | Some s \<Rightarrow>
              (let p1 = p\<lparr>np_server := Srv_Configured (s\<lparr>blackboard := bb_set_int bb ''number_recoveries'' 0 (blackboard s)\<rparr>)\<rparr> in
               case pe_configure env (np_id p) of
                 None \<Rightarrow> (Inl Nav_Exception, p1)
               | Some ok \<Rightarrow> (Inr ok, p1)))"

definition btn_on_activate ::
  "'w bt_files \<Rightarrow> (string \<Rightarrow> 16 word) \<Rightarrow> ('h, 'g, 'b, 'w) plugin \<Rightarrow> (nav_exn + bool) \<times> ('h, 'g, 'b, 'w) plugin" where
  "btn_on_activate files failed p =
     (case np_server p of
        Srv_Configured s \<Rightarrow> (let (ok, s1) = bts_on_activate files (failed (np_id p)) s in (Inr ok, p\<lparr>np_server := Srv_Configured s1\<rparr>))
      | _ \<Rightarrow> (Inl Nav_Null_Pointer, p))"

text \<open>\<open>on_deactivate\<close>; \<open>None\<close> while it waits.\<close>

definition btn_on_deactivate ::
  "('h, 'a, 'r, 'g) goal_api \<Rightarrow> ((('h, 'g) server \<Rightarrow> ('h, 'g) server) \<times> bool) list \<Rightarrow>
    ('h, 'g, 'b, 'w) plugin \<Rightarrow> ((nav_exn + bool) \<times> ('h, 'g, 'b, 'w) plugin) option" where
  "btn_on_deactivate api rounds p =
     (case np_server p of
        Srv_Configured s \<Rightarrow>
          map_option (\<lambda>s1. (Inr True, p\<lparr>np_server := Srv_Configured s1\<rparr>)) (bts_on_deactivate api rounds s)
      | _ \<Rightarrow> Some (Inl Nav_Null_Pointer, p))"

text \<open>\<open>on_cleanup\<close> of the server calls methods of \<open>bt_\<close>, and the navigator then destroys the server.\<close>

definition btn_on_cleanup :: "('h, 'g, 'b, 'w) plugin \<Rightarrow> (nav_exn + bool) \<times> ('h, 'g, 'b, 'w) plugin" where
  "btn_on_cleanup p =
     (case np_server p of
        Srv_Configured s \<Rightarrow> (Inr True, p\<lparr>np_server := Srv_Null\<rparr>)
      | _ \<Rightarrow> (Inl Nav_Null_Pointer, p))"

section \<open>BtNavigator\<close>

datatype callback_return = CB_SUCCESS | CB_FAILURE

record 's bt_navigator =
  navigators :: "'s navigator_plugin list"
  bt_bond :: bool
  tf_alive :: bool

type_synonym ('h, 'g, 'b, 'w) node = "('h, 'g, 'b, 'w) bt_server bt_navigator"

fun cleanup_loop ::
  "('h, 'g, 'b, 'w) plugin list \<Rightarrow> (nav_exn + bool) \<times> ('h, 'g, 'b, 'w) plugin list" where
  "cleanup_loop [] = (Inr True, [])"
| "cleanup_loop (p # ps) =
     (case btn_on_cleanup p of
        (Inr True, p1) \<Rightarrow> (let (r, ps1) = cleanup_loop ps in (r, p1 # ps1))
      | (r, p1) \<Rightarrow> (r, p1 # ps))"

definition nav_on_cleanup :: "('h, 'g, 'b, 'w) node \<Rightarrow> (nav_exn + callback_return) \<times> ('h, 'g, 'b, 'w) node" where
  "nav_on_cleanup n =
     (case cleanup_loop (navigators n) of
        (Inl x, ps) \<Rightarrow> (Inl x, n\<lparr>tf_alive := False, navigators := ps\<rparr>)
      | (Inr False, ps) \<Rightarrow> (Inr CB_FAILURE, n\<lparr>tf_alive := False, navigators := ps\<rparr>)
      | (Inr True, ps) \<Rightarrow> (Inr CB_SUCCESS, n\<lparr>tf_alive := False, navigators := []\<rparr>))"

text \<open>The loop of \<open>on_configure\<close>; the handler of the exceptions runs \<open>on_cleanup\<close>.\<close>

fun configure_loop ::
  "'b blackboard_api \<Rightarrow> ('b, 'w) plugin_env \<Rightarrow> 'g \<Rightarrow> string list \<Rightarrow> string list \<Rightarrow> ('h, 'g, 'b, 'w) node \<Rightarrow>
    (nav_exn + callback_return) \<times> ('h, 'g, 'b, 'w) node" where
  "configure_loop bb env store libs [] n = (Inr CB_SUCCESS, n)"
| "configure_loop bb env store libs (i # ids) n =
     (let failed = (\<lambda>n. case nav_on_cleanup n of (Inl x, n1) \<Rightarrow> (Inl x, n1) | (Inr _, n1) \<Rightarrow> (Inr CB_FAILURE, n1)) in
      case pe_type env i of
        None \<Rightarrow> failed n
      | Some ty \<Rightarrow>
          if \<not> pe_instance env ty then failed n
          else case btn_on_configure bb env store libs \<lparr>np_id = i, np_server = Srv_Null\<rparr> of
            (Inl _, p) \<Rightarrow> failed (n\<lparr>navigators := navigators n @ [p]\<rparr>)
          | (Inr False, p) \<Rightarrow> (Inr CB_FAILURE, n\<lparr>navigators := navigators n @ [p]\<rparr>)
          | (Inr True, p) \<Rightarrow> configure_loop bb env store libs ids (n\<lparr>navigators := navigators n @ [p]\<rparr>))"

definition nav_on_configure ::
  "'b blackboard_api \<Rightarrow> ('b, 'w) plugin_env \<Rightarrow> 'g \<Rightarrow> string \<Rightarrow> string list \<Rightarrow> string list \<Rightarrow> ('h, 'g, 'b, 'w) node \<Rightarrow>
    (nav_exn + callback_return) \<times> ('h, 'g, 'b, 'w) node" where
  "nav_on_configure bb env store builtin user_plugins ids n =
     configure_loop bb env store (split_string builtin CHR '';'' @ user_plugins) ids (n\<lparr>tf_alive := True\<rparr>)"

fun deactivate_loop ::
  "('h, 'a, 'r, 'g) goal_api \<Rightarrow> (nat \<Rightarrow> ((('h, 'g) server \<Rightarrow> ('h, 'g) server) \<times> bool) list) \<Rightarrow> nat \<Rightarrow>
    ('h, 'g, 'b, 'w) plugin list \<Rightarrow> ((nav_exn + bool) \<times> ('h, 'g, 'b, 'w) plugin list) option" where
  "deactivate_loop api rounds i [] = Some (Inr True, [])"
| "deactivate_loop api rounds i (p # ps) =
     (case btn_on_deactivate api (rounds i) p of
        None \<Rightarrow> None
      | Some (Inr True, p1) \<Rightarrow>
          (case deactivate_loop api rounds (Suc i) ps of
             None \<Rightarrow> None
           | Some (r, ps1) \<Rightarrow> Some (r, p1 # ps1))
      | Some (r, p1) \<Rightarrow> Some (r, p1 # ps))"

definition nav_on_deactivate ::
  "('h, 'a, 'r, 'g) goal_api \<Rightarrow> (nat \<Rightarrow> ((('h, 'g) server \<Rightarrow> ('h, 'g) server) \<times> bool) list) \<Rightarrow> ('h, 'g, 'b, 'w) node \<Rightarrow>
    ((nav_exn + callback_return) \<times> ('h, 'g, 'b, 'w) node) option" where
  "nav_on_deactivate api rounds n =
     map_option (\<lambda>(r, ps). case r of
         Inl x \<Rightarrow> (Inl x, n\<lparr>navigators := ps\<rparr>)
       | Inr False \<Rightarrow> (Inr CB_FAILURE, n\<lparr>navigators := ps\<rparr>)
       | Inr True \<Rightarrow> (Inr CB_SUCCESS, n\<lparr>navigators := ps, bt_bond := False\<rparr>))
       (deactivate_loop api rounds 0 (navigators n))"

fun activate_loop ::
  "'w bt_files \<Rightarrow> (string \<Rightarrow> 16 word) \<Rightarrow> ('h, 'g, 'b, 'w) plugin list \<Rightarrow> (nav_exn + bool) \<times> ('h, 'g, 'b, 'w) plugin list" where
  "activate_loop files failed [] = (Inr True, [])"
| "activate_loop files failed (p # ps) =
     (case btn_on_activate files failed p of
        (Inr True, p1) \<Rightarrow> (let (r, ps1) = activate_loop files failed ps in (r, p1 # ps1))
      | (r, p1) \<Rightarrow> (r, p1 # ps))"

definition nav_on_activate ::
  "'w bt_files \<Rightarrow> (string \<Rightarrow> 16 word) \<Rightarrow> ('h, 'a, 'r, 'g) goal_api \<Rightarrow> (nat \<Rightarrow> ((('h, 'g) server \<Rightarrow> ('h, 'g) server) \<times> bool) list) \<Rightarrow>
    ('h, 'g, 'b, 'w) node \<Rightarrow> ((nav_exn + callback_return) \<times> ('h, 'g, 'b, 'w) node) option" where
  "nav_on_activate files failed api rounds n =
     (case activate_loop files failed (navigators n) of
        (Inl x, ps) \<Rightarrow> Some (Inl x, n\<lparr>navigators := ps\<rparr>)
      | (Inr True, ps) \<Rightarrow> Some (Inr CB_SUCCESS, n\<lparr>navigators := ps, bt_bond := True\<rparr>)
      | (Inr False, ps) \<Rightarrow>
          map_option (\<lambda>(r, n1). case r of Inl x \<Rightarrow> (Inl x, n1) | Inr _ \<Rightarrow> (Inr CB_FAILURE, n1))
            (nav_on_deactivate api rounds (n\<lparr>navigators := ps\<rparr>)))"

section \<open>What the callbacks keep\<close>

definition configured :: "('h, 'g, 'b, 'w) plugin \<Rightarrow> bool" where
  "configured p \<longleftrightarrow> (case np_server p of Srv_Configured s \<Rightarrow> execution_future (action_server s) = None | _ \<Rightarrow> False)"

definition plugin_active :: "('h, 'g, 'b, 'w) plugin \<Rightarrow> bool" where
  "plugin_active p \<longleftrightarrow> (case np_server p of Srv_Configured s \<Rightarrow> server_active (action_server s) | _ \<Rightarrow> False)"

definition tree_loaded :: "('h, 'g, 'b, 'w) plugin \<Rightarrow> bool" where
  "tree_loaded p \<longleftrightarrow>
     (case np_server p of Srv_Configured s \<Rightarrow> current_bt_xml_filename s = default_bt_xml_filename s | _ \<Rightarrow> False)"

lemma loadBehaviorTree_fields:
  assumes "loadBehaviorTree files c f s = (ok, s')"
  shows "action_server s' = action_server s" "default_bt_xml_filename s' = default_bt_xml_filename s"
    "ok \<Longrightarrow> f = default_bt_xml_filename s \<Longrightarrow> current_bt_xml_filename s' = default_bt_xml_filename s"
  using assms
  by (auto simp: loadBehaviorTree_def setInternalError_def Let_def split: if_splits prod.splits)

lemma btn_on_activate_configured:
  assumes "configured p"
  shows "\<exists>ok p1. btn_on_activate files failed p = (Inr ok, p1) \<and> configured p1 \<and> np_id p1 = np_id p \<and>
    (ok \<longrightarrow> plugin_active p1 \<and> tree_loaded p1)"
proof -
  obtain s where s: "np_server p = Srv_Configured s" "execution_future (action_server s) = None"
    using assms by (auto simp: configured_def split: server_ptr.splits)
  obtain ok s1 where l: "loadBehaviorTree files (failed (np_id p)) (default_bt_xml_filename s) (resetInternalError s) = (ok, s1)"
    by (rule prod.exhaust)
  note f = loadBehaviorTree_fields [OF l]
  show ?thesis
    using s l f
    by (cases ok) (auto simp: btn_on_activate_def bts_on_activate_def configured_def plugin_active_def tree_loaded_def
        resetInternalError_def activate_def)
qed

lemma btn_on_deactivate_configured:
  assumes "configured p"
  shows "\<exists>p1. btn_on_deactivate api rounds p = Some (Inr True, p1) \<and> configured p1 \<and> np_id p1 = np_id p \<and> \<not> plugin_active p1"
  using assms
  by (auto simp: configured_def plugin_active_def btn_on_deactivate_def bts_on_deactivate_def deactivate_def
      deactivate_request_def Let_def split: server_ptr.splits)

lemma activate_loop_configured:
  "list_all configured ps \<Longrightarrow> \<exists>ok ps1. activate_loop files failed ps = (Inr ok, ps1) \<and> list_all configured ps1 \<and>
     map np_id ps1 = map np_id ps \<and> (ok \<longrightarrow> list_all plugin_active ps1 \<and> list_all tree_loaded ps1)"
proof (induction ps)
  case (Cons p ps)
  obtain ok p1 where p: "btn_on_activate files failed p = (Inr ok, p1)" "configured p1" "np_id p1 = np_id p"
      "ok \<longrightarrow> plugin_active p1 \<and> tree_loaded p1"
    using btn_on_activate_configured [of p files failed] Cons.prems by auto
  obtain ok2 ps1 where ps: "activate_loop files failed ps = (Inr ok2, ps1)" "list_all configured ps1" "map np_id ps1 = map np_id ps"
      "ok2 \<longrightarrow> list_all plugin_active ps1 \<and> list_all tree_loaded ps1"
    using Cons by auto
  show ?case
    using p ps Cons.prems by (cases ok) auto
qed auto

lemma deactivate_loop_configured:
  "list_all configured ps \<Longrightarrow> \<exists>ps1. deactivate_loop api rounds i ps = Some (Inr True, ps1) \<and> list_all configured ps1 \<and>
     map np_id ps1 = map np_id ps \<and> list_all (\<lambda>p. \<not> plugin_active p) ps1"
proof (induction ps arbitrary: i)
  case (Cons p ps)
  obtain p1 where p: "btn_on_deactivate api (rounds i) p = Some (Inr True, p1)" "configured p1" "np_id p1 = np_id p"
      "\<not> plugin_active p1"
    using btn_on_deactivate_configured [of p api "rounds i"] Cons.prems by auto
  obtain ps1 where "deactivate_loop api rounds (Suc i) ps = Some (Inr True, ps1)" "list_all configured ps1"
      "map np_id ps1 = map np_id ps" "list_all (\<lambda>p. \<not> plugin_active p) ps1"
    using Cons by auto
  then show ?case
    using p by simp
qed simp

lemma cleanup_loop_configured: "list_all configured ps \<Longrightarrow> \<exists>ps1. cleanup_loop ps = (Inr True, ps1)"
  by (induction ps) (auto simp: configured_def btn_on_cleanup_def split: server_ptr.splits)

lemma btn_on_configure_True:
  "btn_on_configure bb env store libs \<lparr>np_id = i, np_server = Srv_Null\<rparr> = (Inr ok, p) \<Longrightarrow>
    configured p \<and> np_id p = i \<and> \<not> plugin_active p"
  by (auto simp: btn_on_configure_def bts_on_configure_def configured_def plugin_active_def server_init_def Let_def
      split: option.splits if_splits)

lemma btn_on_configure_throws:
  assumes "pe_default_tree env i = None \<or> pe_error_code_names env \<or> \<not> list_all (pe_library_loads env) libs"
  shows "\<exists>p. btn_on_configure bb env store libs \<lparr>np_id = i, np_server = Srv_Null\<rparr> = (Inl Nav_Exception, p) \<and>
    btn_on_cleanup p = (Inl Nav_Null_Pointer, p)"
proof (cases "pe_default_tree env i = None \<or> pe_error_code_names env")
  case True
  then show ?thesis
    by (cases "pe_default_tree env i") (auto simp: btn_on_configure_def btn_on_cleanup_def)
next
  case False
  then show ?thesis
    using assms by (auto simp: btn_on_configure_def bts_on_configure_def btn_on_cleanup_def)
qed

lemma configure_loop_success:
  "configure_loop bb env store libs ids n = (Inr CB_SUCCESS, n1) \<Longrightarrow>
     \<exists>ps. navigators n1 = navigators n @ ps \<and> map np_id ps = ids \<and> list_all configured ps \<and>
       list_all (\<lambda>p. \<not> plugin_active p) ps"
proof (induction ids arbitrary: n)
  case (Cons i ids)
  obtain p where p: "btn_on_configure bb env store libs \<lparr>np_id = i, np_server = Srv_Null\<rparr> = (Inr True, p)"
    "configure_loop bb env store libs ids (n\<lparr>navigators := navigators n @ [p]\<rparr>) = (Inr CB_SUCCESS, n1)"
    using Cons.prems by (auto simp: Let_def split: option.splits if_splits prod.splits sum.splits bool.splits)
  obtain ps where "navigators n1 = navigators n @ p # ps" "map np_id ps = ids" "list_all configured ps"
      "list_all (\<lambda>p. \<not> plugin_active p) ps"
    using Cons.IH [OF p(2)] by auto
  then show ?case
    using btn_on_configure_True [OF p(1)] by (intro exI [of _ "p # ps"]) simp
qed simp

section \<open>Properties\<close>

text \<open>C24: Activation of the \<open>bt_navigator\<close> node is all or nothing. If its navigators are configured and no goal is being executed,
  \<open>on_activate\<close> returns without an exception: either it succeeds, every action server accepts goals, every navigator has its default
  tree loaded and the bond exists, or it fails, and no action server accepts goals and there is no bond.\<close>

theorem navigator_activation_all_or_nothing:
  assumes "list_all configured (navigators n)" and "\<not> bt_bond n"
  shows "\<exists>r n1. nav_on_activate files failed api rounds n = Some (Inr r, n1) \<and>
    map np_id (navigators n1) = map np_id (navigators n) \<and>
    (r = CB_SUCCESS \<and> list_all plugin_active (navigators n1) \<and> list_all tree_loaded (navigators n1) \<and> bt_bond n1 \<or>
     r = CB_FAILURE \<and> list_all (\<lambda>p. \<not> plugin_active p) (navigators n1) \<and> \<not> bt_bond n1)"
proof -
  obtain ok ps1 where a: "activate_loop files failed (navigators n) = (Inr ok, ps1)" "list_all configured ps1"
    "map np_id ps1 = map np_id (navigators n)" "ok \<longrightarrow> list_all plugin_active ps1 \<and> list_all tree_loaded ps1"
    using activate_loop_configured [OF assms(1)] by blast
  obtain ps2 where d: "deactivate_loop api rounds 0 ps1 = Some (Inr True, ps2)" "map np_id ps2 = map np_id ps1"
    "list_all (\<lambda>p. \<not> plugin_active p) ps2"
    using deactivate_loop_configured [OF a(2)] by blast
  show ?thesis
    using a d assms(2) by (cases ok) (simp_all add: nav_on_activate_def nav_on_deactivate_def)
qed

text \<open>A node with two navigators, the second of which has no tree file.\<close>

definition demo_plugin :: "string \<Rightarrow> string \<Rightarrow> (nat, nat, nat, nat) plugin" where
  "demo_plugin i tree = \<lparr>np_id = i, np_server = Srv_Configured \<lparr>action_server = server_init 0, blackboard = 0,
     current_bt_xml_filename = [], default_bt_xml_filename = tree, always_reload_bt_xml = False, internal_error_code = 0,
     internal_error_msg = [], error_code_name_prefixes = [], bt_world = 0\<rparr>\<rparr>"

definition demo_node :: "(nat, nat, nat, nat) node" where
  "demo_node = \<lparr>navigators = [demo_plugin ''navigate_to_pose'' ''a.xml'', demo_plugin ''navigate_through_poses'' ''b.xml''],
     bt_bond = False, tf_alive = True\<rparr>"

definition demo_files :: "nat bt_files" where
  "demo_files = \<lparr>file_good = (\<lambda>f w. f = ''a.xml''), create_tree = (\<lambda>f w. (True, w))\<rparr>"

theorem navigator_activation_all_or_nothing_witness:
  "\<forall>api rounds. \<exists>n1. nav_on_activate demo_files (\<lambda>i. 9001) api rounds demo_node = Some (Inr CB_FAILURE, n1) \<and>
    list_all (\<lambda>p. \<not> plugin_active p) (navigators n1)"
proof (intro allI)
  fix api :: "(nat, 'a, 'r, nat) goal_api" and rounds
  have "list_all configured (navigators demo_node)" "\<not> bt_bond demo_node"
    by (simp_all add: demo_node_def demo_plugin_def configured_def server_init_def)
  from navigator_activation_all_or_nothing [OF this, of demo_files "\<lambda>i. 9001" api rounds]
  obtain r n1 where r: "nav_on_activate demo_files (\<lambda>i. 9001) api rounds demo_node = Some (Inr r, n1)"
    "r = CB_SUCCESS \<and> bt_bond n1 \<or> r = CB_FAILURE \<and> list_all (\<lambda>p. \<not> plugin_active p) (navigators n1)"
    by blast
  have "fst (activate_loop demo_files (\<lambda>i. 9001) (navigators demo_node)) = Inr False"
    by (simp add: demo_node_def demo_plugin_def btn_on_activate_def bts_on_activate_def loadBehaviorTree_def demo_files_def
        resetInternalError_def setInternalError_def Let_def)
  then obtain ps where "activate_loop demo_files (\<lambda>i. 9001) (navigators demo_node) = (Inr False, ps)"
    by (metis prod.collapse)
  then have "r \<noteq> CB_SUCCESS"
    using r(1) by (auto simp: nav_on_activate_def split: sum.splits prod.splits) (metis sum.exhaust)
  then show "\<exists>n1. nav_on_activate demo_files (\<lambda>i. 9001) api rounds demo_node = Some (Inr CB_FAILURE, n1) \<and>
      list_all (\<lambda>p. \<not> plugin_active p) (navigators n1)"
    using r by auto
qed


definition demo_env :: "(nat, nat) plugin_env" where
  "demo_env = \<lparr>pe_type = (\<lambda>i. Some i), pe_instance = (\<lambda>t. True), pe_default_tree = (\<lambda>i. Some ''a.xml''),
     pe_error_code_names = False, pe_library_loads = (\<lambda>l. l \<noteq> ''missing''), pe_always_reload = False, pe_prefixes = [],
     pe_configure = (\<lambda>i. Some True), pe_blackboard = 0, pe_world = 0\<rparr>"


text \<open>A node that was configured has one configured, inactive navigator per id, and cleaning it up leaves none.\<close>

lemma configure_cleanup:
  assumes "navigators n = []" and "nav_on_configure bb env store builtin user_plugins ids n = (Inr CB_SUCCESS, n1)"
  shows "map np_id (navigators n1) = ids \<and> list_all (\<lambda>p. configured p \<and> \<not> plugin_active p) (navigators n1) \<and>
    nav_on_cleanup n1 = (Inr CB_SUCCESS, n1\<lparr>tf_alive := False, navigators := []\<rparr>)"
proof -
  obtain ps where ps: "navigators n1 = ps" "map np_id ps = ids" "list_all configured ps" "list_all (\<lambda>p. \<not> plugin_active p) ps"
    using configure_loop_success [OF assms(2) [unfolded nav_on_configure_def]] assms(1) by auto
  then show ?thesis
    using cleanup_loop_configured [OF ps(3)] by (auto simp: nav_on_cleanup_def list_all_iff)
qed

end
