(* ===== verification/BT_Clients.thy ===== *)
theory BT_Clients
  imports BT_Control
begin

text \<open>
  The nodes of the behaviour tree that call servers: \<open>BtActionNode\<close> (\<open>bt_action_node.hpp\<close>), \<open>BtServiceNode\<close>
  (\<open>bt_service_node.hpp\<close>) and \<open>BtCancelActionNode\<close> (\<open>bt_cancel_action_node.hpp\<close>). The clients of rclcpp
  and rclcpp_action are records of functions over a world: each call says what it returns, and each call that spins the
  executor which callbacks ran during it, in order. The virtual functions a derived node overrides are
  the record of its hooks. Durations are in milliseconds, as in the code.
\<close>

section \<open>Clients and hooks\<close>

datatype future_code = FRC_SUCCESS | FRC_INTERRUPTED | FRC_TIMEOUT

datatype client_goal_status =
  STATUS_UNKNOWN | STATUS_ACCEPTED | STATUS_EXECUTING | STATUS_CANCELING | STATUS_SUCCEEDED | STATUS_CANCELED
| STATUS_ABORTED

datatype result_code = RC_UNKNOWN | RC_SUCCEEDED | RC_CANCELED | RC_ABORTED

record ('i, 'r) wrapped_result =
  wr_goal_id :: "'i option"
  wr_code :: result_code
  wr_result :: "'r option"

datatype ('i, 'r, 'f) client_event = Result_Callback "('i, 'r) wrapped_result" | Feedback_Callback 'f

text \<open>What leaves a node: an exception, or the dereference of a null pointer.\<close>

datatype client_exn = Node_Exn bt_exn | Null_Deref

record ('g, 'h, 'i, 'r, 'f, 'w) action_client =
  cl_now :: "'w \<Rightarrow> time_ns \<times> 'w"
  cl_ok :: "'w \<Rightarrow> bool"
  cl_send_goal :: "'g \<Rightarrow> 'w \<Rightarrow> 'w"
  cl_spin_goal :: "int \<Rightarrow> 'w \<Rightarrow> (future_code \<times> 'h option) \<times> ('i, 'r, 'f) client_event list \<times> 'w"
  cl_spin_some :: "'w \<Rightarrow> ('i, 'r, 'f) client_event list \<times> 'w"
  cl_status :: "'h \<Rightarrow> 'w \<Rightarrow> client_goal_status"
  cl_goal_id :: "'h \<Rightarrow> 'i"
  cl_cancel_goal :: "'h \<Rightarrow> 'w \<Rightarrow> 'w"
  cl_spin_cancel :: "int \<Rightarrow> 'w \<Rightarrow> future_code \<times> ('i, 'r, 'f) client_event list \<times> 'w"
  cl_spin_result :: "int \<Rightarrow> 'w \<Rightarrow> future_code \<times> ('i, 'r, 'f) client_event list \<times> 'w"

text \<open>
  \<open>on_tick\<close> gives the goal and whether it is to be sent, \<open>on_wait_for_result\<close> the goal and whether it was
  updated; the others read the result and write ports.
\<close>

record ('g, 'i, 'r, 'f, 'w) action_hooks =
  hk_on_tick :: "'w \<Rightarrow> (bt_exn + 'g \<times> bool) \<times> 'w"
  hk_on_wait_for_result :: "'f option \<Rightarrow> 'g \<Rightarrow> 'w \<Rightarrow> (bt_exn + 'g \<times> bool) \<times> 'w"
  hk_on_success :: "('i, 'r) wrapped_result \<Rightarrow> 'w \<Rightarrow> node_status \<times> 'w"
  hk_on_aborted :: "('i, 'r) wrapped_result \<Rightarrow> 'w \<Rightarrow> node_status \<times> 'w"
  hk_on_cancelled :: "('i, 'r) wrapped_result \<Rightarrow> 'w \<Rightarrow> node_status \<times> 'w"
  hk_on_timeout :: "'w \<Rightarrow> 'w"

section \<open>BtActionNode\<close>

record ('g, 'h, 'i, 'r, 'f) action_node =
  an_status :: node_status
  an_goal :: 'g
  goal_updated :: bool
  goal_result_available :: bool
  goal_handle :: "'h option"
  an_result :: "('i, 'r) wrapped_result"
  an_feedback :: "'f option"
  future_goal_handle :: bool
  time_goal_sent :: time_ns
  should_send_goal :: bool

record client_timeouts =
  server_timeout :: int
  max_timeout :: int

definition empty_result :: "('i, 'r) wrapped_result" where
  "empty_result = \<lparr>wr_goal_id = None, wr_code = RC_UNKNOWN, wr_result = None\<rparr>"

text \<open>\<open>to_chrono<milliseconds>\<close> truncates towards zero.\<close>

definition to_ms :: "duration_ns \<Rightarrow> int" where
  "to_ms d = (if d \<ge> 0 then d div 1000000 else - ((- d) div 1000000))"

definition isStatusActive :: "node_status \<Rightarrow> bool" where
  "isStatusActive s \<longleftrightarrow> s \<noteq> IDLE \<and> s \<noteq> SKIPPED"

type_synonym ('g, 'h, 'i, 'r, 'f, 'w) node_run = "('g, 'h, 'i, 'r, 'f) action_node \<times> 'w"

text \<open>The callbacks that \<open>send_new_goal\<close> registers.\<close>

fun client_callback ::
  "('g, 'h, 'i, 'r, 'f, 'w) action_client \<Rightarrow> ('i, 'r, 'f) client_event \<Rightarrow> ('g, 'h, 'i, 'r, 'f) action_node \<Rightarrow>
    client_exn + ('g, 'h, 'i, 'r, 'f) action_node" where
  "client_callback cl (Result_Callback r) n =
     (if future_goal_handle n then Inr n
      else case goal_handle n of
        None \<Rightarrow> Inl Null_Deref
      | Some h \<Rightarrow>
          Inr (if wr_goal_id r = Some (cl_goal_id cl h) then n\<lparr>goal_result_available := True, an_result := r\<rparr> else n))"
| "client_callback cl (Feedback_Callback f) n = Inr (n\<lparr>an_feedback := Some f\<rparr>)"

fun run_callbacks ::
  "('g, 'h, 'i, 'r, 'f, 'w) action_client \<Rightarrow> ('i, 'r, 'f) client_event list \<Rightarrow> ('g, 'h, 'i, 'r, 'f) action_node \<Rightarrow>
    client_exn + ('g, 'h, 'i, 'r, 'f) action_node" where
  "run_callbacks cl [] n = Inr n"
| "run_callbacks cl (e # es) n = (case client_callback cl e n of Inl x \<Rightarrow> Inl x | Inr n1 \<Rightarrow> run_callbacks cl es n1)"

definition send_new_goal ::
  "('g, 'h, 'i, 'r, 'f, 'w) action_client \<Rightarrow> ('g, 'h, 'i, 'r, 'f, 'w) node_run \<Rightarrow> ('g, 'h, 'i, 'r, 'f, 'w) node_run" where
  "send_new_goal cl = (\<lambda>(n, w).
     let w1 = cl_send_goal cl (an_goal n) w; (t, w2) = cl_now cl w1
     in (n\<lparr>goal_result_available := False, future_goal_handle := True, time_goal_sent := t\<rparr>, w2))"

text \<open>\<open>is_future_goal_handle_complete\<close>; the two runtime errors it throws are values of their own.\<close>

datatype ack = Acked | Not_Acked | Send_Failed | Rejected | Ack_Crash client_exn

definition is_future_goal_handle_complete ::
  "client_timeouts \<Rightarrow> ('g, 'h, 'i, 'r, 'f, 'w) action_client \<Rightarrow> int \<Rightarrow> ('g, 'h, 'i, 'r, 'f, 'w) node_run \<Rightarrow>
    (ack \<times> int) \<times> ('g, 'h, 'i, 'r, 'f, 'w) node_run" where
  "is_future_goal_handle_complete cfg cl elapsed = (\<lambda>(n, w).
     let remaining = server_timeout cfg - elapsed in
     if remaining \<le> 0 then ((Not_Acked, elapsed), n\<lparr>future_goal_handle := False\<rparr>, w)
     else
       let timeout = (if remaining > max_timeout cfg then max_timeout cfg else remaining);
           ((rc, h), es, w1) = cl_spin_goal cl timeout w;
           elapsed1 = elapsed + timeout
       in case run_callbacks cl es n of
            Inl x \<Rightarrow> ((Ack_Crash x, elapsed1), n, w1)
          | Inr n1 \<Rightarrow>
              (case rc of
                 FRC_INTERRUPTED \<Rightarrow> ((Send_Failed, elapsed1), n1\<lparr>future_goal_handle := False\<rparr>, w1)
               | FRC_SUCCESS \<Rightarrow>
                   ((if h = None then Rejected else Acked, elapsed1), n1\<lparr>goal_handle := h, future_goal_handle := False\<rparr>, w1)
               | FRC_TIMEOUT \<Rightarrow> ((Not_Acked, elapsed1), n1, w1)))"

text \<open>The wait for the acknowledgement in \<open>tick\<close>: \<open>None\<close> goes on, \<open>Some\<close> is what the tick returns.\<close>

definition await_ack ::
  "client_timeouts \<Rightarrow> ('g, 'h, 'i, 'r, 'f, 'w) action_client \<Rightarrow> ('g, 'i, 'r, 'f, 'w) action_hooks \<Rightarrow>
    ('g, 'h, 'i, 'r, 'f, 'w) node_run \<Rightarrow> (client_exn + node_status) option \<times> ('g, 'h, 'i, 'r, 'f, 'w) node_run" where
  "await_ack cfg cl hk = (\<lambda>(n, w).
     let (t, w1) = cl_now cl w;
         ((a, elapsed), n1, w2) = is_future_goal_handle_complete cfg cl (to_ms (t - time_goal_sent n)) (n, w1)
     in case a of
          Acked \<Rightarrow> (None, n1, w2)
        | Not_Acked \<Rightarrow>
            if elapsed < server_timeout cfg then (Some (Inr RUNNING), n1, w2)
            else (Some (Inr FAILURE), n1\<lparr>future_goal_handle := False\<rparr>, hk_on_timeout hk w2)
        | Send_Failed \<Rightarrow> (Some (Inr FAILURE), n1, w2)
        | Rejected \<Rightarrow> (Some (Inr FAILURE), n1, w2)
        | Ack_Crash x \<Rightarrow> (Some (Inl x), n1, w2))"

text \<open>The start of a tick, when the node is not active.\<close>

definition tick_begin ::
  "('g, 'h, 'i, 'r, 'f, 'w) action_client \<Rightarrow> ('g, 'i, 'r, 'f, 'w) action_hooks \<Rightarrow>
    ('g, 'h, 'i, 'r, 'f, 'w) node_run \<Rightarrow> (client_exn + node_status) option \<times> ('g, 'h, 'i, 'r, 'f, 'w) node_run" where
  "tick_begin cl hk = (\<lambda>(n, w).
     if isStatusActive (an_status n) then (None, n, w)
     else
       let n1 = n\<lparr>should_send_goal := True, an_result := empty_result\<rparr> in
       case hk_on_tick hk w of
         (Inl x, w1) \<Rightarrow> (Some (Inl (Node_Exn x)), n1, w1)
       | (Inr (g, send), w1) \<Rightarrow>
           (let n2 = n1\<lparr>an_goal := g, should_send_goal := send, an_status := RUNNING\<rparr> in
            if \<not> send then (Some (Inr FAILURE), n2, w1)
            else (let (n3, w2) = send_new_goal cl (n2, w1) in (None, n3, w2))))"

text \<open>The wait for the result, with the goal sent again if it was updated.\<close>

definition resend_if_updated ::
  "client_timeouts \<Rightarrow> ('g, 'h, 'i, 'r, 'f, 'w) action_client \<Rightarrow> ('g, 'i, 'r, 'f, 'w) action_hooks \<Rightarrow> 'h \<Rightarrow>
    ('g, 'h, 'i, 'r, 'f, 'w) node_run \<Rightarrow> (client_exn + node_status) option \<times> ('g, 'h, 'i, 'r, 'f, 'w) node_run" where
  "resend_if_updated cfg cl hk h = (\<lambda>(n, w).
     let s = cl_status cl h w in
     if goal_updated n \<and> (s = STATUS_EXECUTING \<or> s = STATUS_ACCEPTED)
     then await_ack cfg cl hk (send_new_goal cl (n\<lparr>goal_updated := False\<rparr>, w))
     else (None, n, w))"

definition await_result ::
  "client_timeouts \<Rightarrow> ('g, 'h, 'i, 'r, 'f, 'w) action_client \<Rightarrow> ('g, 'i, 'r, 'f, 'w) action_hooks \<Rightarrow>
    ('g, 'h, 'i, 'r, 'f, 'w) node_run \<Rightarrow> (client_exn + node_status) option \<times> ('g, 'h, 'i, 'r, 'f, 'w) node_run" where
  "await_result cfg cl hk = (\<lambda>(n, w).
     case hk_on_wait_for_result hk (an_feedback n) (an_goal n) w of
       (Inl x, w1) \<Rightarrow> (Some (Inl (Node_Exn x)), n, w1)
     | (Inr (g, upd), w1) \<Rightarrow>
         (let n1 = n\<lparr>an_goal := g, goal_updated := (goal_updated n \<or> upd), an_feedback := None\<rparr> in
          case goal_handle n1 of
            None \<Rightarrow> (Some (Inl Null_Deref), n1, w1)
          | Some h \<Rightarrow>
              (case resend_if_updated cfg cl hk h (n1, w1) of
                 (Some r, n2, w2) \<Rightarrow> (Some r, n2, w2)
               | (None, n2, w2) \<Rightarrow>
                   (let (es, w3) = cl_spin_some cl w2 in
                    case run_callbacks cl es n2 of
                      Inl x \<Rightarrow> (Some (Inl x), n2, w3)
                    | Inr n3 \<Rightarrow> (if goal_result_available n3 then None else Some (Inr RUNNING), n3, w3)))))"

text \<open>The result is reported.\<close>

definition tick_finish ::
  "('g, 'i, 'r, 'f, 'w) action_hooks \<Rightarrow> ('g, 'h, 'i, 'r, 'f, 'w) node_run \<Rightarrow>
    (client_exn + node_status) \<times> ('g, 'h, 'i, 'r, 'f, 'w) node_run" where
  "tick_finish hk = (\<lambda>(n, w).
     case wr_code (an_result n) of
       RC_UNKNOWN \<Rightarrow> (Inl (Node_Exn LogicError), n, w)
     | RC_SUCCEEDED \<Rightarrow> (let (s, w1) = hk_on_success hk (an_result n) w in (Inr s, n\<lparr>goal_handle := None\<rparr>, w1))
     | RC_ABORTED \<Rightarrow> (let (s, w1) = hk_on_aborted hk (an_result n) w in (Inr s, n\<lparr>goal_handle := None\<rparr>, w1))
     | RC_CANCELED \<Rightarrow> (let (s, w1) = hk_on_cancelled hk (an_result n) w in (Inr s, n\<lparr>goal_handle := None\<rparr>, w1)))"

definition action_tick ::
  "client_timeouts \<Rightarrow> ('g, 'h, 'i, 'r, 'f, 'w) action_client \<Rightarrow> ('g, 'i, 'r, 'f, 'w) action_hooks \<Rightarrow>
    ('g, 'h, 'i, 'r, 'f, 'w) node_run \<Rightarrow> (client_exn + node_status) \<times> ('g, 'h, 'i, 'r, 'f, 'w) node_run" where
  "action_tick cfg cl hk s =
     (case tick_begin cl hk s of
        (Some r, s1) \<Rightarrow> (r, s1)
      | (None, s1) \<Rightarrow>
          (case (if future_goal_handle (fst s1) then await_ack cfg cl hk s1 else (None, s1)) of
             (Some r, s2) \<Rightarrow> (r, s2)
           | (None, s2) \<Rightarrow>
               (case (if cl_ok cl (snd s2) \<and> \<not> goal_result_available (fst s2) then await_result cfg cl hk s2
                      else (None, s2)) of
                  (Some r, s3) \<Rightarrow> (r, s3)
                | (None, s3) \<Rightarrow> tick_finish hk s3)))"

definition should_cancel_goal ::
  "('g, 'h, 'i, 'r, 'f, 'w) action_client \<Rightarrow> ('g, 'h, 'i, 'r, 'f, 'w) node_run \<Rightarrow>
    (client_exn + bool) \<times> ('g, 'h, 'i, 'r, 'f, 'w) node_run" where
  "should_cancel_goal cl = (\<lambda>(n, w).
     if an_status n \<noteq> RUNNING then (Inr False, n, w)
     else case goal_handle n of
       None \<Rightarrow> (Inr False, n, w)
     | Some h \<Rightarrow>
         (let (es, w1) = cl_spin_some cl w in
          case run_callbacks cl es n of
            Inl x \<Rightarrow> (Inl x, n, w1)
          | Inr n1 \<Rightarrow> (Inr (cl_status cl h w1 = STATUS_ACCEPTED \<or> cl_status cl h w1 = STATUS_EXECUTING), n1, w1)))"

text \<open>\<open>halt\<close>; failures of the cancellation and of the result are only logged.\<close>

definition action_halt ::
  "client_timeouts \<Rightarrow> ('g, 'h, 'i, 'r, 'f, 'w) action_client \<Rightarrow> ('g, 'i, 'r, 'f, 'w) action_hooks \<Rightarrow>
    ('g, 'h, 'i, 'r, 'f, 'w) node_run \<Rightarrow> (client_exn + unit) \<times> ('g, 'h, 'i, 'r, 'f, 'w) node_run" where
  "action_halt cfg cl hk s =
     (case should_cancel_goal cl s of
        (Inl x, s1) \<Rightarrow> (Inl x, s1)
      | (Inr False, n1, w1) \<Rightarrow> (Inr (), n1\<lparr>an_status := IDLE\<rparr>, w1)
      | (Inr True, n1, w1) \<Rightarrow>
          (let w2 = (case goal_handle n1 of None \<Rightarrow> w1 | Some h \<Rightarrow> cl_cancel_goal cl h w1);
               (_, es, w3) = cl_spin_cancel cl (server_timeout cfg) w2
           in case run_callbacks cl es n1 of
                Inl x \<Rightarrow> (Inl x, n1, w3)
              | Inr n2 \<Rightarrow>
                  (let (_, es2, w4) = cl_spin_result cl (server_timeout cfg) w3 in
                   case run_callbacks cl es2 n2 of
                     Inl x \<Rightarrow> (Inl x, n2, w4)
                   | Inr n3 \<Rightarrow> (Inr (), n3\<lparr>an_status := IDLE\<rparr>, snd (hk_on_cancelled hk (an_result n3) w4)))))"

section \<open>BtServiceNode\<close>

record ('q, 'p, 'w) service_client =
  sc_now :: "'w \<Rightarrow> time_ns \<times> 'w"
  sc_async_call :: "'q \<Rightarrow> 'w \<Rightarrow> 'w"
  sc_spin :: "int \<Rightarrow> 'w \<Rightarrow> (future_code \<times> 'p) \<times> 'w"

record ('q, 'p, 'w) service_hooks =
  sh_initialize :: "'w \<Rightarrow> 'w"
  sh_on_tick :: "'w \<Rightarrow> (bt_exn + 'q \<times> bool) \<times> 'w"
  sh_on_completion :: "'p \<Rightarrow> 'w \<Rightarrow> node_status \<times> 'w"
  sh_on_wait_for_result :: "'w \<Rightarrow> 'w"

record 'q service_node =
  sn_status :: node_status
  sn_request :: "'q option"
  request_sent :: bool
  sent_time :: time_ns
  should_send_request :: bool

definition check_future ::
  "client_timeouts \<Rightarrow> ('q, 'p, 'w) service_client \<Rightarrow> ('q, 'p, 'w) service_hooks \<Rightarrow> 'q service_node \<times> 'w \<Rightarrow>
    (bt_exn + node_status) \<times> 'q service_node \<times> 'w" where
  "check_future cfg cl hk = (\<lambda>(n, w).
     let (t, w1) = sc_now cl w;
         remaining = server_timeout cfg - to_ms (t - sent_time n);
         timed_out = (\<lambda>w. (Inr FAILURE, n\<lparr>request_sent := False\<rparr>, w))
     in if remaining > 0 then
          let timeout = (if remaining > max_timeout cfg then max_timeout cfg else remaining);
              ((rc, p), w2) = sc_spin cl timeout w1
          in case rc of
               FRC_SUCCESS \<Rightarrow>
                 (let (s, w3) = sh_on_completion hk p w2 in (Inr s, n\<lparr>request_sent := False\<rparr>, w3))
             | FRC_TIMEOUT \<Rightarrow>
                 (let (t2, w4) = sc_now cl (sh_on_wait_for_result hk w2) in
                  if to_ms (t2 - sent_time n) < server_timeout cfg then (Inr RUNNING, n, w4) else timed_out w4)
             | FRC_INTERRUPTED \<Rightarrow> timed_out w2
        else timed_out w1)"

definition service_tick ::
  "client_timeouts \<Rightarrow> ('q, 'p, 'w) service_client \<Rightarrow> ('q, 'p, 'w) service_hooks \<Rightarrow> 'q service_node \<times> 'w \<Rightarrow>
    (bt_exn + node_status) \<times> 'q service_node \<times> 'w" where
  "service_tick cfg cl hk = (\<lambda>(n, w).
     let w0 = (if isStatusActive (sn_status n) then w else sh_initialize hk w) in
     if request_sent n then check_future cfg cl hk (n, w0)
     else
       let n1 = n\<lparr>should_send_request := True, sn_request := None\<rparr> in
       case sh_on_tick hk w0 of
         (Inl x, w1) \<Rightarrow> (Inl x, n1, w1)
       | (Inr (q, send), w1) \<Rightarrow>
           (let n2 = n1\<lparr>sn_request := Some q, should_send_request := send\<rparr> in
            if \<not> send then (Inr FAILURE, n2, w1)
            else
              let w2 = sc_async_call cl q w1; (t, w3) = sc_now cl w2
              in check_future cfg cl hk (n2\<lparr>sent_time := t, request_sent := True\<rparr>, w3)))"

definition service_halt :: "'q service_node \<Rightarrow> 'q service_node" where
  "service_halt n = n\<lparr>request_sent := False, sn_status := IDLE\<rparr>"

section \<open>BtCancelActionNode\<close>

record 'w cancel_client =
  cc_now :: "'w \<Rightarrow> time_ns \<times> 'w"
  cc_cancel_before :: "time_ns \<Rightarrow> 'w \<Rightarrow> 'w"
  cc_spin :: "int \<Rightarrow> 'w \<Rightarrow> future_code \<times> 'w"

definition cancel_tick :: "client_timeouts \<Rightarrow> 'w cancel_client \<Rightarrow> 'w \<Rightarrow> node_status \<times> 'w" where
  "cancel_tick cfg cl w =
     (let (t, w1) = cc_now cl w;
          w2 = cc_cancel_before cl (t - 10000000) w1;
          (rc, w3) = cc_spin cl (server_timeout cfg) w2
      in (if rc \<noteq> FRC_SUCCESS then FAILURE else SUCCESS, w3))"

text \<open>Both nodes that recover count it.\<close>

definition increment_recovery_count :: "int option \<Rightarrow> int" where
  "increment_recovery_count entry = (case entry of None \<Rightarrow> 0 | Some n \<Rightarrow> n) + 1"

end
