(* ===== verification/BT_Conditions.thy ===== *)
theory BT_Conditions
  imports BT_Decorators BT_Clients "HOL-Library.Word"
begin

text \<open>
  The condition nodes of the behaviour tree (\<open>nav3d_behavior_tree/plugins/condition\<close>): one record per node that has
  state and one function per \<open>tick\<close>. A tick gets the status the node has, its ports (\<open>None\<close> where the port cannot be
  read, which leaves the variable as it was) and the world with its clock, transforms and services.
\<close>

definition cond_status :: "bool \<Rightarrow> node_status" where
  "cond_status b = (if b then SUCCESS else FAILURE)"

record 'w cond_env =
  ce_now :: "'w \<Rightarrow> time_ns \<times> 'w"
  ce_tf :: "'w tf_transform"
  ce_can_transform :: "string \<Rightarrow> string \<Rightarrow> 'w \<Rightarrow> bool"

section \<open>Timers\<close>

record time_expired =
  te_period :: double
  te_start :: time_ns

definition time_expired_initialize :: "'w cond_env \<Rightarrow> double option \<Rightarrow> time_expired \<Rightarrow> 'w \<Rightarrow> time_expired \<times> 'w" where
  "time_expired_initialize env sec_port c w =
     (let (t, w1) = ce_now env w in (c\<lparr>te_period := read_port sec_port (te_period c), te_start := t\<rparr>, w1))"

definition time_expired_tick ::
  "'w cond_env \<Rightarrow> node_status \<Rightarrow> double option \<Rightarrow> time_expired \<Rightarrow> 'w \<Rightarrow> node_status \<times> time_expired \<times> 'w" where
  "time_expired_tick env st sec_port c w =
     (if \<not> isStatusActive st then
        let (c1, w1) = time_expired_initialize env sec_port c w; (t, w2) = ce_now env w1
        in (FAILURE, c1\<lparr>te_start := t\<rparr>, w2)
      else
        let (t, w1) = ce_now env w in
        if seconds (t - te_start c) < te_period c then (FAILURE, c, w1)
        else let (t2, w2) = ce_now env w1 in (SUCCESS, c\<lparr>te_start := t2\<rparr>, w2))"

record path_timer =
  pt_period :: double
  pt_first_time :: bool
  pt_prev_path :: path
  pt_start :: time_ns

definition default_path :: path where
  "default_path = \<lparr>path_header = default_header, poses = []\<rparr>"

definition path_timer_tick ::
  "'w cond_env \<Rightarrow> double option \<Rightarrow> path option \<Rightarrow> path_timer \<Rightarrow> 'w \<Rightarrow> node_status \<times> path_timer \<times> 'w" where
  "path_timer_tick env sec_port path_port c w =
     (if pt_first_time c then
        let (t, w1) = ce_now env w in
        (FAILURE, c\<lparr>pt_period := read_port sec_port (pt_period c), pt_prev_path := read_port path_port (pt_prev_path c),
           pt_first_time := False, pt_start := t\<rparr>, w1)
      else
        let p = read_port path_port default_path;
            (c1, w1) = (if pt_prev_path c \<noteq> p
                        then (let (t, w') = ce_now env w in (c\<lparr>pt_prev_path := p, pt_start := t\<rparr>, w')) else (c, w));
            (t, w2) = ce_now env w1
        in if seconds (t - pt_start c1) < pt_period c1 then (FAILURE, c1, w2)
           else let (t2, w3) = ce_now env w2 in (SUCCESS, c1\<lparr>pt_start := t2\<rparr>, w3))"

section \<open>Distances\<close>

record distance_traveled =
  dt_distance :: double
  dt_start_pose :: pose_stamped
  dt_global_frame :: string
  dt_robot_frame :: string
  dt_tolerance :: double

definition distance_traveled_tick ::
  "'w cond_env \<Rightarrow> node_status \<Rightarrow> double option \<Rightarrow> distance_traveled \<Rightarrow> 'w \<Rightarrow> node_status \<times> distance_traveled \<times> 'w" where
  "distance_traveled_tick env st dist_port c w =
     (if \<not> isStatusActive st then
        let c1 = c\<lparr>dt_distance := read_port dist_port (dt_distance c)\<rparr>;
            ((ok, p), w1) = getCurrentPose (ce_tf env) (dt_global_frame c1) (dt_robot_frame c1) (dt_tolerance c1) 0 w
        in (FAILURE, c1\<lparr>dt_start_pose := p\<rparr>, w1)
      else
        let ((ok, p), w1) = getCurrentPose (ce_tf env) (dt_global_frame c) (dt_robot_frame c) (dt_tolerance c) 0 w in
        if \<not> ok then (FAILURE, c, w1)
        else if euclidean_distance_pose (ps_pose (dt_start_pose c)) (ps_pose p) True < dt_distance c then (FAILURE, c, w1)
        else (SUCCESS, c\<lparr>dt_start_pose := p\<rparr>, w1))"

definition bt_isGoalReached ::
  "'w cond_env \<Rightarrow> string \<Rightarrow> double \<Rightarrow> double \<Rightarrow> pose_stamped option \<Rightarrow> 'w \<Rightarrow> bool \<times> 'w" where
  "bt_isGoalReached env robot_frame transform_tolerance goal_reached_tol goal_port w =
     (let goal = read_port goal_port default_pose_stamped;
          ((ok, cur), w1) = getCurrentPose (ce_tf env) (frame_id (ps_header goal)) robot_frame transform_tolerance 0 w
      in if \<not> ok then (False, w1)
         else
           let dx = px (position (ps_pose goal)) - px (position (ps_pose cur));
               dy = py (position (ps_pose goal)) - py (position (ps_pose cur))
           in (dx * dx + dy * dy \<le> goal_reached_tol * goal_reached_tol, w1))"

definition goal_reached_tick ::
  "'w cond_env \<Rightarrow> string \<Rightarrow> double \<Rightarrow> double \<Rightarrow> pose_stamped option \<Rightarrow> 'w \<Rightarrow> node_status \<times> 'w" where
  "goal_reached_tick env robot_frame tt tol goal_port w =
     (let (b, w1) = bt_isGoalReached env robot_frame tt tol goal_port w in (cond_status b, w1))"

definition arePosesNearby ::
  "'w cond_env \<Rightarrow> string \<Rightarrow> double \<Rightarrow> pose_stamped option \<Rightarrow> pose_stamped option \<Rightarrow> double option \<Rightarrow> 'w \<Rightarrow> bool \<times> 'w" where
  "arePosesNearby env global_frame tt ref_port target_port tol_port w =
     (let p1 = read_port ref_port default_pose_stamped; p2 = read_port target_port default_pose_stamped;
          tol = read_port tol_port 0;
          near = (\<lambda>p q. let dx = px (position (ps_pose p)) - px (position (ps_pose q));
                            dy = py (position (ps_pose p)) - py (position (ps_pose q))
                        in dx * dx + dy * dy \<le> tol * tol)
      in if frame_id (ps_header p1) \<noteq> frame_id (ps_header p2) then
           let ((ok1, q1), w1) = transformPoseInTargetFrame (ce_tf env) p1 p1 global_frame tt w in
           if \<not> ok1 then (False, w1)
           else let ((ok2, q2), w2) = transformPoseInTargetFrame (ce_tf env) p2 p2 global_frame tt w1 in
             if \<not> ok2 then (False, w2) else (near q1 q2, w2)
         else (near p1 p2, w))"

section \<open>Updated goals\<close>

record goal_memory =
  gm_goal :: pose_stamped
  gm_goals :: goals
  gm_first_time :: bool

definition goal_changed_tick :: "pose_stamped option \<Rightarrow> goals option \<Rightarrow> goal_memory \<Rightarrow> node_status \<times> goal_memory" where
  "goal_changed_tick goal_port goals_port c =
     (let g = read_port goal_port default_pose_stamped; gs = read_port goals_port default_goals in
      if gm_goal c \<noteq> g \<or> gm_goals c \<noteq> gs then (SUCCESS, c\<lparr>gm_goal := g, gm_goals := gs\<rparr>) else (FAILURE, c))"

definition goal_updated_cond_tick ::
  "node_status \<Rightarrow> pose_stamped option \<Rightarrow> goals option \<Rightarrow> goal_memory \<Rightarrow> node_status \<times> goal_memory" where
  "goal_updated_cond_tick st goal_port goals_port c =
     (if \<not> isStatusActive st
      then (FAILURE, c\<lparr>gm_goals := read_port goals_port (gm_goals c), gm_goal := read_port goal_port (gm_goal c)\<rparr>)
      else goal_changed_tick goal_port goals_port c)"

definition globally_updated_tick :: "pose_stamped option \<Rightarrow> goals option \<Rightarrow> goal_memory \<Rightarrow> node_status \<times> goal_memory" where
  "globally_updated_tick goal_port goals_port c =
     (if gm_first_time c
      then (SUCCESS, c\<lparr>gm_first_time := False, gm_goals := read_port goals_port (gm_goals c),
              gm_goal := read_port goal_port (gm_goal c)\<rparr>)
      else goal_changed_tick goal_port goals_port c)"

definition initial_pose_received_tick :: "bool option \<Rightarrow> node_status" where
  "initial_pose_received_tick port = cond_status (read_port port False)"

section \<open>Battery\<close>

record battery_state =
  bs_voltage :: double
  bs_percentage :: double
  bs_power_supply_status :: nat

definition POWER_SUPPLY_STATUS_CHARGING :: nat where
  "POWER_SUPPLY_STATUS_CHARGING = 1"

record battery_low =
  bl_min_battery :: double
  bl_is_voltage :: bool
  bl_is_low :: bool

definition low_batteryCallback :: "battery_state \<Rightarrow> battery_low \<Rightarrow> battery_low" where
  "low_batteryCallback m c =
     c\<lparr>bl_is_low := (if bl_is_voltage c then bs_voltage m \<le> bl_min_battery c else bs_percentage m \<le> bl_min_battery c)\<rparr>"

text \<open>A tick first runs the callbacks of the messages that have arrived.\<close>

definition battery_low_tick ::
  "node_status \<Rightarrow> double option \<Rightarrow> bool option \<Rightarrow> battery_state list \<Rightarrow> battery_low \<Rightarrow> node_status \<times> battery_low" where
  "battery_low_tick st min_port volt_port msgs c =
     (let c1 = (if isStatusActive st then c
                else c\<lparr>bl_min_battery := read_port min_port (bl_min_battery c), bl_is_voltage := read_port volt_port (bl_is_voltage c)\<rparr>);
          c2 = fold low_batteryCallback msgs c1
      in (cond_status (bl_is_low c2), c2))"

definition charging_batteryCallback :: "battery_state \<Rightarrow> bool \<Rightarrow> bool" where
  "charging_batteryCallback m b \<longleftrightarrow> bs_power_supply_status m = POWER_SUPPLY_STATUS_CHARGING"

definition battery_charging_tick :: "battery_state list \<Rightarrow> bool \<Rightarrow> node_status \<times> bool" where
  "battery_charging_tick msgs b = (let b1 = fold charging_batteryCallback msgs b in (cond_status b1, b1))"

section \<open>IsStuck\<close>

record is_stuck =
  st_is_stuck :: bool
  st_odom_history :: "odometry list"
  st_odom_history_size :: nat
  st_current_accel :: double
  st_brake_accel_limit :: double

definition is_stuck_init :: is_stuck where
  "is_stuck_init = \<lparr>st_is_stuck = False, st_odom_history = [], st_odom_history_size = 10, st_current_accel = 0,
     st_brake_accel_limit = - 10\<rparr>"

definition isStuck :: "is_stuck \<Rightarrow> bool" where
  "isStuck c \<longleftrightarrow> st_current_accel c < st_brake_accel_limit c"

text \<open>
  \<open>updateStates\<close>, with time stamps in nanoseconds. For equal stamps the code divides by zero, which gives an infinity or
  NaN; the model gives zero there.
\<close>

definition updateStates :: "is_stuck \<Rightarrow> is_stuck" where
  "updateStates c =
     (let h = st_odom_history c; n = length h;
          c1 = (if n > 2 then
                  let curr = h ! (n - 1); prev = h ! (n - 2);
                      dt = seconds (odom_stamp curr - odom_stamp prev);
                      vel_diff = px (linear (odom_twist curr)) - px (linear (odom_twist prev))
                  in c\<lparr>st_current_accel := vel_diff / dt\<rparr>
                else c)
      in c1\<lparr>st_is_stuck := isStuck c1\<rparr>)"

text \<open>The loop that drops the oldest messages leaves fewer than the size.\<close>

definition onOdomReceived :: "odometry \<Rightarrow> is_stuck \<Rightarrow> is_stuck" where
  "onOdomReceived m c =
     (let h = st_odom_history c
      in updateStates (c\<lparr>st_odom_history := drop (length h + 1 - st_odom_history_size c) h @ [m]\<rparr>))"

definition is_stuck_tick :: "is_stuck \<Rightarrow> node_status" where
  "is_stuck_tick c = cond_status (st_is_stuck c)"

section \<open>Transforms and services\<close>

record transform_available =
  ta_child_frame :: string
  ta_parent_frame :: string
  ta_was_found :: bool

definition transform_available_tick ::
  "'w cond_env \<Rightarrow> node_status \<Rightarrow> string option \<Rightarrow> string option \<Rightarrow> transform_available \<Rightarrow> 'w \<Rightarrow>
    (bt_exn + node_status) \<times> transform_available" where
  "transform_available_tick env st child_port parent_port c w =
     (let c1 = (if isStatusActive st then c
                else c\<lparr>ta_child_frame := read_port child_port (ta_child_frame c), ta_parent_frame := read_port parent_port (ta_parent_frame c)\<rparr>)
      in if \<not> isStatusActive st \<and> (ta_child_frame c1 = [] \<or> ta_parent_frame c1 = []) then (Inl BT_Runtime_Error, c1)
         else if ta_was_found c1 then (Inr SUCCESS, c1)
         else if ce_can_transform env (ta_child_frame c1) (ta_parent_frame c1) w then (Inr SUCCESS, c1\<lparr>ta_was_found := True\<rparr>)
         else (Inr FAILURE, c1))"

text \<open>The service call: \<open>None\<close> when there is no answer before the timeout.\<close>

definition is_path_valid_tick ::
  "(string \<Rightarrow> path \<Rightarrow> 'w \<Rightarrow> bool option \<times> 'w) \<Rightarrow> path option \<Rightarrow> string option \<Rightarrow> string \<Rightarrow> 'w \<Rightarrow> node_status \<times> string \<times> 'w" where
  "is_path_valid_tick call path_port name_port service_name w =
     (case path_port of
        None \<Rightarrow> (FAILURE, service_name, w)
      | Some p \<Rightarrow>
          (let name = read_port name_port service_name; (r, w1) = call name p w
           in (cond_status (r = Some True), name, w1)))"

section \<open>Error codes\<close>

type_synonym error_code = "16 word"

definition error_codes_present_tick :: "error_code set \<Rightarrow> error_code option \<Rightarrow> error_code \<Rightarrow> node_status \<times> error_code" where
  "error_codes_present_tick to_check port old = (let c = read_port port old in (cond_status (c \<in> to_check), c))"

definition AreErrorCodesPresent :: "int list \<Rightarrow> error_code set" where
  "AreErrorCodesPresent codes = set (map word_of_int codes)"

text \<open>
  The derived nodes; in \<open>WouldAPlannerRecoveryHelp\<close> the name \<open>ThroughActionResult\<close> is declared as the result of
  \<open>ComputePathToPose\<close>.
\<close>

definition WouldAControllerRecoveryHelp :: "error_code set" where
  "WouldAControllerRecoveryHelp = {100, 104, 105, 106}"

definition WouldAPlannerRecoveryHelp :: "error_code set" where
  "WouldAPlannerRecoveryHelp = {200, 208, 207, 200, 207, 208}"

definition WouldARouteRecoveryHelp :: "error_code set" where
  "WouldARouteRecoveryHelp = {400, 405, 404, 400, 404, 405}"

definition WouldASmootherRecoveryHelp :: "error_code set" where
  "WouldASmootherRecoveryHelp = {500, 502, 504, 503}"

end
