(* ===== verification/BT_Conditions_Props.thy ===== *)
theory BT_Conditions_Props
  imports BT_Conditions
begin

text \<open>
  What the condition nodes decide: changes of the goal are reported exactly once, which error codes ask for a recovery, and where the
  conditions do not see what happens in three dimensions or after a failed look-up.
\<close>

section \<open>Changes of the goal\<close>

text \<open>The answers of a node to a sequence of ticks that find these values in its ports.\<close>

fun changed_answers :: "(pose_stamped option \<times> goals option) list \<Rightarrow> goal_memory \<Rightarrow> node_status list" where
  "changed_answers [] c = []"
| "changed_answers ((g, gs) # ps) c = (let (r, c1) = goal_changed_tick g gs c in r # changed_answers ps c1)"

definition port_values :: "pose_stamped option \<times> goals option \<Rightarrow> pose_stamped \<times> goals" where
  "port_values = (\<lambda>(g, gs). (read_port g default_pose_stamped, read_port gs default_goals))"

lemma goal_changed_tick_eq:
  "goal_changed_tick g gs c =
    (cond_status ((gm_goal c, gm_goals c) \<noteq> port_values (g, gs)),
     c\<lparr>gm_goal := fst (port_values (g, gs)), gm_goals := snd (port_values (g, gs))\<rparr>)"
  by (auto simp: goal_changed_tick_def port_values_def cond_status_def Let_def)

text \<open>\<open>GoalUpdated\<close> and \<open>GloballyUpdatedGoal\<close> report every change of the goal exactly once. Once the node is active, the answer to
  each tick is SUCCESS if the goal or the list of goals differs from what the previous tick saw, and FAILURE otherwise.\<close>

theorem goal_change_reported_once:
  "changed_answers ps c =
    map2 (\<lambda>old new. cond_status (old \<noteq> new)) ((gm_goal c, gm_goals c) # map port_values ps) (map port_values ps)"
proof (induction ps arbitrary: c)
  case (Cons p ps)
  obtain g gs where "p = (g, gs)"
    by (rule prod.exhaust)
  then show ?case
    using Cons.IH by (simp add: goal_changed_tick_eq)
qed simp

section \<open>Recoveries\<close>

text \<open>\<open>WouldAPlannerRecoveryHelp\<close> knows only the error codes of \<open>ComputePathToPose\<close>. It answers SUCCESS exactly for UNKNOWN, TIMEOUT
  and NO_VALID_PATH of that action, and FAILURE for every error code of \<open>ComputePathThroughPoses\<close>, although its list names these codes
  too.\<close>

theorem planner_recovery_ignores_through_poses:
  "error_codes_present_tick WouldAPlannerRecoveryHelp (Some c) old = (cond_status (c = 200 \<or> c = 207 \<or> c = 208), c) \<and>
   list_all (\<lambda>c. fst (error_codes_present_tick WouldAPlannerRecoveryHelp (Some c) old) = FAILURE)
     [300, 301, 302, 303, 304, 305, 306, 307, 308, 309]"
proof (rule conjI)
  show "error_codes_present_tick WouldAPlannerRecoveryHelp (Some c) old = (cond_status (c = 200 \<or> c = 207 \<or> c = 208), c)"
    by (auto simp: error_codes_present_tick_def WouldAPlannerRecoveryHelp_def read_port_def cond_status_def)
  show "list_all (\<lambda>c. fst (error_codes_present_tick WouldAPlannerRecoveryHelp (Some c) old) = FAILURE)
     [300, 301, 302, 303, 304, 305, 306, 307, 308, 309]"
    by (simp add: error_codes_present_tick_def WouldAPlannerRecoveryHelp_def read_port_def cond_status_def)
qed

section \<open>Altitude\<close>

definition raise :: "double \<Rightarrow> pose_stamped \<Rightarrow> pose_stamped" where
  "raise dz p = p\<lparr>ps_pose := (ps_pose p)\<lparr>position := (position (ps_pose p))\<lparr>pz := pz (position (ps_pose p)) + dz\<rparr>\<rparr>\<rparr>"

lemma raise_simps [simp]:
  "ps_header (raise dz p) = ps_header p" "px (position (ps_pose (raise dz p))) = px (position (ps_pose p))"
  "py (position (ps_pose (raise dz p))) = py (position (ps_pose p))"
  by (simp_all add: raise_def)

text \<open>The conditions on positions are blind to altitude. \<open>GoalReached\<close> gives the same answer for a goal at any other height, so that a
  goal right above the vehicle counts as reached; and \<open>ArePosesNear\<close> holds for any two poses one above the other, however far apart.\<close>

theorem conditions_ignore_altitude:
  "goal_reached_tick env robot_frame tt tol (Some (raise dz g)) w = goal_reached_tick env robot_frame tt tol (Some g) w \<and>
   arePosesNearby env global_frame tt (Some p) (Some (raise dz p)) tol_port w = (True, w)"
  by (simp add: goal_reached_tick_def bt_isGoalReached_def arePosesNearby_def read_port_def Let_def split_beta)

section \<open>Distance travelled\<close>

text \<open>\<open>DistanceTraveled\<close> measures from the origin of the map when its first look-up fails. If the robot's pose is not
  available when the node starts, its start pose is the origin; if the robot does not move and its pose becomes available at the
  distance from the origin or more, the next tick reports the distance as travelled.\<close>

theorem distance_from_failed_lookup:
  assumes "\<not> isStatusActive st" and "isStatusActive st'"
    and "getCurrentPose (ce_tf env) (dt_global_frame c) (dt_robot_frame c) (dt_tolerance c) 0 w = ((False, o1), w1)"
    and "getCurrentPose (ce_tf env) (dt_global_frame c) (dt_robot_frame c) (dt_tolerance c) 0 w2 = ((True, p), w3)"
    and "read_port dist_port (dt_distance c) \<le> pt_norm (position (ps_pose p))"
  shows "\<exists>c1. distance_traveled_tick env st dist_port c w = (FAILURE, c1, w1) \<and>
    position (ps_pose (dt_start_pose c1)) = zero_point \<and>
    distance_traveled_tick env st' dist_port c1 w2 = (SUCCESS, c1\<lparr>dt_start_pose := p\<rparr>, w3)"
proof -
  have o1: "position (ps_pose o1) = zero_point"
    using assms(3) by (auto simp: getCurrentPose_def transformPoseInTargetFrame_def default_pose_def Let_def
        split: prod.splits option.splits)
  have "euclidean_distance_pose (ps_pose o1) (ps_pose p) True = pt_norm (position (ps_pose p))"
    by (simp add: euclidean_distance_pose_def o1 zero_point_def pt_norm_def hypot3_def Let_def)
  then show ?thesis
    using assms o1 by (simp add: distance_traveled_tick_def)
qed

definition pose_at :: "double \<Rightarrow> pose_stamped" where
  "pose_at x = default_pose_stamped\<lparr>ps_pose := default_pose\<lparr>position := \<lparr>px = x, py = 0, pz = 0\<rparr>\<rparr>\<rparr>"

definition late_tf :: "bool cond_env" where
  "late_tf = \<lparr>ce_now = (\<lambda>w. (0, w)), ce_tf = (\<lambda>p f d w. (if w then Some (pose_at 5) else None, w)),
     ce_can_transform = (\<lambda>c p w. w)\<rparr>"

definition dt_demo :: distance_traveled where
  "dt_demo = \<lparr>dt_distance = 1, dt_start_pose = default_pose_stamped, dt_global_frame = ''map'', dt_robot_frame = ''base_link'',
     dt_tolerance = 0\<rparr>"

theorem distance_from_failed_lookup_witness:
  "\<exists>c1. distance_traveled_tick late_tf IDLE None dt_demo False = (FAILURE, c1, False) \<and>
    distance_traveled_tick late_tf FAILURE None c1 True = (SUCCESS, c1\<lparr>dt_start_pose := pose_at 5\<rparr>, True)"
proof -
  let ?get = "getCurrentPose (ce_tf late_tf) (dt_global_frame dt_demo) (dt_robot_frame dt_demo) (dt_tolerance dt_demo) 0"
  have 1: "\<not> isStatusActive IDLE" "isStatusActive FAILURE"
    by (simp_all add: isStatusActive_def)
  obtain o1 where 2: "?get False = ((False, o1), False)"
    by (simp add: getCurrentPose_def transformPoseInTargetFrame_def late_tf_def)
  have 3: "?get True = ((True, pose_at 5), True)"
    by (simp add: getCurrentPose_def transformPoseInTargetFrame_def late_tf_def)
  have 4: "read_port None (dt_distance dt_demo) \<le> pt_norm (position (ps_pose (pose_at 5)))"
    by (simp add: read_port_def dt_demo_def pose_at_def pt_norm_def hypot3_def)
  from distance_from_failed_lookup [OF 1 2 3 4] show ?thesis
    by blast
qed

section \<open>State of IsStuck\<close>

lemma onOdomReceived_inv:
  assumes "0 < st_odom_history_size c" "length (st_odom_history c) \<le> st_odom_history_size c"
  shows "length (st_odom_history (onOdomReceived m c)) \<le> st_odom_history_size (onOdomReceived m c)"
    "st_is_stuck (onOdomReceived m c) \<longleftrightarrow> isStuck (onOdomReceived m c)" "last (st_odom_history (onOdomReceived m c)) = m"
  using assms by (simp_all add: onOdomReceived_def updateStates_def isStuck_def Let_def)

end
