(* ===== verification/Path_Actions.thy ===== *)
theory Path_Actions
  imports BT_Conditions
begin

text \<open>
  The action nodes that transform paths and goals (\<open>nav3d_behavior_tree/plugins/action\<close>): \<open>TruncatePath\<close>,
  \<open>TruncatePathLocal\<close>, \<open>ConcatenatePaths\<close>, \<open>GetPoseFromPath\<close>, \<open>GetNextFewGoals\<close>, \<open>AppendGoalPoseToGoals\<close>,
  \<open>ExtractRouteNodesAsGoals\<close>, \<open>GetCurrentPose\<close> and the selector nodes. A port that cannot be read is \<open>None\<close>; a tick returns its
  status and what it writes to its output port.
\<close>

section \<open>TruncatePath\<close>

definition orientationAroundZAxis :: "tf_api \<Rightarrow> double \<Rightarrow> quaternion" where
  "orientationAroundZAxis tf angle = tf_setRPY tf 0 0 angle"

text \<open>The loop that removes poses near the end.\<close>

function truncate_loop :: "double \<Rightarrow> pose_stamped \<Rightarrow> pose_stamped list \<Rightarrow> pose_stamped list" where
  "truncate_loop d final ps =
     (if euclidean_distance_stamped (last ps) final True < d \<and> length ps > 2
      then truncate_loop d final (butlast ps) else ps)"
  by auto
termination
  by (relation "measure (\<lambda>(d, f, ps). length ps)") auto

declare truncate_loop.simps [simp del]

text \<open>The angle is finite, since positions are.\<close>

definition truncate_path_tick :: "tf_api \<Rightarrow> double \<Rightarrow> path option \<Rightarrow> node_status \<times> path" where
  "truncate_path_tick tf distance path_port =
     (let p = read_port path_port default_path in
      if poses p = [] then (SUCCESS, p)
      else
        let final = last (poses p); ps = truncate_loop distance final (poses p);
            dx = px (ps_position final) - px (ps_position (last ps));
            dy = py (ps_position final) - py (ps_position (last ps));
            q = orientationAroundZAxis tf (std_atan2 dy dx)
        in (SUCCESS, p\<lparr>poses := ps[length ps - 1 := (last ps)\<lparr>ps_pose := (ps_pose (last ps))\<lparr>orientation := q\<rparr>\<rparr>]\<rparr>))"

section \<open>TruncatePathLocal\<close>

record truncate_local =
  tl_path :: path
  tl_begin :: nat

text \<open>The ports with their values; an infinite search distance is \<open>None\<close>. \<open>tl_pose\<close> and \<open>tl_robot_frame\<close> may be missing.\<close>

record truncate_ports =
  tl_distance_forward :: double
  tl_distance_backward :: double
  tl_angular_weight :: double
  tl_search_dist :: "double option"
  tl_mode :: string
  tl_resample_distance :: double
  tl_max_output_poses :: int
  tl_input_path :: path
  tl_pose :: "pose_stamped option"
  tl_robot_frame :: "string option"
  tl_transform_tolerance :: double

definition tl_getRobotPose :: "'w tf_transform \<Rightarrow> truncate_ports \<Rightarrow> string \<Rightarrow> 'w \<Rightarrow> pose_stamped option \<times> 'w" where
  "tl_getRobotPose tf pt path_frame w =
     (case tl_pose pt of
        Some p \<Rightarrow> (Some p, w)
      | None \<Rightarrow>
          (case tl_robot_frame pt of
             None \<Rightarrow> (None, w)
           | Some f \<Rightarrow>
               (let ((ok, p), w1) = getCurrentPose tf path_frame f (tl_transform_tolerance pt) 0 w
                in (if ok then Some p else None, w1))))"

text \<open>\<open>poseDistance\<close>; \<open>angle\<close> is \<open>tf2::Quaternion::angleShortestPath\<close>.\<close>

definition poseDistance ::
  "(quaternion \<Rightarrow> quaternion \<Rightarrow> double) \<Rightarrow> double \<Rightarrow> pose_stamped \<Rightarrow> pose_stamped \<Rightarrow> double" where
  "poseDistance angle weight p1 p2 =
     (let dx = px (ps_position p1) - px (ps_position p2); dy = py (ps_position p1) - py (ps_position p2);
          dz = pz (ps_position p1) - pz (ps_position p2);
          da = weight * \<bar>angle (orientation (ps_pose p1)) (orientation (ps_pose p2))\<bar>;
          dp = sqrt (dx * dx + dy * dy + dz * dz)
      in sqrt (dp * dp + da * da))"

text \<open>The loop of \<open>resamplePath\<close>, after the pose \<open>prev\<close>.\<close>

fun resample_loop :: "double \<Rightarrow> pose_stamped \<Rightarrow> pose_stamped list \<Rightarrow> double \<Rightarrow> pose_stamped list" where
  "resample_loop spacing prev [] acc = []"
| "resample_loop spacing prev (p # ps) acc =
     (let acc1 = acc + euclidean_distance_stamped prev p True in
      if acc1 \<ge> spacing \<or> ps = [] then p # resample_loop spacing p ps 0 else resample_loop spacing p ps acc1)"

definition resamplePath :: "double \<Rightarrow> pose_stamped list \<Rightarrow> pose_stamped list" where
  "resamplePath spacing ps =
     (if spacing \<le> 0 \<or> length ps < 3 then ps else hd ps # resample_loop spacing (hd ps) (tl ps) 0)"

text \<open>\<open>std::round\<close> of a non-negative number.\<close>

definition round_nat :: "double \<Rightarrow> nat" where
  "round_nat x = nat \<lfloor>x + 1 / 2\<rfloor>"

text \<open>The indices the loop of \<open>capPath\<close> takes, from \<open>i\<close> on.\<close>

function cap_loop :: "double \<Rightarrow> nat \<Rightarrow> nat \<Rightarrow> nat \<Rightarrow> nat \<Rightarrow> nat list" where
  "cap_loop step last_i keep i prev =
     (if i + 1 < keep then
        let idx = round_nat (real i * step);
            idx1 = (if idx \<le> prev then prev + 1 else idx);
            idx2 = (if idx1 \<ge> last_i then last_i - 1 else idx1)
        in idx2 # cap_loop step last_i keep (i + 1) idx2
      else [])"
  by auto
termination
  by (relation "measure (\<lambda>(s, l, k, i, p). k - i)") auto

declare cap_loop.simps [simp del]

definition capPath :: "int \<Rightarrow> pose_stamped list \<Rightarrow> pose_stamped list" where
  "capPath max_poses ps =
     (if max_poses \<le> 0 \<or> int (length ps) \<le> max_poses then ps
      else
        let last_i = length ps - 1; keep = nat max_poses in
        if keep = 1 then [ps ! last_i]
        else hd ps # map (\<lambda>i. ps ! i) (cap_loop (real last_i / real (keep - 1)) last_i keep 1 0) @ [ps ! last_i])"

text \<open>The part of the path around its closest pose, before it is resampled and capped: the closest pose and the two ends.\<close>

definition local_bounds ::
  "(quaternion \<Rightarrow> quaternion \<Rightarrow> double) \<Rightarrow> truncate_ports \<Rightarrow> pose_stamped \<Rightarrow> truncate_local \<Rightarrow> nat \<times> nat \<times> nat" where
  "local_bounds angle pt robot c =
     (let ps = poses (tl_path c); b = tl_begin c;
          e = (case tl_search_dist pt of None \<Rightarrow> length ps | Some d \<Rightarrow> b + first_after_integrated_distance (drop b ps) d);
          cur = b + min_by (poseDistance angle (tl_angular_weight pt) robot) (take (e - b) (drop b ps));
          fwd0 = cur + first_after_integrated_distance (drop cur ps) (tl_distance_forward pt);
          fwd = (if fwd0 = cur \<and> cur + 1 \<noteq> length ps then cur + 1 else fwd0);
          back = cur + 1 - first_after_integrated_distance (rev (take (cur + 1) ps)) (tl_distance_backward pt)
      in (back, cur, fwd))"

definition local_segment :: "truncate_ports \<Rightarrow> nat \<times> nat \<times> nat \<Rightarrow> pose_stamped list \<Rightarrow> pose_stamped list" where
  "local_segment pt = (\<lambda>(back, cur, fwd) ps.
     if tl_mode pt = ''remaining'' then
       let seg = take (fwd - cur) (drop cur ps) in if seg = [] then [ps ! cur] else seg
     else take (fwd - back) (drop back ps))"

definition truncate_local_tick ::
  "'w tf_transform \<Rightarrow> (quaternion \<Rightarrow> quaternion \<Rightarrow> double) \<Rightarrow> truncate_ports \<Rightarrow> truncate_local \<Rightarrow> 'w \<Rightarrow>
    node_status \<times> path option \<times> truncate_local \<times> 'w" where
  "truncate_local_tick tf angle pt c w =
     (let pruning = (tl_search_dist pt \<noteq> None);
          c1 = (if \<not> pruning \<or> tl_input_path pt \<noteq> tl_path c then c\<lparr>tl_path := tl_input_path pt, tl_begin := 0\<rparr> else c)
      in case tl_getRobotPose tf pt (frame_id (path_header (tl_path c1))) w of
           (None, w1) \<Rightarrow> (FAILURE, None, c1, w1)
         | (Some robot, w1) \<Rightarrow>
             if poses (tl_path c1) = [] then (SUCCESS, Some (tl_path c1), c1, w1)
             else
               let (back, cur, fwd) = local_bounds angle pt robot c1;
                   c2 = (if pruning then c1\<lparr>tl_begin := cur\<rparr> else c1);
                   seg = local_segment pt (back, cur, fwd) (poses (tl_path c1));
                   seg1 = (if tl_resample_distance pt > 0 then resamplePath (tl_resample_distance pt) seg else seg);
                   seg2 = (if tl_max_output_poses pt > 0 then capPath (tl_max_output_poses pt) seg1 else seg1)
               in (SUCCESS, Some \<lparr>path_header = path_header (tl_path c1), poses = seg2\<rparr>, c2, w1))"

section \<open>Paths, poses and goals\<close>

definition concatenate_paths_tick :: "path option \<Rightarrow> path option \<Rightarrow> node_status \<times> path option" where
  "concatenate_paths_tick port1 port2 =
     (let p1 = read_port port1 default_path; p2 = read_port port2 default_path in
      if poses p1 = [] \<and> poses p2 = [] then (FAILURE, None)
      else
        let h = (if path_header p1 \<noteq> default_header then path_header p1
                 else if path_header p2 \<noteq> default_header then path_header p2 else path_header p1)
        in (SUCCESS, Some \<lparr>path_header = h, poses = poses p1 @ poses p2\<rparr>))"

definition get_pose_from_path_tick :: "path option \<Rightarrow> int option \<Rightarrow> node_status \<times> pose_stamped option" where
  "get_pose_from_path_tick path_port index_port =
     (let p = read_port path_port default_path; i0 = read_port index_port 0 in
      if poses p = [] then (FAILURE, None)
      else
        let i = (if i0 < 0 then int (length (poses p)) + i0 else i0) in
        if i < 0 \<or> nat i \<ge> length (poses p) then (FAILURE, None)
        else
          let q = poses p ! nat i in
          (SUCCESS, Some (if frame_id (ps_header q) = []
             then q\<lparr>ps_header := (ps_header q)\<lparr>frame_id := frame_id (path_header p)\<rparr>\<rparr> else q)))"

definition get_next_few_goals_tick :: "goals option \<Rightarrow> int option \<Rightarrow> node_status \<times> goals option" where
  "get_next_few_goals_tick goals_port num_port =
     (let gs = read_port goals_port default_goals; n0 = read_port num_port 0 in
      if goal_list gs = [] then (FAILURE, None)
      else
        let n = (if n0 < 0 then 0 else n0); limit = min (nat n) (length (goal_list gs))
        in (SUCCESS, Some \<lparr>goals_header = goals_header gs, goal_list = take limit (goal_list gs)\<rparr>))"

definition append_goal_pose_tick :: "pose_stamped option \<Rightarrow> goals option \<Rightarrow> node_status \<times> goals" where
  "append_goal_pose_tick pose_port goals_port =
     (let gs = read_port goals_port default_goals
      in (SUCCESS, gs\<lparr>goal_list := goal_list gs @ [read_port pose_port default_pose_stamped]\<rparr>))"

text \<open>A route has a header and nodes with a position in space.\<close>

definition extract_route_goals_tick :: "header \<times> point list \<Rightarrow> node_status \<times> goals option" where
  "extract_route_goals_tick = (\<lambda>(h, nodes).
     if nodes = [] then (FAILURE, None)
     else (SUCCESS, Some \<lparr>goals_header = h, goal_list = map (\<lambda>n.
       \<lparr>ps_header = h, ps_pose = default_pose\<lparr>position := zero_point\<lparr>px := px n, py := py n\<rparr>\<rparr>\<rparr>) nodes\<rparr>))"

definition get_current_pose_tick ::
  "'w tf_transform \<Rightarrow> string \<Rightarrow> string \<Rightarrow> double \<Rightarrow> 'w \<Rightarrow> (node_status \<times> pose_stamped option) \<times> 'w" where
  "get_current_pose_tick tf global_frame robot_frame tt w =
     (let ((ok, p), w1) = getCurrentPose tf global_frame robot_frame tt 0 w
      in (if ok then (SUCCESS, Some p) else (FAILURE, None), w1))"

section \<open>Selectors\<close>

text \<open>
  The selectors of planner, controller, smoother, goal checker and progress checker keep the last name they received; a
  tick first handles the messages that have arrived.
\<close>

definition callbackSelect :: "string \<Rightarrow> string \<Rightarrow> string" where
  "callbackSelect msg last_selected = msg"

definition selector_tick :: "string list \<Rightarrow> string option \<Rightarrow> string \<Rightarrow> (node_status \<times> string option) \<times> string" where
  "selector_tick msgs default_port last_selected =
     (let l = fold callbackSelect msgs last_selected; d = read_port default_port [] in
      if l = [] then
        if d = [] then ((FAILURE, None), l) else ((SUCCESS, Some d), d)
      else ((SUCCESS, Some l), l))"

end
