(* ===== verification/BT_Actions.thy ===== *)
theory BT_Actions
  imports Path_Actions Navigators
begin

text \<open>
  The action client plugins of the behaviour tree (\<open>nav3d_behavior_tree/plugins/action\<close>): what each of them fills into its
  goal, when it updates the goal of a running action, and what it writes to its ports when the action ends. Each plugin is a record
  \<open>action_hooks\<close> that overrides the virtual functions of \<open>BtActionNode\<close>. Ports belong to BehaviorTree.CPP: the record \<open>ports\<close> reads an
  input port (\<open>None\<close> if it is not set or has another type), writes an output port, and gives the recovery counter of the blackboard.
\<close>

section \<open>Ports\<close>

datatype port_val =
  PV_Path path | PV_Pose pose_stamped | PV_Goals goals | PV_String string | PV_Bool bool | PV_Double double | PV_Nat nat
| PV_Code "16 word" | PV_Duration duration_ns | PV_Route "header \<times> point list"

record 'w ports =
  pt_in :: "string \<Rightarrow> 'w \<Rightarrow> port_val option"
  pt_out :: "string \<Rightarrow> port_val \<Rightarrow> 'w \<Rightarrow> 'w"
  pt_recoveries :: "'w \<Rightarrow> int option"
  pt_set_recoveries :: "int \<Rightarrow> 'w \<Rightarrow> 'w"

definition in_path :: "'w ports \<Rightarrow> string \<Rightarrow> 'w \<Rightarrow> path option" where
  "in_path pt n w = (case pt_in pt n w of Some (PV_Path p) \<Rightarrow> Some p | _ \<Rightarrow> None)"

definition in_pose :: "'w ports \<Rightarrow> string \<Rightarrow> 'w \<Rightarrow> pose_stamped option" where
  "in_pose pt n w = (case pt_in pt n w of Some (PV_Pose p) \<Rightarrow> Some p | _ \<Rightarrow> None)"

definition in_goals :: "'w ports \<Rightarrow> string \<Rightarrow> 'w \<Rightarrow> goals option" where
  "in_goals pt n w = (case pt_in pt n w of Some (PV_Goals p) \<Rightarrow> Some p | _ \<Rightarrow> None)"

definition in_string :: "'w ports \<Rightarrow> string \<Rightarrow> 'w \<Rightarrow> string option" where
  "in_string pt n w = (case pt_in pt n w of Some (PV_String p) \<Rightarrow> Some p | _ \<Rightarrow> None)"

definition in_bool :: "'w ports \<Rightarrow> string \<Rightarrow> 'w \<Rightarrow> bool option" where
  "in_bool pt n w = (case pt_in pt n w of Some (PV_Bool p) \<Rightarrow> Some p | _ \<Rightarrow> None)"

definition in_double :: "'w ports \<Rightarrow> string \<Rightarrow> 'w \<Rightarrow> double option" where
  "in_double pt n w = (case pt_in pt n w of Some (PV_Double p) \<Rightarrow> Some p | _ \<Rightarrow> None)"

definition in_nat :: "'w ports \<Rightarrow> string \<Rightarrow> 'w \<Rightarrow> nat option" where
  "in_nat pt n w = (case pt_in pt n w of Some (PV_Nat p) \<Rightarrow> Some p | _ \<Rightarrow> None)"

definition out_error :: "'w ports \<Rightarrow> 16 word \<Rightarrow> string \<Rightarrow> 'w \<Rightarrow> 'w" where
  "out_error pt code msg w = pt_out pt ''error_msg'' (PV_String msg) (pt_out pt ''error_code_id'' (PV_Code code) w)"

definition count_recovery :: "'w ports \<Rightarrow> 'w \<Rightarrow> 'w" where
  "count_recovery pt w = pt_set_recoveries pt (increment_recovery_count (pt_recoveries pt w)) w"

section \<open>What the plugins share\<close>

record act_result =
  ar_error_code :: "16 word"
  ar_error_msg :: string

text \<open>
  Success and cancellation clear the error, an abortion passes on the error of the result (a result comes with its code), and
  a timeout reports the code for it. \<open>extra\<close> writes the other output ports, for the result of a success and for the other endings.
\<close>

definition plugin_hooks ::
  "'w ports \<Rightarrow> 16 word \<Rightarrow> ('z act_result_scheme option \<Rightarrow> 'w \<Rightarrow> 'w) \<Rightarrow>
   ('w \<Rightarrow> (bt_exn + 'g \<times> bool) \<times> 'w) \<Rightarrow> ('f option \<Rightarrow> 'g \<Rightarrow> 'w \<Rightarrow> (bt_exn + 'g \<times> bool) \<times> 'w) \<Rightarrow>
   ('g, 'i, 'z act_result_scheme, 'f, 'w) action_hooks" where
  "plugin_hooks pt timeout_code extra tick wait =
     \<lparr>hk_on_tick = tick, hk_on_wait_for_result = wait,
      hk_on_success = (\<lambda>r w. (SUCCESS, out_error pt 0 [] (extra (wr_result r) w))),
      hk_on_aborted = (\<lambda>r w. (FAILURE, case wr_result r of None \<Rightarrow> w
         | Some x \<Rightarrow> out_error pt (ar_error_code x) (ar_error_msg x) (extra None w))),
      hk_on_cancelled = (\<lambda>r w. (SUCCESS, out_error pt 0 [] (extra None w))),
      hk_on_timeout = out_error pt timeout_code ''Behavior Tree action client timed out waiting.''\<rparr>"

definition no_wait :: "'f option \<Rightarrow> 'g \<Rightarrow> 'w \<Rightarrow> (bt_exn + 'g \<times> bool) \<times> 'w" where
  "no_wait f g w = (Inr (g, False), w)"

section \<open>FollowPath\<close>

record follow_goal =
  fg_path :: path
  fg_controller_id :: string
  fg_goal_checker_id :: string
  fg_progress_checker_id :: string

definition follow_path_on_tick :: "'w ports \<Rightarrow> 'w \<Rightarrow> (bt_exn + follow_goal \<times> bool) \<times> 'w" where
  "follow_path_on_tick pt w =
     (Inr (\<lparr>fg_path = read_port (in_path pt ''path'' w) default_path,
        fg_controller_id = read_port (in_string pt ''controller_id'' w) [],
        fg_goal_checker_id = read_port (in_string pt ''goal_checker_id'' w) [],
        fg_progress_checker_id = read_port (in_string pt ''progress_checker_id'' w) []\<rparr>, True), w)"

definition follow_path_on_wait ::
  "'w ports \<Rightarrow> 'f option \<Rightarrow> follow_goal \<Rightarrow> 'w \<Rightarrow> (bt_exn + follow_goal \<times> bool) \<times> 'w" where
  "follow_path_on_wait pt f g w =
     (let np = read_port (in_path pt ''path'' w) default_path;
          (g1, u1) = (if fg_path g \<noteq> np \<and> np \<noteq> default_path then (g\<lparr>fg_path := np\<rparr>, True) else (g, False));
          nc = read_port (in_string pt ''controller_id'' w) [];
          (g2, u2) = (if fg_controller_id g1 \<noteq> nc then (g1\<lparr>fg_controller_id := nc\<rparr>, True) else (g1, u1));
          ng = read_port (in_string pt ''goal_checker_id'' w) [];
          (g3, u3) = (if fg_goal_checker_id g2 \<noteq> ng then (g2\<lparr>fg_goal_checker_id := ng\<rparr>, True) else (g2, u2));
          nr = read_port (in_string pt ''progress_checker_id'' w) [];
          (g4, u4) = (if fg_progress_checker_id g3 \<noteq> nr then (g3\<lparr>fg_progress_checker_id := nr\<rparr>, True) else (g3, u3))
      in (Inr (g4, u4), w))"

definition FollowPathAction :: "'w ports \<Rightarrow> (follow_goal, 'i, act_result, 'f, 'w) action_hooks" where
  "FollowPathAction pt = plugin_hooks pt 107 (\<lambda>r w. w) (follow_path_on_tick pt) (follow_path_on_wait pt)"

section \<open>Planning\<close>

record path_result = act_result +
  ar_path :: path

definition out_path :: "'w ports \<Rightarrow> path_result option \<Rightarrow> 'w \<Rightarrow> 'w" where
  "out_path pt r w = pt_out pt ''path'' (PV_Path (case r of None \<Rightarrow> default_path | Some x \<Rightarrow> ar_path x)) w"

record compute_goal =
  cg_goal :: pose_stamped
  cg_planner_id :: string
  cg_start :: pose_stamped
  cg_use_start :: bool

definition compute_path_on_tick :: "'w ports \<Rightarrow> 'w \<Rightarrow> (bt_exn + compute_goal \<times> bool) \<times> 'w" where
  "compute_path_on_tick pt w =
     (let start = in_pose pt ''start'' w;
          g = \<lparr>cg_goal = read_port (in_pose pt ''goal'' w) default_pose_stamped,
            cg_planner_id = read_port (in_string pt ''planner_id'' w) [], cg_start = default_pose_stamped, cg_use_start = False\<rparr>;
          g1 = (case in_bool pt ''use_start'' w of
                  Some True \<Rightarrow> (case start of None \<Rightarrow> g | Some s \<Rightarrow> g\<lparr>cg_start := s, cg_use_start := True\<rparr>)
                | Some False \<Rightarrow> g
                | None \<Rightarrow> (case start of None \<Rightarrow> g | Some s \<Rightarrow> g\<lparr>cg_start := s, cg_use_start := True\<rparr>))
      in (Inr (g1, True), w))"

definition ComputePathToPoseAction :: "'w ports \<Rightarrow> (compute_goal, 'i, path_result, 'f, 'w) action_hooks" where
  "ComputePathToPoseAction pt = plugin_hooks pt 207 (out_path pt) (compute_path_on_tick pt) no_wait"

record compute_through_goal =
  ct_goals :: goals
  ct_planner_id :: string
  ct_start :: pose_stamped
  ct_use_start :: bool

definition compute_through_on_tick :: "'w ports \<Rightarrow> 'w \<Rightarrow> (bt_exn + compute_through_goal \<times> bool) \<times> 'w" where
  "compute_through_on_tick pt w =
     (let start = in_pose pt ''start'' w
      in (Inr (\<lparr>ct_goals = read_port (in_goals pt ''goals'' w) default_goals,
           ct_planner_id = read_port (in_string pt ''planner_id'' w) [], ct_start = read_port start default_pose_stamped,
           ct_use_start = (start \<noteq> None)\<rparr>, True), w))"

definition ComputePathThroughPosesAction :: "'w ports \<Rightarrow> (compute_through_goal, 'i, path_result, 'f, 'w) action_hooks" where
  "ComputePathThroughPosesAction pt = plugin_hooks pt 307 (out_path pt) (compute_through_on_tick pt) no_wait"

text \<open>\<open>halt\<close> of the planning nodes empties the path first.\<close>

definition compute_path_halt ::
  "'w ports \<Rightarrow> client_timeouts \<Rightarrow> ('g, 'h, 'i, path_result, 'f, 'w) action_client \<Rightarrow> ('g, 'i, path_result, 'f, 'w) action_hooks \<Rightarrow>
    ('g, 'h, 'i, path_result, 'f, 'w) node_run \<Rightarrow> (client_exn + unit) \<times> ('g, 'h, 'i, path_result, 'f, 'w) node_run" where
  "compute_path_halt pt cfg cl hk = (\<lambda>(n, w). action_halt cfg cl hk (n, out_path pt None w))"

record smooth_result = path_result +
  ar_smoothing_duration :: duration_ns
  ar_was_completed :: bool

record smooth_goal =
  sg_path :: path
  sg_smoother_id :: string
  sg_max_smoothing_duration :: duration_ns
  sg_check_for_collisions :: bool

definition smooth_path_on_tick :: "tf_api \<Rightarrow> 'w ports \<Rightarrow> 'w \<Rightarrow> (bt_exn + smooth_goal \<times> bool) \<times> 'w" where
  "smooth_path_on_tick tf pt w =
     (Inr (\<lparr>sg_path = read_port (in_path pt ''unsmoothed_path'' w) default_path,
        sg_smoother_id = read_port (in_string pt ''smoother_id'' w) [],
        sg_max_smoothing_duration = from_seconds tf (read_port (in_double pt ''max_smoothing_duration'' w) 0),
        sg_check_for_collisions = read_port (in_bool pt ''check_for_collisions'' w) False\<rparr>, True), w)"

definition SmoothPathAction :: "tf_api \<Rightarrow> 'w ports \<Rightarrow> (smooth_goal, 'i, smooth_result, 'f, 'w) action_hooks" where
  "SmoothPathAction tf pt = plugin_hooks pt 502
     (\<lambda>r w. case r of None \<Rightarrow> w | Some x \<Rightarrow>
        pt_out pt ''was_completed'' (PV_Bool (ar_was_completed x))
          (pt_out pt ''smoothing_duration'' (PV_Double (seconds (ar_smoothing_duration x)))
            (pt_out pt ''smoothed_path'' (PV_Path (ar_path x)) w)))
     (smooth_path_on_tick tf pt) no_wait"

section \<open>Routes\<close>

record route_goal =
  rg_use_poses :: bool
  rg_use_start :: bool
  rg_goal :: pose_stamped
  rg_start :: pose_stamped
  rg_start_id :: nat
  rg_goal_id :: nat

definition default_route_goal :: route_goal where
  "default_route_goal = \<lparr>rg_use_poses = False, rg_use_start = False, rg_goal = default_pose_stamped, rg_start = default_pose_stamped,
     rg_start_id = 0, rg_goal_id = 0\<rparr>"

text \<open>\<open>on_tick\<close> of both route nodes, on the goal they have.\<close>

definition route_fill :: "'w ports \<Rightarrow> 'w \<Rightarrow> route_goal \<Rightarrow> route_goal" where
  "route_fill pt w g =
     (if read_port (in_bool pt ''use_poses'' w) False then
        let g1 = g\<lparr>rg_use_poses := True, rg_goal := read_port (in_pose pt ''goal'' w) (rg_goal g), rg_use_start := False\<rparr>
        in if read_port (in_bool pt ''use_start'' w) False
           then g1\<lparr>rg_start := read_port (in_pose pt ''start'' w) (rg_start g1), rg_use_start := True\<rparr> else g1
      else g\<lparr>rg_start_id := read_port (in_nat pt ''start_id'' w) (rg_start_id g),
             rg_goal_id := read_port (in_nat pt ''goal_id'' w) (rg_goal_id g), rg_use_start := False, rg_use_poses := False\<rparr>)"

definition route_changed :: "'w ports \<Rightarrow> 'w \<Rightarrow> route_goal \<Rightarrow> bool" where
  "route_changed pt w g =
     (let up = read_port (in_bool pt ''use_poses'' w) False; us = read_port (in_bool pt ''use_start'' w) False in
      rg_use_poses g \<noteq> up \<or>
      (if up then
         rg_goal g \<noteq> read_port (in_pose pt ''goal'' w) default_pose_stamped \<or> rg_use_start g \<noteq> us \<or>
         us \<and> rg_start g \<noteq> read_port (in_pose pt ''start'' w) default_pose_stamped
       else rg_start_id g \<noteq> read_port (in_nat pt ''start_id'' w) 0 \<or> rg_goal_id g \<noteq> read_port (in_nat pt ''goal_id'' w) 0))"

text \<open>\<open>goal_updated_\<close> is only set here, so it is false when the function starts unless a goal was not resent.\<close>

definition track_route_on_wait ::
  "'w ports \<Rightarrow> 'f option \<Rightarrow> route_goal \<Rightarrow> 'w \<Rightarrow> (bt_exn + route_goal \<times> bool) \<times> 'w" where
  "track_route_on_wait pt f g w = (Inr (if route_changed pt w g then (route_fill pt w g, True) else (g, False)), w)"

record track_result = act_result +
  ar_execution_duration :: duration_ns

definition ComputeAndTrackRouteAction :: "'w ports \<Rightarrow> (route_goal, 'i, track_result, 'f, 'w) action_hooks" where
  "ComputeAndTrackRouteAction pt = plugin_hooks pt 404
     (\<lambda>r. pt_out pt ''execution_duration'' (PV_Duration (case r of None \<Rightarrow> 0 | Some x \<Rightarrow> ar_execution_duration x)))
     (\<lambda>w. (Inr (route_fill pt w default_route_goal, True), w)) (track_route_on_wait pt)"

record route_result = path_result +
  ar_route :: "header \<times> point list"
  ar_planning_time :: duration_ns

definition route_ports :: "'w ports \<Rightarrow> route_result option \<Rightarrow> 'w \<Rightarrow> 'w" where
  "route_ports pt r w =
     pt_out pt ''planning_time'' (PV_Duration (case r of None \<Rightarrow> 0 | Some x \<Rightarrow> ar_planning_time x))
       (pt_out pt ''route'' (PV_Route (case r of None \<Rightarrow> (default_header, []) | Some x \<Rightarrow> ar_route x))
         (pt_out pt ''path'' (PV_Path (case r of None \<Rightarrow> default_path | Some x \<Rightarrow> ar_path x)) w))"

definition ComputeRouteAction :: "'w ports \<Rightarrow> (route_goal, 'i, route_result, 'f, 'w) action_hooks" where
  "ComputeRouteAction pt = plugin_hooks pt 404 (route_ports pt) (\<lambda>w. (Inr (route_fill pt w default_route_goal, True), w)) no_wait"

section \<open>Navigation\<close>

definition navigate_to_pose_on_tick :: "'w ports \<Rightarrow> 'w \<Rightarrow> (bt_exn + nav_to_pose_goal \<times> bool) \<times> 'w" where
  "navigate_to_pose_on_tick pt w =
     (case in_pose pt ''goal'' w of
        None \<Rightarrow> (Inr (\<lparr>ntp_pose = default_pose_stamped, ntp_behavior_tree = []\<rparr>, True), w)
      | Some p \<Rightarrow> (Inr (\<lparr>ntp_pose = p, ntp_behavior_tree = read_port (in_string pt ''behavior_tree'' w) []\<rparr>, True), w))"

definition NavigateToPoseAction :: "'w ports \<Rightarrow> (nav_to_pose_goal, 'i, act_result, 'f, 'w) action_hooks" where
  "NavigateToPoseAction pt = plugin_hooks pt 9003 (\<lambda>r w. w) (navigate_to_pose_on_tick pt) no_wait"

definition navigate_through_on_tick :: "'w ports \<Rightarrow> 'w \<Rightarrow> (bt_exn + nav_through_goal \<times> bool) \<times> 'w" where
  "navigate_through_on_tick pt w =
     (case in_goals pt ''goals'' w of
        None \<Rightarrow> (Inr (\<lparr>nth_poses = default_goals, nth_behavior_tree = []\<rparr>, True), w)
      | Some p \<Rightarrow> (Inr (\<lparr>nth_poses = p, nth_behavior_tree = read_port (in_string pt ''behavior_tree'' w) []\<rparr>, True), w))"

definition NavigateThroughPosesAction :: "'w ports \<Rightarrow> (nav_through_goal, 'i, act_result, 'f, 'w) action_hooks" where
  "NavigateThroughPosesAction pt = plugin_hooks pt 9103 (\<lambda>r w. w) (navigate_through_on_tick pt) no_wait"

section \<open>Recovery behaviours\<close>

record drive_goal =
  dg_target :: point
  dg_speed :: double
  dg_time_allowance :: duration_ns
  dg_disable_collision_checks :: bool

text \<open>The ports have default values.\<close>

definition drive_initialize :: "tf_api \<Rightarrow> 'w ports \<Rightarrow> string \<Rightarrow> string \<Rightarrow> 'w \<Rightarrow> drive_goal" where
  "drive_initialize tf pt dist_port speed_port w =
     \<lparr>dg_target = \<lparr>px = read_port (in_double pt dist_port w) (15 / 100), py = 0, pz = 0\<rparr>,
      dg_speed = read_port (in_double pt speed_port w) (25 / 1000),
      dg_time_allowance = from_seconds tf (read_port (in_double pt ''time_allowance'' w) 10),
      dg_disable_collision_checks = read_port (in_bool pt ''disable_collision_checks'' w) False\<rparr>"

definition BackUpAction :: "tf_api \<Rightarrow> 'w ports \<Rightarrow> (drive_goal, 'i, act_result, 'f, 'w) action_hooks" where
  "BackUpAction tf pt = plugin_hooks pt 711 (\<lambda>r w. w)
     (\<lambda>w. (Inr (drive_initialize tf pt ''backup_dist'' ''backup_speed'' w, True), count_recovery pt w)) no_wait"

definition DriveOnHeadingAction :: "tf_api \<Rightarrow> 'w ports \<Rightarrow> (drive_goal, 'i, act_result, 'f, 'w) action_hooks" where
  "DriveOnHeadingAction tf pt = plugin_hooks pt 721 (\<lambda>r w. w)
     (\<lambda>w. (Inr (drive_initialize tf pt ''dist_to_travel'' ''speed'' w, True), w)) no_wait"

record spin_goal =
  sp_target_yaw :: double
  sp_time_allowance :: duration_ns
  sp_disable_collision_checks :: bool

definition spin_initialize :: "tf_api \<Rightarrow> 'w ports \<Rightarrow> 'w \<Rightarrow> spin_goal" where
  "spin_initialize tf pt w =
     \<lparr>sp_target_yaw = read_port (in_double pt ''spin_dist'' w) (157 / 100),
      sp_time_allowance = from_seconds tf (read_port (in_double pt ''time_allowance'' w) 10),
      sp_disable_collision_checks = False\<rparr>"

definition SpinAction :: "tf_api \<Rightarrow> 'w ports \<Rightarrow> (spin_goal, 'i, act_result, 'f, 'w) action_hooks" where
  "SpinAction tf pt = plugin_hooks pt 701 (\<lambda>r w. w)
     (\<lambda>w. (Inr (spin_initialize tf pt w, True),
           if read_port (in_bool pt ''is_recovery'' w) True then count_recovery pt w else w)) no_wait"

definition wait_initialize :: "tf_api \<Rightarrow> 'w ports \<Rightarrow> 'w \<Rightarrow> duration_ns" where
  "wait_initialize tf pt w =
     (let d = read_port (in_double pt ''wait_duration'' w) 1 in from_seconds tf (if d \<le> 0 then \<bar>d\<bar> else d))"

definition WaitAction :: "tf_api \<Rightarrow> 'w ports \<Rightarrow> (duration_ns, 'i, act_result, 'f, 'w) action_hooks" where
  "WaitAction tf pt = plugin_hooks pt 741 (\<lambda>r w. w) (\<lambda>w. (Inr (wait_initialize tf pt w, True), count_recovery pt w)) no_wait"

text \<open>An aborted teleoperation is a failure only if it is a recovery; \<open>is_recovery_\<close> was read when the goal was sent.\<close>

definition AssistedTeleopAction :: "tf_api \<Rightarrow> 'w ports \<Rightarrow> bool \<Rightarrow> (duration_ns, 'i, act_result, 'f, 'w) action_hooks" where
  "AssistedTeleopAction tf pt is_recovery =
     (let hk = plugin_hooks pt 731 (\<lambda>r w. w)
        (\<lambda>w. (Inr (from_seconds tf (read_port (in_double pt ''time_allowance'' w) 10), True),
              if is_recovery then count_recovery pt w else w)) no_wait
      in hk\<lparr>hk_on_aborted := (\<lambda>r w. (if is_recovery then FAILURE else SUCCESS, snd (hk_on_aborted hk r w)))\<rparr>)"

end
