(* ===== verification/BT_Clients_Props.thy ===== *)
theory BT_Clients_Props
  imports BT_Clients
begin

text \<open>
  Properties of the client nodes, for arbitrary servers, clocks and hooks: no sequence of ticks and halts dereferences a null goal
  handle, what a tick returns is what the server reported for the current goal, the waits are bounded, and what halting
  cancels.
\<close>

section \<open>The node under ticks and halts\<close>

text \<open>A parent ticks the node, which then has the status the tick returned; a completed node is reset.\<close>

datatype node_command = Do_Tick | Do_Halt

definition parent_tick ::
  "client_timeouts \<Rightarrow> ('g, 'h, 'i, 'r, 'f, 'w) action_client \<Rightarrow> ('g, 'i, 'r, 'f, 'w) action_hooks \<Rightarrow>
    ('g, 'h, 'i, 'r, 'f, 'w) node_run \<Rightarrow> (client_exn + node_status) \<times> ('g, 'h, 'i, 'r, 'f, 'w) node_run" where
  "parent_tick cfg cl hk s =
     (case action_tick cfg cl hk s of
        (Inl x, s1) \<Rightarrow> (Inl x, s1)
      | (Inr r, n1, w1) \<Rightarrow> (Inr r, n1\<lparr>an_status := (if r = RUNNING then RUNNING else IDLE)\<rparr>, w1))"

fun run_node ::
  "client_timeouts \<Rightarrow> ('g, 'h, 'i, 'r, 'f, 'w) action_client \<Rightarrow> ('g, 'i, 'r, 'f, 'w) action_hooks \<Rightarrow> node_command list \<Rightarrow>
    ('g, 'h, 'i, 'r, 'f, 'w) node_run \<Rightarrow> client_exn option \<times> ('g, 'h, 'i, 'r, 'f, 'w) node_run" where
  "run_node cfg cl hk [] s = (None, s)"
| "run_node cfg cl hk (Do_Tick # cs) s =
     (case parent_tick cfg cl hk s of (Inl x, s1) \<Rightarrow> (Some x, s1) | (Inr _, s1) \<Rightarrow> run_node cfg cl hk cs s1)"
| "run_node cfg cl hk (Do_Halt # cs) s =
     (case action_halt cfg cl hk s of (Inl x, s1) \<Rightarrow> (Some x, s1) | (Inr _, s1) \<Rightarrow> run_node cfg cl hk cs s1)"

definition action_node_init :: "'g \<Rightarrow> ('g, 'h, 'i, 'r, 'f) action_node" where
  "action_node_init g = \<lparr>an_status = IDLE, an_goal = g, goal_updated = False, goal_result_available = False,
     goal_handle = None, an_result = empty_result, an_feedback = None, future_goal_handle = False, time_goal_sent = 0,
     should_send_goal = True\<rparr>"

text \<open>
  A node that is running waits for an acknowledgement, has a goal handle, or has its result; there is no
  result before it is available.
\<close>

definition result_ok :: "('g, 'h, 'i, 'r, 'f) action_node \<Rightarrow> bool" where
  "result_ok n \<longleftrightarrow> goal_result_available n \<or> wr_code (an_result n) = RC_UNKNOWN"

definition node_inv :: "('g, 'h, 'i, 'r, 'f) action_node \<Rightarrow> bool" where
  "node_inv n \<longleftrightarrow> an_status n = IDLE \<or>
     an_status n = RUNNING \<and> result_ok n \<and> (future_goal_handle n \<or> goal_handle n \<noteq> None \<or> goal_result_available n)"

subsection \<open>Callbacks\<close>

text \<open>Callbacks touch the feedback and the result, the latter only if no acknowledgement is awaited.\<close>

definition same_goal :: "('g, 'h, 'i, 'r, 'f) action_node \<Rightarrow> ('g, 'h, 'i, 'r, 'f) action_node \<Rightarrow> bool" where
  "same_goal n n' \<longleftrightarrow> an_status n' = an_status n \<and> future_goal_handle n' = future_goal_handle n \<and>
     goal_handle n' = goal_handle n \<and> an_goal n' = an_goal n \<and> time_goal_sent n' = time_goal_sent n \<and>
     goal_updated n' = goal_updated n \<and> (result_ok n \<longrightarrow> result_ok n') \<and>
     (future_goal_handle n \<longrightarrow> goal_result_available n' = goal_result_available n \<and> an_result n' = an_result n)"

lemma client_callback_safe:
  "future_goal_handle n \<or> goal_handle n \<noteq> None \<Longrightarrow> \<exists>n'. client_callback cl e n = Inr n' \<and> same_goal n n'"
  by (cases e) (auto simp: same_goal_def result_ok_def)

lemma run_callbacks_safe:
  "future_goal_handle n \<or> goal_handle n \<noteq> None \<Longrightarrow> \<exists>n'. run_callbacks cl es n = Inr n' \<and> same_goal n n'"
proof (induction es arbitrary: n)
  case Nil
  then show ?case
    by (simp add: same_goal_def)
next
  case (Cons e es)
  obtain n1 where 1: "client_callback cl e n = Inr n1" "same_goal n n1"
    using client_callback_safe [OF Cons.prems] by blast
  then have "future_goal_handle n1 \<or> goal_handle n1 \<noteq> None"
    using Cons.prems by (auto simp: same_goal_def)
  then obtain n2 where "run_callbacks cl es n1 = Inr n2" "same_goal n1 n2"
    using Cons.IH by blast
  then show ?case
    using 1 by (auto simp: same_goal_def)
qed

text \<open>The results among some callbacks that belong to a goal; the last one counts.\<close>

definition results_for :: "'i \<Rightarrow> ('i, 'r, 'f) client_event list \<Rightarrow> ('i, 'r) wrapped_result list" where
  "results_for i es = concat (map (\<lambda>e. case e of Result_Callback r \<Rightarrow> if wr_goal_id r = Some i then [r] else [] | _ \<Rightarrow> []) es)"

lemma run_callbacks_results:
  assumes "\<not> future_goal_handle n" and "goal_handle n = Some h"
  shows "\<exists>n'. run_callbacks cl es n = Inr n' \<and>
    (let rs = results_for (cl_goal_id cl h) es in
     goal_result_available n' = (goal_result_available n \<or> rs \<noteq> []) \<and>
     an_result n' = (if rs = [] then an_result n else last rs))"
  using assms
proof (induction es arbitrary: n)
  case (Cons e es)
  obtain n1 where 1: "client_callback cl e n = Inr n1" "same_goal n n1"
    using client_callback_safe [of n cl e] Cons.prems by blast
  then have "\<not> future_goal_handle n1" "goal_handle n1 = Some h"
    using Cons.prems by (auto simp: same_goal_def)
  from Cons.IH [OF this] show ?case
    using 1 Cons.prems by (cases e) (auto simp: results_for_def Let_def)
qed (simp add: results_for_def)

subsection \<open>Waiting for an acknowledgement\<close>

lemma await_ack_cases:
  assumes "future_goal_handle n" and "await_ack cfg cl hk (n, w) = (r, n', w')"
  shows "an_status n' = an_status n \<and> goal_result_available n' = goal_result_available n \<and> an_result n' = an_result n \<and>
    (r = None \<and> \<not> future_goal_handle n' \<and> goal_handle n' \<noteq> None \<or>
     r = Some (Inr FAILURE) \<and> \<not> future_goal_handle n' \<or>
     r = Some (Inr RUNNING) \<and> future_goal_handle n' \<and>
       to_ms (fst (cl_now cl w) - time_goal_sent n) + max_timeout cfg < server_timeout cfg)"
proof -
  obtain t w1 where t: "cl_now cl w = (t, w1)"
    by (rule prod.exhaust)
  let ?e = "to_ms (t - time_goal_sent n)"
  show ?thesis
  proof (cases "server_timeout cfg - ?e \<le> 0")
    case True
    then show ?thesis
      using assms by (auto simp: await_ack_def is_future_goal_handle_complete_def t Let_def)
  next
    case False
    define d where "d = (if server_timeout cfg - ?e > max_timeout cfg then max_timeout cfg else server_timeout cfg - ?e)"
    obtain rc h es w2 where s: "cl_spin_goal cl d w1 = ((rc, h), es, w2)"
      by (metis prod.collapse)
    obtain n1 where n1: "run_callbacks cl es n = Inr n1" "same_goal n n1"
      using run_callbacks_safe [of n cl es] assms(1) by blast
    have d: "?e + d < server_timeout cfg \<Longrightarrow> ?e + max_timeout cfg < server_timeout cfg"
      by (simp add: d_def split: if_splits)
    show ?thesis
      using assms False n1 d
      by (cases rc) (auto simp: await_ack_def is_future_goal_handle_complete_def t Let_def d_def [symmetric] s same_goal_def
          split: if_splits)
  qed
qed

lemma send_new_goal_eq:
  assumes "send_new_goal cl (n, w) = (n', w')"
  shows "n' = n\<lparr>goal_result_available := False, future_goal_handle := True, time_goal_sent := time_goal_sent n'\<rparr>"
  using assms by (auto simp: send_new_goal_def Let_def split: prod.splits)

subsection \<open>No null dereference\<close>

lemma resend_cases:
  assumes "goal_handle n \<noteq> None" and "\<not> future_goal_handle n" and "\<not> goal_result_available n"
    and "resend_if_updated cfg cl hk h (n, w) = (r, n', w')"
  shows "an_status n' = an_status n \<and> \<not> goal_result_available n' \<and> an_result n' = an_result n \<and>
    (r = None \<and> \<not> future_goal_handle n' \<and> goal_handle n' \<noteq> None \<or> r = Some (Inr FAILURE) \<or>
     r = Some (Inr RUNNING) \<and> future_goal_handle n')"
proof (cases "r = None \<and> n' = n")
  case True
  then show ?thesis
    using assms by simp
next
  case False
  obtain n1 w1 where s: "send_new_goal cl (n\<lparr>goal_updated := False\<rparr>, w) = (n1, w1)"
    by (rule prod.exhaust)
  have "await_ack cfg cl hk (n1, w1) = (r, n', w')"
    using False assms(4) s by (auto simp: resend_if_updated_def Let_def split: if_splits)
  moreover have n1: "future_goal_handle n1" "an_status n1 = an_status n" "\<not> goal_result_available n1" "an_result n1 = an_result n"
    by (subst send_new_goal_eq [OF s]; simp)+
  ultimately show ?thesis
    using await_ack_cases [of n1 cfg cl hk w1 r n' w'] by auto
qed

lemma await_result_cases:
  assumes "goal_handle n \<noteq> None" and "\<not> future_goal_handle n" and "\<not> goal_result_available n" and "result_ok n"
    and "await_result cfg cl hk (n, w) = (r, n', w')"
  shows "r \<noteq> Some (Inl Null_Deref) \<and> an_status n' = an_status n \<and> (r = None \<longrightarrow> goal_result_available n') \<and>
    (r = Some (Inr RUNNING) \<longrightarrow> result_ok n' \<and> (future_goal_handle n' \<or> goal_handle n' \<noteq> None))"
proof -
  obtain x w1 where x: "hk_on_wait_for_result hk (an_feedback n) (an_goal n) w = (x, w1)"
    by (rule prod.exhaust)
  show ?thesis
  proof (cases x)
    case (Inl e)
    then show ?thesis
      using assms(5) x by (auto simp: await_result_def)
  next
    case (Inr gu)
    obtain g u h where gu: "gu = (g, u)" and h: "goal_handle n = Some h"
      using assms(1) by (metis prod.exhaust option.exhaust)
    define n1 where "n1 = n\<lparr>an_goal := g, goal_updated := (goal_updated n \<or> u), an_feedback := None\<rparr>"
    obtain r2 n2 w2 where r2: "resend_if_updated cfg cl hk h (n1, w1) = (r2, n2, w2)"
      by (metis prod.exhaust)
    have n1: "goal_handle n1 \<noteq> None" "\<not> future_goal_handle n1" "\<not> goal_result_available n1" "an_status n1 = an_status n"
        "an_result n1 = an_result n"
      using assms(1-3) by (simp_all add: n1_def)
    note re = resend_cases [OF n1(1-3) r2]
    have run: "await_result cfg cl hk (n, w) = (case r2 of Some r \<Rightarrow> (Some r, n2, w2) | None \<Rightarrow>
        (let (es, w3) = cl_spin_some cl w2 in
         case run_callbacks cl es n2 of Inl x \<Rightarrow> (Some (Inl x), n2, w3)
         | Inr n3 \<Rightarrow> (if goal_result_available n3 then None else Some (Inr RUNNING), n3, w3)))"
      using x Inr gu h r2 by (simp add: await_result_def n1_def Let_def split: option.split)
    have ok2: "result_ok n2"
      using re n1(5) assms(3,4) by (simp add: result_ok_def)
    show ?thesis
    proof (cases r2)
      case None
      obtain es w3 where es: "cl_spin_some cl w2 = (es, w3)"
        by (rule prod.exhaust)
      obtain n3 where n3: "run_callbacks cl es n2 = Inr n3" "same_goal n2 n3"
        using run_callbacks_safe [of n2 cl es] re None by auto
      then show ?thesis
        using assms(5) run None es re ok2 n1(4) by (auto simp: same_goal_def split: if_splits)
    next
      case (Some r)
      then show ?thesis
        using assms(5) run re ok2 n1(4) by auto
    qed
  qed
qed

lemma tick_finish_cases:
  assumes "result_ok n" and "tick_finish hk (n, w) = (r, n', w')"
  shows "r \<noteq> Inl Null_Deref \<and> an_status n' = an_status n \<and>
    (r = Inr RUNNING \<longrightarrow> result_ok n' \<and> goal_result_available n')"
  using assms by (auto simp: tick_finish_def result_ok_def Let_def split: result_code.splits prod.splits)

lemma tick_begin_cases:
  assumes "node_inv n" and "tick_begin cl hk (n, w) = (r, n', w')"
  shows "r \<noteq> Some (Inl Null_Deref) \<and> r \<noteq> Some (Inr RUNNING) \<and>
    (r = None \<longrightarrow> result_ok n' \<and> (future_goal_handle n' \<or> goal_handle n' \<noteq> None \<or> goal_result_available n'))"
proof (cases "isStatusActive (an_status n)")
  case True
  then show ?thesis
    using assms by (auto simp: tick_begin_def node_inv_def isStatusActive_def)
next
  case False
  then show ?thesis
    using assms(2)
    by (auto simp: tick_begin_def Let_def send_new_goal_def result_ok_def empty_result_def
        split: prod.splits sum.splits if_splits)
qed

lemma action_tick_safe:
  assumes "node_inv n" and "action_tick cfg cl hk (n, w) = (r, n', w')"
  shows "r \<noteq> Inl Null_Deref \<and>
    (r = Inr RUNNING \<longrightarrow> result_ok n' \<and> (future_goal_handle n' \<or> goal_handle n' \<noteq> None \<or> goal_result_available n'))"
proof -
  obtain r1 n1 w1 where 1: "tick_begin cl hk (n, w) = (r1, n1, w1)"
    by (metis prod.exhaust)
  define b where "b = (if future_goal_handle n1 then await_ack cfg cl hk (n1, w1) else (None, n1, w1))"
  obtain r2 n2 w2 where 2: "b = (r2, n2, w2)"
    by (metis prod.exhaust)
  define c where "c = (if cl_ok cl w2 \<and> \<not> goal_result_available n2 then await_result cfg cl hk (n2, w2) else (None, n2, w2))"
  obtain r3 n3 w3 where 3: "c = (r3, n3, w3)"
    by (metis prod.exhaust)
  obtain r4 n4 w4 where 4: "tick_finish hk (n3, w3) = (r4, n4, w4)"
    by (metis prod.exhaust)
  have tick: "action_tick cfg cl hk (n, w) =
      (case r1 of Some r \<Rightarrow> (r, n1, w1) | None \<Rightarrow> (case r2 of Some r \<Rightarrow> (r, n2, w2) | None \<Rightarrow>
        (case r3 of Some r \<Rightarrow> (r, n3, w3) | None \<Rightarrow> (r4, n4, w4))))"
    unfolding action_tick_def
    by (simp only: 1 prod.case fst_conv snd_conv b_def [symmetric] 2 c_def [symmetric] 3 4 split: option.split)
  note start = tick_begin_cases [OF assms(1) 1]
  have ack: "r1 = None \<Longrightarrow> r2 \<noteq> Some (Inl Null_Deref) \<and> result_ok n2 \<and> (r2 = Some (Inr RUNNING) \<longrightarrow> future_goal_handle n2) \<and>
      (r2 = None \<longrightarrow> \<not> future_goal_handle n2 \<and> (goal_handle n2 \<noteq> None \<or> goal_result_available n2))"
    using await_ack_cases [of n1 cfg cl hk w1 r2 n2 w2] start 2 by (auto simp: b_def result_ok_def split: if_splits)
  have res: "r1 = None \<Longrightarrow> r2 = None \<Longrightarrow> r3 \<noteq> Some (Inl Null_Deref) \<and> (r3 = None \<longrightarrow> result_ok n3) \<and>
      (r3 = Some (Inr RUNNING) \<longrightarrow> result_ok n3 \<and> (future_goal_handle n3 \<or> goal_handle n3 \<noteq> None))"
    using await_result_cases [of n2 cfg cl hk w2 r3 n3 w3] ack 3 by (auto simp: c_def result_ok_def split: if_splits)
  show ?thesis
    using assms(2) start ack res tick_finish_cases [OF _ 4] unfolding tick by (auto split: option.splits)
qed

lemma action_halt_safe:
  assumes "action_halt cfg cl hk (n, w) = (r, n', w')"
  shows "r \<noteq> Inl Null_Deref \<and> (r = Inr () \<longrightarrow> an_status n' = IDLE)"
proof (cases "an_status n = RUNNING \<and> goal_handle n \<noteq> None")
  case False
  then have "should_cancel_goal cl (n, w) = (Inr False, n, w)"
    by (auto simp: should_cancel_goal_def)
  then show ?thesis
    using assms by (auto simp: action_halt_def)
next
  case True
  obtain h where h: "goal_handle n = Some h"
    using True by blast
  obtain es w1 where es: "cl_spin_some cl w = (es, w1)"
    by (rule prod.exhaust)
  obtain n1 where n1: "run_callbacks cl es n = Inr n1" "same_goal n n1"
    using run_callbacks_safe [of n cl es] True by blast
  then have h1: "goal_handle n1 = Some h"
    using h by (simp add: same_goal_def)
  obtain c es2 w2 where c: "cl_spin_cancel cl (server_timeout cfg) (cl_cancel_goal cl h w1) = (c, es2, w2)"
    by (metis prod.exhaust)
  obtain n2 where n2: "run_callbacks cl es2 n1 = Inr n2" "same_goal n1 n2"
    using run_callbacks_safe [of n1 cl es2] h1 by auto
  obtain d es3 w3 where d: "cl_spin_result cl (server_timeout cfg) w2 = (d, es3, w3)"
    by (metis prod.exhaust)
  obtain n3 where n3: "run_callbacks cl es3 n2 = Inr n3"
    using run_callbacks_safe [of n2 cl es3] h1 n2(2) by (auto simp: same_goal_def)
  show ?thesis
    using assms True h es n1(1) h1 c n2(1) d n3
    by (auto simp: action_halt_def should_cancel_goal_def split: if_splits bool.splits)
qed

lemma parent_tick_inv:
  assumes "node_inv n" and "parent_tick cfg cl hk (n, w) = (r, n', w')"
  shows "r \<noteq> Inl Null_Deref \<and> (\<forall>s. r = Inr s \<longrightarrow> node_inv n')"
proof -
  obtain r1 n1 w1 where t: "action_tick cfg cl hk (n, w) = (r1, n1, w1)"
    by (metis prod.exhaust)
  show ?thesis
    using assms(2) action_tick_safe [OF assms(1) t]
    by (cases r1) (auto simp: parent_tick_def t node_inv_def result_ok_def split: if_splits)
qed

lemma run_node_safe: "node_inv n \<Longrightarrow> fst (run_node cfg cl hk cs (n, w)) \<noteq> Some Null_Deref"
proof (induction cs arbitrary: n w)
  case (Cons c cs)
  show ?case
  proof (cases c)
    case Do_Tick
    obtain r n' w' where t: "parent_tick cfg cl hk (n, w) = (r, n', w')"
      by (metis prod.exhaust)
    then show ?thesis
      using parent_tick_inv [OF Cons.prems t] Cons.IH by (cases r) (auto simp: Do_Tick)
  next
    case Do_Halt
    obtain r n' w' where t: "action_halt cfg cl hk (n, w) = (r, n', w')"
      by (metis prod.exhaust)
    then show ?thesis
      using action_halt_safe [OF t] Cons.IH by (cases r) (auto simp: Do_Halt node_inv_def)
  qed
qed simp

section \<open>Properties\<close>


text \<open>What the node reports for a result.\<close>

definition report :: "('g, 'i, 'r, 'f, 'w) action_hooks \<Rightarrow> ('i, 'r) wrapped_result \<Rightarrow> 'w \<Rightarrow> client_exn + node_status" where
  "report hk r w =
     (case wr_code r of
        RC_UNKNOWN \<Rightarrow> Inl (Node_Exn LogicError)
      | RC_SUCCEEDED \<Rightarrow> Inr (fst (hk_on_success hk r w))
      | RC_ABORTED \<Rightarrow> Inr (fst (hk_on_aborted hk r w))
      | RC_CANCELED \<Rightarrow> Inr (fst (hk_on_cancelled hk r w)))"

text \<open>C23: A tick of a node that waits for its result returns what the server reported for this goal. If the callbacks the executor
  runs bring no result with the id of the goal handle, the node stays RUNNING; otherwise it returns what the hook for the code of the
  last such result says. Results of other goals are ignored.\<close>

theorem action_tick_reports_result:
  assumes "an_status n = RUNNING" and "\<not> future_goal_handle n" and "goal_handle n = Some h"
    and "\<not> goal_result_available n" and "\<not> goal_updated n" and "cl_ok cl w"
    and "hk_on_wait_for_result hk (an_feedback n) (an_goal n) w = (Inr (g, False), w1)"
    and "cl_spin_some cl w1 = (es, w2)"
  shows "fst (action_tick cfg cl hk (n, w)) =
    (let rs = results_for (cl_goal_id cl h) es in if rs = [] then Inr RUNNING else report hk (last rs) w2)"
proof -
  define n1 where "n1 = n\<lparr>an_goal := g, goal_updated := False, an_feedback := None\<rparr>"
  have "\<not> future_goal_handle n1" "goal_handle n1 = Some h" "\<not> goal_result_available n1"
    using assms(2-4) by (simp_all add: n1_def)
  then obtain n2 where n2: "run_callbacks cl es n1 = Inr n2"
    "goal_result_available n2 \<longleftrightarrow> results_for (cl_goal_id cl h) es \<noteq> []"
    "results_for (cl_goal_id cl h) es \<noteq> [] \<Longrightarrow> an_result n2 = last (results_for (cl_goal_id cl h) es)"
    using run_callbacks_results [of n1 h cl es] by (auto simp: Let_def)
  have "await_result cfg cl hk (n, w) = (if goal_result_available n2 then None else Some (Inr RUNNING), n2, w2)"
    using assms(3,5,7,8) n2(1) by (simp add: await_result_def resend_if_updated_def Let_def n1_def)
  then have "action_tick cfg cl hk (n, w) = (if goal_result_available n2 then tick_finish hk (n2, w2) else (Inr RUNNING, n2, w2))"
    using assms by (simp add: action_tick_def tick_begin_def isStatusActive_def)
  then show ?thesis
    using n2(2,3) by (auto simp: tick_finish_def report_def Let_def split: result_code.split prod.split)
qed

text \<open>A client for the witnesses: the clock stands still, nothing is acknowledged, and an executor that spins runs the callbacks
  in the world.\<close>

definition sim_hooks :: "(nat, nat, nat, nat, 'w) action_hooks" where
  "sim_hooks = \<lparr>hk_on_tick = (\<lambda>w. (Inr (7, True), w)), hk_on_wait_for_result = (\<lambda>f g w. (Inr (g, False), w)),
     hk_on_success = (\<lambda>r w. (SUCCESS, w)), hk_on_aborted = (\<lambda>r w. (FAILURE, w)),
     hk_on_cancelled = (\<lambda>r w. (SUCCESS, w)), hk_on_timeout = (\<lambda>w. w)\<rparr>"

definition sim_client :: "time_ns \<Rightarrow> (nat, nat, nat, nat, nat, (nat, nat, nat) client_event list) action_client" where
  "sim_client t = \<lparr>cl_now = (\<lambda>w. (t, w)), cl_ok = (\<lambda>w. True), cl_send_goal = (\<lambda>g w. w),
     cl_spin_goal = (\<lambda>d w. ((FRC_TIMEOUT, None), [], w)), cl_spin_some = (\<lambda>w. (w, [])),
     cl_status = (\<lambda>h w. STATUS_EXECUTING), cl_goal_id = (\<lambda>h. h), cl_cancel_goal = (\<lambda>h w. []),
     cl_spin_cancel = (\<lambda>d w. (FRC_SUCCESS, [], w)), cl_spin_result = (\<lambda>d w. (FRC_SUCCESS, [], w))\<rparr>"

definition sim_timeouts :: client_timeouts where
  "sim_timeouts = \<lparr>server_timeout = 20, max_timeout = 5\<rparr>"

definition sim_waiting :: "(nat, nat, nat, nat, nat) action_node" where
  "sim_waiting = (action_node_init 7)\<lparr>an_status := RUNNING, goal_handle := Some 1\<rparr>"

definition sim_results :: "(nat, nat, nat) client_event list" where
  "sim_results = [Result_Callback \<lparr>wr_goal_id = Some 0, wr_code = RC_ABORTED, wr_result = None\<rparr>, Feedback_Callback 3,
     Result_Callback \<lparr>wr_goal_id = Some 1, wr_code = RC_SUCCEEDED, wr_result = Some 5\<rparr>]"

theorem action_tick_reports_result_witness:
  "fst (action_tick sim_timeouts (sim_client 0) sim_hooks (sim_waiting, sim_results)) = Inr SUCCESS"
  using action_tick_reports_result [of sim_waiting 1 "sim_client 0" sim_results sim_hooks 7 sim_results sim_results "[]"
      sim_timeouts]
  by (simp add: sim_waiting_def action_node_init_def sim_client_def sim_hooks_def sim_results_def results_for_def report_def)

text \<open>The wait for the acknowledgement of a goal is bounded. A tick of a node whose goal the server has not
  acknowledged, and does not acknowledge while the tick spins, returns RUNNING as long as there is more than one spin left before
  the server timeout, and FAILURE afterwards; then the node no longer waits.\<close>

theorem action_ack_timeout:
  assumes "an_status n = RUNNING" and "future_goal_handle n" and "cl_now cl w = (t, w1)" and "0 \<le> max_timeout cfg"
    and "\<forall>d. fst (fst (cl_spin_goal cl d w1)) = FRC_TIMEOUT"
    and "action_tick cfg cl hk (n, w) = (r, n', w')"
  shows "r = Inr (if to_ms (t - time_goal_sent n) + max_timeout cfg < server_timeout cfg then RUNNING else FAILURE) \<and>
    future_goal_handle n' = (r = Inr RUNNING)"
proof -
  let ?e = "to_ms (t - time_goal_sent n)"
  obtain a m w2 where a: "await_ack cfg cl hk (n, w) = (a, m, w2)"
    by (metis prod.exhaust)
  have "a = Some (Inr (if ?e + max_timeout cfg < server_timeout cfg then RUNNING else FAILURE))"
  proof (cases "server_timeout cfg - ?e \<le> 0")
    case True
    then show ?thesis
      using a assms(3,4) by (auto simp: await_ack_def is_future_goal_handle_complete_def Let_def)
  next
    case False
    define d where "d = (if server_timeout cfg - ?e > max_timeout cfg then max_timeout cfg else server_timeout cfg - ?e)"
    obtain h es w3 where s: "cl_spin_goal cl d w1 = ((FRC_TIMEOUT, h), es, w3)"
      using assms(5) by (metis prod.collapse)
    obtain n1 where n1: "run_callbacks cl es n = Inr n1"
      using run_callbacks_safe [of n cl es] assms(2) by blast
    have "?e + d < server_timeout cfg \<longleftrightarrow> ?e + max_timeout cfg < server_timeout cfg"
      using False by (auto simp: d_def)
    then show ?thesis
      using a False assms(3)
      by (auto simp: await_ack_def is_future_goal_handle_complete_def Let_def d_def [symmetric] s n1 split: if_splits)
  qed
  then show ?thesis
    using assms(1,2,6) a await_ack_cases [OF assms(2) a]
    by (auto simp: action_tick_def tick_begin_def isStatusActive_def split: if_splits)
qed

theorem action_ack_timeout_witness:
  "fst (action_tick sim_timeouts (sim_client 16000000) sim_hooks
     ((action_node_init 7)\<lparr>an_status := RUNNING, future_goal_handle := True\<rparr>, [])) = Inr FAILURE"
proof -
  let ?n = "(action_node_init 7)\<lparr>an_status := RUNNING, future_goal_handle := True\<rparr> :: (nat, nat, nat, nat, nat) action_node"
  have "an_status ?n = RUNNING" "future_goal_handle ?n" "cl_now (sim_client 16000000) [] = (16000000, [])"
    "0 \<le> max_timeout sim_timeouts" "\<forall>d. fst (fst (cl_spin_goal (sim_client 16000000) d [])) = FRC_TIMEOUT"
    by (simp_all add: action_node_init_def sim_client_def sim_timeouts_def)
  moreover obtain r n' w' where t: "action_tick sim_timeouts (sim_client 16000000) sim_hooks (?n, []) = (r, n', w')"
    by (metis prod.exhaust)
  ultimately show ?thesis
    using action_ack_timeout [of ?n "sim_client 16000000" "[]" 16000000 "[]" sim_timeouts sim_hooks r n' w']
    by (simp add: sim_timeouts_def action_node_init_def to_ms_def)
qed

text \<open>A goal that is sent and not yet acknowledged is not cancelled when the node is halted. The first tick of a node sends its
  goal; if the acknowledgement does not come during this tick the node is RUNNING without a goal handle, and
  halting it makes it idle without a single call to the server, which executes the goal when it accepts it.\<close>

theorem halt_forgets_unacknowledged_goal:
  assumes "0 \<le> max_timeout cfg" and "an_status n = IDLE" and "goal_handle n = None" and "hk_on_tick hk w = (Inr (g, True), w1)"
    and "cl_now cl (cl_send_goal cl g w1) = (t, w2)" and "cl_now cl w2 = (t', w3)"
    and "to_ms (t' - t) + max_timeout cfg < server_timeout cfg"
    and "cl_spin_goal cl (max_timeout cfg) w3 = ((FRC_TIMEOUT, None), [], w4)"
  shows "\<exists>n1 n2. parent_tick cfg cl hk (n, w) = (Inr RUNNING, n1, w4) \<and> future_goal_handle n1 \<and>
      action_halt cfg cl hk (n1, w4) = (Inr (), n2, w4) \<and> an_status n2 = IDLE"
proof -
  define n0 where "n0 = n\<lparr>should_send_goal := True, an_result := empty_result, an_goal := g, an_status := RUNNING,
      goal_result_available := False, future_goal_handle := True, time_goal_sent := t\<rparr>"
  have b: "tick_begin cl hk (n, w) = (None, n0, w2)"
    using assms(2,4,5) by (simp add: tick_begin_def isStatusActive_def send_new_goal_def n0_def)
  have "0 < server_timeout cfg - to_ms (t' - t)" "server_timeout cfg - to_ms (t' - t) > max_timeout cfg"
    using assms(1,7) by linarith+
  then have "await_ack cfg cl hk (n0, w2) = (Some (Inr RUNNING), n0, w4)"
    using assms(6-8) by (simp add: await_ack_def is_future_goal_handle_complete_def n0_def)
  then have "parent_tick cfg cl hk (n, w) = (Inr RUNNING, n0\<lparr>an_status := RUNNING\<rparr>, w4)"
    using b by (simp add: parent_tick_def action_tick_def n0_def)
  moreover have "action_halt cfg cl hk (n0\<lparr>an_status := RUNNING\<rparr>, w4) = (Inr (), n0\<lparr>an_status := IDLE\<rparr>, w4)"
    using assms(3) by (simp add: action_halt_def should_cancel_goal_def n0_def)
  ultimately show ?thesis
    by (intro exI [of _ "n0\<lparr>an_status := RUNNING\<rparr>"] exI [of _ "n0\<lparr>an_status := IDLE\<rparr>"]) (simp add: n0_def)
qed

theorem halt_forgets_unacknowledged_goal_witness:
  "\<exists>n1 n2. parent_tick sim_timeouts (sim_client 0) sim_hooks (action_node_init 7, sim_results) = (Inr RUNNING, n1, sim_results) \<and>
    action_halt sim_timeouts (sim_client 0) sim_hooks (n1, sim_results) = (Inr (), n2, sim_results)"
proof -
  let ?n = "action_node_init 7 :: (nat, nat, nat, nat, nat) action_node" and ?cl = "sim_client 0"
  have "0 \<le> max_timeout sim_timeouts" "an_status ?n = IDLE" "goal_handle ?n = None"
    "hk_on_tick sim_hooks sim_results = (Inr (7, True), sim_results)"
    "cl_now ?cl (cl_send_goal ?cl 7 sim_results) = (0, sim_results)" "cl_now ?cl sim_results = (0, sim_results)"
    "to_ms (0 - 0) + max_timeout sim_timeouts < server_timeout sim_timeouts"
    "cl_spin_goal ?cl (max_timeout sim_timeouts) sim_results = ((FRC_TIMEOUT, None), [], sim_results)"
    by (simp_all add: sim_timeouts_def action_node_init_def sim_hooks_def sim_client_def to_ms_def)
  from halt_forgets_unacknowledged_goal [OF this] show ?thesis
    by blast
qed

subsection \<open>Services\<close>

lemma check_future_cases:
  assumes "check_future cfg cl hk (n, w) = (r, n', w')"
  shows "sent_time n' = sent_time n \<and> (request_sent n' \<longrightarrow> request_sent n \<and> r = Inr RUNNING \<and>
    (\<exists>v t. sc_now cl v = (t, w') \<and> to_ms (t - sent_time n) < server_timeout cfg))"
  using assms by (auto simp: check_future_def Let_def split: prod.splits if_splits future_code.splits)

text \<open>A service call is bounded. A tick of \<open>BtServiceNode\<close> leaves a request outstanding only if it returns RUNNING and the clock it read last is
  within the server timeout since the request was sent; and a tick of a node whose request is as old as the timeout drops it and
  returns FAILURE, whatever the service does.\<close>

theorem service_call_bounded:
  assumes "service_tick cfg cl hk (n, w) = (r, n', w')"
    and "isStatusActive (sn_status m)" and "request_sent m" and "server_timeout cfg \<le> to_ms (fst (sc_now cl v) - sent_time m)"
  shows "(request_sent n' \<longrightarrow> r = Inr RUNNING \<and>
      (\<exists>u t. sc_now cl u = (t, w') \<and> to_ms (t - sent_time n') < server_timeout cfg)) \<and>
    service_tick cfg cl hk (m, v) = (Inr FAILURE, m\<lparr>request_sent := False\<rparr>, snd (sc_now cl v))"
proof (rule conjI)
  show "request_sent n' \<longrightarrow> r = Inr RUNNING \<and>
      (\<exists>u t. sc_now cl u = (t, w') \<and> to_ms (t - sent_time n') < server_timeout cfg)"
    using assms(1) by (auto simp: service_tick_def Let_def split: if_splits prod.splits sum.splits dest!: check_future_cases)
      blast+
  show "service_tick cfg cl hk (m, v) = (Inr FAILURE, m\<lparr>request_sent := False\<rparr>, snd (sc_now cl v))"
    using assms(2-4) by (cases "sc_now cl v") (simp add: service_tick_def check_future_def Let_def)
qed

definition sim_service :: "(nat, nat, time_ns) service_client" where
  "sim_service = \<lparr>sc_now = (\<lambda>w. (w, w + 3000000)), sc_async_call = (\<lambda>q w. w), sc_spin = (\<lambda>d w. ((FRC_TIMEOUT, 0), w))\<rparr>"

definition sim_service_hooks :: "(nat, nat, time_ns) service_hooks" where
  "sim_service_hooks = \<lparr>sh_initialize = (\<lambda>w. w), sh_on_tick = (\<lambda>w. (Inr (1, True), w)),
     sh_on_completion = (\<lambda>p w. (SUCCESS, w)), sh_on_wait_for_result = (\<lambda>w. w)\<rparr>"

definition sim_request :: "nat service_node" where
  "sim_request = \<lparr>sn_status = RUNNING, sn_request = Some 1, request_sent = True, sent_time = 0, should_send_request = True\<rparr>"

theorem service_call_bounded_witness:
  "service_tick sim_timeouts sim_service sim_service_hooks (sim_request, 20000000) =
    (Inr FAILURE, sim_request\<lparr>request_sent := False\<rparr>, 23000000)"
proof -
  obtain r n' w' where t: "service_tick sim_timeouts sim_service sim_service_hooks (sim_request, 0) = (r, n', w')"
    by (metis prod.exhaust)
  have "isStatusActive (sn_status sim_request)" "request_sent sim_request"
    "server_timeout sim_timeouts \<le> to_ms (fst (sc_now sim_service 20000000) - sent_time sim_request)"
    by (simp_all add: sim_request_def isStatusActive_def sim_timeouts_def sim_service_def to_ms_def)
  from service_call_bounded [OF t this] show ?thesis
    by (simp add: sim_service_def)
qed

end
