(* ===== verification/Path_Actions_Props.thy ===== *)
theory Path_Actions_Props
  imports Path_Actions "HOL-Library.Sublist"
begin

text \<open>
  Properties of the path and goal nodes: what is left of a path that is truncated around the robot, capped or
  resampled, and what extracting goals from a route loses.
\<close>

section \<open>Capping a path\<close>

lemma round_nat_mono_step: "1 \<le> s \<Longrightarrow> 0 \<le> x \<Longrightarrow> round_nat x < round_nat (x + s)"
proof -
  assume "1 \<le> s" "0 \<le> x"
  then have "\<lfloor>x + 1 / 2\<rfloor> < \<lfloor>x + s + 1 / 2\<rfloor>" "0 \<le> \<lfloor>x + 1 / 2\<rfloor>"
    by linarith+
  then show ?thesis
    unfolding round_nat_def by (simp only: nat_less_eq_zless)
qed

lemma cap_index_step:
  assumes "1 \<le> s"
  shows "round_nat (real i * s) < round_nat (real (Suc i) * s)"
  using round_nat_mono_step [OF assms, of "real i * s"] assms by (simp add: distrib_right add.commute)

lemma cap_index_less:
  assumes "2 \<le> keep" "keep \<le> l" "i + 1 < keep"
  shows "round_nat (real i * (real l / real (keep - 1))) < l"
proof -
  have k: "real (keep - 1) = real keep - 1" "1 < real l / real (keep - 1)"
    using assms by (auto simp: of_nat_diff)
  have "real i * (real l / real (keep - 1)) \<le> (real keep - 2) * (real l / real (keep - 1))"
    using assms by (intro mult_right_mono) auto
  also have "(real keep - 2) * (real l / real (keep - 1)) = real l - real l / real (keep - 1)"
    using assms k(1) by (simp add: field_simps)
  finally have *: "real i * (real l / real (keep - 1)) \<le> real l - real l / real (keep - 1)" .
  have "x + 1 / 2 < y" if "x \<le> y - t" "1 < t" for x y t :: real
    using that by linarith
  from this [OF * k(2)] have "\<lfloor>real i * (real l / real (keep - 1)) + 1 / 2\<rfloor> < int l"
    by (simp add: floor_less_iff)
  then show ?thesis
    using assms(1,2) nat_mono_iff [of "int l"] unfolding round_nat_def by simp
qed

lemma cap_loop_eq:
  assumes "2 \<le> keep" "keep \<le> l" "s = real l / real (keep - 1)"
  shows "cap_loop s l keep (Suc i) (round_nat (real i * s)) = map (\<lambda>j. round_nat (real j * s)) [Suc i..<keep - 1]"
proof (induction "keep - i" arbitrary: i rule: less_induct)
  case less
  show ?case
  proof (cases "Suc i + 1 < keep")
    case True
    have s: "1 \<le> s"
      using assms by simp
    have "round_nat (real i * s) < round_nat (real (Suc i) * s)" "round_nat (real (Suc i) * s) < l"
      using cap_index_step [OF s] cap_index_less [OF assms(1,2), of "Suc i"] True assms(3) by auto
    moreover have "[Suc i..<keep - 1] = Suc i # [Suc (Suc i)..<keep - 1]"
      using True by (simp add: upt_conv_Cons)
    ultimately show ?thesis
      using less [of "Suc i"] True by (simp add: cap_loop.simps [of s l keep "Suc i"] Let_def)
  next
    case False
    then show ?thesis
      by (simp add: cap_loop.simps [of s l keep "Suc i"])
  qed
qed

lemma capPath_indices:
  assumes "2 \<le> m" "m < int (length ps)"
  shows "\<exists>is. capPath m ps = map (\<lambda>i. ps ! i) is \<and> length is = nat m \<and> hd is = 0 \<and> last is = length ps - 1 \<and>
    sorted_wrt (<) is \<and> last is < length ps"
proof -
  define keep l where "keep = nat m" and "l = length ps - 1"
  define r where "r j = round_nat (real j * (real l / real (keep - 1)))" for j
  have k: "2 \<le> keep" "keep \<le> l" "ps \<noteq> []"
    using assms by (auto simp: keep_def l_def)
  have s: "1 \<le> real l / real (keep - 1)"
    using k by simp
  have r0: "r 0 = 0"
    by (simp add: r_def round_nat_def)
  have step: "r j < r (Suc j)" for j
    unfolding r_def by (rule cap_index_step [OF s])
  have "r i < r j" if "i < j" for i j
    using lift_Suc_mono_less [of r i j] step that by blast
  then have sorted: "sorted_wrt (<) (map r [0..<keep - 1])"
    by (simp add: sorted_wrt_map sorted_wrt_iff_nth_less)
  have below: "r j < l" if "j < keep - 1" for j
    using cap_index_less [OF k(1,2), of j] that by (simp add: r_def)
  have upt: "[0..<keep - 1] = 0 # [Suc 0..<keep - 1]"
    using k(1) by (simp add: upt_conv_Cons)
  have "capPath m ps = hd ps # map (\<lambda>i. ps ! i) (map r [Suc 0..<keep - 1]) @ [ps ! l]"
    using assms k(1) cap_loop_eq [OF k(1,2) refl, of 0] r0
    unfolding capPath_def Let_def keep_def [symmetric] l_def [symmetric] r_def [symmetric] by simp
  also have "\<dots> = map (\<lambda>i. ps ! i) (map r [0..<keep - 1] @ [l])"
    unfolding upt using k(3) r0 by (simp add: hd_conv_nth)
  finally show ?thesis
    using sorted below k r0 upt
    by (intro exI [of _ "map r [0..<keep - 1] @ [l]"])
      (auto simp: sorted_wrt_append keep_def [symmetric] l_def hd_append)
qed

section \<open>Resampling a path\<close>

lemma resample_loop_subseq: "subseq (resample_loop d q ps acc) ps"
  by (induction d q ps acc rule: resample_loop.induct) (auto simp: Let_def)

lemma resample_loop_last: "ps \<noteq> [] \<Longrightarrow> resample_loop d q ps acc \<noteq> [] \<and> last (resample_loop d q ps acc) = last ps"
  by (induction d q ps acc rule: resample_loop.induct) (auto simp: Let_def)

lemma resamplePath_keeps:
  "subseq (resamplePath d ps) ps" "ps \<noteq> [] \<Longrightarrow> hd (resamplePath d ps) = hd ps \<and> last (resamplePath d ps) = last ps"
  using resample_loop_subseq [of d "hd ps" "tl ps" 0] resample_loop_last [of "tl ps" d "hd ps" 0]
  by (cases ps; auto simp: resamplePath_def)+

section \<open>The part around the robot\<close>

lemma min_by_loop_spec:
  "let j = min_by_loop f xs i v k in
     (j = k \<and> (\<forall>x \<in> set xs. v < f x) \<or> (i \<le> j \<and> j < i + length xs \<and> f (xs ! (j - i)) \<le> v \<and> (\<forall>x \<in> set xs. f (xs ! (j - i)) \<le> f x)))"
proof (induction f xs i v k rule: min_by_loop.induct)
  case (2 f x xs i v k)
  show ?case
  proof (cases "f x \<le> v")
    case True
    let ?j = "min_by_loop f xs (Suc i) (f x) i"
    have "?j = i \<and> (\<forall>y \<in> set xs. f x < f y) \<or> (Suc i \<le> ?j \<and> ?j < Suc i + length xs \<and> f (xs ! (?j - Suc i)) \<le> f x \<and>
        (\<forall>y \<in> set xs. f (xs ! (?j - Suc i)) \<le> f y))"
      using 2(1) [OF refl True] by (simp add: Let_def)
    then show ?thesis
      using True by (auto simp: Let_def nth_Cons' less_imp_le)
  next
    case False
    let ?j = "min_by_loop f xs (Suc i) v k"
    have "?j = k \<and> (\<forall>y \<in> set xs. v < f y) \<or> (Suc i \<le> ?j \<and> ?j < Suc i + length xs \<and> f (xs ! (?j - Suc i)) \<le> v \<and>
        (\<forall>y \<in> set xs. f (xs ! (?j - Suc i)) \<le> f y))"
      using 2(2) [OF refl False] by (simp add: Let_def)
    then show ?thesis
      using False by (auto simp: Let_def nth_Cons')
  qed
qed simp

lemma min_by_spec:
  assumes "xs \<noteq> []"
  shows "min_by f xs < length xs" "\<forall>x \<in> set xs. f (xs ! min_by f xs) \<le> f x"
proof -
  obtain y ys where xs: "xs = y # ys"
    using assms by (cases xs) auto
  have "min_by f xs < length xs \<and> (\<forall>x \<in> set xs. f (xs ! min_by f xs) \<le> f x)"
    using min_by_loop_spec [of f ys 1 "f y" 0] by (auto simp: xs Let_def nth_Cons' less_imp_le)
  then show "min_by f xs < length xs" "\<forall>x \<in> set xs. f (xs ! min_by f xs) \<le> f x"
    by blast+
qed

lemma first_after_spec:
  assumes "ps \<noteq> []" "0 \<le> d"
  shows "0 < first_after_integrated_distance ps d" "first_after_integrated_distance ps d \<le> length ps"
    "polyline (take (first_after_integrated_distance ps d) ps) \<le> d"
  using first_after_loop_spec [OF assms, of 0] assms(1) by (auto simp: first_after_integrated_distance_def)

lemma pt_dist_commute: "pt_dist p q = pt_dist q p"
proof -
  have "(a - b) * (a - b) = (b - a) * (b - a)" for a b :: real
    by (simp add: algebra_simps)
  then show ?thesis
    unfolding pt_dist_def pt_norm_def hypot3_def pt_sub_def by simp
qed

lemma polyline_snoc: "ps \<noteq> [] \<Longrightarrow> polyline (ps @ [q]) = polyline ps + pt_dist (ps_position (last ps)) (ps_position q)"
  by (induction ps rule: polyline.induct) auto

lemma polyline_rev: "polyline (rev ps) = polyline ps"
proof (induction ps rule: polyline.induct)
  case (1 p q ps)
  then show ?case
    using polyline_snoc [of "rev (q # ps)" p] by (simp add: pt_dist_commute)
qed simp_all

lemma local_bounds_spec:
  assumes "local_bounds angle pt robot c = (lo, cur, fwd)" and "tl_begin c < length (poses (tl_path c))"
    and "0 \<le> tl_distance_forward pt" and "0 \<le> tl_distance_backward pt" and "pred_option ((\<le>) 0) (tl_search_dist pt)"
  shows "tl_begin c \<le> cur \<and> lo \<le> cur \<and> cur < fwd \<and> fwd \<le> length (poses (tl_path c)) \<and>
    polyline (take (fwd - cur) (drop cur (poses (tl_path c)))) \<le> tl_distance_forward pt \<and>
    polyline (take (cur + 1 - lo) (drop lo (poses (tl_path c)))) \<le> tl_distance_backward pt"
proof -
  define ps b where "ps = poses (tl_path c)" and "b = tl_begin c"
  define e where "e = (case tl_search_dist pt of None \<Rightarrow> length ps | Some d \<Rightarrow> b + first_after_integrated_distance (drop b ps) d)"
  define win where "win = take (e - b) (drop b ps)"
  have b: "b < length ps"
    using assms(2) by (simp add: ps_def b_def)
  have e: "b < e" "e \<le> length ps"
    using first_after_spec(1,2) [of "drop b ps" "the (tl_search_dist pt)"] b assms(5) unfolding e_def
    by (cases "tl_search_dist pt"; simp)+
  have cur: "cur = b + min_by (poseDistance angle (tl_angular_weight pt) robot) win"
    and fwd: "fwd = (let f = cur + first_after_integrated_distance (drop cur ps) (tl_distance_forward pt) in
        if f = cur \<and> cur + 1 \<noteq> length ps then cur + 1 else f)"
    and lo: "lo = cur + 1 - first_after_integrated_distance (rev (take (cur + 1) ps)) (tl_distance_backward pt)"
    using assms(1) unfolding local_bounds_def Let_def ps_def [symmetric] b_def [symmetric] e_def [symmetric] win_def [symmetric]
    by auto
  have "win \<noteq> []" "length win = e - b"
    using b e by (auto simp: win_def)
  then have c: "b \<le> cur" "cur < length ps"
    using min_by_spec(1) [of win "poseDistance angle (tl_angular_weight pt) robot"] e unfolding cur by linarith+
  have f: "0 < first_after_integrated_distance (drop cur ps) (tl_distance_forward pt)"
    "first_after_integrated_distance (drop cur ps) (tl_distance_forward pt) \<le> length ps - cur"
    "polyline (take (first_after_integrated_distance (drop cur ps) (tl_distance_forward pt)) (drop cur ps)) \<le> tl_distance_forward pt"
    using first_after_spec [of "drop cur ps", OF _ assms(3)] c(2) by auto
  define k where "k = first_after_integrated_distance (rev (take (cur + 1) ps)) (tl_distance_backward pt)"
  have ne: "rev (take (cur + 1) ps) \<noteq> []"
    using c(2) by auto
  have k: "0 < k" "k \<le> cur + 1" "polyline (take k (rev (take (cur + 1) ps))) \<le> tl_distance_backward pt"
    using first_after_spec [OF ne assms(4)] c(2) unfolding k_def by simp_all
  have bk: "lo = cur + 1 - k"
    by (simp add: lo k_def)
  have "take k (rev (take (cur + 1) ps)) = rev (drop (cur + 1 - k) (take (cur + 1) ps))"
    using c(2) by (simp add: take_rev)
  also have "drop (cur + 1 - k) (take (cur + 1) ps) = take (cur + 1 - lo) (drop lo ps)"
    by (simp add: bk drop_take)
  finally have "polyline (take (cur + 1 - lo) (drop lo ps)) \<le> tl_distance_backward pt"
    using k(3) by (simp add: polyline_rev)
  moreover have "lo \<le> cur" "cur + first_after_integrated_distance (drop cur ps) (tl_distance_forward pt) \<le> length ps"
    using c(2) f(2) k(1) bk by linarith+
  ultimately show ?thesis
    using c f fwd unfolding ps_def [symmetric] b_def [symmetric] by (simp add: Let_def)
qed

section \<open>Properties\<close>

text \<open>\<open>TruncatePathLocal\<close> publishes the part of the path around the robot. In the mode \<open>local\<close>, without resampling and capping, the
  output is a contiguous part of the input path with the closest pose in it; it extends at most the forward distance
  beyond that pose and at most the backward distance before it, measured along the path; and with a search distance the closest pose never
  moves backwards on the same path.\<close>

theorem truncate_local_window:
  assumes "tl_getRobotPose tf pt (frame_id (path_header (tl_path c))) w = (Some robot, w1)"
    and "tl_input_path pt = tl_path c" and "tl_begin c < length (poses (tl_path c))" and "tl_search_dist pt = Some d" and "0 \<le> d"
    and "0 \<le> tl_distance_forward pt" and "0 \<le> tl_distance_backward pt"
    and "tl_mode pt = ''local''" and "tl_resample_distance pt = 0" and "tl_max_output_poses pt = 0"
  shows "\<exists>lo cur fwd. let ps = poses (tl_path c) in
    truncate_local_tick tf angle pt c w =
      (SUCCESS, Some \<lparr>path_header = path_header (tl_path c), poses = take (fwd - lo) (drop lo ps)\<rparr>, c\<lparr>tl_begin := cur\<rparr>, w1) \<and>
    tl_begin c \<le> cur \<and> lo \<le> cur \<and> cur < fwd \<and> fwd \<le> length ps \<and>
    polyline (take (fwd - cur) (drop cur ps)) \<le> tl_distance_forward pt \<and>
    polyline (take (cur + 1 - lo) (drop lo ps)) \<le> tl_distance_backward pt"
proof -
  obtain lo cur fwd where lb: "local_bounds angle pt robot c = (lo, cur, fwd)"
    by (metis prod.exhaust)
  have "truncate_local_tick tf angle pt c w =
      (SUCCESS, Some \<lparr>path_header = path_header (tl_path c), poses = take (fwd - lo) (drop lo (poses (tl_path c)))\<rparr>,
       c\<lparr>tl_begin := cur\<rparr>, w1)"
    using assms lb by (auto simp: truncate_local_tick_def local_segment_def Let_def)
  then show ?thesis
    using local_bounds_spec [OF lb assms(3,6,7)] assms(4,5) by (intro exI [of _ lo] exI [of _ cur] exI [of _ fwd]) (simp add: Let_def)
qed

definition demo_path :: path where
  "demo_path = \<lparr>path_header = default_header, poses = map ps_at [0, 1, 2, 3]\<rparr>"

definition demo_ports :: truncate_ports where
  "demo_ports = \<lparr>tl_distance_forward = 1, tl_distance_backward = 1, tl_angular_weight = 0, tl_search_dist = Some 10, tl_mode = ''local'',
     tl_resample_distance = 0, tl_max_output_poses = 0, tl_input_path = demo_path, tl_pose = Some (ps_at 2), tl_robot_frame = None,
     tl_transform_tolerance = 0\<rparr>"

theorem truncate_local_window_witness:
  "\<exists>lo cur fwd. truncate_local_tick (\<lambda>p f t w. (None, w)) (\<lambda>q r. 0) demo_ports \<lparr>tl_path = demo_path, tl_begin = 1\<rparr> () =
      (SUCCESS, Some \<lparr>path_header = default_header, poses = take (fwd - lo) (drop lo (map ps_at [0, 1, 2, 3]))\<rparr>,
       \<lparr>tl_path = demo_path, tl_begin = cur\<rparr>, ()) \<and> 1 \<le> cur \<and> lo \<le> cur \<and> cur < fwd"
proof -
  let ?c = "\<lparr>tl_path = demo_path, tl_begin = 1\<rparr>" and ?tf = "\<lambda>p f t w. (None, w :: unit)"
  have g: "tl_getRobotPose ?tf demo_ports (frame_id (path_header (tl_path ?c))) () = (Some (ps_at 2), ())"
    by (simp add: tl_getRobotPose_def demo_ports_def)
  have a: "tl_input_path demo_ports = tl_path ?c" "tl_begin ?c < length (poses (tl_path ?c))" "tl_search_dist demo_ports = Some 10"
    "0 \<le> (10 :: double)" "0 \<le> tl_distance_forward demo_ports" "0 \<le> tl_distance_backward demo_ports" "tl_mode demo_ports = ''local''"
    "tl_resample_distance demo_ports = 0" "tl_max_output_poses demo_ports = 0"
    by (simp_all add: demo_ports_def demo_path_def)
  have p: "poses demo_path = map ps_at [0, 1, 2, 3]" "path_header demo_path = default_header"
    by (simp_all add: demo_path_def)
  from truncate_local_window [OF g a, of "\<lambda>q r. 0"] show ?thesis
    unfolding Let_def by (simp only: truncate_local.simps p) (elim exE conjE, intro exI conjI)
qed

text \<open>Capping and resampling a path keep its ends. \<open>capPath\<close> leaves a path of at least two poses at exactly the maximal number of
  poses if it has more, all from different, increasing positions in the path, the first and the last included, so that none of its index
  corrections is ever needed; \<open>resamplePath\<close> leaves a part of the poses in the same order, the first and the last included.\<close>

theorem cap_and_resample_keep_ends:
  assumes "2 \<le> m" and "m < int (length ps)"
  shows "(\<exists>is. capPath m ps = map (\<lambda>i. ps ! i) is \<and> length is = nat m \<and> hd is = 0 \<and> last is = length ps - 1 \<and>
      sorted_wrt (<) is \<and> last is < length ps) \<and>
    subseq (resamplePath d ps) ps \<and> hd (resamplePath d ps) = hd ps \<and> last (resamplePath d ps) = last ps"
  using capPath_indices [OF assms] resamplePath_keeps [where d = d and ps = ps] assms by fastforce

theorem cap_and_resample_keep_ends_witness:
  "length (capPath 3 (map ps_at [0, 1, 2, 3])) = 3 \<and> last (resamplePath 2 (map ps_at [0, 1, 2, 3])) = ps_at 3"
  using cap_and_resample_keep_ends [of 3 "map ps_at [0, 1, 2, 3]" 2] by auto

text \<open>Goals extracted from a route lie on the ground. \<open>ExtractRouteNodesAsGoals\<close> keeps the horizontal position of every node of the route and sets
  the altitude to zero, whatever the altitude of the node.\<close>

theorem route_goals_lose_altitude:
  assumes "nodes \<noteq> []"
  shows "\<exists>gs. extract_route_goals_tick (h, nodes) = (SUCCESS, Some gs) \<and>
    map (\<lambda>g. (px (ps_position g), py (ps_position g))) (goal_list gs) = map (\<lambda>n. (px n, py n)) nodes \<and>
    list_all (\<lambda>g. pz (ps_position g) = 0) (goal_list gs)"
  using assms by (simp add: extract_route_goals_tick_def comp_def zero_point_def list_all_length)

theorem route_goals_lose_altitude_witness:
  "\<exists>gs. extract_route_goals_tick (default_header, [\<lparr>px = 1, py = 2, pz = 30\<rparr>]) = (SUCCESS, Some gs) \<and>
    list_all (\<lambda>g. pz (ps_position g) = 0) (goal_list gs)"
  using route_goals_lose_altitude [of "[\<lparr>px = 1, py = 2, pz = 30\<rparr>]" default_header] by blast

section \<open>Indices into paths and goals\<close>

lemma get_pose_from_path_index:
  assumes "poses p \<noteq> []"
  shows "fst (get_pose_from_path_tick (Some p) (Some i)) = SUCCESS \<longleftrightarrow> - int (length (poses p)) \<le> i \<and> i < int (length (poses p))"
  using assms by (auto simp: get_pose_from_path_tick_def read_port_def Let_def)

lemma get_next_few_goals_prefix:
  assumes "goal_list gs \<noteq> []"
  shows "get_next_few_goals_tick (Some gs) (Some n) = (SUCCESS, Some (gs\<lparr>goal_list := take (nat n) (goal_list gs)\<rparr>))"
  using assms by (auto simp: get_next_few_goals_tick_def read_port_def Let_def min_def)

end
