(* ===== verification/BT_Actions_Props.thy ===== *)
theory BT_Actions_Props
  imports BT_Actions BT_Clients_Props Path_Actions_Props
begin

text \<open>
  Properties of the action client plugins. What a port holds after it was written is documented by BehaviorTree.CPP: the locale
  \<open>port_laws\<close>, interpreted on ports that are entries of a map.
\<close>

section \<open>Ports\<close>

locale port_laws =
  fixes pt :: "'w ports"
  assumes in_out: "pt_in pt n (pt_out pt m v w) = (if n = m then Some v else pt_in pt n w)"
begin

lemma error_ports:
  "pt_in pt ''error_code_id'' (out_error pt c m w) = Some (PV_Code c)"
  "pt_in pt ''error_msg'' (out_error pt c m w) = Some (PV_String m)"
  "n \<noteq> ''error_code_id'' \<Longrightarrow> n \<noteq> ''error_msg'' \<Longrightarrow> pt_in pt n (out_error pt c m w) = pt_in pt n w"
  by (simp_all add: out_error_def in_out)

lemma path_port: "pt_in pt ''path'' (out_path pt r w) = Some (PV_Path (case r of None \<Rightarrow> default_path | Some x \<Rightarrow> ar_path x))"
  by (simp add: out_path_def in_out)

text \<open>What a planning node leaves in its ports.\<close>

lemma planning_ports:
  assumes hk: "hk = plugin_hooks pt t (out_path pt) tick wait"
  shows "pt_in pt ''path'' (snd (hk_on_success hk r w)) = Some (PV_Path (case wr_result r of None \<Rightarrow> default_path | Some x \<Rightarrow> ar_path x))"
    "pt_in pt ''path'' (snd (hk_on_cancelled hk r w)) = Some (PV_Path default_path)"
    "wr_result r = Some x \<Longrightarrow> pt_in pt ''path'' (snd (hk_on_aborted hk r w)) = Some (PV_Path default_path)"
    "wr_result r = Some x \<Longrightarrow> pt_in pt ''error_code_id'' (snd (hk_on_aborted hk r w)) = Some (PV_Code (ar_error_code x))"
    "pt_in pt ''error_code_id'' (snd (hk_on_success hk r w)) = Some (PV_Code 0)"
    "pt_in pt ''error_code_id'' (hk_on_timeout hk w) = Some (PV_Code t)"
  by (simp_all add: hk plugin_hooks_def error_ports path_port)

end

definition map_ports :: "((string \<rightharpoonup> port_val) \<times> int) ports" where
  "map_ports = \<lparr>pt_in = (\<lambda>n w. fst w n), pt_out = (\<lambda>n v w. ((fst w)(n \<mapsto> v), snd w)), pt_recoveries = (\<lambda>w. Some (snd w)),
     pt_set_recoveries = (\<lambda>k w. (fst w, k))\<rparr>"

interpretation map_ports: port_laws map_ports
  by unfold_locales (simp add: map_ports_def)

section \<open>Properties\<close>

text \<open>\<open>FollowPath\<close> follows its ports. While its action runs, the goal becomes what a new tick would fill in from the ports, except that
  an empty path does not replace the one it has; and the node says that the goal was updated exactly when it differs from the one
  it sent last.\<close>

theorem follow_path_goal_follows_ports:
  "\<exists>new. follow_path_on_tick pt w = (Inr (new, True), w) \<and>
    (let g' = (if fg_path new = default_path then new\<lparr>fg_path := fg_path g\<rparr> else new)
     in follow_path_on_wait pt f g w = (Inr (g', g' \<noteq> g), w))"
  by (cases g) (simp add: follow_path_on_tick_def follow_path_on_wait_def Let_def)


definition demo_result :: "(nat, path_result) wrapped_result" where
  "demo_result = \<lparr>wr_goal_id = Some 1, wr_code = RC_ABORTED,
     wr_result = Some \<lparr>ar_error_code = 208, ar_error_msg = ''no path'', ar_path = demo_path\<rparr>\<rparr>"

definition demo_client :: "(compute_goal, nat, nat, path_result, nat, (string \<rightharpoonup> port_val) \<times> int) action_client" where
  "demo_client = \<lparr>cl_now = (\<lambda>w. (0, w)), cl_ok = (\<lambda>w. True), cl_send_goal = (\<lambda>g w. w),
     cl_spin_goal = (\<lambda>d w. ((FRC_TIMEOUT, None), [], w)), cl_spin_some = (\<lambda>w. ([Result_Callback demo_result], w)),
     cl_status = (\<lambda>h w. STATUS_EXECUTING), cl_goal_id = (\<lambda>h. h), cl_cancel_goal = (\<lambda>h w. w),
     cl_spin_cancel = (\<lambda>d w. (FRC_SUCCESS, [], w)), cl_spin_result = (\<lambda>d w. (FRC_SUCCESS, [], w))\<rparr>"

definition demo_waiting :: "(compute_goal, nat, nat, path_result, nat) action_node" where
  "demo_waiting = (action_node_init \<lparr>cg_goal = default_pose_stamped, cg_planner_id = [], cg_start = default_pose_stamped,
     cg_use_start = False\<rparr>)\<lparr>an_status := RUNNING, goal_handle := Some 1\<rparr>"


text \<open>A navigation node without a goal sends the origin. If the port of the goal of \<open>NavigateToPose\<close> is not set, the node logs an error and
  nevertheless sends a goal, the default pose without a frame.\<close>

theorem missing_goal_is_sent:
  assumes "in_pose pt ''goal'' w = None" and "\<not> isStatusActive (an_status n)"
  shows "\<exists>n1 w1. tick_begin cl (NavigateToPoseAction pt) (n, w) = (None, n1, w1) \<and>
    an_goal n1 = \<lparr>ntp_pose = default_pose_stamped, ntp_behavior_tree = []\<rparr> \<and> future_goal_handle n1 \<and>
    w1 = snd (cl_now cl (cl_send_goal cl \<lparr>ntp_pose = default_pose_stamped, ntp_behavior_tree = []\<rparr> w))"
  using assms
  by (simp add: tick_begin_def NavigateToPoseAction_def plugin_hooks_def navigate_to_pose_on_tick_def send_new_goal_def Let_def
      split_beta)

definition nav_node :: "(nav_to_pose_goal, nat, nat, act_result, nat) action_node" where
  "nav_node = action_node_init \<lparr>ntp_pose = default_pose_stamped, ntp_behavior_tree = []\<rparr>"

definition counting_client :: "(nav_to_pose_goal, nat, nat, act_result, nat, (string \<rightharpoonup> port_val) \<times> int) action_client" where
  "counting_client = \<lparr>cl_now = (\<lambda>w. (0, w)), cl_ok = (\<lambda>w. True), cl_send_goal = (\<lambda>g w. (fst w, snd w + 1)),
     cl_spin_goal = (\<lambda>d w. ((FRC_TIMEOUT, None), [], w)), cl_spin_some = (\<lambda>w. ([], w)),
     cl_status = (\<lambda>h w. STATUS_EXECUTING), cl_goal_id = (\<lambda>h. h), cl_cancel_goal = (\<lambda>h w. w),
     cl_spin_cancel = (\<lambda>d w. (FRC_SUCCESS, [], w)), cl_spin_result = (\<lambda>d w. (FRC_SUCCESS, [], w))\<rparr>"

theorem missing_goal_is_sent_witness:
  "\<exists>n1. tick_begin counting_client (NavigateToPoseAction map_ports) (nav_node, (\<lambda>_. None), 0) = (None, n1, (\<lambda>_. None), 1) \<and>
    ntp_pose (an_goal n1) = default_pose_stamped"
proof -
  have "in_pose map_ports ''goal'' ((\<lambda>_. None), 0) = None" "\<not> isStatusActive (an_status nav_node)"
    by (simp_all add: in_pose_def map_ports_def nav_node_def action_node_init_def isStatusActive_def)
  from missing_goal_is_sent [OF this, of counting_client] show ?thesis
    by (auto simp: counting_client_def)
qed

end
