(* ===== verification/Nav3d_Parsing_Props.thy ===== *)
theory Nav3d_Parsing_Props
  imports Nav3d_Parsing
begin

text \<open>
  Splitting a string is the inverse of joining its tokens, and the array parser reads back what a
  printer of nested arrays writes.
\<close>

section \<open>Splitting and joining\<close>

fun join :: "char \<Rightarrow> string list \<Rightarrow> string" where
  "join d [] = []"
| "join d [t] = t"
| "join d (t # u # ts) = t @ d # join d (u # ts)"

lemma join_Cons: "ts \<noteq> [] \<Longrightarrow> join d (t # ts) = t @ d # join d ts"
  by (cases ts) auto

definition tokens_ok :: "char \<Rightarrow> string list \<Rightarrow> bool" where
  "tokens_ok d ts \<longleftrightarrow> ts \<noteq> [] \<and> list_all (\<lambda>t. d \<notin> set t) ts"

lemma drop_at: "i < length s \<Longrightarrow> p \<le> i \<Longrightarrow> drop p s = take (i - p) (drop p s) @ s ! i # drop (Suc i) s"
  by (metis Cons_nth_drop_Suc append_take_drop_id drop_drop le_add_diff_inverse2)

lemma split_loop_spec:
  "cur \<le> length s \<Longrightarrow> \<exists>ts. split_loop s d cur toks = toks @ ts \<and> tokens_ok d ts \<and> join d ts = drop cur s"
proof (induction s d cur toks rule: split_loop.induct)
  case (1 s d cur toks)
  show ?case
  proof (cases "str_find s d cur")
    case None
    then have "split_loop s d cur toks = toks @ [drop cur s]" and "tokens_ok d [drop cur s]"
      using None by (simp_all add: split_loop.simps [of s d cur] tokens_ok_def str_find_None [symmetric])
    then show ?thesis
      by (intro exI [of _ "[drop cur s]"]) simp
  next
    case (Some pos)
    note f = Some [unfolded str_find_Some]
    let ?t = "take (pos - cur) (drop cur s)"
    obtain ts where ts: "split_loop s d (Suc pos) (toks @ [?t]) = (toks @ [?t]) @ ts" "tokens_ok d ts"
        "join d ts = drop (Suc pos) s"
      using 1(1) [OF Some] f by auto
    have "join d (?t # ts) = drop cur s"
      using f ts(2,3) drop_at [of pos s cur] by (simp add: tokens_ok_def join_Cons)
    then show ?thesis
      using ts f Some by (intro exI [of _ "?t # ts"]) (simp add: split_loop.simps [of s d cur] tokens_ok_def)
  qed
qed

lemma split_string_spec: "tokens_ok d (split_string s d) \<and> join d (split_string s d) = s"
  using split_loop_spec [of 0 s d "[]"] by (auto simp: split_string_def)

lemma append_delimiter_eq:
  "d \<notin> set t \<Longrightarrow> d \<notin> set u \<Longrightarrow> t @ d # x = u @ d # y \<longleftrightarrow> t = u \<and> x = y"
  by (induction t arbitrary: u) (case_tac [!] u, auto)

lemma join_mem: "ts \<noteq> [] \<Longrightarrow> d \<notin> set (join d ts) \<Longrightarrow> length ts = 1"
  by (cases "tl ts") (cases ts; auto)+

lemma join_inject: "tokens_ok d ts \<Longrightarrow> tokens_ok d us \<Longrightarrow> join d ts = join d us \<Longrightarrow> ts = us"
proof (induction ts arbitrary: us)
  case (Cons t ts)
  obtain u us' where us: "us = u # us'"
    using Cons.prems(2) by (cases us) (auto simp: tokens_ok_def)
  show ?case
  proof (cases "ts = [] \<or> us' = []")
    case True
    then have "d \<notin> set (join d (t # ts))"
      using Cons.prems us by (auto simp: tokens_ok_def)
    then have "ts = []" "us' = []"
      using Cons.prems(3) join_mem [of "t # ts" d] join_mem [of us d] us by auto
    then show ?thesis
      using Cons.prems(3) us by simp
  next
    case False
    then have "t @ d # join d ts = u @ d # join d us'"
      using Cons.prems(3) us by (simp add: join_Cons)
    then have "t = u" "join d ts = join d us'"
      using Cons.prems(1,2) us append_delimiter_eq [of d t u] by (auto simp: tokens_ok_def)
    then show ?thesis
      using Cons.IH [of us'] Cons.prems(1,2) us False by (simp add: tokens_ok_def)
  qed
qed (simp add: tokens_ok_def)

section \<open>Reading back nested arrays\<close>

definition digit_char :: "nat \<Rightarrow> char" where
  "digit_char n = char_of (48 + n)"

fun show_nat :: "nat \<Rightarrow> string" where
  "show_nat n = (if n < 10 then [digit_char n] else show_nat (n div 10) @ [digit_char (n mod 10)])"

declare show_nat.simps [simp del]

definition show_vector :: "nat list \<Rightarrow> string" where
  "show_vector v = CHR ''['' # join CHR '','' (map show_nat v) @ '']''"

definition show_vvf :: "nat list list \<Rightarrow> string" where
  "show_vvf vs = CHR ''['' # join CHR '','' (map show_vector vs) @ '']''"

lemma digit_char [simp]:
  assumes "n < 10" shows "is_digit (digit_char n)" "digit_val (digit_char n) = n"
  using assms by (simp_all add: is_digit_def digit_val_def digit_char_def)

lemma show_nat_digits: "list_all is_digit (show_nat n) \<and> show_nat n \<noteq> [] \<and> digits_val (show_nat n) = n"
proof (induction n rule: show_nat.induct)
  case (1 n)
  then show ?case
    by (cases "n < 10") (simp_all add: show_nat.simps [of n] digits_val_def)
qed

lemma digit_special:
  assumes "is_digit c"
  shows "\<not> is_space c" "c \<noteq> CHR ''-''" "c \<noteq> CHR ''+''" "c \<noteq> CHR ''[''" "c \<noteq> CHR '']''" "c \<noteq> CHR '',''" "c \<noteq> CHR '' ''"
    "c \<noteq> CHR 0x09"
  using assms by (auto simp: is_digit_def is_space_def)

lemma take_digits_append:
  "list_all is_digit ds \<Longrightarrow> \<not> is_digit c \<Longrightarrow> take_digits (ds @ c # cs) = (ds, c # cs)"
  by (induction ds) (auto simp: take_digits_def)

lemma read_float_digits:
  assumes "list_all is_digit ds" and "ds \<noteq> []" and "c = CHR '','' \<or> c = CHR '']''"
  shows "read_float (ds @ c # cs) = Some (real (digits_val ds), c # cs)"
proof -
  obtain e es where ds: "ds = e # es" and e: "is_digit e"
    using assms(1,2) by (cases ds) auto
  have c: "\<not> is_digit c" "read_fraction (c # cs) = ([], c # cs)" "read_exponent (c # cs) = (Some 0, c # cs)"
    using assms(3) by (auto simp: is_digit_def read_fraction_def read_exponent_def)
  have "dropWhile is_space (ds @ c # cs) = ds @ c # cs" "take_sign (ds @ c # cs) = (False, ds @ c # cs)"
    using digit_special [OF e] by (simp_all add: ds take_sign_def)
  then show ?thesis
    using assms(2) take_digits_append [OF assms(1) c(1)] c(2,3) by (simp add: read_float_def)
qed

lemma parse_number:
  assumes "c = CHR '','' \<or> c = CHR '']''"
  shows "parse_loop (show_nat n @ c # cs) 2 cur res = parse_loop (c # cs) 2 (cur @ [real n]) res"
proof -
  note d = show_nat_digits [of n]
  obtain e es where s: "show_nat n = e # es" and e: "is_digit e"
    using d by (cases "show_nat n") auto
  have "read_float (e # es @ c # cs) = Some (real n, c # cs)"
    using read_float_digits [of "show_nat n" c cs] d assms by (simp add: s)
  then show ?thesis
    using digit_special [OF e] by (simp add: s)
qed

lemma parse_numbers:
  "parse_loop (join CHR '','' (map show_nat v) @ CHR '']'' # cs) 2 cur res =
     parse_loop cs 1 (cur @ map real v) (res @ [cur @ map real v])"
proof (induction v arbitrary: cur)
  case (Cons n v)
  then show ?case
    by (cases "v = []") (simp_all add: join_Cons parse_number)
qed simp

lemma parse_vector:
  "parse_loop (show_vector v @ cs) 1 cur res = parse_loop cs 1 (map real v) (res @ [map real v])"
  using parse_numbers [of v cs "[]" res] by (simp add: show_vector_def)

lemma parse_vectors:
  "parse_loop (join CHR '','' (map show_vector vs) @ '']'') 1 cur res = (res @ map (map real) vs, None)"
proof (induction vs arbitrary: cur res)
  case (Cons v vs)
  then show ?case
    by (cases "vs = []") (simp_all add: parse_vector join_Cons)
qed simp

section \<open>Round trips\<close>

text \<open>Splitting and joining are inverse to each other. The tokens of a string contain no delimiter and join to the string,
  and joining tokens without delimiter and splitting the result gives the tokens back.\<close>

theorem split_join_roundtrip:
  assumes "ts \<noteq> []" and "list_all (\<lambda>t. d \<notin> set t) ts"
  shows "split_string (join d ts) d = ts \<and> join d (split_string s d) = s \<and>
    list_all (\<lambda>t. d \<notin> set t) (split_string s d)"
  using assms split_string_spec [of d s] split_string_spec [of d "join d ts"]
    join_inject [of d "split_string (join d ts) d" ts]
  by (simp add: tokens_ok_def)

theorem split_join_roundtrip_witness:
  "split_string ''pipeline;;recovery'' CHR '';'' = [''pipeline'', [], ''recovery'']"
  using split_join_roundtrip [of "[''pipeline'', [], ''recovery'']" "CHR '';''" "[]"] by simp

text \<open>The array parser reads back what is printed: for every vector of vectors of natural numbers in decimal notation, \<open>parseVVF\<close>
  returns these numbers and no error.\<close>

theorem parseVVF_reads_back: "parseVVF (show_vvf vs) = (map (map real) vs, None)"
  using parse_vectors [of vs "[]" "[]"] by (simp add: parseVVF_def show_vvf_def)

end
