(* ===== verification/Line_Iterator.thy ===== *)
theory Line_Iterator
  imports Nav3d_Prelude
begin

text \<open>
  \<open>LineIterator\<close> (\<open>line_iterator.hpp\<close>), Bresenham's line between two cells of a grid: the constructor, \<open>isValid\<close>,
  \<open>advance\<close> and the coordinates. The members are C++ \<open>int\<close>s; the model uses unbounded integers, and
  \<open>line_iterator_bounds\<close> says for which coordinates none of them leaves the 32 bits.
\<close>

record line_iterator =
  li_x0 :: int
  li_y0 :: int
  li_x1 :: int
  li_y1 :: int
  li_x :: int
  li_y :: int
  li_deltax :: int
  li_deltay :: int
  li_curpixel :: int
  li_xinc1 :: int
  li_xinc2 :: int
  li_yinc1 :: int
  li_yinc2 :: int
  li_den :: int
  li_num :: int
  li_numadd :: int
  li_numpixels :: int

definition LineIterator :: "int \<Rightarrow> int \<Rightarrow> int \<Rightarrow> int \<Rightarrow> line_iterator" where
  "LineIterator x0 y0 x1 y1 =
     (let deltax = \<bar>x1 - x0\<bar>; deltay = \<bar>y1 - y0\<bar>;
          xinc = (if x1 \<ge> x0 then 1 else - 1); yinc = (if y1 \<ge> y0 then 1 else - 1);
          it = \<lparr>li_x0 = x0, li_y0 = y0, li_x1 = x1, li_y1 = y1, li_x = x0, li_y = y0, li_deltax = deltax,
            li_deltay = deltay, li_curpixel = 0, li_xinc1 = xinc, li_xinc2 = xinc, li_yinc1 = yinc, li_yinc2 = yinc,
            li_den = 0, li_num = 0, li_numadd = 0, li_numpixels = 0\<rparr>
      in if deltax \<ge> deltay then
           it\<lparr>li_xinc1 := 0, li_yinc2 := 0, li_den := deltax, li_num := deltax div 2, li_numadd := deltay,
              li_numpixels := deltax\<rparr>
         else
           it\<lparr>li_xinc2 := 0, li_yinc1 := 0, li_den := deltay, li_num := deltay div 2, li_numadd := deltax,
              li_numpixels := deltay\<rparr>)"

definition isValid :: "line_iterator \<Rightarrow> bool" where
  "isValid it \<longleftrightarrow> li_curpixel it \<le> li_numpixels it"

definition advance :: "line_iterator \<Rightarrow> line_iterator" where
  "advance it =
     (let it1 = it\<lparr>li_num := li_num it + li_numadd it\<rparr>;
          it2 = (if li_num it1 \<ge> li_den it1
                 then it1\<lparr>li_num := li_num it1 - li_den it1, li_x := li_x it1 + li_xinc1 it1, li_y := li_y it1 + li_yinc1 it1\<rparr>
                 else it1)
      in it2\<lparr>li_x := li_x it2 + li_xinc2 it2, li_y := li_y it2 + li_yinc2 it2, li_curpixel := li_curpixel it2 + 1\<rparr>)"

lemma advance_pixels [simp]:
  "li_curpixel (advance it) = li_curpixel it + 1" "li_numpixels (advance it) = li_numpixels it"
  by (simp_all add: advance_def Let_def)

text \<open>The loop \<open>for (; line.isValid(); line.advance())\<close>: the cells that are visited.\<close>

function line_cells :: "line_iterator \<Rightarrow> (int \<times> int) list" where
  "line_cells it = (if isValid it then (li_x it, li_y it) # line_cells (advance it) else [])"
  by auto

termination
  by (relation "measure (\<lambda>it. nat (li_numpixels it + 1 - li_curpixel it))") (auto simp: isValid_def)

declare line_cells.simps [simp del]

section \<open>The state after some steps\<close>

text \<open>How far the line has moved along its minor axis after \<open>k\<close> steps: the exact position rounded to a cell.\<close>

definition minor_steps :: "int \<Rightarrow> int \<Rightarrow> int \<Rightarrow> int" where
  "minor_steps den numadd k = (den div 2 + k * numadd) div den"

text \<open>The iterator \<open>it\<close> after \<open>k\<close> steps.\<close>

definition li_at :: "line_iterator \<Rightarrow> int \<Rightarrow> line_iterator" where
  "li_at it k = it\<lparr>
     li_x := li_x0 it + li_xinc1 it * minor_steps (li_den it) (li_numadd it) k + li_xinc2 it * k,
     li_y := li_y0 it + li_yinc1 it * minor_steps (li_den it) (li_numadd it) k + li_yinc2 it * k,
     li_curpixel := k, li_num := (li_den it div 2 + k * li_numadd it) mod li_den it\<rparr>"

lemma add_div_mod_once:
  fixes m a den :: int
  assumes "0 \<le> m" "m < den" "0 \<le> a" "a \<le> den"
  shows "(m + a) div den = (if m + a \<ge> den then 1 else 0)"
    and "(m + a) mod den = m + a - (if m + a \<ge> den then den else 0)"
proof -
  show d: "(m + a) div den = (if m + a \<ge> den then 1 else 0)"
    using assms int_div_pos_eq [of "m + a" den 1 "m + a - den"] by (auto simp: div_pos_pos_trivial)
  show "(m + a) mod den = m + a - (if m + a \<ge> den then den else 0)"
    using mult_div_mod_eq [of den "m + a"] d by auto
qed

lemma minor_steps_Suc:
  assumes "0 < den" "0 \<le> a" "a \<le> den"
  shows "minor_steps den a (k + 1) =
      minor_steps den a k + (if (den div 2 + k * a) mod den + a \<ge> den then 1 else 0)"
    and "(den div 2 + (k + 1) * a) mod den =
      (den div 2 + k * a) mod den + a - (if (den div 2 + k * a) mod den + a \<ge> den then den else 0)"
proof -
  let ?v = "den div 2 + k * a"
  have v: "den div 2 + (k + 1) * a = ?v mod den + a + den * (?v div den)"
    using mult_div_mod_eq [of den ?v] by (simp add: algebra_simps)
  have m: "0 \<le> ?v mod den" "?v mod den < den"
    using assms(1) by simp_all
  note once = add_div_mod_once [OF m assms(2,3)]
  show "minor_steps den a (k + 1) = minor_steps den a k + (if ?v mod den + a \<ge> den then 1 else 0)"
    using assms(1) div_mult_self2 [of den "?v mod den + a" "?v div den"] unfolding minor_steps_def v once(1) by linarith
  show "(den div 2 + (k + 1) * a) mod den = ?v mod den + a - (if ?v mod den + a \<ge> den then den else 0)"
    using mod_mult_self2 [of "?v mod den + a" den "?v div den"] unfolding v once(2) by linarith
qed

lemma minor_steps_ends: "0 < den \<Longrightarrow> minor_steps den a 0 = 0" "0 < den \<Longrightarrow> minor_steps den a den = a"
  by (simp_all add: minor_steps_def div_pos_pos_trivial)

lemma minor_steps_times: "minor_steps den a k * den = den div 2 + k * a - (den div 2 + k * a) mod den"
  by (simp add: minor_steps_def minus_mod_eq_div_mult [symmetric])

lemma minor_steps_close:
  assumes "0 < den"
  shows "2 * \<bar>minor_steps den a k * den - k * a\<bar> \<le> den"
proof -
  have "2 * \<bar>den div 2 - r\<bar> \<le> den" if "0 \<le> r" "r < den" for r
    using that by (cases "r \<le> den div 2") auto
  from this [of "(den div 2 + k * a) mod den"] show ?thesis
    using assms by (simp add: minor_steps_times)
qed

lemma minor_steps_range:
  assumes "0 < den" "0 \<le> a" "a \<le> den" "0 \<le> k"
  shows "0 \<le> minor_steps den a k" "minor_steps den a k \<le> k"
proof -
  show "0 \<le> minor_steps den a k"
    using assms by (simp add: minor_steps_def pos_imp_zdiv_nonneg_iff)
  have "k * a \<le> k * den" "den div 2 < den" "0 \<le> (den div 2 + k * a) mod den"
    using assms by (auto intro: mult_left_mono)
  then have "minor_steps den a k * den < (k + 1) * den"
    unfolding minor_steps_times distrib_right mult_1_left by linarith
  then show "minor_steps den a k \<le> k"
    using assms(1) by (simp add: mult_less_cancel_right)
qed

lemma advance_li_at:
  assumes "0 < li_den it" "0 \<le> li_numadd it" "li_numadd it \<le> li_den it"
  shows "advance (li_at it k) = li_at it (k + 1)"
proof -
  define m r where "m = minor_steps (li_den it) (li_numadd it) k" and
    "r = (li_den it div 2 + k * li_numadd it) mod li_den it"
  show ?thesis
    unfolding advance_def li_at_def minor_steps_Suc [OF assms] Let_def m_def [symmetric] r_def [symmetric]
    by (cases "r + li_numadd it \<ge> li_den it") (simp_all add: distrib_left)
qed

lemma line_cells_li_at:
  assumes "0 < li_den it" "0 \<le> li_numadd it" "li_numadd it \<le> li_den it"
  shows "line_cells (li_at it k) = map (\<lambda>j. (li_x (li_at it j), li_y (li_at it j))) [k..li_numpixels it]"
proof (induction k "li_numpixels it" rule: upto.induct)
  case (1 k)
  have v: "isValid (li_at it k) \<longleftrightarrow> k \<le> li_numpixels it"
    by (simp add: isValid_def li_at_def)
  show ?case
    using 1 by (simp add: line_cells.simps [of "li_at it k"] v advance_li_at [OF assms] upto.simps [of k])
qed

section \<open>The cells of a line\<close>

text \<open>What the constructor sets up, along the longer axis.\<close>

lemma LineIterator_setup:
  fixes x0 y0 x1 y1 :: int
  defines "it \<equiv> LineIterator x0 y0 x1 y1"
  shows "li_x0 it = x0" "li_y0 it = y0" "li_numpixels it = li_den it" "li_den it = max \<bar>x1 - x0\<bar> \<bar>y1 - y0\<bar>"
    "0 \<le> li_numadd it" "li_numadd it \<le> li_den it" "li_at it 0 = it \<or> li_den it = 0"
    "li_xinc1 it * li_numadd it + li_xinc2 it * li_den it = x1 - x0"
    "li_yinc1 it * li_numadd it + li_yinc2 it * li_den it = y1 - y0"
    "li_xinc1 it = 0 \<and> li_yinc2 it = 0 \<and> \<bar>li_xinc2 it\<bar> = 1 \<and> \<bar>li_yinc1 it\<bar> = 1 \<or>
     li_yinc1 it = 0 \<and> li_xinc2 it = 0 \<and> \<bar>li_yinc2 it\<bar> = 1 \<and> \<bar>li_xinc1 it\<bar> = 1"
proof -
  show "li_x0 it = x0" "li_y0 it = y0" "li_numpixels it = li_den it" "li_den it = max \<bar>x1 - x0\<bar> \<bar>y1 - y0\<bar>"
    "0 \<le> li_numadd it" "li_numadd it \<le> li_den it"
    by (simp_all add: it_def LineIterator_def Let_def max_def)
  show "li_xinc1 it * li_numadd it + li_xinc2 it * li_den it = x1 - x0"
    "li_yinc1 it * li_numadd it + li_yinc2 it * li_den it = y1 - y0"
    by (simp_all add: it_def LineIterator_def Let_def)
  show "li_xinc1 it = 0 \<and> li_yinc2 it = 0 \<and> \<bar>li_xinc2 it\<bar> = 1 \<and> \<bar>li_yinc1 it\<bar> = 1 \<or>
     li_yinc1 it = 0 \<and> li_xinc2 it = 0 \<and> \<bar>li_yinc2 it\<bar> = 1 \<and> \<bar>li_xinc1 it\<bar> = 1"
    by (simp add: it_def LineIterator_def Let_def)
  have start: "li_x it = li_x0 it" "li_y it = li_y0 it" "li_curpixel it = 0" "li_num it = li_den it div 2"
    "0 \<le> li_den it"
    by (simp_all add: it_def LineIterator_def Let_def)
  then have "li_at it 0 = it" if "li_den it \<noteq> 0"
    using that by (intro line_iterator.equality) (simp_all add: li_at_def minor_steps_ends)
  then show "li_at it 0 = it \<or> li_den it = 0"
    by blast
qed

lemma line_cells_eq:
  fixes x0 y0 x1 y1 :: int
  defines "it \<equiv> LineIterator x0 y0 x1 y1"
  shows "line_cells it = map (\<lambda>j. (li_x (li_at it j), li_y (li_at it j))) [0..li_den it]"
proof (cases "li_den it = 0")
  case True
  have "li_curpixel it = 0" "li_numpixels it = 0" "li_x it = li_x0 it" "li_y it = li_y0 it"
    using True unfolding it_def by (simp_all add: LineIterator_def Let_def split: if_splits)
  then show ?thesis
    using True by (simp add: line_cells.simps [of it] line_cells.simps [of "advance it"] isValid_def li_at_def minor_steps_def)
next
  case False
  note s = LineIterator_setup [of x0 y0 x1 y1, folded it_def]
  have "li_at it 0 = it" "0 < li_den it"
    using s(4,7) False by auto
  then show ?thesis
    using line_cells_li_at [OF _ s(5,6), of 0] s(3) by simp
qed

lemma li_at_adjacent:
  assumes "0 < li_den it" "0 \<le> li_numadd it" "li_numadd it \<le> li_den it"
    and "li_xinc1 it = 0 \<and> li_yinc2 it = 0 \<and> \<bar>li_xinc2 it\<bar> = 1 \<and> \<bar>li_yinc1 it\<bar> = 1 \<or>
     li_yinc1 it = 0 \<and> li_xinc2 it = 0 \<and> \<bar>li_yinc2 it\<bar> = 1 \<and> \<bar>li_xinc1 it\<bar> = 1"
  shows "max \<bar>li_x (li_at it (k + 1)) - li_x (li_at it k)\<bar> \<bar>li_y (li_at it (k + 1)) - li_y (li_at it k)\<bar> = 1"
  using assms(4) unfolding li_at_def minor_steps_Suc [OF assms(1-3)]
  by (elim disjE conjE) (auto simp: distrib_left)

lemma li_at_close:
  fixes x0 y0 x1 y1 k :: int
  defines "it \<equiv> LineIterator x0 y0 x1 y1"
  assumes "0 < li_den it"
  shows "2 * \<bar>(li_x (li_at it k) - x0) * (y1 - y0) - (li_y (li_at it k) - y0) * (x1 - x0)\<bar> \<le> li_den it"
proof -
  note s = LineIterator_setup [of x0 y0 x1 y1, folded it_def]
  let ?m = "minor_steps (li_den it) (li_numadd it) k"
  have *: "(li_x (li_at it k) - x0) * (y1 - y0) - (li_y (li_at it k) - y0) * (x1 - x0) =
    (li_xinc1 it * li_yinc2 it - li_xinc2 it * li_yinc1 it) * (?m * li_den it - k * li_numadd it)"
    unfolding s(8,9) [symmetric] by (simp add: li_at_def s(1,2) algebra_simps)
  have "\<bar>li_xinc1 it * li_yinc2 it - li_xinc2 it * li_yinc1 it\<bar> = 1"
    using s(10) by (auto simp: abs_mult)
  then show ?thesis
    using minor_steps_close [OF assms(2), of "li_numadd it" k] by (simp add: * abs_mult)
qed



lemma mod_range: "0 < d \<Longrightarrow> 0 \<le> v mod d \<and> v mod d \<le> (d :: int)"
  by (simp add: order_less_imp_le)

text \<open>For coordinates of up to 29 bits, every value the constructor and the calls of \<open>advance\<close> compute fits into an \<open>int\<close>.\<close>

lemma line_iterator_bounds:
  assumes "\<bar>x0\<bar> < 2 ^ 29" "\<bar>y0\<bar> < 2 ^ 29" "\<bar>x1\<bar> < 2 ^ 29" "\<bar>y1\<bar> < 2 ^ 29"
    and "it = LineIterator x0 y0 x1 y1" "0 \<le> k" "k \<le> li_den it"
  shows "li_den it < 2 ^ 30" "0 \<le> li_num (li_at it k) + li_numadd it" "li_num (li_at it k) + li_numadd it < 2 ^ 31"
    "\<bar>li_x (li_at it k)\<bar> < 2 ^ 31" "\<bar>li_y (li_at it k)\<bar> < 2 ^ 31"
proof -
  note s = LineIterator_setup [of x0 y0 x1 y1, folded assms(5)]
  show den: "li_den it < 2 ^ 30"
    using assms(1-4) s(4) by auto
  have num: "0 \<le> li_num (li_at it k)" "li_num (li_at it k) \<le> li_den it"
    using mod_range [of "li_den it" "li_den it div 2 + k * li_numadd it"] assms(6,7)
    by (cases "li_den it = 0"; simp add: li_at_def)+
  show "0 \<le> li_num (li_at it k) + li_numadd it" "li_num (li_at it k) + li_numadd it < 2 ^ 31"
    using num s(5,6) den by simp_all
  have "0 \<le> minor_steps (li_den it) (li_numadd it) k" "minor_steps (li_den it) (li_numadd it) k \<le> k"
    using minor_steps_range [OF _ s(5,6) assms(6)] assms(6,7) by (cases "li_den it = 0"; simp add: minor_steps_def)+
  then have "\<bar>li_xinc1 it * minor_steps (li_den it) (li_numadd it) k\<bar> + \<bar>li_xinc2 it * k\<bar> \<le> k"
    "\<bar>li_yinc1 it * minor_steps (li_den it) (li_numadd it) k\<bar> + \<bar>li_yinc2 it * k\<bar> \<le> k"
    using s(10) assms(6) by (auto simp: abs_mult)
  then show "\<bar>li_x (li_at it k)\<bar> < 2 ^ 31" "\<bar>li_y (li_at it k)\<bar> < 2 ^ 31"
    using assms(1,2,7) den by (simp_all add: li_at_def s(1,2))
qed

end
