(* ===== verification/Service_Client.thy ===== *)
theory Service_Client
  imports Lifecycle_Manager Nav3d_Parsing
begin

text \<open>
  \<open>nav3d_util::ServiceClient\<close> (\<open>service_client.hpp\<close>) and its users: \<open>LifecycleServiceClient\<close>
  (\<open>lifecycle_service_client.cpp\<close>), the start-up helpers of \<open>lifecycle_utils.cpp\<close> with the command line tool, and
  \<open>LifecycleManagerClient\<close> (\<open>lifecycle_manager_client.cpp\<close>).

  The client of rclcpp is the record \<open>rpc\<close> of functions over a world: waiting for the service, whether rclcpp
  still runs, sending a request (which gives a future), spinning until that future is complete, and forgetting it.
  Loops that wait for a service may run forever; such an operation is a \<open>partial_function\<close>, and
  \<open>None\<close> is the value of a call that does not return. Times are in nanoseconds unless a name says \<open>ms\<close>.
\<close>

section \<open>ServiceClient\<close>

record ('q, 'r, 'w) rpc =
  rpc_wait :: "int \<Rightarrow> 'w \<Rightarrow> bool \<times> 'w"
  rpc_ok :: "'w \<Rightarrow> bool"
  rpc_send :: "'q \<Rightarrow> 'w \<Rightarrow> nat \<times> 'w"
  rpc_spin :: "nat \<Rightarrow> int \<Rightarrow> 'w \<Rightarrow> 'r option \<times> 'w"
  rpc_remove :: "nat \<Rightarrow> 'w \<Rightarrow> 'w"

text \<open>The loop \<open>while (!wait_for_service(t)) { if (!rclcpp::ok()) ...; }\<close>: \<open>True\<close> when the service has appeared,
  \<open>False\<close> when rclcpp was shut down.\<close>

partial_function (option) await_service ::
  "(int \<Rightarrow> 'w \<Rightarrow> bool \<times> 'w) \<Rightarrow> ('w \<Rightarrow> bool) \<Rightarrow> int \<Rightarrow> 'w \<Rightarrow> (bool \<times> 'w) option" where
  "await_service wait ok t w =
     (if fst (wait t w) then Some (True, snd (wait t w))
      else if \<not> ok (snd (wait t w)) then Some (False, snd (wait t w))
      else await_service wait ok t (snd (wait t w)))"

definition sc_invoke ::
  "('q, 'r, 'w) rpc \<Rightarrow> 'q \<Rightarrow> int \<Rightarrow> 'w \<Rightarrow> ((lc_error + 'r) \<times> 'w) option" where
  "sc_invoke c q timeout w =
     (case await_service (rpc_wait c) (rpc_ok c) 1000000000 w of
        None \<Rightarrow> None
      | Some (appeared, w1) \<Rightarrow>
          if \<not> appeared then Some (Inl Runtime_Error, w1)
          else let (future, w2) = rpc_send c q w1
               in (case rpc_spin c future timeout w2 of
                     (Some r, w3) \<Rightarrow> Some (Inr r, w3)
                   | (None, w3) \<Rightarrow> Some (Inl Runtime_Error, rpc_remove c future w3)))"

text \<open>The overload with an output parameter: it waits without limit and returns whether there is a response.\<close>

definition sc_invoke_into ::
  "('q, 'r, 'w) rpc \<Rightarrow> 'q \<Rightarrow> 'w \<Rightarrow> ((lc_error + 'r option) \<times> 'w) option" where
  "sc_invoke_into c q w =
     (case await_service (rpc_wait c) (rpc_ok c) 1000000000 w of
        None \<Rightarrow> None
      | Some (appeared, w1) \<Rightarrow>
          if \<not> appeared then Some (Inl Runtime_Error, w1)
          else let (future, w2) = rpc_send c q w1
               in (case rpc_spin c future (- 1) w2 of
                     (Some r, w3) \<Rightarrow> Some (Inr (Some r), w3)
                   | (None, w3) \<Rightarrow> Some (Inr None, rpc_remove c future w3)))"

section \<open>LifecycleServiceClient\<close>

text \<open>The two services of one node; \<open>lsc_sleep\<close> is \<open>rclcpp::Rate::sleep\<close>.\<close>

record 'w lifecycle_client =
  lsc_change :: "(transition, bool, 'w) rpc"
  lsc_get :: "(unit, primary_state, 'w) rpc"
  lsc_sleep :: "'w \<Rightarrow> 'w"

text \<open>The constructors wait for the service without asking whether rclcpp still runs.\<close>

definition lsc_wait :: "'w lifecycle_client \<Rightarrow> int \<Rightarrow> 'w \<Rightarrow> bool \<times> 'w" where
  "lsc_wait lc t w =
     (let (found, w1) = rpc_wait (lsc_get lc) t w in (found, if found then w1 else lsc_sleep lc w1))"

definition LifecycleServiceClient :: "'w lifecycle_client \<Rightarrow> 'w \<Rightarrow> 'w option" where
  "LifecycleServiceClient lc w = map_option snd (await_service (lsc_wait lc) (\<lambda>_. True) 2000000000 w)"

text \<open>\<open>response.get()\<close> is a pointer that is not null: the field \<open>success\<close> of the response is not read.\<close>

definition lsc_change_state ::
  "'w lifecycle_client \<Rightarrow> transition \<Rightarrow> int \<Rightarrow> int \<Rightarrow> 'w \<Rightarrow> ((lc_error + bool) \<times> 'w) option" where
  "lsc_change_state lc tr timeout_ms wait_ms w =
     (let (found, w1) = rpc_wait (lsc_change lc) (wait_ms * 1000000) w
      in if \<not> found then Some (Inl Runtime_Error, w1)
         else if timeout_ms > 0 then
           map_option (map_prod (map_sum id (\<lambda>success. True)) id) (sc_invoke (lsc_change lc) tr (timeout_ms * 1000000) w1)
         else
           map_option (map_prod (map_sum id (\<lambda>response. response \<noteq> None)) id) (sc_invoke_into (lsc_change lc) tr w1))"

definition lsc_get_state ::
  "'w lifecycle_client \<Rightarrow> int \<Rightarrow> 'w \<Rightarrow> ((lc_error + primary_state) \<times> 'w) option" where
  "lsc_get_state lc timeout_ms w =
     (let (found, w1) = rpc_wait (lsc_get lc) (timeout_ms * 1000000) w
      in if \<not> found then Some (Inl Runtime_Error, w1) else sc_invoke (lsc_get lc) () (timeout_ms * 1000000) w1)"

section \<open>Start-up helpers\<close>

text \<open>Statements in sequence: an exception of the first, or its not returning, is that of the whole.\<close>

definition seq_call ::
  "((lc_error + 'a) \<times> 'w) option \<Rightarrow> ('w \<Rightarrow> ((lc_error + 'b) \<times> 'w) option) \<Rightarrow> ((lc_error + 'b) \<times> 'w) option" where
  "seq_call r k =
     (case r of None \<Rightarrow> None | Some (Inl e, w1) \<Rightarrow> Some (Inl e, w1) | Some (Inr _, w1) \<Rightarrow> k w1)"

text \<open>The loop of \<open>retry_runtime_error\<close>: \<open>catch\<close> takes runtime errors only.\<close>

function retry_loop ::
  "('w \<Rightarrow> ((lc_error + 'a) \<times> 'w) option) \<Rightarrow> int \<Rightarrow> int \<Rightarrow> 'w \<Rightarrow> ((lc_error + unit) \<times> 'w) option" where
  "retry_loop fn retries attempts w =
     (case fn w of
        None \<Rightarrow> None
      | Some (Inr _, w1) \<Rightarrow> Some (Inr (), w1)
      | Some (Inl e, w1) \<Rightarrow>
          if e \<noteq> Runtime_Error then Some (Inl e, w1)
          else if attempts + 1 > retries then Some (Inl e, w1)
          else retry_loop fn retries (attempts + 1) w1)"
  by pat_completeness auto

termination
  by (relation "measure (\<lambda>(fn, retries, attempts, w). nat (retries - attempts))") auto

declare retry_loop.simps [simp del]

definition retry_runtime_error ::
  "('w \<Rightarrow> ((lc_error + 'a) \<times> 'w) option) \<Rightarrow> int \<Rightarrow> 'w \<Rightarrow> ((lc_error + unit) \<times> 'w) option" where
  "retry_runtime_error fn retries = retry_loop fn (if retries < 0 then 0 else retries) 0"

text \<open>The implicit conversion of \<open>std::chrono::seconds\<close> to milliseconds multiplies a 64-bit count.\<close>

definition ms_of_seconds :: "int \<Rightarrow> int" where
  "ms_of_seconds s = signed_take_bit 63 (s * 1000)"

definition seconds_max :: int where
  "seconds_max = 2 ^ 63 - 1"

text \<open>Two transitions in sequence; the default of the third argument of \<open>change_state\<close> is five seconds.\<close>

definition two_transitions ::
  "'w lifecycle_client \<Rightarrow> transition \<Rightarrow> transition \<Rightarrow> int \<Rightarrow> int \<Rightarrow> 'w \<Rightarrow> ((lc_error + unit) \<times> 'w) option" where
  "two_transitions lc tr1 tr2 timeout_s retries w =
     seq_call (retry_runtime_error (lsc_change_state lc tr1 (ms_of_seconds timeout_s) 5000) retries w)
       (retry_runtime_error (lsc_change_state lc tr2 (ms_of_seconds timeout_s) 5000) retries)"

definition startupLifecycleNode ::
  "'w lifecycle_client \<Rightarrow> int \<Rightarrow> int \<Rightarrow> 'w \<Rightarrow> ((lc_error + unit) \<times> 'w) option" where
  "startupLifecycleNode lc timeout_s retries w =
     (case LifecycleServiceClient lc w of
        None \<Rightarrow> None
      | Some w1 \<Rightarrow> two_transitions lc CONFIGURE ACTIVATE timeout_s retries w1)"

definition resetLifecycleNode ::
  "'w lifecycle_client \<Rightarrow> int \<Rightarrow> int \<Rightarrow> 'w \<Rightarrow> ((lc_error + unit) \<times> 'w) option" where
  "resetLifecycleNode lc timeout_s retries w =
     (case LifecycleServiceClient lc w of
        None \<Rightarrow> None
      | Some w1 \<Rightarrow> two_transitions lc DEACTIVATE CLEANUP timeout_s retries w1)"

fun startup_lifecycle_nodes ::
  "(string \<Rightarrow> 'w lifecycle_client) \<Rightarrow> string list \<Rightarrow> int \<Rightarrow> int \<Rightarrow> 'w \<Rightarrow> ((lc_error + unit) \<times> 'w) option" where
  "startup_lifecycle_nodes net [] timeout_s retries w = Some (Inr (), w)"
| "startup_lifecycle_nodes net (n # ns) timeout_s retries w =
     seq_call (startupLifecycleNode (net n) timeout_s retries w) (startup_lifecycle_nodes net ns timeout_s retries)"

fun reset_lifecycle_nodes ::
  "(string \<Rightarrow> 'w lifecycle_client) \<Rightarrow> string list \<Rightarrow> int \<Rightarrow> int \<Rightarrow> 'w \<Rightarrow> ((lc_error + unit) \<times> 'w) option" where
  "reset_lifecycle_nodes net [] timeout_s retries w = Some (Inr (), w)"
| "reset_lifecycle_nodes net (n # ns) timeout_s retries w =
     seq_call (resetLifecycleNode (net n) timeout_s retries w) (reset_lifecycle_nodes net ns timeout_s retries)"

text \<open>The overloads that take the names in one text, separated by colons.\<close>

definition startup_lifecycle_nodes_text ::
  "(string \<Rightarrow> 'w lifecycle_client) \<Rightarrow> string \<Rightarrow> int \<Rightarrow> int \<Rightarrow> 'w \<Rightarrow> ((lc_error + unit) \<times> 'w) option" where
  "startup_lifecycle_nodes_text net nodes = startup_lifecycle_nodes net (split_string nodes CHR '':'')"

definition reset_lifecycle_nodes_text ::
  "(string \<Rightarrow> 'w lifecycle_client) \<Rightarrow> string \<Rightarrow> int \<Rightarrow> int \<Rightarrow> 'w \<Rightarrow> ((lc_error + unit) \<times> 'w) option" where
  "reset_lifecycle_nodes_text net nodes = reset_lifecycle_nodes net (split_string nodes CHR '':'')"

text \<open>The command line tool: the exit code when there are no arguments (\<open>usage\<close>), else the outcome of the start-up
  with a timeout of ten seconds and three retries.\<close>

definition lifecycle_bringup ::
  "(string \<Rightarrow> 'w lifecycle_client) \<Rightarrow> string list \<Rightarrow> 'w \<Rightarrow> (nat + (lc_error + unit) \<times> 'w) option" where
  "lifecycle_bringup net args w =
     (if args = [] then Some (Inl 1) else map_option Inr (startup_lifecycle_nodes net args 10 3 w))"

section \<open>LifecycleManagerClient\<close>

datatype system_status = ACTIVE | INACTIVE | TIMEOUT

record 'w manager_client =
  lmc_manage :: "(command, bool, 'w) rpc"
  lmc_active :: "(unit, bool, 'w) rpc"

definition callService :: "'w manager_client \<Rightarrow> command \<Rightarrow> int \<Rightarrow> 'w \<Rightarrow> (bool \<times> 'w) option" where
  "callService c cmd timeout w =
     (case await_service (rpc_wait (lmc_manage c)) (rpc_ok (lmc_manage c)) timeout w of
        None \<Rightarrow> None
      | Some (appeared, w1) \<Rightarrow>
          if \<not> appeared then Some (False, w1)
          else (case sc_invoke (lmc_manage c) cmd timeout w1 of
                  None \<Rightarrow> None
                | Some (Inr success, w2) \<Rightarrow> Some (success, w2)
                | Some (Inl _, w2) \<Rightarrow> Some (False, w2)))"

definition lmc_startup :: "'w manager_client \<Rightarrow> int \<Rightarrow> 'w \<Rightarrow> (bool \<times> 'w) option" where
  "lmc_startup c = callService c CMD_STARTUP"

definition lmc_shutdown :: "'w manager_client \<Rightarrow> int \<Rightarrow> 'w \<Rightarrow> (bool \<times> 'w) option" where
  "lmc_shutdown c = callService c CMD_SHUTDOWN"

definition lmc_pause :: "'w manager_client \<Rightarrow> int \<Rightarrow> 'w \<Rightarrow> (bool \<times> 'w) option" where
  "lmc_pause c = callService c CMD_PAUSE"

definition lmc_resume :: "'w manager_client \<Rightarrow> int \<Rightarrow> 'w \<Rightarrow> (bool \<times> 'w) option" where
  "lmc_resume c = callService c CMD_RESUME"

definition lmc_reset :: "'w manager_client \<Rightarrow> int \<Rightarrow> 'w \<Rightarrow> (bool \<times> 'w) option" where
  "lmc_reset c = callService c CMD_RESET"

definition lmc_is_active :: "'w manager_client \<Rightarrow> int \<Rightarrow> 'w \<Rightarrow> (system_status \<times> 'w) option" where
  "lmc_is_active c timeout w =
     (let (found, w1) = rpc_wait (lmc_active c) 1000000000 w
      in if \<not> found then Some (TIMEOUT, w1)
         else (case sc_invoke (lmc_active c) () timeout w1 of
                 None \<Rightarrow> None
               | Some (Inr success, w2) \<Rightarrow> Some (if success then ACTIVE else INACTIVE, w2)
               | Some (Inl _, w2) \<Rightarrow> Some (TIMEOUT, w2)))"

end
