(* ===== verification/Service_Client_Props.thy ===== *)
theory Service_Client_Props
  imports Service_Client Lifecycle_Manager_Props
begin

text \<open>
  When the waits of the clients end, how often a call is retried, that the start-up helpers do not notice a refused
  transition, and the manager's client run against the manager itself.
\<close>

section \<open>Waiting for a service\<close>

text \<open>The world after \<open>k\<close> polls.\<close>

fun polled :: "(int \<Rightarrow> 'w \<Rightarrow> bool \<times> 'w) \<Rightarrow> int \<Rightarrow> nat \<Rightarrow> 'w \<Rightarrow> 'w" where
  "polled wait t 0 w = w"
| "polled wait t (Suc k) w = polled wait t k (snd (wait t w))"

lemma await_service_step:
  "await_service wait ok t w =
     (if fst (wait t w) \<or> \<not> ok (snd (wait t w)) then Some (wait t w) else await_service wait ok t (snd (wait t w)))"
  by (subst await_service.simps) (auto simp: prod_eq_iff)

lemma await_found: "fst (wait t w) \<Longrightarrow> await_service wait ok t w = Some (wait t w)"
  by (subst await_service_step) simp

lemma await_service_stops:
  assumes "fst (wait t (polled wait t k w)) \<or> \<not> ok (snd (wait t (polled wait t k w)))"
  shows "await_service wait ok t w \<noteq> None"
  using assms
proof (induction k arbitrary: w)
  case 0
  then show ?case by (subst await_service_step) auto
next
  case (Suc k)
  then have "await_service wait ok t (snd (wait t w)) \<noteq> None"
    by simp
  then show ?case
    by (subst await_service_step) auto
qed

lemma await_service_Some:
  assumes "await_service wait ok t w = Some r"
  shows "\<exists>k. fst (wait t (polled wait t k w)) \<or> \<not> ok (snd (wait t (polled wait t k w)))"
  using assms
proof (induction rule: await_service.raw_induct [rotated, consumes 1, case_names step])
  case (step await wait ok t w r)
  show ?case
  proof (cases "fst (wait t w) \<or> \<not> ok (snd (wait t w))")
    case True
    then show ?thesis by (intro exI [of _ 0]) simp
  next
    case False
    with step(2) have "await wait ok t (snd (wait t w)) = Some r"
      by simp
    from step(1) [OF this] obtain k where "fst (wait t (polled wait t k (snd (wait t w)))) \<or> \<not> ok (snd (wait t (polled wait t k (snd (wait t w)))))"
      by blast
    then show ?thesis
      by (intro exI [of _ "Suc k"]) simp
  qed
qed

lemma await_service_returns:
  "await_service wait ok t w \<noteq> None \<longleftrightarrow>
     (\<exists>k. fst (wait t (polled wait t k w)) \<or> \<not> ok (snd (wait t (polled wait t k w))))"
  using await_service_Some await_service_stops by (metis not_None_eq)

lemma sc_invoke_returns: "sc_invoke c q t w \<noteq> None \<longleftrightarrow> await_service (rpc_wait c) (rpc_ok c) 1000000000 w \<noteq> None"
  by (auto simp: sc_invoke_def Let_def split: option.splits prod.splits)

text \<open>A poll ends the wait: the service is there, or rclcpp does not run any more.\<close>

definition poll_ends :: "(int \<Rightarrow> 'w \<Rightarrow> bool \<times> 'w) \<Rightarrow> ('w \<Rightarrow> bool) \<Rightarrow> int \<Rightarrow> 'w \<Rightarrow> bool" where
  "poll_ends wait ok t w \<longleftrightarrow> fst (wait t w) \<or> \<not> ok (snd (wait t w))"


section \<open>Retries\<close>

text \<open>The world after \<open>k\<close> attempts, all of which threw a runtime error.\<close>

fun failed_attempts :: "('w \<Rightarrow> ((lc_error + 'a) \<times> 'w) option) \<Rightarrow> nat \<Rightarrow> 'w \<Rightarrow> 'w option" where
  "failed_attempts fn 0 w = Some w"
| "failed_attempts fn (Suc k) w =
     (case fn w of Some (Inl Runtime_Error, w1) \<Rightarrow> failed_attempts fn k w1 | _ \<Rightarrow> None)"

lemma retry_loop_spec:
  assumes "attempts \<le> retries"
  shows "(retry_loop fn retries attempts w = Some (Inr (), w') \<longleftrightarrow>
            (\<exists>k wk a. attempts + int k \<le> retries \<and> failed_attempts fn k w = Some wk \<and> fn wk = Some (Inr a, w')))
       \<and> (retry_loop fn retries attempts w = Some (Inl Runtime_Error, w') \<longleftrightarrow>
            failed_attempts fn (Suc (nat (retries - attempts))) w = Some w')"
  using assms
proof (induction fn retries attempts w rule: retry_loop.induct)
  case (1 fn retries attempts w)
  show ?case
  proof (cases "\<exists>w1. fn w = Some (Inl Runtime_Error, w1)")
    case True
    then obtain w1 where fn: "fn w = Some (Inl Runtime_Error, w1)"
      by blast
    have ex: "(\<exists>k wk a. attempts + int k \<le> retries \<and> failed_attempts fn k w = Some wk \<and> fn wk = Some (Inr a, w'))
        \<longleftrightarrow> (\<exists>k wk a. attempts + 1 + int k \<le> retries \<and> failed_attempts fn k w1 = Some wk \<and> fn wk = Some (Inr a, w'))"
      (is "(\<exists>k wk a. ?P k wk a) \<longleftrightarrow> (\<exists>k wk a. ?Q k wk a)")
    proof
      assume "\<exists>k wk a. ?P k wk a"
      then obtain k wk a where p: "?P k wk a" by blast
      with fn obtain j where "k = Suc j"
        by (cases k) auto
      with p fn have "?Q j wk a" by auto
      then show "\<exists>k wk a. ?Q k wk a" by blast
    next
      assume "\<exists>k wk a. ?Q k wk a"
      then obtain k wk a where "?Q k wk a" by blast
      with fn have "?P (Suc k) wk a" by auto
      then show "\<exists>k wk a. ?P k wk a" by blast
    qed
    show ?thesis
    proof (cases "attempts + 1 > retries")
      case last: True
      then have "retries = attempts"
        using "1.prems" by simp
      then show ?thesis
        unfolding ex by (subst (1 2) retry_loop.simps) (simp add: fn)
    next
      case False
      moreover from this have "Suc (nat (retries - (attempts + 1))) = nat (retries - attempts)"
        by simp
      moreover have "retry_loop fn retries attempts w = retry_loop fn retries (attempts + 1) w1"
        using False by (subst retry_loop.simps) (simp add: fn)
      moreover note "1.IH" [OF fn refl refl]
      ultimately show ?thesis
        unfolding ex by (auto simp: fn)
    qed
  next
    case False
    then have "failed_attempts fn (Suc k) w = None" for k
      by (auto split: option.splits sum.splits lc_error.splits)
    moreover have "(\<exists>k wk a. attempts + int k \<le> retries \<and> failed_attempts fn k w = Some wk \<and> fn wk = Some (Inr a, w'))
        \<longleftrightarrow> (\<exists>a. fn w = Some (Inr a, w'))"
    proof
      assume "\<exists>k wk a. attempts + int k \<le> retries \<and> failed_attempts fn k w = Some wk \<and> fn wk = Some (Inr a, w')"
      then obtain k wk a where "failed_attempts fn k w = Some wk" "fn wk = Some (Inr a, w')"
        by blast
      with calculation show "\<exists>a. fn w = Some (Inr a, w')"
        by (cases k) auto
    next
      assume "\<exists>a. fn w = Some (Inr a, w')"
      then show "\<exists>k wk a. attempts + int k \<le> retries \<and> failed_attempts fn k w = Some wk \<and> fn wk = Some (Inr a, w')"
        using "1.prems" by (intro exI [of _ 0]) auto
    qed
    ultimately show ?thesis
      using False by (subst (1 2) retry_loop.simps) (auto split: option.splits sum.splits lc_error.splits)
  qed
qed

text \<open>C0: \<open>retry_runtime_error\<close> succeeds exactly when one of the first \<open>1 + max(0, retries)\<close> attempts does not throw and all
  before it threw runtime errors, and passes a runtime error on exactly when all these attempts threw one; it makes no
  other attempts.\<close>

theorem retry_bounded:
  "(retry_runtime_error fn retries w = Some (Inr (), w') \<longleftrightarrow>
      (\<exists>k wk a. int k \<le> max 0 retries \<and> failed_attempts fn k w = Some wk \<and> fn wk = Some (Inr a, w')))
   \<and> (retry_runtime_error fn retries w = Some (Inl Runtime_Error, w') \<longleftrightarrow>
      failed_attempts fn (Suc (nat (max 0 retries))) w = Some w')"
proof -
  have "(if retries < 0 then 0 else retries) = max 0 retries"
    by simp
  then show ?thesis
    using retry_loop_spec [of 0 "max 0 retries" fn w w'] unfolding retry_runtime_error_def by auto
qed

section \<open>Start-up of a list of nodes\<close>

text \<open>A network in which every service is there and answers at once; \<open>accept\<close> says whether a node performs a transition that
  it is asked for. The world is the sequence of requests.\<close>

definition prompt_net :: "(string \<Rightarrow> transition \<Rightarrow> bool) \<Rightarrow> string \<Rightarrow> (string \<times> transition) list lifecycle_client" where
  "prompt_net accept n =
     \<lparr>lsc_change =
        \<lparr>rpc_wait = (\<lambda>t w. (True, w)), rpc_ok = (\<lambda>w. True), rpc_send = (\<lambda>tr w. (length w, w @ [(n, tr)])),
         rpc_spin = (\<lambda>f t w. (Some (accept n (snd (w ! f))), w)), rpc_remove = (\<lambda>f w. w)\<rparr>,
      lsc_get =
        \<lparr>rpc_wait = (\<lambda>t w. (True, w)), rpc_ok = (\<lambda>w. True), rpc_send = (\<lambda>q w. (0, w)),
         rpc_spin = (\<lambda>f t w. (Some STATE_UNKNOWN, w)), rpc_remove = (\<lambda>f w. w)\<rparr>,
      lsc_sleep = (\<lambda>w. w)\<rparr>"

lemma prompt_change_state:
  "lsc_change_state (prompt_net accept n) tr timeout wait_ms w = Some (Inr True, w @ [(n, tr)])"
  by (simp add: lsc_change_state_def sc_invoke_def sc_invoke_into_def await_found prompt_net_def)

lemma prompt_two_transitions:
  "two_transitions (prompt_net accept n) tr1 tr2 timeout retries w = Some (Inr (), w @ [(n, tr1), (n, tr2)])"
  by (simp add: two_transitions_def retry_runtime_error_def retry_loop.simps [of "lsc_change_state _ _ _ _"]
      prompt_change_state seq_call_def)

lemma prompt_constructor: "LifecycleServiceClient (prompt_net accept n) w = Some w"
  by (simp add: LifecycleServiceClient_def await_service.simps lsc_wait_def prompt_net_def)


text \<open>The default timeout \<open>seconds::max()\<close> does not fit into milliseconds: the product wraps to minus one second, and a
  call with the default is made without a limit.\<close>

lemma default_timeout_wraps: "ms_of_seconds seconds_max = - 1000"
  by (simp add: ms_of_seconds_def seconds_max_def signed_take_bit_eq_take_bit_shift take_bit_eq_mod)

section \<open>The manager's client against the manager\<close>

text \<open>The services of a manager in the same process: a request runs its callback; the answer waits in a mailbox. When the
  callback throws, the manager is gone.\<close>

type_synonym 'w local_world = "'w manager option \<times> bool option"

definition manager_answers :: "'w node_services \<Rightarrow> command \<Rightarrow> 'w local_world \<Rightarrow> 'w local_world" where
  "manager_answers svc cmd w =
     (case fst w of
        None \<Rightarrow> (None, None)
      | Some m \<Rightarrow> (case managerCallback svc cmd m of (Inr b, m1) \<Rightarrow> (Some m1, Some b) | (Inl e, m1) \<Rightarrow> (None, None)))"

definition local_client :: "'w node_services \<Rightarrow> 'w local_world manager_client" where
  "local_client svc =
     \<lparr>lmc_manage =
        \<lparr>rpc_wait = (\<lambda>t w. (fst w \<noteq> None, w)), rpc_ok = (\<lambda>w. True), rpc_send = (\<lambda>cmd w. (0, manager_answers svc cmd w)),
         rpc_spin = (\<lambda>f t w. (snd w, (fst w, None))), rpc_remove = (\<lambda>f w. w)\<rparr>,
      lmc_active =
        \<lparr>rpc_wait = (\<lambda>t w. (fst w \<noteq> None, w)), rpc_ok = (\<lambda>w. True),
         rpc_send = (\<lambda>_ w. (0, (fst w, map_option isActiveCallback (fst w)))),
         rpc_spin = (\<lambda>f t w. (snd w, (fst w, None))), rpc_remove = (\<lambda>f w. w)\<rparr>\<rparr>"

lemma local_callService:
  "callService (local_client svc) cmd t (Some m, None) =
     (case managerCallback svc cmd m of
        (Inr b, m1) \<Rightarrow> Some (b, Some m1, None) | (Inl e, m1) \<Rightarrow> Some (False, None, None))"
  by (simp add: callService_def sc_invoke_def await_service.simps local_client_def manager_answers_def
      split: prod.splits sum.splits)

lemma local_is_active:
  "lmc_is_active (local_client svc) t (Some m, None) =
     Some (if system_active m then ACTIVE else INACTIVE, Some m, None)"
  by (simp add: lmc_is_active_def sc_invoke_def await_service.simps local_client_def isActiveCallback_def)

text \<open>C30: Through the client of a manager that runs in truthful nodes: when \<open>LifecycleManagerClient::startup\<close> returns true, every
  managed node is in the active state and \<open>is_active\<close> answers ACTIVE.\<close>

theorem client_startup_activates_nodes:
  assumes "managed_nodes svc node_state"
    and "lmc_startup (local_client svc) t (Some m, None) = Some (True, w)"
  shows "\<exists>m'. w = (Some m', None) \<and> list_all (\<lambda>n. node_state (world m') n = STATE_ACTIVE) (node_names m) \<and>
    lmc_is_active (local_client svc) t' w = Some (ACTIVE, w)"
proof -
  obtain m' where s: "startup svc m = (Inr True, m')" and w: "w = (Some m', None)"
    using assms(2) by (auto simp: lmc_startup_def local_callService managerCallback_def split: prod.splits sum.splits)
  from managed_nodes.startup_reached [OF assms(1) s] show ?thesis
    by (intro exI [of _ m']) (simp add: w local_is_active list_all_iff)
qed

theorem client_startup_activates_nodes_witness:
  "lmc_startup (local_client (net_services (\<lambda>_. False))) 0 (Some demo_new, None) = Some (True, Some demo_up, None) \<and>
   map (world demo_up) two_nodes = [STATE_ACTIVE, STATE_ACTIVE] \<and>
   lmc_is_active (local_client (net_services (\<lambda>_. False))) 0 (Some demo_up, None) = Some (ACTIVE, Some demo_up, None)"
proof -
  have c: "lmc_startup (local_client (net_services (\<lambda>_. False))) 0 (Some demo_new, None) = Some (True, Some demo_up, None)"
    by (simp add: lmc_startup_def local_callService managerCallback_def demo_startup)
  from client_startup_activates_nodes [OF net.managed_nodes_axioms c, of 0] c show ?thesis
    by (simp add: two_nodes_def)
qed

end
