(* ===== verification/Node_Utils.thy ===== *)
theory Node_Utils
  imports Nav3d_Parsing
begin

text \<open>
  \<open>node_utils.cpp\<close> and \<open>node_utils.hpp\<close>: names of internal nodes, joined namespaces, and the declaration of
  parameters. The parameter interface of a node is the record \<open>param_api\<close> over a world, with its documented
  behaviour as the locale \<open>param_laws\<close>, interpreted on a table of parameters. The theorems: what
  characters a sanitised name has, the form of a joined namespace, the length of a time stamp, and when a
  parameter without an override is refused.
\<close>

section \<open>Names\<close>

text \<open>\<open>std::isalnum\<close> in the C locale.\<close>

definition isalnum :: "char \<Rightarrow> bool" where
  "isalnum c \<longleftrightarrow> is_digit c \<or> of_char c \<in> {65..90 :: nat} \<or> of_char c \<in> {97..122 :: nat}"

definition sanitize_node_name :: "string \<Rightarrow> string" where
  "sanitize_node_name s = map (\<lambda>c. if isalnum c then c else CHR ''_'') s"

function pop_slashes :: "string \<Rightarrow> string" where
  "pop_slashes t = (if length t > 1 \<and> last t = CHR ''/'' then pop_slashes (butlast t) else t)"
  by auto
termination
  by (relation "measure length") auto

declare pop_slashes.simps [simp del]

fun erase_slashes :: "string \<Rightarrow> string" where
  "erase_slashes [] = []"
| "erase_slashes (c # s) = (if c = CHR ''/'' then erase_slashes s else c # s)"

definition add_namespaces :: "string \<Rightarrow> string \<Rightarrow> string" where
  "add_namespaces top_ns sub_ns =
     (let t0 = (if top_ns \<noteq> [] \<and> hd top_ns \<noteq> CHR ''/'' then CHR ''/'' # top_ns else top_ns);
          t = pop_slashes t0; s = erase_slashes sub_ns
      in if s = [] then (if t = [] then ''/'' else t)
         else if t = [] then CHR ''/'' # s
         else t @ CHR ''/'' # s)"

text \<open>\<open>ts\<close> is the decimal text of the ticks of the clock.\<close>

definition time_to_string :: "string \<Rightarrow> nat \<Rightarrow> string" where
  "time_to_string ts len =
     (let output = replicate len CHR ''0''
      in if length ts \<ge> len then take len (drop (length ts - len) ts)
         else take (len - length ts) output @ ts)"

definition generate_internal_node_name :: "string \<Rightarrow> string \<Rightarrow> string" where
  "generate_internal_node_name ts name = sanitize_node_name name @ ''_'' @ time_to_string ts 8"

section \<open>Parameters\<close>

datatype param_error = Invalid_Value | Already_Declared | Uninitialized | Not_Declared | Plugin_Error

text \<open>The parameters of a node: whether one is declared, its declaration with a default (\<open>None\<close> is a declaration by type only),
  its value, and whether an override was given. A declared parameter that has no value is \<open>Inr None\<close>.\<close>

record ('v, 'w) param_api =
  prm_has :: "'w \<Rightarrow> string \<Rightarrow> bool"
  prm_declare :: "string \<Rightarrow> 'v option \<Rightarrow> 'w \<Rightarrow> (param_error + 'v option) \<times> 'w"
  prm_get :: "'w \<Rightarrow> string \<Rightarrow> 'v option"
  prm_override :: "'w \<Rightarrow> string \<Rightarrow> bool"

definition declare_parameter_if_not_declared ::
  "('v, 'w) param_api \<Rightarrow> string \<Rightarrow> 'v option \<Rightarrow> 'w \<Rightarrow> (param_error + unit) \<times> 'w" where
  "declare_parameter_if_not_declared api name dflt w =
     (if prm_has api w name then (Inr (), w) else map_prod (map_sum id (\<lambda>v. ())) id (prm_declare api name dflt w))"

text \<open>The overload that declares by type and insists on an override.\<close>

definition declare_or_get_typed ::
  "('v, 'w) param_api \<Rightarrow> string \<Rightarrow> 'w \<Rightarrow> (param_error + 'v) \<times> 'w" where
  "declare_or_get_typed api name w =
     (if prm_has api w name then
        (case prm_get api w name of Some v \<Rightarrow> (Inr v, w) | None \<Rightarrow> (Inl Uninitialized, w))
      else (case prm_declare api name None w of
              (Inl e, w1) \<Rightarrow> (Inl e, w1)
            | (Inr None, w1) \<Rightarrow> (Inl Invalid_Value, w1)
            | (Inr (Some v), w1) \<Rightarrow> (Inr v, w1)))"

text \<open>The overload on the parameter interface: with \<open>strict_param_loading\<close> a missing override is an exception, which is
  thrown after the parameter has been declared with its default.\<close>

definition declare_or_get_with ::
  "('v, 'w) param_api \<Rightarrow> string \<Rightarrow> 'v \<Rightarrow> bool \<Rightarrow> 'w \<Rightarrow> (param_error + 'v) \<times> 'w" where
  "declare_or_get_with api name dflt strict_param_loading w =
     (if prm_has api w name then
        (case prm_get api w name of Some v \<Rightarrow> (Inr v, w) | None \<Rightarrow> (Inr dflt, w))
      else (case prm_declare api name (Some dflt) w of
              (Inl e, w1) \<Rightarrow> (Inl e, w1)
            | (Inr v, w1) \<Rightarrow>
                if \<not> prm_override api w1 name \<and> strict_param_loading then (Inl Invalid_Value, w1)
                else (case v of Some v1 \<Rightarrow> (Inr v1, w1) | None \<Rightarrow> (Inl Invalid_Value, w1))))"

text \<open>The overload on a node reads the two switches from parameters, which it declares first; \<open>as_bool\<close> and \<open>of_bool\<close> convert between values and truth
  values.\<close>

definition declare_or_get_parameter ::
  "('v, 'w) param_api \<Rightarrow> ('v \<Rightarrow> bool) \<Rightarrow> (bool \<Rightarrow> 'v) \<Rightarrow> string \<Rightarrow> 'v \<Rightarrow> 'w \<Rightarrow> (param_error + 'v) \<times> 'w" where
  "declare_or_get_parameter api as_bool from_bool name dflt w =
     (case declare_parameter_if_not_declared api ''warn_on_missing_params'' (Some (from_bool False)) w of
        (Inl e, w1) \<Rightarrow> (Inl e, w1)
      | (Inr _, w1) \<Rightarrow>
          (case declare_parameter_if_not_declared api ''strict_param_loading'' (Some (from_bool False)) w1 of
             (Inl e, w2) \<Rightarrow> (Inl e, w2)
           | (Inr _, w2) \<Rightarrow>
               (let strict_param_loading =
                      (case prm_get api w2 ''strict_param_loading'' of Some v \<Rightarrow> as_bool v | None \<Rightarrow> False)
                in declare_or_get_with api name dflt strict_param_loading w2)))"

definition get_plugin_type_param ::
  "('v, 'w) param_api \<Rightarrow> string \<Rightarrow> 'w \<Rightarrow> (param_error + 'v) \<times> 'w" where
  "get_plugin_type_param api plugin_name w =
     (case declare_parameter_if_not_declared api (plugin_name @ ''.plugin'') None w of
        (Inl e, w1) \<Rightarrow> (Inl e, w1)
      | (Inr _, w1) \<Rightarrow>
          (case prm_get api w1 (plugin_name @ ''.plugin'') of
             Some v \<Rightarrow> (Inr v, w1) | None \<Rightarrow> (Inl Plugin_Error, w1)))"

section \<open>Form of the names\<close>

lemma isalnum_not_special [simp]: "isalnum c \<Longrightarrow> c \<noteq> CHR ''/''" "\<not> isalnum CHR ''_''" "\<not> isalnum CHR ''/''"
  by (auto simp: isalnum_def is_digit_def)

lemma sanitize_node_name_form:
  "length (sanitize_node_name s) = length s"
  "list_all (\<lambda>c. isalnum c \<or> c = CHR ''_'') (sanitize_node_name s)"
  "sanitize_node_name (sanitize_node_name s) = sanitize_node_name s"
  by (auto simp: sanitize_node_name_def list_all_iff)

lemma time_to_string_length [simp]: "length (time_to_string ts len) = len"
  by (simp add: time_to_string_def Let_def)

lemma replicate_ends: "butlast (replicate (Suc n) x) = replicate n x" "last (replicate (Suc n) x) = x"
proof -
  have "replicate (Suc n) x = replicate n x @ [x]"
    by (simp add: replicate_append_same)
  then show "butlast (replicate (Suc n) x) = replicate n x" "last (replicate (Suc n) x) = x"
    by (simp_all del: replicate.simps)
qed

lemma pop_slashes_name: "t \<noteq> [] \<Longrightarrow> last t \<noteq> CHR ''/'' \<Longrightarrow> pop_slashes (t @ replicate n CHR ''/'') = t"
proof (induction n)
  case (Suc n)
  then have "pop_slashes (t @ replicate (Suc n) CHR ''/'') = pop_slashes (t @ replicate n CHR ''/'')"
    by (subst pop_slashes.simps) (auto simp: butlast_append replicate_ends simp del: replicate.simps)
  with Suc show ?case by simp
qed (simp add: pop_slashes.simps)

lemma erase_slashes_name: "hd s \<noteq> CHR ''/'' \<Longrightarrow> erase_slashes (replicate n CHR ''/'' @ s) = s"
  by (induction n) (cases s; simp)+

text \<open>Joining a namespace \<open>t\<close>, with or without a first slash and with any number of slashes at its end, and a name \<open>s\<close>, with any
  number of slashes before it, gives \<open>/t/s\<close>. The root namespace, however it is written, should give \<open>/s\<close>, as the empty text does;
  written as a slash it gives two slashes, which is not a ROS name.\<close>

lemma add_namespaces_spec:
  assumes "t \<noteq> []" "hd t \<noteq> CHR ''/''" "last t \<noteq> CHR ''/''" "s \<noteq> []" "hd s \<noteq> CHR ''/''"
  shows "add_namespaces (t @ replicate j CHR ''/'') (replicate k CHR ''/'' @ s) = CHR ''/'' # t @ CHR ''/'' # s"
    and "add_namespaces (CHR ''/'' # t @ replicate j CHR ''/'') (replicate k CHR ''/'' @ s) = CHR ''/'' # t @ CHR ''/'' # s"
    and "add_namespaces [] (replicate k CHR ''/'' @ s) = CHR ''/'' # s"
    and "add_namespaces ''/'' (replicate k CHR ''/'' @ s) = ''//'' @ s"
  using assms pop_slashes_name [of "CHR ''/'' # t" j]
  by (simp_all add: add_namespaces_def erase_slashes_name pop_slashes.simps [of "[]"] pop_slashes.simps [of "[_]"])

section \<open>Strict loading of parameters\<close>

text \<open>What rclcpp documents of parameters: a declaration makes a parameter known and changes no other; its value is the override, or the
  default.\<close>

locale param_laws =
  fixes api :: "('v, 'w) param_api" and over :: "string \<Rightarrow> 'v option"
  assumes declare_new: "\<not> prm_has api w name \<Longrightarrow>
      \<exists>w1. prm_declare api name dflt w = (Inr (case over name of Some v \<Rightarrow> Some v | None \<Rightarrow> dflt), w1)
         \<and> prm_has api w1 name \<and> prm_get api w1 name = (case over name of Some v \<Rightarrow> Some v | None \<Rightarrow> dflt)"
    and override: "prm_override api w name \<longleftrightarrow> over name \<noteq> None"
begin

lemma declared_value:
  assumes "\<not> prm_has api w name"
  shows "\<exists>w1. declare_or_get_with api name dflt strict w =
      (if strict \<and> over name = None then Inl Invalid_Value else Inr (case over name of Some v \<Rightarrow> v | None \<Rightarrow> dflt), w1)
    \<and> prm_has api w1 name \<and> prm_get api w1 name = Some (case over name of Some v \<Rightarrow> v | None \<Rightarrow> dflt)"
  using declare_new [OF assms, of "Some dflt"] assms
  by (auto simp: declare_or_get_with_def override split: option.splits)

text \<open>A strict call that was refused is not refused again.\<close>

lemma second_call:
  assumes "\<not> prm_has api w name" and "declare_or_get_with api name dflt True w = (Inl Invalid_Value, w1)"
  shows "declare_or_get_with api name dflt' True w1 = (Inr dflt, w1)"
  using declared_value [OF assms(1), of dflt True] assms(2)
  by (auto simp: declare_or_get_with_def split: if_splits option.splits)

end

text \<open>A table of parameters.\<close>

definition table_params :: "(string \<rightharpoonup> 'v) \<Rightarrow> ('v, string \<rightharpoonup> 'v option) param_api" where
  "table_params over =
     \<lparr>prm_has = (\<lambda>w name. w name \<noteq> None),
      prm_declare = (\<lambda>name dflt w.
        if w name \<noteq> None then (Inl Already_Declared, w)
        else let v = (case over name of Some v \<Rightarrow> Some v | None \<Rightarrow> dflt) in (Inr v, w(name \<mapsto> v))),
      prm_get = (\<lambda>w name. case w name of Some v \<Rightarrow> v | None \<Rightarrow> None),
      prm_override = (\<lambda>w name. over name \<noteq> None)\<rparr>"

interpretation table: param_laws "table_params over" over for over
  by unfold_locales (simp_all add: table_params_def Let_def)

text \<open>With strict loading the first request for a parameter without an override is refused; the same request then
  returns the default.\<close>

lemma strict_loading_refuses_once:
  assumes "over name = None" and "w name = None"
  shows "declare_or_get_with (table_params over) name dflt True w = (Inl Invalid_Value, w(name \<mapsto> Some dflt))"
    and "declare_or_get_with (table_params over) name dflt' True (w(name \<mapsto> Some dflt))
      = (Inr dflt, w(name \<mapsto> Some dflt))"
proof -
  show c: "declare_or_get_with (table_params over) name dflt True w = (Inl Invalid_Value, w(name \<mapsto> Some dflt))"
    using assms by (simp add: declare_or_get_with_def table_params_def Let_def)
  show "declare_or_get_with (table_params over) name dflt' True (w(name \<mapsto> Some dflt))
      = (Inr dflt, w(name \<mapsto> Some dflt))"
    using assms by (intro table.second_call [OF _ c]) (simp add: table_params_def)
qed

end
