(* ===== verification/Vio_Odometry.thy ===== *)
theory Vio_Odometry
  imports Offboard_Control_Props "HOL-Library.Word"
begin

text \<open>
  \<open>VioOdometryBridge\<close> (\<open>vio_odometry_bridge.cpp\<close>): an odometry message in the ENU world frame, with a body frame
  FLU, becomes a \<open>VehicleOdometry\<close> in NED with the body frame FRD, and a broadcast transform. The three Eigen functions on rotations are
  the record \<open>eigen_api\<close>, with what Eigen documents of them as the locale \<open>eigen_laws\<close>, interpreted on the usual
  formulas. The main theorem says which attitude is published, in roll, pitch and yaw, and that its heading is the one to which
  the offboard bridge (\<open>Offboard_Control\<close>) converts the same yaw.
\<close>

section \<open>Matrices\<close>

text \<open>\<open>Eigen::Matrix3d\<close> by rows, with product, transpose and the product with a vector.\<close>

record mat3 =
  row0 :: point
  row1 :: point
  row2 :: point

definition pt_dot :: "point \<Rightarrow> point \<Rightarrow> double" where
  "pt_dot p q = px p * px q + py p * py q + pz p * pz q"

definition mat_transpose :: "mat3 \<Rightarrow> mat3" where
  "mat_transpose a =
     \<lparr>row0 = \<lparr>px = px (row0 a), py = px (row1 a), pz = px (row2 a)\<rparr>,
      row1 = \<lparr>px = py (row0 a), py = py (row1 a), pz = py (row2 a)\<rparr>,
      row2 = \<lparr>px = pz (row0 a), py = pz (row1 a), pz = pz (row2 a)\<rparr>\<rparr>"

definition mat_vec :: "mat3 \<Rightarrow> point \<Rightarrow> point" where
  "mat_vec a p = \<lparr>px = pt_dot (row0 a) p, py = pt_dot (row1 a) p, pz = pt_dot (row2 a) p\<rparr>"

definition mat_mult :: "mat3 \<Rightarrow> mat3 \<Rightarrow> mat3" where
  "mat_mult a b =
     \<lparr>row0 = mat_vec (mat_transpose b) (row0 a), row1 = mat_vec (mat_transpose b) (row1 a),
      row2 = mat_vec (mat_transpose b) (row2 a)\<rparr>"

definition mat3_of :: "double \<Rightarrow> double \<Rightarrow> double \<Rightarrow> double \<Rightarrow> double \<Rightarrow> double \<Rightarrow> double \<Rightarrow> double \<Rightarrow> double \<Rightarrow> mat3" where
  "mat3_of a b c d e f g h i =
     \<lparr>row0 = \<lparr>px = a, py = b, pz = c\<rparr>, row1 = \<lparr>px = d, py = e, pz = f\<rparr>, row2 = \<lparr>px = g, py = h, pz = i\<rparr>\<rparr>"

text \<open>\<open>toRotationMatrix\<close> of a quaternion, the quaternion of a matrix, and the matrix of a rotation about the first axis.\<close>

record eigen_api =
  eig_to_matrix :: "quaternion \<Rightarrow> mat3"
  eig_of_matrix :: "mat3 \<Rightarrow> quaternion"
  eig_axis_x :: "double \<Rightarrow> mat3"

section \<open>The bridge\<close>

record vio_bridge =
  odom_frame :: string
  base_frame :: string
  pose_frame :: int
  velocity_frame :: int

text \<open>A component \<open>None\<close> of a velocity is NaN.\<close>

record vehicle_odometry =
  vo_timestamp :: "64 word"
  vo_timestamp_sample :: "64 word"
  vo_pose_frame :: "8 word"
  vo_velocity_frame :: "8 word"
  vo_position :: point
  vo_q :: quaternion
  vo_velocity :: "double option list"
  vo_angular_velocity :: "double option list"

record transform_stamped =
  ts_header :: header
  child_frame_id :: string
  translation :: point
  rotation :: quaternion

definition R_enu2ned :: mat3 where
  "R_enu2ned = mat3_of 0 1 0  1 0 0  0 0 (- 1)"

definition R_flu2frd :: "eigen_api \<Rightarrow> mat3" where
  "R_flu2frd eig = eig_axis_x eig pi"

text \<open>\<open>q_ned_frd\<close> of \<open>on_odom\<close>.\<close>

definition attitude_ned_frd :: "eigen_api \<Rightarrow> quaternion \<Rightarrow> quaternion" where
  "attitude_ned_frd eig q =
     eig_of_matrix eig (mat_mult (mat_mult R_enu2ned (eig_to_matrix eig q)) (mat_transpose (R_flu2frd eig)))"

definition on_odom ::
  "eigen_api \<Rightarrow> vio_bridge \<Rightarrow> 64 word \<Rightarrow> header \<Rightarrow> pose \<Rightarrow> vehicle_odometry \<times> transform_stamped" where
  "on_odom eig b now_us h p =
     (\<lparr>vo_timestamp = now_us, vo_timestamp_sample = now_us,
       vo_pose_frame = word_of_int (pose_frame b), vo_velocity_frame = word_of_int (velocity_frame b),
       vo_position = mat_vec R_enu2ned (position p), vo_q = attitude_ned_frd eig (orientation p),
       vo_velocity = [None, None, None], vo_angular_velocity = [None, None, None]\<rparr>,
      \<lparr>ts_header = \<lparr>stamp = stamp h, frame_id = odom_frame b\<rparr>, child_frame_id = base_frame b,
       translation = position p, rotation = orientation p\<rparr>)"

section \<open>Rotations\<close>

definition unit_quaternion :: "quaternion \<Rightarrow> bool" where
  "unit_quaternion q \<longleftrightarrow> (qw q)\<^sup>2 + (qx q)\<^sup>2 + (qy q)\<^sup>2 + (qz q)\<^sup>2 = 1"

text \<open>The rotation matrix of a unit quaternion.\<close>

definition quaternion_matrix :: "quaternion \<Rightarrow> mat3" where
  "quaternion_matrix q =
     mat3_of
       (1 - 2 * ((qy q)\<^sup>2 + (qz q)\<^sup>2)) (2 * (qx q * qy q - qw q * qz q)) (2 * (qx q * qz q + qw q * qy q))
       (2 * (qx q * qy q + qw q * qz q)) (1 - 2 * ((qx q)\<^sup>2 + (qz q)\<^sup>2)) (2 * (qy q * qz q - qw q * qx q))
       (2 * (qx q * qz q - qw q * qy q)) (2 * (qy q * qz q + qw q * qx q)) (1 - 2 * ((qx q)\<^sup>2 + (qy q)\<^sup>2))"

definition rot_x :: "double \<Rightarrow> mat3" where
  "rot_x a = mat3_of 1 0 0  0 (cos a) (- sin a)  0 (sin a) (cos a)"

definition rot_y :: "double \<Rightarrow> mat3" where
  "rot_y a = mat3_of (cos a) 0 (sin a)  0 1 0  (- sin a) 0 (cos a)"

definition rot_z :: "double \<Rightarrow> mat3" where
  "rot_z a = mat3_of (cos a) (- sin a) 0  (sin a) (cos a) 0  0 0 1"

definition rpy_matrix :: "double \<Rightarrow> double \<Rightarrow> double \<Rightarrow> mat3" where
  "rpy_matrix roll pitch yaw = mat_mult (mat_mult (rot_z yaw) (rot_y pitch)) (rot_x roll)"

lemmas mat_defs = mat3_of_def mat_mult_def mat_vec_def mat_transpose_def pt_dot_def

locale eigen_laws =
  fixes eig :: eigen_api
  assumes to_matrix: "unit_quaternion q \<Longrightarrow> eig_to_matrix eig q = quaternion_matrix q"
    and of_matrix: "unit_quaternion q \<Longrightarrow> unit_quaternion (eig_of_matrix eig (quaternion_matrix q))
        \<and> quaternion_matrix (eig_of_matrix eig (quaternion_matrix q)) = quaternion_matrix q"
    and axis_x: "eig_axis_x eig a = rot_x a"

text \<open>The unit quaternion of the rotated attitude: \<open>R_enu2ned\<close> turns by half a turn about the horizontal diagonal, \<open>R_flu2frd\<close> about the first
  axis.\<close>

definition rotated_attitude :: "quaternion \<Rightarrow> quaternion" where
  "rotated_attitude q =
     \<lparr>qx = (qx q + qy q) / sqrt 2, qy = (qx q - qy q) / sqrt 2, qz = (qw q - qz q) / sqrt 2, qw = (qw q + qz q) / sqrt 2\<rparr>"

lemma rotated_attitude_unit: "unit_quaternion q \<Longrightarrow> unit_quaternion (rotated_attitude q)"
  by (simp add: unit_quaternion_def rotated_attitude_def power_divide power2_sum power2_diff field_simps)

lemma rotated_attitude_matrix:
  assumes "unit_quaternion q"
  shows "mat_mult (mat_mult R_enu2ned (quaternion_matrix q)) (mat_transpose (rot_x pi)) = quaternion_matrix (rotated_attitude q)"
  using assms
  by (simp add: quaternion_matrix_def mat_defs R_enu2ned_def rot_x_def rotated_attitude_def unit_quaternion_def
      power_divide power2_sum power2_diff times_divide_times_eq) (simp add: algebra_simps power2_eq_square add_divide_distrib diff_divide_distrib)

text \<open>The same rotation in angles: the heading is measured from north instead of east and the other way round, the pitch changes its
  sign, and the roll stays.\<close>

lemma enu_flu_angles:
  "mat_mult (mat_mult R_enu2ned (rpy_matrix roll pitch yaw)) (mat_transpose (rot_x pi))
     = rpy_matrix roll (- pitch) (pi / 2 - yaw)"
  by (simp add: rpy_matrix_def rot_x_def rot_y_def rot_z_def R_enu2ned_def mat_defs cos_diff sin_diff algebra_simps)

lemma rpy_matrix_turns: "rpy_matrix roll pitch (yaw + 2 * pi * of_int k) = rpy_matrix roll pitch yaw"
proof -
  have "sin (yaw + 2 * pi * of_int k) = sin yaw" "cos (yaw + 2 * pi * of_int k) = cos yaw"
    by (simp_all add: sin_add cos_add sin_integer_2pi cos_integer_2pi)
  then show ?thesis
    by (simp add: rpy_matrix_def rot_z_def)
qed

lemma rpy_matrix_ned_yaw: "rpy_matrix roll pitch (ned_yaw yaw) = rpy_matrix roll pitch (pi / 2 - yaw)"
  using ned_yaw_turns [of yaw] rpy_matrix_turns by metis

lemma R_enu2ned_position: "mat_vec R_enu2ned p = enu_to_ned p"
  by (simp add: R_enu2ned_def mat_defs enu_to_ned_def)

context eigen_laws
begin

lemma attitude_matrix:
  assumes "unit_quaternion q"
  shows "unit_quaternion (attitude_ned_frd eig q) \<and> quaternion_matrix (attitude_ned_frd eig q) =
    mat_mult (mat_mult R_enu2ned (quaternion_matrix q)) (mat_transpose (rot_x pi))"
  using of_matrix [OF rotated_attitude_unit [OF assms]]
  by (simp add: attitude_ned_frd_def R_flu2frd_def axis_x to_matrix [OF assms] rotated_attitude_matrix [OF assms])

end

section \<open>An implementation of the Eigen functions\<close>

text \<open>The quaternion of a rotation matrix, from the first of its components that is not zero.\<close>

definition matrix_quaternion :: "mat3 \<Rightarrow> quaternion" where
  "matrix_quaternion r =
     (let m00 = px (row0 r); m11 = py (row1 r); m22 = pz (row2 r);
          w = sqrt (1 + m00 + m11 + m22) / 2; x = sqrt (1 + m00 - m11 - m22) / 2; y = sqrt (1 - m00 + m11 - m22) / 2
      in if w \<noteq> 0 then \<lparr>qx = (py (row2 r) - pz (row1 r)) / (4 * w), qy = (pz (row0 r) - px (row2 r)) / (4 * w),
                         qz = (px (row1 r) - py (row0 r)) / (4 * w), qw = w\<rparr>
         else if x \<noteq> 0 then \<lparr>qx = x, qy = (py (row0 r) + px (row1 r)) / (4 * x),
                         qz = (pz (row0 r) + px (row2 r)) / (4 * x), qw = 0\<rparr>
         else if y \<noteq> 0 then \<lparr>qx = 0, qy = y, qz = (pz (row1 r) + py (row2 r)) / (4 * y), qw = 0\<rparr>
         else \<lparr>qx = 0, qy = 0, qz = 1, qw = 0\<rparr>)"

definition ref_eigen :: eigen_api where
  "ref_eigen = \<lparr>eig_to_matrix = quaternion_matrix, eig_of_matrix = matrix_quaternion, eig_axis_x = rot_x\<rparr>"

text \<open>Opposite quaternions have the same matrix.\<close>

definition quaternion_scale :: "double \<Rightarrow> quaternion \<Rightarrow> quaternion" where
  "quaternion_scale s q = \<lparr>qx = s * qx q, qy = s * qy q, qz = s * qz q, qw = s * qw q\<rparr>"

lemma quaternion_scale_sign:
  assumes "s\<^sup>2 = 1"
  shows "quaternion_matrix (quaternion_scale s q) = quaternion_matrix q"
    and "unit_quaternion q \<Longrightarrow> unit_quaternion (quaternion_scale s q)"
proof -
  have "s = 1 \<or> s = - 1"
    using assms by (simp add: power2_eq_1_iff)
  then show "quaternion_matrix (quaternion_scale s q) = quaternion_matrix q"
    by (auto simp: quaternion_matrix_def quaternion_scale_def)
  show "unit_quaternion q \<Longrightarrow> unit_quaternion (quaternion_scale s q)"
    by (simp add: unit_quaternion_def quaternion_scale_def power_mult_distrib assms)
qed

lemma abs_sgn_square: "(sgn (a :: real))\<^sup>2 = (if a = 0 then 0 else 1)" "sgn a * a = \<bar>a\<bar>" "a \<noteq> 0 \<Longrightarrow> a * b / \<bar>a\<bar> = sgn a * b"
  by (auto simp: sgn_if)

lemma matrix_quaternion_sign:
  assumes "unit_quaternion q"
  shows "\<exists>s. s\<^sup>2 = 1 \<and> matrix_quaternion (quaternion_matrix q) = quaternion_scale s q"
proof -
  let ?m = "quaternion_matrix q"
  have d: "1 + px (row0 ?m) + py (row1 ?m) + pz (row2 ?m) = (2 * qw q)\<^sup>2"
    "1 + px (row0 ?m) - py (row1 ?m) - pz (row2 ?m) = (2 * qx q)\<^sup>2"
    "1 - px (row0 ?m) + py (row1 ?m) - pz (row2 ?m) = (2 * qy q)\<^sup>2"
    using assms by (simp_all add: quaternion_matrix_def mat3_of_def unit_quaternion_def power_mult_distrib)
  have o: "py (row2 ?m) - pz (row1 ?m) = 4 * (qw q * qx q)" "pz (row0 ?m) - px (row2 ?m) = 4 * (qw q * qy q)"
    "px (row1 ?m) - py (row0 ?m) = 4 * (qw q * qz q)"
    "py (row0 ?m) + px (row1 ?m) = 4 * (qx q * qy q)" "pz (row0 ?m) + px (row2 ?m) = 4 * (qx q * qz q)"
    "pz (row1 ?m) + py (row2 ?m) = 4 * (qy q * qz q)"
    by (simp_all add: quaternion_matrix_def mat3_of_def)
  have m: "matrix_quaternion ?m =
      (if qw q \<noteq> 0 then \<lparr>qx = qw q * qx q / \<bar>qw q\<bar>, qy = qw q * qy q / \<bar>qw q\<bar>, qz = qw q * qz q / \<bar>qw q\<bar>, qw = \<bar>qw q\<bar>\<rparr>
       else if qx q \<noteq> 0 then \<lparr>qx = \<bar>qx q\<bar>, qy = qx q * qy q / \<bar>qx q\<bar>, qz = qx q * qz q / \<bar>qx q\<bar>, qw = 0\<rparr>
       else if qy q \<noteq> 0 then \<lparr>qx = 0, qy = \<bar>qy q\<bar>, qz = qy q * qz q / \<bar>qy q\<bar>, qw = 0\<rparr>
       else \<lparr>qx = 0, qy = 0, qz = 1, qw = 0\<rparr>)"
    unfolding matrix_quaternion_def Let_def d o real_sqrt_abs abs_mult by simp
  have "\<not> (qw q = 0 \<and> qx q = 0 \<and> qy q = 0 \<and> qz q = 0)"
    using assms by (auto simp: unit_quaternion_def)
  then consider "qw q \<noteq> 0" | "qw q = 0" "qx q \<noteq> 0" | "qw q = 0" "qx q = 0" "qy q \<noteq> 0"
    | "qw q = 0" "qx q = 0" "qy q = 0" "qz q \<noteq> 0"
    by blast
  then show ?thesis
  proof cases
    case 1
    then show ?thesis
      unfolding m by (intro exI [of _ "sgn (qw q)"]) (simp add: abs_sgn_square quaternion_scale_def)
  next
    case 2
    then show ?thesis
      unfolding m by (intro exI [of _ "sgn (qx q)"]) (simp add: abs_sgn_square quaternion_scale_def)
  next
    case 3
    then show ?thesis
      unfolding m by (intro exI [of _ "sgn (qy q)"]) (simp add: abs_sgn_square quaternion_scale_def)
  next
    case 4
    then have "(qz q)\<^sup>2 = 1"
      using assms by (simp add: unit_quaternion_def)
    with 4 show ?thesis
      unfolding m by (intro exI [of _ "qz q"]) (simp add: quaternion_scale_def power2_eq_square)
  qed
qed

interpretation ref_eigen: eigen_laws ref_eigen
proof unfold_locales
  fix q
  assume q: "unit_quaternion q"
  obtain s where "s\<^sup>2 = 1" "matrix_quaternion (quaternion_matrix q) = quaternion_scale s q"
    using matrix_quaternion_sign [OF q] by blast
  then show "unit_quaternion (eig_of_matrix ref_eigen (quaternion_matrix q))
      \<and> quaternion_matrix (eig_of_matrix ref_eigen (quaternion_matrix q)) = quaternion_matrix q"
    using quaternion_scale_sign q by (simp add: ref_eigen_def)
qed (simp_all add: ref_eigen_def)

section \<open>The published attitude\<close>

text \<open>C31: For an odometry message with a unit quaternion whose rotation has the given roll, pitch and yaw in the frames ENU and FLU, the
  visual odometry bridge publishes a unit quaternion of the rotation in NED and FRD: the same roll, the opposite pitch, and
  the yaw to which the offboard bridge converts this yaw; the position is converted as the offboard bridge converts positions;
  and the broadcast transform has the original pose, from the odometry frame to the base frame.\<close>

theorem vio_pose_in_ned:
  assumes "eigen_laws eig" and "unit_quaternion (orientation p)"
    and "quaternion_matrix (orientation p) = rpy_matrix roll pitch yaw"
  shows "case on_odom eig b now_us h p of (odom, t) \<Rightarrow>
    unit_quaternion (vo_q odom) \<and> quaternion_matrix (vo_q odom) = rpy_matrix roll (- pitch) (ned_yaw yaw) \<and>
    vo_position odom = enu_to_ned (position p) \<and>
    translation t = position p \<and> rotation t = orientation p \<and>
    frame_id (ts_header t) = odom_frame b \<and> child_frame_id t = base_frame b"
  using eigen_laws.attitude_matrix [OF assms(1,2)]
  by (simp add: on_odom_def R_enu2ned_position assms(3) enu_flu_angles rpy_matrix_ned_yaw)

definition default_vio :: vio_bridge where
  "default_vio = \<lparr>odom_frame = ''odom'', base_frame = ''base_link'', pose_frame = 1, velocity_frame = 1\<rparr>"

theorem vio_pose_in_ned_witness:
  "case on_odom ref_eigen default_vio 0 default_header \<lparr>position = zero_point, orientation = \<lparr>qx = 0, qy = 0, qz = sqrt (1 / 2), qw = sqrt (1 / 2)\<rparr>\<rparr> of
     (odom, t) \<Rightarrow> quaternion_matrix (vo_q odom) = rpy_matrix 0 (- 0) (ned_yaw (pi / 2))"
proof -
  let ?p = "\<lparr>position = zero_point, orientation = \<lparr>qx = 0, qy = 0, qz = sqrt (1 / 2), qw = sqrt (1 / 2)\<rparr>\<rparr>"
  have "unit_quaternion (orientation ?p)"
    by (simp add: unit_quaternion_def)
  moreover have "quaternion_matrix (orientation ?p) = rpy_matrix 0 0 (pi / 2)"
    by (simp add: quaternion_matrix_def rpy_matrix_def rot_x_def rot_y_def rot_z_def mat_defs)
  ultimately show ?thesis
    using vio_pose_in_ned [OF ref_eigen.eigen_laws_axioms, of ?p 0 0 "pi / 2" default_vio 0 default_header] by (simp add: case_prod_unfold)
qed

end
