(* ===== verification/Message_Validation.thy ===== *)
theory Message_Validation
  imports Nav3d_Msgs "HOL-Library.Word"
begin

text \<open>
  \<open>validate_messages.hpp\<close> and \<open>validateTwist\<close> of \<open>robot_utils.cpp\<close>: which messages are accepted. Here a
  \<open>double\<close> can be infinite or NaN: the type \<open>float64\<close>; its finite values are real numbers. Sizes are words of their C++ width.
  Theorems: a validated quaternion is close to a unit quaternion, and the cells of a validated grid are all in its data.
\<close>

section \<open>Messages as they arrive\<close>

datatype float64 = Finite double | Infinite bool | Not_a_Number

text \<open>The value of a finite number.\<close>

fun finite_value :: "float64 \<Rightarrow> double" where
  "finite_value (Finite x) = x"
| "finite_value _ = 0"

definition isinf :: "float64 \<Rightarrow> bool" where
  "isinf x = (case x of Infinite _ \<Rightarrow> True | _ \<Rightarrow> False)"

definition isnan :: "float64 \<Rightarrow> bool" where
  "isnan x = (case x of Not_a_Number \<Rightarrow> True | _ \<Rightarrow> False)"

record raw_time =
  sec :: "32 word"
  nanosec :: "32 word"

record raw_header =
  raw_stamp :: raw_time
  raw_frame_id :: string

record raw_point =
  rx :: float64
  ry :: float64
  rz :: float64

record raw_quaternion = raw_point +
  rw :: float64

record raw_pose =
  raw_position :: raw_point
  raw_orientation :: raw_quaternion

record raw_pose_cov =
  rpc_pose :: raw_pose
  covariance :: "float64 list"

record raw_pose_cov_stamped =
  rpcs_header :: raw_header
  rpcs_pose :: raw_pose_cov

record raw_twist =
  raw_linear :: raw_point
  raw_angular :: raw_point

record map_meta_data =
  resolution :: float64
  width :: "32 word"
  height :: "32 word"
  origin :: raw_pose

record occupancy_grid =
  grid_header :: raw_header
  grid_info :: map_meta_data
  grid_data :: "8 word list"

section \<open>Validation\<close>

definition validate_double :: "float64 \<Rightarrow> bool" where
  "validate_double num = (if isinf num then False else if isnan num then False else True)"

fun validate_array :: "float64 list \<Rightarrow> bool" where
  "validate_array [] = True"
| "validate_array (x # xs) = (if \<not> validate_double x then False else validate_array xs)"

definition validate_time :: "raw_time \<Rightarrow> bool" where
  "validate_time t = (if nanosec t \<ge> 1000000000 then False else True)"

definition validate_header :: "raw_header \<Rightarrow> bool" where
  "validate_header h = (if \<not> validate_time (raw_stamp h) then False else if raw_frame_id h = [] then False else True)"

definition validate_point :: "'a raw_point_scheme \<Rightarrow> bool" where
  "validate_point p =
     (if \<not> validate_double (rx p) then False
      else if \<not> validate_double (ry p) then False
      else if \<not> validate_double (rz p) then False else True)"

definition validate_quaternion :: "raw_quaternion \<Rightarrow> bool" where
  "validate_quaternion q =
     (if \<not> validate_double (rx q) then False
      else if \<not> validate_double (ry q) then False
      else if \<not> validate_double (rz q) then False
      else if \<not> validate_double (rw q) then False
      else let x = finite_value (rx q); y = finite_value (ry q); z = finite_value (rz q); w = finite_value (rw q);
               norm_err = x * x + y * y + z * z + w * w - 1
           in if \<bar>norm_err\<bar> \<ge> 1 / 10000 then False else True)"

definition validate_pose :: "raw_pose \<Rightarrow> bool" where
  "validate_pose p =
     (if \<not> validate_point (raw_position p) then False else if \<not> validate_quaternion (raw_orientation p) then False else True)"

definition validate_pose_cov :: "raw_pose_cov \<Rightarrow> bool" where
  "validate_pose_cov p =
     (if \<not> validate_pose (rpc_pose p) then False else if \<not> validate_array (covariance p) then False else True)"

definition validate_pose_cov_stamped :: "raw_pose_cov_stamped \<Rightarrow> bool" where
  "validate_pose_cov_stamped p =
     (if \<not> validate_header (rpcs_header p) then False else if \<not> validate_pose_cov (rpcs_pose p) then False else True)"

definition validate_map_meta_data :: "map_meta_data \<Rightarrow> bool" where
  "validate_map_meta_data m =
     (if \<not> validate_pose (origin m) then False
      else if \<not> validate_double (resolution m) then False
      else if height m = 0 \<or> width m = 0 then False else True)"

text \<open>The sizes are compared as numbers of 64 bits.\<close>

definition validate_occupancy_grid :: "occupancy_grid \<Rightarrow> bool" where
  "validate_occupancy_grid g =
     (if \<not> validate_header (grid_header g) then False
      else if \<not> validate_map_meta_data (grid_info g) then False
      else if (of_nat (length (grid_data g)) :: 64 word) \<noteq> ucast (width (grid_info g)) * ucast (height (grid_info g)) then False
      else True)"

definition validateTwist :: "raw_twist \<Rightarrow> bool" where
  "validateTwist msg =
     (let finite = (\<lambda>v. \<not> isnan v \<and> \<not> isinf v)
      in finite (rx (raw_linear msg)) \<and> finite (ry (raw_linear msg)) \<and> finite (rz (raw_linear msg)) \<and>
         finite (rx (raw_angular msg)) \<and> finite (ry (raw_angular msg)) \<and> finite (rz (raw_angular msg)))"

section \<open>What is accepted\<close>

lemma validate_double_finite: "validate_double x \<longleftrightarrow> (\<exists>v. x = Finite v)"
  by (cases x) (simp_all add: validate_double_def isinf_def isnan_def)

lemma validate_array_finite: "validate_array xs \<longleftrightarrow> list_all (\<lambda>x. \<exists>v. x = Finite v) xs"
  by (induction xs) (simp_all add: validate_double_finite)

lemma validateTwist_points: "validateTwist msg \<longleftrightarrow> validate_point (raw_linear msg) \<and> validate_point (raw_angular msg)"
  by (simp add: validateTwist_def validate_point_def validate_double_def Let_def)

text \<open>A number of 64 bits holds the product of two numbers of 32 bits.\<close>

lemma size_product_exact:
  fixes w h :: "32 word"
  shows "unat (ucast w * ucast h :: 64 word) = unat w * unat h"
proof -
  have "unat w < 2 ^ 32" "unat h < 2 ^ 32"
    using unsigned_less [of w] unsigned_less [of h] by simp_all
  then have "unat w * unat h < 2 ^ 32 * 2 ^ 32"
    by (intro mult_strict_mono) simp_all
  moreover have "unat (ucast w :: 64 word) = unat w" "unat (ucast h :: 64 word) = unat h"
    using \<open>unat w < 2 ^ 32\<close> \<open>unat h < 2 ^ 32\<close> by (simp_all add: unsigned_ucast_eq take_bit_nat_eq_self)
  ultimately show ?thesis
    by (simp add: unat_word_ariths)
qed

text \<open>C32: A validated occupancy grid has a cell, and the index of every cell of its map lies in its data: the product of width and
  height does not wrap, and the data has exactly that size. Its resolution and the pose of its origin are finite.\<close>

theorem validated_grid_index_in_range:
  assumes "validate_occupancy_grid g" and "length (grid_data g) < 2 ^ 64"
    and "x < unat (width (grid_info g))" and "y < unat (height (grid_info g))"
  shows "y * unat (width (grid_info g)) + x < length (grid_data g) \<and>
    length (grid_data g) = unat (width (grid_info g)) * unat (height (grid_info g)) \<and>
    validate_double (resolution (grid_info g)) \<and> validate_pose (origin (grid_info g))"
proof -
  let ?w = "width (grid_info g)" and ?h = "height (grid_info g)"
  have v: "validate_double (resolution (grid_info g))" "validate_pose (origin (grid_info g))"
    and s: "(of_nat (length (grid_data g)) :: 64 word) = ucast ?w * ucast ?h"
    using assms(1) by (simp_all add: validate_occupancy_grid_def validate_map_meta_data_def split: if_splits)
  have "unat (of_nat (length (grid_data g)) :: 64 word) = length (grid_data g)"
    using assms(2) by (simp add: unat_of_nat)
  with s size_product_exact [of ?w ?h] have l: "length (grid_data g) = unat ?w * unat ?h"
    by simp
  have "y * unat ?w + x < Suc y * unat ?w"
    using assms(3) by simp
  also have "\<dots> \<le> unat ?h * unat ?w"
    using assms(4) by (intro mult_le_mono1) simp
  finally show ?thesis
    using l v by (simp add: mult.commute)
qed

definition demo_grid :: occupancy_grid where
  "demo_grid =
     \<lparr>grid_header = \<lparr>raw_stamp = \<lparr>sec = 5, nanosec = 999999999\<rparr>, raw_frame_id = ''map''\<rparr>,
      grid_info = \<lparr>resolution = Finite (1 / 10), width = 3, height = 2,
        origin = \<lparr>raw_position = \<lparr>rx = Finite 0, ry = Finite 0, rz = Finite 0\<rparr>,
                  raw_orientation = \<lparr>rx = Finite 0, ry = Finite 0, rz = Finite 0, rw = Finite 1\<rparr>\<rparr>\<rparr>,
      grid_data = [0, 0, 100, 255, 0, 0]\<rparr>"

theorem validated_grid_index_in_range_witness:
  "validate_occupancy_grid demo_grid \<and> 1 * unat (width (grid_info demo_grid)) + 2 < length (grid_data demo_grid)"
proof -
  have v: "validate_occupancy_grid demo_grid"
    by (simp add: demo_grid_def validate_occupancy_grid_def validate_header_def validate_time_def validate_map_meta_data_def
        validate_pose_def validate_point_def validate_quaternion_def validate_double_def isinf_def isnan_def)
  then show ?thesis
    using validated_grid_index_in_range [OF v, of 2 1] by (simp add: demo_grid_def)
qed

text \<open>A validated quaternion is finite and its length is within a ten-thousandth of one, so it can be normalised.\<close>

lemma validated_quaternion_near_unit:
  assumes "validate_quaternion q"
  shows "\<exists>x y z w. rx q = Finite x \<and> ry q = Finite y \<and> rz q = Finite z \<and> rw q = Finite w \<and>
    \<bar>sqrt (x\<^sup>2 + y\<^sup>2 + z\<^sup>2 + w\<^sup>2) - 1\<bar> < 1 / 10000"
proof -
  obtain x y z w where f: "rx q = Finite x" "ry q = Finite y" "rz q = Finite z" "rw q = Finite w"
    using assms by (auto simp: validate_quaternion_def validate_double_finite split: if_splits)
  let ?n = "x\<^sup>2 + y\<^sup>2 + z\<^sup>2 + w\<^sup>2"
  have n: "\<bar>?n - 1\<bar> < 1 / 10000"
    using assms by (simp add: validate_quaternion_def f Let_def power2_eq_square split: if_splits)
  have "(sqrt ?n - 1) * (sqrt ?n + 1) = ?n - 1"
    by (simp add: algebra_simps)
  then have e: "\<bar>sqrt ?n - 1\<bar> * (sqrt ?n + 1) = \<bar>?n - 1\<bar>"
    by (metis abs_mult abs_of_nonneg add_nonneg_nonneg real_sqrt_ge_zero sum_power2_ge_zero zero_le_one zero_le_power2)
  have "\<bar>sqrt ?n - 1\<bar> * 1 \<le> \<bar>sqrt ?n - 1\<bar> * (sqrt ?n + 1)"
    by (intro mult_left_mono) simp_all
  also note e
  also note n
  finally have "\<bar>sqrt ?n - 1\<bar> < 1 / 10000"
    by simp
  with f show ?thesis by blast
qed

end
