(* ===== verification/Port_Text.thy ===== *)
theory Port_Text
  imports Nav3d_Msgs Nav3d_Parsing "HOL-Library.Word"
begin

text \<open>
  \<open>bt_utils.hpp\<close>: the conversions from the text of a port to the messages the behaviour tree nodes use. A text
  that starts with \<open>json:\<close> goes to the JSON reader of BehaviorTree.CPP, the argument \<open>json\<close> of each conversion; any other text
  is split at semicolons. The conversions of single fields and the splitting are the record \<open>bt_text\<close>; a field that cannot be
  converted is \<open>None\<close> there. The exceptions of the code are \<open>Wrong_Fields\<close>, \<open>Bad_Field\<close> and those of \<open>std::stoul\<close>; reading outside the
  list of fields, which is undefined, is \<open>Bad_Index\<close>.
\<close>

datatype text_error = Wrong_Fields | Bad_Field | Bad_Index | Invalid_Argument | Out_Of_Range

record bt_text =
  btt_split :: "string \<Rightarrow> char \<Rightarrow> string list"
  btt_double :: "string \<Rightarrow> double option"
  btt_int64 :: "string \<Rightarrow> int option"
  btt_uint8 :: "string \<Rightarrow> 8 word option"
  btt_uint16 :: "string \<Rightarrow> 16 word option"
  btt_uint32 :: "string \<Rightarrow> 32 word option"
  btt_string :: "string \<Rightarrow> string option"
  btt_stamp :: "int \<Rightarrow> time_ns"

section \<open>Fields\<close>

definition res_bind :: "text_error + 'a \<Rightarrow> ('a \<Rightarrow> text_error + 'b) \<Rightarrow> text_error + 'b" where
  "res_bind r k = (case r of Inl e \<Rightarrow> Inl e | Inr x \<Rightarrow> k x)"

definition field :: "(string \<Rightarrow> 'a option) \<Rightarrow> string list \<Rightarrow> nat \<Rightarrow> text_error + 'a" where
  "field conv parts i =
     (if i < length parts then case conv (parts ! i) of Some x \<Rightarrow> Inr x | None \<Rightarrow> Inl Bad_Field else Inl Bad_Index)"

definition read_point :: "bt_text \<Rightarrow> string list \<Rightarrow> nat \<Rightarrow> text_error + point" where
  "read_point c parts i =
     res_bind (field (btt_double c) parts i) (\<lambda>x.
     res_bind (field (btt_double c) parts (i + 1)) (\<lambda>y.
     res_bind (field (btt_double c) parts (i + 2)) (\<lambda>z. Inr \<lparr>px = x, py = y, pz = z\<rparr>)))"

definition read_quaternion :: "bt_text \<Rightarrow> string list \<Rightarrow> nat \<Rightarrow> text_error + quaternion" where
  "read_quaternion c parts i =
     res_bind (field (btt_double c) parts i) (\<lambda>x.
     res_bind (field (btt_double c) parts (i + 1)) (\<lambda>y.
     res_bind (field (btt_double c) parts (i + 2)) (\<lambda>z.
     res_bind (field (btt_double c) parts (i + 3)) (\<lambda>w. Inr \<lparr>qx = x, qy = y, qz = z, qw = w\<rparr>))))"

definition read_header :: "bt_text \<Rightarrow> string list \<Rightarrow> nat \<Rightarrow> text_error + header" where
  "read_header c parts i =
     res_bind (field (btt_int64 c) parts i) (\<lambda>t.
     res_bind (field (btt_string c) parts (i + 1)) (\<lambda>frame. Inr \<lparr>stamp = btt_stamp c t, frame_id = frame\<rparr>))"

definition read_pose_stamped :: "bt_text \<Rightarrow> string list \<Rightarrow> nat \<Rightarrow> text_error + pose_stamped" where
  "read_pose_stamped c parts i =
     res_bind (read_header c parts i) (\<lambda>h.
     res_bind (read_point c parts (i + 2)) (\<lambda>p.
     res_bind (read_quaternion c parts (i + 5)) (\<lambda>q.
       Inr \<lparr>ps_header = h, ps_pose = \<lparr>position = p, orientation = q\<rparr>\<rparr>)))"

record text_waypoint =
  tw_status :: "8 word"
  tw_index :: "32 word"
  tw_pose :: pose_stamped
  tw_error_code :: "16 word"
  tw_error_msg :: string

definition read_waypoint :: "bt_text \<Rightarrow> string list \<Rightarrow> nat \<Rightarrow> text_error + text_waypoint" where
  "read_waypoint c parts i =
     res_bind (field (btt_uint8 c) parts i) (\<lambda>s.
     res_bind (field (btt_uint32 c) parts (i + 1)) (\<lambda>ix.
     res_bind (read_pose_stamped c parts (i + 2)) (\<lambda>p.
     res_bind (field (btt_uint16 c) parts (i + 11)) (\<lambda>code.
     res_bind (field (btt_string c) parts (i + 12)) (\<lambda>msg.
       Inr \<lparr>tw_status = s, tw_index = ix, tw_pose = p, tw_error_code = code, tw_error_msg = msg\<rparr>)))))"

text \<open>The loop \<open>for (size_t i = first; i < parts.size(); i += n)\<close> that appends one element per step, for \<open>n > 0\<close>.\<close>

function read_all :: "(nat \<Rightarrow> text_error + 'a) \<Rightarrow> nat \<Rightarrow> nat \<Rightarrow> nat \<Rightarrow> 'a list \<Rightarrow> text_error + 'a list" where
  "read_all rd n size_parts i acc =
     (if i < size_parts then
        (case rd i of Inl e \<Rightarrow> Inl e | Inr x \<Rightarrow> read_all rd n size_parts (i + Suc (n - 1)) (acc @ [x]))
      else Inr acc)"
  by pat_completeness auto
termination
  by (relation "measure (\<lambda>(rd, n, size_parts, i, acc). size_parts - i)") auto

declare read_all.simps [simp del]

section \<open>Conversions\<close>

definition json_or :: "(string \<Rightarrow> text_error + 'a) \<Rightarrow> string \<Rightarrow> (text_error + 'a) \<Rightarrow> text_error + 'a" where
  "json_or json key r = (if take 5 key = ''json:'' then json (drop 5 key) else r)"

definition point_from_string :: "bt_text \<Rightarrow> (string \<Rightarrow> text_error + point) \<Rightarrow> string \<Rightarrow> text_error + point" where
  "point_from_string c json key = json_or json key
     (let parts = btt_split c key CHR '';'' in if length parts \<noteq> 3 then Inl Wrong_Fields else read_point c parts 0)"

definition quaternion_from_string ::
  "bt_text \<Rightarrow> (string \<Rightarrow> text_error + quaternion) \<Rightarrow> string \<Rightarrow> text_error + quaternion" where
  "quaternion_from_string c json key = json_or json key
     (let parts = btt_split c key CHR '';'' in if length parts \<noteq> 4 then Inl Wrong_Fields else read_quaternion c parts 0)"

definition pose_from_string ::
  "bt_text \<Rightarrow> (string \<Rightarrow> text_error + pose_stamped) \<Rightarrow> string \<Rightarrow> text_error + pose_stamped" where
  "pose_from_string c json key = json_or json key
     (let parts = btt_split c key CHR '';'' in if length parts \<noteq> 9 then Inl Wrong_Fields else read_pose_stamped c parts 0)"

definition poses_from_string ::
  "bt_text \<Rightarrow> (string \<Rightarrow> text_error + pose_stamped list) \<Rightarrow> string \<Rightarrow> text_error + pose_stamped list" where
  "poses_from_string c json key = json_or json key
     (let parts = btt_split c key CHR '';''
      in if length parts mod 9 \<noteq> 0 then Inl Wrong_Fields
         else read_all (read_pose_stamped c parts) 9 (length parts) 0 [])"

text \<open>The test \<open>(parts.size() - 2) % 9 != 0\<close> is made on numbers of 64 bits, where \<open>0 - 2\<close> and \<open>1 - 2\<close> wrap.\<close>

definition wrong_size :: "string list \<Rightarrow> bool" where
  "wrong_size parts \<longleftrightarrow> ((of_nat (length parts) :: 64 word) - 2) mod 9 \<noteq> 0"

definition goals_from_string :: "bt_text \<Rightarrow> (string \<Rightarrow> text_error + goals) \<Rightarrow> string \<Rightarrow> text_error + goals" where
  "goals_from_string c json key = json_or json key
     (let parts = btt_split c key CHR '';''
      in if wrong_size parts then Inl Wrong_Fields
         else res_bind (read_header c parts 0) (\<lambda>h.
              res_bind (read_all (read_pose_stamped c parts) 9 (length parts) 2 []) (\<lambda>ps.
                Inr \<lparr>goals_header = h, goal_list = ps\<rparr>)))"

definition path_from_string :: "bt_text \<Rightarrow> (string \<Rightarrow> text_error + path) \<Rightarrow> string \<Rightarrow> text_error + path" where
  "path_from_string c json key = json_or json key
     (let parts = btt_split c key CHR '';''
      in if wrong_size parts then Inl Wrong_Fields
         else res_bind (read_header c parts 0) (\<lambda>h.
              res_bind (read_all (read_pose_stamped c parts) 9 (length parts) 2 []) (\<lambda>ps.
                Inr \<lparr>path_header = h, poses = ps\<rparr>)))"

definition waypoint_from_string ::
  "bt_text \<Rightarrow> (string \<Rightarrow> text_error + text_waypoint) \<Rightarrow> string \<Rightarrow> text_error + text_waypoint" where
  "waypoint_from_string c json key = json_or json key
     (let parts = btt_split c key CHR '';'' in if length parts \<noteq> 13 then Inl Wrong_Fields else read_waypoint c parts 0)"

definition waypoints_from_string ::
  "bt_text \<Rightarrow> (string \<Rightarrow> text_error + text_waypoint list) \<Rightarrow> string \<Rightarrow> text_error + text_waypoint list" where
  "waypoints_from_string c json key = json_or json key
     (let parts = btt_split c key CHR '';''
      in if length parts mod 13 \<noteq> 0 then Inl Wrong_Fields
         else read_all (read_waypoint c parts) 13 (length parts) 0 [])"

text \<open>\<open>std::stoul\<close>: white space, a sign, digits; what follows is ignored. A negative number wraps; a number that does not fit is an
  exception. The count of milliseconds is the same 64 bits read as a signed number.\<close>

definition stoul :: "string \<Rightarrow> text_error + 64 word" where
  "stoul s =
     (let (neg, s1) = take_sign (dropWhile is_space s); ds = fst (take_digits s1)
      in if ds = [] then Inl Invalid_Argument
         else if digits_val ds \<ge> 2 ^ 64 then Inl Out_Of_Range
         else Inr (if neg then - of_nat (digits_val ds) else of_nat (digits_val ds)))"

definition milliseconds_from_string :: "(string \<Rightarrow> text_error + int) \<Rightarrow> string \<Rightarrow> text_error + int" where
  "milliseconds_from_string json key = json_or json key (res_bind (stoul key) (\<lambda>w. Inr (sint w)))"

section \<open>Ports and parameters\<close>

text \<open>\<open>deconflictPortAndParamFrame\<close>: a port that is set wins over the parameter, unless it is an empty text; \<open>is_empty\<close> is the constant
  false for a type other than text. A value that nothing sets is the initial value of the variable.\<close>

definition deconflictPortAndParamFrame :: "'a \<Rightarrow> ('a \<Rightarrow> bool) \<Rightarrow> 'a option \<Rightarrow> 'a option \<Rightarrow> 'a" where
  "deconflictPortAndParamFrame initial is_empty port param =
     (let param_value = (case port of Some v \<Rightarrow> v | None \<Rightarrow> initial);
          param_from_input = (port \<noteq> None \<and> \<not> is_empty param_value)
      in if \<not> param_from_input then (case param of Some v \<Rightarrow> v | None \<Rightarrow> param_value) else param_value)"

end
