(* ===== verification/Port_Text_Props.thy ===== *)
theory Port_Text_Props
  imports Port_Text Nav3d_Parsing_Props
begin

text \<open>
  Which texts the conversions of \<open>Port_Text\<close> accept, and that they read back what is written in their format: the locale \<open>text_laws\<close>
  states what splitting and the conversions of fields promise, and is interpreted on the string functions of \<open>Nav3d_Parsing\<close>.
\<close>

section \<open>Field counts\<close>

lemma wrong_size_iff:
  assumes "length parts < 2 ^ 64"
  shows "wrong_size parts \<longleftrightarrow> \<not> (\<exists>k. length parts = 9 * k + 2)"
proof (cases "length parts < 2")
  case True
  then consider "length parts = 0" | "length parts = 1"
    by linarith
  then show ?thesis
  proof cases
    case 1
    then show ?thesis by (simp add: wrong_size_def)
  next
    case 2
    then show ?thesis by (simp add: wrong_size_def)
  qed
next
  case False
  then obtain m where m: "length parts = m + 2"
    by (metis add.commute le_Suc_ex not_less)
  then have "wrong_size parts \<longleftrightarrow> (of_nat m :: 64 word) mod 9 \<noteq> 0"
    by (simp add: wrong_size_def)
  also have "\<dots> \<longleftrightarrow> unat ((of_nat m :: 64 word) mod 9) \<noteq> 0"
    by (simp add: unat_eq_zero)
  also have "\<dots> \<longleftrightarrow> m mod 9 \<noteq> 0"
    using m assms by (simp add: unat_mod unat_of_nat)
  finally show ?thesis
    by (simp add: m mod_eq_0_iff_dvd dvd_def)
qed

text \<open>The only error a conversion of fields can report.\<close>

definition field_result :: "text_error + 'a \<Rightarrow> bool" where
  "field_result r \<longleftrightarrow> (case r of Inl e \<Rightarrow> e = Bad_Field | Inr x \<Rightarrow> True)"

lemma field_result_simps [simp]: "field_result (Inl e) \<longleftrightarrow> e = Bad_Field" "field_result (Inr x)"
  by (simp_all add: field_result_def)

lemma field_result_field [intro]: "i < length parts \<Longrightarrow> field_result (field conv parts i)"
  by (simp add: field_def split: option.split)

lemma field_result_bind [intro]: "field_result r \<Longrightarrow> (\<And>x. field_result (k x)) \<Longrightarrow> field_result (res_bind r k)"
  by (cases r) (simp_all add: res_bind_def)

lemma field_result_header: "i + 1 < length parts \<Longrightarrow> field_result (read_header c parts i)"
  unfolding read_header_def by (intro field_result_bind field_result_field) simp_all

lemma field_result_pose: "i + 8 < length parts \<Longrightarrow> field_result (read_pose_stamped c parts i)"
  unfolding read_pose_stamped_def read_point_def read_quaternion_def
  by (intro field_result_bind field_result_field field_result_header) simp_all

lemma field_result_waypoint: "i + 12 < length parts \<Longrightarrow> field_result (read_waypoint c parts i)"
  unfolding read_waypoint_def by (intro field_result_bind field_result_field field_result_pose) simp_all

lemma read_all_step:
  "n > 0 \<Longrightarrow> i < m \<Longrightarrow>
     read_all rd n m i acc = (case rd i of Inl e \<Rightarrow> Inl e | Inr x \<Rightarrow> read_all rd n m (i + n) (acc @ [x]))"
  by (subst read_all.simps) (auto split: sum.split)

lemma read_all_result:
  assumes "n > 0"
  shows "m = i + n * k \<Longrightarrow> (\<And>j. j < k \<Longrightarrow> field_result (rd (i + n * j))) \<Longrightarrow>
    (case read_all rd n m i acc of Inl e \<Rightarrow> e = Bad_Field | Inr xs \<Rightarrow> length xs = length acc + k)"
proof (induction k arbitrary: i acc)
  case 0
  then show ?case by (simp add: read_all.simps)
next
  case (Suc k)
  have r: "field_result (rd i)"
    using Suc.prems(2) [of 0] by simp
  have rs: "field_result (rd (i + n + n * j))" if "j < k" for j
    using Suc.prems(2) [of "Suc j"] that by (simp add: algebra_simps)
  have m: "i < m" "m = i + n + n * k"
    using assms Suc.prems(1) by simp_all
  show ?case
  proof (cases "rd i")
    case (Inl e)
    then show ?thesis
      using r read_all_step [OF assms m(1), of rd acc] by simp
  next
    case (Inr y)
    then show ?thesis
      using Suc.IH [OF m(2) rs, of "acc @ [y]"] read_all_step [OF assms m(1), of rd acc] by (simp split: sum.splits)
  qed
qed

lemma read_all_reads:
  assumes "n > 0"
  shows "m = i + n * length ys \<Longrightarrow> (\<And>j. j < length ys \<Longrightarrow> rd (i + n * j) = Inr (ys ! j)) \<Longrightarrow>
    read_all rd n m i acc = Inr (acc @ ys)"
proof (induction ys arbitrary: i acc)
  case Nil
  then show ?case by (simp add: read_all.simps)
next
  case (Cons y ys)
  have "rd i = Inr y"
    using Cons.prems(2) [of 0] by simp
  moreover have "rd (i + n + n * j) = Inr (ys ! j)" if "j < length ys" for j
    using Cons.prems(2) [of "Suc j"] that by (simp add: algebra_simps)
  moreover have "i < m" "m = i + n + n * length ys"
    using assms Cons.prems(1) by simp_all
  ultimately show ?case
    using Cons.IH [of "i + n" "acc @ [y]"] read_all_step [OF assms, of i m rd acc] by simp
qed

lemma poses_counts:
  assumes "length parts = first + 9 * k"
  shows "case read_all (read_pose_stamped c parts) 9 (length parts) first [] of
    Inl e \<Rightarrow> e = Bad_Field | Inr ps \<Rightarrow> length ps = k"
  using read_all_result [of 9 "length parts" first k "read_pose_stamped c parts" "[]"] assms
  by (simp add: field_result_pose split: sum.splits)


section \<open>Reading back\<close>

text \<open>The text format: the fields of a message in order, separated by semicolons. \<open>num\<close> and \<open>tm\<close> write numbers.\<close>

definition pose_fields :: "(double \<Rightarrow> string) \<Rightarrow> (int \<Rightarrow> string) \<Rightarrow> pose_stamped \<Rightarrow> string list" where
  "pose_fields num tm p =
     [tm (stamp (ps_header p)), frame_id (ps_header p),
      num (px (ps_position p)), num (py (ps_position p)), num (pz (ps_position p)),
      num (qx (orientation (ps_pose p))), num (qy (orientation (ps_pose p))),
      num (qz (orientation (ps_pose p))), num (qw (orientation (ps_pose p)))]"

definition path_fields :: "(double \<Rightarrow> string) \<Rightarrow> (int \<Rightarrow> string) \<Rightarrow> path \<Rightarrow> string list" where
  "path_fields num tm p =
     [tm (stamp (path_header p)), frame_id (path_header p)] @ concat (map (pose_fields num tm) (poses p))"

text \<open>Messages that the format can carry: no semicolon in a frame name, and numbers and times from the sets that can be written.\<close>

definition writable_header :: "int set \<Rightarrow> header \<Rightarrow> bool" where
  "writable_header tms h \<longleftrightarrow> stamp h \<in> tms \<and> CHR '';'' \<notin> set (frame_id h)"

definition writable_pose :: "double set \<Rightarrow> int set \<Rightarrow> pose_stamped \<Rightarrow> bool" where
  "writable_pose nums tms p \<longleftrightarrow>
     writable_header tms (ps_header p) \<and>
     {px (ps_position p), py (ps_position p), pz (ps_position p), qx (orientation (ps_pose p)),
      qy (orientation (ps_pose p)), qz (orientation (ps_pose p)), qw (orientation (ps_pose p))} \<subseteq> nums"

definition writable_path :: "double set \<Rightarrow> int set \<Rightarrow> path \<Rightarrow> bool" where
  "writable_path nums tms p \<longleftrightarrow>
     writable_header tms (path_header p) \<and> list_all (writable_pose nums tms) (poses p)"

text \<open>What the conversions promise: splitting takes the separators out, a field that was written is read as its value, and neither has a
  semicolon; a written time does not start like JSON.\<close>

locale text_laws =
  fixes c :: bt_text and num :: "double \<Rightarrow> string" and tm :: "int \<Rightarrow> string"
    and nums :: "double set" and tms :: "int set"
  assumes split: "tokens_ok CHR '';'' ts \<Longrightarrow> btt_split c (join CHR '';'' ts) CHR '';'' = ts"
    and num: "x \<in> nums \<Longrightarrow> btt_double c (num x) = Some x" "x \<in> nums \<Longrightarrow> CHR '';'' \<notin> set (num x)"
    and tm: "t \<in> tms \<Longrightarrow> btt_int64 c (tm t) = Some t" "t \<in> tms \<Longrightarrow> CHR '';'' \<notin> set (tm t)"
    and stamp: "t \<in> tms \<Longrightarrow> btt_stamp c t = t"
    and frame: "btt_string c s = Some s"
    and no_json: "t \<in> tms \<Longrightarrow> take 5 (tm t @ CHR '';'' # s) \<noteq> ''json:''"
begin

lemma read_header_fields:
  assumes "writable_header tms h" and "i + 1 < length parts" and "parts ! i = tm (stamp h)" "parts ! (i + 1) = frame_id h"
  shows "read_header c parts i = Inr h"
  using assms by (simp add: read_header_def field_def res_bind_def writable_header_def tm stamp frame)

lemma read_pose_fields:
  assumes "writable_pose nums tms p" and "i + 8 < length parts"
    and "\<And>j. j < 9 \<Longrightarrow> parts ! (i + j) = pose_fields num tm p ! j"
  shows "read_pose_stamped c parts i = Inr p"
proof -
  note f = assms(3) [of 0] assms(3) [of 1] assms(3) [of 2] assms(3) [of 3] assms(3) [of 4] assms(3) [of 5]
    assms(3) [of 6] assms(3) [of 7] assms(3) [of 8]
  have ar: "i + 2 + 1 = i + 3" "i + 2 + 2 = i + 4" "i + 5 + 1 = i + 6" "i + 5 + 2 = i + 7" "i + 5 + 3 = i + 8"
    by simp_all
  have "read_header c parts i = Inr (ps_header p)"
    using assms(1,2) f(1,2) by (intro read_header_fields) (simp_all add: writable_pose_def pose_fields_def)
  moreover have "read_point c parts (i + 2) = Inr (ps_position p)"
    using assms(1,2) f(3-5)
    unfolding read_point_def ar by (simp add: field_def res_bind_def writable_pose_def num pose_fields_def del: add_2_eq_Suc')
  moreover have "read_quaternion c parts (i + 5) = Inr (orientation (ps_pose p))"
    using assms(1,2) f(6-9)
    unfolding read_quaternion_def ar by (simp add: field_def res_bind_def writable_pose_def num pose_fields_def del: add_2_eq_Suc')
  ultimately show ?thesis
    by (simp add: read_pose_stamped_def res_bind_def)
qed

lemma pose_fields_ok: "writable_pose nums tms p \<Longrightarrow> list_all (\<lambda>t. CHR '';'' \<notin> set t) (pose_fields num tm p)"
  by (simp add: pose_fields_def writable_pose_def writable_header_def num tm)

end

lemma concat_fields_nth:
  "i < length ps \<Longrightarrow> j < 9 \<Longrightarrow> concat (map (pose_fields num tm) ps) ! (9 * i + j) = pose_fields num tm (ps ! i) ! j"
proof (induction ps arbitrary: i)
  case (Cons p ps)
  have l: "length (pose_fields num tm p) = 9"
    by (simp add: pose_fields_def)
  show ?case
  proof (cases i)
    case 0
    then show ?thesis using l Cons.prems by (simp add: nth_append)
  next
    case (Suc k)
    then show ?thesis using l Cons by (simp add: nth_append)
  qed
qed simp

lemma length_concat_fields: "length (concat (map (pose_fields num tm) ps)) = 9 * length ps"
  by (induction ps) (simp_all add: pose_fields_def)

context text_laws
begin

lemma read_poses_fields:
  assumes "list_all (writable_pose nums tms) ps" and "length pre = first"
  shows "read_all (read_pose_stamped c (pre @ concat (map (pose_fields num tm) ps))) 9
    (length (pre @ concat (map (pose_fields num tm) ps))) first [] = Inr ps"
proof -
  let ?parts = "pre @ concat (map (pose_fields num tm) ps)"
  have "read_pose_stamped c ?parts (first + 9 * j) = Inr (ps ! j)" if "j < length ps" for j
  proof (rule read_pose_fields)
    show "writable_pose nums tms (ps ! j)"
      using assms(1) that by (simp add: list_all_length)
    show "first + 9 * j + 8 < length ?parts"
      using that assms(2) by (simp add: length_concat_fields)
    show "?parts ! (first + 9 * j + k) = pose_fields num tm (ps ! j) ! k" if "k < 9" for k
      using concat_fields_nth [OF \<open>j < length ps\<close> that] assms(2) by (simp add: nth_append)
  qed
  then show ?thesis
    using read_all_reads [of 9 "length ?parts" first ps "read_pose_stamped c ?parts" "[]"] assms(2)
    by (simp add: length_concat_fields)
qed

lemma path_reads_back:
  assumes "writable_path nums tms p" and "9 * length (poses p) + 2 < 2 ^ 64"
  shows "path_from_string c json (join CHR '';'' (path_fields num tm p)) = Inr p"
proof -
  let ?parts = "path_fields num tm p"
  have w: "writable_header tms (path_header p)" "list_all (writable_pose nums tms) (poses p)"
    using assms(1) by (simp_all add: writable_path_def)
  have "list_all (\<lambda>t. CHR '';'' \<notin> set t) (concat (map (pose_fields num tm) ps))"
    if "list_all (writable_pose nums tms) ps" for ps
    using that by (induction ps) (simp_all add: pose_fields_ok)
  then have ok: "tokens_ok CHR '';'' ?parts"
    using w by (simp add: tokens_ok_def path_fields_def writable_header_def tm)
  have "join CHR '';'' ?parts = tm (stamp (path_header p)) @ CHR '';'' #
      join CHR '';'' (frame_id (path_header p) # concat (map (pose_fields num tm) (poses p)))"
    by (simp add: path_fields_def)
  then have nj: "take 5 (join CHR '';'' ?parts) \<noteq> ''json:''"
    using no_json w(1) by (simp add: writable_header_def)
  have len: "length ?parts = 9 * length (poses p) + 2"
    by (simp add: path_fields_def length_concat_fields)
  then have "\<not> wrong_size ?parts"
    using assms(2) by (simp add: wrong_size_iff)
  moreover have "read_header c ?parts 0 = Inr (path_header p)"
    using w(1) len by (intro read_header_fields) (simp_all add: path_fields_def)
  moreover have "read_all (read_pose_stamped c ?parts) 9 (length ?parts) 2 [] = Inr (poses p)"
    using read_poses_fields [OF w(2), of "[tm (stamp (path_header p)), frame_id (path_header p)]" 2]
    by (simp add: path_fields_def)
  ultimately show ?thesis
    by (simp add: path_from_string_def json_or_def nj split [OF ok] res_bind_def)
qed

end

section \<open>The conversions on decimal numbers\<close>

text \<open>Splitting as \<open>Nav3d_Parsing\<close> does it, the float reader of that theory, and natural numbers for the integers.\<close>

definition read_nat :: "string \<Rightarrow> nat option" where
  "read_nat s = (if s \<noteq> [] \<and> list_all is_digit s then Some (digits_val s) else None)"

definition decimal_text :: bt_text where
  "decimal_text =
     \<lparr>btt_split = split_string, btt_double = (\<lambda>s. map_option fst (read_float (s @ '',''))),
      btt_int64 = (\<lambda>s. map_option of_nat (read_nat s)), btt_uint8 = (\<lambda>s. map_option of_nat (read_nat s)),
      btt_uint16 = (\<lambda>s. map_option of_nat (read_nat s)), btt_uint32 = (\<lambda>s. map_option of_nat (read_nat s)),
      btt_string = Some, btt_stamp = (\<lambda>t. t)\<rparr>"

lemma show_nat_no_semicolon: "CHR '';'' \<notin> set (show_nat n)"
proof -
  have "\<not> is_digit CHR '';''"
    by (simp add: is_digit_def)
  then show ?thesis
    using show_nat_digits [of n] by (auto simp: list_all_iff)
qed

interpretation decimal: text_laws decimal_text "\<lambda>x. show_nat (nat \<lfloor>x\<rfloor>)" "\<lambda>t. show_nat (nat t)" "range real" "range int"
proof unfold_locales
  show "btt_split decimal_text (join CHR '';'' ts) CHR '';'' = ts" if "tokens_ok CHR '';'' ts" for ts
    using split_string_spec [of "CHR '';''" "join CHR '';'' ts"] that join_inject by (simp add: decimal_text_def) blast
  show "btt_double decimal_text (show_nat (nat \<lfloor>x\<rfloor>)) = Some x" if "x \<in> range real" for x
    using that read_float_digits [of "show_nat (nat \<lfloor>x\<rfloor>)" "CHR '',''" "[]"] show_nat_digits [of "nat \<lfloor>x\<rfloor>"]
    by (auto simp: decimal_text_def)
  show "btt_int64 decimal_text (show_nat (nat t)) = Some t" if "t \<in> range int" for t
    using that show_nat_digits [of "nat t"] by (auto simp: decimal_text_def read_nat_def)
  show "take 5 (show_nat (nat t) @ CHR '';'' # s) \<noteq> ''json:''" for t s
  proof
    assume e: "take 5 (show_nat (nat t) @ CHR '';'' # s) = ''json:''"
    obtain d ds where "show_nat (nat t) = d # ds" "is_digit d"
      using show_nat_digits [of "nat t"] by (cases "show_nat (nat t)") auto
    with e show False
      by (simp add: is_digit_def)
  qed
qed (simp_all add: decimal_text_def show_nat_no_semicolon)


definition demo_text_path :: path where
  "demo_text_path =
     \<lparr>path_header = \<lparr>stamp = 7, frame_id = ''map''\<rparr>,
      poses = [\<lparr>ps_header = \<lparr>stamp = 8, frame_id = ''map''\<rparr>,
                ps_pose = \<lparr>position = \<lparr>px = 1, py = 20, pz = 3\<rparr>, orientation = identity_quaternion\<rparr>\<rparr>]\<rparr>"



end
