(* ===== verification/BT_Subscriptions.thy ===== *)
theory BT_Subscriptions
  imports BT_Actions BT_Conditions
begin

text \<open>
  The behaviour tree nodes that listen to a topic of their own: the five selectors (\<open>plugins/action/*_selector_node.cpp\<close>), the
  two battery conditions, \<open>GoalUpdater\<close> and, on the sending side, \<open>PublishPath\<close>. Each has a function \<open>createROSInterfaces\<close> (or
  \<open>ensurePublisher\<close>) that creates the subscription again when the topic has changed. A subscription is the name of its topic;
  what has arrived on a topic since the last tick is an argument. Theorems: the topic of the subscription is the one of the port after each
  start, and what a selector selects over a run.
\<close>

section \<open>Subscriptions\<close>

record topic_sub =
  topic_name :: string
  subscription :: "string option"

definition createROSInterfaces :: "string \<Rightarrow> topic_sub \<Rightarrow> topic_sub" where
  "createROSInterfaces topic_new s =
     (if topic_new \<noteq> topic_name s \<or> subscription s = None
      then s\<lparr>topic_name := topic_new, subscription := Some topic_new\<rparr> else s)"

text \<open>A port that is not set leaves the variable it is read into: an empty text here.\<close>

definition port_topic :: "'w ports \<Rightarrow> string \<Rightarrow> 'w \<Rightarrow> string" where
  "port_topic pt name w = read_port (in_string pt name w) []"

section \<open>Selectors\<close>

record selector =
  sel_topic :: topic_sub
  last_selected :: string

definition selector_initialize :: "'w ports \<Rightarrow> 'w \<Rightarrow> selector \<Rightarrow> selector" where
  "selector_initialize pt w n = n\<lparr>sel_topic := createROSInterfaces (port_topic pt ''topic_name'' w) (sel_topic n)\<rparr>"

definition new_selector :: selector where
  "new_selector = \<lparr>sel_topic = \<lparr>topic_name = [], subscription = None\<rparr>, last_selected = []\<rparr>"

text \<open>The constructors; those of the planner, controller and smoother selectors also handle the messages that are there.\<close>

definition selector_constructor :: "'w ports \<Rightarrow> bool \<Rightarrow> (string \<Rightarrow> string list) \<Rightarrow> 'w \<Rightarrow> selector" where
  "selector_constructor pt spins msgs w =
     (let n = selector_initialize pt w new_selector
      in if spins then n\<lparr>last_selected := fold callbackSelect (msgs (the (subscription (sel_topic n)))) (last_selected n)\<rparr> else n)"

text \<open>\<open>tick\<close>, for the names of the two ports: the messages of the subscribed topic are handled first.\<close>

definition selector_node_tick ::
  "string \<Rightarrow> string \<Rightarrow> 'w ports \<Rightarrow> node_status \<Rightarrow> (string \<Rightarrow> string list) \<Rightarrow> selector \<times> 'w \<Rightarrow> node_status \<times> selector \<times> 'w" where
  "selector_node_tick default_port selected_port pt st msgs = (\<lambda>(n, w).
     let n1 = (if isStatusActive st then n else selector_initialize pt w n);
         arrived = (case subscription (sel_topic n1) of Some t \<Rightarrow> msgs t | None \<Rightarrow> []);
         ((r, out), l) = selector_tick arrived (in_string pt default_port w) (last_selected n1)
     in (r, n1\<lparr>last_selected := l\<rparr>, case out of Some s \<Rightarrow> pt_out pt selected_port (PV_String s) w | None \<Rightarrow> w))"

definition PlannerSelector ::
  "'w ports \<Rightarrow> node_status \<Rightarrow> (string \<Rightarrow> string list) \<Rightarrow> selector \<times> 'w \<Rightarrow> node_status \<times> selector \<times> 'w" where
  "PlannerSelector = selector_node_tick ''default_planner'' ''selected_planner''"

definition ControllerSelector ::
  "'w ports \<Rightarrow> node_status \<Rightarrow> (string \<Rightarrow> string list) \<Rightarrow> selector \<times> 'w \<Rightarrow> node_status \<times> selector \<times> 'w" where
  "ControllerSelector = selector_node_tick ''default_controller'' ''selected_controller''"

definition SmootherSelector ::
  "'w ports \<Rightarrow> node_status \<Rightarrow> (string \<Rightarrow> string list) \<Rightarrow> selector \<times> 'w \<Rightarrow> node_status \<times> selector \<times> 'w" where
  "SmootherSelector = selector_node_tick ''default_smoother'' ''selected_smoother''"

definition GoalCheckerSelector ::
  "'w ports \<Rightarrow> node_status \<Rightarrow> (string \<Rightarrow> string list) \<Rightarrow> selector \<times> 'w \<Rightarrow> node_status \<times> selector \<times> 'w" where
  "GoalCheckerSelector = selector_node_tick ''default_goal_checker'' ''selected_goal_checker''"

definition ProgressCheckerSelector ::
  "'w ports \<Rightarrow> node_status \<Rightarrow> (string \<Rightarrow> string list) \<Rightarrow> selector \<times> 'w \<Rightarrow> node_status \<times> selector \<times> 'w" where
  "ProgressCheckerSelector = selector_node_tick ''default_progress_checker'' ''selected_progress_checker''"

section \<open>Battery conditions\<close>

text \<open>The ticks of \<open>BT_Conditions\<close> with the subscription; the topic is \<open>/battery_status\<close> until the port is read.\<close>

definition IsBatteryLow ::
  "'w ports \<Rightarrow> node_status \<Rightarrow> (string \<Rightarrow> battery_state list) \<Rightarrow> 'w \<Rightarrow> topic_sub \<times> battery_low \<Rightarrow>
    node_status \<times> topic_sub \<times> battery_low" where
  "IsBatteryLow pt st msgs w = (\<lambda>(s, c).
     let s1 = (if isStatusActive st then s else createROSInterfaces (port_topic pt ''battery_topic'' w) s);
         arrived = (case subscription s1 of Some t \<Rightarrow> msgs t | None \<Rightarrow> []);
         (r, c1) = battery_low_tick st (in_double pt ''min_battery'' w) (in_bool pt ''is_voltage'' w) arrived c
     in (r, s1, c1))"

definition IsBatteryCharging ::
  "'w ports \<Rightarrow> node_status \<Rightarrow> (string \<Rightarrow> battery_state list) \<Rightarrow> 'w \<Rightarrow> topic_sub \<times> bool \<Rightarrow> node_status \<times> topic_sub \<times> bool" where
  "IsBatteryCharging pt st msgs w = (\<lambda>(s, c).
     let s1 = (if isStatusActive st then s else createROSInterfaces (port_topic pt ''battery_topic'' w) s);
         arrived = (case subscription s1 of Some t \<Rightarrow> msgs t | None \<Rightarrow> []);
         (r, c1) = battery_charging_tick arrived c
     in (r, s1, c1))"

section \<open>GoalUpdater\<close>

text \<open>The topics come from two parameters of the node, with defaults.\<close>

definition goal_updater_topics ::
  "(string \<Rightarrow> string option) \<Rightarrow> topic_sub \<times> topic_sub \<Rightarrow> topic_sub \<times> topic_sub" where
  "goal_updater_topics param = (\<lambda>(g, gs).
     (createROSInterfaces (read_port (param ''goal_updater_topic'') ''goal_update'') g,
      createROSInterfaces (read_port (param ''goals_updater_topic'') ''goals_update'') gs))"

section \<open>PublishPath\<close>

text \<open>A publisher is the topic it was created with and the depth of its queue; \<open>full_name\<close> is the expansion of topic names by
  rclcpp, which \<open>get_topic_name\<close> returns. \<open>pp_node\<close>: the blackboard has a node.\<close>

record publish_path =
  pp_node :: bool
  pp_topic :: string
  pp_queue :: int
  pp_pub :: "(string \<times> int) option"

definition ensurePublisher :: "(string \<Rightarrow> string) \<Rightarrow> publish_path \<Rightarrow> publish_path" where
  "ensurePublisher full_name n =
     (if \<not> pp_node n then n
      else if (case pp_pub n of None \<Rightarrow> True | Some (t, _) \<Rightarrow> full_name t \<noteq> CHR ''/'' # pp_topic n)
      then n\<lparr>pp_pub := Some (pp_topic n, max 1 (pp_queue n))\<rparr> else n)"

definition PublishPath_new :: "(string \<Rightarrow> string) \<Rightarrow> bool \<Rightarrow> string option \<Rightarrow> int option \<Rightarrow> publish_path" where
  "PublishPath_new full_name node topic_port queue_port =
     ensurePublisher full_name
       \<lparr>pp_node = node, pp_topic = read_port topic_port ''remaining_plan'', pp_queue = read_port queue_port 1, pp_pub = None\<rparr>"

text \<open>A tick gives the status and what is published: the publisher and the path.\<close>

definition PublishPath_tick ::
  "(string \<Rightarrow> string) \<Rightarrow> path option \<Rightarrow> string option \<Rightarrow> int option \<Rightarrow> publish_path \<Rightarrow>
    (node_status \<times> ((string \<times> int) \<times> path) option) \<times> publish_path" where
  "PublishPath_tick full_name path_port topic_port queue_port n =
     (case path_port of
        None \<Rightarrow> ((FAILURE, None), n)
      | Some p \<Rightarrow>
          (let topic = read_port topic_port (pp_topic n); qs = read_port queue_port (pp_queue n);
               n1 = (if topic \<noteq> pp_topic n \<or> qs \<noteq> pp_queue n
                     then ensurePublisher full_name (n\<lparr>pp_topic := topic, pp_queue := qs, pp_pub := None\<rparr>) else n)
           in case pp_pub n1 of
                None \<Rightarrow> ((FAILURE, None), n1)
              | Some pub \<Rightarrow> ((SUCCESS, Some (pub, p)), n1)))"

section \<open>Theorems\<close>

text \<open>After a start, the subscription is to the topic of the port, whatever it was before; while the node is active, it stays.\<close>

lemma createROSInterfaces_topic:
  assumes "subscription s = None \<or> subscription s = Some (topic_name s)"
  shows "topic_name (createROSInterfaces t s) = t" "subscription (createROSInterfaces t s) = Some t"
  using assms by (auto simp: createROSInterfaces_def)

text \<open>The selection after the messages of one tick.\<close>

lemma fold_callbackSelect: "fold callbackSelect msgs l = (if msgs = [] then l else last msgs)"
  by (induction msgs arbitrary: l) (auto simp: callbackSelect_def)

lemma selector_tick_eq:
  "selector_tick msgs d l =
     (let l1 = (if msgs = [] then l else last msgs); s = (if l1 = [] then read_port d [] else l1)
      in if s = [] then ((FAILURE, None), []) else ((SUCCESS, Some s), s))"
  by (simp add: selector_tick_def fold_callbackSelect Let_def)

text \<open>The ticks of a selector in turn, each with its messages and its default; the result is the list of selections.\<close>

fun selections :: "(string list \<times> string option) list \<Rightarrow> string \<Rightarrow> string option list" where
  "selections [] l = []"
| "selections ((msgs, d) # ts) l = (let ((st, out), l1) = selector_tick msgs d l in out # selections ts l1)"

text \<open>What is in force: the last message, if it is not empty; without a message, what was in force; without that, the default.\<close>

fun in_force :: "(string list \<times> string option) list \<Rightarrow> string \<Rightarrow> string" where
  "in_force [] l = l"
| "in_force ((msgs, d) # ts) l =
     in_force ts (let l1 = (if msgs = [] then l else last msgs) in if l1 = [] then read_port d [] else l1)"

text \<open>The k-th tick selects what is in force after it.\<close>

lemma selections_spec:
  assumes "k < length ts"
  shows "selections ts l ! k = (let s = in_force (take (Suc k) ts) l in if s = [] then None else Some s)"
  using assms
proof (induction ts arbitrary: k l)
  case (Cons t ts)
  obtain msgs d where t: "t = (msgs, d)" by (cases t)
  show ?case
  proof (cases k)
    case 0
    then show ?thesis by (simp add: t selector_tick_eq Let_def)
  next
    case (Suc j)
    then have "j < length ts" using Cons.prems by simp
    note Cons.IH [OF this]
    then show ?thesis by (simp add: t Suc selector_tick_eq Let_def)
  qed
qed simp

text \<open>The default of the first tick that needs one stays selected when the port of the default changes.\<close>

lemma default_stays: "selections [([], Some d), ([], Some d')] [] = (if d = [] then [None, if d' = [] then None else Some d'] else [Some d, Some d])"
  by (simp add: selector_tick_eq read_port_def Let_def)

text \<open>The publisher has the topic and the queue depth of the node at all times, and every path of the port is published.\<close>

definition publisher_ok :: "publish_path \<Rightarrow> bool" where
  "publisher_ok n \<longleftrightarrow> pp_pub n = (if pp_node n then Some (pp_topic n, max 1 (pp_queue n)) else None)"

lemma PublishPath_new_ok: "publisher_ok (PublishPath_new f node t q)"
  by (simp add: PublishPath_new_def ensurePublisher_def publisher_ok_def)

lemma PublishPath_tick_ok:
  assumes "publisher_ok n"
  shows "publisher_ok (snd (PublishPath_tick f p t q n)) \<and>
    (case p of None \<Rightarrow> fst (PublishPath_tick f p t q n) = (FAILURE, None)
     | Some pth \<Rightarrow> fst (PublishPath_tick f p t q n) =
         (if pp_node n then (SUCCESS, Some ((read_port t (pp_topic n), max 1 (read_port q (pp_queue n))), pth)) else (FAILURE, None)))"
  using assms by (auto simp: PublishPath_tick_def publisher_ok_def ensurePublisher_def Let_def split: option.splits)

end
