(* ===== verification/Tree_Nodes.thy ===== *)
theory Tree_Nodes
  imports Nav3d_Msgs
begin

text \<open>
  The behaviour tree nodes as the factory of BehaviorTree.CPP sees them: the ports each class declares (\<open>providedPorts\<close> in the
  headers under \<open>plugins\<close>), the name and the default action server each library registers it with (\<open>BT_REGISTER_NODES\<close>), and
  the loading of all libraries (the constructor of \<open>BehaviorTreeEngine\<close> and \<open>generate_nav3d_tree_nodes_xml.cpp\<close>). A port with two texts has
  a name and a description; a value between them is its default. Descriptions are left out.
\<close>

section \<open>Declarations\<close>

datatype port_type =
  T_Path | T_Pose | T_Goals | T_String | T_Bool | T_Double | T_Int | T_Unsigned | T_Code | T_Codes | T_Duration
| T_Milliseconds | T_Route

datatype port_dir = Input_Port | Output_Port

datatype literal = L_Double double | L_Int int | L_Bool bool | L_String string | L_Infinity

record port_decl =
  port_dir :: port_dir
  port_name :: string
  port_type :: port_type
  port_default :: "literal option"

definition InputPort :: "port_type \<Rightarrow> string \<Rightarrow> literal option \<Rightarrow> port_decl" where
  "InputPort t n d = \<lparr>port_dir = Input_Port, port_name = n, port_type = t, port_default = d\<rparr>"

definition OutputPort :: "port_type \<Rightarrow> string \<Rightarrow> port_decl" where
  "OutputPort t n = \<lparr>port_dir = Output_Port, port_name = n, port_type = t, port_default = None\<rparr>"

text \<open>\<open>basic.insert(addition.begin(), addition.end())\<close> on a map of names: a name that is there keeps its declaration.\<close>

fun insert_ports :: "port_decl list \<Rightarrow> port_decl list \<Rightarrow> port_decl list" where
  "insert_ports ps [] = ps"
| "insert_ports ps (q # qs) =
     (if port_name q \<in> set (map port_name ps) then insert_ports ps qs else insert_ports (ps @ [q]) qs)"

text \<open>The basic ports of \<open>BtActionNode\<close> and \<open>BtCancelActionNode\<close>, which are the same.\<close>

definition providedBasicPorts :: "port_decl list \<Rightarrow> port_decl list" where
  "providedBasicPorts addition =
     insert_ports [InputPort T_String ''server_name'' None, InputPort T_Milliseconds ''server_timeout'' None] addition"

text \<open>The kind of a node is the class of BehaviorTree.CPP it derives from; the client nodes are actions.\<close>

datatype node_kind = Action_Node | Condition_Node | Control_Node | Decorator_Node

record tree_node =
  node_id :: string
  node_kind :: node_kind
  node_action :: "string option"
  node_ports :: "port_decl list"

section \<open>Nodes\<close>

definition ComputePathToPoseAction_ports :: "port_decl list" where
  "ComputePathToPoseAction_ports =
     providedBasicPorts [InputPort T_Pose ''goal'' None,
      InputPort T_Pose ''start'' None,
      InputPort T_Bool ''use_start'' None,
      InputPort T_String ''planner_id'' (Some (L_String [])),
      OutputPort T_Path ''path'',
      OutputPort T_Code ''error_code_id'',
      OutputPort T_String ''error_msg'']"

definition ComputePathToPoseAction_node :: tree_node where
  "ComputePathToPoseAction_node =
     \<lparr>node_id = ''ComputePathToPose'', node_kind = Action_Node, node_action = Some ''compute_path_to_pose'', node_ports = ComputePathToPoseAction_ports\<rparr>"

definition ComputePathThroughPosesAction_ports :: "port_decl list" where
  "ComputePathThroughPosesAction_ports =
     providedBasicPorts [InputPort T_Goals ''goals'' None,
      InputPort T_Pose ''start'' None,
      InputPort T_String ''planner_id'' (Some (L_String [])),
      OutputPort T_Path ''path'',
      OutputPort T_Code ''error_code_id'',
      OutputPort T_String ''error_msg'']"

definition ComputePathThroughPosesAction_node :: tree_node where
  "ComputePathThroughPosesAction_node =
     \<lparr>node_id = ''ComputePathThroughPoses'', node_kind = Action_Node, node_action = Some ''compute_path_through_poses'', node_ports = ComputePathThroughPosesAction_ports\<rparr>"

definition ControllerCancel_ports :: "port_decl list" where
  "ControllerCancel_ports =
     providedBasicPorts []"

definition ControllerCancel_node :: tree_node where
  "ControllerCancel_node =
     \<lparr>node_id = ''CancelControl'', node_kind = Action_Node, node_action = Some ''follow_path'', node_ports = ControllerCancel_ports\<rparr>"

definition WaitCancel_ports :: "port_decl list" where
  "WaitCancel_ports =
     providedBasicPorts []"

definition WaitCancel_node :: tree_node where
  "WaitCancel_node =
     \<lparr>node_id = ''CancelWait'', node_kind = Action_Node, node_action = Some ''wait'', node_ports = WaitCancel_ports\<rparr>"

definition SpinCancel_ports :: "port_decl list" where
  "SpinCancel_ports =
     providedBasicPorts []"

definition SpinCancel_node :: tree_node where
  "SpinCancel_node =
     \<lparr>node_id = ''CancelSpin'', node_kind = Action_Node, node_action = Some ''spin'', node_ports = SpinCancel_ports\<rparr>"

definition BackUpCancel_ports :: "port_decl list" where
  "BackUpCancel_ports =
     providedBasicPorts []"

definition BackUpCancel_node :: tree_node where
  "BackUpCancel_node =
     \<lparr>node_id = ''CancelBackUp'', node_kind = Action_Node, node_action = Some ''backup'', node_ports = BackUpCancel_ports\<rparr>"

definition AssistedTeleopCancel_ports :: "port_decl list" where
  "AssistedTeleopCancel_ports =
     providedBasicPorts []"

definition AssistedTeleopCancel_node :: tree_node where
  "AssistedTeleopCancel_node =
     \<lparr>node_id = ''CancelAssistedTeleop'', node_kind = Action_Node, node_action = Some ''assisted_teleop'', node_ports = AssistedTeleopCancel_ports\<rparr>"

definition DriveOnHeadingCancel_ports :: "port_decl list" where
  "DriveOnHeadingCancel_ports =
     providedBasicPorts []"

definition DriveOnHeadingCancel_node :: tree_node where
  "DriveOnHeadingCancel_node =
     \<lparr>node_id = ''CancelDriveOnHeading'', node_kind = Action_Node, node_action = Some ''drive_on_heading'', node_ports = DriveOnHeadingCancel_ports\<rparr>"

definition SmoothPathAction_ports :: "port_decl list" where
  "SmoothPathAction_ports =
     providedBasicPorts [InputPort T_Path ''unsmoothed_path'' None,
      InputPort T_Double ''max_smoothing_duration'' (Some (L_Double 3)),
      InputPort T_Bool ''check_for_collisions'' (Some (L_Bool False)),
      InputPort T_String ''smoother_id'' None,
      OutputPort T_Path ''smoothed_path'',
      OutputPort T_Double ''smoothing_duration'',
      OutputPort T_Bool ''was_completed'',
      OutputPort T_Code ''error_code_id'',
      OutputPort T_String ''error_msg'']"

definition SmoothPathAction_node :: tree_node where
  "SmoothPathAction_node =
     \<lparr>node_id = ''SmoothPath'', node_kind = Action_Node, node_action = Some ''smooth_path'', node_ports = SmoothPathAction_ports\<rparr>"

definition FollowPathAction_ports :: "port_decl list" where
  "FollowPathAction_ports =
     providedBasicPorts [InputPort T_Path ''path'' None,
      InputPort T_String ''controller_id'' None,
      InputPort T_String ''goal_checker_id'' None,
      InputPort T_String ''progress_checker_id'' None,
      OutputPort T_Code ''error_code_id'',
      OutputPort T_String ''error_msg'']"

definition FollowPathAction_node :: tree_node where
  "FollowPathAction_node =
     \<lparr>node_id = ''FollowPath'', node_kind = Action_Node, node_action = Some ''follow_path'', node_ports = FollowPathAction_ports\<rparr>"

definition BackUpAction_ports :: "port_decl list" where
  "BackUpAction_ports =
     providedBasicPorts [InputPort T_Double ''backup_dist'' (Some (L_Double (3 / 20))),
      InputPort T_Double ''backup_speed'' (Some (L_Double (1 / 40))),
      InputPort T_Double ''time_allowance'' (Some (L_Double 10)),
      InputPort T_Bool ''disable_collision_checks'' (Some (L_Bool False)),
      OutputPort T_Code ''error_code_id'',
      OutputPort T_String ''error_msg'']"

definition BackUpAction_node :: tree_node where
  "BackUpAction_node =
     \<lparr>node_id = ''BackUp'', node_kind = Action_Node, node_action = Some ''backup'', node_ports = BackUpAction_ports\<rparr>"

definition DriveOnHeadingAction_ports :: "port_decl list" where
  "DriveOnHeadingAction_ports =
     providedBasicPorts [InputPort T_Double ''dist_to_travel'' (Some (L_Double (3 / 20))),
      InputPort T_Double ''speed'' (Some (L_Double (1 / 40))),
      InputPort T_Double ''time_allowance'' (Some (L_Double 10)),
      InputPort T_Bool ''disable_collision_checks'' (Some (L_Bool False)),
      OutputPort T_Code ''error_code_id'',
      OutputPort T_String ''error_msg'']"

definition DriveOnHeadingAction_node :: tree_node where
  "DriveOnHeadingAction_node =
     \<lparr>node_id = ''DriveOnHeading'', node_kind = Action_Node, node_action = Some ''drive_on_heading'', node_ports = DriveOnHeadingAction_ports\<rparr>"

definition SpinAction_ports :: "port_decl list" where
  "SpinAction_ports =
     providedBasicPorts [InputPort T_Double ''spin_dist'' (Some (L_Double (157 / 100))),
      InputPort T_Double ''time_allowance'' (Some (L_Double 10)),
      InputPort T_Bool ''is_recovery'' (Some (L_Bool True)),
      InputPort T_Bool ''disable_collision_checks'' (Some (L_Bool False)),
      OutputPort T_Code ''error_code_id'',
      OutputPort T_String ''error_msg'']"

definition SpinAction_node :: tree_node where
  "SpinAction_node =
     \<lparr>node_id = ''Spin'', node_kind = Action_Node, node_action = Some ''spin'', node_ports = SpinAction_ports\<rparr>"

definition WaitAction_ports :: "port_decl list" where
  "WaitAction_ports =
     providedBasicPorts [InputPort T_Double ''wait_duration'' (Some (L_Double 1)),
      OutputPort T_Code ''error_code_id'',
      OutputPort T_String ''error_msg'']"

definition WaitAction_node :: tree_node where
  "WaitAction_node =
     \<lparr>node_id = ''Wait'', node_kind = Action_Node, node_action = Some ''wait'', node_ports = WaitAction_ports\<rparr>"

definition AssistedTeleopAction_ports :: "port_decl list" where
  "AssistedTeleopAction_ports =
     providedBasicPorts [InputPort T_Double ''time_allowance'' (Some (L_Double 10)),
      InputPort T_Bool ''is_recovery'' (Some (L_Bool False)),
      OutputPort T_Code ''error_code_id'',
      OutputPort T_String ''error_msg'']"

definition AssistedTeleopAction_node :: tree_node where
  "AssistedTeleopAction_node =
     \<lparr>node_id = ''AssistedTeleop'', node_kind = Action_Node, node_action = Some ''assisted_teleop'', node_ports = AssistedTeleopAction_ports\<rparr>"

definition IsStuckCondition_ports :: "port_decl list" where
  "IsStuckCondition_ports =
     []"

definition IsStuckCondition_node :: tree_node where
  "IsStuckCondition_node =
     \<lparr>node_id = ''IsStuck'', node_kind = Condition_Node, node_action = None, node_ports = IsStuckCondition_ports\<rparr>"

definition TransformAvailableCondition_ports :: "port_decl list" where
  "TransformAvailableCondition_ports =
     [InputPort T_String ''child'' (Some (L_String [])),
      InputPort T_String ''parent'' (Some (L_String []))]"

definition TransformAvailableCondition_node :: tree_node where
  "TransformAvailableCondition_node =
     \<lparr>node_id = ''TransformAvailable'', node_kind = Condition_Node, node_action = None, node_ports = TransformAvailableCondition_ports\<rparr>"

definition GoalReachedCondition_ports :: "port_decl list" where
  "GoalReachedCondition_ports =
     [InputPort T_Pose ''goal'' None,
      InputPort T_String ''robot_base_frame'' None]"

definition GoalReachedCondition_node :: tree_node where
  "GoalReachedCondition_node =
     \<lparr>node_id = ''GoalReached'', node_kind = Condition_Node, node_action = None, node_ports = GoalReachedCondition_ports\<rparr>"

definition ArePosesNearCondition_ports :: "port_decl list" where
  "ArePosesNearCondition_ports =
     [InputPort T_Pose ''ref_pose'' None,
      InputPort T_Pose ''target_pose'' None,
      InputPort T_String ''global_frame'' None,
      InputPort T_Double ''tolerance'' (Some (L_Double (1 / 2)))]"

definition ArePosesNearCondition_node :: tree_node where
  "ArePosesNearCondition_node =
     \<lparr>node_id = ''ArePosesNear'', node_kind = Condition_Node, node_action = None, node_ports = ArePosesNearCondition_ports\<rparr>"

definition GloballyUpdatedGoalCondition_ports :: "port_decl list" where
  "GloballyUpdatedGoalCondition_ports =
     [InputPort T_Goals ''goals'' None,
      InputPort T_Pose ''goal'' None]"

definition GloballyUpdatedGoalCondition_node :: tree_node where
  "GloballyUpdatedGoalCondition_node =
     \<lparr>node_id = ''GlobalUpdatedGoal'', node_kind = Condition_Node, node_action = None, node_ports = GloballyUpdatedGoalCondition_ports\<rparr>"

definition GoalUpdatedCondition_ports :: "port_decl list" where
  "GoalUpdatedCondition_ports =
     [InputPort T_Goals ''goals'' None,
      InputPort T_Pose ''goal'' None]"

definition GoalUpdatedCondition_node :: tree_node where
  "GoalUpdatedCondition_node =
     \<lparr>node_id = ''GoalUpdated'', node_kind = Condition_Node, node_action = None, node_ports = GoalUpdatedCondition_ports\<rparr>"

definition TimeExpiredCondition_ports :: "port_decl list" where
  "TimeExpiredCondition_ports =
     [InputPort T_Double ''seconds'' (Some (L_Double 1))]"

definition TimeExpiredCondition_node :: tree_node where
  "TimeExpiredCondition_node =
     \<lparr>node_id = ''TimeExpired'', node_kind = Condition_Node, node_action = None, node_ports = TimeExpiredCondition_ports\<rparr>"

definition PathExpiringTimerCondition_ports :: "port_decl list" where
  "PathExpiringTimerCondition_ports =
     [InputPort T_Double ''seconds'' (Some (L_Double 1)),
      InputPort T_Path ''path'' None]"

definition PathExpiringTimerCondition_node :: tree_node where
  "PathExpiringTimerCondition_node =
     \<lparr>node_id = ''PathExpiringTimer'', node_kind = Condition_Node, node_action = None, node_ports = PathExpiringTimerCondition_ports\<rparr>"

definition DistanceTraveledCondition_ports :: "port_decl list" where
  "DistanceTraveledCondition_ports =
     [InputPort T_Double ''distance'' (Some (L_Double 1)),
      InputPort T_String ''global_frame'' None,
      InputPort T_String ''robot_base_frame'' None]"

definition DistanceTraveledCondition_node :: tree_node where
  "DistanceTraveledCondition_node =
     \<lparr>node_id = ''DistanceTraveled'', node_kind = Condition_Node, node_action = None, node_ports = DistanceTraveledCondition_ports\<rparr>"

definition InitialPoseReceived_ports :: "port_decl list" where
  "InitialPoseReceived_ports =
     [InputPort T_Bool ''initial_pose_received'' None]"

definition InitialPoseReceived_node :: tree_node where
  "InitialPoseReceived_node =
     \<lparr>node_id = ''InitialPoseReceived'', node_kind = Condition_Node, node_action = None, node_ports = InitialPoseReceived_ports\<rparr>"

definition IsBatteryChargingCondition_ports :: "port_decl list" where
  "IsBatteryChargingCondition_ports =
     [InputPort T_String ''battery_topic'' (Some (L_String ''/battery_status''))]"

definition IsBatteryChargingCondition_node :: tree_node where
  "IsBatteryChargingCondition_node =
     \<lparr>node_id = ''IsBatteryCharging'', node_kind = Condition_Node, node_action = None, node_ports = IsBatteryChargingCondition_ports\<rparr>"

definition IsBatteryLowCondition_ports :: "port_decl list" where
  "IsBatteryLowCondition_ports =
     [InputPort T_Double ''min_battery'' None,
      InputPort T_String ''battery_topic'' (Some (L_String ''/battery_status'')),
      InputPort T_Bool ''is_voltage'' (Some (L_Bool False))]"

definition IsBatteryLowCondition_node :: tree_node where
  "IsBatteryLowCondition_node =
     \<lparr>node_id = ''IsBatteryLow'', node_kind = Condition_Node, node_action = None, node_ports = IsBatteryLowCondition_ports\<rparr>"

definition IsPathValidCondition_ports :: "port_decl list" where
  "IsPathValidCondition_ports =
     [InputPort T_Path ''path'' None,
      InputPort T_String ''service_name'' None,
      InputPort T_Milliseconds ''server_timeout'' None]"

definition IsPathValidCondition_node :: tree_node where
  "IsPathValidCondition_node =
     \<lparr>node_id = ''IsPathValid'', node_kind = Condition_Node, node_action = None, node_ports = IsPathValidCondition_ports\<rparr>"

definition AreErrorCodesPresent_ports :: "port_decl list" where
  "AreErrorCodesPresent_ports =
     [InputPort T_Code ''error_code'' None,
      InputPort T_Codes ''error_codes_to_check'' None]"

definition AreErrorCodesPresent_node :: tree_node where
  "AreErrorCodesPresent_node =
     \<lparr>node_id = ''AreErrorCodesPresent'', node_kind = Condition_Node, node_action = None, node_ports = AreErrorCodesPresent_ports\<rparr>"

definition WouldAControllerRecoveryHelp_node :: tree_node where
  "WouldAControllerRecoveryHelp_node =
     \<lparr>node_id = ''WouldAControllerRecoveryHelp'', node_kind = Condition_Node, node_action = None, node_ports = AreErrorCodesPresent_ports\<rparr>"

definition WouldAPlannerRecoveryHelp_node :: tree_node where
  "WouldAPlannerRecoveryHelp_node =
     \<lparr>node_id = ''WouldAPlannerRecoveryHelp'', node_kind = Condition_Node, node_action = None, node_ports = AreErrorCodesPresent_ports\<rparr>"

definition WouldASmootherRecoveryHelp_node :: tree_node where
  "WouldASmootherRecoveryHelp_node =
     \<lparr>node_id = ''WouldASmootherRecoveryHelp'', node_kind = Condition_Node, node_action = None, node_ports = AreErrorCodesPresent_ports\<rparr>"

definition WouldARouteRecoveryHelp_node :: tree_node where
  "WouldARouteRecoveryHelp_node =
     \<lparr>node_id = ''WouldARouteRecoveryHelp'', node_kind = Condition_Node, node_action = None, node_ports = AreErrorCodesPresent_ports\<rparr>"

definition RateController_ports :: "port_decl list" where
  "RateController_ports =
     [InputPort T_Double ''hz'' (Some (L_Double 10))]"

definition RateController_node :: tree_node where
  "RateController_node =
     \<lparr>node_id = ''RateController'', node_kind = Decorator_Node, node_action = None, node_ports = RateController_ports\<rparr>"

definition DistanceController_ports :: "port_decl list" where
  "DistanceController_ports =
     [InputPort T_Double ''distance'' (Some (L_Double 1)),
      InputPort T_String ''global_frame'' None,
      InputPort T_String ''robot_base_frame'' None]"

definition DistanceController_node :: tree_node where
  "DistanceController_node =
     \<lparr>node_id = ''DistanceController'', node_kind = Decorator_Node, node_action = None, node_ports = DistanceController_ports\<rparr>"

definition SpeedController_ports :: "port_decl list" where
  "SpeedController_ports =
     [InputPort T_Double ''min_rate'' (Some (L_Double (1 / 10))),
      InputPort T_Double ''max_rate'' (Some (L_Double 1)),
      InputPort T_Double ''min_speed'' (Some (L_Double 0)),
      InputPort T_Double ''max_speed'' (Some (L_Double (1 / 2))),
      InputPort T_Goals ''goals'' None,
      InputPort T_Pose ''goal'' None]"

definition SpeedController_node :: tree_node where
  "SpeedController_node =
     \<lparr>node_id = ''SpeedController'', node_kind = Decorator_Node, node_action = None, node_ports = SpeedController_ports\<rparr>"

definition TruncatePath_ports :: "port_decl list" where
  "TruncatePath_ports =
     [InputPort T_Path ''input_path'' None,
      OutputPort T_Path ''output_path'',
      InputPort T_Double ''distance'' (Some (L_Double 1))]"

definition TruncatePath_node :: tree_node where
  "TruncatePath_node =
     \<lparr>node_id = ''TruncatePath'', node_kind = Action_Node, node_action = None, node_ports = TruncatePath_ports\<rparr>"

definition ConcatenatePaths_ports :: "port_decl list" where
  "ConcatenatePaths_ports =
     [InputPort T_Path ''input_path1'' None,
      InputPort T_Path ''input_path2'' None,
      OutputPort T_Path ''output_path'']"

definition ConcatenatePaths_node :: tree_node where
  "ConcatenatePaths_node =
     \<lparr>node_id = ''ConcatenatePaths'', node_kind = Action_Node, node_action = None, node_ports = ConcatenatePaths_ports\<rparr>"

definition TruncatePathLocal_ports :: "port_decl list" where
  "TruncatePathLocal_ports =
     [InputPort T_Path ''input_path'' None,
      OutputPort T_Path ''output_path'',
      InputPort T_Double ''distance_forward'' (Some (L_Double 0)),
      InputPort T_Double ''distance_backward'' (Some (L_Double 0)),
      InputPort T_String ''robot_frame'' None,
      InputPort T_Double ''transform_tolerance'' (Some (L_Double 0)),
      InputPort T_Pose ''pose'' None,
      InputPort T_Double ''angular_distance_weight'' (Some (L_Double 0)),
      InputPort T_Double ''max_robot_pose_search_dist'' (Some (L_Infinity)),
      InputPort T_String ''mode'' (Some (L_String ''local'')),
      InputPort T_Double ''resample_distance'' (Some (L_Double 0)),
      InputPort T_Int ''max_output_poses'' (Some (L_Int 0))]"

definition TruncatePathLocal_node :: tree_node where
  "TruncatePathLocal_node =
     \<lparr>node_id = ''TruncatePathLocal'', node_kind = Action_Node, node_action = None, node_ports = TruncatePathLocal_ports\<rparr>"

definition GoalUpdater_ports :: "port_decl list" where
  "GoalUpdater_ports =
     [InputPort T_Pose ''input_goal'' None,
      InputPort T_Goals ''input_goals'' None,
      OutputPort T_Pose ''output_goal'',
      OutputPort T_Goals ''output_goals'']"

definition GoalUpdater_node :: tree_node where
  "GoalUpdater_node =
     \<lparr>node_id = ''GoalUpdater'', node_kind = Decorator_Node, node_action = None, node_ports = GoalUpdater_ports\<rparr>"

definition PathLongerOnApproach_ports :: "port_decl list" where
  "PathLongerOnApproach_ports =
     [InputPort T_Path ''path'' None,
      InputPort T_Double ''prox_len'' (Some (L_Double 3)),
      InputPort T_Double ''length_factor'' (Some (L_Double 2))]"

definition PathLongerOnApproach_node :: tree_node where
  "PathLongerOnApproach_node =
     \<lparr>node_id = ''PathLongerOnApproach'', node_kind = Decorator_Node, node_action = None, node_ports = PathLongerOnApproach_ports\<rparr>"

definition RecoveryNode_ports :: "port_decl list" where
  "RecoveryNode_ports =
     [InputPort T_Int ''number_of_retries'' (Some (L_Int 1))]"

definition RecoveryNode_node :: tree_node where
  "RecoveryNode_node =
     \<lparr>node_id = ''RecoveryNode'', node_kind = Control_Node, node_action = None, node_ports = RecoveryNode_ports\<rparr>"

definition NavigateToPoseAction_ports :: "port_decl list" where
  "NavigateToPoseAction_ports =
     providedBasicPorts [InputPort T_Pose ''goal'' None,
      InputPort T_String ''behavior_tree'' None,
      OutputPort T_Code ''error_code_id'',
      OutputPort T_String ''error_msg'']"

definition NavigateToPoseAction_node :: tree_node where
  "NavigateToPoseAction_node =
     \<lparr>node_id = ''NavigateToPose'', node_kind = Action_Node, node_action = Some ''navigate_to_pose'', node_ports = NavigateToPoseAction_ports\<rparr>"

definition NavigateThroughPosesAction_ports :: "port_decl list" where
  "NavigateThroughPosesAction_ports =
     providedBasicPorts [InputPort T_Goals ''goals'' None,
      InputPort T_String ''behavior_tree'' None,
      OutputPort T_Code ''error_code_id'',
      OutputPort T_String ''error_msg'']"

definition NavigateThroughPosesAction_node :: tree_node where
  "NavigateThroughPosesAction_node =
     \<lparr>node_id = ''NavigateThroughPoses'', node_kind = Action_Node, node_action = Some ''navigate_through_poses'', node_ports = NavigateThroughPosesAction_ports\<rparr>"

definition AppendGoalPoseToGoals_ports :: "port_decl list" where
  "AppendGoalPoseToGoals_ports =
     [InputPort T_Pose ''goal_pose'' None,
      InputPort T_Goals ''input_goals'' None,
      OutputPort T_Goals ''output_goals'']"

definition AppendGoalPoseToGoals_node :: tree_node where
  "AppendGoalPoseToGoals_node =
     \<lparr>node_id = ''AppendGoalPoseToGoals'', node_kind = Action_Node, node_action = None, node_ports = AppendGoalPoseToGoals_ports\<rparr>"

definition GetPoseFromPath_ports :: "port_decl list" where
  "GetPoseFromPath_ports =
     [InputPort T_Path ''path'' None,
      OutputPort T_Pose ''pose'',
      InputPort T_Int ''index'' (Some (L_Int 0))]"

definition GetPoseFromPath_node :: tree_node where
  "GetPoseFromPath_node =
     \<lparr>node_id = ''GetPoseFromPath'', node_kind = Action_Node, node_action = None, node_ports = GetPoseFromPath_ports\<rparr>"

definition ExtractRouteNodesAsGoals_ports :: "port_decl list" where
  "ExtractRouteNodesAsGoals_ports =
     [InputPort T_Route ''route'' None,
      OutputPort T_Goals ''goals'']"

definition ExtractRouteNodesAsGoals_node :: tree_node where
  "ExtractRouteNodesAsGoals_node =
     \<lparr>node_id = ''ExtractRouteNodesAsGoals'', node_kind = Action_Node, node_action = None, node_ports = ExtractRouteNodesAsGoals_ports\<rparr>"

definition GetNextFewGoals_ports :: "port_decl list" where
  "GetNextFewGoals_ports =
     [InputPort T_Goals ''input_goals'' None,
      InputPort T_Int ''num_goals'' None,
      OutputPort T_Goals ''output_goals'']"

definition GetNextFewGoals_node :: tree_node where
  "GetNextFewGoals_node =
     \<lparr>node_id = ''GetNextFewGoals'', node_kind = Action_Node, node_action = None, node_ports = GetNextFewGoals_ports\<rparr>"

definition GetCurrentPoseAction_ports :: "port_decl list" where
  "GetCurrentPoseAction_ports =
     [InputPort T_String ''global_frame'' None,
      InputPort T_String ''robot_base_frame'' None,
      OutputPort T_Pose ''current_pose'']"

definition GetCurrentPoseAction_node :: tree_node where
  "GetCurrentPoseAction_node =
     \<lparr>node_id = ''GetCurrentPose'', node_kind = Action_Node, node_action = None, node_ports = GetCurrentPoseAction_ports\<rparr>"

definition PipelineSequence_ports :: "port_decl list" where
  "PipelineSequence_ports =
     []"

definition PipelineSequence_node :: tree_node where
  "PipelineSequence_node =
     \<lparr>node_id = ''PipelineSequence'', node_kind = Control_Node, node_action = None, node_ports = PipelineSequence_ports\<rparr>"

definition RoundRobinNode_ports :: "port_decl list" where
  "RoundRobinNode_ports =
     []"

definition RoundRobinNode_node :: tree_node where
  "RoundRobinNode_node =
     \<lparr>node_id = ''RoundRobin'', node_kind = Control_Node, node_action = None, node_ports = RoundRobinNode_ports\<rparr>"

definition SingleTrigger_ports :: "port_decl list" where
  "SingleTrigger_ports =
     []"

definition SingleTrigger_node :: tree_node where
  "SingleTrigger_node =
     \<lparr>node_id = ''SingleTrigger'', node_kind = Decorator_Node, node_action = None, node_ports = SingleTrigger_ports\<rparr>"

definition PlannerSelector_ports :: "port_decl list" where
  "PlannerSelector_ports =
     [InputPort T_String ''default_planner'' None,
      InputPort T_String ''topic_name'' (Some (L_String ''planner_selector'')),
      OutputPort T_String ''selected_planner'']"

definition PlannerSelector_node :: tree_node where
  "PlannerSelector_node =
     \<lparr>node_id = ''PlannerSelector'', node_kind = Action_Node, node_action = None, node_ports = PlannerSelector_ports\<rparr>"

definition ControllerSelector_ports :: "port_decl list" where
  "ControllerSelector_ports =
     [InputPort T_String ''default_controller'' None,
      InputPort T_String ''topic_name'' (Some (L_String ''controller_selector'')),
      OutputPort T_String ''selected_controller'']"

definition ControllerSelector_node :: tree_node where
  "ControllerSelector_node =
     \<lparr>node_id = ''ControllerSelector'', node_kind = Action_Node, node_action = None, node_ports = ControllerSelector_ports\<rparr>"

definition SmootherSelector_ports :: "port_decl list" where
  "SmootherSelector_ports =
     [InputPort T_String ''default_smoother'' None,
      InputPort T_String ''topic_name'' (Some (L_String ''smoother_selector'')),
      OutputPort T_String ''selected_smoother'']"

definition SmootherSelector_node :: tree_node where
  "SmootherSelector_node =
     \<lparr>node_id = ''SmootherSelector'', node_kind = Action_Node, node_action = None, node_ports = SmootherSelector_ports\<rparr>"

definition GoalCheckerSelector_ports :: "port_decl list" where
  "GoalCheckerSelector_ports =
     [InputPort T_String ''default_goal_checker'' None,
      InputPort T_String ''topic_name'' (Some (L_String ''goal_checker_selector'')),
      OutputPort T_String ''selected_goal_checker'']"

definition GoalCheckerSelector_node :: tree_node where
  "GoalCheckerSelector_node =
     \<lparr>node_id = ''GoalCheckerSelector'', node_kind = Action_Node, node_action = None, node_ports = GoalCheckerSelector_ports\<rparr>"

definition ProgressCheckerSelector_ports :: "port_decl list" where
  "ProgressCheckerSelector_ports =
     [InputPort T_String ''default_progress_checker'' None,
      InputPort T_String ''topic_name'' (Some (L_String ''progress_checker_selector'')),
      OutputPort T_String ''selected_progress_checker'']"

definition ProgressCheckerSelector_node :: tree_node where
  "ProgressCheckerSelector_node =
     \<lparr>node_id = ''ProgressCheckerSelector'', node_kind = Action_Node, node_action = None, node_ports = ProgressCheckerSelector_ports\<rparr>"

definition PublishPath_ports :: "port_decl list" where
  "PublishPath_ports =
     [InputPort T_Path ''path'' None,
      InputPort T_String ''topic_name'' (Some (L_String ''remaining_plan'')),
      InputPort T_Int ''queue_size'' (Some (L_Int 1))]"

definition PublishPath_node :: tree_node where
  "PublishPath_node =
     \<lparr>node_id = ''PublishPath'', node_kind = Action_Node, node_action = None, node_ports = PublishPath_ports\<rparr>"

definition GoalUpdatedController_ports :: "port_decl list" where
  "GoalUpdatedController_ports =
     [InputPort T_Goals ''goals'' None,
      InputPort T_Pose ''goal'' None]"

definition GoalUpdatedController_node :: tree_node where
  "GoalUpdatedController_node =
     \<lparr>node_id = ''GoalUpdatedController'', node_kind = Decorator_Node, node_action = None, node_ports = GoalUpdatedController_ports\<rparr>"

definition ComputeAndTrackRouteCancel_ports :: "port_decl list" where
  "ComputeAndTrackRouteCancel_ports =
     providedBasicPorts []"

definition ComputeAndTrackRouteCancel_node :: tree_node where
  "ComputeAndTrackRouteCancel_node =
     \<lparr>node_id = ''CancelComputeAndTrackRoute'', node_kind = Action_Node, node_action = Some ''compute_and_track_route'', node_ports = ComputeAndTrackRouteCancel_ports\<rparr>"

definition ComputeAndTrackRouteAction_ports :: "port_decl list" where
  "ComputeAndTrackRouteAction_ports =
     providedBasicPorts [InputPort T_Unsigned ''start_id'' None,
      InputPort T_Unsigned ''goal_id'' None,
      InputPort T_Pose ''start'' None,
      InputPort T_Pose ''goal'' None,
      InputPort T_Bool ''use_start'' (Some (L_Bool False)),
      InputPort T_Bool ''use_poses'' (Some (L_Bool False)),
      OutputPort T_Duration ''execution_duration'',
      OutputPort T_Code ''error_code_id'',
      OutputPort T_String ''error_msg'']"

definition ComputeAndTrackRouteAction_node :: tree_node where
  "ComputeAndTrackRouteAction_node =
     \<lparr>node_id = ''ComputeAndTrackRoute'', node_kind = Action_Node, node_action = Some ''compute_and_track_route'', node_ports = ComputeAndTrackRouteAction_ports\<rparr>"

definition ComputeRouteAction_ports :: "port_decl list" where
  "ComputeRouteAction_ports =
     providedBasicPorts [InputPort T_Unsigned ''start_id'' None,
      InputPort T_Unsigned ''goal_id'' None,
      InputPort T_Pose ''start'' None,
      InputPort T_Pose ''goal'' None,
      InputPort T_Bool ''use_start'' (Some (L_Bool False)),
      InputPort T_Bool ''use_poses'' (Some (L_Bool False)),
      OutputPort T_Route ''route'',
      OutputPort T_Duration ''planning_time'',
      OutputPort T_Path ''path'',
      OutputPort T_Code ''error_code_id'',
      OutputPort T_String ''error_msg'']"

definition ComputeRouteAction_node :: tree_node where
  "ComputeRouteAction_node =
     \<lparr>node_id = ''ComputeRoute'', node_kind = Action_Node, node_action = Some ''compute_route'', node_ports = ComputeRouteAction_ports\<rparr>"

section \<open>Loading\<close>

text \<open>The libraries in the order of the build file, which is the order of \<open>BT_BUILTIN_PLUGINS\<close>.\<close>

definition builtin_plugins :: "tree_node list" where
  "builtin_plugins =
     [ComputePathToPoseAction_node, ComputePathThroughPosesAction_node, ControllerCancel_node, WaitCancel_node,
      SpinCancel_node, BackUpCancel_node, AssistedTeleopCancel_node, DriveOnHeadingCancel_node, SmoothPathAction_node,
      FollowPathAction_node, BackUpAction_node, DriveOnHeadingAction_node, SpinAction_node, WaitAction_node,
      AssistedTeleopAction_node, IsStuckCondition_node, TransformAvailableCondition_node, GoalReachedCondition_node,
      ArePosesNearCondition_node, GloballyUpdatedGoalCondition_node, GoalUpdatedCondition_node, TimeExpiredCondition_node,
      PathExpiringTimerCondition_node, DistanceTraveledCondition_node, InitialPoseReceived_node,
      IsBatteryChargingCondition_node, IsBatteryLowCondition_node, IsPathValidCondition_node, AreErrorCodesPresent_node,
      WouldAControllerRecoveryHelp_node, WouldAPlannerRecoveryHelp_node, WouldASmootherRecoveryHelp_node,
      WouldARouteRecoveryHelp_node, RateController_node, DistanceController_node, SpeedController_node, TruncatePath_node,
      ConcatenatePaths_node, TruncatePathLocal_node, GoalUpdater_node, PathLongerOnApproach_node, RecoveryNode_node,
      NavigateToPoseAction_node, NavigateThroughPosesAction_node, AppendGoalPoseToGoals_node, GetPoseFromPath_node,
      ExtractRouteNodesAsGoals_node, GetNextFewGoals_node, GetCurrentPoseAction_node, PipelineSequence_node,
      RoundRobinNode_node, SingleTrigger_node, PlannerSelector_node, ControllerSelector_node, SmootherSelector_node,
      GoalCheckerSelector_node, ProgressCheckerSelector_node, PublishPath_node, GoalUpdatedController_node,
      ComputeAndTrackRouteCancel_node, ComputeAndTrackRouteAction_node, ComputeRouteAction_node]"

text \<open>A factory is the list of its nodes; registering a name twice is an exception, with the name.\<close>

definition registerNode :: "tree_node \<Rightarrow> tree_node list \<Rightarrow> string + tree_node list" where
  "registerNode n factory = (if node_id n \<in> set (map node_id factory) then Inl (node_id n) else Inr (factory @ [n]))"

fun load_plugins :: "tree_node list \<Rightarrow> tree_node list \<Rightarrow> string + tree_node list" where
  "load_plugins [] factory = Inr factory"
| "load_plugins (p # ps) factory =
     (case registerNode p factory of Inl e \<Rightarrow> Inl e | Inr factory1 \<Rightarrow> load_plugins ps factory1)"

section \<open>Theorems\<close>

lemma load_plugins_distinct:
  assumes "distinct (map node_id (factory @ ps))"
  shows "load_plugins ps factory = Inr (factory @ ps)"
  using assms
proof (induction ps arbitrary: factory)
  case (Cons p ps)
  then have "registerNode p factory = Inr (factory @ [p])"
    by (auto simp: registerNode_def)
  with Cons.IH [of "factory @ [p]"] Cons.prems show ?case by simp
qed simp

lemma builtin_names_distinct: "distinct (map node_id builtin_plugins)"
  by code_simp

lemma builtin_ports_distinct: "list_all (\<lambda>n. distinct (map port_name (node_ports n))) builtin_plugins"
  by code_simp

end
