(* ===== verification/Tree_Ports.thy ===== *)
theory Tree_Ports
  imports Tree_Nodes BT_Subscriptions
begin

text \<open>
  The ports the plugins use against the ports they declare (\<open>Tree_Nodes\<close>). BehaviorTree.CPP refuses to read or write a port that
  is not declared with the direction and the type of the access: \<open>declared_only\<close> is the interface \<open>ports\<close> with these checks, and
  \<open>with_defaults\<close> adds the default of a declared input port that is not set. Theorems: the checks never fail in an action plugin, a
  selector or a battery condition, and the defaults in the code are those of the declarations.
\<close>

section \<open>Checked ports\<close>

fun val_type :: "port_val \<Rightarrow> port_type" where
  "val_type (PV_Path _) = T_Path"
| "val_type (PV_Pose _) = T_Pose"
| "val_type (PV_Goals _) = T_Goals"
| "val_type (PV_String _) = T_String"
| "val_type (PV_Bool _) = T_Bool"
| "val_type (PV_Double _) = T_Double"
| "val_type (PV_Nat _) = T_Unsigned"
| "val_type (PV_Code _) = T_Code"
| "val_type (PV_Duration _) = T_Duration"
| "val_type (PV_Route _) = T_Route"

definition declared :: "port_decl list \<Rightarrow> port_dir \<Rightarrow> string \<Rightarrow> port_type \<Rightarrow> bool" where
  "declared ps d n t = list_ex (\<lambda>p. port_dir p = d \<and> port_name p = n \<and> port_type p = t) ps"

definition declared_only :: "port_decl list \<Rightarrow> 'w ports \<Rightarrow> 'w ports" where
  "declared_only ps pt = pt
     \<lparr>pt_in := (\<lambda>n w. case pt_in pt n w of None \<Rightarrow> None
        | Some v \<Rightarrow> if declared ps Input_Port n (val_type v) then Some v else None),
      pt_out := (\<lambda>n v w. if declared ps Output_Port n (val_type v) then pt_out pt n v w else w)\<rparr>"

text \<open>The value of a default, where the model reads ports of its type.\<close>

fun literal_val :: "literal \<Rightarrow> port_val option" where
  "literal_val (L_Double x) = Some (PV_Double x)"
| "literal_val (L_Bool b) = Some (PV_Bool b)"
| "literal_val (L_String s) = Some (PV_String s)"
| "literal_val _ = None"

definition port_literal :: "port_decl list \<Rightarrow> string \<Rightarrow> port_val option" where
  "port_literal ps n =
     (case find (\<lambda>p. port_dir p = Input_Port \<and> port_name p = n) ps of None \<Rightarrow> None
      | Some p \<Rightarrow> Option.bind (port_default p) literal_val)"

definition with_defaults :: "port_decl list \<Rightarrow> 'w ports \<Rightarrow> 'w ports" where
  "with_defaults ps pt = pt\<lparr>pt_in := (\<lambda>n w. case pt_in pt n w of None \<Rightarrow> port_literal ps n | Some v \<Rightarrow> Some v)\<rparr>"

section \<open>Reading and writing through the checks\<close>

named_theorems checked_ports

lemma declared_reads [checked_ports]:
  "in_path (declared_only ps pt) n w = (if declared ps Input_Port n T_Path then in_path pt n w else None)"
  "in_pose (declared_only ps pt) n w = (if declared ps Input_Port n T_Pose then in_pose pt n w else None)"
  "in_goals (declared_only ps pt) n w = (if declared ps Input_Port n T_Goals then in_goals pt n w else None)"
  "in_string (declared_only ps pt) n w = (if declared ps Input_Port n T_String then in_string pt n w else None)"
  "in_bool (declared_only ps pt) n w = (if declared ps Input_Port n T_Bool then in_bool pt n w else None)"
  "in_double (declared_only ps pt) n w = (if declared ps Input_Port n T_Double then in_double pt n w else None)"
  "in_nat (declared_only ps pt) n w = (if declared ps Input_Port n T_Unsigned then in_nat pt n w else None)"
  by (auto simp: declared_only_def in_path_def in_pose_def in_goals_def in_string_def in_bool_def in_double_def in_nat_def
      split: option.splits port_val.splits)

lemma declared_writes [checked_ports]:
  "pt_out (declared_only ps pt) n v w = (if declared ps Output_Port n (val_type v) then pt_out pt n v w else w)"
  "pt_recoveries (declared_only ps pt) = pt_recoveries pt"
  "pt_set_recoveries (declared_only ps pt) = pt_set_recoveries pt"
  by (simp_all add: declared_only_def)

lemma count_recovery_declared [checked_ports]: "count_recovery (declared_only ps pt) w = count_recovery pt w"
  by (simp add: count_recovery_def declared_writes)

lemmas port_checks = declared_def providedBasicPorts_def InputPort_def OutputPort_def

text \<open>The hooks of an action, from its functions through the checks.\<close>

lemma plugin_hooks_declared:
  assumes "declared ps Output_Port ''error_code_id'' T_Code" and "declared ps Output_Port ''error_msg'' T_String"
    and "extra = extra'" and "tick = tick'" and "wait = wait'"
  shows "plugin_hooks (declared_only ps pt) c extra tick wait = plugin_hooks pt c extra' tick' wait'"
  using assms by (simp add: plugin_hooks_def out_error_def declared_writes fun_eq_iff split: option.split)

section \<open>Actions\<close>

lemma FollowPathAction_declared: "FollowPathAction (declared_only FollowPathAction_ports pt) = FollowPathAction pt"
  unfolding FollowPathAction_def
  by (rule plugin_hooks_declared)
    (simp_all add: fun_eq_iff follow_path_on_tick_def follow_path_on_wait_def FollowPathAction_ports_def port_checks checked_ports)

lemma ComputePathToPoseAction_declared:
  "ComputePathToPoseAction (declared_only ComputePathToPoseAction_ports pt) = ComputePathToPoseAction pt"
  unfolding ComputePathToPoseAction_def
  by (rule plugin_hooks_declared)
    (simp_all add: fun_eq_iff compute_path_on_tick_def out_path_def ComputePathToPoseAction_ports_def port_checks checked_ports Let_def)

lemma ComputePathThroughPosesAction_declared:
  "ComputePathThroughPosesAction (declared_only ComputePathThroughPosesAction_ports pt) = ComputePathThroughPosesAction pt"
  unfolding ComputePathThroughPosesAction_def
  by (rule plugin_hooks_declared)
    (simp_all add: fun_eq_iff compute_through_on_tick_def out_path_def ComputePathThroughPosesAction_ports_def port_checks checked_ports Let_def)

lemma SmoothPathAction_declared: "SmoothPathAction tf (declared_only SmoothPathAction_ports pt) = SmoothPathAction tf pt"
  unfolding SmoothPathAction_def
  by (rule plugin_hooks_declared)
    (simp_all add: fun_eq_iff smooth_path_on_tick_def SmoothPathAction_ports_def port_checks checked_ports split: option.split)

lemma ComputeRouteAction_declared: "ComputeRouteAction (declared_only ComputeRouteAction_ports pt) = ComputeRouteAction pt"
  unfolding ComputeRouteAction_def
  by (rule plugin_hooks_declared)
    (simp_all add: fun_eq_iff route_ports_def route_fill_def ComputeRouteAction_ports_def port_checks checked_ports Let_def)

lemma ComputeAndTrackRouteAction_declared:
  "ComputeAndTrackRouteAction (declared_only ComputeAndTrackRouteAction_ports pt) = ComputeAndTrackRouteAction pt"
  unfolding ComputeAndTrackRouteAction_def
  by (rule plugin_hooks_declared)
    (simp_all add: fun_eq_iff track_route_on_wait_def route_changed_def route_fill_def ComputeAndTrackRouteAction_ports_def
      port_checks checked_ports Let_def)

lemma NavigateToPoseAction_declared: "NavigateToPoseAction (declared_only NavigateToPoseAction_ports pt) = NavigateToPoseAction pt"
  unfolding NavigateToPoseAction_def
  by (rule plugin_hooks_declared)
    (simp_all add: fun_eq_iff navigate_to_pose_on_tick_def NavigateToPoseAction_ports_def port_checks checked_ports split: option.split)

lemma NavigateThroughPosesAction_declared:
  "NavigateThroughPosesAction (declared_only NavigateThroughPosesAction_ports pt) = NavigateThroughPosesAction pt"
  unfolding NavigateThroughPosesAction_def
  by (rule plugin_hooks_declared)
    (simp_all add: fun_eq_iff navigate_through_on_tick_def NavigateThroughPosesAction_ports_def port_checks checked_ports split: option.split)

lemma BackUpAction_declared: "BackUpAction tf (declared_only BackUpAction_ports pt) = BackUpAction tf pt"
  unfolding BackUpAction_def
  by (rule plugin_hooks_declared)
    (simp_all add: fun_eq_iff drive_initialize_def BackUpAction_ports_def port_checks checked_ports)

lemma DriveOnHeadingAction_declared: "DriveOnHeadingAction tf (declared_only DriveOnHeadingAction_ports pt) = DriveOnHeadingAction tf pt"
  unfolding DriveOnHeadingAction_def
  by (rule plugin_hooks_declared)
    (simp_all add: fun_eq_iff drive_initialize_def DriveOnHeadingAction_ports_def port_checks checked_ports)

lemma SpinAction_declared: "SpinAction tf (declared_only SpinAction_ports pt) = SpinAction tf pt"
  unfolding SpinAction_def
  by (rule plugin_hooks_declared)
    (simp_all add: fun_eq_iff spin_initialize_def SpinAction_ports_def port_checks checked_ports)

lemma WaitAction_declared: "WaitAction tf (declared_only WaitAction_ports pt) = WaitAction tf pt"
  unfolding WaitAction_def
  by (rule plugin_hooks_declared)
    (simp_all add: fun_eq_iff wait_initialize_def WaitAction_ports_def port_checks checked_ports)

lemma AssistedTeleopAction_declared:
  "AssistedTeleopAction tf (declared_only AssistedTeleopAction_ports pt) r = AssistedTeleopAction tf pt r"
  unfolding AssistedTeleopAction_def
  by (rule let_weak_cong, rule plugin_hooks_declared)
    (simp_all add: fun_eq_iff AssistedTeleopAction_ports_def port_checks checked_ports)

section \<open>Selectors and battery conditions\<close>

lemma selector_node_tick_declared:
  assumes "declared ps Input_Port ''topic_name'' T_String" and "declared ps Input_Port d T_String" and "declared ps Output_Port s T_String"
  shows "selector_node_tick d s (declared_only ps pt) = selector_node_tick d s pt"
  using assms
  by (simp add: selector_node_tick_def selector_initialize_def port_topic_def checked_ports fun_eq_iff cong: option.case_cong)

lemma IsBatteryLow_declared: "IsBatteryLow (declared_only IsBatteryLowCondition_ports pt) = IsBatteryLow pt"
  by (simp add: IsBatteryLow_def port_topic_def IsBatteryLowCondition_ports_def port_checks checked_ports fun_eq_iff Let_def)

lemma IsBatteryCharging_declared: "IsBatteryCharging (declared_only IsBatteryChargingCondition_ports pt) = IsBatteryCharging pt"
  by (simp add: IsBatteryCharging_def port_topic_def IsBatteryChargingCondition_ports_def port_checks checked_ports fun_eq_iff Let_def)

section \<open>Defaults\<close>

text \<open>Reading a port with a declared default that is the one of the code changes nothing, and neither does a port without one.\<close>

lemma default_reads [checked_ports]:
  "port_literal ps n = Some (PV_Double x) \<Longrightarrow> read_port (in_double (with_defaults ps pt) n w) x = read_port (in_double pt n w) x"
  "port_literal ps n = Some (PV_Bool b) \<Longrightarrow> read_port (in_bool (with_defaults ps pt) n w) b = read_port (in_bool pt n w) b"
  "port_literal ps n = Some (PV_String s) \<Longrightarrow> read_port (in_string (with_defaults ps pt) n w) s = read_port (in_string pt n w) s"
  by (simp_all add: with_defaults_def in_string_def in_bool_def in_double_def read_port_def split: option.splits port_val.splits)

lemma default_unset [checked_ports]:
  assumes "port_literal ps n = None"
  shows "in_path (with_defaults ps pt) n w = in_path pt n w" "in_pose (with_defaults ps pt) n w = in_pose pt n w"
    "in_goals (with_defaults ps pt) n w = in_goals pt n w" "in_string (with_defaults ps pt) n w = in_string pt n w"
    "in_bool (with_defaults ps pt) n w = in_bool pt n w" "in_nat (with_defaults ps pt) n w = in_nat pt n w"
  using assms
  by (simp_all add: with_defaults_def in_path_def in_pose_def in_goals_def in_string_def in_bool_def in_nat_def split: option.split)

lemma default_writes [checked_ports]:
  "pt_out (with_defaults ps pt) = pt_out pt"
  "pt_recoveries (with_defaults ps pt) = pt_recoveries pt"
  "pt_set_recoveries (with_defaults ps pt) = pt_set_recoveries pt"
  by (simp_all add: with_defaults_def)

lemma count_recovery_default [checked_ports]: "count_recovery (with_defaults ps pt) w = count_recovery pt w"
  by (simp add: count_recovery_def default_writes)

lemma plugin_hooks_default:
  assumes "extra = extra'" and "tick = tick'" and "wait = wait'"
  shows "plugin_hooks (with_defaults ps pt) c extra tick wait = plugin_hooks pt c extra' tick' wait'"
  using assms by (simp add: plugin_hooks_def out_error_def default_writes fun_eq_iff split: option.split)

lemmas literal_checks = port_checks port_literal_def

lemma behaviour_literals:
  "port_literal BackUpAction_ports ''backup_dist'' = Some (PV_Double (3 / 20))"
  "port_literal BackUpAction_ports ''backup_speed'' = Some (PV_Double (1 / 40))"
  "port_literal BackUpAction_ports ''time_allowance'' = Some (PV_Double 10)"
  "port_literal BackUpAction_ports ''disable_collision_checks'' = Some (PV_Bool False)"
  "port_literal DriveOnHeadingAction_ports ''dist_to_travel'' = Some (PV_Double (3 / 20))"
  "port_literal DriveOnHeadingAction_ports ''speed'' = Some (PV_Double (1 / 40))"
  "port_literal DriveOnHeadingAction_ports ''time_allowance'' = Some (PV_Double 10)"
  "port_literal DriveOnHeadingAction_ports ''disable_collision_checks'' = Some (PV_Bool False)"
  "port_literal SpinAction_ports ''spin_dist'' = Some (PV_Double (157 / 100))"
  "port_literal SpinAction_ports ''time_allowance'' = Some (PV_Double 10)"
  "port_literal SpinAction_ports ''is_recovery'' = Some (PV_Bool True)"
  "port_literal WaitAction_ports ''wait_duration'' = Some (PV_Double 1)"
  by (simp_all add: literal_checks BackUpAction_ports_def DriveOnHeadingAction_ports_def SpinAction_ports_def WaitAction_ports_def)

lemma behaviour_defaults:
  "BackUpAction tf (with_defaults BackUpAction_ports pt) = BackUpAction tf pt"
  "DriveOnHeadingAction tf (with_defaults DriveOnHeadingAction_ports pt) = DriveOnHeadingAction tf pt"
  "SpinAction tf (with_defaults SpinAction_ports pt) = SpinAction tf pt"
  "WaitAction tf (with_defaults WaitAction_ports pt) = WaitAction tf pt"
  unfolding BackUpAction_def DriveOnHeadingAction_def SpinAction_def WaitAction_def
  by (rule plugin_hooks_default;
      simp add: fun_eq_iff drive_initialize_def spin_initialize_def wait_initialize_def behaviour_literals default_reads
        count_recovery_default)+

lemma route_literals:
  "p \<in> {ComputeRouteAction_ports, ComputeAndTrackRouteAction_ports} \<Longrightarrow> port_literal p ''use_start'' = Some (PV_Bool False)"
  "p \<in> {ComputeRouteAction_ports, ComputeAndTrackRouteAction_ports} \<Longrightarrow> port_literal p ''use_poses'' = Some (PV_Bool False)"
  "p \<in> {ComputeRouteAction_ports, ComputeAndTrackRouteAction_ports} \<Longrightarrow> port_literal p ''start'' = None"
  "p \<in> {ComputeRouteAction_ports, ComputeAndTrackRouteAction_ports} \<Longrightarrow> port_literal p ''goal'' = None"
  "p \<in> {ComputeRouteAction_ports, ComputeAndTrackRouteAction_ports} \<Longrightarrow> port_literal p ''start_id'' = None"
  "p \<in> {ComputeRouteAction_ports, ComputeAndTrackRouteAction_ports} \<Longrightarrow> port_literal p ''goal_id'' = None"
  by (auto simp: literal_checks ComputeRouteAction_ports_def ComputeAndTrackRouteAction_ports_def)

lemma route_fill_default:
  assumes "p \<in> {ComputeRouteAction_ports, ComputeAndTrackRouteAction_ports}"
  shows "route_fill (with_defaults p pt) w g = route_fill pt w g" and "route_changed (with_defaults p pt) w g = route_changed pt w g"
  using route_literals [OF assms] by (simp_all add: route_fill_def route_changed_def default_reads default_unset Let_def)

lemma route_defaults:
  "ComputeRouteAction (with_defaults ComputeRouteAction_ports pt) = ComputeRouteAction pt"
  "ComputeAndTrackRouteAction (with_defaults ComputeAndTrackRouteAction_ports pt) = ComputeAndTrackRouteAction pt"
  unfolding ComputeRouteAction_def ComputeAndTrackRouteAction_def
  by (rule plugin_hooks_default; simp add: fun_eq_iff route_ports_def track_route_on_wait_def route_fill_default default_writes)+

text \<open>A smoothing request without a duration asks for three seconds.\<close>

lemma smoothing_default:
  assumes "pt_in pt ''max_smoothing_duration'' w = None"
  shows "\<exists>g. fst (smooth_path_on_tick tf (with_defaults SmoothPathAction_ports pt) w) = Inr (g, True) \<and>
    sg_max_smoothing_duration g = from_seconds tf 3"
  using assms
  by (simp add: smooth_path_on_tick_def with_defaults_def in_double_def read_port_def SmoothPathAction_ports_def literal_checks)

section \<open>Properties\<close>


end
