(* ===== verification/Shipped_Trees.thy ===== *)
theory Shipped_Trees
  imports Tree_Nodes
begin

text \<open>
  The behaviour trees of the package (\<open>nav3d_bt_navigator/behavior_trees\<close>) against the nodes of \<open>Tree_Nodes\<close>. The checks
  are those that BehaviorTree.CPP makes when it creates a tree: each element is a registered node with as many children as its kind
  allows, each attribute is a declared port, and all ports that share a blackboard entry have one type. Two more concern the
  navigators: every entry that is read is written by a node of the tree or by the navigator, and the error codes go to entries
  that \<open>BtActionServer\<close> collects. Theorem: the plugins of the package load and all trees pass.
\<close>

section \<open>Trees\<close>

datatype xml_tree = Xml (xml_tag: string) (xml_attributes: "(string \<times> string) list") (xml_children: "xml_tree list")

definition follow_point :: xml_tree where
  "follow_point =
     Xml ''PipelineSequence'' [(''name'', ''FollowDynamicPose3D'')]
       [Xml ''RateController'' [(''hz'', ''2.0'')]
          [Xml ''Sequence'' []
             [Xml ''GoalUpdater'' [(''input_goal'', ''{goal}''), (''output_goal'', ''{updated_goal}'')]
                [Xml ''ComputePathToPose'' [(''goal'', ''{updated_goal}''),
                    (''path'', ''{path}''),
                    (''planner_id'', ''Moveit''),
                    (''error_code_id'', ''{compute_path_error_code}''),
                    (''error_msg'', ''{compute_path_error_msg}'')] []],
              Xml ''TruncatePath'' [(''distance'', ''1.0''),
                 (''input_path'', ''{path}''),
                 (''output_path'', ''{truncated_path}'')] []]],
        Xml ''FollowPath'' [(''path'', ''{truncated_path}''),
           (''controller_id'', ''FollowPath''),
           (''error_code_id'', ''{follow_path_error_code}''),
           (''error_msg'', ''{follow_path_error_msg}'')] []]"

definition navigate_w_replanning_distance :: xml_tree where
  "navigate_w_replanning_distance =
     Xml ''PipelineSequence'' [(''name'', ''NavigateWithDistanceReplanning3D'')]
       [Xml ''DistanceController'' [(''distance'', ''1.0'')]
          [Xml ''ComputePathToPose'' [(''goal'', ''{goal}''),
              (''path'', ''{path}''),
              (''planner_id'', ''Moveit''),
              (''error_code_id'', ''{compute_path_error_code}''),
              (''error_msg'', ''{compute_path_error_msg}'')] []],
        Xml ''FollowPath'' [(''path'', ''{path}''),
           (''controller_id'', ''FollowPath''),
           (''error_code_id'', ''{follow_path_error_code}''),
           (''error_msg'', ''{follow_path_error_msg}'')] []]"

definition navigate_w_replanning_if_path_becomes_invalid_or_goal_is_updated :: xml_tree where
  "navigate_w_replanning_if_path_becomes_invalid_or_goal_is_updated =
     Xml ''PipelineSequence'' [(''name'', ''NavigateWithReplanning'')]
       [Xml ''ControllerSelector'' [(''selected_controller'', ''{selected_controller}''),
           (''default_controller'', ''FollowPath''),
           (''topic_name'', ''controller_selector'')] [],
        Xml ''PlannerSelector'' [(''selected_planner'', ''{selected_planner}''),
           (''default_planner'', ''Moveit''),
           (''topic_name'', ''planner_selector'')] [],
        Xml ''RateController'' [(''hz'', ''1.0'')]
          [Xml ''ReactiveFallback'' []
             [Xml ''ReactiveSequence'' []
                [Xml ''Inverter'' []
                   [Xml ''GlobalUpdatedGoal'' [] []],
                 Xml ''TruncatePathLocal'' [(''input_path'', ''{path}''),
                    (''output_path'', ''{remaining_path}''),
                    (''robot_frame'', ''base_link''),
                    (''transform_tolerance'', ''0.1''),
                    (''mode'', ''remaining''),
                    (''distance_forward'', ''5.0''),
                    (''distance_backward'', ''0.0''),
                    (''resample_distance'', ''0.0''),
                    (''max_output_poses'', ''60''),
                    (''max_robot_pose_search_dist'', ''3.0'')] [],
                 Xml ''PublishPath'' [(''path'', ''{remaining_path}''), (''topic_name'', ''remaining_plan'')] [],
                 Xml ''IsPathValid'' [(''path'', ''{remaining_path}''),
                    (''service_name'', ''is_path_valid''),
                    (''server_timeout'', ''1000'')] []],
              Xml ''ComputePathToPose'' [(''goal'', ''{goal}''),
                 (''path'', ''{path}''),
                 (''planner_id'', ''{selected_planner}''),
                 (''error_code_id'', ''{compute_path_error_code}''),
                 (''error_msg'', ''{compute_path_error_msg}'')] []]],
        Xml ''FollowPath'' [(''path'', ''{path}''),
           (''controller_id'', ''{selected_controller}''),
           (''error_code_id'', ''{follow_path_error_code}''),
           (''error_msg'', ''{follow_path_error_msg}'')] []]"

definition navigate_w_replanning_only_if_goal_is_updated :: xml_tree where
  "navigate_w_replanning_only_if_goal_is_updated =
     Xml ''PipelineSequence'' [(''name'', ''NavigateWithReplanningOnGoalUpdate'')]
       [Xml ''ControllerSelector'' [(''selected_controller'', ''{selected_controller}''),
           (''default_controller'', ''FollowPath''),
           (''topic_name'', ''controller_selector'')] [],
        Xml ''PlannerSelector'' [(''selected_planner'', ''{selected_planner}''),
           (''default_planner'', ''Moveit''),
           (''topic_name'', ''planner_selector'')] [],
        Xml ''GoalUpdatedController'' []
          [Xml ''ComputePathToPose'' [(''goal'', ''{goal}''),
              (''path'', ''{path}''),
              (''planner_id'', ''{selected_planner}''),
              (''error_code_id'', ''{compute_path_error_code}''),
              (''error_msg'', ''{compute_path_error_msg}'')] []],
        Xml ''FollowPath'' [(''path'', ''{path}''),
           (''controller_id'', ''{selected_controller}''),
           (''error_code_id'', ''{follow_path_error_code}''),
           (''error_msg'', ''{follow_path_error_msg}'')] []]"

definition navigate_w_replanning_only_if_path_becomes_invalid :: xml_tree where
  "navigate_w_replanning_only_if_path_becomes_invalid =
     Xml ''PipelineSequence'' [(''name'', ''NavigateWithReplanningOnlyIfPathInvalid'')]
       [Xml ''ControllerSelector'' [(''selected_controller'', ''{selected_controller}''),
           (''default_controller'', ''FollowPath''),
           (''topic_name'', ''controller_selector'')] [],
        Xml ''PlannerSelector'' [(''selected_planner'', ''{selected_planner}''),
           (''default_planner'', ''Moveit''),
           (''topic_name'', ''planner_selector'')] [],
        Xml ''RateController'' [(''hz'', ''1.0'')]
          [Xml ''ReactiveFallback'' []
             [Xml ''Sequence'' []
                [Xml ''TruncatePathLocal'' [(''input_path'', ''{path}''),
                    (''output_path'', ''{remaining_path}''),
                    (''mode'', ''remaining''),
                    (''distance_forward'', ''15.0''),
                    (''distance_backward'', ''0.0''),
                    (''resample_distance'', ''0.8''),
                    (''max_output_poses'', ''60''),
                    (''max_robot_pose_search_dist'', ''3.0'')] [],
                 Xml ''PublishPath'' [(''path'', ''{remaining_path}''), (''topic_name'', ''remaining_plan'')] [],
                 Xml ''IsPathValid'' [(''path'', ''{remaining_path}''),
                    (''service_name'', ''is_path_valid''),
                    (''server_timeout'', ''1000'')] []],
              Xml ''ComputePathToPose'' [(''goal'', ''{goal}''),
                 (''path'', ''{path}''),
                 (''planner_id'', ''{selected_planner}''),
                 (''error_code_id'', ''{compute_path_error_code}''),
                 (''error_msg'', ''{compute_path_error_msg}'')] []]],
        Xml ''FollowPath'' [(''path'', ''{path}''),
           (''controller_id'', ''{selected_controller}''),
           (''error_code_id'', ''{follow_path_error_code}''),
           (''error_msg'', ''{follow_path_error_msg}'')] []]"

definition navigate_w_replanning_speed :: xml_tree where
  "navigate_w_replanning_speed =
     Xml ''PipelineSequence'' [(''name'', ''NavigateWithSpeedReplanning'')]
       [Xml ''ControllerSelector'' [(''selected_controller'', ''{selected_controller}''),
           (''default_controller'', ''FollowPath''),
           (''topic_name'', ''controller_selector'')] [],
        Xml ''PlannerSelector'' [(''selected_planner'', ''{selected_planner}''),
           (''default_planner'', ''Moveit''),
           (''topic_name'', ''planner_selector'')] [],
        Xml ''SpeedController'' [(''min_rate'', ''0.1''),
           (''max_rate'', ''1.0''),
           (''min_speed'', ''0.0''),
           (''max_speed'', ''0.26'')]
          [Xml ''ComputePathToPose'' [(''goal'', ''{goal}''),
              (''path'', ''{path}''),
              (''planner_id'', ''{selected_planner}''),
              (''error_code_id'', ''{compute_path_error_code}''),
              (''error_msg'', ''{compute_path_error_msg}'')] []],
        Xml ''FollowPath'' [(''path'', ''{path}''),
           (''controller_id'', ''{selected_controller}''),
           (''error_code_id'', ''{follow_path_error_code}''),
           (''error_msg'', ''{follow_path_error_msg}'')] []]"

definition navigate_w_replanning_time :: xml_tree where
  "navigate_w_replanning_time =
     Xml ''PipelineSequence'' [(''name'', ''NavigateWithRateReplanning'')]
       [Xml ''ControllerSelector'' [(''selected_controller'', ''{selected_controller}''),
           (''default_controller'', ''FollowPath''),
           (''topic_name'', ''controller_selector'')] [],
        Xml ''PlannerSelector'' [(''selected_planner'', ''{selected_planner}''),
           (''default_planner'', ''Moveit''),
           (''topic_name'', ''planner_selector'')] [],
        Xml ''RateController'' [(''hz'', ''1.0'')]
          [Xml ''ComputePathToPose'' [(''goal'', ''{goal}''),
              (''path'', ''{path}''),
              (''planner_id'', ''{selected_planner}''),
              (''error_code_id'', ''{compute_path_error_code}''),
              (''error_msg'', ''{compute_path_error_msg}'')] []],
        Xml ''FollowPath'' [(''path'', ''{path}''),
           (''controller_id'', ''{selected_controller}''),
           (''error_code_id'', ''{follow_path_error_code}''),
           (''error_msg'', ''{follow_path_error_msg}'')] []]"

definition shipped_trees :: "xml_tree list" where
  "shipped_trees =
     [follow_point,
      navigate_w_replanning_distance,
      navigate_w_replanning_if_path_becomes_invalid_or_goal_is_updated,
      navigate_w_replanning_only_if_goal_is_updated,
      navigate_w_replanning_only_if_path_becomes_invalid,
      navigate_w_replanning_speed,
      navigate_w_replanning_time]"

section \<open>Error code prefixes\<close>

text \<open>The constructor of \<open>BtActionServer\<close>: the value of \<open>error_code_name_prefixes\<close> after it, from the parameter if it is already
  declared, and from the overrides of the node otherwise. The old parameter \<open>error_code_names\<close> is an exception.\<close>

definition default_error_prefixes :: "string list" where
  "default_error_prefixes =
     [''assisted_teleop'', ''backup'', ''compute_path'', ''dock_robot'', ''drive_on_heading'', ''follow_path'',
      ''nav_thru_poses'', ''nav_to_pose'', ''spin'', ''undock_robot'', ''wait'']"

definition declare_error_prefixes :: "bool \<Rightarrow> string list option \<Rightarrow> string list option \<Rightarrow> string list option" where
  "declare_error_prefixes has_error_code_names declared_value override =
     (if has_error_code_names then None
      else case declared_value of
             Some ps \<Rightarrow> Some ps
           | None \<Rightarrow> (case override of None \<Rightarrow> Some default_error_prefixes | Some ps \<Rightarrow> Some ps))"

section \<open>Checks\<close>

definition lookup_node :: "tree_node list \<Rightarrow> string \<Rightarrow> tree_node option" where
  "lookup_node factory tag = find (\<lambda>n. node_id n = tag) factory"

fun arity_ok :: "node_kind \<Rightarrow> nat \<Rightarrow> bool" where
  "arity_ok Action_Node n \<longleftrightarrow> n = 0"
| "arity_ok Condition_Node n \<longleftrightarrow> n = 0"
| "arity_ok Decorator_Node n \<longleftrightarrow> n = 1"
| "arity_ok Control_Node n \<longleftrightarrow> 0 < n"

definition attribute_ok :: "tree_node \<Rightarrow> string \<times> string \<Rightarrow> bool" where
  "attribute_ok n av \<longleftrightarrow> fst av \<in> {''name'', ''ID''} \<or> fst av \<in> set (map port_name (node_ports n))"

fun structure_ok :: "(string \<Rightarrow> tree_node option) \<Rightarrow> xml_tree \<Rightarrow> bool" where
  "structure_ok look (Xml tag attrs children) =
     (case look tag of
        None \<Rightarrow> False
      | Some n \<Rightarrow> list_all (attribute_ok n) attrs \<and> arity_ok (node_kind n) (length children) \<and> list_all (structure_ok look) children)"

text \<open>An attribute \<open>{key}\<close> connects its port with an entry of the blackboard.\<close>

definition entry_key :: "string \<Rightarrow> string option" where
  "entry_key v = (if v \<noteq> [] \<and> hd v = CHR ''{'' \<and> last v = CHR ''}'' then Some (butlast (tl v)) else None)"

definition attribute_binding :: "tree_node \<Rightarrow> string \<times> string \<Rightarrow> (string \<times> port_decl) list" where
  "attribute_binding n av =
     (case (entry_key (snd av), find (\<lambda>p. port_name p = fst av) (node_ports n)) of
        (Some key, Some p) \<Rightarrow> [(key, p)] | _ \<Rightarrow> [])"

fun bindings :: "(string \<Rightarrow> tree_node option) \<Rightarrow> xml_tree \<Rightarrow> (string \<times> port_decl) list" where
  "bindings look (Xml tag attrs children) =
     (case look tag of None \<Rightarrow> [] | Some n \<Rightarrow> concat (map (attribute_binding n) attrs)) @ concat (map (bindings look) children)"

definition types_ok :: "(string \<times> port_decl) list \<Rightarrow> bool" where
  "types_ok bs = list_all (\<lambda>b. list_all (\<lambda>c. fst b \<noteq> fst c \<or> port_type (snd b) = port_type (snd c)) bs) bs"

definition written_keys :: "(string \<times> port_decl) list \<Rightarrow> string list" where
  "written_keys bs = map fst (filter (\<lambda>b. port_dir (snd b) = Output_Port) bs)"

definition reads_ok :: "string list \<Rightarrow> (string \<times> port_decl) list \<Rightarrow> bool" where
  "reads_ok provided bs =
     list_all (\<lambda>b. port_dir (snd b) = Output_Port \<or> fst b \<in> set provided \<or> fst b \<in> set (written_keys bs)) bs"

definition errors_ok :: "string list \<Rightarrow> (string \<times> port_decl) list \<Rightarrow> bool" where
  "errors_ok pfs bs =
     list_all (\<lambda>b.
       (port_name (snd b) = ''error_code_id'' \<longrightarrow> fst b \<in> set (map (\<lambda>p. p @ ''_error_code'') pfs)) \<and>
       (port_name (snd b) = ''error_msg'' \<longrightarrow> fst b \<in> set (map (\<lambda>p. p @ ''_error_msg'') pfs))) bs"

definition tree_ok :: "string list \<Rightarrow> string list \<Rightarrow> (string \<Rightarrow> tree_node option) \<Rightarrow> xml_tree \<Rightarrow> bool" where
  "tree_ok pfs provided look t \<longleftrightarrow>
     structure_ok look t \<and> types_ok (bindings look t) \<and> reads_ok provided (bindings look t) \<and> errors_ok pfs (bindings look t)"

text \<open>The nodes of BehaviorTree.CPP that the trees use, as its documentation describes them; they have no ports.\<close>

definition library_nodes :: "tree_node list" where
  "library_nodes =
     [\<lparr>node_id = ''Sequence'', node_kind = Control_Node, node_action = None, node_ports = []\<rparr>,
      \<lparr>node_id = ''ReactiveSequence'', node_kind = Control_Node, node_action = None, node_ports = []\<rparr>,
      \<lparr>node_id = ''ReactiveFallback'', node_kind = Control_Node, node_action = None, node_ports = []\<rparr>,
      \<lparr>node_id = ''Inverter'', node_kind = Decorator_Node, node_action = None, node_ports = []\<rparr>]"

section \<open>Theorems\<close>

lemma lookup_member:
  assumes "distinct (map node_id ns)" and "n \<in> set ns"
  shows "lookup_node ns (node_id n) = Some n"
  using assms by (induction ns) (auto simp: lookup_node_def)

text \<open>The checks look up the elements of a tree only.\<close>

fun xml_tags :: "xml_tree \<Rightarrow> string list" where
  "xml_tags (Xml tag attrs children) = tag # concat (map xml_tags children)"

lemma structure_ok_cong: "(\<And>x. x \<in> set (xml_tags t) \<Longrightarrow> look x = look' x) \<Longrightarrow> structure_ok look t = structure_ok look' t"
proof (induction t)
  case (Xml tag attrs children)
  then have "list_all (structure_ok look) children = list_all (structure_ok look') children"
    by (intro list.pred_cong refl Xml.IH) auto
  with Xml.prems show ?case by (simp split: option.split)
qed

lemma bindings_cong: "(\<And>x. x \<in> set (xml_tags t) \<Longrightarrow> look x = look' x) \<Longrightarrow> bindings look t = bindings look' t"
proof (induction t)
  case (Xml tag attrs children)
  have "bindings look c = bindings look' c" if "c \<in> set children" for c
    using that Xml.prems by (intro Xml.IH) auto
  then have "concat (map (bindings look) children) = concat (map (bindings look') children)"
    by (metis list.map_cong0)
  with Xml.prems show ?case by simp
qed

lemma tree_ok_cong:
  assumes "\<And>x. x \<in> set (xml_tags t) \<Longrightarrow> look x = look' x"
  shows "tree_ok pfs provided look t = tree_ok pfs provided look' t"
  using structure_ok_cong [OF assms] bindings_cong [OF assms] by (simp add: tree_ok_def)

text \<open>The nodes the trees use.\<close>

definition used_nodes :: "tree_node list" where
  "used_nodes =
     [ComputePathToPoseAction_node, ControllerSelector_node, DistanceController_node, FollowPathAction_node,
      GloballyUpdatedGoalCondition_node, GoalUpdatedController_node, GoalUpdater_node, IsPathValidCondition_node,
      PipelineSequence_node, PlannerSelector_node, PublishPath_node, RateController_node,
      SpeedController_node, TruncatePath_node, TruncatePathLocal_node] @ library_nodes"

lemma used_nodes_registered: "set used_nodes \<subseteq> set (library_nodes @ builtin_plugins)"
  by (auto simp: used_nodes_def builtin_plugins_def)

lemma used_nodes_distinct: "distinct (map node_id used_nodes)"
  by code_simp

lemma follow_point_ok: "tree_ok default_error_prefixes [''goal''] (lookup_node used_nodes) follow_point"
  by code_simp

lemma navigate_w_replanning_distance_ok: "tree_ok default_error_prefixes [''goal''] (lookup_node used_nodes) navigate_w_replanning_distance"
  by code_simp

lemma navigate_w_replanning_if_path_becomes_invalid_or_goal_is_updated_ok: "tree_ok default_error_prefixes [''goal''] (lookup_node used_nodes) navigate_w_replanning_if_path_becomes_invalid_or_goal_is_updated"
  by code_simp

lemma navigate_w_replanning_only_if_goal_is_updated_ok: "tree_ok default_error_prefixes [''goal''] (lookup_node used_nodes) navigate_w_replanning_only_if_goal_is_updated"
  by code_simp

lemma navigate_w_replanning_only_if_path_becomes_invalid_ok: "tree_ok default_error_prefixes [''goal''] (lookup_node used_nodes) navigate_w_replanning_only_if_path_becomes_invalid"
  by code_simp

lemma navigate_w_replanning_speed_ok: "tree_ok default_error_prefixes [''goal''] (lookup_node used_nodes) navigate_w_replanning_speed"
  by code_simp

lemma navigate_w_replanning_time_ok: "tree_ok default_error_prefixes [''goal''] (lookup_node used_nodes) navigate_w_replanning_time"
  by code_simp

lemma shipped_trees_checked: "list_all (tree_ok default_error_prefixes [''goal''] (lookup_node used_nodes)) shipped_trees"
  by (simp add: shipped_trees_def follow_point_ok navigate_w_replanning_distance_ok navigate_w_replanning_if_path_becomes_invalid_or_goal_is_updated_ok navigate_w_replanning_only_if_goal_is_updated_ok navigate_w_replanning_only_if_path_becomes_invalid_ok navigate_w_replanning_speed_ok navigate_w_replanning_time_ok)

lemma shipped_trees_tags: "list_all (\<lambda>t. list_all (\<lambda>x. x \<in> set (map node_id used_nodes)) (xml_tags t)) shipped_trees"
  by code_simp

text \<open>What is relied on: the library has these nodes, and no other node of it has the name of a plugin.\<close>

definition library_ok :: "tree_node list \<Rightarrow> bool" where
  "library_ok lib \<longleftrightarrow> distinct (map node_id (lib @ builtin_plugins)) \<and> set library_nodes \<subseteq> set lib"

lemma lookup_library:
  assumes "library_ok lib" and "x \<in> set (map node_id used_nodes)"
  shows "lookup_node (lib @ builtin_plugins) x = lookup_node used_nodes x"
proof -
  have d: "distinct (map node_id (lib @ builtin_plugins))" and s: "set used_nodes \<subseteq> set (lib @ builtin_plugins)"
    using assms(1) used_nodes_registered by (auto simp: library_ok_def)
  from assms(2) obtain n where n: "n \<in> set used_nodes" "x = node_id n" by (metis imageE list.set_map)
  with s have "n \<in> set (lib @ builtin_plugins)" by blast
  with n show ?thesis using lookup_member [OF d] lookup_member [OF used_nodes_distinct] by simp
qed

lemma library_ok_nodes: "library_ok library_nodes"
  unfolding library_ok_def by code_simp

text \<open>C35: The behaviour tree plugins of the package all register, and every behaviour tree of the package passes the checks of a tree with
  them: known nodes with the right number of children, declared ports, one type for each blackboard entry, entries that are read are
  written (the goal by the navigator), and error codes go to entries that the server collects by default.\<close>

theorem shipped_trees_instantiate:
  assumes "library_ok lib"
  shows "\<exists>factory. load_plugins builtin_plugins lib = Inr factory \<and>
    list_all (tree_ok default_error_prefixes [''goal''] (lookup_node factory)) shipped_trees"
proof -
  have "distinct (map node_id (lib @ builtin_plugins))" using assms by (simp add: library_ok_def)
  then have "load_plugins builtin_plugins lib = Inr (lib @ builtin_plugins)" by (rule load_plugins_distinct)
  moreover have "list_all (tree_ok default_error_prefixes [''goal''] (lookup_node (lib @ builtin_plugins))) shipped_trees"
    using shipped_trees_checked shipped_trees_tags lookup_library [OF assms] unfolding list_all_iff by (metis tree_ok_cong)
  ultimately show ?thesis by blast
qed

theorem shipped_trees_instantiate_witness:
  "list_all (tree_ok default_error_prefixes [''goal''] (lookup_node (library_nodes @ builtin_plugins))) shipped_trees"
proof -
  have "load_plugins builtin_plugins library_nodes = Inr (library_nodes @ builtin_plugins)"
    using library_ok_nodes by (intro load_plugins_distinct) (simp add: library_ok_def)
  with shipped_trees_instantiate [OF library_ok_nodes] show ?thesis by simp
qed

end
