(* ===== verification/Navigation_Tree.thy ===== *)
theory Navigation_Tree
  imports BT_Control_Props BT_Clients_Props BT_Actions Shipped_Trees
begin

text \<open>
  The trees of the package at work: each is a \<open>PipelineSequence\<close> whose last child is \<open>FollowPath\<close>. The pipeline of
  \<open>BT_Control\<close> runs over arbitrary other children and, as the last one, the client node of \<open>BT_Clients\<close> with the hooks of
  \<open>BT_Actions\<close>. An exception of a child leaves the pipeline as one: the status \<open>IDLE\<close> of a tick, at which the pipeline throws. Theorem: in
  every state between two ticks or halts, the tree succeeds only on a result of the controller server for the
  goal of the node.
\<close>

section \<open>The shape of the trees\<close>

definition follow_pipeline :: "xml_tree \<Rightarrow> bool" where
  "follow_pipeline t \<longleftrightarrow> xml_tag t = ''PipelineSequence'' \<and> xml_children t \<noteq> [] \<and>
     xml_tag (last (xml_children t)) = ''FollowPath'' \<and> \<not> list_ex (\<lambda>c. ''FollowPath'' \<in> set (xml_tags c)) (butlast (xml_children t))"

lemma shipped_trees_shape: "list_all follow_pipeline shipped_trees"
  by code_simp

section \<open>The pipeline with its last child\<close>

type_synonym ('h, 'i, 'f, 'w) nav_world = "(follow_goal, 'h, 'i, act_result, 'f) action_node \<times> 'w"

definition halt_follow ::
  "client_timeouts \<Rightarrow> (follow_goal, 'h, 'i, act_result, 'f, 'w) action_client \<Rightarrow> 'w ports \<Rightarrow>
    ('h, 'i, 'f, 'w) nav_world \<Rightarrow> ('h, 'i, 'f, 'w) nav_world" where
  "halt_follow cfg cl pt = (\<lambda>(n, w).
     if an_status n = RUNNING
     then (case action_halt cfg cl (FollowPathAction pt) (n, w) of (_, n1, w1) \<Rightarrow> (n1\<lparr>an_status := IDLE\<rparr>, w1))
     else (n\<lparr>an_status := IDLE\<rparr>, w))"

definition nav_children ::
  "client_timeouts \<Rightarrow> (follow_goal, 'h, 'i, act_result, 'f, 'w) action_client \<Rightarrow> 'w ports \<Rightarrow> 'w bt_children \<Rightarrow>
    ('h, 'i, 'f, 'w) nav_world bt_children" where
  "nav_children cfg cl pt others =
     \<lparr>num_children = Suc (num_children others),
      executeTick = (\<lambda>i (n, w).
        if i < num_children others then (case executeTick others i w of (s, w1) \<Rightarrow> (s, n, w1))
        else case parent_tick cfg cl (FollowPathAction pt) (n, w) of
               (Inl _, n1, w1) \<Rightarrow> (IDLE, n1, w1)
             | (Inr s, n1, w1) \<Rightarrow> (s, n1, w1)),
      haltChild = (\<lambda>i (n, w). if i < num_children others then (n, haltChild others i w) else halt_follow cfg cl pt (n, w)),
      haltChildren = (\<lambda>(n, w). halt_follow cfg cl pt (n, haltChildren others w)),
      controlHalt = (\<lambda>(n, w). halt_follow cfg cl pt (n, controlHalt others w))\<rparr>"

section \<open>A tick of the client node that completes\<close>

definition node_waiting :: "('g, 'h, 'i, 'r, 'f) action_node \<Rightarrow> bool" where
  "node_waiting n \<longleftrightarrow> an_status n = IDLE \<or>
     an_status n = RUNNING \<and> \<not> goal_result_available n \<and> wr_code (an_result n) = RC_UNKNOWN \<and>
       (future_goal_handle n \<or> goal_handle n \<noteq> None)"

text \<open>Waiting for the result ends a tick, or goes on with a result for the goal handle.\<close>

lemma await_result_completes:
  assumes "goal_handle n \<noteq> None" and "\<not> future_goal_handle n" and "\<not> goal_result_available n"
    and "await_result cfg cl hk (n, w) = (r, n', w')"
  shows "(\<exists>e. r = Some (Inl e)) \<or> r = Some (Inr FAILURE) \<or> r = Some (Inr RUNNING) \<or>
    r = None \<and> (\<exists>h es w1. cl_spin_some cl w1 = (es, w') \<and> results_for (cl_goal_id cl h) es \<noteq> [] \<and>
      an_result n' = last (results_for (cl_goal_id cl h) es))"
proof (cases "fst (hk_on_wait_for_result hk (an_feedback n) (an_goal n) w)")
  case (Inl e)
  then show ?thesis
    using assms(4) by (auto simp: await_result_def split: prod.splits)
next
  case (Inr gu)
  then obtain g u w1 where x: "hk_on_wait_for_result hk (an_feedback n) (an_goal n) w = (Inr (g, u), w1)"
    by (metis prod.collapse)
  obtain h where h: "goal_handle n = Some h"
    using assms(1) by blast
  define n1 where "n1 = n\<lparr>an_goal := g, goal_updated := (goal_updated n \<or> u), an_feedback := None\<rparr>"
  obtain r2 n2 w2 where r2: "resend_if_updated cfg cl hk h (n1, w1) = (r2, n2, w2)"
    by (metis prod.exhaust)
  have "goal_handle n1 \<noteq> None" "\<not> future_goal_handle n1" "\<not> goal_result_available n1"
    using assms(1-3) by (simp_all add: n1_def)
  note re = resend_cases [OF this r2]
  have run: "await_result cfg cl hk (n, w) = (case r2 of Some r \<Rightarrow> (Some r, n2, w2) | None \<Rightarrow>
      (let (es, w3) = cl_spin_some cl w2 in
       case run_callbacks cl es n2 of Inl x \<Rightarrow> (Some (Inl x), n2, w3)
       | Inr n3 \<Rightarrow> (if goal_result_available n3 then None else Some (Inr RUNNING), n3, w3)))"
    using x h r2 by (simp add: await_result_def n1_def Let_def split: option.split)
  show ?thesis
  proof (cases r2)
    case None
    then obtain h2 where h2: "goal_handle n2 = Some h2" "\<not> future_goal_handle n2" "\<not> goal_result_available n2"
      using re by auto
    obtain es w3 where es: "cl_spin_some cl w2 = (es, w3)"
      by (rule prod.exhaust)
    obtain n3 where n3: "run_callbacks cl es n2 = Inr n3"
      "goal_result_available n3 \<longleftrightarrow> results_for (cl_goal_id cl h2) es \<noteq> []"
      "results_for (cl_goal_id cl h2) es \<noteq> [] \<Longrightarrow> an_result n3 = last (results_for (cl_goal_id cl h2) es)"
      using run_callbacks_results [OF h2(2,1), of cl es] h2(3) by (auto simp: Let_def)
    have "r = (if goal_result_available n3 then None else Some (Inr RUNNING))" "n' = n3" "w' = w3"
      using assms(4) run None es n3(1) by auto
    then show ?thesis
      using es n3(2,3) by auto
  next
    case (Some q)
    then have "r = Some q"
      using assms(4) run by simp
    then show ?thesis
      using re Some by auto
  qed
qed

text \<open>The parts of a tick, each for the node the one before leaves.\<close>

lemma tick_begin_waiting:
  assumes "node_waiting n" and "tick_begin cl hk (n, w) = (r, n', w')"
  shows "r \<noteq> Some (Inr RUNNING) \<and> (\<forall>s. r = Some (Inr s) \<longrightarrow> s = FAILURE) \<and>
    (r = None \<longrightarrow> \<not> goal_result_available n' \<and> wr_code (an_result n') = RC_UNKNOWN \<and> (future_goal_handle n' \<or> goal_handle n' \<noteq> None))"
  using assms
  by (auto simp: tick_begin_def node_waiting_def isStatusActive_def Let_def send_new_goal_def empty_result_def
      split: prod.splits sum.splits if_splits)

text \<open>A tick that completes with something else than a failure has got a result in this tick.\<close>

lemma action_tick_completes:
  assumes "node_waiting n" and "action_tick cfg cl hk (n, w) = (Inr s, n', w')" and "s \<noteq> RUNNING" and "s \<noteq> FAILURE"
  shows "\<exists>h es w1 w2 m. cl_spin_some cl w1 = (es, w2) \<and> results_for (cl_goal_id cl h) es \<noteq> [] \<and>
    an_result m = last (results_for (cl_goal_id cl h) es) \<and> tick_finish hk (m, w2) = (Inr s, n', w')"
proof -
  obtain r1 n1 w1 where 1: "tick_begin cl hk (n, w) = (r1, n1, w1)"
    by (metis prod.exhaust)
  note start = tick_begin_waiting [OF assms(1) 1]
  have r1: "r1 = None"
    using assms(2-4) 1 start by (cases r1) (auto simp: action_tick_def)
  obtain r2 n2 w2 where 2: "(if future_goal_handle n1 then await_ack cfg cl hk (n1, w1) else (None, n1, w1)) = (r2, n2, w2)"
    by (metis prod.exhaust)
  have ack: "\<not> goal_result_available n2" "wr_code (an_result n2) = RC_UNKNOWN"
      "r2 = None \<Longrightarrow> \<not> future_goal_handle n2 \<and> goal_handle n2 \<noteq> None"
      "r2 = None \<or> r2 = Some (Inr FAILURE) \<or> r2 = Some (Inr RUNNING)"
    using await_ack_cases [of n1 cfg cl hk w1 r2 n2 w2] start r1 2 by (auto split: if_splits)
  have r2: "r2 = None"
    using assms(2-4) 1 r1 2 ack(4) by (auto simp: action_tick_def)
  have tick: "action_tick cfg cl hk (n, w) =
      (if cl_ok cl w2 then case await_result cfg cl hk (n2, w2) of (Some r, s3) \<Rightarrow> (r, s3) | (None, s3) \<Rightarrow> tick_finish hk s3
       else tick_finish hk (n2, w2))"
    using 1 r1 2 r2 ack(1) by (simp add: action_tick_def split: prod.split option.split)
  have ok: "cl_ok cl w2"
    using assms(2) tick ack(2) by (auto simp: tick_finish_def split: if_splits)
  obtain r3 n3 w3 where 3: "await_result cfg cl hk (n2, w2) = (r3, n3, w3)"
    by (metis prod.exhaust)
  have r3: "r3 = None"
    using await_result_completes [of n2 cfg cl hk w2 r3 n3 w3] ack(1) ack(3) [OF r2] assms(2-4) tick ok 3 by auto
  then have "\<exists>h es w4. cl_spin_some cl w4 = (es, w3) \<and> results_for (cl_goal_id cl h) es \<noteq> [] \<and>
      an_result n3 = last (results_for (cl_goal_id cl h) es)"
    using await_result_completes [of n2 cfg cl hk w2 r3 n3 w3] ack(1) ack(3) [OF r2] 3 by simp
  moreover have "tick_finish hk (n3, w3) = (Inr s, n', w')"
    using assms(2) tick ok 3 r3 by simp
  ultimately show ?thesis
    by blast
qed

section \<open>The invariant of the tree\<close>

text \<open>\<open>FollowPath\<close> finishes with SUCCESS or FAILURE, and with SUCCESS it only clears the error ports.\<close>

lemma follow_finish:
  assumes "tick_finish (FollowPathAction pt) (m, w) = (Inr s, n', w')"
  shows "s = FAILURE \<or> s = SUCCESS \<and> wr_code (an_result m) \<in> {RC_SUCCEEDED, RC_CANCELED} \<and> w' = out_error pt 0 [] w"
  using assms
  by (cases "wr_code (an_result m)") (auto simp: tick_finish_def FollowPathAction_def plugin_hooks_def Let_def split: prod.splits)

lemma await_ack_waiting:
  assumes "future_goal_handle n" and "\<not> goal_result_available n" and "wr_code (an_result n) = RC_UNKNOWN"
    and "await_ack cfg cl hk (n, w) = (Some (Inr RUNNING), n', w')"
  shows "\<not> goal_result_available n' \<and> wr_code (an_result n') = RC_UNKNOWN \<and> (future_goal_handle n' \<or> goal_handle n' \<noteq> None)"
  using await_ack_cases [OF assms(1,4)] assms(2,3) by auto

text \<open>A node that waited and stays running waits.\<close>

lemma await_result_waiting:
  assumes "goal_handle n \<noteq> None" and "\<not> future_goal_handle n" and "\<not> goal_result_available n" and "wr_code (an_result n) = RC_UNKNOWN"
    and "await_result cfg cl hk (n, w) = (Some (Inr RUNNING), n', w')"
  shows "\<not> goal_result_available n' \<and> wr_code (an_result n') = RC_UNKNOWN \<and> (future_goal_handle n' \<or> goal_handle n' \<noteq> None)"
proof -
  obtain g u w1 where x: "hk_on_wait_for_result hk (an_feedback n) (an_goal n) w = (Inr (g, u), w1)"
    using assms(5) by (auto simp: await_result_def split: prod.splits sum.splits)
  obtain h where h: "goal_handle n = Some h"
    using assms(1) by blast
  define n1 where "n1 = n\<lparr>an_goal := g, goal_updated := (goal_updated n \<or> u), an_feedback := None\<rparr>"
  obtain r2 n2 w2 where r2: "resend_if_updated cfg cl hk h (n1, w1) = (r2, n2, w2)"
    by (metis prod.exhaust)
  have n1: "goal_handle n1 \<noteq> None" "\<not> future_goal_handle n1" "\<not> goal_result_available n1" "an_result n1 = an_result n"
    using assms(1-3) by (simp_all add: n1_def)
  note re = resend_cases [OF n1(1-3) r2]
  have run: "await_result cfg cl hk (n, w) = (case r2 of Some r \<Rightarrow> (Some r, n2, w2) | None \<Rightarrow>
      (let (es, w3) = cl_spin_some cl w2 in
       case run_callbacks cl es n2 of Inl x \<Rightarrow> (Some (Inl x), n2, w3)
       | Inr n3 \<Rightarrow> (if goal_result_available n3 then None else Some (Inr RUNNING), n3, w3)))"
    using x h r2 by (simp add: await_result_def n1_def Let_def split: option.split)
  show ?thesis
  proof (cases r2)
    case None
    obtain es w3 where es: "cl_spin_some cl w2 = (es, w3)"
      by (rule prod.exhaust)
    obtain n3 where n3: "run_callbacks cl es n2 = Inr n3" "same_goal n2 n3"
      using run_callbacks_safe [of n2 cl es] re None by auto
    have ok: "result_ok n2"
      using re n1(4) assms(4) by (simp add: result_ok_def)
    have "\<not> goal_result_available n3" "n' = n3"
      using assms(5) run None es n3(1) by (auto split: if_splits)
    then show ?thesis
      using n3(2) ok re None by (auto simp: same_goal_def result_ok_def)
  next
    case (Some q)
    then show ?thesis
      using assms(4,5) run re n1(4) by auto
  qed
qed

lemma parent_tick_waiting:
  assumes "node_waiting n" and "parent_tick cfg cl (FollowPathAction pt) (n, w) = (Inr s, n', w')"
  shows "node_waiting n'"
proof (cases "s = RUNNING")
  case False
  then show ?thesis
    using assms(2) by (auto simp: parent_tick_def node_waiting_def split: prod.splits sum.splits)
next
  case True
  let ?hk = "FollowPathAction pt"
  obtain m where t: "action_tick cfg cl ?hk (n, w) = (Inr RUNNING, m, w')" and n': "n' = m\<lparr>an_status := RUNNING\<rparr>"
    using assms(2) True by (auto simp: parent_tick_def split: prod.splits sum.splits if_splits)
  obtain r1 n1 w1 where 1: "tick_begin cl ?hk (n, w) = (r1, n1, w1)"
    by (metis prod.exhaust)
  note start = tick_begin_waiting [OF assms(1) 1]
  have r1: "r1 = None"
    using t 1 start by (cases r1) (auto simp: action_tick_def)
  obtain r2 n2 w2 where 2: "(if future_goal_handle n1 then await_ack cfg cl ?hk (n1, w1) else (None, n1, w1)) = (r2, n2, w2)"
    by (metis prod.exhaust)
  have "\<not> goal_result_available m \<and> wr_code (an_result m) = RC_UNKNOWN \<and> (future_goal_handle m \<or> goal_handle m \<noteq> None)"
  proof (cases r2)
    case (Some q)
    then have "q = Inr RUNNING" "m = n2"
      using t 1 r1 2 by (simp_all add: action_tick_def)
    then show ?thesis
      using await_ack_waiting [of n1 cfg cl ?hk w1 n2 w2] start r1 2 Some by (auto split: if_splits)
  next
    case None
    have ack: "\<not> goal_result_available n2" "wr_code (an_result n2) = RC_UNKNOWN" "\<not> future_goal_handle n2" "goal_handle n2 \<noteq> None"
      using await_ack_cases [of n1 cfg cl ?hk w1 r2 n2 w2] start r1 2 None by (auto split: if_splits)
    obtain r3 n3 w3 where 3: "await_result cfg cl ?hk (n2, w2) = (r3, n3, w3)"
      by (metis prod.exhaust)
    have f: "tick_finish ?hk x \<noteq> (Inr RUNNING, m, w')" for x
      using follow_finish [of pt "fst x" "snd x" RUNNING m w'] by auto
    have "cl_ok cl w2 \<and> r3 = Some (Inr RUNNING) \<and> n3 = m"
      using t 1 r1 2 None ack(1) 3 f by (auto simp: action_tick_def split: if_splits option.splits)
    then show ?thesis
      using await_result_waiting [of n2 cfg cl ?hk w2 n3 w3] ack 3 by auto
  qed
  then show ?thesis
    by (simp add: n' node_waiting_def)
qed

lemma halt_follow_waiting: "node_waiting (fst (halt_follow cfg cl pt s))"
  by (auto simp: halt_follow_def node_waiting_def split: prod.splits)

lemma tick_all_waiting:
  assumes "tick_all (nav_children cfg cl pt others) is (n, w) = (ss, n', w')" and "node_waiting n" and "IDLE \<notin> set ss"
  shows "node_waiting n'"
  using assms
proof (induction "is" arbitrary: n w ss)
  case (Cons i "is")
  obtain s n1 w1 where t: "executeTick (nav_children cfg cl pt others) i (n, w) = (s, n1, w1)"
    by (metis prod.exhaust)
  obtain ss' where ss: "tick_all (nav_children cfg cl pt others) is (n1, w1) = (ss', n', w')" "ss = s # ss'"
    using Cons.prems(1) t by (auto split: prod.splits)
  have "node_waiting n1"
    using t Cons.prems(2,3) ss(2) parent_tick_waiting [of n cfg cl pt w _ n1 w1]
    by (auto simp: nav_children_def split: if_splits prod.splits sum.splits)
  then show ?case
    using Cons.IH [OF ss(1)] Cons.prems(3) ss(2) by simp
qed simp

lemma no_stop_not_idle: "no_stop p i ss \<Longrightarrow> IDLE \<notin> set ss"
  by (induction ss arbitrary: i) (auto simp: stops_def)

text \<open>The states of the tree between two ticks, an invariant of ticks and halts.\<close>

definition nav_inv ::
  "'w bt_children \<Rightarrow> pipeline \<Rightarrow> (follow_goal, 'h, 'i, act_result, 'f) action_node \<Rightarrow> bool" where
  "nav_inv others p n \<longleftrightarrow> node_waiting n \<and> last_child_ticked p \<le> num_children others"

lemma nav_inv_start: "nav_inv others \<lparr>last_child_ticked = 0\<rparr> (action_node_init g)"
  by (simp add: nav_inv_def node_waiting_def action_node_init_def)

lemma nav_inv_tick:
  assumes "nav_inv others p (fst s)" and "pipeline_tick (nav_children cfg cl pt others) p s = (Inr r, p', s')"
  shows "nav_inv others p' (fst s')"
proof -
  let ?ch = "nav_children cfg cl pt others"
  have n: "num_children ?ch = Suc (num_children others)"
    by (simp add: nav_children_def)
  have h: "node_waiting (fst (haltChildren ?ch x))" for x
    by (cases x) (simp add: nav_children_def halt_follow_waiting)
  from pipeline_loop_spec [of 0 ?ch s p 0, OF le0] show ?thesis
  proof (elim disjE exE conjE)
    fix ss w1
    assume "pipeline_loop ?ch 0 0 p s = pipeline_finished ?ch p (0 + count_list ss SKIPPED = num_children ?ch) w1"
    then show ?thesis
      using assms(2) h [of w1] by (auto simp: nav_inv_def pipeline_tick_def pipeline_finished_def)
  next
    fix m ss st w1
    assume *: "m < num_children ?ch" "tick_all ?ch [0..<Suc m] s = (ss @ [st], w1)" "no_stop p 0 ss" "stops p m st"
      "pipeline_loop ?ch 0 0 p s = pipeline_stopped ?ch p m st w1"
    have "node_waiting (fst w1)" if "st \<noteq> IDLE"
      using tick_all_waiting [of cfg cl pt others "[0..<Suc m]" "fst s" "snd s" "ss @ [st]" "fst w1" "snd w1"] *(2)
        assms(1) no_stop_not_idle [OF *(3)] that by (auto simp: nav_inv_def)
    then show ?thesis
      using assms(2) *(1,5) h [of w1] n by (auto simp: nav_inv_def pipeline_tick_def pipeline_stopped_def split: if_splits)
  qed
qed

text \<open>A halt brings the tree there from any state, also from one that an exception left.\<close>

lemma nav_inv_halt:
  assumes "pipeline_halt (nav_children cfg cl pt others) p s = (p', s')"
  shows "nav_inv others p' (fst s')"
  using assms by (cases s) (auto simp: nav_inv_def pipeline_halt_def nav_children_def halt_follow_waiting)

section \<open>Success of the tree\<close>

lemma tick_all_append:
  "tick_all ch (is @ js) w = (case tick_all ch is w of (ss, w1) \<Rightarrow> case tick_all ch js w1 of (ts, w2) \<Rightarrow> (ss @ ts, w2))"
  by (induction "is" arbitrary: w) (auto split: prod.splits)

lemma no_stop_snoc: "no_stop p i (ss @ [s]) \<longleftrightarrow> no_stop p i ss \<and> \<not> stops p (i + length ss) s"
  by (simp add: no_stop_def enumerate_append_eq)

lemma pipeline_success:
  assumes "pipeline_tick ch p w = (Inr SUCCESS, p', w')"
  shows "\<exists>ss w1. tick_all ch [0..<num_children ch] w = (ss, w1) \<and> no_stop p 0 ss \<and> p' = p\<lparr>last_child_ticked := 0\<rparr> \<and>
    w' = haltChildren ch w1"
  using pipeline_loop_spec [of 0 ch w p 0, OF le0]
proof (elim disjE exE conjE)
  fix ss w1
  assume "tick_all ch [0..<num_children ch] w = (ss, w1)" "no_stop p 0 ss"
    "pipeline_loop ch 0 0 p w = pipeline_finished ch p (0 + count_list ss SKIPPED = num_children ch) w1"
  then show ?thesis
    using assms by (auto simp: pipeline_tick_def pipeline_finished_def)
next
  fix m ss st w1
  assume "pipeline_loop ch 0 0 p w = pipeline_stopped ch p m st w1"
  then show ?thesis
    using assms by (auto simp: pipeline_tick_def pipeline_stopped_def split: if_splits)
qed

text \<open>What a success of the tree rests on: the executor ran callbacks with a result for the goal of the node, the last of
  them reports success or cancellation, and \<open>FollowPath\<close> then cleared its error ports.\<close>

definition controller_result ::
  "(follow_goal, 'h, 'i, act_result, 'f, 'w) action_client \<Rightarrow> 'w ports \<Rightarrow> ('i, act_result) wrapped_result \<Rightarrow> 'w \<Rightarrow> bool" where
  "controller_result cl pt r w' \<longleftrightarrow> (\<exists>h es w1 w2. cl_spin_some cl w1 = (es, w2) \<and> results_for (cl_goal_id cl h) es \<noteq> [] \<and>
     r = last (results_for (cl_goal_id cl h) es) \<and> wr_code r \<in> {RC_SUCCEEDED, RC_CANCELED} \<and> w' = out_error pt 0 [] w2)"

text \<open>A tick that returns SUCCESS has executed the other children and then \<open>FollowPath\<close>, which got in this tick a result for its own
  goal with the code of success or cancellation; then all children are halted.\<close>

lemma navigation_success_needs_controller:
  assumes "nav_inv others p (fst s)"
    and "pipeline_tick (nav_children cfg cl pt others) p s = (Inr SUCCESS, p', s')"
  shows "\<exists>n w r. controller_result cl pt r w \<and> s' = haltChildren (nav_children cfg cl pt others) (n, w) \<and>
    last_child_ticked p' = 0"
proof -
  let ?ch = "nav_children cfg cl pt others" and ?n = "num_children others"
  have inv: "node_waiting (fst s)" "last_child_ticked p \<le> num_children others"
    using assms(1) by (simp_all add: nav_inv_def)
  have nc: "num_children ?ch = Suc ?n"
    by (simp add: nav_children_def)
  obtain ss w1 where 1: "tick_all ?ch [0..<num_children ?ch] s = (ss, w1)" "no_stop p 0 ss"
    "p' = p\<lparr>last_child_ticked := 0\<rparr>" "s' = haltChildren ?ch w1"
    using pipeline_success [OF assms(2)] by blast
  obtain ss1 n1 w0 where first: "tick_all ?ch [0..<?n] s = (ss1, n1, w0)"
    by (metis prod.exhaust)
  obtain st where last: "executeTick ?ch ?n (n1, w0) = (st, w1)" and ss: "ss = ss1 @ [st]"
    using 1(1) first by (auto simp: nc tick_all_append split: prod.splits)
  have len: "length ss1 = ?n"
    using tick_all_length [OF first] by simp
  then have st: "no_stop p 0 ss1" "\<not> stops p ?n st"
    using 1(2) by (simp_all add: ss no_stop_snoc)
  have "node_waiting n1"
    using tick_all_waiting [of cfg cl pt others "[0..<?n]" "fst s" "snd s" ss1 n1 w0] first inv no_stop_not_idle [OF st(1)]
    by simp
  obtain n2 w2 where w1: "w1 = (n2, w2)"
    by (metis prod.exhaust)
  have "parent_tick cfg cl (FollowPathAction pt) (n1, w0) = (Inr st, n2, w2)"
    using last st(2) by (auto simp: nav_children_def w1 stops_def split: prod.splits sum.splits)
  then obtain n3 where t: "action_tick cfg cl (FollowPathAction pt) (n1, w0) = (Inr st, n3, w2)"
    by (auto simp: parent_tick_def split: prod.splits sum.splits)
  have "st \<noteq> RUNNING" "st \<noteq> FAILURE"
    using st(2) inv by (auto simp: stops_def)
  from action_tick_completes [OF \<open>node_waiting n1\<close> t this] obtain h es v1 v2 m where
    v: "cl_spin_some cl v1 = (es, v2)" "results_for (cl_goal_id cl h) es \<noteq> []"
      "an_result m = last (results_for (cl_goal_id cl h) es)" "tick_finish (FollowPathAction pt) (m, v2) = (Inr st, n3, w2)"
    by blast
  with follow_finish [OF v(4)] \<open>st \<noteq> FAILURE\<close> have "controller_result cl pt (an_result m) w2"
    by (auto simp: controller_result_def)
  moreover have "s' = haltChildren ?ch (n2, w2)" "last_child_ticked p' = 0"
    using 1(3,4) by (simp_all add: w1)
  ultimately show ?thesis
    by blast
qed

text \<open>A server that accepts the goal and cancels it at once: the tree succeeds in its first tick.\<close>

definition cancelling_client :: "(follow_goal, nat, nat, act_result, nat, nat) action_client" where
  "cancelling_client = \<lparr>cl_now = (\<lambda>w. (0, w)), cl_ok = (\<lambda>w. True), cl_send_goal = (\<lambda>g w. w + 1),
     cl_spin_goal = (\<lambda>d w. ((FRC_SUCCESS, Some 1), [], w)),
     cl_spin_some = (\<lambda>w. ([Result_Callback \<lparr>wr_goal_id = Some 1, wr_code = RC_CANCELED, wr_result = None\<rparr>], w)),
     cl_status = (\<lambda>h w. STATUS_CANCELED), cl_goal_id = (\<lambda>h. h), cl_cancel_goal = (\<lambda>h w. w),
     cl_spin_cancel = (\<lambda>d w. (FRC_SUCCESS, [], w)), cl_spin_result = (\<lambda>d w. (FRC_SUCCESS, [], w))\<rparr>"

definition silent_ports :: "nat ports" where
  "silent_ports = \<lparr>pt_in = (\<lambda>n w. None), pt_out = (\<lambda>n v w. w), pt_recoveries = (\<lambda>w. None), pt_set_recoveries = (\<lambda>k w. w)\<rparr>"

definition no_others :: "nat bt_children" where
  "no_others = \<lparr>num_children = 0, executeTick = (\<lambda>i w. (SUCCESS, w)), haltChild = (\<lambda>i w. w), haltChildren = (\<lambda>w. w), controlHalt = (\<lambda>w. w)\<rparr>"

definition empty_follow_goal :: follow_goal where
  "empty_follow_goal = \<lparr>fg_path = default_path, fg_controller_id = [], fg_goal_checker_id = [], fg_progress_checker_id = []\<rparr>"

lemma cancelled_run:
  "fst (pipeline_tick (nav_children sim_timeouts cancelling_client silent_ports no_others) \<lparr>last_child_ticked = 0\<rparr>
     (action_node_init empty_follow_goal, 0)) = Inr SUCCESS"
  by (simp add: pipeline_tick_def pipeline_loop.simps nav_children_def no_others_def parent_tick_def action_tick_def tick_begin_def
      action_node_init_def isStatusActive_def FollowPathAction_def plugin_hooks_def follow_path_on_tick_def follow_path_on_wait_def
      send_new_goal_def cancelling_client_def await_ack_def is_future_goal_handle_complete_def sim_timeouts_def to_ms_def
      await_result_def resend_if_updated_def tick_finish_def silent_ports_def in_path_def in_string_def read_port_def
      empty_follow_goal_def out_error_def Let_def)

lemma cancelled_follow_path_succeeds:
  "\<exists>r w. controller_result cancelling_client silent_ports r w \<and> wr_code r = RC_CANCELED"
proof -
  let ?ch = "nav_children sim_timeouts cancelling_client silent_ports no_others"
  obtain p' s' where "pipeline_tick ?ch \<lparr>last_child_ticked = 0\<rparr> (action_node_init empty_follow_goal, 0) = (Inr SUCCESS, p', s')"
    using cancelled_run by (metis prod.collapse)
  from navigation_success_needs_controller [OF _ this] obtain r w where "controller_result cancelling_client silent_ports r w"
    using nav_inv_start [of no_others empty_follow_goal] by auto
  then show ?thesis
    by (auto simp: controller_result_def cancelling_client_def results_for_def split: if_splits)
qed

end
