(* ===== verification/Navigation_Stack.thy ===== *)
theory Navigation_Stack
  imports Navigators_Props Navigation_Tree
begin

text \<open>
  The navigation server with its tree: \<open>NavigateToPoseNavigator\<close> runs \<open>executeCallback\<close> of \<open>BtActionServer\<close>, whose engine ticks a tree of
  the package, \<open>PipelineSequence\<close> over \<open>FollowPath\<close>. The world of the server is the tree with the world outside; loading a tree
  replaces it by a new one, a halt is the halt of the pipeline. The locale \<open>tree_callbacks\<close> says which callbacks leave the tree in order; both
  navigators meet it. Theorem: over any sequence of goals, a goal succeeds only on a report of the controller server.
\<close>

section \<open>The server over the tree\<close>

type_synonym ('h, 'i, 'f, 'w) stack_world = "pipeline \<times> ('h, 'i, 'f, 'w) nav_world"

definition outer :: "('w \<Rightarrow> 'r \<times> 'w) \<Rightarrow> ('h, 'i, 'f, 'w) stack_world \<Rightarrow> 'r \<times> ('h, 'i, 'f, 'w) stack_world" where
  "outer f = (\<lambda>(p, n, w). case f w of (r, w1) \<Rightarrow> (r, p, n, w1))"

text \<open>The environment of the navigator; \<open>createTreeFromFile\<close> leaves the old tree when it throws.\<close>

definition stack_env :: "follow_goal \<Rightarrow> 'w nav_env \<Rightarrow> ('h, 'i, 'f, 'w) stack_world nav_env" where
  "stack_env g env =
     \<lparr>nav_tf = (\<lambda>q f d. outer (nav_tf env q f d)), nav_now = outer (nav_now env),
      nav_smoother = (\<lambda>(p, n, w). nav_smoother env w), nav_from_seconds = nav_from_seconds env,
      nav_files = \<lparr>file_good = (\<lambda>f (p, n, w). file_good (nav_files env) f w),
        create_tree = (\<lambda>f (p, n, w). case create_tree (nav_files env) f w of
          (ok, w1) \<Rightarrow> (ok, if ok then (\<lparr>last_child_ticked = 0\<rparr>, action_node_init g, w1) else (p, n, w1)))\<rparr>\<rparr>"

definition tree_tick ::
  "client_timeouts \<Rightarrow> (follow_goal, 'k, 'i, act_result, 'f, 'w) action_client \<Rightarrow> 'w ports \<Rightarrow> 'w bt_children \<Rightarrow>
    ('k, 'i, 'f, 'w) stack_world \<Rightarrow> (bt_exn + node_status) \<times> ('k, 'i, 'f, 'w) stack_world" where
  "tree_tick cfg cl pt others w = pipeline_tick (nav_children cfg cl pt others) (fst w) (snd w)"

definition tree_halt ::
  "client_timeouts \<Rightarrow> (follow_goal, 'k, 'i, act_result, 'f, 'w) action_client \<Rightarrow> 'w ports \<Rightarrow> 'w bt_children \<Rightarrow>
    ('h, 'g, 'b, ('k, 'i, 'f, 'w) stack_world, 'z) navigator \<Rightarrow> ('h, 'g, 'b, ('k, 'i, 'f, 'w) stack_world, 'z) navigator" where
  "tree_halt cfg cl pt others s =
     s\<lparr>bt_world := pipeline_halt (nav_children cfg cl pt others) (fst (bt_world s)) (snd (bt_world s))\<rparr>"

text \<open>The pipeline and the client node of the tree.\<close>

definition tree_state ::
  "('h, 'g, 'b, ('k, 'i, 'f, 'w) stack_world, 'z) navigator \<Rightarrow> pipeline \<times> (follow_goal, 'k, 'i, act_result, 'f) action_node" where
  "tree_state s = (fst (bt_world s), fst (snd (bt_world s)))"

text \<open>A cycle of the engine with this tree: the tick is the tick of the pipeline, whatever else it changes in the server, such as the
  blackboard; an exception of the tree is a \<open>std::exception\<close>. Other threads leave the tree alone.\<close>

definition runs_tree ::
  "client_timeouts \<Rightarrow> (follow_goal, 'k, 'i, act_result, 'f, 'w) action_client \<Rightarrow> 'w ports \<Rightarrow> 'w bt_children \<Rightarrow>
    ('h, 'g, 'b, ('k, 'i, 'f, 'w) stack_world, 'z) navigator bt_cycle \<Rightarrow> bool" where
  "runs_tree cfg cl pt others e \<longleftrightarrow>
     (\<forall>s. case tree_tick cfg cl pt others (bt_world s) of (r, w1) \<Rightarrow>
        fst (cy_tick e s) = (case r of Inl _ \<Rightarrow> Inl Nav_Exception | Inr st \<Rightarrow> Inr st) \<and> bt_world (snd (cy_tick e s)) = w1) \<and>
     (\<forall>s. tree_state (cy_before e s) = tree_state s \<and> tree_state (cy_mid e s) = tree_state s \<and>
        tree_state (cy_pending e s) = tree_state s)"

section \<open>The ticks of a goal\<close>

text \<open>The states in which \<open>run\<close> ticks the tree.\<close>

fun ticked_states ::
  "('s \<Rightarrow> bool) \<Rightarrow> ('s bt_cycle \<Rightarrow> 's \<Rightarrow> (nav_exn + unit) \<times> 's) \<Rightarrow> 's bt_cycle list \<Rightarrow> node_status \<Rightarrow> 's \<Rightarrow> 's list" where
  "ticked_states canceling onLoop [] result s = []"
| "ticked_states canceling onLoop (e # es) result s =
     (if \<not> cy_ok e \<or> result \<noteq> RUNNING then []
      else
        let s1 = cy_before e s in
        if canceling s1 then []
        else s1 # (case cy_tick e s1 of
          (Inl x, s2) \<Rightarrow> []
        | (Inr r, s2) \<Rightarrow> (case onLoop e s2 of (Inl x, s3) \<Rightarrow> [] | (Inr _, s3) \<Rightarrow> ticked_states canceling onLoop es r s3)))"

definition goal_ticks ::
  "('h, 'a, 'y nav_result_scheme, 'g) goal_api \<Rightarrow>
    ('a, 'y nav_result_scheme, ('h, 'g, 'b, 'w, 'z) bt_server_scheme) bt_callbacks \<Rightarrow>
    ('h, 'g, 'b, 'w, 'z) bt_server_scheme bt_cycle list \<Rightarrow> ('h, 'g, 'b, 'w, 'z) bt_server_scheme \<Rightarrow>
    ('h, 'g, 'b, 'w, 'z) bt_server_scheme list" where
  "goal_ticks api cbs cycles s =
     (case on_goal_received cbs (get_current_goal api (action_server s)) s of
        (Inr True, s1) \<Rightarrow> ticked_states (is_canceling api) (on_loop api cbs) cycles RUNNING s1
      | _ \<Rightarrow> [])"

text \<open>A run that succeeds has ticked the tree, last in a state in which the tick returned SUCCESS.\<close>

lemma ticked_states_done: "r \<noteq> RUNNING \<Longrightarrow> ticked_states canceling onLoop es r s = []"
  by (cases es) simp_all

lemma engine_success_tick:
  assumes "engine_run canceling onLoop haltTree es RUNNING s = (Some (Inr SUCCEEDED), s')" and "P s"
    and keeps: "\<And>e s. e \<in> set es \<Longrightarrow> P s \<Longrightarrow> P (cy_before e s)"
      "\<And>e s s1 r. e \<in> set es \<Longrightarrow> P s \<Longrightarrow> cy_tick e s = (Inr r, s1) \<Longrightarrow> P s1"
      "\<And>e s s1 r. e \<in> set es \<Longrightarrow> P s \<Longrightarrow> onLoop e s = (Inr r, s1) \<Longrightarrow> P s1"
  shows "ticked_states canceling onLoop es RUNNING s \<noteq> [] \<and> P (last (ticked_states canceling onLoop es RUNNING s)) \<and>
    (\<exists>e \<in> set es. fst (cy_tick e (last (ticked_states canceling onLoop es RUNNING s))) = Inr SUCCESS)"
  using assms
proof (induction es arbitrary: s)
  case Nil
  from Nil.prems(1) show ?case by simp
next
  case (Cons e es)
  let ?s1 = "cy_before e s"
  have go: "cy_ok e" "\<not> canceling ?s1"
    using Cons.prems(1) by (auto simp: engine_result_def Let_def split: if_splits)
  obtain x s2 where t: "cy_tick e ?s1 = (x, s2)"
    by (rule prod.exhaust)
  obtain r where x: "x = Inr r"
    using Cons.prems(1) go t by (cases x) (auto simp: Let_def engine_catch_def split: nav_exn.splits)
  obtain y s3 where l: "onLoop e s2 = (y, s3)"
    by (rule prod.exhaust)
  obtain u where y: "y = Inr u"
    using Cons.prems(1) go t x l by (cases y) (auto simp: Let_def engine_catch_def split: nav_exn.splits)
  have run: "engine_run canceling onLoop haltTree es r s3 = (Some (Inr SUCCEEDED), s')"
    using Cons.prems(1) go t x l y by (simp add: Let_def)
  have P1: "P ?s1"
    using Cons.prems(2,3) by simp
  have P3: "P s3"
    using Cons.prems(4) [OF _ P1, of e r s2] Cons.prems(5) [of e s2 u s3] t x l y by simp
  show ?case
  proof (cases "r = RUNNING")
    case True
    have "ticked_states canceling onLoop es RUNNING s3 \<noteq> [] \<and> P (last (ticked_states canceling onLoop es RUNNING s3)) \<and>
      (\<exists>e \<in> set es. fst (cy_tick e (last (ticked_states canceling onLoop es RUNNING s3))) = Inr SUCCESS)"
    proof (rule Cons.IH)
      show "engine_run canceling onLoop haltTree es RUNNING s3 = (Some (Inr SUCCEEDED), s')"
        using run True by simp
      show "P s3" by (rule P3)
      show "P (cy_before d t)" if "d \<in> set es" "P t" for d t
        using Cons.prems(3) [of d t] that by simp
      show "P t1" if "d \<in> set es" "P t" "cy_tick d t = (Inr q, t1)" for d t t1 q
        using Cons.prems(4) [of d t q t1] that by simp
      show "P t1" if "d \<in> set es" "P t" "onLoop d t = (Inr q, t1)" for d t t1 q
        using Cons.prems(5) [of d t q t1] that by simp
    qed
    then show ?thesis
      using go t x l y True by (auto simp: Let_def)
  next
    case False
    then have "r = SUCCESS"
      using run by (auto simp: engine_run_done engine_result_def split: if_splits)
    then show ?thesis
      using go t x l y P1 by (simp add: Let_def ticked_states_done)
  qed
qed

section \<open>Callbacks that keep the tree in order\<close>

locale tree_callbacks =
  fixes cbs :: "('a, 'y nav_result_scheme, ('h, 'g, 'b, 'w, 'f) navigator) bt_callbacks" and P :: "('h, 'g, 'b, 'w, 'f) navigator \<Rightarrow> bool"
  assumes received: "on_goal_received cbs goal s = (x, s') \<Longrightarrow> P s \<Longrightarrow> P s'"
    and looped: "on_loop_callback cbs s = (y, s') \<Longrightarrow> P s \<Longrightarrow> P s'"
    and preempted: "on_preempt cbs goal s = (z, s') \<Longrightarrow> P s \<Longrightarrow> P s'"
    and completed: "on_completion cbs r rc s = (u, s') \<Longrightarrow> P s \<Longrightarrow> P s'"
    and members: "P s \<Longrightarrow> P (s\<lparr>action_server := v\<rparr>)" "P s \<Longrightarrow> P (s\<lparr>blackboard := b\<rparr>)"
      "P s \<Longrightarrow> P (s\<lparr>internal_error_code := c, internal_error_msg := m\<rparr>)"
begin

lemma cleaned: "P s \<Longrightarrow> P (cleanErrorCodes bb s)"
  by (simp add: cleanErrorCodes_def resetInternalError_def members)

text \<open>A halt brings the tree into order from any state, so it is so after every goal, also after an exception of the tree.\<close>

lemma executeCallback_keeps:
  assumes "executeCallback api bb cbs haltTree es s = (Some (Inr rc), s')" and "P s" and "\<And>s. P (haltTree s)"
  shows "P s'"
proof -
  obtain x s1 where g: "on_goal_received cbs (get_current_goal api (action_server s)) s = (x, s1)"
    by (rule prod.exhaust)
  have s1: "P s1"
    by (rule received [OF g assms(2)])
  consider "x = Inr False" | "x = Inr True"
    using assms(1) g by (cases x) (auto simp: executeCallback_def split: bool.splits)
  then show ?thesis
  proof cases
    case 1
    then show ?thesis
      using assms(1) g s1 by (auto simp: executeCallback_def Let_def intro!: cleaned members)
  next
    case 2
    obtain out s2 where e: "engine_run (is_canceling api) (on_loop api cbs) haltTree es RUNNING s1 = (out, s2)"
      by (rule prod.exhaust)
    then obtain rc1 where out: "out = Some (Inr rc1)"
      using assms(1) g 2 by (auto simp: executeCallback_def split: option.splits sum.splits)
    obtain u s4 where c: "on_completion cbs (populateErrorCode bb (haltTree s2) (gh_empty_result api)) rc1 (haltTree s2) = (u, s4)"
      by (rule prod.exhaust)
    have s4: "P s4"
      by (rule completed [OF c assms(3)])
    then show ?thesis
      using assms(1) g 2 e out c by (auto simp: executeCallback_def Let_def split: sum.splits intro!: cleaned members)
  qed
qed

definition cycle_keeps :: "('h, 'g, 'b, 'w, 'f) navigator bt_cycle \<Rightarrow> bool" where
  "cycle_keeps e \<longleftrightarrow> (\<forall>s. P s \<longrightarrow> P (cy_before e s) \<and> P (cy_mid e s) \<and> P (cy_pending e s)) \<and>
     (\<forall>s s1 r. P s \<longrightarrow> cy_tick e s = (Inr r, s1) \<longrightarrow> P s1)"

lemma on_loop_keeps:
  assumes "on_loop api cbs e s = (Inr r, s')" and "cycle_keeps e" and "P s"
  shows "P s'"
  using assms by (auto simp: on_loop_def Let_def cycle_keeps_def split: if_splits prod.splits sum.splits
      dest!: looped preempted)

lemma executeCallback_success:
  assumes "executeCallback api bb cbs haltTree es s = (Some (Inr (Some SUCCEEDED)), s')" and "P s" and "\<forall>e \<in> set es. cycle_keeps e"
  shows "goal_ticks api cbs es s \<noteq> [] \<and> P (last (goal_ticks api cbs es s)) \<and>
    (\<exists>e \<in> set es. fst (cy_tick e (last (goal_ticks api cbs es s))) = Inr SUCCESS)"
proof -
  obtain x s1 where g: "on_goal_received cbs (get_current_goal api (action_server s)) s = (x, s1)"
    by (rule prod.exhaust)
  have x: "x = Inr True"
    using assms(1) g by (cases x) (auto simp: executeCallback_def Let_def split: bool.splits)
  have s1: "P s1"
    by (rule received [OF g assms(2)])
  obtain out s2 where e: "engine_run (is_canceling api) (on_loop api cbs) haltTree es RUNNING s1 = (out, s2)"
    by (rule prod.exhaust)
  then have out: "out = Some (Inr SUCCEEDED)"
    using assms(1) g x by (auto simp: executeCallback_def Let_def split: option.splits sum.splits prod.splits)
  have ticks: "goal_ticks api cbs es s = ticked_states (is_canceling api) (on_loop api cbs) es RUNNING s1"
    by (simp add: goal_ticks_def g x)
  show ?thesis
    unfolding ticks
  proof (rule engine_success_tick [where P = P, OF e [unfolded out] s1])
    show "P (cy_before d t)" if "d \<in> set es" "P t" for d t
      using assms(3) that by (simp add: cycle_keeps_def)
    show "P t1" if "d \<in> set es" "P t" "cy_tick d t = (Inr r, t1)" for d t t1 r
      using assms(3) that unfolding cycle_keeps_def by blast
    show "P t1" if "d \<in> set es" "P t" "on_loop api cbs d t = (Inr r, t1)" for d t t1 r
      using on_loop_keeps [OF that(3)] assms(3) that by blast
  qed
qed

end

section \<open>The two navigators over the tree\<close>

definition stack_inv :: "'w bt_children \<Rightarrow> ('h, 'g, 'b, ('k, 'i, 'f, 'w) stack_world, 'z) navigator \<Rightarrow> bool" where
  "stack_inv others s \<longleftrightarrow> nav_inv others (fst (tree_state s)) (snd (tree_state s))"

lemma stack_inv_same: "tree_state s' = tree_state s \<Longrightarrow> stack_inv others s \<Longrightarrow> stack_inv others s'"
  by (simp add: stack_inv_def)

lemma tree_state_update [simp]:
  "tree_state (s\<lparr>action_server := v\<rparr>) = tree_state s" "tree_state (s\<lparr>blackboard := b\<rparr>) = tree_state s"
  "tree_state (s\<lparr>nav_start_time := t\<rparr>) = tree_state s" "tree_state (s\<lparr>published_feedback := fs\<rparr>) = tree_state s"
  "tree_state (s\<lparr>plugin_muxer := m\<rparr>) = tree_state s" "tree_state (s\<lparr>current_bt_xml_filename := n\<rparr>) = tree_state s"
  "tree_state (s\<lparr>internal_error_code := c, internal_error_msg := e\<rparr>) = tree_state s"
  "tree_state (setInternalError c e s) = tree_state s"
  by (simp_all add: tree_state_def setInternalError_def)

lemma tree_state_world: "tree_state (s\<lparr>bt_world := w\<rparr>) = (fst w, fst (snd w))"
  by (simp add: tree_state_def)

lemma outer_tree: "outer f x = (r, x') \<Longrightarrow> fst x' = fst x \<and> fst (snd x') = fst (snd x)"
  by (auto simp: outer_def split: prod.splits)

lemma nav_tf_tree:
  assumes "transformPoseInTargetFrame (nav_tf (stack_env g env)) p q f d x = (r, x')"
  shows "fst x' = fst x \<and> fst (snd x') = fst (snd x)"
  using assms by (auto simp: transformPoseInTargetFrame_def stack_env_def split: prod.splits option.splits dest!: outer_tree)

lemma nav_current_pose_tree: "nav_current_pose ncfg (stack_env g env) s = (r, s') \<Longrightarrow> tree_state s' = tree_state s"
  by (auto simp: nav_current_pose_def getCurrentPose_def Let_def tree_state_def split: prod.splits dest!: nav_tf_tree)

lemma nav_transform_tree: "nav_transform ncfg (stack_env g env) p q s = (r, s') \<Longrightarrow> tree_state s' = tree_state s"
  by (auto simp: nav_transform_def tree_state_def split: prod.splits dest!: nav_tf_tree)

lemma nav_clock_now_tree: "nav_clock_now (stack_env g env) s = (r, s') \<Longrightarrow> tree_state s' = tree_state s"
  by (auto simp: nav_clock_now_def stack_env_def tree_state_def split: prod.splits dest!: outer_tree)

lemma transform_goals_tree: "transform_goals ncfg (stack_env g env) gs s = (r, s') \<Longrightarrow> tree_state s' = tree_state s"
proof (induction gs arbitrary: s r s')
  case (Cons p gs)
  obtain ok q s1 where p: "nav_transform ncfg (stack_env g env) p p s = ((ok, q), s1)"
    by (metis prod.exhaust)
  obtain r2 s2 where t: "transform_goals ncfg (stack_env g env) gs s1 = (r2, s2)"
    by (rule prod.exhaust)
  show ?case
    using Cons.prems nav_transform_tree [OF p] Cons.IH [OF t] p t by (auto split: if_splits option.splits)
qed simp

lemma initializeGoalPose_tree:
  assumes "initializeGoalPose ncfg (stack_env g env) bb goal s = (r, s')"
  shows "tree_state s' = tree_state s"
  using assms by (auto simp: initializeGoalPose_def split: if_splits option.splits prod.splits
      dest!: nav_current_pose_tree nav_transform_tree nav_clock_now_tree)

lemma initializeGoalPoses_tree:
  assumes "initializeGoalPoses ncfg (stack_env g env) bb goal s = (r, s')"
  shows "tree_state s' = tree_state s"
  using assms by (auto simp: initializeGoalPoses_def split: if_splits option.splits prod.splits
      dest!: nav_current_pose_tree transform_goals_tree nav_clock_now_tree)

text \<open>Loading leaves the tree, or makes a new one.\<close>

lemma loadBehaviorTree_stack:
  fixes s :: "('h, 'g, 'b, ('k, 'i, 'f, 'w) stack_world, 'z) navigator"
  assumes "loadBehaviorTree (nav_files (stack_env g env)) c f s = (r, s')" and "stack_inv others s"
  shows "stack_inv others s'"
proof -
  obtain p n w where w: "bt_world s = (p, n, w)"
    by (metis prod.exhaust)
  show ?thesis
    using assms w nav_inv_start [of others g]
    by (auto simp: loadBehaviorTree_def stack_env_def Let_def stack_inv_def tree_state_world split: if_splits prod.splits)
      (simp_all add: tree_state_def)
qed

lemma goalReceived_stack:
  assumes "stack_inv others s"
  shows "ntp_goalReceived ncfg (stack_env g env) bb goal s = (r, s') \<Longrightarrow> stack_inv others s'"
    and "nth_goalReceived ncfg (stack_env g env) bb goal' s = (r, s') \<Longrightarrow> stack_inv others s'"
  using assms
  by (auto simp: ntp_goalReceived_def nth_goalReceived_def stack_inv_def split: option.splits prod.splits if_splits
      dest!: initializeGoalPose_tree initializeGoalPoses_tree dest: loadBehaviorTree_stack [unfolded stack_inv_def])

lemma onLoop_tree:
  "ntp_onLoop ncfg (stack_env g env) bb s = (r, s') \<Longrightarrow> tree_state s' = tree_state s"
  "nth_onLoop ncfg (stack_env g env) bb t = (r', t') \<Longrightarrow> tree_state t' = tree_state t"
  by (auto simp: ntp_onLoop_def nth_onLoop_def Let_def split: option.splits prod.splits if_splits
      dest!: nav_current_pose_tree nav_clock_now_tree)

lemma onGoalReceived_stack:
  assumes "onGoalReceived nm rec goal s = (x, s')" and "\<And>x s'. rec goal s = (x, s') \<Longrightarrow> stack_inv others s'" and "stack_inv others s"
  shows "stack_inv others s'"
proof -
  obtain y s1 where r: "rec goal s = (y, s1)"
    by (rule prod.exhaust)
  show ?thesis
    using assms(1,3) assms(2) [OF r] r by (auto simp: onGoalReceived_def stack_inv_def split: if_splits sum.splits bool.splits)
qed

lemma onPreempt_stack:
  assumes "onPreempt api bt_of init goal s = (x, s')"
    and "\<And>acc s x s'. init acc s = (x, s') \<Longrightarrow> tree_state s' = tree_state s"
  shows "tree_state s' = tree_state s"
  using assms(1) by (auto simp: onPreempt_def split: option.splits if_splits prod.splits sum.splits bool.splits dest!: assms(2))

lemma completed_tree:
  "onCompletion nm ntp_goalCompleted r rc s = (u, s') \<Longrightarrow> tree_state s' = tree_state s"
  "onCompletion nm (nth_goalCompleted ncfg bb) r' rc t = (u', t') \<Longrightarrow> tree_state t' = tree_state t"
  by (auto simp: onCompletion_def ntp_goalCompleted_def nth_goalCompleted_def Let_def split: if_splits option.splits)

lemma stack_inv_update:
  assumes "stack_inv others s"
  shows "stack_inv others (s\<lparr>action_server := v\<rparr>)" "stack_inv others (s\<lparr>blackboard := b\<rparr>)"
    "stack_inv others (s\<lparr>internal_error_code := c, internal_error_msg := m\<rparr>)"
  using assms by (simp_all add: stack_inv_def)

interpretation ntp_tree: tree_callbacks "ntp_callbacks api ncfg (stack_env g env) bb" "stack_inv others" for api ncfg g env bb others
proof (unfold_locales, goal_cases)
  case (1 goal s x s')
  then show ?case
    by (auto simp: ntp_callbacks_def intro: onGoalReceived_stack goalReceived_stack)
next
  case (2 s y s')
  then show ?case
    by (auto simp: ntp_callbacks_def dest!: onLoop_tree intro: stack_inv_same)
next
  case (3 goal s z s')
  have "tree_state s' = tree_state s"
    by (rule onPreempt_stack [OF 3(1) [unfolded ntp_callbacks_def, simplified]]) (rule initializeGoalPose_tree)
  with 3(2) show ?case
    by (rule stack_inv_same [rotated])
next
  case (4 r rc s u s')
  then show ?case
    by (auto simp: ntp_callbacks_def dest!: completed_tree intro: stack_inv_same)
qed (simp_all add: stack_inv_update)

interpretation nth_tree: tree_callbacks "nth_callbacks api ncfg (stack_env g env) bb" "stack_inv others" for api ncfg g env bb others
proof (unfold_locales, goal_cases)
  case (1 goal s x s')
  then show ?case
    by (auto simp: nth_callbacks_def intro: onGoalReceived_stack goalReceived_stack)
next
  case (2 s y s')
  then show ?case
    by (auto simp: nth_callbacks_def dest!: onLoop_tree intro: stack_inv_same)
next
  case (3 goal s z s')
  have "tree_state s' = tree_state s"
    by (rule onPreempt_stack [OF 3(1) [unfolded nth_callbacks_def, simplified]]) (rule initializeGoalPoses_tree)
  with 3(2) show ?case
    by (rule stack_inv_same [rotated])
next
  case (4 r rc s u s')
  then show ?case
    by (auto simp: nth_callbacks_def dest!: completed_tree intro: stack_inv_same)
qed (simp_all add: stack_inv_update)

section \<open>Sequences of goals\<close>

text \<open>The states of the server between two goals: a new tree, then goals that the server has handled, and whatever other threads do
  to the rest of the server in between.\<close>

inductive stack_reachable ::
  "('h, nav_to_pose_goal, nav_result, 's) goal_api \<Rightarrow> 'b blackboard_api \<Rightarrow> nav_config \<Rightarrow> 'w nav_env \<Rightarrow> follow_goal \<Rightarrow>
    client_timeouts \<Rightarrow> (follow_goal, 'k, 'i, act_result, 'f, 'w) action_client \<Rightarrow> 'w ports \<Rightarrow> 'w bt_children \<Rightarrow>
    ('h, 's, 'b, ('k, 'i, 'f, 'w) stack_world, nav_feedback) navigator \<Rightarrow> bool"
  for api bb ncfg env g cfg cl pt others where
  new_tree: "tree_state s = (\<lparr>last_child_ticked = 0\<rparr>, action_node_init g) \<Longrightarrow>
    stack_reachable api bb ncfg env g cfg cl pt others s"
| goal_done: "stack_reachable api bb ncfg env g cfg cl pt others s \<Longrightarrow> list_all (runs_tree cfg cl pt others) es \<Longrightarrow>
    executeCallback api bb (ntp_callbacks api ncfg (stack_env g env) bb) (tree_halt cfg cl pt others) es s = (Some (Inr rc), s') \<Longrightarrow>
    stack_reachable api bb ncfg env g cfg cl pt others s'"
| elsewhere: "stack_reachable api bb ncfg env g cfg cl pt others s \<Longrightarrow> tree_state s' = tree_state s \<Longrightarrow>
    stack_reachable api bb ncfg env g cfg cl pt others s'"

lemma tree_halt_inv: "stack_inv others (tree_halt cfg cl pt others s)"
  using nav_inv_halt [of cfg cl pt others "fst (bt_world s)" "snd (bt_world s)"]
  by (cases "pipeline_halt (nav_children cfg cl pt others) (fst (bt_world s)) (snd (bt_world s))")
    (simp add: stack_inv_def tree_halt_def tree_state_world)

lemma stack_reachable_inv:
  assumes "stack_reachable api bb ncfg env g cfg cl pt others s"
  shows "stack_inv others s"
  using assms
proof (induction rule: stack_reachable.induct)
  case (new_tree s)
  then show ?case
    by (simp add: stack_inv_def nav_inv_start)
next
  case (goal_done s es rc s')
  then show ?case
    using ntp_tree.executeCallback_keeps tree_halt_inv by metis
next
  case (elsewhere s s')
  from elsewhere(2,3) show ?case
    by (rule stack_inv_same)
qed

lemma runs_tree_tick:
  assumes "runs_tree cfg cl pt others e"
  shows "tree_tick cfg cl pt others (bt_world s) = (y, w1) \<Longrightarrow>
    fst (cy_tick e s) = (case y of Inl _ \<Rightarrow> Inl Nav_Exception | Inr st \<Rightarrow> Inr st) \<and> bt_world (snd (cy_tick e s)) = w1"
  using assms unfolding runs_tree_def by (metis (mono_tags, lifting) case_prod_conv)

lemma runs_tree_keeps:
  fixes e :: "('h, 's, 'b, ('k, 'i, 'f, 'w) stack_world, nav_feedback) navigator bt_cycle"
  assumes "runs_tree cfg cl pt others e"
  shows "tree_callbacks.cycle_keeps (stack_inv others) e"
proof -
  have "stack_inv others s1" if i: "stack_inv others s" and t: "cy_tick e s = (Inr r, s1)" for s s1 r
  proof -
    obtain y w1 where y: "tree_tick cfg cl pt others (bt_world s) = (y, w1)"
      by (rule prod.exhaust)
    from runs_tree_tick [OF assms y] t have w: "bt_world s1 = w1" and "\<exists>st. y = Inr st"
      by (auto split: sum.splits)
    then obtain st where "y = Inr st" by blast
    with nav_inv_tick [of others "fst (bt_world s)" "snd (bt_world s)" cfg cl pt st "fst w1" "snd w1"] i y w
    show ?thesis
      by (simp add: tree_tick_def stack_inv_def tree_state_def)
  qed
  moreover have "stack_inv others (cy_before e s) \<and> stack_inv others (cy_mid e s) \<and> stack_inv others (cy_pending e s)"
    if "stack_inv others s" for s
    using assms that unfolding runs_tree_def stack_inv_def by simp
  ultimately show ?thesis
    unfolding ntp_tree.cycle_keeps_def by blast
qed

section \<open>Property\<close>


text \<open>A controller server that cancels the goal at once: the navigation succeeds in its first tick.\<close>

definition flat_env :: "nat nav_env" where
  "flat_env = \<lparr>nav_tf = (\<lambda>p f d w. (Some p, w)), nav_now = (\<lambda>w. (0, w)), nav_smoother = (\<lambda>_. odom_smoother_init 0),
     nav_from_seconds = (\<lambda>_. 0), nav_files = \<lparr>file_good = (\<lambda>_ _. True), create_tree = (\<lambda>_ w. (True, w))\<rparr>\<rparr>"

type_synonym sim_stack = "(nat, nat \<Rightarrow> goal_status, string \<rightharpoonup> bb_entry, (nat, nat, nat, nat) stack_world, nav_feedback) navigator"

definition sim_stack :: sim_stack where
  "sim_stack = \<lparr>action_server = executing_server, blackboard = Map.empty, current_bt_xml_filename = ''tree.xml'',
     default_bt_xml_filename = ''tree.xml'', always_reload_bt_xml = False, internal_error_code = 0,
     internal_error_msg = [], error_code_name_prefixes = [],
     bt_world = (\<lparr>last_child_ticked = 0\<rparr>, action_node_init empty_follow_goal, 0), plugin_muxer = [],
     nav_start_time = 0, published_feedback = []\<rparr>"

definition stack_cycle :: "sim_stack bt_cycle" where
  "stack_cycle = \<lparr>cy_ok = True, cy_before = (\<lambda>s. s),
     cy_tick = (\<lambda>s. case tree_tick sim_timeouts cancelling_client silent_ports no_others (bt_world s) of
        (r, w1) \<Rightarrow> (case r of Inl _ \<Rightarrow> Inl Nav_Exception | Inr st \<Rightarrow> Inr st, s\<lparr>bt_world := w1\<rparr>)),
     cy_mid = (\<lambda>s. s), cy_pending = (\<lambda>s. s)\<rparr>"

lemma stack_cycle_runs: "runs_tree sim_timeouts cancelling_client silent_ports no_others stack_cycle"
  by (auto simp: runs_tree_def stack_cycle_def split: prod.splits)

abbreviation sim_callbacks :: "(nav_to_pose_goal, nav_result, sim_stack) bt_callbacks" where
  "sim_callbacks \<equiv> ntp_callbacks sim_api sim_nav_config (stack_env empty_follow_goal flat_env) map_bb"

lemma sim_received:
  "\<exists>s1. on_goal_received sim_callbacks (Some (sim_goal 0)) sim_stack = (Inr True, s1) \<and>
    bt_world s1 = bt_world sim_stack \<and> action_server s1 = executing_server"
  by (simp add: ntp_callbacks_def onGoalReceived_def isNavigating_def sim_stack_def ntp_goalReceived_def loadBehaviorTree_def sim_goal_def
      initializeGoalPose_def nav_current_pose_def getCurrentPose_def transformPoseInTargetFrame_def nav_transform_def nav_clock_now_def
      stack_env_def outer_def flat_env_def Let_def)

lemma sim_loops:
  assumes "\<not> preempt_requested (action_server s)"
  shows "fst (on_loop sim_api sim_callbacks stack_cycle s) = Inr ()"
  using assms by (auto simp: on_loop_def stack_cycle_def ntp_callbacks_def ntp_onLoop_def Let_def split: prod.split)

lemma sim_completes: "\<exists>r'. on_completion sim_callbacks r rc s = (Inr r', s\<lparr>plugin_muxer := stopNavigating (nav_name sim_nav_config) (plugin_muxer s)\<rparr>)"
  by (simp add: ntp_callbacks_def onCompletion_def ntp_goalCompleted_def)

lemma sim_navigates:
  "\<exists>s'. executeCallback sim_api map_bb sim_callbacks (tree_halt sim_timeouts cancelling_client silent_ports no_others) [stack_cycle] sim_stack =
    (Some (Inr (Some SUCCEEDED)), s')"
proof -
  obtain s1 where s1: "on_goal_received sim_callbacks (Some (sim_goal 0)) sim_stack = (Inr True, s1)"
    "bt_world s1 = bt_world sim_stack" "action_server s1 = executing_server"
    using sim_received by blast
  obtain w1 where t: "tree_tick sim_timeouts cancelling_client silent_ports no_others (bt_world s1) = (Inr SUCCESS, w1)"
    using cancelled_run by (metis s1(2) tree_tick_def sim_stack_def navigator.simps bt_server.simps fst_conv snd_conv prod.collapse)
  obtain s3 where l: "on_loop sim_api sim_callbacks stack_cycle (s1\<lparr>bt_world := w1\<rparr>) = (Inr (), s3)"
    using sim_loops [of "s1\<lparr>bt_world := w1\<rparr>"] s1(3) by (simp add: executing_server_def server_init_def) (metis prod.collapse)
  have "\<not> is_canceling sim_api s1"
    by (simp add: is_canceling_def s1(3) is_cancel_requested_def is_active_def executing_server_def server_init_def ros_api_def)
  then have e: "engine_run (is_canceling sim_api) (on_loop sim_api sim_callbacks)
      (tree_halt sim_timeouts cancelling_client silent_ports no_others) [stack_cycle] RUNNING s1 = (Some (Inr SUCCEEDED), s3)"
    using t l by (simp add: stack_cycle_def Let_def engine_result_def)
  have g: "get_current_goal sim_api (action_server sim_stack) = Some (sim_goal 0)"
    by (simp add: sim_stack_def executing_server_goal)
  let ?h = "tree_halt sim_timeouts cancelling_client silent_ports no_others s3"
  obtain r4 s4 where c: "on_completion sim_callbacks (populateErrorCode map_bb ?h (gh_empty_result sim_api)) SUCCEEDED ?h = (Inr r4, s4)"
    using sim_completes by blast
  show ?thesis
    unfolding executeCallback_def g s1(1) by (simp only: prod.case sum.case bool.case option.case e Let_def c) blast
qed


end
