(* ===== verification/Node_Parameters.thy ===== *)
theory Node_Parameters
  imports Node_Utils Controller_Server Offboard_Control Planner_Server MoveIt_Planner
begin

text \<open>
  The parameters of the servers: what the constructors of \<open>ControllerServer\<close>, \<open>PlannerServer\<close>, \<open>BtNavigator\<close> and
  \<open>OffboardControl\<close> and the plugins declare, how \<open>on_configure\<close> reads them, and \<open>copy_all_parameter_values.hpp\<close>. A value has a
  type; \<open>as_double\<close> and the like throw on another type, which is \<open>None\<close> here. The servers declare the overrides they are given
  automatically, with the type of the override. What rclcpp documents is the locale \<open>typed_parameters\<close>. Theorems: every declared parameter
  has its override or its default, and the configuration of the package is read without an error.
\<close>

section \<open>Values\<close>

datatype param_value =
  Prm_Bool bool | Prm_Int int | Prm_Double double | Prm_String string | Prm_Strings "string list"

definition as_bool :: "param_value option \<Rightarrow> bool option" where
  "as_bool v = (case v of Some (Prm_Bool b) \<Rightarrow> Some b | _ \<Rightarrow> None)"

definition as_int :: "param_value option \<Rightarrow> int option" where
  "as_int v = (case v of Some (Prm_Int i) \<Rightarrow> Some i | _ \<Rightarrow> None)"

definition as_double :: "param_value option \<Rightarrow> double option" where
  "as_double v = (case v of Some (Prm_Double x) \<Rightarrow> Some x | _ \<Rightarrow> None)"

definition as_string :: "param_value option \<Rightarrow> string option" where
  "as_string v = (case v of Some (Prm_String s) \<Rightarrow> Some s | _ \<Rightarrow> None)"

definition as_string_array :: "param_value option \<Rightarrow> string list option" where
  "as_string_array v = (case v of Some (Prm_Strings s) \<Rightarrow> Some s | _ \<Rightarrow> None)"

fun same_type :: "param_value \<Rightarrow> param_value \<Rightarrow> bool" where
  "same_type (Prm_Bool _) (Prm_Bool _) = True"
| "same_type (Prm_Int _) (Prm_Int _) = True"
| "same_type (Prm_Double _) (Prm_Double _) = True"
| "same_type (Prm_String _) (Prm_String _) = True"
| "same_type (Prm_Strings _) (Prm_Strings _) = True"
| "same_type _ _ = False"

lemmas param_reads = as_bool_def as_int_def as_double_def as_string_def as_string_array_def

type_synonym declarations = "(string \<times> param_value) list"

section \<open>Declarations\<close>

definition ControllerServer_parameters :: declarations where
  "ControllerServer_parameters =
     [(''controller_frequency'', Prm_Double 50), (''waypoint_topic'', Prm_String ''offboard/waypoint''),
      (''global_frame'', Prm_String ''map''), (''robot_base_frame'', Prm_String ''base_link''),
      (''transform_tolerance'', Prm_Double (1 / 10)), (''xyz_goal_tolerance'', Prm_Double (1 / 10)),
      (''yaw_goal_tolerance'', Prm_Double (1 / 10)), (''speed_limit_topic'', Prm_String ''speed_limit''),
      (''default_speed_limit'', Prm_Double (3 / 10)), (''slowdown_distance'', Prm_Double (3 / 10)), (''min_speed'', Prm_Double 0),
      (''ref_jerk_max'', Prm_Double (35 / 100)), (''ref_acc_max'', Prm_Double (75 / 100)), (''ref_vel_max'', Prm_Double (15 / 10)),
      (''ref_omega'', Prm_Double 1), (''ref_zita'', Prm_Double (5 / 10)), (''ref_yaw_jerk_max'', Prm_Double (35 / 100)),
      (''ref_yaw_acc_max'', Prm_Double (75 / 100)), (''ref_yaw_vel_max'', Prm_Double (15 / 10))]"

definition PlannerServer_parameters :: declarations where
  "PlannerServer_parameters =
     [(''expected_planner_frequency'', Prm_Double 1), (''action_server_result_timeout'', Prm_Double 10),
      (''global_frame'', Prm_String ''map''), (''robot_base_frame'', Prm_String ''base_link''),
      (''transform_tolerance'', Prm_Double (1 / 10)), (''planner_plugins'', Prm_Strings [''GridBased'']),
      (''path_validity_planner_id'', Prm_String [])]"

text \<open>The plugin of an id, in the loop of \<open>PlannerServer::on_configure\<close>, and the parameters of \<open>MoveItGlobalPlanner::configure\<close>.\<close>

definition plugin_parameter :: "string \<Rightarrow> declarations" where
  "plugin_parameter i = [(i @ ''.plugin'', Prm_String ''nav3d_planner_plugin_moveit/MoveItGlobalPlanner'')]"

definition MoveItGlobalPlanner_parameters :: "string \<Rightarrow> declarations" where
  "MoveItGlobalPlanner_parameters name =
     map (\<lambda>(n, v). (name @ n, v))
     [(''.planning_group'', Prm_String ''x500_group''), (''.planning_time'', Prm_Double 10), (''.planning_attempts'', Prm_Int 3),
      (''.global_frame'', Prm_String ''map''), (''.transform_tolerance'', Prm_Double (1 / 10)), (''.pipeline_id'', Prm_String []),
      (''.planner_id'', Prm_String []), (''.yaw_mode'', Prm_String ''directional''), (''.fixed_yaw'', Prm_Double 0),
      (''.validity.step'', Prm_Int 2), (''.validity.max_checks'', Prm_Int 200), (''.validity.timeout_ms'', Prm_Int 50),
      (''.validity.state_validity_service'', Prm_String ''check_state_validity''),
      (''.workspace.min_x'', Prm_Double (- 5 / 10)), (''.workspace.min_y'', Prm_Double (- 5 / 10)),
      (''.workspace.min_z'', Prm_Double (- 1 / 10)), (''.workspace.max_x'', Prm_Double 20), (''.workspace.max_y'', Prm_Double 10),
      (''.workspace.max_z'', Prm_Double 3)]"

definition BtNavigator_parameters :: declarations where
  "BtNavigator_parameters =
     [(''plugin_lib_names'', Prm_Strings []), (''transform_tolerance'', Prm_Double (1 / 10)), (''global_frame'', Prm_String ''map''),
      (''robot_base_frame'', Prm_String ''base_link''), (''odom_topic'', Prm_String ''odom''), (''filter_duration'', Prm_Double (3 / 10))]"

text \<open>The constructor of \<open>BtActionServer\<close>, apart from the prefixes of the error codes.\<close>

definition BtActionServer_parameters :: declarations where
  "BtActionServer_parameters =
     [(''bt_loop_duration'', Prm_Int 10), (''default_server_timeout'', Prm_Int 20),
      (''action_server_result_timeout'', Prm_Double 900), (''always_reload_bt_xml'', Prm_Bool False),
      (''wait_for_service_timeout'', Prm_Int 1000)]"

definition NavigateToPose_parameters :: "string \<Rightarrow> declarations" where
  "NavigateToPose_parameters name =
     [(''goal_blackboard_id'', Prm_String ''goal''), (''path_blackboard_id'', Prm_String ''path''),
      (name @ ''.enable_groot_monitoring'', Prm_Bool False), (name @ ''.groot_server_port'', Prm_Int 1667)]"

definition NavigateThroughPoses_parameters :: "string \<Rightarrow> declarations" where
  "NavigateThroughPoses_parameters name =
     [(''goals_blackboard_id'', Prm_String ''goals''), (''path_blackboard_id'', Prm_String ''path''),
      (''waypoint_statuses_blackboard_id'', Prm_String ''waypoint_statuses''),
      (name @ ''.enable_groot_monitoring'', Prm_Bool False), (name @ ''.groot_server_port'', Prm_Int 1669)]"

definition OffboardControl_parameters :: declarations where
  "OffboardControl_parameters =
     [(''control_rate_hz'', Prm_Double 50), (''waypoint_timeout_s'', Prm_Double 1), (''offboard_warmup_s'', Prm_Double 1),
      (''offboard_command_retry_s'', Prm_Double 1), (''offset_alpha'', Prm_Double (1 / 100)), (''takeoff_altitude'', Prm_Double 1),
      (''altitude_tolerance'', Prm_Double (1 / 10))]"

fun declare_all ::
  "(param_value, 'w) param_api \<Rightarrow> declarations \<Rightarrow> 'w \<Rightarrow> (param_error + unit) \<times> 'w" where
  "declare_all api [] w = (Inr (), w)"
| "declare_all api ((n, d) # ps) w =
     (case declare_parameter_if_not_declared api n (Some d) w of
        (Inl e, w1) \<Rightarrow> (Inl e, w1)
      | (Inr _, w1) \<Rightarrow> declare_all api ps w1)"

section \<open>Reading\<close>

text \<open>The parameters in \<open>ControllerServer::on_configure\<close>, in the order it reads them; the values dropped here are names of topics and frames, the
  tolerance of the transform and the minimal speed, which no modelled operation uses.\<close>

definition read_controller :: "(string \<Rightarrow> param_value option) \<Rightarrow> controller_params option" where
  "read_controller get =
     Option.bind (as_double (get ''controller_frequency'')) (\<lambda>freq.
     Option.bind (as_string (get ''waypoint_topic'')) (\<lambda>_.
     Option.bind (as_string (get ''global_frame'')) (\<lambda>_.
     Option.bind (as_string (get ''robot_base_frame'')) (\<lambda>_.
     Option.bind (as_double (get ''transform_tolerance'')) (\<lambda>_.
     Option.bind (as_double (get ''xyz_goal_tolerance'')) (\<lambda>xyz.
     Option.bind (as_double (get ''yaw_goal_tolerance'')) (\<lambda>yaw.
     Option.bind (as_double (get ''default_speed_limit'')) (\<lambda>limit.
     Option.bind (as_double (get ''slowdown_distance'')) (\<lambda>slow.
     Option.bind (as_double (get ''min_speed'')) (\<lambda>_.
     Option.bind (as_double (get ''ref_jerk_max'')) (\<lambda>jerk.
     Option.bind (as_double (get ''ref_acc_max'')) (\<lambda>acc.
     Option.bind (as_double (get ''ref_vel_max'')) (\<lambda>vel.
     Option.bind (as_double (get ''ref_omega'')) (\<lambda>omega.
     Option.bind (as_double (get ''ref_zita'')) (\<lambda>zita.
     Option.bind (as_double (get ''ref_yaw_jerk_max'')) (\<lambda>yjerk.
     Option.bind (as_double (get ''ref_yaw_acc_max'')) (\<lambda>yacc.
     Option.bind (as_double (get ''ref_yaw_vel_max'')) (\<lambda>yvel.
     Option.bind (as_string (get ''speed_limit_topic'')) (\<lambda>_.
       Some \<lparr>controller_frequency = freq, xyz_goal_tolerance = xyz, yaw_goal_tolerance = yaw, default_speed_limit = limit,
         slowdown_distance = slow, ref_jerk_max = jerk, ref_acc_max = acc, ref_vel_max = vel, ref_omega = omega, ref_zita = zita,
         ref_yaw_jerk_max = yjerk, ref_yaw_acc_max = yacc, ref_yaw_vel_max = yvel\<rparr>)))))))))))))))))))"

text \<open>\<open>PlannerServer::on_configure\<close>: the planner ids, the id for \<open>is_path_valid\<close> and the global frame.\<close>

definition read_planner :: "(string \<Rightarrow> param_value option) \<Rightarrow> (string list \<times> string \<times> string) option" where
  "read_planner get =
     Option.bind (as_double (get ''expected_planner_frequency'')) (\<lambda>_.
     Option.bind (as_double (get ''action_server_result_timeout'')) (\<lambda>_.
     Option.bind (as_string (get ''global_frame'')) (\<lambda>gframe.
     Option.bind (as_string (get ''robot_base_frame'')) (\<lambda>_.
     Option.bind (as_double (get ''transform_tolerance'')) (\<lambda>_.
     Option.bind (as_string (get ''path_validity_planner_id'')) (\<lambda>validity_id.
     Option.bind (as_string_array (get ''planner_plugins'')) (\<lambda>ids.
       Some (ids, validity_id, gframe))))))))"

text \<open>\<open>MoveItGlobalPlanner::configure\<close> reads its parameters and builds the plugin; \<open>static_cast<int>\<close> wraps.\<close>

definition read_moveit :: "bool \<Rightarrow> string \<Rightarrow> (string \<Rightarrow> param_value option) \<Rightarrow> moveit_planner option" where
  "read_moveit has_tf name get =
     Option.bind (as_string (get (name @ ''.planning_group''))) (\<lambda>_.
     Option.bind (as_double (get (name @ ''.planning_time''))) (\<lambda>_.
     Option.bind (as_int (get (name @ ''.planning_attempts''))) (\<lambda>_.
     Option.bind (as_string (get (name @ ''.global_frame''))) (\<lambda>gframe.
     Option.bind (as_double (get (name @ ''.transform_tolerance''))) (\<lambda>_.
     Option.bind (as_string (get (name @ ''.pipeline_id''))) (\<lambda>_.
     Option.bind (as_string (get (name @ ''.planner_id''))) (\<lambda>_.
     Option.bind (as_string (get (name @ ''.yaw_mode''))) (\<lambda>yaw_mode_s.
     Option.bind (as_double (get (name @ ''.fixed_yaw''))) (\<lambda>fixed.
     Option.bind (as_double (get (name @ ''.workspace.min_x''))) (\<lambda>_.
     Option.bind (as_double (get (name @ ''.workspace.min_y''))) (\<lambda>_.
     Option.bind (as_double (get (name @ ''.workspace.min_z''))) (\<lambda>_.
     Option.bind (as_double (get (name @ ''.workspace.max_x''))) (\<lambda>_.
     Option.bind (as_double (get (name @ ''.workspace.max_y''))) (\<lambda>_.
     Option.bind (as_double (get (name @ ''.workspace.max_z''))) (\<lambda>_.
     Option.bind (as_int (get (name @ ''.validity.step''))) (\<lambda>vstep.
     Option.bind (as_int (get (name @ ''.validity.max_checks''))) (\<lambda>checks.
     Option.bind (as_int (get (name @ ''.validity.timeout_ms''))) (\<lambda>_.
     Option.bind (as_string (get (name @ ''.validity.state_validity_service''))) (\<lambda>service.
       Some (mp_configure has_tf gframe yaw_mode_s fixed (to_int32 vstep) (to_int32 checks) service))))))))))))))))))))"

text \<open>\<open>declare_parameter<double>\<close> in the constructor of \<open>OffboardControl\<close> returns the value of the parameter.\<close>

definition read_offboard :: "(string \<Rightarrow> param_value option) \<Rightarrow> offboard_params option" where
  "read_offboard get =
     Option.bind (as_double (get ''control_rate_hz'')) (\<lambda>rate.
     Option.bind (as_double (get ''waypoint_timeout_s'')) (\<lambda>timeout.
     Option.bind (as_double (get ''offboard_warmup_s'')) (\<lambda>warmup.
     Option.bind (as_double (get ''offboard_command_retry_s'')) (\<lambda>retry.
     Option.bind (as_double (get ''offset_alpha'')) (\<lambda>alpha.
     Option.bind (as_double (get ''takeoff_altitude'')) (\<lambda>alt.
     Option.bind (as_double (get ''altitude_tolerance'')) (\<lambda>tol.
       Some \<lparr>control_rate_hz = rate, waypoint_timeout_s = timeout, offboard_warmup_s = warmup, offboard_command_retry_s = retry,
         offset_alpha = alpha, takeoff_altitude = alt, altitude_tolerance = tol\<rparr>)))))))"

section \<open>Copying\<close>

text \<open>\<open>copy_all_parameter_values\<close> of the source's parameters; a value that cannot be set is only logged, and \<open>set\<close> is the state after the
  attempt.\<close>

fun copy_all_parameter_values ::
  "(param_value, 'w) param_api \<Rightarrow> (string \<Rightarrow> param_value \<Rightarrow> 'w \<Rightarrow> 'w) \<Rightarrow> bool \<Rightarrow> (string \<times> param_value) list \<Rightarrow> 'w \<Rightarrow>
    (param_error + unit) \<times> 'w" where
  "copy_all_parameter_values dest set_param override_existing [] w = (Inr (), w)"
| "copy_all_parameter_values dest set_param override_existing ((n, v) # ps) w =
     (if \<not> prm_has dest w n then
        (case prm_declare dest n (Some v) w of
           (Inl e, w1) \<Rightarrow> (Inl e, w1)
         | (Inr _, w1) \<Rightarrow> copy_all_parameter_values dest set_param override_existing ps w1)
      else if \<not> override_existing then copy_all_parameter_values dest set_param override_existing ps w
      else copy_all_parameter_values dest set_param override_existing ps (set_param n v w))"

section \<open>What rclcpp documents\<close>

text \<open>A parameter that is not declared gets its override, if that has the type of the default, or the default; other parameters do not change.\<close>

locale typed_parameters =
  fixes api :: "(param_value, 'w) param_api" and over :: "string \<Rightarrow> param_value option"
  assumes declare_typed: "\<not> prm_has api w n \<Longrightarrow> over n = None \<or> (\<exists>v. over n = Some v \<and> same_type v d) \<Longrightarrow>
      \<exists>w1. prm_declare api n (Some d) w = (Inr (Some (case over n of Some v \<Rightarrow> v | None \<Rightarrow> d)), w1) \<and>
        (\<forall>m. prm_has api w1 m \<longleftrightarrow> m = n \<or> prm_has api w m) \<and>
        (\<forall>m. prm_get api w1 m = (if m = n then Some (case over n of Some v \<Rightarrow> v | None \<Rightarrow> d) else prm_get api w m))"
begin

text \<open>Every declaration succeeds if each parameter is declared before, or has no override, or one of its type.\<close>

definition override_fits :: "'w \<Rightarrow> string \<times> param_value \<Rightarrow> bool" where
  "override_fits w p \<longleftrightarrow> prm_has api w (fst p) \<or> over (fst p) = None \<or> (\<exists>v. over (fst p) = Some v \<and> same_type v (snd p))"

lemma declare_all_values:
  assumes "list_all (override_fits w) ps"
  shows "\<exists>w'. declare_all api ps w = (Inr (), w') \<and>
    (\<forall>m. prm_get api w' m = (if prm_has api w m then prm_get api w m
       else case map_of ps m of Some d \<Rightarrow> Some (case over m of Some v \<Rightarrow> v | None \<Rightarrow> d) | None \<Rightarrow> prm_get api w m))"
  using assms
proof (induction ps arbitrary: w)
  case (Cons p ps)
  obtain n d where p: "p = (n, d)" by (cases p)
  show ?case
  proof (cases "prm_has api w n")
    case True
    obtain w' where "declare_all api ps w = (Inr (), w')"
      "\<And>m. prm_get api w' m = (if prm_has api w m then prm_get api w m
         else case map_of ps m of Some d \<Rightarrow> Some (case over m of Some v \<Rightarrow> v | None \<Rightarrow> d) | None \<Rightarrow> prm_get api w m)"
      using Cons.IH [of w] Cons.prems by auto
    with True show ?thesis
      by (intro exI [of _ w']) (auto simp: p declare_parameter_if_not_declared_def)
  next
    case False
    then have "over n = None \<or> (\<exists>v. over n = Some v \<and> same_type v d)"
      using Cons.prems by (auto simp: p override_fits_def)
    from declare_typed [OF False this] obtain w1 where
      w1: "prm_declare api n (Some d) w = (Inr (Some (case over n of Some v \<Rightarrow> v | None \<Rightarrow> d)), w1)"
      "\<And>m. prm_has api w1 m \<longleftrightarrow> m = n \<or> prm_has api w m"
      "\<And>m. prm_get api w1 m = (if m = n then Some (case over n of Some v \<Rightarrow> v | None \<Rightarrow> d) else prm_get api w m)"
      by blast
    have "list_all (override_fits w1) ps"
      using Cons.prems w1(2) by (auto simp: list_all_iff override_fits_def)
    then obtain w' where "declare_all api ps w1 = (Inr (), w')"
      "\<And>m. prm_get api w' m = (if prm_has api w1 m then prm_get api w1 m
         else case map_of ps m of Some d \<Rightarrow> Some (case over m of Some v \<Rightarrow> v | None \<Rightarrow> d) | None \<Rightarrow> prm_get api w1 m)"
      using Cons.IH [of w1] by blast
    with w1 False show ?thesis
      by (intro exI [of _ w']) (auto simp: p declare_parameter_if_not_declared_def split: option.split)
  qed
qed simp

text \<open>A copy that does not override leaves the parameters of the destination and adds the others.\<close>

lemma copy_values:
  assumes "\<forall>n. over n \<noteq> None \<longrightarrow> prm_has api w n"
  shows "\<exists>w'. copy_all_parameter_values api set_param False ps w = (Inr (), w') \<and>
    (\<forall>m. prm_get api w' m = (if prm_has api w m then prm_get api w m
       else case map_of ps m of Some d \<Rightarrow> Some d | None \<Rightarrow> prm_get api w m))"
  using assms
proof (induction ps arbitrary: w)
  case (Cons p ps)
  obtain n d where p: "p = (n, d)" by (cases p)
  show ?case
  proof (cases "prm_has api w n")
    case True
    obtain w' where "copy_all_parameter_values api set_param False ps w = (Inr (), w')"
      "\<And>m. prm_get api w' m = (if prm_has api w m then prm_get api w m
         else case map_of ps m of Some d \<Rightarrow> Some d | None \<Rightarrow> prm_get api w m)"
      using Cons.IH [OF Cons.prems] by blast
    with True show ?thesis
      by (intro exI [of _ w']) (auto simp: p)
  next
    case False
    then have o: "over n = None"
      using Cons.prems by blast
    obtain w1 where w1: "prm_declare api n (Some d) w = (Inr (Some d), w1)"
      "\<And>m. prm_has api w1 m \<longleftrightarrow> m = n \<or> prm_has api w m"
      "\<And>m. prm_get api w1 m = (if m = n then Some d else prm_get api w m)"
      using declare_typed [OF False, of d] o by auto
    then have "\<forall>n. over n \<noteq> None \<longrightarrow> prm_has api w1 n"
      using Cons.prems by blast
    then obtain w' where "copy_all_parameter_values api set_param False ps w1 = (Inr (), w')"
      "\<And>m. prm_get api w' m = (if prm_has api w1 m then prm_get api w1 m
         else case map_of ps m of Some d \<Rightarrow> Some d | None \<Rightarrow> prm_get api w1 m)"
      using Cons.IH [of w1] by blast
    with w1 False show ?thesis
      by (intro exI [of _ w']) (auto simp: p split: option.split)
  qed
qed simp

end

text \<open>A table of typed parameters.\<close>

definition typed_table :: "(string \<Rightarrow> param_value option) \<Rightarrow> (param_value, string \<Rightarrow> param_value option) param_api" where
  "typed_table over =
     \<lparr>prm_has = (\<lambda>w n. w n \<noteq> None),
      prm_declare = (\<lambda>n dflt w.
        if w n \<noteq> None then (Inl Already_Declared, w)
        else case over n of
               None \<Rightarrow> (Inr dflt, w(n := dflt))
             | Some v \<Rightarrow>
                 (case dflt of
                    Some d \<Rightarrow> if same_type v d then (Inr (Some v), w(n \<mapsto> v)) else (Inl Invalid_Value, w)
                  | None \<Rightarrow> (Inr (Some v), w(n \<mapsto> v)))),
      prm_get = (\<lambda>w. w),
      prm_override = (\<lambda>w n. over n \<noteq> None)\<rparr>"

lemma typed_table_simps [simp]: "prm_has (typed_table over) w n \<longleftrightarrow> w n \<noteq> None" "prm_get (typed_table over) w = w"
  by (simp_all add: typed_table_def)

interpretation typed: typed_parameters "typed_table over" over for over
  by unfold_locales (auto simp: typed_table_def split: option.split)

section \<open>The configuration of the package\<close>

text \<open>\<open>nav3d_params.yaml\<close>, the parameters of the three nodes.\<close>

definition controller_yaml :: declarations where
  "controller_yaml =
     [(''controller_frequency'', Prm_Double 50), (''waypoint_topic'', Prm_String ''offboard/waypoint''),
      (''global_frame'', Prm_String ''map''), (''robot_base_frame'', Prm_String ''base_link''),
      (''transform_tolerance'', Prm_Double (1 / 10)), (''xyz_goal_tolerance'', Prm_Double (2 / 10)),
      (''yaw_goal_tolerance'', Prm_Double (2 / 10)), (''speed_limit_topic'', Prm_String ''speed_limit''),
      (''default_speed_limit'', Prm_Double (3 / 10)), (''slowdown_distance'', Prm_Double (3 / 10)), (''min_speed'', Prm_Double 0)]"

definition planner_yaml :: declarations where
  "planner_yaml =
     [(''planner_plugins'', Prm_Strings [''Moveit'']), (''Moveit.plugin'', Prm_String ''nav3d_planner_plugin_moveit/MoveItGlobalPlanner''),
      (''Moveit.yaw_mode'', Prm_String ''directional''), (''global_frame'', Prm_String ''map''),
      (''robot_base_frame'', Prm_String ''base_link''), (''transform_tolerance'', Prm_Double (1 / 10))]"

definition offboard_yaml :: declarations where
  "offboard_yaml =
     [(''control_rate_hz'', Prm_Double 50), (''waypoint_topic'', Prm_String ''offboard/waypoint''),
      (''waypoint_timeout_s'', Prm_Double 1), (''offboard_warmup_s'', Prm_Double 1), (''offboard_command_retry_s'', Prm_Double 1),
      (''takeoff_altitude'', Prm_Double 1), (''altitude_tolerance'', Prm_Double (1 / 10))]"

text \<open>What the constructor leaves for \<open>on_configure\<close>: the store starts with the overrides.\<close>

definition declared_value :: "declarations \<Rightarrow> (string \<Rightarrow> param_value option) \<Rightarrow> string \<Rightarrow> param_value option" where
  "declared_value ps over n = (case over n of Some v \<Rightarrow> Some v | None \<Rightarrow> map_of ps n)"

lemma declared_values:
  "\<exists>w. declare_all (typed_table over) ps over = (Inr (), w) \<and> prm_get (typed_table over) w = declared_value ps over"
proof -
  have "list_all (typed.override_fits over over) ps"
    by (auto simp: list_all_iff typed.override_fits_def)
  from typed.declare_all_values [OF this] show ?thesis
    by (auto simp: declared_value_def fun_eq_iff split: option.split)
qed

text \<open>\<open>OffboardControl\<close> is a plain node: it starts with no parameter, and an override must have the type of the default.\<close>

lemma typed_declared_values:
  assumes "list_all (\<lambda>p. case over (fst p) of None \<Rightarrow> True | Some v \<Rightarrow> same_type v (snd p)) ps"
  shows "\<exists>w. declare_all (typed_table over) ps Map.empty = (Inr (), w) \<and>
    (\<forall>m. m \<in> fst ` set ps \<longrightarrow> prm_get (typed_table over) w m = declared_value ps over m)"
proof -
  have "list_all (typed.override_fits over Map.empty) ps"
    using assms by (auto simp: list_all_iff typed.override_fits_def split: option.splits)
  from typed.declare_all_values [OF this] obtain w where w: "declare_all (typed_table over) ps Map.empty = (Inr (), w)"
    "\<And>m. w m = (case map_of ps m of Some d \<Rightarrow> Some (case over m of Some v \<Rightarrow> v | None \<Rightarrow> d) | None \<Rightarrow> None)"
    by (auto cong: option.case_cong)
  have "w m = declared_value ps over m" if "m \<in> fst ` set ps" for m
  proof -
    from that obtain d where "map_of ps m = Some d"
      by (metis map_of_eq_None_iff not_None_eq)
    then show ?thesis
      by (simp add: w(2) declared_value_def split: option.split)
  qed
  with w(1) show ?thesis
    by auto
qed

text \<open>An override with another type is accepted by the constructor; reading it throws.\<close>

lemma integer_frequency_throws:
  assumes "over ''controller_frequency'' = Some (Prm_Int i)"
  shows "read_controller (declared_value ps over) = None"
  using assms by (simp add: read_controller_def declared_value_def param_reads)

lemma shipped_controller:
  "read_controller (declared_value ControllerServer_parameters (map_of controller_yaml)) = Some
     \<lparr>controller_frequency = 50, xyz_goal_tolerance = 1 / 5, yaw_goal_tolerance = 1 / 5, default_speed_limit = 3 / 10,
      slowdown_distance = 3 / 10, ref_jerk_max = 35 / 100, ref_acc_max = 75 / 100, ref_vel_max = 3 / 2, ref_omega = 1,
      ref_zita = 1 / 2, ref_yaw_jerk_max = 35 / 100, ref_yaw_acc_max = 75 / 100, ref_yaw_vel_max = 3 / 2\<rparr>"
  by (simp add: read_controller_def declared_value_def param_reads controller_yaml_def ControllerServer_parameters_def)

lemma shipped_offboard:
  "read_offboard (declared_value OffboardControl_parameters (map_of offboard_yaml)) = Some
     \<lparr>control_rate_hz = 50, waypoint_timeout_s = 1, offboard_warmup_s = 1, offboard_command_retry_s = 1, offset_alpha = 1 / 100,
      takeoff_altitude = 1, altitude_tolerance = 1 / 10\<rparr>"
  by (simp add: read_offboard_def declared_value_def param_reads offboard_yaml_def OffboardControl_parameters_def)

text \<open>The planner of the file is the MoveIt plugin under the name \<open>Moveit\<close>.\<close>

lemma shipped_planner:
  "read_planner (declared_value PlannerServer_parameters (map_of planner_yaml)) = Some ([''Moveit''], [], ''map'')"
  "read_moveit True ''Moveit'' (declared_value (MoveItGlobalPlanner_parameters ''Moveit'') (map_of planner_yaml)) =
     Some (mp_configure True ''map'' ''directional'' 0 2 200 ''check_state_validity'')"
  by (simp_all add: read_planner_def read_moveit_def declared_value_def param_reads planner_yaml_def PlannerServer_parameters_def
      MoveItGlobalPlanner_parameters_def to_int32_def)

text \<open>The servers start with the configuration of the package: the constructors declare all parameters without an exception, and
  reading them gives the values of the file, with the defaults of the code for the parameters it leaves out.\<close>

lemma shipped_configuration_loads:
  "(\<exists>w. declare_all (typed_table (map_of controller_yaml)) ControllerServer_parameters (map_of controller_yaml) = (Inr (), w) \<and>
      read_controller (prm_get (typed_table (map_of controller_yaml)) w) = Some
        \<lparr>controller_frequency = 50, xyz_goal_tolerance = 1 / 5, yaw_goal_tolerance = 1 / 5, default_speed_limit = 3 / 10,
         slowdown_distance = 3 / 10, ref_jerk_max = 35 / 100, ref_acc_max = 75 / 100, ref_vel_max = 3 / 2, ref_omega = 1,
         ref_zita = 1 / 2, ref_yaw_jerk_max = 35 / 100, ref_yaw_acc_max = 75 / 100, ref_yaw_vel_max = 3 / 2\<rparr>) \<and>
   (\<exists>w. declare_all (typed_table (map_of offboard_yaml)) OffboardControl_parameters Map.empty = (Inr (), w) \<and>
      read_offboard (prm_get (typed_table (map_of offboard_yaml)) w) = Some
        \<lparr>control_rate_hz = 50, waypoint_timeout_s = 1, offboard_warmup_s = 1, offboard_command_retry_s = 1,
         offset_alpha = 1 / 100, takeoff_altitude = 1, altitude_tolerance = 1 / 10\<rparr>)"
proof
  show "\<exists>w. declare_all (typed_table (map_of controller_yaml)) ControllerServer_parameters (map_of controller_yaml) = (Inr (), w) \<and>
      read_controller (prm_get (typed_table (map_of controller_yaml)) w) = Some
        \<lparr>controller_frequency = 50, xyz_goal_tolerance = 1 / 5, yaw_goal_tolerance = 1 / 5, default_speed_limit = 3 / 10,
         slowdown_distance = 3 / 10, ref_jerk_max = 35 / 100, ref_acc_max = 75 / 100, ref_vel_max = 3 / 2, ref_omega = 1,
         ref_zita = 1 / 2, ref_yaw_jerk_max = 35 / 100, ref_yaw_acc_max = 75 / 100, ref_yaw_vel_max = 3 / 2\<rparr>"
    using declared_values [of "map_of controller_yaml" ControllerServer_parameters] shipped_controller by auto
next
  have "list_all (\<lambda>p. case map_of offboard_yaml (fst p) of None \<Rightarrow> True | Some v \<Rightarrow> same_type v (snd p)) OffboardControl_parameters"
    by (simp add: OffboardControl_parameters_def offboard_yaml_def)
  then obtain w where w: "declare_all (typed_table (map_of offboard_yaml)) OffboardControl_parameters Map.empty = (Inr (), w)"
    "\<And>m. m \<in> fst ` set OffboardControl_parameters \<Longrightarrow>
       prm_get (typed_table (map_of offboard_yaml)) w m = declared_value OffboardControl_parameters (map_of offboard_yaml) m"
    using typed_declared_values [of "map_of offboard_yaml" OffboardControl_parameters] by blast
  have n: "list_all (\<lambda>m. m \<in> fst ` set OffboardControl_parameters) [''control_rate_hz'', ''waypoint_timeout_s'', ''offboard_warmup_s'', ''offboard_command_retry_s'', ''offset_alpha'', ''takeoff_altitude'', ''altitude_tolerance'']"
    by (simp add: OffboardControl_parameters_def)
  have e: "list_all (\<lambda>m. prm_get (typed_table (map_of offboard_yaml)) w m =
      declared_value OffboardControl_parameters (map_of offboard_yaml) m) [''control_rate_hz'', ''waypoint_timeout_s'', ''offboard_warmup_s'', ''offboard_command_retry_s'', ''offset_alpha'', ''takeoff_altitude'', ''altitude_tolerance'']"
    using n w(2) unfolding list_all_iff by blast
  have "read_offboard (prm_get (typed_table (map_of offboard_yaml)) w) =
      read_offboard (declared_value OffboardControl_parameters (map_of offboard_yaml))"
    using e by (simp add: read_offboard_def)
  with w(1) shipped_offboard
  show "\<exists>w. declare_all (typed_table (map_of offboard_yaml)) OffboardControl_parameters Map.empty = (Inr (), w) \<and>
      read_offboard (prm_get (typed_table (map_of offboard_yaml)) w) = Some
        \<lparr>control_rate_hz = 50, waypoint_timeout_s = 1, offboard_warmup_s = 1, offboard_command_retry_s = 1,
         offset_alpha = 1 / 100, takeoff_altitude = 1, altitude_tolerance = 1 / 10\<rparr>"
    by auto
qed

section \<open>When the controller server configures\<close>

definition override_typed :: "(string \<Rightarrow> param_value option) \<Rightarrow> string \<times> param_value \<Rightarrow> bool" where
  "override_typed over p = (case over (fst p) of None \<Rightarrow> True | Some v \<Rightarrow> same_type v (snd p))"

lemma same_type_right [simp]:
  "same_type v (Prm_Double d) \<longleftrightarrow> (\<exists>x. v = Prm_Double x)"
  "same_type v (Prm_String s) \<longleftrightarrow> (\<exists>x. v = Prm_String x)"
  by (cases v; simp)+

lemma override_typed_iff:
  "override_typed over (n, Prm_Double d) \<longleftrightarrow> (case over n of None \<Rightarrow> True | Some v \<Rightarrow> \<exists>x. v = Prm_Double x)"
  "override_typed over (n, Prm_String s) \<longleftrightarrow> (case over n of None \<Rightarrow> True | Some v \<Rightarrow> \<exists>x. v = Prm_String x)"
  by (simp_all add: override_typed_def split: option.split)

lemma declared_double:
  assumes "case map_of ps n of Some (Prm_Double _) \<Rightarrow> True | _ \<Rightarrow> False"
  shows "as_double (declared_value ps over n) = None \<longleftrightarrow> \<not> (case over n of None \<Rightarrow> True | Some v \<Rightarrow> \<exists>x. v = Prm_Double x)"
  using assms by (auto simp: as_double_def declared_value_def split: option.splits param_value.splits)

lemma declared_string:
  assumes "case map_of ps n of Some (Prm_String _) \<Rightarrow> True | _ \<Rightarrow> False"
  shows "as_string (declared_value ps over n) = None \<longleftrightarrow> \<not> (case over n of None \<Rightarrow> True | Some v \<Rightarrow> \<exists>x. v = Prm_String x)"
  using assms by (auto simp: as_string_def declared_value_def split: option.splits param_value.splits)

lemma read_controller_None:
  "read_controller get = None \<longleftrightarrow>
     list_ex (\<lambda>n. as_double (get n) = None) [''controller_frequency'', ''transform_tolerance'', ''xyz_goal_tolerance'',
       ''yaw_goal_tolerance'', ''default_speed_limit'', ''slowdown_distance'', ''min_speed'', ''ref_jerk_max'', ''ref_acc_max'',
       ''ref_vel_max'', ''ref_omega'', ''ref_zita'', ''ref_yaw_jerk_max'', ''ref_yaw_acc_max'', ''ref_yaw_vel_max''] \<or>
     list_ex (\<lambda>n. as_string (get n) = None) [''waypoint_topic'', ''global_frame'', ''robot_base_frame'', ''speed_limit_topic'']"
  unfolding read_controller_def bind_eq_None_conv by auto

lemma controller_types:
  "read_controller (declared_value ControllerServer_parameters over) \<noteq> None \<longleftrightarrow>
    list_all (override_typed over) ControllerServer_parameters"
  unfolding read_controller_None
  by (simp add: declared_double declared_string ControllerServer_parameters_def override_typed_iff conj_ac)



end
