(* ===== verification/Server_Lifecycle.thy ===== *)
theory Server_Lifecycle
  imports Planner_Server_Props Controller_Loop Lifecycle_Node
begin

text \<open>
  The lifecycle callbacks of \<open>PlannerServer\<close> and \<open>ControllerServer\<close> that switch the action server, the plugins, the publisher and the
  bond (\<open>planner_server.cpp\<close>, \<open>controller_server.cpp\<close>), and the helpers at the start of \<open>computePlan\<close>. A plugin is a state with its
  operations. Theorems: what is active after each callback, and what happens to a goal that arrives while the planner server is being
  activated: the action server is active before the plugins.
\<close>

section \<open>PlannerServer\<close>

record ('p, 'h, 'g, 'w) planner_node =
  pn_plugins :: "string \<rightharpoonup> 'p"
  pn_publisher :: bool
  pn_action :: "('h, 'g) server"
  pn_base :: "'w lifecycle_node"

text \<open>\<open>on_activate\<close> in two parts, between which other threads run: the action server has a thread of its own.\<close>

definition pl_activate_server :: "('p, 'h, 'g, 'w) planner_node \<Rightarrow> ('p, 'h, 'g, 'w) planner_node" where
  "pl_activate_server n = n\<lparr>pn_publisher := True, pn_action := activate (pn_action n)\<rparr>"

definition pl_activate_plugins :: "('p \<Rightarrow> 'p) \<Rightarrow> ('p, 'h, 'g, 'w) planner_node \<Rightarrow> ('p, 'h, 'g, 'w) planner_node" where
  "pl_activate_plugins plugin_activate n =
     n\<lparr>pn_plugins := map_option plugin_activate \<circ> pn_plugins n, pn_base := createBond (pn_base n)\<rparr>"

definition pl_on_activate :: "('p \<Rightarrow> 'p) \<Rightarrow> ('p, 'h, 'g, 'w) planner_node \<Rightarrow> ('p, 'h, 'g, 'w) planner_node" where
  "pl_on_activate plugin_activate n = pl_activate_plugins plugin_activate (pl_activate_server n)"

text \<open>\<open>on_deactivate\<close>; \<open>None\<close> while the action server waits for its worker.\<close>

definition pl_on_deactivate ::
  "('p \<Rightarrow> 'p) \<Rightarrow> ('h, 'a, 'r, 'g) goal_api \<Rightarrow> ((('h, 'g) server \<Rightarrow> ('h, 'g) server) \<times> bool) list \<Rightarrow>
    ('p, 'h, 'g, 'w) planner_node \<Rightarrow> ('p, 'h, 'g, 'w) planner_node option" where
  "pl_on_deactivate plugin_deactivate api rounds n =
     (case deactivate api None rounds (pn_action n) of
        None \<Rightarrow> None
      | Some s \<Rightarrow>
          Some (n\<lparr>pn_action := s, pn_publisher := False, pn_plugins := map_option plugin_deactivate \<circ> pn_plugins n,
                  pn_base := destroyBond (pn_base n)\<rparr>))"

text \<open>The helpers of \<open>computePlan\<close>; the pointer to the action server may be null.\<close>

definition isServerInactive :: "('h, 'g) server option \<Rightarrow> bool" where
  "isServerInactive action_server = (case action_server of None \<Rightarrow> True | Some s \<Rightarrow> \<not> server_active s)"

definition isCancelRequested :: "('h, 'a, 'r, 'g) goal_api \<Rightarrow> ('h, 'g) server \<Rightarrow> bool \<times> ('h, 'g) server" where
  "isCancelRequested api s =
     (if is_cancel_requested api s then (True, terminate_all api (gh_empty_result api) s) else (False, s))"

definition getPreemptedGoalIfRequested ::
  "('h, 'a, 'r, 'g) goal_api \<Rightarrow> 'a option \<Rightarrow> ('h, 'g) server \<Rightarrow> 'a option \<times> ('h, 'g) server" where
  "getPreemptedGoalIfRequested api goal s = (if preempt_requested s then accept_pending_goal api s else (goal, s))"

section \<open>ControllerServer\<close>

definition ctl_on_activate ::
  "('h, 'g) server \<times> 'w lifecycle_node \<Rightarrow> ('h, 'g) server \<times> 'w lifecycle_node" where
  "ctl_on_activate = (\<lambda>(s, n). (activate s, createBond n))"

definition ctl_on_deactivate ::
  "('h, 'a, 'r, 'g) goal_api \<Rightarrow> ((('h, 'g) server \<Rightarrow> ('h, 'g) server) \<times> bool) list \<Rightarrow>
    ('h, 'g) server \<times> 'w lifecycle_node \<Rightarrow> (('h, 'g) server \<times> 'w lifecycle_node) option" where
  "ctl_on_deactivate api rounds = (\<lambda>(s, n).
     case deactivate api None rounds s of None \<Rightarrow> None | Some s1 \<Rightarrow> Some (s1, destroyBond n))"

section \<open>Theorems\<close>

text \<open>\<open>computePlan\<close> in terms of the helpers.\<close>

lemma computePlan_steps:
  "computePlan api p src e s0 =
     (let goal = get_current_goal api s0; s = pe_start e s0 in
      if isServerInactive (Some s) then (Plan_Inactive, s)
      else case isCancelRequested api s of
             (True, s1) \<Rightarrow> (Plan_Canceled, s1)
           | (False, s1) \<Rightarrow>
               (case getPreemptedGoalIfRequested api goal s1 of
                  (None, s2) \<Rightarrow> (Plan_Null_Goal, s2)
                | (Some g, s2) \<Rightarrow> plan_goal api p src e g s2))"
  by (simp add: computePlan_def isServerInactive_def isCancelRequested_def getPreemptedGoalIfRequested_def Let_def
      split: prod.split option.split)

lemma pl_on_activate_effect:
  fixes n :: "(moveit_planner, 'h, 'g, 'w) planner_node"
  assumes "pn_plugins (pl_on_activate mp_activate n) i = Some m"
  shows "mp_active m" "server_active (pn_action (pl_on_activate mp_activate n))"
  using assms by (auto simp: pl_on_activate_def pl_activate_plugins_def pl_activate_server_def mp_activate_def activate_def)

text \<open>An inactive plugin answers with an empty path, which the server reports as \<open>NO_VALID_PATH\<close> (208), whatever the goal.\<close>

lemma inactive_plugin_fails:
  assumes "\<not> mp_active m" and "getPlannerOrThrow p (cg_planner_id goal) = Inr (moveit_iface mv tf isfinite cancel m w)"
    and "endpoints src (pl_global_frame p) goal = Inr (start, target)"
    and "\<not> is_cancel_requested api s" and "\<not> is_cancel_requested api (pe_tf e s)" and "\<not> is_cancel_requested api (pe_plan e (pe_tf e s))"
  shows "fst (plan_goal api p src e goal s) = Plan_Failed 208"
proof -
  have "poses (fst (mp_createPlan mv tf isfinite cancel m start target w)) = []"
    using assms(1) by (simp add: mp_createPlan_def Let_def split: option.split)
  then show ?thesis
    using assms(2-6) by (simp add: plan_goal_def moveit_iface_def fail_plan_def plan_catch_code_def Let_def)
qed

text \<open>Between the two parts of \<open>on_activate\<close> the server takes goals while no plugin is active, so it accepts a goal that
  the plugin then fails.\<close>

lemma activation_gap:
  fixes n :: "(moveit_planner, 'h, 'g, 'w) planner_node"
  assumes "pn_plugins n i = Some m" and "\<not> mp_active m"
  shows "server_active (pn_action (pl_activate_server n)) \<and> pn_plugins (pl_activate_server n) i = Some m \<and>
    handle_goal (pn_action (pl_activate_server n)) = ACCEPT_AND_EXECUTE"
  using assms by (simp add: pl_activate_server_def activate_def handle_goal_def)

section \<open>Feedback during a deactivation\<close>

text \<open>\<open>publish_feedback\<close> is fine as long as no other thread drops the current goal between its two steps. The deadline of \<open>deactivate\<close> does: it
  terminates the goals from the lifecycle thread, and the worker that is publishing feedback uses a null handle.\<close>

lemma publish_feedback_safe:
  assumes "\<And>s. current_handle (between s) = current_handle s"
  shows "publish_feedback api send between fb s w \<noteq> None"
  using assms by (auto simp: publish_feedback_def is_active_def Let_def split: option.splits)

lemma publish_feedback_null:
  assumes "goal_handles api ok" and "server_inv api ok s" and "current_handle s \<noteq> None"
  shows "publish_feedback api send (terminate_all api r) fb s w = None"
proof -
  have "current_handle (terminate_all api r s) = None"
    by (rule goal_handles.terminate_all_inv(2) [OF assms(1,2)])
  moreover have "is_active api (goal_store s) (current_handle s)"
    using assms(2,3) by (auto simp: server_inv_def is_active_def split: option.split)
  ultimately show ?thesis
    by (simp add: publish_feedback_def)
qed

end
