(* ===== verification/Json_Convert.thy ===== *)
theory Json_Convert
  imports Port_Text
begin

text \<open>
  \<open>json_utils.hpp\<close>: how the messages on the blackboard are written as JSON and read back, for ports given as JSON and for the monitor of
  BehaviorTree.CPP. \<open>BT_JSON_CONVERTER\<close> of that library makes both directions from one list of fields: writing sets every field of an
  object, reading takes every field with \<open>at\<close> and \<open>get_to\<close>, which throw on a missing field or a value of another type. An object is
  an association list. Integers are cast to the width of the member, as nlohmann's JSON library does. Theorem: every message is
  read back as it was written.
\<close>

section \<open>Values\<close>

datatype json =
  J_Null | J_Bool bool | J_Int int | J_Double double | J_String string | J_Array "json list" | J_Object "(string \<times> json) list"

datatype json_error = J_Out_Of_Range | J_Type_Error | J_Runtime_Error

definition j_bind :: "json_error + 'a \<Rightarrow> ('a \<Rightarrow> json_error + 'b) \<Rightarrow> json_error + 'b" where
  "j_bind r k = (case r of Inl e \<Rightarrow> Inl e | Inr x \<Rightarrow> k x)"

fun j_at :: "string \<Rightarrow> json \<Rightarrow> json_error + json" where
  "j_at n (J_Object fs) = (case map_of fs n of None \<Rightarrow> Inl J_Out_Of_Range | Some v \<Rightarrow> Inr v)"
| "j_at n _ = Inl J_Type_Error"

fun j_contains :: "string \<Rightarrow> json \<Rightarrow> bool" where
  "j_contains n (J_Object fs) \<longleftrightarrow> map_of fs n \<noteq> None"
| "j_contains n _ \<longleftrightarrow> False"

definition truncate_int :: "double \<Rightarrow> int" where
  "truncate_int x = (if x < 0 then \<lceil>x\<rceil> else \<lfloor>x\<rfloor>)"

text \<open>\<open>get<int>\<close>, \<open>get<double>\<close> and \<open>get<std::string>\<close>: any number or truth value is an arithmetic value.\<close>

fun j_int :: "json \<Rightarrow> json_error + int" where
  "j_int (J_Int i) = Inr i"
| "j_int (J_Double x) = Inr (truncate_int x)"
| "j_int (J_Bool b) = Inr (if b then 1 else 0)"
| "j_int _ = Inl J_Type_Error"

fun j_double :: "json \<Rightarrow> json_error + double" where
  "j_double (J_Int i) = Inr (real_of_int i)"
| "j_double (J_Double x) = Inr x"
| "j_double (J_Bool b) = Inr (if b then 1 else 0)"
| "j_double _ = Inl J_Type_Error"

fun j_string :: "json \<Rightarrow> json_error + string" where
  "j_string (J_String s) = Inr s"
| "j_string _ = Inl J_Type_Error"

fun j_all :: "(json \<Rightarrow> json_error + 'a) \<Rightarrow> json list \<Rightarrow> json_error + 'a list" where
  "j_all f [] = Inr []"
| "j_all f (j # js) = j_bind (f j) (\<lambda>x. j_bind (j_all f js) (\<lambda>xs. Inr (x # xs)))"

fun j_list :: "(json \<Rightarrow> json_error + 'a) \<Rightarrow> json \<Rightarrow> json_error + 'a list" where
  "j_list f (J_Array js) = j_all f js"
| "j_list f _ = Inl J_Type_Error"

definition j_field :: "(json \<Rightarrow> json_error + 'a) \<Rightarrow> string \<Rightarrow> json \<Rightarrow> json_error + 'a" where
  "j_field f n js = j_bind (j_at n js) f"

definition cast_int32 :: "int \<Rightarrow> int" where
  "cast_int32 i = (i + 2 ^ 31) mod 2 ^ 32 - 2 ^ 31"

section \<open>Messages\<close>

text \<open>\<open>builtin_interfaces::msg::Time\<close>: a time in nanoseconds is its seconds and the remaining nanoseconds.\<close>

definition time_to_json :: "time_ns \<Rightarrow> json" where
  "time_to_json t = J_Object [(''sec'', J_Int (t div 10 ^ 9)), (''nanosec'', J_Int (t mod 10 ^ 9))]"

definition time_from_json :: "json \<Rightarrow> json_error + time_ns" where
  "time_from_json js =
     j_bind (j_field j_int ''sec'' js) (\<lambda>s. j_bind (j_field j_int ''nanosec'' js) (\<lambda>n.
       Inr (cast_int32 s * 10 ^ 9 + n mod 2 ^ 32)))"

definition header_to_json :: "header \<Rightarrow> json" where
  "header_to_json h = J_Object [(''stamp'', time_to_json (stamp h)), (''frame_id'', J_String (frame_id h))]"

definition header_from_json :: "json \<Rightarrow> json_error + header" where
  "header_from_json js =
     j_bind (j_field time_from_json ''stamp'' js) (\<lambda>t. j_bind (j_field j_string ''frame_id'' js) (\<lambda>f.
       Inr \<lparr>stamp = t, frame_id = f\<rparr>))"

definition point_to_json :: "point \<Rightarrow> json" where
  "point_to_json p = J_Object [(''x'', J_Double (px p)), (''y'', J_Double (py p)), (''z'', J_Double (pz p))]"

definition point_from_json :: "json \<Rightarrow> json_error + point" where
  "point_from_json js =
     j_bind (j_field j_double ''x'' js) (\<lambda>x. j_bind (j_field j_double ''y'' js) (\<lambda>y. j_bind (j_field j_double ''z'' js) (\<lambda>z.
       Inr \<lparr>px = x, py = y, pz = z\<rparr>)))"

definition quaternion_to_json :: "quaternion \<Rightarrow> json" where
  "quaternion_to_json q =
     J_Object [(''x'', J_Double (qx q)), (''y'', J_Double (qy q)), (''z'', J_Double (qz q)), (''w'', J_Double (qw q))]"

definition quaternion_from_json :: "json \<Rightarrow> json_error + quaternion" where
  "quaternion_from_json js =
     j_bind (j_field j_double ''x'' js) (\<lambda>x. j_bind (j_field j_double ''y'' js) (\<lambda>y.
     j_bind (j_field j_double ''z'' js) (\<lambda>z. j_bind (j_field j_double ''w'' js) (\<lambda>w.
       Inr \<lparr>qx = x, qy = y, qz = z, qw = w\<rparr>))))"

definition pose_to_json :: "pose \<Rightarrow> json" where
  "pose_to_json p =
     J_Object [(''position'', point_to_json (position p)), (''orientation'', quaternion_to_json (orientation p))]"

definition pose_from_json :: "json \<Rightarrow> json_error + pose" where
  "pose_from_json js =
     j_bind (j_field point_from_json ''position'' js) (\<lambda>p. j_bind (j_field quaternion_from_json ''orientation'' js) (\<lambda>q.
       Inr \<lparr>position = p, orientation = q\<rparr>))"

definition pose_stamped_to_json :: "pose_stamped \<Rightarrow> json" where
  "pose_stamped_to_json p =
     J_Object [(''header'', header_to_json (ps_header p)), (''pose'', pose_to_json (ps_pose p))]"

definition pose_stamped_from_json :: "json \<Rightarrow> json_error + pose_stamped" where
  "pose_stamped_from_json js =
     j_bind (j_field header_from_json ''header'' js) (\<lambda>h. j_bind (j_field pose_from_json ''pose'' js) (\<lambda>p.
       Inr \<lparr>ps_header = h, ps_pose = p\<rparr>))"

definition goals_to_json :: "goals \<Rightarrow> json" where
  "goals_to_json g =
     J_Object [(''header'', header_to_json (goals_header g)), (''goals'', J_Array (map pose_stamped_to_json (goal_list g)))]"

definition goals_from_json :: "json \<Rightarrow> json_error + goals" where
  "goals_from_json js =
     j_bind (j_field header_from_json ''header'' js) (\<lambda>h. j_bind (j_field (j_list pose_stamped_from_json) ''goals'' js) (\<lambda>ps.
       Inr \<lparr>goals_header = h, goal_list = ps\<rparr>))"

definition path_to_json :: "path \<Rightarrow> json" where
  "path_to_json p =
     J_Object [(''header'', header_to_json (path_header p)), (''poses'', J_Array (map pose_stamped_to_json (poses p)))]"

definition path_from_json :: "json \<Rightarrow> json_error + path" where
  "path_from_json js =
     j_bind (j_field header_from_json ''header'' js) (\<lambda>h. j_bind (j_field (j_list pose_stamped_from_json) ''poses'' js) (\<lambda>ps.
       Inr \<lparr>path_header = h, poses = ps\<rparr>))"

definition waypoint_to_json :: "text_waypoint \<Rightarrow> json" where
  "waypoint_to_json w =
     J_Object [(''waypoint_status'', J_Int (uint (tw_status w))), (''waypoint_index'', J_Int (uint (tw_index w))),
       (''waypoint_pose'', pose_stamped_to_json (tw_pose w)), (''error_code'', J_Int (uint (tw_error_code w))),
       (''error_msg'', J_String (tw_error_msg w))]"

definition waypoint_from_json :: "json \<Rightarrow> json_error + text_waypoint" where
  "waypoint_from_json js =
     j_bind (j_field j_int ''waypoint_status'' js) (\<lambda>s. j_bind (j_field j_int ''waypoint_index'' js) (\<lambda>i.
     j_bind (j_field pose_stamped_from_json ''waypoint_pose'' js) (\<lambda>p. j_bind (j_field j_int ''error_code'' js) (\<lambda>c.
     j_bind (j_field j_string ''error_msg'' js) (\<lambda>m.
       Inr \<lparr>tw_status = word_of_int s, tw_index = word_of_int i, tw_pose = p, tw_error_code = word_of_int c, tw_error_msg = m\<rparr>)))))"

text \<open>\<open>std::chrono::milliseconds\<close>: the count is written with 64 bits and read as an \<open>int\<close>.\<close>

definition milliseconds_to_json :: "int \<Rightarrow> json" where
  "milliseconds_to_json n = J_Object [(''__type'', J_String ''std::chrono::milliseconds''), (''ms'', J_Int n)]"

definition milliseconds_from_json :: "json \<Rightarrow> json_error + int" where
  "milliseconds_from_json js =
     (if j_contains ''ms'' js then j_bind (j_field j_int ''ms'' js) (\<lambda>i. Inr (cast_int32 i)) else Inl J_Runtime_Error)"

section \<open>Reading back\<close>

definition time_fits :: "time_ns \<Rightarrow> bool" where
  "time_fits t \<longleftrightarrow> - (2 ^ 31) \<le> t div 10 ^ 9 \<and> t div 10 ^ 9 < 2 ^ 31"

definition pose_fits :: "pose_stamped \<Rightarrow> bool" where
  "pose_fits p \<longleftrightarrow> time_fits (stamp (ps_header p))"

lemma cast_int32_id: "- (2 ^ 31) \<le> i \<Longrightarrow> i < 2 ^ 31 \<Longrightarrow> cast_int32 i = i"
  by (simp add: cast_int32_def)

named_theorems json_back \<open>values that are read back as they were written\<close>

lemmas json_reading = j_bind_def j_field_def

lemma time_back [json_back]: "time_fits t \<Longrightarrow> time_from_json (time_to_json t) = Inr t"
proof -
  assume "time_fits t"
  moreover have "t mod 10 ^ 9 mod 2 ^ 32 = t mod 10 ^ 9"
    using pos_mod_sign [of "10 ^ 9" t] pos_mod_bound [of "10 ^ 9" t] by (intro mod_pos_pos_trivial) simp_all
  ultimately show ?thesis
    by (simp add: time_from_json_def time_to_json_def json_reading cast_int32_id time_fits_def)
qed

lemma header_back [json_back]: "time_fits (stamp h) \<Longrightarrow> header_from_json (header_to_json h) = Inr h"
  by (simp add: header_from_json_def header_to_json_def json_reading json_back)

lemma point_back [json_back]: "point_from_json (point_to_json p) = Inr p"
  by (simp add: point_from_json_def point_to_json_def json_reading)

lemma quaternion_back [json_back]: "quaternion_from_json (quaternion_to_json q) = Inr q"
  by (simp add: quaternion_from_json_def quaternion_to_json_def json_reading)

lemma pose_back [json_back]: "pose_from_json (pose_to_json p) = Inr p"
  by (simp add: pose_from_json_def pose_to_json_def json_reading json_back)

lemma pose_stamped_back [json_back]: "pose_fits p \<Longrightarrow> pose_stamped_from_json (pose_stamped_to_json p) = Inr p"
  by (simp add: pose_stamped_from_json_def pose_stamped_to_json_def json_reading json_back pose_fits_def)

lemma poses_back [json_back]:
  "list_all pose_fits ps \<Longrightarrow> j_all pose_stamped_from_json (map pose_stamped_to_json ps) = Inr ps"
  by (induction ps) (simp_all add: json_back j_bind_def)

lemma goals_back [json_back]:
  "time_fits (stamp (goals_header g)) \<Longrightarrow> list_all pose_fits (goal_list g) \<Longrightarrow> goals_from_json (goals_to_json g) = Inr g"
  by (simp add: goals_from_json_def goals_to_json_def json_reading json_back)

lemma path_back [json_back]:
  "time_fits (stamp (path_header p)) \<Longrightarrow> list_all pose_fits (poses p) \<Longrightarrow> path_from_json (path_to_json p) = Inr p"
  by (simp add: path_from_json_def path_to_json_def json_reading json_back)

lemma waypoint_back [json_back]: "pose_fits (tw_pose w) \<Longrightarrow> waypoint_from_json (waypoint_to_json w) = Inr w"
  by (simp add: waypoint_from_json_def waypoint_to_json_def json_reading json_back)

text \<open>A duration is read back up to 32 bits: from 2147483648 ms on it is another one.\<close>

lemma milliseconds_back [json_back]: "milliseconds_from_json (milliseconds_to_json n) = Inr (cast_int32 n)"
  by (simp add: milliseconds_from_json_def milliseconds_to_json_def json_reading)

lemma milliseconds_wrap: "milliseconds_from_json (milliseconds_to_json (2 ^ 31)) = Inr (- (2 ^ 31))"
  by (simp add: milliseconds_back cast_int32_def)

text \<open>C39: The messages of the blackboard survive JSON: a path, a list of goals and the status of a waypoint whose times fit into a message are read
  back exactly as they were written, and a duration is if its milliseconds fit into 32 bits.\<close>

theorem json_messages_roundtrip:
  assumes "time_fits (stamp (path_header p))" and "list_all pose_fits (poses p)"
    and "time_fits (stamp (goals_header g))" and "list_all pose_fits (goal_list g)"
    and "pose_fits (tw_pose w)" and "- (2 ^ 31) \<le> n" and "n < 2 ^ 31"
  shows "path_from_json (path_to_json p) = Inr p \<and> goals_from_json (goals_to_json g) = Inr g \<and>
    waypoint_from_json (waypoint_to_json w) = Inr w \<and> milliseconds_from_json (milliseconds_to_json n) = Inr n"
  using assms by (simp add: json_back cast_int32_id)

theorem json_messages_roundtrip_witness:
  "path_from_json (path_to_json \<lparr>path_header = default_header, poses = [default_pose_stamped]\<rparr>) =
     Inr \<lparr>path_header = default_header, poses = [default_pose_stamped]\<rparr>"
  using json_messages_roundtrip [of "\<lparr>path_header = default_header, poses = [default_pose_stamped]\<rparr>"
    "\<lparr>goals_header = default_header, goal_list = []\<rparr>"
    "\<lparr>tw_status = 0, tw_index = 0, tw_pose = default_pose_stamped, tw_error_code = 0, tw_error_msg = []\<rparr>" 0]
  by (simp add: time_fits_def pose_fits_def default_header_def default_pose_stamped_def)

end
