(* ===== verification/Transforms.thy ===== *)
theory Transforms
  imports Nav3d_Util Checkers
begin

text \<open>
  The four overloads of \<open>getTransform\<close> (\<open>robot_utils.cpp\<close>). The transform buffer and \<open>tf2::fromMsg\<close> are parameters: the record \<open>tf_lookup\<close>,
  whose look-ups give \<open>None\<close> when they throw; what is used of them is the locale \<open>tf_buffer\<close>. The message of the caller is an argument and
  a result. Theorems: which frames a transform that was found connects, and what the caller is left with when none is found.
\<close>

section \<open>The buffer\<close>

record transform_msg =
  tm_stamp :: time_ns
  tm_frame :: string
  tm_child :: string
  tm_translation :: point
  tm_rotation :: quaternion

record ('t, 'w) tf_lookup =
  lookupTransform :: "string \<Rightarrow> string \<Rightarrow> duration_ns \<Rightarrow> 'w \<Rightarrow> transform_msg option \<times> 'w"
  lookupTransform_between :: "string \<Rightarrow> time_ns \<Rightarrow> string \<Rightarrow> time_ns \<Rightarrow> string \<Rightarrow> duration_ns \<Rightarrow> 'w \<Rightarrow> transform_msg option \<times> 'w"
  fromMsg :: "point \<Rightarrow> quaternion \<Rightarrow> 't"

section \<open>The overloads\<close>

text \<open>The latest transform, as a message.\<close>

definition getTransform ::
  "('t, 'w) tf_lookup \<Rightarrow> string \<Rightarrow> string \<Rightarrow> duration_ns \<Rightarrow> transform_msg \<Rightarrow> 'w \<Rightarrow> (bool \<times> transform_msg) \<times> 'w" where
  "getTransform tf source target tolerance msg w =
     (if source = target then
        ((True, msg\<lparr>tm_frame := target, tm_child := source, tm_translation := zero_point, tm_rotation := identity_quaternion\<rparr>), w)
      else case lookupTransform tf target source tolerance w of
        (Some t, w1) \<Rightarrow> ((True, t), w1)
      | (None, w1) \<Rightarrow> ((False, msg), w1))"

definition default_transform :: transform_msg where
  "default_transform = \<lparr>tm_stamp = 0, tm_frame = [], tm_child = [], tm_translation = zero_point, tm_rotation = identity_quaternion\<rparr>"

text \<open>As a \<open>tf2::Transform\<close>, which starts as the identity.\<close>

definition getTransform_tf2 ::
  "('t, 'w) tf_lookup \<Rightarrow> string \<Rightarrow> string \<Rightarrow> duration_ns \<Rightarrow> 'w \<Rightarrow> (bool \<times> 't) \<times> 'w" where
  "getTransform_tf2 tf source target tolerance w =
     (case getTransform tf source target tolerance default_transform w of
        ((False, m), w1) \<Rightarrow> ((False, fromMsg tf zero_point identity_quaternion), w1)
      | ((True, m), w1) \<Rightarrow> ((True, fromMsg tf (tm_translation m) (tm_rotation m)), w1))"

text \<open>Between two times, through a fixed frame; equal frames are looked up too.\<close>

definition getTransform_between ::
  "('t, 'w) tf_lookup \<Rightarrow> string \<Rightarrow> time_ns \<Rightarrow> string \<Rightarrow> time_ns \<Rightarrow> string \<Rightarrow> duration_ns \<Rightarrow> transform_msg \<Rightarrow> 'w \<Rightarrow>
    (bool \<times> transform_msg) \<times> 'w" where
  "getTransform_between tf source source_time target target_time fixed_frame tolerance msg w =
     (case lookupTransform_between tf target target_time source source_time fixed_frame tolerance w of
        (Some t, w1) \<Rightarrow> ((True, t), w1)
      | (None, w1) \<Rightarrow> ((False, msg), w1))"

definition getTransform_between_tf2 ::
  "('t, 'w) tf_lookup \<Rightarrow> string \<Rightarrow> time_ns \<Rightarrow> string \<Rightarrow> time_ns \<Rightarrow> string \<Rightarrow> duration_ns \<Rightarrow> 'w \<Rightarrow> (bool \<times> 't) \<times> 'w" where
  "getTransform_between_tf2 tf source source_time target target_time fixed_frame tolerance w =
     (case getTransform_between tf source source_time target target_time fixed_frame tolerance default_transform w of
        ((False, m), w1) \<Rightarrow> ((False, fromMsg tf zero_point identity_quaternion), w1)
      | ((True, m), w1) \<Rightarrow> ((True, fromMsg tf (tm_translation m) (tm_rotation m)), w1))"

section \<open>Theorems\<close>

text \<open>A transform that is found leads from the source to the target frame.\<close>

locale tf_buffer =
  fixes tf :: "('t, 'w) tf_lookup"
  assumes latest: "lookupTransform tf target source d w = (Some t, w1) \<Longrightarrow> tm_frame t = target \<and> tm_child t = source"
    and between: "lookupTransform_between tf target tt source st f d w = (Some t, w1) \<Longrightarrow> tm_frame t = target \<and> tm_child t = source"
begin

lemma getTransform_frames:
  assumes "getTransform tf source target tolerance msg w = ((True, t), w1)"
  shows "tm_frame t = target \<and> tm_child t = source"
  using assms latest by (auto simp: getTransform_def split: if_splits prod.splits option.splits)

lemma getTransform_between_frames:
  assumes "getTransform_between tf source st target tt f tolerance msg w = ((True, t), w1)"
  shows "tm_frame t = target \<and> tm_child t = source"
  using assms between by (auto simp: getTransform_between_def split: prod.splits option.splits)

end

text \<open>A buffer that knows one transform.\<close>

definition one_transform :: "transform_msg \<Rightarrow> (point \<times> quaternion, unit) tf_lookup" where
  "one_transform t =
     \<lparr>lookupTransform = (\<lambda>target source d w. (if target = tm_frame t \<and> source = tm_child t then Some t else None, w)),
      lookupTransform_between = (\<lambda>target tt source st f d w. (if target = tm_frame t \<and> source = tm_child t then Some t else None, w)),
      fromMsg = Pair\<rparr>"

interpretation one_transform: tf_buffer "one_transform t" for t
  by unfold_locales (auto simp: one_transform_def split: if_splits)

text \<open>Failures: the message is left as it was, while a \<open>tf2::Transform\<close> is overwritten with the identity, so a caller that does not look at
  the result goes on with an old message or with no transformation. The identity is also what equal frames give, without the buffer.\<close>

lemma getTransform_failed:
  assumes "getTransform tf source target tolerance msg w = ((False, t), w1)"
  shows "t = msg" and "source \<noteq> target"
    and "fst (getTransform_tf2 tf source target tolerance w) = (False, fromMsg tf zero_point identity_quaternion)"
  using assms by (auto simp: getTransform_def getTransform_tf2_def split: if_splits prod.splits option.splits)

lemma getTransform_same_frame:
  "getTransform_tf2 tf frame frame tolerance w = ((True, fromMsg tf zero_point identity_quaternion), w)"
  by (simp add: getTransform_tf2_def getTransform_def)

lemma getTransform_tf2_result:
  "getTransform_tf2 tf source target tolerance w =
     (let ((ok, m), w1) = getTransform tf source target tolerance default_transform w in
      ((ok, fromMsg tf (tm_translation m) (tm_rotation m)), w1))"
  by (auto simp: getTransform_tf2_def getTransform_def default_transform_def Let_def split: prod.splits option.splits)

section \<open>Distances in the plane\<close>

text \<open>The overload of \<open>euclidean_distance\<close> for \<open>Pose2D\<close>, in \<open>geometry_utils.hpp\<close>. It forgets the angle.\<close>

definition euclidean_distance_pose2d :: "pose2d \<Rightarrow> pose2d \<Rightarrow> double" where
  "euclidean_distance_pose2d pos1 pos2 =
     (let dx = p2_x pos1 - p2_x pos2; dy = p2_y pos1 - p2_y pos2 in hypot2 dx dy)"

text \<open>It is the distance of the progress checkers, and a distance between places.\<close>

lemma euclidean_distance_pose2d_eq: "euclidean_distance_pose2d = pose_distance"
  by (simp add: fun_eq_iff euclidean_distance_pose2d_def pose_distance_def Let_def)

lemma euclidean_distance_pose2d_zero:
  "euclidean_distance_pose2d a b = 0 \<longleftrightarrow> p2_x a = p2_x b \<and> p2_y a = p2_y b"
  by (simp add: euclidean_distance_pose2d_def hypot2_def Let_def flip: power2_eq_square)

lemma euclidean_distance_pose2d_triangle:
  "euclidean_distance_pose2d a c \<le> euclidean_distance_pose2d a b + euclidean_distance_pose2d b c"
  using real_sqrt_sum_squares_triangle_ineq [of "p2_x a - p2_x b" "p2_x b - p2_x c" "p2_y a - p2_y b" "p2_y b - p2_y c"]
  by (simp add: euclidean_distance_pose2d_def hypot2_def Let_def flip: power2_eq_square)

end
