(* ===== verification/MoveIt_Settings.thy ===== *)
theory MoveIt_Settings
  imports Node_Parameters
begin

text \<open>
  The life of a \<open>MoveGroupInterface\<close> (\<open>movegroup_interface.cpp\<close>): its construction with a node and an executor thread of its own, the settings it
  passes on to MoveIt, and its destruction; and how \<open>MoveItGlobalPlanner::configure\<close> sets it up. What MoveIt has been told is the record
  \<open>moveit_ui\<close>. Theorems: MoveIt plans with the settings of the interface, the pipeline id never reaches it, and the thread ends with the interface.
\<close>

section \<open>State\<close>

record moveit_ui =
  ui_group :: string
  ui_state_monitor :: bool
  ui_planning_time :: double
  ui_attempts :: int
  ui_planner_id :: "string option"
  ui_workspace :: "(double \<times> double \<times> double \<times> double \<times> double \<times> double) option"

text \<open>The thread spins the executor until it is cancelled; \<open>mgi_node_added\<close> says that the executor has the node.\<close>

record mg_interface =
  mgi_group :: string
  mgi_node :: bool
  mgi_use_sim_time :: "bool option"
  mgi_executor :: bool
  mgi_node_added :: bool
  mgi_thread :: bool
  mgi_move_group :: "moveit_ui option"
  mgi_planning_time :: double
  mgi_planning_attempts :: int
  mgi_pipeline_id :: string
  mgi_planner_id :: string

section \<open>Operations\<close>

definition startExecutor :: "mg_interface \<Rightarrow> mg_interface" where
  "startExecutor m = m\<lparr>mgi_executor := True, mgi_node_added := True, mgi_thread := True\<rparr>"

text \<open>\<open>cancel\<close>, \<open>join\<close>, \<open>remove_node\<close>; the thread has ended when \<open>join\<close> returns.\<close>

definition stopExecutor :: "mg_interface \<Rightarrow> mg_interface" where
  "stopExecutor m =
     m\<lparr>mgi_thread := False, mgi_node_added := (if mgi_executor m \<and> mgi_node m then False else mgi_node_added m),
       mgi_executor := False\<rparr>"

text \<open>The constructor; the parent is \<open>None\<close> for a null pointer, or its parameter \<open>use_sim_time\<close>, which may be missing. The constructor throws
  for a null pointer, and if that parameter is not a truth value.\<close>

definition MoveGroupInterface_new :: "param_value option option \<Rightarrow> string \<Rightarrow> mg_interface option" where
  "MoveGroupInterface_new parent planning_group =
     (case parent of
        None \<Rightarrow> None
      | Some sim \<Rightarrow>
          (if sim \<noteq> None \<and> as_bool sim = None then None
           else
             let m = startExecutor
                  \<lparr>mgi_group = planning_group, mgi_node = True, mgi_use_sim_time = as_bool sim, mgi_executor = False, mgi_node_added = False,
                   mgi_thread = False, mgi_move_group = None, mgi_planning_time = 10, mgi_planning_attempts = 3,
                   mgi_pipeline_id = [], mgi_planner_id = []\<rparr>
             in Some (m\<lparr>mgi_move_group := Some \<lparr>ui_group = planning_group, ui_state_monitor = True,
                  ui_planning_time = mgi_planning_time m, ui_attempts = mgi_planning_attempts m,
                  ui_planner_id = None, ui_workspace = None\<rparr>\<rparr>)))"

definition MoveGroupInterface_delete :: "mg_interface \<Rightarrow> mg_interface" where
  "MoveGroupInterface_delete m = (stopExecutor (m\<lparr>mgi_move_group := None\<rparr>))\<lparr>mgi_node := False\<rparr>"

definition on_ui :: "(moveit_ui \<Rightarrow> moveit_ui) \<Rightarrow> mg_interface \<Rightarrow> mg_interface" where
  "on_ui f m = m\<lparr>mgi_move_group := map_option f (mgi_move_group m)\<rparr>"

definition setWorkspaceConstraints ::
  "double \<Rightarrow> double \<Rightarrow> double \<Rightarrow> double \<Rightarrow> double \<Rightarrow> double \<Rightarrow> mg_interface \<Rightarrow> mg_interface" where
  "setWorkspaceConstraints min_x min_y min_z max_x max_y max_z =
     on_ui (\<lambda>u. u\<lparr>ui_workspace := Some (min_x, min_y, min_z, max_x, max_y, max_z)\<rparr>)"

definition setPlanningParameters :: "double \<Rightarrow> int \<Rightarrow> mg_interface \<Rightarrow> mg_interface" where
  "setPlanningParameters planning_time attempts m =
     on_ui (\<lambda>u. u\<lparr>ui_planning_time := planning_time, ui_attempts := attempts\<rparr>)
       (m\<lparr>mgi_planning_time := planning_time, mgi_planning_attempts := attempts\<rparr>)"

definition setPlannerIds :: "string \<Rightarrow> string \<Rightarrow> mg_interface \<Rightarrow> mg_interface" where
  "setPlannerIds pipeline_id planner_id m =
     (let m1 = m\<lparr>mgi_pipeline_id := pipeline_id, mgi_planner_id := planner_id\<rparr> in
      if planner_id \<noteq> [] then on_ui (\<lambda>u. u\<lparr>ui_planner_id := Some planner_id\<rparr>) m1 else m1)"

section \<open>MoveItGlobalPlanner::configure\<close>

text \<open>The settings among the parameters of the plugin.\<close>

record mg_settings =
  set_planning_time :: double
  set_attempts :: int
  set_pipeline_id :: string
  set_planner_id :: string
  set_workspace :: "double \<times> double \<times> double \<times> double \<times> double \<times> double"

definition configure_interface :: "param_value option option \<Rightarrow> string \<Rightarrow> mg_settings \<Rightarrow> mg_interface option" where
  "configure_interface parent planning_group s =
     (case MoveGroupInterface_new parent planning_group of
        None \<Rightarrow> None
      | Some m \<Rightarrow>
          (case set_workspace s of (x0, y0, z0, x1, y1, z1) \<Rightarrow>
             Some (setWorkspaceConstraints x0 y0 z0 x1 y1 z1
               (setPlannerIds (set_pipeline_id s) (set_planner_id s)
                 (setPlanningParameters (set_planning_time s) (set_attempts s) m)))))"

section \<open>Theorems\<close>

lemmas mg_defs = startExecutor_def stopExecutor_def MoveGroupInterface_new_def MoveGroupInterface_delete_def on_ui_def
  setWorkspaceConstraints_def setPlanningParameters_def setPlannerIds_def configure_interface_def

text \<open>The executor has the node and a thread as long as the interface lives, and MoveIt has the settings of the interface.\<close>

definition mg_inv :: "mg_interface \<Rightarrow> bool" where
  "mg_inv m \<longleftrightarrow> mgi_node m \<and> mgi_executor m \<and> mgi_node_added m \<and> mgi_thread m \<and>
     (case mgi_move_group m of
        None \<Rightarrow> False
      | Some u \<Rightarrow> ui_group u = mgi_group m \<and> ui_planning_time u = mgi_planning_time m \<and> ui_attempts u = mgi_planning_attempts m \<and>
          (mgi_planner_id m \<noteq> [] \<longrightarrow> ui_planner_id u = Some (mgi_planner_id m)))"

lemma mg_new_inv: "MoveGroupInterface_new parent planning_group = Some m \<Longrightarrow> mg_inv m"
  by (auto simp: mg_defs mg_inv_def Let_def split: option.splits if_splits)

lemma mg_settings_inv:
  assumes "mg_inv m"
  shows "mg_inv (setWorkspaceConstraints a b c d e f m)" "mg_inv (setPlanningParameters t n m)" "mg_inv (setPlannerIds p q m)"
  using assms by (auto simp: mg_defs mg_inv_def Let_def split: option.splits)

lemma mg_deleted: "mg_inv m \<Longrightarrow> \<not> mgi_thread (MoveGroupInterface_delete m) \<and> \<not> mgi_executor (MoveGroupInterface_delete m) \<and>
    \<not> mgi_node_added (MoveGroupInterface_delete m) \<and> mgi_move_group (MoveGroupInterface_delete m) = None"
  by (simp add: mg_defs mg_inv_def)

lemma stopExecutor_twice: "mgi_node m \<Longrightarrow> mgi_executor m \<Longrightarrow> stopExecutor (stopExecutor m) = stopExecutor m"
  by (simp add: stopExecutor_def)

text \<open>What MoveIt is told by \<open>configure\<close>: not the pipeline, so MoveIt plans with its default pipeline whatever \<open>pipeline_id\<close> is.\<close>

lemma configured_interface:
  assumes "configure_interface parent planning_group s = Some m"
  shows "mg_inv m \<and> mgi_move_group m = Some \<lparr>ui_group = planning_group, ui_state_monitor = True, ui_planning_time = set_planning_time s,
    ui_attempts = set_attempts s, ui_planner_id = (if set_planner_id s = [] then None else Some (set_planner_id s)),
    ui_workspace = Some (set_workspace s)\<rparr>"
  using assms by (auto simp: mg_defs mg_inv_def Let_def split: option.splits if_splits prod.splits)

lemma pipeline_id_unused:
  "map_option mgi_move_group (configure_interface parent planning_group (s\<lparr>set_pipeline_id := a\<rparr>)) =
   map_option mgi_move_group (configure_interface parent planning_group (s\<lparr>set_pipeline_id := b\<rparr>))"
  by (auto simp: mg_defs Let_def split: option.splits prod.splits)

end
