(* ===== verification/Ros_Interfaces.thy ===== *)
theory Ros_Interfaces
  imports Node_Parameters BT_Control Lifecycle_Manager
begin

text \<open>
  Helpers around publishers and parameters: \<open>TwistPublisher\<close> and \<open>TwistSubscriber\<close> (\<open>twist_publisher.hpp\<close>, \<open>twist_subscriber.hpp\<close>),
  \<open>RosTopicLogger\<close> (\<open>ros_topic_logger.hpp\<close>), \<open>LifecycleNode::add_parameter\<close> (\<open>lifecycle_node.hpp\<close>), and the parameters and the diagnostics of
  the lifecycle manager (\<open>lifecycle_manager.cpp\<close>). A publisher keeps the list of what it has sent; a lifecycle publisher drops messages while it
  is not activated. A null pointer that is used is \<open>None\<close>. Theorems: a publisher and a subscriber with the same parameter use the same
  type, no null pointer is used, and the logger publishes every change of status once and in order.
\<close>

section \<open>TwistPublisher\<close>

record 'm publisher =
  pub_active :: bool
  pub_sent :: "'m list"

definition lifecycle_publish :: "'m \<Rightarrow> 'm publisher \<Rightarrow> 'm publisher" where
  "lifecycle_publish m p = (if pub_active p then p\<lparr>pub_sent := pub_sent p @ [m]\<rparr> else p)"

record twist_stamped =
  ts_header :: header
  ts_twist :: twist

record twist_publisher =
  tp_topic :: string
  tp_is_stamped :: bool
  twist_pub :: "twist publisher option"
  twist_stamped_pub :: "twist_stamped publisher option"

text \<open>The parameter \<open>enable_stamped_cmd_vel\<close>, declared with \<open>true\<close>; reading a value that is no truth value throws.\<close>

definition stamped_parameter ::
  "(param_value, 'w) param_api \<Rightarrow> 'w \<Rightarrow> (param_error + bool) \<times> 'w" where
  "stamped_parameter api w =
     (case declare_parameter_if_not_declared api ''enable_stamped_cmd_vel'' (Some (Prm_Bool True)) w of
        (Inl e, w1) \<Rightarrow> (Inl e, w1)
      | (Inr _, w1) \<Rightarrow>
          (case as_bool (prm_get api w1 ''enable_stamped_cmd_vel'') of None \<Rightarrow> (Inl Invalid_Value, w1) | Some b \<Rightarrow> (Inr b, w1)))"

definition TwistPublisher_new ::
  "(param_value, 'w) param_api \<Rightarrow> string \<Rightarrow> 'w \<Rightarrow> (param_error + twist_publisher) \<times> 'w" where
  "TwistPublisher_new api topic w =
     (case stamped_parameter api w of
        (Inl e, w1) \<Rightarrow> (Inl e, w1)
      | (Inr is_stamped, w1) \<Rightarrow>
          (Inr (if is_stamped
                then \<lparr>tp_topic = topic, tp_is_stamped = True, twist_pub = None, twist_stamped_pub = Some \<lparr>pub_active = False, pub_sent = []\<rparr>\<rparr>
                else \<lparr>tp_topic = topic, tp_is_stamped = False, twist_pub = Some \<lparr>pub_active = False, pub_sent = []\<rparr>, twist_stamped_pub = None\<rparr>), w1))"

definition set_active :: "bool \<Rightarrow> twist_publisher \<Rightarrow> twist_publisher option" where
  "set_active b t =
     (if tp_is_stamped t
      then map_option (\<lambda>p. t\<lparr>twist_stamped_pub := Some (p\<lparr>pub_active := b\<rparr>)\<rparr>) (twist_stamped_pub t)
      else map_option (\<lambda>p. t\<lparr>twist_pub := Some (p\<lparr>pub_active := b\<rparr>)\<rparr>) (twist_pub t))"

definition tp_on_activate :: "twist_publisher \<Rightarrow> twist_publisher option" where
  "tp_on_activate = set_active True"

definition tp_on_deactivate :: "twist_publisher \<Rightarrow> twist_publisher option" where
  "tp_on_deactivate = set_active False"

definition tp_is_activated :: "twist_publisher \<Rightarrow> bool option" where
  "tp_is_activated t =
     (if tp_is_stamped t then map_option pub_active (twist_stamped_pub t) else map_option pub_active (twist_pub t))"

definition tp_publish :: "twist_stamped \<Rightarrow> twist_publisher \<Rightarrow> twist_publisher option" where
  "tp_publish vel t =
     (if tp_is_stamped t
      then map_option (\<lambda>p. t\<lparr>twist_stamped_pub := Some (lifecycle_publish vel p)\<rparr>) (twist_stamped_pub t)
      else map_option (\<lambda>p. t\<lparr>twist_pub := Some (lifecycle_publish (ts_twist vel) p)\<rparr>) (twist_pub t))"

section \<open>TwistSubscriber\<close>

datatype twist_subscription = Sub_Twist | Sub_Twist_Stamped

datatype sub_error = Sub_Parameter param_error | Sub_Invalid_Argument

text \<open>The two constructors: with a callback for each type, and with one for the stamped type only.\<close>

definition TwistSubscriber_new ::
  "(param_value, 'w) param_api \<Rightarrow> 'w \<Rightarrow> (sub_error + twist_subscription) \<times> 'w" where
  "TwistSubscriber_new api w =
     (case stamped_parameter api w of
        (Inl e, w1) \<Rightarrow> (Inl (Sub_Parameter e), w1)
      | (Inr is_stamped, w1) \<Rightarrow> (Inr (if is_stamped then Sub_Twist_Stamped else Sub_Twist), w1))"

definition TwistSubscriber_new_stamped ::
  "(param_value, 'w) param_api \<Rightarrow> 'w \<Rightarrow> (sub_error + twist_subscription) \<times> 'w" where
  "TwistSubscriber_new_stamped api w =
     (case stamped_parameter api w of
        (Inl e, w1) \<Rightarrow> (Inl (Sub_Parameter e), w1)
      | (Inr is_stamped, w1) \<Rightarrow> (if is_stamped then Inr Sub_Twist_Stamped else Inl Sub_Invalid_Argument, w1))"

section \<open>RosTopicLogger\<close>

record status_change =
  sc_timestamp :: time_ns
  sc_node_name :: string
  sc_uid :: nat
  sc_previous :: node_status
  sc_current :: node_status

record topic_logger =
  event_log :: "status_change list"
  log_pub :: "(time_ns \<times> status_change list) list"

definition logger_callback :: "time_ns \<Rightarrow> string \<Rightarrow> nat \<Rightarrow> node_status \<Rightarrow> node_status \<Rightarrow> topic_logger \<Rightarrow> topic_logger" where
  "logger_callback timestamp name uid prev_status status l =
     l\<lparr>event_log := event_log l @ [\<lparr>sc_timestamp = timestamp, sc_node_name = name, sc_uid = uid, sc_previous = prev_status,
        sc_current = status\<rparr>]\<rparr>"

definition logger_flush :: "time_ns \<Rightarrow> topic_logger \<Rightarrow> topic_logger" where
  "logger_flush now l =
     (if event_log l \<noteq> [] then l\<lparr>log_pub := log_pub l @ [(now, event_log l)], event_log := []\<rparr> else l)"

section \<open>LifecycleNode::add_parameter\<close>

record param_descriptor =
  pd_name :: string
  pd_description :: string
  pd_additional_constraints :: string
  pd_read_only :: bool
  pd_floating_point_range :: "(double \<times> double \<times> double) list"
  pd_integer_range :: "(int \<times> int \<times> int) list"

definition plain_descriptor :: "string \<Rightarrow> string \<Rightarrow> string \<Rightarrow> bool \<Rightarrow> param_descriptor" where
  "plain_descriptor name description additional_constraints read_only =
     \<lparr>pd_name = name, pd_description = description, pd_additional_constraints = additional_constraints, pd_read_only = read_only,
      pd_floating_point_range = [], pd_integer_range = []\<rparr>"

text \<open>\<open>declare\<close> is \<open>declare_parameter\<close> of the node with a name, a default and a descriptor.\<close>

definition add_parameter ::
  "(string \<Rightarrow> param_value \<Rightarrow> param_descriptor \<Rightarrow> 'w \<Rightarrow> 'r \<times> 'w) \<Rightarrow> string \<Rightarrow> param_value \<Rightarrow> string \<Rightarrow> string \<Rightarrow> bool \<Rightarrow> 'w \<Rightarrow> 'r \<times> 'w" where
  "add_parameter declare_prm name dflt description additional_constraints read_only =
     declare_prm name dflt (plain_descriptor name description additional_constraints read_only)"

definition add_parameter_floating ::
  "(string \<Rightarrow> param_value \<Rightarrow> param_descriptor \<Rightarrow> 'w \<Rightarrow> 'r \<times> 'w) \<Rightarrow> string \<Rightarrow> param_value \<Rightarrow> double \<times> double \<times> double \<Rightarrow>
    string \<Rightarrow> string \<Rightarrow> bool \<Rightarrow> 'w \<Rightarrow> 'r \<times> 'w" where
  "add_parameter_floating declare_prm name dflt fp_range description additional_constraints read_only =
     declare_prm name dflt ((plain_descriptor name description additional_constraints read_only)\<lparr>pd_floating_point_range := [fp_range]\<rparr>)"

definition add_parameter_integer ::
  "(string \<Rightarrow> param_value \<Rightarrow> param_descriptor \<Rightarrow> 'w \<Rightarrow> 'r \<times> 'w) \<Rightarrow> string \<Rightarrow> param_value \<Rightarrow> int \<times> int \<times> int \<Rightarrow>
    string \<Rightarrow> string \<Rightarrow> bool \<Rightarrow> 'w \<Rightarrow> 'r \<times> 'w" where
  "add_parameter_integer declare_prm name dflt int_range description additional_constraints read_only =
     declare_prm name dflt ((plain_descriptor name description additional_constraints read_only)\<lparr>pd_integer_range := [int_range]\<rparr>)"

section \<open>The lifecycle manager's parameters\<close>

text \<open>The constructor declares \<open>node_names\<close> by its type, without a default, and the others with one; \<open>duration_cast\<close> cuts the seconds to
  milliseconds.\<close>

definition LifecycleManager_parameters :: declarations where
  "LifecycleManager_parameters =
     [(''autostart'', Prm_Bool False), (''bond_timeout'', Prm_Double 4), (''bond_respawn_max_duration'', Prm_Double 10),
      (''attempt_respawn_reconnection'', Prm_Bool True)]"

definition truncate_double :: "double \<Rightarrow> int" where
  "truncate_double x = (if x < 0 then \<lceil>x\<rceil> else \<lfloor>x\<rfloor>)"

definition read_manager ::
  "(double \<Rightarrow> duration_ns) \<Rightarrow> (string \<Rightarrow> param_value option) \<Rightarrow> 'w \<Rightarrow> (bool \<times> 'w manager) option" where
  "read_manager from_secs get w =
     Option.bind (as_string_array (get ''node_names'')) (\<lambda>names.
     Option.bind (as_bool (get ''autostart'')) (\<lambda>autostart.
     Option.bind (as_double (get ''bond_timeout'')) (\<lambda>bond_timeout_s.
     Option.bind (as_double (get ''bond_respawn_max_duration'')) (\<lambda>respawn_timeout_s.
     Option.bind (as_bool (get ''attempt_respawn_reconnection'')) (\<lambda>respawn.
       Some (autostart, manager_init names respawn (truncate_double (bond_timeout_s * 1000)) (from_secs respawn_timeout_s) w))))))"

definition transition_label_map :: "transition \<Rightarrow> string" where
  "transition_label_map tr =
     (case tr of
        CONFIGURE \<Rightarrow> ''Configuring ''
      | CLEANUP \<Rightarrow> ''Cleaning up ''
      | ACTIVATE \<Rightarrow> ''Activating ''
      | DEACTIVATE \<Rightarrow> ''Deactivating ''
      | UNCONFIGURED_SHUTDOWN \<Rightarrow> ''Shutting down '')"

datatype diagnostic_level = Diag_OK | Diag_ERROR

definition CreateActiveDiagnostic :: "'w manager \<Rightarrow> diagnostic_level \<times> string" where
  "CreateActiveDiagnostic m =
     (if system_active m then (Diag_OK, ''Nav3D is active'') else (Diag_ERROR, ''Nav3D is inactive''))"

section \<open>Theorems\<close>

text \<open>The pointer that \<open>is_stamped_\<close> selects is set.\<close>

definition tp_inv :: "twist_publisher \<Rightarrow> bool" where
  "tp_inv t \<longleftrightarrow> (if tp_is_stamped t then twist_stamped_pub t \<noteq> None else twist_pub t \<noteq> None)"

text \<open>The velocities that have been sent, whatever the type of the topic.\<close>

definition tp_sent :: "twist_publisher \<Rightarrow> twist list" where
  "tp_sent t =
     (if tp_is_stamped t then (case twist_stamped_pub t of None \<Rightarrow> [] | Some p \<Rightarrow> map ts_twist (pub_sent p))
      else (case twist_pub t of None \<Rightarrow> [] | Some p \<Rightarrow> pub_sent p))"

lemmas tp_defs = tp_inv_def tp_sent_def set_active_def tp_on_activate_def tp_on_deactivate_def tp_is_activated_def tp_publish_def
  lifecycle_publish_def

lemma TwistPublisher_new_inv:
  assumes "TwistPublisher_new api topic w = (Inr t, w1)"
  shows "tp_inv t \<and> tp_is_activated t = Some False \<and> tp_sent t = []"
  using assms by (auto simp: TwistPublisher_new_def tp_defs split: prod.splits sum.splits if_splits)

lemma tp_active_inv:
  assumes "tp_inv t"
  shows "\<exists>t'. set_active b t = Some t' \<and> tp_inv t' \<and> tp_is_activated t' = Some b \<and> tp_sent t' = tp_sent t"
  using assms by (auto simp: tp_defs split: if_splits)

text \<open>A velocity is sent exactly if the publisher is activated, with or without its header.\<close>

lemma tp_publish_sends:
  assumes "tp_inv t" and "tp_is_activated t = Some b"
  shows "\<exists>t'. tp_publish v t = Some t' \<and> tp_inv t' \<and> tp_is_activated t' = Some b \<and>
    tp_sent t' = tp_sent t @ (if b then [ts_twist v] else [])"
  using assms by (auto simp: tp_defs split: if_splits)

text \<open>A subscriber that a node creates after a publisher, or after another subscriber, uses the same type.\<close>

lemma stamped_parameter_stable:
  assumes "stamped_parameter api w = (Inr b, w1)" and "prm_has api w1 ''enable_stamped_cmd_vel''"
  shows "stamped_parameter api w1 = (Inr b, w1)"
  using assms by (auto simp: stamped_parameter_def declare_parameter_if_not_declared_def split: prod.splits sum.splits option.splits if_splits)

lemma twist_types_agree:
  assumes "TwistPublisher_new api topic w = (Inr t, w1)" and "prm_has api w1 ''enable_stamped_cmd_vel''"
  shows "TwistSubscriber_new api w1 = (Inr (if tp_is_stamped t then Sub_Twist_Stamped else Sub_Twist), w1)"
    and "TwistSubscriber_new_stamped api w1 = (if tp_is_stamped t then Inr Sub_Twist_Stamped else Inl Sub_Invalid_Argument, w1)"
proof -
  obtain b where b: "stamped_parameter api w = (Inr b, w1)" "tp_is_stamped t = b"
    using assms(1) by (auto simp: TwistPublisher_new_def split: prod.splits sum.splits if_splits)
  note s = stamped_parameter_stable [OF b(1) assms(2)]
  show "TwistSubscriber_new api w1 = (Inr (if tp_is_stamped t then Sub_Twist_Stamped else Sub_Twist), w1)"
    and "TwistSubscriber_new_stamped api w1 = (if tp_is_stamped t then Inr Sub_Twist_Stamped else Inl Sub_Invalid_Argument, w1)"
    by (simp_all add: TwistSubscriber_new_def TwistSubscriber_new_stamped_def s b(2))
qed

text \<open>The events the logger sees: changes of status and flushes.\<close>

datatype logger_event = Status_Change status_change | Flush time_ns

fun logger_step :: "logger_event \<Rightarrow> topic_logger \<Rightarrow> topic_logger" where
  "logger_step (Status_Change c) l =
     logger_callback (sc_timestamp c) (sc_node_name c) (sc_uid c) (sc_previous c) (sc_current c) l"
| "logger_step (Flush now) l = logger_flush now l"

fun changes :: "logger_event list \<Rightarrow> status_change list" where
  "changes [] = []"
| "changes (Status_Change c # es) = c # changes es"
| "changes (Flush now # es) = changes es"

definition logged :: "topic_logger \<Rightarrow> status_change list" where
  "logged l = concat (map snd (log_pub l)) @ event_log l"

lemma logger_in_order: "logged (fold logger_step es l) = logged l @ changes es"
proof (induction es arbitrary: l)
  case (Cons e es)
  have "logged (logger_step e l) = logged l @ changes [e]"
    by (cases e) (simp_all add: logged_def logger_callback_def logger_flush_def)
  moreover have "changes (e # es) = changes [e] @ changes es"
    by (cases e) simp_all
  ultimately show ?case
    using Cons.IH by simp
qed simp

text \<open>After a flush everything is published, and no message is empty.\<close>

lemma logger_flushed: "event_log (logger_flush now l) = []"
  by (simp add: logger_flush_def)

lemma logger_no_empty_message:
  assumes "list_all (\<lambda>m. snd m \<noteq> []) (log_pub l)"
  shows "list_all (\<lambda>m. snd m \<noteq> []) (log_pub (fold logger_step es l))"
  using assms
proof (induction es arbitrary: l)
  case (Cons e es)
  have "list_all (\<lambda>m. snd m \<noteq> []) (log_pub (logger_step e l))"
    using Cons.prems by (cases e) (simp_all add: logger_callback_def logger_flush_def)
  then show ?case
    using Cons.IH by simp
qed simp

text \<open>A plain parameter has no range, the others have one.\<close>

lemma add_parameter_ranges:
  fixes declare_prm :: "string \<Rightarrow> param_value \<Rightarrow> param_descriptor \<Rightarrow> 'w \<Rightarrow> param_descriptor \<times> 'w"
  assumes "\<And>n v d w. declare_prm n v d w = (d, w)"
  shows "pd_floating_point_range (fst (add_parameter_floating declare_prm n v r a b c w)) = [r]"
    and "pd_integer_range (fst (add_parameter_integer declare_prm n v s a b c w)) = [s]"
    and "pd_integer_range (fst (add_parameter declare_prm n v a b c w)) = []"
  by (simp_all add: assms add_parameter_def add_parameter_floating_def add_parameter_integer_def plain_descriptor_def)

text \<open>Without an override for \<open>node_names\<close> the manager is not constructed; a timeout below a millisecond is none, which switches the bonds off.\<close>

lemma manager_needs_node_names: "get ''node_names'' = None \<Longrightarrow> read_manager from_secs get w = None"
  by (simp add: read_manager_def as_string_array_def)

lemma manager_small_timeout:
  assumes "read_manager from_secs get w = Some (b, m)" and "get ''bond_timeout'' = Some (Prm_Double s)" and "0 \<le> s" and "s < 1 / 1000"
  shows "bond_timeout m = 0"
proof -
  have "\<lfloor>s * 1000\<rfloor> = 0"
    using assms(3,4) by linarith
  then show ?thesis
    using assms by (auto simp: read_manager_def as_double_def truncate_double_def manager_init_def bind_eq_Some_conv)
qed

end
