(* ===== verification/Tree_Creation.thy ===== *)
theory Tree_Creation
  imports Shipped_Trees Node_Parameters BT_Clients
begin

text \<open>
  From the configuration of the server to a tree: \<open>BtActionServer::on_configure\<close>, \<open>on_cleanup\<close> and \<open>setGrootMonitoring\<close>
  (\<open>bt_action_server_impl.hpp\<close>), and the constructors of the client nodes (\<open>bt_action_node.hpp\<close>, \<open>bt_service_node.hpp\<close>,
  \<open>bt_cancel_action_node.hpp\<close>), which read the blackboard that the server has prepared and wait for their servers. Waiting and
  the creation of clients belong to rclcpp: the record \<open>bt_host\<close>. Theorem: a configured server can create the trees of the package
  exactly if the planner's and the controller's action servers are there.
\<close>

section \<open>The constructors of client nodes\<close>

record 'w bt_host =
  wait_for_action_server :: "string \<Rightarrow> int \<Rightarrow> 'w \<Rightarrow> bool \<times> 'w"
  host_wait_for_service :: "string \<Rightarrow> int \<Rightarrow> 'w \<Rightarrow> bool \<times> 'w"

text \<open>The entries of the blackboard and the ports that the constructors read, in milliseconds; a port that is not set is \<open>None\<close>. A
  node that cancels has no \<open>max_timeout_\<close>.\<close>

record bb_times =
  bbt_loop_duration :: "int option"
  bbt_server_timeout :: "int option"
  bbt_wait_timeout :: "int option"

record client_ports =
  cp_server_name :: "string option"
  cp_service_name :: "string option"
  cp_server_timeout :: "int option"

datatype creation_error = Missing_Entry | Not_Available string

text \<open>What a constructed client keeps; \<open>None\<close> is a \<open>server_timeout_\<close> that neither the port nor the blackboard has set.\<close>

record client_node =
  cn_name :: string
  cn_server_timeout :: "int option"
  cn_max_timeout :: int
  cn_wait_timeout :: int

definition half_ms :: "int \<Rightarrow> int" where
  "half_ms d = (if d \<ge> 0 then d div 2 else - ((- d) div 2))"

definition input_or_blackboard :: "'a option \<Rightarrow> 'a option \<Rightarrow> 'a option" where
  "input_or_blackboard port bb = (case port of Some v \<Rightarrow> Some v | None \<Rightarrow> bb)"

definition createActionClient :: "'w bt_host \<Rightarrow> string \<Rightarrow> int \<Rightarrow> 'w \<Rightarrow> (creation_error + unit) \<times> 'w" where
  "createActionClient host action_name wait w =
     (case wait_for_action_server host action_name wait w of
        (True, w1) \<Rightarrow> (Inr (), w1)
      | (False, w1) \<Rightarrow> (Inl (Not_Available action_name), w1))"

definition BtActionNode_new ::
  "'w bt_host \<Rightarrow> bb_times \<Rightarrow> client_ports \<Rightarrow> string \<Rightarrow> 'w \<Rightarrow> (creation_error + client_node) \<times> 'w" where
  "BtActionNode_new host bb pt action_name w =
     (case (bbt_loop_duration bb, bbt_wait_timeout bb) of
        (Some loop, Some wait) \<Rightarrow>
          (let name = (case cp_server_name pt of Some n \<Rightarrow> n | None \<Rightarrow> action_name) in
           case createActionClient host name wait w of
             (Inl e, w1) \<Rightarrow> (Inl e, w1)
           | (Inr _, w1) \<Rightarrow>
               (Inr \<lparr>cn_name = name, cn_server_timeout = input_or_blackboard (cp_server_timeout pt) (bbt_server_timeout bb),
                  cn_max_timeout = half_ms loop, cn_wait_timeout = wait\<rparr>, w1))
      | _ \<Rightarrow> (Inl Missing_Entry, w))"

definition BtCancelActionNode_new ::
  "'w bt_host \<Rightarrow> bb_times \<Rightarrow> client_ports \<Rightarrow> string \<Rightarrow> 'w \<Rightarrow> (creation_error + client_node) \<times> 'w" where
  "BtCancelActionNode_new host bb pt action_name w =
     (case bbt_wait_timeout bb of
        None \<Rightarrow> (Inl Missing_Entry, w)
      | Some wait \<Rightarrow>
          (let name = (case cp_server_name pt of Some n \<Rightarrow> n | None \<Rightarrow> action_name) in
           case createActionClient host name wait w of
             (Inl e, w1) \<Rightarrow> (Inl e, w1)
           | (Inr _, w1) \<Rightarrow>
               (Inr \<lparr>cn_name = name, cn_server_timeout = input_or_blackboard (cp_server_timeout pt) (bbt_server_timeout bb),
                  cn_max_timeout = 0, cn_wait_timeout = wait\<rparr>, w1)))"

text \<open>\<open>BtServiceNode\<close>: \<open>createROSInterfaces\<close> makes a client if the port has another name than the node, or if there is none yet. An unset port
  leaves the empty name.\<close>

definition service_createROSInterfaces :: "client_ports \<Rightarrow> string \<times> bool \<Rightarrow> string \<times> bool" where
  "service_createROSInterfaces pt = (\<lambda>(service_name, has_client).
     let service_new = (case cp_service_name pt of Some n \<Rightarrow> n | None \<Rightarrow> []) in
     if service_new \<noteq> service_name \<or> \<not> has_client then (service_new, True) else (service_name, has_client))"

definition BtServiceNode_new ::
  "'w bt_host \<Rightarrow> bb_times \<Rightarrow> client_ports \<Rightarrow> string \<Rightarrow> 'w \<Rightarrow> (creation_error + client_node) \<times> 'w" where
  "BtServiceNode_new host bb pt service_name w =
     (case (bbt_loop_duration bb, bbt_wait_timeout bb) of
        (Some loop, Some wait) \<Rightarrow>
          (let name = fst (service_createROSInterfaces pt (service_name, False)) in
           case host_wait_for_service host name wait w of
             (False, w1) \<Rightarrow> (Inl (Not_Available name), w1)
           | (True, w1) \<Rightarrow>
               (Inr \<lparr>cn_name = name, cn_server_timeout = input_or_blackboard (cp_server_timeout pt) (bbt_server_timeout bb),
                  cn_max_timeout = half_ms loop, cn_wait_timeout = wait\<rparr>, w1))
      | _ \<Rightarrow> (Inl Missing_Entry, w))"

section \<open>Configuring the server\<close>

datatype configure_error = Node_Expired | Bad_Parameter param_error | Wrong_Type

text \<open>The members that \<open>on_configure\<close> sets; the blackboard has the entries \<open>node\<close> and the three times.\<close>

record ('h, 'g) bts_node =
  bn_plugin_lib_names :: "string list"
  bn_client_node :: "string option"
  bn_action_server :: "('h, 'g) server option"
  bn_result_timeout :: double
  bn_always_reload :: bool
  bn_prefixes :: "string list"
  bn_engine :: "string list option"
  bn_blackboard :: "bb_times option"
  bn_current_file :: string
  bn_groot_monitoring :: bool
  bn_groot_port :: int
  bn_groot_publisher :: bool
  bn_logger :: bool

definition client_node_name :: "string \<Rightarrow> string \<Rightarrow> string" where
  "client_node_name node_name action_name =
     node_name @ ''_'' @ map (\<lambda>c. if c = CHR ''/'' then CHR ''_'' else c) action_name @ ''_rclcpp_node''"

definition client_declarations :: declarations where
  "client_declarations =
     [(''global_frame'', Prm_String ''map''), (''robot_base_frame'', Prm_String ''base_link''), (''transform_tolerance'', Prm_Double (1 / 10))]"

text \<open>\<open>on_configure\<close> of the server in a node with name \<open>parent\<close> (\<open>None\<close> when the weak pointer has expired). \<open>copy\<close> is
  \<open>copy_all_parameter_values\<close> to the client node, \<open>store\<close> the goals of the new action server.\<close>

definition server_on_configure ::
  "(param_value, 'w) param_api \<Rightarrow> ('w \<Rightarrow> (param_error + unit) \<times> 'w) \<Rightarrow> 'g \<Rightarrow> string option \<Rightarrow> string \<Rightarrow>
    ('h, 'g) bts_node \<Rightarrow> 'w \<Rightarrow> (configure_error + ('h, 'g) bts_node) \<times> 'w" where
  "server_on_configure api copy store parent action_name n w =
     (case (parent, as_bool (prm_get api w ''use_sim_time'')) of
        (None, _) \<Rightarrow> (Inl Node_Expired, w)
      | (Some _, None) \<Rightarrow> (Inl Wrong_Type, w)
      | (Some node_name, Some _) \<Rightarrow>
          (case declare_all api client_declarations w of
             (Inl e, w1) \<Rightarrow> (Inl (Bad_Parameter e), w1)
           | (Inr _, w1) \<Rightarrow>
               (case copy w1 of
                  (Inl e, w2) \<Rightarrow> (Inl (Bad_Parameter e), w2)
                | (Inr _, w2) \<Rightarrow>
                    (case Option.bind (as_double (prm_get api w2 ''action_server_result_timeout'')) (\<lambda>result_timeout.
                       Option.bind (as_int (prm_get api w2 ''bt_loop_duration'')) (\<lambda>loop.
                       Option.bind (as_int (prm_get api w2 ''default_server_timeout'')) (\<lambda>server.
                       Option.bind (as_int (prm_get api w2 ''wait_for_service_timeout'')) (\<lambda>wait.
                       Option.bind (as_bool (prm_get api w2 ''always_reload_bt_xml'')) (\<lambda>reload.
                       Option.bind (as_string_array (prm_get api w2 ''error_code_name_prefixes'')) (\<lambda>codes.
                         Some (n\<lparr>bn_client_node := Some (client_node_name node_name action_name),
                           bn_action_server := Some (server_init store), bn_result_timeout := result_timeout,
                           bn_always_reload := reload, bn_prefixes := codes, bn_engine := Some (bn_plugin_lib_names n),
                           bn_blackboard := Some \<lparr>bbt_loop_duration = Some loop, bbt_server_timeout = Some server,
                             bbt_wait_timeout = Some wait\<rparr>\<rparr>))))))) of
                       None \<Rightarrow> (Inl Wrong_Type, w2)
                     | Some n1 \<Rightarrow> (Inr n1, w2)))))"

text \<open>\<open>on_cleanup\<close> uses the engine to halt the tree before it deletes it: \<open>None\<close> without an engine. \<open>halt\<close> is the halt of the tree.\<close>

definition server_on_cleanup :: "('w \<Rightarrow> 'w) \<Rightarrow> ('h, 'g) bts_node \<Rightarrow> 'w \<Rightarrow> (('h, 'g) bts_node \<times> 'w) option" where
  "server_on_cleanup halt n w =
     (let n1 = n\<lparr>bn_client_node := None, bn_action_server := None, bn_logger := False, bn_plugin_lib_names := [],
        bn_current_file := [], bn_blackboard := None\<rparr> in
      case bn_engine n1 of None \<Rightarrow> None | Some _ \<Rightarrow> Some (n1\<lparr>bn_groot_publisher := False, bn_engine := None\<rparr>, halt w))"

definition setGrootMonitoring :: "bool \<Rightarrow> int \<Rightarrow> ('h, 'g) bts_node \<Rightarrow> ('h, 'g) bts_node" where
  "setGrootMonitoring enable server_port n = n\<lparr>bn_groot_monitoring := enable, bn_groot_port := server_port\<rparr>"

section \<open>The clients of a tree\<close>

text \<open>The client nodes of a tree in the order of their creation, each with its ports and its default action; \<open>ms\<close> reads the text of a duration. The
  trees of the package have no nodes that cancel.\<close>

definition ports_of :: "(string \<Rightarrow> int option) \<Rightarrow> (string \<times> string) list \<Rightarrow> client_ports" where
  "ports_of ms attrs =
     \<lparr>cp_server_name = map_of attrs ''server_name'', cp_service_name = map_of attrs ''service_name'',
      cp_server_timeout = Option.bind (map_of attrs ''server_timeout'') ms\<rparr>"

fun tree_clients :: "(string \<Rightarrow> int option) \<Rightarrow> (string \<Rightarrow> tree_node option) \<Rightarrow> xml_tree \<Rightarrow> (client_ports \<times> string) list" where
  "tree_clients ms look (Xml tag attrs children) =
     (case Option.bind (look tag) node_action of Some a \<Rightarrow> [(ports_of ms attrs, a)] | None \<Rightarrow> []) @
     concat (map (tree_clients ms look) children)"

fun create_action_nodes ::
  "'w bt_host \<Rightarrow> bb_times \<Rightarrow> (client_ports \<times> string) list \<Rightarrow> 'w \<Rightarrow> (creation_error + client_node list) \<times> 'w" where
  "create_action_nodes host bb [] w = (Inr [], w)"
| "create_action_nodes host bb ((pt, a) # xs) w =
     (case BtActionNode_new host bb pt a w of
        (Inl e, w1) \<Rightarrow> (Inl e, w1)
      | (Inr c, w1) \<Rightarrow>
          (case create_action_nodes host bb xs w1 of
             (Inl e, w2) \<Rightarrow> (Inl e, w2)
           | (Inr cs, w2) \<Rightarrow> (Inr (c # cs), w2)))"

section \<open>Theorems\<close>

text \<open>A configured server has the entries its clients read, in the order in which they are read.\<close>

definition bb_complete :: "bb_times \<Rightarrow> bool" where
  "bb_complete bb \<longleftrightarrow> bbt_loop_duration bb \<noteq> None \<and> bbt_server_timeout bb \<noteq> None \<and> bbt_wait_timeout bb \<noteq> None"

lemma configured_blackboard:
  assumes "server_on_configure api copy store parent action_name n w = (Inr n1, w1)"
  shows "\<exists>bb. bn_blackboard n1 = Some bb \<and> bb_complete bb \<and> bn_engine n1 = Some (bn_plugin_lib_names n)"
  using assms
  by (auto simp: server_on_configure_def bb_complete_def split: option.splits prod.splits sum.splits Option.bind_splits)

text \<open>A clean-up is fine after a configuration, and crashes without one; afterwards the server has to be configured again.\<close>

lemma cleanup_after_configure:
  assumes "server_on_configure api copy store parent action_name n w = (Inr n1, w1)"
  shows "\<exists>n2 w2. server_on_cleanup halt n1 w1 = Some (n2, w2) \<and> server_on_cleanup halt n2 w2 = None \<and> bn_plugin_lib_names n2 = []"
  using configured_blackboard [OF assms] by (auto simp: server_on_cleanup_def Let_def)

text \<open>Which name a client ends up with, and that it waits for it.\<close>

lemma BtActionNode_new_result:
  assumes "bb_complete bb"
  shows "BtActionNode_new host bb pt a w =
    (let name = (case cp_server_name pt of Some n \<Rightarrow> n | None \<Rightarrow> a); (ok, w1) = wait_for_action_server host name (the (bbt_wait_timeout bb)) w in
     if ok then (Inr \<lparr>cn_name = name, cn_server_timeout = input_or_blackboard (cp_server_timeout pt) (bbt_server_timeout bb),
         cn_max_timeout = half_ms (the (bbt_loop_duration bb)), cn_wait_timeout = the (bbt_wait_timeout bb)\<rparr>, w1)
     else (Inl (Not_Available name), w1))"
  using assms by (auto simp: BtActionNode_new_def createActionClient_def bb_complete_def Let_def split: option.splits prod.splits bool.splits)

lemma service_default_name_lost:
  assumes "cp_service_name pt = None"
  shows "service_createROSInterfaces pt (service_name, False) = ([], True)"
  using assms by (simp add: service_createROSInterfaces_def)

definition client_names :: "(client_ports \<times> string) list \<Rightarrow> string list" where
  "client_names xs = map (\<lambda>(pt, a). case cp_server_name pt of Some n \<Rightarrow> n | None \<Rightarrow> a) xs"

lemma create_action_nodes_iff:
  assumes "bb_complete bb" and "\<And>n t v. fst (wait_for_action_server host n t v) \<longleftrightarrow> n \<in> avail"
  shows "(\<exists>cs w1. create_action_nodes host bb xs w = (Inr cs, w1) \<and> list_all (\<lambda>c. cn_server_timeout c \<noteq> None) cs) \<longleftrightarrow>
    set (client_names xs) \<subseteq> avail"
proof (induction xs arbitrary: w)
  case (Cons x xs)
  obtain pt a where x: "x = (pt, a)" by (cases x)
  let ?n = "case cp_server_name pt of Some n \<Rightarrow> n | None \<Rightarrow> a"
  obtain ok w1 where ok: "wait_for_action_server host ?n (the (bbt_wait_timeout bb)) w = (ok, w1)"
    by (rule prod.exhaust)
  with assms(2) [of ?n "the (bbt_wait_timeout bb)" w] have "ok \<longleftrightarrow> ?n \<in> avail" by simp
  moreover have "input_or_blackboard (cp_server_timeout pt) (bbt_server_timeout bb) \<noteq> None"
    using assms(1) by (auto simp: input_or_blackboard_def bb_complete_def split: option.split)
  ultimately show ?case
    using Cons.IH [of w1] ok
    by (auto simp: x client_names_def BtActionNode_new_result [OF assms(1)] Let_def split: prod.splits sum.splits)
qed (simp add: client_names_def)

lemma tree_clients_cong:
  "(\<And>x. x \<in> set (xml_tags t) \<Longrightarrow> look x = look' x) \<Longrightarrow> tree_clients ms look t = tree_clients ms look' t"
proof (induction t)
  case (Xml tag attrs children)
  have "tree_clients ms look c = tree_clients ms look' c" if "c \<in> set children" for c
    using that Xml.prems by (intro Xml.IH) auto
  then have "concat (map (tree_clients ms look) children) = concat (map (tree_clients ms look') children)"
    by (metis (no_types, lifting) map_eq_conv)
  with Xml.prems show ?case by simp
qed

text \<open>The action servers of the trees of the package.\<close>

definition navigation_servers :: "string list" where
  "navigation_servers = [''compute_path_to_pose'', ''follow_path'']"

definition uses_servers :: "xml_tree \<Rightarrow> bool" where
  "uses_servers t \<longleftrightarrow> (let ns = client_names (tree_clients (\<lambda>_. None) (lookup_node used_nodes) t) in
     list_all (\<lambda>n. n \<in> set navigation_servers) ns \<and> list_all (\<lambda>n. n \<in> set ns) navigation_servers)"

lemma follow_point_servers: "uses_servers follow_point"
  by code_simp

lemma navigate_w_replanning_distance_servers: "uses_servers navigate_w_replanning_distance"
  by code_simp

lemma navigate_w_replanning_if_path_becomes_invalid_or_goal_is_updated_servers: "uses_servers navigate_w_replanning_if_path_becomes_invalid_or_goal_is_updated"
  by code_simp

lemma navigate_w_replanning_only_if_goal_is_updated_servers: "uses_servers navigate_w_replanning_only_if_goal_is_updated"
  by code_simp

lemma navigate_w_replanning_only_if_path_becomes_invalid_servers: "uses_servers navigate_w_replanning_only_if_path_becomes_invalid"
  by code_simp

lemma navigate_w_replanning_speed_servers: "uses_servers navigate_w_replanning_speed"
  by code_simp

lemma navigate_w_replanning_time_servers: "uses_servers navigate_w_replanning_time"
  by code_simp

lemma shipped_trees_servers: "t \<in> set shipped_trees \<Longrightarrow> uses_servers t"
  by (auto simp: shipped_trees_def follow_point_servers navigate_w_replanning_distance_servers navigate_w_replanning_if_path_becomes_invalid_or_goal_is_updated_servers navigate_w_replanning_only_if_goal_is_updated_servers navigate_w_replanning_only_if_path_becomes_invalid_servers navigate_w_replanning_speed_servers navigate_w_replanning_time_servers)

lemma client_names_durations: "client_names (tree_clients ms look t) = client_names (tree_clients ms' look t)"
proof (induction t)
  case (Xml tag attrs children)
  have "concat (map (client_names \<circ> tree_clients ms look) children) = concat (map (client_names \<circ> tree_clients ms' look) children)"
    using Xml.IH by (intro arg_cong [where f = concat]) simp
  then show ?case
    by (auto simp: client_names_def ports_of_def map_concat comp_def split: option.split)
qed

lemma shipped_tree_names:
  assumes "library_ok lib" and "t \<in> set shipped_trees"
  shows "set (client_names (tree_clients ms (lookup_node (lib @ builtin_plugins)) t)) = {''compute_path_to_pose'', ''follow_path''}"
proof -
  have "tree_clients ms (lookup_node (lib @ builtin_plugins)) t = tree_clients ms (lookup_node used_nodes) t"
    using assms shipped_trees_tags by (intro tree_clients_cong lookup_library) (auto simp: list_all_iff)
  moreover have "set (client_names (tree_clients (\<lambda>_. None) (lookup_node used_nodes) t)) = set navigation_servers"
    using shipped_trees_servers [OF assms(2)] by (auto simp: uses_servers_def Let_def list_all_iff)
  ultimately show ?thesis
    using client_names_durations [of ms "lookup_node used_nodes" t "\<lambda>_. None"] by (simp add: navigation_servers_def)
qed

text \<open>C40: With a behaviour tree server that is configured, the client nodes of a tree of the package can all be made, with a time limit for
  their requests, exactly if the action servers of the planner and of the controller are there, under the names of the default nodes.\<close>

theorem shipped_trees_need_two_servers:
  assumes "library_ok lib" and "server_on_configure api copy store parent action_name n w = (Inr n1, w1)"
    and "\<forall>k t v. fst (wait_for_action_server host k t v) \<longleftrightarrow> k \<in> avail"
  shows "\<exists>factory bb. load_plugins builtin_plugins lib = Inr factory \<and> bn_blackboard n1 = Some bb \<and>
    list_all (\<lambda>t. (\<exists>cs v1. create_action_nodes host bb (tree_clients ms (lookup_node factory) t) v = (Inr cs, v1) \<and>
        list_all (\<lambda>c. cn_server_timeout c \<noteq> None) cs) \<longleftrightarrow> {''compute_path_to_pose'', ''follow_path''} \<subseteq> avail) shipped_trees"
proof -
  have "load_plugins builtin_plugins lib = Inr (lib @ builtin_plugins)"
    using assms(1) by (intro load_plugins_distinct) (simp add: library_ok_def)
  moreover obtain bb where bb: "bn_blackboard n1 = Some bb" "bb_complete bb"
    using configured_blackboard [OF assms(2)] by blast
  moreover have "(\<exists>cs v1. create_action_nodes host bb (tree_clients ms (lookup_node (lib @ builtin_plugins)) t) v = (Inr cs, v1) \<and>
      list_all (\<lambda>c. cn_server_timeout c \<noteq> None) cs) \<longleftrightarrow> {''compute_path_to_pose'', ''follow_path''} \<subseteq> avail"
    if "t \<in> set shipped_trees" for t
    using create_action_nodes_iff [OF bb(2), of host avail] assms(3) shipped_tree_names [OF assms(1) that] by simp
  ultimately show ?thesis by (auto simp: list_all_iff)
qed

text \<open>The defaults of the server, and servers that are there all the time or not at all.\<close>

definition bt_server_yaml :: declarations where
  "bt_server_yaml = (''use_sim_time'', Prm_Bool False) # (''error_code_name_prefixes'', Prm_Strings []) # BtActionServer_parameters"

definition steady_host :: "string list \<Rightarrow> unit bt_host" where
  "steady_host avail = \<lparr>wait_for_action_server = \<lambda>k t v. (k \<in> set avail, v), host_wait_for_service = \<lambda>k t v. (k \<in> set avail, v)\<rparr>"

definition fresh_bts_node :: "(unit, unit) bts_node" where
  "fresh_bts_node = \<lparr>bn_plugin_lib_names = [], bn_client_node = None, bn_action_server = None, bn_result_timeout = 0,
     bn_always_reload = False, bn_prefixes = [], bn_engine = None, bn_blackboard = None, bn_current_file = [],
     bn_groot_monitoring = False, bn_groot_port = 1667, bn_groot_publisher = False, bn_logger = False\<rparr>"

lemma bt_server_configures:
  "\<exists>n1 w1. server_on_configure (typed_table Map.empty) (\<lambda>w. (Inr (), w)) () (Some ''bt_navigator'') ''navigate_to_pose'' fresh_bts_node
     (map_of bt_server_yaml) = (Inr n1, w1)"
  by (simp add: server_on_configure_def bt_server_yaml_def BtActionServer_parameters_def client_declarations_def
      declare_parameter_if_not_declared_def typed_table_def param_reads)

theorem shipped_trees_need_two_servers_witness:
  "\<exists>factory bb. load_plugins builtin_plugins library_nodes = Inr factory \<and>
    list_all (\<lambda>t. (\<exists>cs v1. create_action_nodes (steady_host navigation_servers) bb (tree_clients (\<lambda>_. None) (lookup_node factory) t) () = (Inr cs, v1))) shipped_trees \<and>
    list_all (\<lambda>t. \<not> (\<exists>cs v1. create_action_nodes (steady_host [''follow_path'']) bb (tree_clients (\<lambda>_. None) (lookup_node factory) t) () = (Inr cs, v1) \<and>
      list_all (\<lambda>c. cn_server_timeout c \<noteq> None) cs)) shipped_trees"
proof -
  obtain n1 w1 where c: "server_on_configure (typed_table Map.empty) (\<lambda>w. (Inr (), w)) () (Some ''bt_navigator'') ''navigate_to_pose''
      fresh_bts_node (map_of bt_server_yaml) = (Inr n1, w1)"
    using bt_server_configures by blast
  have s: "\<forall>k t v. fst (wait_for_action_server (steady_host l) k t v) \<longleftrightarrow> k \<in> set l" for l
    by (simp add: steady_host_def)
  note t = shipped_trees_need_two_servers [OF library_ok_nodes c s]
  from t [of navigation_servers "\<lambda>_. None" "()"] t [of "[''follow_path'']" "\<lambda>_. None" "()"] show ?thesis
    by (fastforce simp: list_all_iff navigation_servers_def)
qed

end
