(* ===== verification/Follow_Path_System.thy ===== *)
theory Follow_Path_System
  imports Controller_Loop
begin

text \<open>
  The controller server as a system of threads. \<open>Controller_Loop\<close> lets other threads act once in a cycle; here the execute callback
  \<open>computeControl\<close> is cut at every call that takes the mutex of the action server or reads the clock or a pose, and the client
  callbacks, the speed limit, the lifecycle callbacks and the deadline of a deactivation may come between any two cuts. The system
  simulates the steps of \<open>Action_Server_Threads\<close>. Theorem: a goal has succeeded only if its robot was seen at the end of its path.
\<close>

section \<open>The callback in sections\<close>

datatype control_point =
    P_Start | P_Generate path | P_Loop | P_Active | P_Cancel | P_Preempt | P_Take | P_Read | P_Command | P_Goal
  | P_Succeed | P_Terminate | P_Catch controller_exn | P_Returned

type_synonym ('h, 'g) control_state = "control_point \<times> ('h, 'g) server \<times> controller"

text \<open>One section; of the readings \<open>e\<close> all but \<open>env_server\<close> are used.\<close>

definition control_section ::
  "('h, path, follow_path_result, 'g) goal_api \<Rightarrow> tf_api \<Rightarrow> ('h, 'g) cycle_env \<Rightarrow> ('h, 'g) control_state \<Rightarrow> ('h, 'g) control_state" where
  "control_section api tf e x =
     (case x of (k, s, c) \<Rightarrow>
        (case k of
           P_Start \<Rightarrow> (case get_current_goal api s of None \<Rightarrow> P_Terminate | Some goal \<Rightarrow> P_Generate goal, s, c)
         | P_Generate goal \<Rightarrow>
             (case generateTimedTrajectory tf (env_gen_now e) (env_gen_pose e) goal c of
                (Inl x, c1) \<Rightarrow> (P_Catch x, s, c1)
              | (Inr _, c1) \<Rightarrow> (P_Loop, s, c1))
         | P_Loop \<Rightarrow> (if env_ok e then P_Active else P_Terminate, s, c)
         | P_Active \<Rightarrow> (if server_active s then P_Cancel else P_Returned, s, c)
         | P_Cancel \<Rightarrow> (if is_cancel_requested api s then P_Terminate else P_Preempt, s, c)
         | P_Preempt \<Rightarrow> (if preempt_requested s then P_Take else P_Command, s, c)
         | P_Take \<Rightarrow> (P_Read, snd (accept_pending_goal api s), c)
         | P_Read \<Rightarrow>
             (case get_current_goal api s of
                None \<Rightarrow> (P_Terminate, s, c)
              | Some goal \<Rightarrow>
                  (case generateTimedTrajectory tf (env_gen_now e) (env_gen_pose e) goal
                          (c\<lparr>current_path := [], current_waypoint_index := 0\<rparr>) of
                     (Inl x, c1) \<Rightarrow> (P_Catch x, s, c1)
                   | (Inr _, c1) \<Rightarrow> (P_Command, s, c1)))
         | P_Command \<Rightarrow>
             (case getCurrentCommand tf (env_now e) (env_set_now e) (env_pose e) c of
                (Inl x, c1) \<Rightarrow> (P_Catch x, s, c1)
              | (Inr cmd, c1) \<Rightarrow> (if cmd \<noteq> None \<and> env_publish_throws e then P_Catch Std_Exception else P_Goal, s, c1))
         | P_Goal \<Rightarrow>
             (if isGoalReached tf (env_goal_pose e) c
              then (P_Succeed, s, c\<lparr>current_path := [], current_waypoint_index := 0\<rparr>) else (P_Loop, s, c))
         | P_Succeed \<Rightarrow> (P_Returned, succeeded_current api (gh_empty_result api) s, c)
         | P_Terminate \<Rightarrow> (P_Returned, terminate_all api (gh_empty_result api) s, c)
         | P_Catch x \<Rightarrow> (P_Returned, terminate_current api \<lparr>error_code = catch_code x\<rparr> s, c)
         | P_Returned \<Rightarrow> (P_Returned, s, c)))"

text \<open>The sections of a cycle, up to the next test of the loop or the return, with the same readings and nothing between them: this is
  \<open>control_cycle\<close>.\<close>

fun sections_run ::
  "('h, path, follow_path_result, 'g) goal_api \<Rightarrow> tf_api \<Rightarrow> ('h, 'g) cycle_env \<Rightarrow> nat \<Rightarrow> ('h, 'g) control_state \<Rightarrow> ('h, 'g) control_state" where
  "sections_run api tf e 0 x = x"
| "sections_run api tf e (Suc n) x =
     (if fst x = P_Loop \<or> fst x = P_Returned then x else sections_run api tf e n (control_section api tf e x))"

lemmas section_simps = control_section_def

lemma sections_stop [simp]: "sections_run api tf e n (P_Loop, x) = (P_Loop, x)" "sections_run api tf e n (P_Returned, x) = (P_Returned, x)"
  by (cases n; simp)+

lemma sections_next:
  "0 < n \<Longrightarrow> k \<noteq> P_Loop \<Longrightarrow> k \<noteq> P_Returned \<Longrightarrow>
    sections_run api tf e n (k, x) = sections_run api tf e (n - 1) (control_section api tf e (k, x))"
  by (cases n) simp_all

declare sections_run.simps(2) [simp del]

lemma sections_enough:
  "fst (sections_run api tf e m x) \<in> {P_Loop, P_Returned} \<Longrightarrow> m \<le> n \<Longrightarrow> sections_run api tf e n x = sections_run api tf e m x"
proof (induction m arbitrary: x n)
  case 0
  then show ?case by (cases x) auto
next
  case (Suc m)
  from Suc.prems(2) obtain n' where n: "n = Suc n'" "m \<le> n'" by (cases n) simp_all
  show ?case
  proof (cases "fst x = P_Loop \<or> fst x = P_Returned")
    case True
    then show ?thesis by (simp only: n(1) sections_run.simps(2) if_True)
  next
    case False
    with Suc.prems(1) have "fst (sections_run api tf e m (control_section api tf e x)) \<in> {P_Loop, P_Returned}"
      by (simp only: sections_run.simps(2) if_False)
    from Suc.IH [OF this n(2)] False show ?thesis by (simp only: n(1) sections_run.simps(2) if_False)
  qed
qed

lemma goal_sections:
  "sections_run api tf e 2 (P_Goal, s, c) =
     (if isGoalReached tf (env_goal_pose e) c
      then (P_Returned, succeeded_current api (gh_empty_result api) s, c\<lparr>current_path := [], current_waypoint_index := 0\<rparr>)
      else (P_Loop, s, c))"
  by (simp add: sections_next control_section_def)

lemma command_sections:
  assumes "command_part api tf e (s, c, pub) = (r, (s', c', pub'))"
  shows "sections_run api tf e 3 (P_Command, s, c) =
     (case r of
        Inl x \<Rightarrow> (P_Returned, terminate_current api \<lparr>error_code = catch_code x\<rparr> s', c')
      | Inr None \<Rightarrow> (P_Loop, s', c')
      | Inr (Some _) \<Rightarrow> (P_Returned, s', c'))"
proof -
  obtain q c1 where g: "getCurrentCommand tf (env_now e) (env_set_now e) (env_pose e) c = (q, c1)" by fastforce
  have "sections_run api tf e 2 (P_Catch x, s, c1) = (P_Returned, terminate_current api \<lparr>error_code = catch_code x\<rparr> s, c1)" for x
    by (simp add: sections_next control_section_def)
  then show ?thesis
    using assms g by (auto simp: sections_next [of 3] goal_sections command_part_def control_section_def [of _ _ _ "(P_Command, s, c)"] Let_def
        split: sum.splits if_splits)
qed

lemma command_sections_enough:
  assumes "command_part api tf e (s, c, pub) = (r, (s', c', pub'))" and "3 \<le> n"
  shows "sections_run api tf e n (P_Command, s, c) =
     (case r of
        Inl x \<Rightarrow> (P_Returned, terminate_current api \<lparr>error_code = catch_code x\<rparr> s', c')
      | Inr None \<Rightarrow> (P_Loop, s', c')
      | Inr (Some _) \<Rightarrow> (P_Returned, s', c'))"
  using sections_enough [of api tf e 3 "(P_Command, s, c)" n] assms(2) command_sections [OF assms(1)]
  by (auto split: sum.splits option.splits)

lemma before_command:
  "0 < n \<Longrightarrow> k \<noteq> P_Loop \<Longrightarrow> k \<noteq> P_Returned \<Longrightarrow> k \<noteq> P_Command \<Longrightarrow>
    sections_run api tf e n (k, x) = sections_run api tf e (n - 1) (control_section api tf e (k, x))"
  by (rule sections_next)

text \<open>Nothing between the sections: the same cycle.\<close>

lemma cycle_sections:
  assumes "control_cycle api tf e (s, c, pub) = (r, (s', c', pub'))" and "env_server e s = s"
  shows "sections_run api tf e 8 (P_Active, s, c) =
     (case r of
        Inl x \<Rightarrow> (P_Returned, terminate_current api \<lparr>error_code = catch_code x\<rparr> s', c')
      | Inr None \<Rightarrow> (P_Loop, s', c')
      | Inr (Some _) \<Rightarrow> (P_Returned, s', c'))"
  using assms
  by (auto simp: control_cycle_def before_command control_section_def Let_def command_sections_enough
      split: if_splits option.splits sum.splits prod.splits)

section \<open>The system\<close>

text \<open>The outcome of a goal: \<open>succeeded\<close> holds after \<open>succeed\<close> was called for it, and no other transition makes it true.\<close>

locale goal_outcomes = goal_handles api ok
  for api :: "('h, 'a, 'r, 'g) goal_api" and ok :: "'g \<Rightarrow> bool" +
  fixes succeeded :: "'g \<Rightarrow> 'h \<Rightarrow> bool"
  assumes succeed_outcome: "succeeded (gh_succeed api h r g) h' \<Longrightarrow> h' = h \<or> succeeded g h'"
    and abort_outcome: "gh_is_active api g h \<Longrightarrow> succeeded (gh_abort api h r g) h' \<Longrightarrow> succeeded g h'"
    and canceled_outcome:
      "gh_is_active api g h \<Longrightarrow> gh_is_canceling api g h \<Longrightarrow> succeeded (gh_canceled api h r g) h' \<Longrightarrow> succeeded g h'"

text \<open>What other threads than the worker do, at any time: the client callbacks, \<open>activate\<close>, and \<open>deactivate\<close> with its deadline.\<close>

inductive outside_step ::
  "('h, 'a, 'r, 'g) goal_api \<Rightarrow> ('g \<Rightarrow> bool) \<Rightarrow> ('g \<Rightarrow> 'h \<Rightarrow> bool) \<Rightarrow> ('h, 'g) threads \<Rightarrow> ('h, 'g) threads \<Rightarrow> bool"
  for api :: "('h, 'a, 'r, 'g) goal_api" and ok :: "'g \<Rightarrow> bool" and succeeded :: "'g \<Rightarrow> 'h \<Rightarrow> bool" where
  out_accepted:
    "goal_born api ok h (goal_store (srv t)) g \<Longrightarrow> (\<And>h'. succeeded g h' \<Longrightarrow> succeeded (goal_store (srv t)) h') \<Longrightarrow>
     handle_accepted api h (srv t\<lparr>goal_store := g\<rparr>) = (started, s) \<Longrightarrow>
     outside_step api ok succeeded t (t\<lparr>srv := s, pc := (if started then Loop_Head else pc t)\<rparr>)"
| out_cancel:
    "handle_cancel api h (srv t) = CANCEL_ACCEPT \<Longrightarrow> goal_cancel api ok h (goal_store (srv t)) g \<Longrightarrow>
     (\<And>h'. succeeded g h' \<Longrightarrow> succeeded (goal_store (srv t)) h') \<Longrightarrow>
     outside_step api ok succeeded t (t\<lparr>srv := srv t\<lparr>goal_store := g\<rparr>\<rparr>)"
| out_activate: "outside_step api ok succeeded t (t\<lparr>srv := activate (srv t)\<rparr>)"
| out_deactivate: "outside_step api ok succeeded t (t\<lparr>srv := deactivate_request (srv t)\<rparr>)"
| out_deadline:
    "is_running (srv t) \<Longrightarrow> stop_execution (srv t) \<Longrightarrow>
     outside_step api ok succeeded t (t\<lparr>srv := terminate_all api (gh_empty_result api) (srv t)\<rparr>)"

lemma outside_sas_step: "outside_step api ok succeeded t u \<Longrightarrow> sas_step api ok t u"
proof (induction rule: outside_step.induct)
  case (out_accepted h t g started s)
  from step_accepted [OF out_accepted(1,3)] show ?case .
qed (auto intro: sas_step.intros)

text \<open>\<open>fs_point\<close> is where the callback stands, while the worker is in it; \<open>fs_observed\<close> records the poses that \<open>isGoalReached\<close> has read.\<close>

record ('h, 'g) follow_system =
  fs_threads :: "('h, 'g) threads"
  fs_point :: control_point
  fs_ctl :: controller
  fs_observed :: "pose list"

abbreviation fs_server :: "('h, 'g) follow_system \<Rightarrow> ('h, 'g) server" where
  "fs_server x \<equiv> srv (fs_threads x)"

text \<open>The rules for the worker are those of \<open>sas_step\<close>, with the sections for the callback, which catches every exception. The server is
  configured with the parameters \<open>P\<close> and cleaned up only while no worker runs, since \<open>deactivate\<close> waits for it.\<close>

inductive follow_step ::
  "('h, path, follow_path_result, 'g) goal_api \<Rightarrow> ('g \<Rightarrow> bool) \<Rightarrow> ('g \<Rightarrow> 'h \<Rightarrow> bool) \<Rightarrow> tf_api \<Rightarrow> controller_params \<Rightarrow>
    ('h, 'g) follow_system \<Rightarrow> ('h, 'g) follow_system \<Rightarrow> bool"
  for api :: "('h, path, follow_path_result, 'g) goal_api" and ok :: "'g \<Rightarrow> bool" and succeeded :: "'g \<Rightarrow> 'h \<Rightarrow> bool"
    and tf :: tf_api and P :: controller_params where
  fs_outside: "outside_step api ok succeeded (fs_threads x) t \<Longrightarrow> follow_step api ok succeeded tf P x (x\<lparr>fs_threads := t\<rparr>)"
| fs_enter:
    "pc (fs_threads x) = Loop_Head \<Longrightarrow> work_guard api (fs_server x) \<Longrightarrow>
     follow_step api ok succeeded tf P x (x\<lparr>fs_threads := (fs_threads x)\<lparr>pc := In_Callback\<rparr>, fs_point := P_Start\<rparr>)"
| fs_exit:
    "pc (fs_threads x) = Loop_Head \<Longrightarrow>
     follow_step api ok succeeded tf P x (x\<lparr>fs_threads := (fs_threads x)\<lparr>pc := Leaving\<rparr>\<rparr>)"
| fs_section:
    "pc (fs_threads x) = In_Callback \<Longrightarrow> control_section api tf e (fs_point x, fs_server x, fs_ctl x) = (k, s, c) \<Longrightarrow>
     follow_step api ok succeeded tf P x
       (x\<lparr>fs_threads := (fs_threads x)\<lparr>srv := s\<rparr>, fs_point := k, fs_ctl := c,
          fs_observed := fs_observed x @ (if fs_point x = P_Goal then (case env_goal_pose e of None \<Rightarrow> [] | Some p \<Rightarrow> [p]) else [])\<rparr>)"
| fs_return:
    "pc (fs_threads x) = In_Callback \<Longrightarrow> fs_point x = P_Returned \<Longrightarrow> work_after api None (fs_server x) = (continue, s) \<Longrightarrow>
     follow_step api ok succeeded tf P x
       (x\<lparr>fs_threads := (fs_threads x)\<lparr>srv := s, pc := (if continue then Loop_Head else Leaving)\<rparr>\<rparr>)"
| fs_done:
    "pc (fs_threads x) = Leaving \<Longrightarrow>
     follow_step api ok succeeded tf P x
       (x\<lparr>fs_threads := (fs_threads x)\<lparr>srv := (fs_server x)\<lparr>execution_future := Some Ready\<rparr>, pc := No_Worker\<rparr>\<rparr>)"
| fs_speed: "follow_step api ok succeeded tf P x (x\<lparr>fs_ctl := speedLimitCallback m (fs_ctl x)\<rparr>)"
| fs_configure:
    "pc (fs_threads x) = No_Worker \<Longrightarrow>
     follow_step api ok succeeded tf P x (x\<lparr>fs_ctl := snd (ctl_on_configure P created (fs_ctl x))\<rparr>)"
| fs_cleanup:
    "pc (fs_threads x) = No_Worker \<Longrightarrow> follow_step api ok succeeded tf P x (x\<lparr>fs_ctl := ctl_on_cleanup (fs_ctl x)\<rparr>)"

definition follow_init :: "controller_params \<Rightarrow> 'g \<Rightarrow> ('h, 'g) follow_system" where
  "follow_init P g = \<lparr>fs_threads = threads_init g, fs_point = P_Returned, fs_ctl = ctl_initial P, fs_observed = []\<rparr>"

inductive follow_reachable ::
  "('h, path, follow_path_result, 'g) goal_api \<Rightarrow> ('g \<Rightarrow> bool) \<Rightarrow> ('g \<Rightarrow> 'h \<Rightarrow> bool) \<Rightarrow> tf_api \<Rightarrow> controller_params \<Rightarrow>
    ('h, 'g) follow_system \<Rightarrow> bool"
  for api :: "('h, path, follow_path_result, 'g) goal_api" and ok :: "'g \<Rightarrow> bool" and succeeded :: "'g \<Rightarrow> 'h \<Rightarrow> bool"
    and tf :: tf_api and P :: controller_params where
  follow_start: "ok g \<Longrightarrow> (\<And>h. \<not> succeeded g h) \<Longrightarrow> follow_reachable api ok succeeded tf P (follow_init P g)"
| follow_next:
    "follow_reachable api ok succeeded tf P x \<Longrightarrow> follow_step api ok succeeded tf P x y \<Longrightarrow> follow_reachable api ok succeeded tf P y"

section \<open>The system simulates the steps of the action server\<close>

text \<open>A section leaves the server alone or makes one call on it.\<close>

lemma section_call:
  assumes "control_section api tf e (k, s, c) = (k', s', c')"
  shows "s' = s \<or> callback_call api s s'"
  using assms
  by (cases k) (auto simp: control_section_def split: option.splits prod.splits sum.splits if_splits intro: callback_call.intros)

lemma follow_simulates:
  assumes "follow_step api ok succeeded tf P x y"
  shows "fs_threads y = fs_threads x \<or> sas_step api ok (fs_threads x) (fs_threads y)"
  using assms
proof cases
  case (fs_section e k s c)
  then show ?thesis using section_call [OF fs_section(3)] by (auto intro: step_call)
next
  case (fs_return continue s)
  from step_return [OF fs_return(2,4)] fs_return(1) show ?thesis by simp
qed (auto intro: sas_step.intros outside_sas_step)

lemma follow_reachable_sas: "follow_reachable api ok succeeded tf P x \<Longrightarrow> sas_reachable api ok (fs_threads x)"
proof (induction rule: follow_reachable.induct)
  case (follow_start g)
  then show ?case by (simp add: follow_init_def reach_init)
next
  case (follow_next x y)
  then show ?case using follow_simulates [OF follow_next(2)] by (auto intro: reach_step)
qed

section \<open>Success means arrival\<close>

definition seen_at_goal ::
  "('h, path, follow_path_result, 'g) goal_api \<Rightarrow> tf_api \<Rightarrow> controller_params \<Rightarrow> pose list \<Rightarrow> 'h \<Rightarrow> bool" where
  "seen_at_goal api tf P obs h \<longleftrightarrow> (\<exists>p \<in> set obs. arrived tf P p (gh_get_goal api h))"

text \<open>What holds of the current goal at a point of the callback, unless a deadline has taken it away: from the generation of the trajectory
  to the test the controller follows its path, and before \<open>succeeded_current\<close> the robot was seen at its end.\<close>

definition point_ok ::
  "('h, path, follow_path_result, 'g) goal_api \<Rightarrow> tf_api \<Rightarrow> pose list \<Rightarrow> control_point \<Rightarrow> ('h, 'g) server \<Rightarrow> controller \<Rightarrow> bool" where
  "point_ok api tf obs k s c \<longleftrightarrow> (\<forall>h. current_handle s = Some h \<longrightarrow>
     (case k of
        P_Generate goal \<Rightarrow> gh_get_goal api h = goal
      | P_Succeed \<Rightarrow> seen_at_goal api tf (params c) obs h
      | _ \<Rightarrow> (k \<in> {P_Loop, P_Active, P_Cancel, P_Preempt, P_Command, P_Goal} \<longrightarrow> follows api s c)))"

definition follow_inv ::
  "('h, path, follow_path_result, 'g) goal_api \<Rightarrow> ('g \<Rightarrow> bool) \<Rightarrow> ('g \<Rightarrow> 'h \<Rightarrow> bool) \<Rightarrow> tf_api \<Rightarrow> controller_params \<Rightarrow>
    ('h, 'g) follow_system \<Rightarrow> bool" where
  "follow_inv api ok succeeded tf P x \<longleftrightarrow>
     threads_inv api ok (fs_threads x) \<and> params (fs_ctl x) = P \<and>
     (pc (fs_threads x) = In_Callback \<longrightarrow> point_ok api tf (fs_observed x) (fs_point x) (fs_server x) (fs_ctl x)) \<and>
     (\<forall>h. succeeded (goal_store (fs_server x)) h \<longrightarrow> seen_at_goal api tf P (fs_observed x) h)"

text \<open>A step of another thread keeps the current goal or takes it away.\<close>

lemma point_ok_less:
  "point_ok api tf obs k s c \<Longrightarrow> current_handle s' = current_handle s \<or> current_handle s' = None \<Longrightarrow> point_ok api tf obs k s' c"
  by (cases k) (auto simp: point_ok_def follows_def)

lemma params_speed [simp]: "params (speedLimitCallback m c) = params c" "current_path (speedLimitCallback m c) = current_path c"
  by (simp_all add: speedLimitCallback_def)

lemma params_lifecycle [simp]: "params (snd (ctl_on_configure P b c)) = P" "params (ctl_on_cleanup c) = params c"
  by (simp_all add: ctl_on_configure_def ctl_on_cleanup_def Let_def)

lemma point_ok_speed: "point_ok api tf obs k s c \<Longrightarrow> point_ok api tf obs k s (speedLimitCallback m c)"
  by (cases k) (auto simp: point_ok_def follows_def)

context goal_outcomes
begin

lemma terminate_outcome:
  assumes "terminate api r slot g = (slot', g')"
  shows "succeeded g' h \<Longrightarrow> succeeded g h"
  using assms by (auto simp: terminate_def dest: abort_outcome canceled_outcome split: option.splits if_splits)

lemma operation_outcomes:
  "succeeded (goal_store (terminate_all api r s)) h \<Longrightarrow> succeeded (goal_store s) h"
  "succeeded (goal_store (terminate_current api r s)) h \<Longrightarrow> succeeded (goal_store s) h"
  "succeeded (goal_store (snd (accept_pending_goal api s))) h \<Longrightarrow> succeeded (goal_store s) h"
  "succeeded (goal_store (snd (handle_accepted api h0 s))) h \<Longrightarrow> succeeded (goal_store s) h"
  "succeeded (goal_store (succeeded_current api r s)) h \<Longrightarrow> succeeded (goal_store s) h \<or> current_handle s = Some h"
  by (auto simp: terminate_all_def terminate_current_def accept_pending_goal_def handle_accepted_def succeeded_current_def Let_def
      dest!: terminate_outcome dest: abort_outcome succeed_outcome split: prod.splits option.splits if_splits)

lemma outside_outcomes:
  assumes "outside_step api ok succeeded t u"
  shows "succeeded (goal_store (srv u)) h \<Longrightarrow> succeeded (goal_store (srv t)) h"
  using assms
proof cases
  case (out_accepted h0 g started s)
  then show "succeeded (goal_store (srv u)) h \<Longrightarrow> succeeded (goal_store (srv t)) h"
    using operation_outcomes(4) [of h0 "(srv t)\<lparr>goal_store := g\<rparr>" h] by simp
next
  case out_deadline
  then show "succeeded (goal_store (srv u)) h \<Longrightarrow> succeeded (goal_store (srv t)) h"
    using operation_outcomes(1) by simp
qed (simp_all add: activate_def deactivate_request_def)

lemma terminate_slot: "terminate api r slot g = (slot', g') \<Longrightarrow> slot' = slot \<or> slot' = None"
  by (auto simp: terminate_def split: option.splits if_splits)

lemma outside_keeps:
  assumes "outside_step api ok succeeded t u" and "is_running (srv t)"
  shows "(current_handle (srv u) = current_handle (srv t) \<or> current_handle (srv u) = None) \<and> pc u = pc t"
  using assms(1)
proof cases
  case (out_accepted h g started s)
  then show ?thesis
    using assms(2) by (auto simp: handle_accepted_def is_running_def Let_def split: prod.splits if_splits)
next
  case out_deadline
  then show ?thesis by (auto simp: terminate_all_def dest!: terminate_slot split: prod.splits)
qed (simp_all add: activate_def deactivate_request_def)

end

lemma outside_pc: "outside_step api ok succeeded t u \<Longrightarrow> pc u = In_Callback \<Longrightarrow> pc t = In_Callback"
  by (induction rule: outside_step.induct) (simp_all split: if_splits)

text \<open>A section that starts with the invariant of its point ends with that of the next point.\<close>

lemma current_goal_handle:
  "get_current_goal api s = Some goal \<Longrightarrow> \<exists>h. current_handle s = Some h \<and> gh_get_goal api h = goal"
  by (auto simp: get_current_goal_def split: if_splits)

lemma section_params: "control_section api tf e (k, s, c) = (k', s', c') \<Longrightarrow> params c' = params c"
  by (cases k) (auto simp: control_section_def dest: generate_params getCurrentCommand_keeps
      split: option.splits prod.splits sum.splits if_splits)

lemma generated_path:
  assumes "generateTimedTrajectory tf now cur goal c = (Inr (), c')" and "current_handle s = Some h" and "gh_get_goal api h = goal"
  shows "follows api s c'"
  using generateTimedTrajectory_poses [OF assms(1)] assms(2,3) by (auto simp: follows_def)

lemma goal_seen:
  assumes "isGoalReached tf (env_goal_pose e) c" and "follows api s c" and "current_handle s = Some h"
  shows "seen_at_goal api tf (params c) (obs @ (case env_goal_pose e of None \<Rightarrow> [] | Some p \<Rightarrow> [p])) h"
  using isGoalReached_arrived [OF assms(1,2)] assms(3) by (auto simp: seen_at_goal_def)

lemma section_point:
  assumes "control_section api tf e (k, s, c) = (k', s', c')" and "point_ok api tf obs k s c"
  shows "point_ok api tf (obs @ (if k = P_Goal then (case env_goal_pose e of None \<Rightarrow> [] | Some p \<Rightarrow> [p]) else [])) k' s' c'"
proof (cases k)
  case P_Start
  then show ?thesis using assms(1) by (auto simp: control_section_def point_ok_def dest: current_goal_handle split: option.splits)
next
  case (P_Generate goal)
  then show ?thesis
    using assms by (auto simp: control_section_def point_ok_def intro: generated_path split: prod.splits sum.splits)
next
  case P_Read
  then show ?thesis
    using assms by (auto simp: control_section_def point_ok_def dest!: current_goal_handle intro: generated_path
        split: prod.splits sum.splits option.splits)
next
  case P_Command
  then show ?thesis
    using assms by (auto simp: control_section_def point_ok_def follows_def dest: getCurrentCommand_keeps
        split: prod.splits sum.splits if_splits)
next
  case P_Goal
  then show ?thesis
    using assms goal_seen [of tf e c api s _ obs] by (auto simp: control_section_def point_ok_def split: if_splits)
qed (use assms in \<open>auto simp: control_section_def point_ok_def split: if_splits\<close>)

lemma seen_at_goal_mono: "seen_at_goal api tf P obs h \<Longrightarrow> seen_at_goal api tf P (obs @ later) h"
  by (auto simp: seen_at_goal_def)

locale follow_outcomes = goal_outcomes api ok succeeded
  for api :: "('h, path, follow_path_result, 'g) goal_api" and ok :: "'g \<Rightarrow> bool" and succeeded :: "'g \<Rightarrow> 'h \<Rightarrow> bool"
begin

lemma section_outcomes:
  assumes "control_section api tf e (k, s, c) = (k', s', c')" and "point_ok api tf obs k s c" and "succeeded (goal_store s') h"
  shows "succeeded (goal_store s) h \<or> seen_at_goal api tf (params c) obs h"
proof (cases k)
  case P_Succeed
  then have "s' = succeeded_current api (gh_empty_result api) s" using assms(1) by (simp add: control_section_def)
  with assms(3) operation_outcomes(5) have "succeeded (goal_store s) h \<or> current_handle s = Some h" by simp
  then show ?thesis using assms(2) P_Succeed by (auto simp: point_ok_def)
qed (use assms(1,3) in \<open>auto simp: control_section_def dest: operation_outcomes(1-3) split: prod.splits sum.splits option.splits if_splits\<close>)

lemma work_after_outcome:
  assumes "work_after api None s = (continue, s')"
  shows "succeeded (goal_store s') h \<Longrightarrow> succeeded (goal_store s) h"
  using assms by (auto simp: work_after_def Let_def dest!: operation_outcomes(1-3) split: if_splits)

lemma follow_step_inv:
  assumes "follow_step api ok succeeded tf P x y" and "follow_inv api ok succeeded tf P x"
  shows "follow_inv api ok succeeded tf P y"
proof -
  have i: "threads_inv api ok (fs_threads x)" "params (fs_ctl x) = P"
    "pc (fs_threads x) = In_Callback \<Longrightarrow> point_ok api tf (fs_observed x) (fs_point x) (fs_server x) (fs_ctl x)"
    "\<And>h. succeeded (goal_store (fs_server x)) h \<Longrightarrow> seen_at_goal api tf P (fs_observed x) h"
    using assms(2) by (auto simp: follow_inv_def)
  have t: "threads_inv api ok (fs_threads y)"
    using follow_simulates [OF assms(1)] i(1) step_inv by auto
  from assms(1) show ?thesis
  proof cases
    case (fs_outside t)
    have "is_running (fs_server x)" if "pc (fs_threads x) = In_Callback"
      using i(1) that by (simp add: threads_inv_def)
    then show ?thesis
      using t i fs_outside outside_keeps [OF fs_outside(2)] outside_outcomes [OF fs_outside(2)] outside_pc [OF fs_outside(2)]
      by (auto simp: follow_inv_def intro: point_ok_less)
  next
    case (fs_section e k s c)
    note p = section_point [OF fs_section(3) i(3) [OF fs_section(2)]]
    note o = section_outcomes [OF fs_section(3) i(3) [OF fs_section(2)]]
    show ?thesis
      using t i(2,4) fs_section(1) p o section_params [OF fs_section(3)] by (auto simp: follow_inv_def intro: seen_at_goal_mono)
  next
    case (fs_return continue s)
    then show ?thesis using t i work_after_outcome [OF fs_return(4)] by (auto simp: follow_inv_def)
  next
    case (fs_speed m)
    then show ?thesis using t i by (auto simp: follow_inv_def intro: point_ok_speed)
  next
    case fs_enter
    then show ?thesis using t i by (auto simp: follow_inv_def point_ok_def)
  qed (use t i in \<open>auto simp: follow_inv_def\<close>)
qed

lemma follow_reachable_inv: "follow_reachable api ok succeeded tf P x \<Longrightarrow> follow_inv api ok succeeded tf P x"
proof (induction rule: follow_reachable.induct)
  case (follow_start g)
  then show ?case
    using reachable_inv [OF reach_init] by (auto simp: follow_inv_def follow_init_def ctl_initial_def threads_init_def server_init_def)
qed (rule follow_step_inv)

end

text \<open>The goal states of ROS 2 have these outcomes.\<close>

interpretation ros_outcomes: follow_outcomes "ros_api goal_of no_result" ros_ok "\<lambda>g h. g h = Succeeded_Goal" for goal_of no_result
  by unfold_locales (auto simp: ros_api_def ros_move_def split: if_splits)

text \<open>C5: Whatever the threads of the controller server do and in which order, a goal of the \<open>follow_path\<close> action has succeeded only if
  \<open>isGoalReached\<close> has read a pose of the robot within the tolerances of the last pose of the path of that goal, also when goals are
  preempted, cancelled or cut off by a deactivation in the middle of a cycle.\<close>

theorem follow_path_never_succeeds_early:
  assumes "goal_outcomes api ok succeeded" and "follow_reachable api ok succeeded tf P x"
    and "succeeded (goal_store (fs_server x)) h"
  shows "\<exists>p \<in> set (fs_observed x). arrived tf P p (gh_get_goal api h)"
  using follow_outcomes.follow_reachable_inv [OF follow_outcomes.intro [OF assms(1)] assms(2)] assms(3)
  by (simp add: follow_inv_def seen_at_goal_def)

text \<open>A run: the server is configured and activated, takes the goal of \<open>demo_cycle\<close> and completes it.\<close>

abbreviation demo_reachable :: "(nat, nat \<Rightarrow> goal_status) follow_system \<Rightarrow> bool" where
  "demo_reachable \<equiv> follow_reachable (demo_api one_point_path) ros_ok (\<lambda>g h. g h = Succeeded_Goal) ref_tf default_params"

definition stands_at :: "(nat, nat \<Rightarrow> goal_status) control_state \<Rightarrow> bool" where
  "stands_at st \<longleftrightarrow> (\<exists>x. demo_reachable x \<and> pc (fs_threads x) = In_Callback \<and> (fs_point x, fs_server x, fs_ctl x) = st)"

lemma stands_at_next:
  assumes "stands_at st" and "control_section (demo_api one_point_path) ref_tf e st = st'"
  shows "stands_at st'"
proof -
  obtain x k s c where x: "demo_reachable x" "pc (fs_threads x) = In_Callback" "(fs_point x, fs_server x, fs_ctl x) = st" "st' = (k, s, c)"
    using assms(1) by (cases st') (auto simp: stands_at_def)
  with follow_next [OF x(1) fs_section [OF x(2), of _ _ e k s c]] assms(2) show ?thesis
    unfolding stands_at_def by fastforce
qed

lemma stands_at_run: "stands_at st \<Longrightarrow> stands_at (sections_run (demo_api one_point_path) ref_tf e n st)"
proof (induction n arbitrary: st)
  case (Suc n)
  then show ?case using stands_at_next [OF Suc.prems refl] by (simp add: sections_run.simps(2))
qed simp

lemma demo_started: "stands_at (P_Start, executing_server, ready_ctl)"
proof -
  let ?g = "\<lambda>_::nat. Unknown_Goal" and ?api = "demo_api one_point_path"
  let ?x0 = "follow_init default_params ?g" and ?s1 = "activate (server_init ?g) :: (nat, nat \<Rightarrow> goal_status) server"
  let ?x1 = "?x0\<lparr>fs_ctl := ready_ctl\<rparr>"
  let ?x2 = "?x1\<lparr>fs_threads := (fs_threads ?x1)\<lparr>srv := ?s1\<rparr>\<rparr>"
  let ?x3 = "?x2\<lparr>fs_threads := (fs_threads ?x2)\<lparr>srv := executing_server, pc := Loop_Head\<rparr>\<rparr>"
  have "demo_reachable ?x0" by (rule follow_start) (simp_all add: ros_ok_empty)
  then have "demo_reachable ?x1"
    by (rule follow_next) (use fs_configure [where x = ?x0 and P = default_params and created = True] in
        \<open>simp add: follow_init_def threads_init_def ready_ctl_def\<close>)
  then have "demo_reachable ?x2"
    by (rule follow_next) (use fs_outside [OF out_activate, where x = ?x1] in \<open>simp add: follow_init_def threads_init_def\<close>)
  then have "demo_reachable ?x3"
  proof (rule follow_next)
    have b: "goal_born ?api ros_ok 0 (goal_store (fs_server ?x2)) (?g(0 := Executing_Goal))"
      by (auto simp: follow_init_def threads_init_def goal_born_def ros_api_def ros_ok_def activate_def server_init_def)
    have n: "goal_store (fs_server ?x2) h = Succeeded_Goal" if "(?g(0 := Executing_Goal)) h = Succeeded_Goal" for h
      using that by (simp split: if_splits)
    have a: "handle_accepted ?api 0 ((fs_server ?x2)\<lparr>goal_store := ?g(0 := Executing_Goal)\<rparr>) = (True, executing_server)"
      by (simp add: follow_init_def threads_init_def handle_accepted_def activate_def server_init_def
          is_active_def is_running_def executing_server_def)
    from out_accepted [where succeeded = "\<lambda>g h. g h = Succeeded_Goal", OF b n a]
    have "outside_step ?api ros_ok (\<lambda>g h. g h = Succeeded_Goal) (fs_threads ?x2) (fs_threads ?x2\<lparr>srv := executing_server, pc := Loop_Head\<rparr>)"
      by (simp only: if_True)
    from fs_outside [OF this] show "follow_step ?api ros_ok (\<lambda>g h. g h = Succeeded_Goal) ref_tf default_params ?x2 ?x3" by simp
  qed
  moreover have "work_guard ?api executing_server"
    by (simp add: work_guard_def executing_server_def server_init_def is_active_def ros_api_def)
  ultimately have "demo_reachable (?x3\<lparr>fs_threads := (fs_threads ?x3)\<lparr>pc := In_Callback\<rparr>, fs_point := P_Start\<rparr>)"
    by (intro follow_next [OF _ fs_enter]) simp_all
  then show ?thesis unfolding stands_at_def by (intro exI conjI) (assumption, simp_all add: follow_init_def)
qed

theorem follow_path_never_succeeds_early_witness:
  "\<exists>x. demo_reachable x \<and> goal_store (fs_server x) 0 = Succeeded_Goal \<and>
     (\<exists>p \<in> set (fs_observed x). arrived ref_tf default_params p one_point_path)"
proof -
  let ?api = "demo_api one_point_path"
  obtain c1 c' pub' where g: "generateTimedTrajectory ref_tf 0 None one_point_path ready_ctl = (Inr (), c1)"
    and y: "control_cycle ?api ref_tf demo_cycle (executing_server, c1, []) =
       (Inr (Some Ended_Succeeded), (succeeded_current ?api \<lparr>error_code = 0\<rparr> executing_server, c', pub'))"
    using demo_controller by blast
  have "stands_at (P_Generate one_point_path, executing_server, ready_ctl)"
    by (rule stands_at_next [OF demo_started, of demo_cycle]) (simp add: control_section_def executing_server_goal)
  then have "stands_at (P_Loop, executing_server, c1)"
    by (rule stands_at_next [of _ demo_cycle]) (use g in \<open>simp add: control_section_def demo_cycle_def\<close>)
  then have "stands_at (P_Active, executing_server, c1)"
    by (rule stands_at_next [of _ demo_cycle]) (simp add: control_section_def demo_cycle_def)
  from stands_at_run [OF this, of demo_cycle 8]
  have "stands_at (P_Returned, succeeded_current ?api \<lparr>error_code = 0\<rparr> executing_server, c')"
    using cycle_sections [OF y] by (simp add: demo_cycle_def)
  then obtain x where x: "demo_reachable x" "fs_server x = succeeded_current ?api \<lparr>error_code = 0\<rparr> executing_server"
    by (auto simp: stands_at_def)
  then have "goal_store (fs_server x) 0 = Succeeded_Goal"
    by (simp add: succeeded_current_def executing_server_def server_init_def ros_api_def ros_move_def)
  with x(1) follow_path_never_succeeds_early [OF ros_outcomes.goal_outcomes_axioms x(1)] show ?thesis
    by (auto simp: ros_api_def)
qed

end
