(* ===== verification/Node_Setup.thy ===== *)
theory Node_Setup
  imports Checkers BT_Conditions Navigators Tree_Creation
begin

text \<open>
  How plugins and nodes are set up: \<open>initialize\<close> of the five goal and progress checkers with their parameters, \<open>configure\<close> and
  \<open>getDefaultBTFilepath\<close> of the two navigators, the timer of \<open>OffboardControl\<close>, and the messages of \<open>IsStuckCondition\<close>. A parameter
  of the wrong type makes the reader throw: \<open>None\<close>. Theorems: a checker initialises exactly if the overrides have the types of the
  defaults, and the members then agree with each other.
\<close>

section \<open>Goal and progress checkers\<close>

definition SimpleGoalChecker_parameters :: "string \<Rightarrow> declarations" where
  "SimpleGoalChecker_parameters plugin =
     [(plugin @ ''.xyz_goal_tolerance'', Prm_Double (25 / 100)), (plugin @ ''.yaw_goal_tolerance'', Prm_Double (25 / 100)),
      (plugin @ ''.stateful'', Prm_Bool True)]"

definition sgc_read ::
  "(string \<Rightarrow> param_value option) \<Rightarrow> string \<Rightarrow> 'z simple_goal_checker_scheme \<Rightarrow> 'z simple_goal_checker_scheme option" where
  "sgc_read get plugin c =
     Option.bind (as_double (get (plugin @ ''.xyz_goal_tolerance''))) (\<lambda>xyz.
     Option.bind (as_double (get (plugin @ ''.yaw_goal_tolerance''))) (\<lambda>yaw.
     Option.bind (as_bool (get (plugin @ ''.stateful''))) (\<lambda>st. Some (sgc_initialize plugin xyz yaw st c))))"

definition StoppedGoalChecker_parameters :: "string \<Rightarrow> declarations" where
  "StoppedGoalChecker_parameters plugin =
     SimpleGoalChecker_parameters plugin @
     [(plugin @ ''.rot_stopped_velocity'', Prm_Double (25 / 100)), (plugin @ ''.trans_stopped_velocity'', Prm_Double (25 / 100))]"

text \<open>A derived class initialises its base first.\<close>

definition stopped_initialize ::
  "(string \<Rightarrow> param_value option) \<Rightarrow> string \<Rightarrow> stopped_goal_checker \<Rightarrow> stopped_goal_checker option" where
  "stopped_initialize get plugin c =
     Option.bind (sgc_read get plugin c) (\<lambda>c1.
     Option.bind (as_double (get (plugin @ ''.rot_stopped_velocity''))) (\<lambda>rot.
     Option.bind (as_double (get (plugin @ ''.trans_stopped_velocity''))) (\<lambda>trans.
       Some (c1\<lparr>rot_stopped_velocity := rot, trans_stopped_velocity := trans\<rparr>))))"

definition PositionGoalChecker_parameters :: "string \<Rightarrow> declarations" where
  "PositionGoalChecker_parameters plugin =
     [(plugin @ ''.xy_goal_tolerance'', Prm_Double (25 / 100)), (plugin @ ''.stateful'', Prm_Bool True)]"

definition pgc_read ::
  "(string \<Rightarrow> param_value option) \<Rightarrow> string \<Rightarrow> position_goal_checker \<Rightarrow> position_goal_checker option" where
  "pgc_read get plugin c =
     Option.bind (as_double (get (plugin @ ''.xy_goal_tolerance''))) (\<lambda>xy.
     Option.bind (as_bool (get (plugin @ ''.stateful''))) (\<lambda>st. Some (pgc_initialize plugin xy st c)))"

text \<open>\<open>get_parameter_or\<close>: the alternative for a parameter that is not set.\<close>

definition double_or :: "param_value option \<Rightarrow> double \<Rightarrow> double option" where
  "double_or v alternative = (case v of None \<Rightarrow> Some alternative | Some _ \<Rightarrow> as_double v)"

definition SimpleProgressChecker_parameters :: "string \<Rightarrow> declarations" where
  "SimpleProgressChecker_parameters plugin =
     [(plugin @ ''.required_movement_radius'', Prm_Double (5 / 10)), (plugin @ ''.movement_time_allowance'', Prm_Double 10)]"

definition spc_read ::
  "tf_api \<Rightarrow> (string \<Rightarrow> param_value option) \<Rightarrow> string \<Rightarrow> 'z simple_progress_checker_scheme \<Rightarrow>
    'z simple_progress_checker_scheme option" where
  "spc_read tf get plugin c =
     Option.bind (double_or (get (plugin @ ''.required_movement_radius'')) (5 / 10)) (\<lambda>radius.
     Option.bind (double_or (get (plugin @ ''.movement_time_allowance'')) 10) (\<lambda>allowance.
       Some (spc_initialize tf plugin radius allowance c)))"

definition PoseProgressChecker_parameters :: "string \<Rightarrow> declarations" where
  "PoseProgressChecker_parameters plugin =
     SimpleProgressChecker_parameters plugin @ [(plugin @ ''.required_movement_angle'', Prm_Double (5 / 10))]"

definition ppc_initialize ::
  "tf_api \<Rightarrow> (string \<Rightarrow> param_value option) \<Rightarrow> string \<Rightarrow> pose_progress_checker \<Rightarrow> pose_progress_checker option" where
  "ppc_initialize tf get plugin c =
     Option.bind (spc_read tf get plugin c) (\<lambda>c1.
     Option.bind (double_or (get (plugin @ ''.required_movement_angle'')) (5 / 10)) (\<lambda>angle.
       Some (c1\<lparr>required_movement_angle := angle\<rparr>)))"

section \<open>Navigators\<close>

text \<open>\<open>configure\<close>: the members it reads, and the settings of Groot for the server. The client, the subscription of the goal, the smoother
  and the start time are left out here: no callback before the first goal reads them.\<close>

definition ntp_configure ::
  "(string \<Rightarrow> param_value option) \<Rightarrow> nav_config \<Rightarrow> ('h, 'g) bts_node \<Rightarrow> (nav_config \<times> ('h, 'g) bts_node) option" where
  "ntp_configure get nc n =
     Option.bind (as_string (get ''goal_blackboard_id'')) (\<lambda>goal.
     Option.bind (as_string (get ''path_blackboard_id'')) (\<lambda>path.
     Option.bind (as_bool (get (nav_name nc @ ''.enable_groot_monitoring''))) (\<lambda>groot.
     Option.bind (as_int (get (nav_name nc @ ''.groot_server_port''))) (\<lambda>port.
       Some (nc\<lparr>goal_blackboard_id := goal, path_blackboard_id := path\<rparr>, setGrootMonitoring groot port n)))))"

definition nttp_configure ::
  "(string \<Rightarrow> param_value option) \<Rightarrow> nav_config \<Rightarrow> ('h, 'g) bts_node \<Rightarrow> (nav_config \<times> ('h, 'g) bts_node) option" where
  "nttp_configure get nc n =
     Option.bind (as_string (get ''goals_blackboard_id'')) (\<lambda>goals.
     Option.bind (as_string (get ''path_blackboard_id'')) (\<lambda>path.
     Option.bind (as_string (get ''waypoint_statuses_blackboard_id'')) (\<lambda>statuses.
     Option.bind (as_bool (get (nav_name nc @ ''.enable_groot_monitoring''))) (\<lambda>groot.
     Option.bind (as_int (get (nav_name nc @ ''.groot_server_port''))) (\<lambda>port.
       Some (nc\<lparr>goals_blackboard_id := goals, path_blackboard_id := path, waypoint_statuses_blackboard_id := statuses\<rparr>,
         setGrootMonitoring groot port n))))))"

text \<open>\<open>share\<close> is the directory of the package, \<open>None\<close> when the package is not found, which throws; it is asked for only if the parameter is not
  declared yet.\<close>

definition default_bt_filepath ::
  "(param_value, 'w) param_api \<Rightarrow> string option \<Rightarrow> string \<Rightarrow> string \<Rightarrow> 'w \<Rightarrow> (configure_error + string) \<times> 'w" where
  "default_bt_filepath api share prm file w =
     (let read = (\<lambda>w1. case as_string (prm_get api w1 prm) of None \<Rightarrow> (Inl Wrong_Type, w1) | Some f \<Rightarrow> (Inr f, w1)) in
      if prm_has api w prm then read w
      else case share of
             None \<Rightarrow> (Inl (Bad_Parameter Plugin_Error), w)
           | Some dir \<Rightarrow>
               (case prm_declare api prm (Some (Prm_String (dir @ ''/behavior_trees/'' @ file))) w of
                  (Inl e, w1) \<Rightarrow> (Inl (Bad_Parameter e), w1)
                | (Inr _, w1) \<Rightarrow> read w1))"

definition ntp_getDefaultBTFilepath ::
  "(param_value, 'w) param_api \<Rightarrow> string option \<Rightarrow> 'w \<Rightarrow> (configure_error + string) \<times> 'w" where
  "ntp_getDefaultBTFilepath api share =
     default_bt_filepath api share ''default_nav_to_pose_bt_xml''
       ''navigate_w_replanning_if_path_becomes_invalid_or_goal_is_updated.xml''"

definition nttp_getDefaultBTFilepath ::
  "(param_value, 'w) param_api \<Rightarrow> string option \<Rightarrow> 'w \<Rightarrow> (configure_error + string) \<times> 'w" where
  "nttp_getDefaultBTFilepath api share =
     default_bt_filepath api share ''default_nav_through_poses_bt_xml'' ''navigate_through_poses_w_replanning_and_recovery.xml''"

section \<open>Timers and messages\<close>

text \<open>The period of the timer of \<open>OffboardControl\<close> in nanoseconds.\<close>

definition control_period :: "double \<Rightarrow> duration_ns" where
  "control_period rate = \<lfloor>1 / max (1 / 1000) rate * 1000000000\<rfloor>"

text \<open>\<open>logStuck\<close> has one last message for all nodes; the state is that message and what was logged.\<close>

definition logStuck :: "string \<Rightarrow> string \<times> string list \<Rightarrow> string \<times> string list" where
  "logStuck msg = (\<lambda>(prev_msg, out). if msg = prev_msg then (prev_msg, out) else (msg, out @ [msg]))"

definition stuck_tick_message :: "is_stuck \<Rightarrow> string" where
  "stuck_tick_message c = (if st_is_stuck c then ''Robot got stuck!'' else ''Robot is free'')"

section \<open>Theorems\<close>

lemmas checker_parameter_defs =
  SimpleGoalChecker_parameters_def StoppedGoalChecker_parameters_def PositionGoalChecker_parameters_def
  SimpleProgressChecker_parameters_def PoseProgressChecker_parameters_def

lemma same_type_bool [simp]: "same_type v (Prm_Bool b) \<longleftrightarrow> (\<exists>x. v = Prm_Bool x)"
  by (cases v; simp)

lemma override_typed_bool:
  "override_typed over (n, Prm_Bool b) \<longleftrightarrow> (case over n of None \<Rightarrow> True | Some v \<Rightarrow> \<exists>x. v = Prm_Bool x)"
  by (simp add: override_typed_def split: option.split)

lemma declared_bool:
  assumes "case map_of ps n of Some (Prm_Bool _) \<Rightarrow> True | _ \<Rightarrow> False"
  shows "as_bool (declared_value ps over n) = None \<longleftrightarrow> \<not> (case over n of None \<Rightarrow> True | Some v \<Rightarrow> \<exists>x. v = Prm_Bool x)"
  using assms by (auto simp: as_bool_def declared_value_def split: option.splits param_value.splits)

lemma declared_double_or:
  assumes "case map_of ps n of Some (Prm_Double _) \<Rightarrow> True | _ \<Rightarrow> False"
  shows "double_or (declared_value ps over n) a = None \<longleftrightarrow> \<not> (case over n of None \<Rightarrow> True | Some v \<Rightarrow> \<exists>x. v = Prm_Double x)"
  using declared_double [OF assms, of over] assms by (auto simp: double_or_def declared_value_def split: option.splits)

lemma stopped_reads: "stopped_initialize get plugin c \<noteq> None \<longleftrightarrow>
    as_double (get (plugin @ ''.xyz_goal_tolerance'')) \<noteq> None \<and> as_double (get (plugin @ ''.yaw_goal_tolerance'')) \<noteq> None \<and>
    as_bool (get (plugin @ ''.stateful'')) \<noteq> None \<and> as_double (get (plugin @ ''.rot_stopped_velocity'')) \<noteq> None \<and>
    as_double (get (plugin @ ''.trans_stopped_velocity'')) \<noteq> None"
  by (auto simp: stopped_initialize_def sgc_read_def split: Option.bind_splits)

text \<open>A stopped goal checker initialises exactly if the overrides have the types of the defaults.\<close>

lemma stopped_initialize_iff:
  "stopped_initialize (declared_value (StoppedGoalChecker_parameters plugin) over) plugin c \<noteq> None \<longleftrightarrow>
    list_all (override_typed over) (StoppedGoalChecker_parameters plugin)"
  unfolding stopped_reads
  by (simp add: declared_double declared_bool checker_parameter_defs override_typed_iff override_typed_bool conj_ac)

lemma ppc_reads: "ppc_initialize tf get plugin c \<noteq> None \<longleftrightarrow>
    double_or (get (plugin @ ''.required_movement_radius'')) (5 / 10) \<noteq> None \<and>
    double_or (get (plugin @ ''.movement_time_allowance'')) 10 \<noteq> None \<and> double_or (get (plugin @ ''.required_movement_angle'')) (5 / 10) \<noteq> None"
  by (auto simp: ppc_initialize_def spc_read_def split: Option.bind_splits)

lemma ppc_initialize_iff:
  "ppc_initialize tf (declared_value (PoseProgressChecker_parameters plugin) over) plugin c \<noteq> None \<longleftrightarrow>
    list_all (override_typed over) (PoseProgressChecker_parameters plugin)"
  unfolding ppc_reads
  by (simp add: declared_double_or checker_parameter_defs override_typed_iff conj_ac)

text \<open>What an initialised checker keeps: the square of its tolerance, which the checks compare with.\<close>

lemma initialized_tolerances:
  "sgc_read get plugin c = Some c1 \<Longrightarrow> gc_xyz_goal_tolerance_sq c1 = gc_xyz_goal_tolerance c1 * gc_xyz_goal_tolerance c1 \<and> gc_plugin_name c1 = plugin"
  "pgc_read get plugin p = Some p1 \<Longrightarrow> pc_xy_goal_tolerance_sq p1 = pc_xy_goal_tolerance p1 * pc_xy_goal_tolerance p1 \<and> pc_plugin_name p1 = plugin"
  by (auto simp: sgc_read_def pgc_read_def sgc_initialize_def pgc_initialize_def split: Option.bind_splits)

text \<open>The navigators read what they declare: with the defaults of the package, the entries \<open>goal\<close>, \<open>goals\<close> and \<open>path\<close>.\<close>

lemma ntp_configure_defaults:
  "ntp_configure (declared_value (NavigateToPose_parameters (nav_name nc)) Map.empty) nc n =
     Some (nc\<lparr>goal_blackboard_id := ''goal'', path_blackboard_id := ''path''\<rparr>, setGrootMonitoring False 1667 n)"
  by (simp add: ntp_configure_def NavigateToPose_parameters_def declared_value_def param_reads)

lemma nttp_configure_defaults:
  "nttp_configure (declared_value (NavigateThroughPoses_parameters (nav_name nc)) Map.empty) nc n =
     Some (nc\<lparr>goals_blackboard_id := ''goals'', path_blackboard_id := ''path'', waypoint_statuses_blackboard_id := ''waypoint_statuses''\<rparr>,
       setGrootMonitoring False 1669 n)"
  by (simp add: nttp_configure_def NavigateThroughPoses_parameters_def declared_value_def param_reads)

lemma default_file_of_package:
  "fst (ntp_getDefaultBTFilepath (typed_table Map.empty) (Some dir) Map.empty) =
     Inr (dir @ ''/behavior_trees/navigate_w_replanning_if_path_becomes_invalid_or_goal_is_updated.xml'')"
  "prm_has (typed_table over) w ''default_nav_to_pose_bt_xml'' \<Longrightarrow>
     ntp_getDefaultBTFilepath (typed_table over) share w = ntp_getDefaultBTFilepath (typed_table over) None w"
  by (simp_all add: ntp_getDefaultBTFilepath_def default_bt_filepath_def typed_table_def param_reads Let_def)

text \<open>The period is at most 1000 seconds, and at least a nanosecond for every rate of up to 1 GHz.\<close>

lemma control_period_bounds:
  shows "control_period rate \<le> 1000000000000" and "rate \<le> 1000000000 \<Longrightarrow> 1 \<le> control_period rate"
proof -
  have m: "1 / 1000 \<le> max (1 / 1000) rate" and pos: "0 < max (1 / 1000) rate" by simp_all
  have "1 / max (1 / 1000) rate \<le> 1000"
    using m pos by (simp add: divide_le_eq)
  then show "control_period rate \<le> 1000000000000"
    unfolding control_period_def by (simp add: floor_le_iff)
  assume "rate \<le> 1000000000"
  then have "max (1 / 1000) rate \<le> 1000000000" by simp
  with pos show "1 \<le> control_period rate"
    unfolding control_period_def by (simp add: le_floor_iff le_divide_eq)
qed

text \<open>A message is logged when it changes, and only then.\<close>

lemma logStuck_changes:
  assumes "out = [] \<or> last out = prev" and "distinct_adj out"
  shows "distinct_adj (snd (fold logStuck msgs (prev, out)))"
  using assms
proof (induction msgs arbitrary: prev out)
  case (Cons m msgs)
  show ?case
  proof (cases "m = prev")
    case True
    with Cons show ?thesis by (simp add: logStuck_def)
  next
    case False
    with Cons.prems have "distinct_adj (out @ [m])" by (auto simp: distinct_adj_append_iff)
    with Cons.IH [of "out @ [m]" m] False show ?thesis by (simp add: logStuck_def)
  qed
qed simp

end
