(* ===== verification/Spec2Isabelle.thy ===== *)
theory Spec2Isabelle
  imports Nav3d_Msgs Action_Server_Threads Lifecycle_Manager_Props Controller_Loop Planner_Server_Props
    Offboard_Control_Props Checkers BT_Control_Props BT_Decorators_Props BT_Navigator
    BT_Conditions_Props BT_Actions_Props Nav3d_Parsing_Props Line_Iterator
    Service_Client_Props Lifecycle_Node Node_Utils Vio_Odometry
    Message_Validation Port_Text_Props BT_Subscriptions
    Tree_Ports Navigation_Stack Node_Parameters Server_Lifecycle
    Json_Convert Transforms MoveIt_Settings Ros_Interfaces Tree_Creation Follow_Path_System Node_Setup
begin

text \<open>
  Verification library of Nav3D, a navigation stack for multirotors on ROS 2 (C++).

  \<^bold>\<open>The program.\<close> A lifecycle manager (\<open>nav3d_lifecycle_manager\<close>) brings the servers up, in order, and watches
  their bonds. A behaviour tree (\<open>nav3d_behavior_tree\<close>, run by \<open>nav3d_bt_navigator\<close>) calls the planner server
  (\<open>nav3d_planner\<close>, with the plugin \<open>nav3d_planner_plugin_moveit\<close>) and the controller server
  (\<open>nav3d_controller\<close>). Both servers answer their goals through \<open>SimpleActionServer\<close> (\<open>nav3d_util\<close>), which runs one
  goal at a time in a worker thread and keeps at most one pending goal. The controller turns a path into a timed
  trajectory and publishes filtered setpoints, which the offboard bridge (\<open>nav3d_px4_bridge\<close>) converts to
  the frames of the PX4 autopilot and streams to it, with the arming and mode commands.

  \<^bold>\<open>The theories.\<close>
  \<^item> \<open>Nav3d_Prelude\<close>, \<open>Nav3d_Msgs\<close>: number types, functions of the standard library, the ROS messages as
    records, points as vectors, and the record \<open>tf_api\<close> of the functions of tf2, angles and rclcpp with their laws
    (locale \<open>tf_laws\<close>, interpreted on \<open>ref_tf\<close>).
  \<^item> \<open>Nav3d_Util\<close>: \<open>geometry_utils.hpp\<close>, \<open>robot_utils.cpp\<close> (pose look-up) and \<open>OdomSmoother\<close>
    (\<open>odometry_utils.*\<close>); path lengths and searches, and that the smoother is the mean over a sliding window.
  \<^item> \<open>Action_Server\<close>: \<open>simple_action_server.hpp\<close>. The record \<open>server\<close> has the members the code has; there is
    one definition per method. Goal handles of rclcpp_action are the record \<open>goal_api\<close> with the locale
    \<open>goal_handles\<close>. \<open>Action_Server_Threads\<close>: the threads as the step relation \<open>sas_step\<close> (the executor's
    callbacks, the worker between its critical sections, deactivation), the invariant of all reachable
    states, that the worker never drops a pending goal, and two ways in which a goal is lost.
  \<^item> \<open>Lifecycle_Manager\<close>: \<open>lifecycle_manager.cpp\<close> and \<open>lifecycle_service_client.cpp\<close>; the record \<open>manager\<close> over the
    parameter \<open>node_services\<close> (the remote nodes, bonds and clock). \<open>Lifecycle_Manager_Laws\<close>: the locale
    \<open>managed_nodes\<close> of truthful nodes, order and effect of a transition of all nodes, the step relation of the
    manager's events and its invariant. \<open>Lifecycle_Manager_Props\<close>: bring-up, watchdog, order, round trip, and
    two failures.
  \<^item> \<open>Controller_Server\<close>: the trajectory generation, the reference filter, the goal test and the lifecycle callbacks of
    \<open>controller_server.cpp\<close>. \<open>Controller_Server_Props\<close>: limits on every published setpoint and on the time
    parametrisation. \<open>Controller_Loop\<close>: \<open>computeControl\<close> on top of the action server.
  \<^item> \<open>MoveIt_Planner\<close>: the plugin and its MoveGroup wrapper; \<open>Planner_Server\<close>: \<open>planner_server.cpp\<close>, with the plugin
    interface \<open>global_planner\<close> as a locale, interpreted on the MoveIt plugin; their \<open>_Props\<close> theories: the
    server refines the specification \<open>plan_spec\<close>, plans are in the global frame and are what MoveIt returned, and what path
    validation checks.
  \<^item> \<open>Checkers\<close>: the goal and progress checker plugins; the locales \<open>goal_checker\<close> and \<open>progress_checker\<close> are
    the contracts of \<open>nav3d_core\<close>, interpreted on all five plugins.
  \<^item> \<open>Offboard_Control\<close>, \<open>Offboard_Control_Props\<close>: \<open>offboard_control.cpp\<close>; the runs of the bridge over arbitrary
    event sequences, warm-up, rate of commands, frame conversions, the offset filter and the take-off.
  \<^item> \<open>BT_Control\<close>, \<open>BT_Control_Props\<close>: the control nodes (\<open>plugins/control\<close>), for arbitrary children; which children
    a tick executes, and the status it returns. \<open>BT_Decorators\<close>, \<open>BT_Decorators_Props\<close>: the decorators
    (\<open>plugins/decorator\<close>), for arbitrary children, clocks and ports.
  \<^item> \<open>BT_Server\<close>, \<open>BT_Server_Props\<close>: \<open>BtActionServer\<close>, \<open>BehaviorTreeEngine::run\<close> and \<open>LoopRate\<close>; the blackboard is the
    record \<open>blackboard_api\<close> with the locale \<open>blackboard_laws\<close>. Which error code a result carries, and that
    the engine returns. \<open>Navigators\<close>, \<open>Navigators_Props\<close>: the muxer and the two navigators as callbacks of that server
    (locale \<open>navigator_callbacks\<close>, interpreted on both); every goal is settled, the failure of a preemption, the waypoints,
    and exclusion by the muxer.
    \<open>BT_Navigator\<close>: the lifecycle callbacks of \<open>bt_navigator.cpp\<close> over the list of navigators; activation leaves all or
    none of them active, and a navigator that cannot be configured crashes the node in its clean-up.
  \<^item> \<open>BT_Clients\<close>, \<open>BT_Clients_Props\<close>: the client nodes \<open>bt_action_node.hpp\<close>, \<open>bt_service_node.hpp\<close> and
    \<open>bt_cancel_action_node.hpp\<close>. Hooks that derived classes override are the record \<open>action_hooks\<close>; the answers of the action
    server are an argument. No run dereferences a null handle, what a tick returns, the timeouts, and a lost cancellation.
    \<open>BT_Actions\<close>, \<open>BT_Actions_Props\<close>: the hooks of the action plugins (\<open>plugins/action\<close>) over the record \<open>ports\<close> (locale
    \<open>port_laws\<close>), run by that tick. \<open>Path_Actions\<close>, \<open>Path_Actions_Props\<close>: the plugins that compute on paths and goals.
    \<open>BT_Conditions\<close>, \<open>BT_Conditions_Props\<close>: the condition plugins (\<open>plugins/condition\<close>).
  \<^item> \<open>Nav3d_Parsing\<close>, \<open>Nav3d_Parsing_Props\<close>: \<open>string_utils.cpp\<close> and \<open>array_parser.cpp\<close>, with round trips.
    \<open>Line_Iterator\<close>: \<open>line_iterator.hpp\<close> draws a digital straight line.
  \<^item> \<open>Service_Client\<close>, \<open>Service_Client_Props\<close>: \<open>service_client.hpp\<close>, \<open>lifecycle_service_client.cpp\<close>,
    \<open>lifecycle_utils.cpp\<close> and \<open>lifecycle_manager_client.cpp\<close>, over the record \<open>rpc\<close> of the clients of rclcpp. Waits may not
    return: when they do, how often a call is retried, what the start-up helpers ignore, and the client of the manager run
    against the model of the manager. \<open>Lifecycle_Node\<close>: \<open>lifecycle_node.cpp\<close>, the invariant of the bond and the
    clean-up (locale \<open>lifecycle_machine\<close>). \<open>Node_Utils\<close>: \<open>node_utils.*\<close>, names and parameters (locale \<open>param_laws\<close>).
  \<^item> \<open>Vio_Odometry\<close>: \<open>vio_odometry_bridge.cpp\<close> over the functions of Eigen (locale \<open>eigen_laws\<close>); which attitude is published.
  \<^item> \<open>Message_Validation\<close>: \<open>validate_messages.hpp\<close>, where a double may be infinite or NaN. \<open>Port_Text\<close>,
    \<open>Port_Text_Props\<close>: the text conversions of \<open>bt_utils.hpp\<close>, their errors and round trips. \<open>BT_Subscriptions\<close>: the nodes
    of \<open>plugins\<close> that subscribe or publish.
  \<^item> \<open>Tree_Nodes\<close>: the ports and registrations of all behaviour tree nodes and the loading of the libraries. \<open>Tree_Ports\<close>:
    the action plugins use the ports they declare, and what the declared defaults mean. \<open>Shipped_Trees\<close>: the trees of
    \<open>nav3d_bt_navigator/behavior_trees\<close> and the checks they pass with those nodes. \<open>Navigation_Tree\<close>: the common shape of
    these trees, run with the models of \<open>PipelineSequence\<close> and \<open>FollowPath\<close>. \<open>Navigation_Stack\<close>: \<open>NavigateToPose\<close>, its server
    and its engine on top of that tree (locale \<open>tree_callbacks\<close>, interpreted on both navigators): on what a success of the
    navigation rests, over any sequence of goals. \<open>Tree_Creation\<close>: the configuration and clean-up of
    \<open>bt_action_server_impl.hpp\<close> and the constructors of the client nodes, which read the blackboard it prepares; which servers
    the trees of the package wait for.
  \<^item> \<open>Node_Parameters\<close>: the parameters the nodes declare and read and \<open>copy_all_parameter_values.hpp\<close> (locale
    \<open>typed_parameters\<close>); when the controller server configures, and the configuration of the package. \<open>Server_Lifecycle\<close>: the lifecycle
    callbacks of the two servers and the gap between the activation of the server and of its plugins.
  \<^item> \<open>Follow_Path_System\<close>: the controller server as a system of threads. The callback \<open>computeControl\<close> is cut into sections
    (\<open>control_section\<close>; \<open>cycle_sections\<close> ties them to \<open>Controller_Loop\<close>) that the steps of the other threads come between; the
    system simulates \<open>sas_step\<close>, and no goal of it succeeds before the robot was seen at its end (locale \<open>goal_outcomes\<close>,
    interpreted on the goal states of ROS 2).
  \<^item> \<open>Json_Convert\<close>: \<open>json_utils.hpp\<close>, the JSON objects of the messages, what is read from other objects, and the round trip.
    \<open>Transforms\<close>: the overloads of \<open>getTransform\<close> (\<open>robot_utils.cpp\<close>, locale \<open>tf_buffer\<close>) and the distance of \<open>Pose2D\<close>.
    \<open>MoveIt_Settings\<close>: the constructor, the executor and the settings of \<open>movegroup_interface.cpp\<close>, and the end of
    \<open>configure\<close>; which settings reach MoveIt. \<open>Ros_Interfaces\<close>: \<open>twist_publisher.hpp\<close>, \<open>twist_subscriber.hpp\<close>,
    \<open>ros_topic_logger.hpp\<close>, \<open>add_parameter\<close> of \<open>lifecycle_node.hpp\<close>, and the parameters, labels and diagnostics of the
    lifecycle manager; publishers and subscribers agree on the type, and the log has every change once and in order.
    \<open>Node_Setup\<close>: \<open>initialize\<close> of the checkers, \<open>configure\<close> and the default trees of the navigators, and the timer of the bridge.
  \<^bold>\<open>How code is modelled.\<close> A class is a record of its data members, a method a function that returns the updated record; an
  exception or a null dereference is \<open>Inl\<close> of an error type. What another thread, a remote node or a
  third-party library does is a parameter: a record of functions over a world \<open>'w\<close>, or an environment argument that gives what
  each call returns. What the code relies on is a locale of documented laws over that record; every locale is
  interpreted, on the model's definitions or on a simulated environment that also serves the witnesses. A critical
  section under a mutex is one step. Loops are structural or well-founded recursion, so
  every operation returns; the loops that wait for the environment (the control loop, the wait for the worker) recurse
  over the list of the environment's cycles, and a theorem about them holds for every such list.

  \<^bold>\<open>Idealisations.\<close> A \<open>double\<close> is a real number: no rounding, NaN or infinity, except where a definition says so
  (\<open>isfinite\<close> of the planner plugin is a parameter). Times and durations are integers in nanoseconds and do not overflow. Texts of
  log and error messages are left out; error codes are kept. Counters of retries and children are natural
  numbers; the code compares them before each increment, so they stay far below the 32 bits it gives them.

  \<^bold>\<open>Not modelled.\<close> Code that only calls rclcpp, BehaviorTree.CPP or the system: the creation of publishers, subscriptions, services,
  timers and threads in constructors and lifecycle callbacks (what they keep, and the parameters they read, are modelled),
  \<open>node_thread\<close>, \<open>service_server.hpp\<close>, \<open>execution_timer.hpp\<close>, the accessors of \<open>bt_action_server.hpp\<close>, the Groot monitor and
  the factory calls of \<open>behavior_tree_engine.cpp\<close>, the entry points, and the generator of the list of tree nodes. Interfaces and
  exceptions of \<open>nav3d_core\<close> that no class uses, and the test server, which nothing uses. Logging. Launch files and
  configuration, but for the parameters of the controller and the trees of the package; message definitions are records.
  Constructors of behaviour tree nodes are modelled where they wait for a server or keep state that a tick uses; the others only
  read ports.
\<close>

end
